(* ===== verification/Prelude.thy ===== *)
theory Prelude
  imports Main "HOL-Library.AList" "HOL-Library.Char_ord" "HOL-Library.List_Lexorder"
    "HOL-Library.Product_Lexorder" "HOL-Library.Option_ord" "HOL-Library.Multiset"
begin

section \<open>Shared vocabulary of the model\<close>

text \<open>
  What every component of the model uses: Python exceptions as values, validation as a list of
  checks, dictionaries as association lists in insertion order, sorted sequences. Python's
  strings are HOL strings, that is sequences of code points below 256; comparison of strings and
  of tuples is lexicographic in both worlds, and \<open>False < True\<close>. Python's integers are \<open>int\<close>.
\<close>

named_theorems result_simps \<open>how the operations on results compute\<close>
named_theorems dict_simps \<open>lookup and keys of dictionaries\<close>

subsection \<open>Exceptions as values\<close>

text \<open>
  An exception the modelled code can raise. \<open>ValueError\<close> stands for the class and its subclasses
  (pydantic's ValidationError, RuleSetValidationError, PatchValidationError, the JSON and hash
  errors of the code) and carries the message written in the source; a failure of pydantic's own
  field constraints carries the name of the model class instead of pydantic's generated text.
\<close>

datatype py_error =
    ValueError string
  | TypeError
  | KeyError
  | AttributeError
  | StopIteration

type_synonym 'a result = "py_error + 'a"

definition rbind :: "'a result \<Rightarrow> ('a \<Rightarrow> 'b result) \<Rightarrow> 'b result" where
  "rbind m f = (case m of Inl e \<Rightarrow> Inl e | Inr x \<Rightarrow> f x)"

definition ok :: "'a result \<Rightarrow> bool" where
  "ok m = (case m of Inl e \<Rightarrow> False | Inr x \<Rightarrow> True)"

lemma rbind_simps [simp, result_simps]:
  "rbind (Inl e) f = Inl e"
  "rbind (Inr x) f = f x"
  by (simp_all add: rbind_def)

lemma ok_simps [simp, result_simps]:
  "ok (Inl e) = False"
  "ok (Inr x) = True"
  by (simp_all add: ok_def)

lemma rbind_Inr_iff [result_simps]:
  "rbind m f = Inr y \<longleftrightarrow> (\<exists>x. m = Inr x \<and> f x = Inr y)"
  by (cases m) auto

lemma rbind_InrE:
  assumes "rbind m f = Inr y" obtains x where "m = Inr x" "f x = Inr y"
  using assms by (auto simp: rbind_Inr_iff)

lemma rbind_Inl_iff:
  "rbind m f = Inl e \<longleftrightarrow> m = Inl e \<or> (\<exists>x. m = Inr x \<and> f x = Inl e)"
  by (cases m) auto

lemma ok_iff: "ok m \<longleftrightarrow> (\<exists>x. m = Inr x)"
  by (cases m) auto

lemma rbind_assoc: "rbind (rbind m f) g = rbind m (\<lambda>x. rbind (f x) g)"
  by (cases m) auto

lemma rbind_cong [fundef_cong]:
  "m = m' \<Longrightarrow> (\<And>x. m' = Inr x \<Longrightarrow> f x = f' x) \<Longrightarrow> rbind m f = rbind m' f'"
  by (cases m') auto

text \<open>\<open>tuple(f(x) for x in xs)\<close>: left to right, stopping at the first exception.\<close>

fun traverse :: "('a \<Rightarrow> 'b result) \<Rightarrow> 'a list \<Rightarrow> 'b list result" where
  "traverse f [] = Inr []"
| "traverse f (x # xs) = rbind (f x) (\<lambda>y. rbind (traverse f xs) (\<lambda>ys. Inr (y # ys)))"

text \<open>\<open>tuple(x for x in xs if f(x))\<close>.\<close>

fun rfilter :: "('a \<Rightarrow> bool result) \<Rightarrow> 'a list \<Rightarrow> 'a list result" where
  "rfilter f [] = Inr []"
| "rfilter f (x # xs) =
     rbind (f x) (\<lambda>b. rbind (rfilter f xs) (\<lambda>ys. Inr (if b then x # ys else ys)))"

text \<open>A \<open>for\<close> loop over \<open>xs\<close> that updates a state and may raise.\<close>

fun rfold :: "('a \<Rightarrow> 's \<Rightarrow> 's result) \<Rightarrow> 'a list \<Rightarrow> 's \<Rightarrow> 's result" where
  "rfold f [] s = Inr s"
| "rfold f (x # xs) s = rbind (f x s) (\<lambda>s'. rfold f xs s')"

text \<open>\<open>all(f(x) for x in xs)\<close> and \<open>any(f(x) for x in xs)\<close>, which stop at the first answer.\<close>

fun rall :: "('a \<Rightarrow> bool result) \<Rightarrow> 'a list \<Rightarrow> bool result" where
  "rall f [] = Inr True"
| "rall f (x # xs) = rbind (f x) (\<lambda>b. if b then rall f xs else Inr False)"

fun rany :: "('a \<Rightarrow> bool result) \<Rightarrow> 'a list \<Rightarrow> bool result" where
  "rany f [] = Inr False"
| "rany f (x # xs) = rbind (f x) (\<lambda>b. if b then Inr True else rany f xs)"

lemma rall_eq: "(\<And>x. x \<in> set xs \<Longrightarrow> f x = Inr (g x)) \<Longrightarrow> rall f xs = Inr (list_all g xs)"
  by (induction xs) auto

lemma rany_eq: "(\<And>x. x \<in> set xs \<Longrightarrow> f x = Inr (g x)) \<Longrightarrow> rany f xs = Inr (list_ex g xs)"
  by (induction xs) auto

lemma traverse_cong [fundef_cong]:
  "xs = ys \<Longrightarrow> (\<And>x. x \<in> set ys \<Longrightarrow> f x = g x) \<Longrightarrow> traverse f xs = traverse g ys"
  by (induction xs arbitrary: ys) auto

lemma rfilter_cong [fundef_cong]:
  "xs = ys \<Longrightarrow> (\<And>x. x \<in> set ys \<Longrightarrow> f x = g x) \<Longrightarrow> rfilter f xs = rfilter g ys"
  by (induction xs arbitrary: ys) auto

lemma traverse_Inr [simp, result_simps]: "traverse (\<lambda>x. Inr (f x)) xs = Inr (map f xs)"
  by (induction xs) auto

lemma rfilter_Inr [simp, result_simps]: "rfilter (\<lambda>x. Inr (f x)) xs = Inr (filter f xs)"
  by (induction xs) auto

lemma traverse_eq_map: "(\<And>x. x \<in> set xs \<Longrightarrow> f x = Inr (g x)) \<Longrightarrow> traverse f xs = Inr (map g xs)"
  by (induction xs) auto

lemma rfilter_eq_filter:
  "(\<And>x. x \<in> set xs \<Longrightarrow> f x = Inr (g x)) \<Longrightarrow> rfilter f xs = Inr (filter g xs)"
  by (induction xs) auto

lemma traverse_Inr_iff:
  "traverse f xs = Inr ys \<longleftrightarrow> list_all2 (\<lambda>x y. f x = Inr y) xs ys"
  by (induction xs arbitrary: ys) (auto simp: rbind_Inr_iff list_all2_Cons1)

lemma traverse_length: "traverse f xs = Inr ys \<Longrightarrow> length ys = length xs"
  by (auto simp: traverse_Inr_iff dest: list_all2_lengthD)

lemma traverse_map_fst:
  "traverse f xs = Inr ys \<Longrightarrow> (\<And>x y. x \<in> set xs \<Longrightarrow> f x = Inr y \<Longrightarrow> k y = h x) \<Longrightarrow>
   map k ys = map h xs"
  by (induction xs arbitrary: ys) (auto simp: rbind_Inr_iff)

lemma rfilter_subset: "rfilter f xs = Inr ys \<Longrightarrow> set ys \<subseteq> set xs"
  by (induction xs arbitrary: ys) (fastforce simp: rbind_Inr_iff split: if_splits)+

subsection \<open>Validators\<close>

text \<open>
  A validator is the list of its checks in source order, each with the message its failure
  raises; the first failing one is the exception.
\<close>

fun check_all :: "(bool \<times> string) list \<Rightarrow> unit result" where
  "check_all [] = Inr ()"
| "check_all ((b, msg) # cs) = (if b then check_all cs else Inl (ValueError msg))"

definition validated :: "('a \<Rightarrow> (bool \<times> string) list) \<Rightarrow> 'a \<Rightarrow> 'a result" where
  "validated checks x = rbind (check_all (checks x)) (\<lambda>_. Inr x)"

definition valid_by :: "('a \<Rightarrow> (bool \<times> string) list) \<Rightarrow> 'a \<Rightarrow> bool" where
  "valid_by checks x = list_all fst (checks x)"

lemma check_all_ok: "check_all cs = Inr u \<longleftrightarrow> list_all fst cs"
  by (induction cs rule: check_all.induct) auto

lemma check_all_cases: "check_all cs = Inr () \<or> (\<exists>msg. check_all cs = Inl (ValueError msg))"
  by (induction cs rule: check_all.induct) auto

lemma validated_Inr_iff [result_simps]: "validated checks x = Inr y \<longleftrightarrow> y = x \<and> valid_by checks x"
  by (auto simp: validated_def valid_by_def rbind_Inr_iff check_all_ok)

lemma validated_valid [simp]: "valid_by checks x \<Longrightarrow> validated checks x = Inr x"
  by (simp add: validated_Inr_iff)

lemma validated_invalid: "\<not> valid_by checks x \<Longrightarrow> \<exists>msg. validated checks x = Inl (ValueError msg)"
  using check_all_cases [of "checks x"] check_all_ok [of "checks x" "()"]
  by (auto simp: validated_def valid_by_def)

lemma ok_validated [simp]: "ok (validated checks x) = valid_by checks x"
  by (auto simp: ok_iff validated_Inr_iff)

subsection \<open>Dictionaries and sets\<close>

text \<open>
  A dictionary is an association list with distinct keys in insertion order; \<open>AList.update\<close>
  replaces the value of a present key in place and appends a new key, as assignment does.
  \<open>dict_by k xs\<close> is the comprehension \<open>{k(x): x for x in xs}\<close>, where a later duplicate wins.
\<close>

definition dict_by :: "('a \<Rightarrow> 'k) \<Rightarrow> 'a list \<Rightarrow> ('k \<times> 'a) list" where
  "dict_by k xs = fold (\<lambda>x d. AList.update (k x) x d) xs []"

definition lookup :: "('k \<times> 'v) list \<Rightarrow> 'k \<Rightarrow> 'v result" where
  "lookup d k = (case map_of d k of None \<Rightarrow> Inl KeyError | Some v \<Rightarrow> Inr v)"

definition keys :: "('k \<times> 'v) list \<Rightarrow> 'k list" where
  "keys d = map fst d"

definition find_first :: "('a \<Rightarrow> bool) \<Rightarrow> 'a list \<Rightarrow> 'a result" where
  "find_first P xs = (case find P xs of None \<Rightarrow> Inl StopIteration | Some x \<Rightarrow> Inr x)"

text \<open>\<open>tuple(sorted(set(xs)))\<close>.\<close>

definition sorted_unique :: "'a::linorder list \<Rightarrow> 'a list" where
  "sorted_unique xs = sort (remdups xs)"

lemma update_new: "k \<notin> fst ` set d \<Longrightarrow> AList.update k v d = d @ [(k, v)]"
  by (induction d) auto

lemma fold_update_distinct:
  "distinct (map k xs) \<Longrightarrow> k ` set xs \<inter> fst ` set d = {} \<Longrightarrow>
   fold (\<lambda>x d. AList.update (k x) x d) xs d = d @ map (\<lambda>x. (k x, x)) xs"
proof (induction xs arbitrary: d)
  case Nil
  then show ?case by simp
next
  case (Cons x xs)
  have "k ` set xs \<inter> fst ` set (d @ [(k x, x)]) = {}"
    using Cons.prems by auto
  then show ?case
    using Cons.IH [of "d @ [(k x, x)]"] Cons.prems by (simp add: update_new)
qed

lemma dict_by_distinct [dict_simps]: "distinct (map k xs) \<Longrightarrow> dict_by k xs = map (\<lambda>x. (k x, x)) xs"
  by (simp add: dict_by_def fold_update_distinct)

lemma dict_by_keys_set: "fst ` set (fold (\<lambda>x d. AList.update (k x) x d) xs d) = fst ` set d \<union> k ` set xs"
  by (induction xs arbitrary: d) (auto simp: dom_update)

lemma set_keys_dict_by [simp, dict_simps]: "set (keys (dict_by k xs)) = k ` set xs"
  by (simp add: keys_def dict_by_def dict_by_keys_set)

lemma distinct_fold_update:
  "distinct (map fst d) \<Longrightarrow> distinct (map fst (fold (\<lambda>x d. AList.update (k x) x d) xs d))"
  by (induction xs arbitrary: d) (auto intro: distinct_update)

lemma distinct_keys_dict_by [simp, dict_simps]: "distinct (keys (dict_by k xs))"
  by (simp add: keys_def dict_by_def distinct_fold_update)

lemma length_dict_by: "length (dict_by k xs) = card (k ` set xs)"
  using distinct_card [OF distinct_keys_dict_by, of k xs]
  unfolding set_keys_dict_by by (simp add: keys_def)

lemma length_dict_by_iff: "length (dict_by k xs) = length xs \<longleftrightarrow> distinct (map k xs)"
  using length_dict_by [of k xs] by (metis card_distinct distinct_card length_map list.set_map)

lemma find_append_single:
  "find P (xs @ [x]) = (case find P xs of Some y \<Rightarrow> Some y | None \<Rightarrow> if P x then Some x else None)"
  by (induction xs) auto

lemma find_SomeD: "find P xs = Some x \<Longrightarrow> x \<in> set xs \<and> P x"
  by (induction xs) (auto split: if_splits)

lemma map_of_fold_update:
  "map_of (fold (\<lambda>x d. AList.update (k x) x d) xs d) i =
   (case find (\<lambda>x. k x = i) (rev xs) of Some x \<Rightarrow> Some x | None \<Rightarrow> map_of d i)"
proof (induction xs arbitrary: d)
  case Nil
  then show ?case by simp
next
  case (Cons x xs)
  show ?case
    by (simp add: Cons.IH update_conv find_append_single split: option.splits)
qed

lemma map_of_dict_by: "map_of (dict_by k xs) i = find (\<lambda>x. k x = i) (rev xs)"
  by (simp add: dict_by_def map_of_fold_update split: option.splits)

lemma map_of_dict_by_SomeD: "map_of (dict_by k xs) i = Some x \<Longrightarrow> x \<in> set xs \<and> k x = i"
  by (auto simp: map_of_dict_by dest: find_SomeD)

lemma map_of_dict_by_None_iff: "map_of (dict_by k xs) i = None \<longleftrightarrow> i \<notin> k ` set xs"
  by (auto simp: map_of_dict_by find_None_iff)

lemma map_of_map_key:
  "distinct (map k xs) \<Longrightarrow> x \<in> set xs \<Longrightarrow> map_of (map (\<lambda>x. (k x, x)) xs) (k x) = Some x"
  by (induction xs) (auto simp: rev_image_eqI)

lemma map_of_dict_by_distinct:
  "distinct (map k xs) \<Longrightarrow> map_of (dict_by k xs) i = Some x \<longleftrightarrow> x \<in> set xs \<and> k x = i"
  using map_of_map_key [of k xs x] map_of_dict_by_SomeD [of k xs i x]
  by (auto simp: dict_by_distinct)

lemma map_of_dict_by_mem:
  "distinct (map k xs) \<Longrightarrow> x \<in> set xs \<Longrightarrow> map_of (dict_by k xs) (k x) = Some x"
  by (simp add: map_of_dict_by_distinct)

lemma lookup_Inr_iff [result_simps]: "lookup d k = Inr v \<longleftrightarrow> map_of d k = Some v"
  by (auto simp: lookup_def split: option.splits)

lemma find_first_Inr: "find_first P xs = Inr x \<Longrightarrow> x \<in> set xs \<and> P x"
  by (auto simp: find_first_def dest: find_SomeD split: option.splits)

lemma find_first_ex: "\<exists>x \<in> set xs. P x \<Longrightarrow> \<exists>x. find_first P xs = Inr x"
  by (auto simp: find_first_def find_None_iff split: option.splits)

lemma map_of_dict_by_find:
  assumes "distinct (map k xs)"
  shows "map_of (dict_by k xs) i = find (\<lambda>x. k x = i) xs"
proof (cases "find (\<lambda>x. k x = i) xs")
  case None
  then have "i \<notin> k ` set xs" by (auto simp: find_None_iff)
  then show ?thesis using None by (metis map_of_dict_by_None_iff)
next
  case (Some x)
  then show ?thesis using find_SomeD [OF Some] by (simp add: map_of_dict_by_distinct [OF assms])
qed

lemma traverse_memE:
  assumes "traverse f xs = Inr ys" and "y \<in> set ys"
  obtains x where "x \<in> set xs" "f x = Inr y"
proof -
  obtain i where "i < length ys" "y = ys ! i" using assms(2) by (auto simp: in_set_conv_nth)
  then have "xs ! i \<in> set xs" "f (xs ! i) = Inr y"
    using assms(1) by (auto simp: traverse_Inr_iff list_all2_conv_all_nth)
  then show ?thesis by (rule that)
qed

lemma map_of_values: "distinct (keys d) \<Longrightarrow> x \<in> set (map snd d) \<longleftrightarrow> (\<exists>k. map_of d k = Some x)"
  by (force simp: keys_def map_of_eq_Some_iff)

lemma set_keys_update: "set (keys (AList.update k v d)) = insert k (set (keys d))"
  by (simp add: keys_def dom_update)

lemma distinct_keys_update: "distinct (keys d) \<Longrightarrow> distinct (keys (AList.update k v d))"
  by (simp add: keys_def distinct_update)

lemma set_sorted_unique [simp]: "set (sorted_unique xs) = set xs"
  by (simp add: sorted_unique_def)

lemma distinct_sorted_unique [simp]: "distinct (sorted_unique xs)"
  by (simp add: sorted_unique_def)

lemma sorted_sorted_unique [simp]: "sorted (sorted_unique xs)"
  by (simp add: sorted_unique_def)

lemma sorted_unique_cong: "set xs = set ys \<Longrightarrow> sorted_unique xs = sorted_unique ys"
  by (rule sorted_distinct_set_unique) auto

lemma sorted_unique_Nil [simp]: "sorted_unique xs = [] \<longleftrightarrow> xs = []"
  by (metis set_empty set_sorted_unique)

lemma insort_key_of_map: "insort_key f (g x) (map g xs) = map g (insort_key (\<lambda>x. f (g x)) x xs)"
  by (induction xs) auto

lemma sort_key_of_map: "sort_key f (map g xs) = map g (sort_key (\<lambda>x. f (g x)) xs)"
  by (induction xs) (simp_all add: insort_key_of_map)

text \<open>Sorting by a key that identifies the elements forgets the order they came in.\<close>

lemma sort_key_perm_eq:
  assumes "mset xs = mset ys" and "distinct (map k xs)"
  shows "sort_key k xs = sort_key k ys"
proof -
  have same: "set xs = set ys" using assms(1) by (rule mset_eq_setD)
  have dist: "distinct (map k ys)"
    using assms by (metis mset_eq_imp_distinct_iff mset_map)
  have "map k (sort_key k xs) = map k (sort_key k ys)"
    using assms(2) dist same
    by (intro sorted_distinct_set_unique) (auto simp: distinct_map)
  moreover have "inj_on k (set (sort_key k xs) \<union> set (sort_key k ys))"
    using assms(2) same by (simp add: distinct_map)
  ultimately show ?thesis by (rule map_inj_on)
qed

lemma sort_key_set_eq:
  assumes "set xs = set ys" and "distinct xs" "distinct ys" and "inj_on k (set xs)"
  shows "sort_key k xs = sort_key k ys"
proof (rule sort_key_perm_eq)
  show "mset xs = mset ys" using assms by (simp add: set_eq_iff_mset_eq_distinct)
  show "distinct (map k xs)" using assms by (simp add: distinct_map)
qed

end
