(* ===== verification/Common.thy ===== *)
theory Common
  imports Prelude
begin

section \<open>Shared immutable values (domain/models/common.py)\<close>

text \<open>
  The closed vocabularies (Python Literals and StrEnums) are datatypes with a function giving the
  string of each value; strings of bounded shape keep their type and a predicate states the
  field constraint. A frozenset field over a closed vocabulary is a \<open>set\<close>. A timezone-aware
  datetime is the instant it denotes, in microseconds since the epoch.
\<close>

subsection \<open>Constrained strings and numbers\<close>

type_synonym ident = string
type_synonym sha256 = string
type_synonym timestamp = int

definition identifier_ok :: "string \<Rightarrow> bool" where
  "identifier_ok s \<longleftrightarrow> 1 \<le> length s \<and> length s \<le> 200"

definition nonempty_text :: "string \<Rightarrow> bool" where
  "nonempty_text s \<longleftrightarrow> 1 \<le> length s"

definition hex_digits :: string where
  "hex_digits = ''0123456789abcdef''"

definition sha256_ok :: "string \<Rightarrow> bool" where
  "sha256_ok s \<longleftrightarrow> length s = 64 \<and> list_all (\<lambda>c. c \<in> set hex_digits) s"

definition non_negative :: "int \<Rightarrow> bool" where
  "non_negative n \<longleftrightarrow> 0 \<le> n"

definition money_minor_ok :: "int \<Rightarrow> bool" where
  "money_minor_ok n \<longleftrightarrow> 0 \<le> n \<and> n \<le> 10000000"

definition percentage_ok :: "int \<Rightarrow> bool" where
  "percentage_ok n \<longleftrightarrow> 0 \<le> n \<and> n \<le> 100"

definition optional :: "('a \<Rightarrow> bool) \<Rightarrow> 'a option \<Rightarrow> bool" where
  "optional p v = (case v of None \<Rightarrow> True | Some x \<Rightarrow> p x)"

lemma optional_simps [simp]:
  "optional p None"
  "optional p (Some x) = p x"
  by (simp_all add: optional_def)

definition zero_sha256 :: sha256 where
  "zero_sha256 = replicate 64 CHR ''0''"

lemma zero_sha256_ok [simp]: "sha256_ok zero_sha256"
  by (simp add: sha256_ok_def zero_sha256_def hex_digits_def list_all_iff)

subsection \<open>Fact vocabulary\<close>

datatype employee_role = RoleEmployee | RoleManager | RoleDirector | RoleExecutive

fun employee_role_name :: "employee_role \<Rightarrow> string" where
  "employee_role_name RoleEmployee = ''employee''"
| "employee_role_name RoleManager = ''manager''"
| "employee_role_name RoleDirector = ''director''"
| "employee_role_name RoleExecutive = ''executive''"

datatype expense_category = Meal | Hotel | Transport | Airfare | Incidental

fun expense_category_name :: "expense_category \<Rightarrow> string" where
  "expense_category_name Meal = ''meal''"
| "expense_category_name Hotel = ''hotel''"
| "expense_category_name Transport = ''transport''"
| "expense_category_name Airfare = ''airfare''"
| "expense_category_name Incidental = ''incidental''"

datatype destination_type = Domestic | International

fun destination_type_name :: "destination_type \<Rightarrow> string" where
  "destination_type_name Domestic = ''domestic''"
| "destination_type_name International = ''international''"

datatype approval_role = ApproverManager | ApproverDirector | ApproverFinance

fun approval_role_name :: "approval_role \<Rightarrow> string" where
  "approval_role_name ApproverManager = ''manager''"
| "approval_role_name ApproverDirector = ''director''"
| "approval_role_name ApproverFinance = ''finance''"

definition approval_roles :: "approval_role list" where
  "approval_roles = [ApproverManager, ApproverDirector, ApproverFinance]"

text \<open>\<open>PredicateField\<close>: the eight stored facts and the derived daily total.\<close>

datatype predicate_field =
    F_employee_role
  | F_expense_category
  | F_amount_minor
  | F_destination_type
  | F_booking_days_before
  | F_receipt_present
  | F_approval_roles_present
  | F_prior_same_day_category_spend_minor
  | F_daily_category_total_minor

fun predicate_field_name :: "predicate_field \<Rightarrow> string" where
  "predicate_field_name F_employee_role = ''employee_role''"
| "predicate_field_name F_expense_category = ''expense_category''"
| "predicate_field_name F_amount_minor = ''amount_minor''"
| "predicate_field_name F_destination_type = ''destination_type''"
| "predicate_field_name F_booking_days_before = ''booking_days_before''"
| "predicate_field_name F_receipt_present = ''receipt_present''"
| "predicate_field_name F_approval_roles_present = ''approval_roles_present''"
| "predicate_field_name F_prior_same_day_category_spend_minor =
     ''prior_same_day_category_spend_minor''"
| "predicate_field_name F_daily_category_total_minor = ''daily_category_total_minor''"

datatype predicate_operator =
  Op_eq | Op_neq | Op_in | Op_not_in | Op_lt | Op_lte | Op_gt | Op_gte | Op_contains

fun predicate_operator_name :: "predicate_operator \<Rightarrow> string" where
  "predicate_operator_name Op_eq = ''eq''"
| "predicate_operator_name Op_neq = ''neq''"
| "predicate_operator_name Op_in = ''in''"
| "predicate_operator_name Op_not_in = ''not_in''"
| "predicate_operator_name Op_lt = ''lt''"
| "predicate_operator_name Op_lte = ''lte''"
| "predicate_operator_name Op_gt = ''gt''"
| "predicate_operator_name Op_gte = ''gte''"
| "predicate_operator_name Op_contains = ''contains''"

subsection \<open>Effect dimensions and values\<close>

datatype effect_dimension =
  Eligibility | ReceiptRequirement | ApprovalRequirement | ClaimCapMinor | DailyCategoryCapMinor

fun effect_dimension_name :: "effect_dimension \<Rightarrow> string" where
  "effect_dimension_name Eligibility = ''eligibility''"
| "effect_dimension_name ReceiptRequirement = ''receipt_requirement''"
| "effect_dimension_name ApprovalRequirement = ''approval_requirement''"
| "effect_dimension_name ClaimCapMinor = ''claim_cap_minor''"
| "effect_dimension_name DailyCategoryCapMinor = ''daily_category_cap_minor''"

text \<open>The members of \<open>EffectDimension\<close> in the order the enumeration iterates.\<close>

definition effect_dimensions :: "effect_dimension list" where
  "effect_dimensions =
     [Eligibility, ReceiptRequirement, ApprovalRequirement, ClaimCapMinor, DailyCategoryCapMinor]"

lemma set_effect_dimensions [simp]: "set effect_dimensions = UNIV"
  by (auto simp: effect_dimensions_def intro: effect_dimension.exhaust)

lemma distinct_effect_dimensions [simp]: "distinct effect_dimensions"
  by (simp add: effect_dimensions_def)

lemma effect_dimension_name_inject [simp]:
  "effect_dimension_name d = effect_dimension_name d' \<longleftrightarrow> d = d'"
  by (cases d; cases d') simp_all

lemma finite_effect_dimension_set [simp]: "finite (A :: effect_dimension set)"
  using List.finite_set [of effect_dimensions] unfolding set_effect_dimensions
  by (rule rev_finite_subset) simp

text \<open>A dimension is a string in the code, so dimensions sort by name.\<close>

instantiation effect_dimension :: linorder
begin

definition less_eq_effect_dimension :: "effect_dimension \<Rightarrow> effect_dimension \<Rightarrow> bool" where
  "less_eq_effect_dimension d d' \<longleftrightarrow> effect_dimension_name d \<le> effect_dimension_name d'"

definition less_effect_dimension :: "effect_dimension \<Rightarrow> effect_dimension \<Rightarrow> bool" where
  "less_effect_dimension d d' \<longleftrightarrow> effect_dimension_name d < effect_dimension_name d'"

instance
  by standard
    (auto simp: less_eq_effect_dimension_def less_effect_dimension_def less_le_not_le
      dest: antisym)

end

datatype effect_value =
    Allow | Deny
  | Required | NotRequired
  | NeedNone | NeedManager | NeedDirector | NeedFinance
  | Minor int

text \<open>The string of a categorical value; \<open>None\<close> for an integer cap.\<close>

fun effect_value_name :: "effect_value \<Rightarrow> string option" where
  "effect_value_name Allow = Some ''allow''"
| "effect_value_name Deny = Some ''deny''"
| "effect_value_name Required = Some ''required''"
| "effect_value_name NotRequired = Some ''not_required''"
| "effect_value_name NeedNone = Some ''none''"
| "effect_value_name NeedManager = Some ''manager''"
| "effect_value_name NeedDirector = Some ''director''"
| "effect_value_name NeedFinance = Some ''finance''"
| "effect_value_name (Minor n) = None"

fun effect_value_number :: "effect_value \<Rightarrow> int" where
  "effect_value_number (Minor n) = n"
| "effect_value_number v = 0"

definition effect_value_key :: "effect_value \<Rightarrow> string option \<times> int" where
  "effect_value_key v = (effect_value_name v, effect_value_number v)"

lemma effect_value_key_inject: "effect_value_key v = effect_value_key w \<Longrightarrow> v = w"
  by (cases v; cases w) (simp_all add: effect_value_key_def)

text \<open>
  Python orders strings among themselves and integers among themselves and refuses to compare
  the two; the instance puts integers first, and the sorts of the model check the kinds first.
\<close>

instantiation effect_value :: linorder
begin

definition less_eq_effect_value :: "effect_value \<Rightarrow> effect_value \<Rightarrow> bool" where
  "less_eq_effect_value v w \<longleftrightarrow> effect_value_key v \<le> effect_value_key w"

definition less_effect_value :: "effect_value \<Rightarrow> effect_value \<Rightarrow> bool" where
  "less_effect_value v w \<longleftrightarrow> effect_value_key v < effect_value_key w"

instance
proof
  fix v w x :: effect_value
  show "v < w \<longleftrightarrow> v \<le> w \<and> \<not> w \<le> v"
    unfolding less_eq_effect_value_def less_effect_value_def by (rule less_le_not_le)
  show "v \<le> v"
    by (simp add: less_eq_effect_value_def)
  show "v \<le> w \<Longrightarrow> w \<le> x \<Longrightarrow> v \<le> x"
    unfolding less_eq_effect_value_def by (rule order_trans)
  show "v \<le> w \<Longrightarrow> w \<le> v \<Longrightarrow> v = w"
    unfolding less_eq_effect_value_def by (intro effect_value_key_inject antisym)
  show "v \<le> w \<or> w \<le> v"
    unfolding less_eq_effect_value_def by (rule linear)
qed

end

datatype severity = Low | Medium | High | Critical

fun severity_name :: "severity \<Rightarrow> string" where
  "severity_name Low = ''low''"
| "severity_name Medium = ''medium''"
| "severity_name High = ''high''"
| "severity_name Critical = ''critical''"

datatype run_mode = Live | Cached

fun run_mode_name :: "run_mode \<Rightarrow> string" where
  "run_mode_name Live = ''live''"
| "run_mode_name Cached = ''cached''"

subsection \<open>Result states\<close>

datatype effect_status = EValue | EGap | ENotApplicable | EConflict | EInconclusive | EError

fun effect_status_name :: "effect_status \<Rightarrow> string" where
  "effect_status_name EValue = ''VALUE''"
| "effect_status_name EGap = ''GAP''"
| "effect_status_name ENotApplicable = ''NOT_APPLICABLE''"
| "effect_status_name EConflict = ''CONFLICT''"
| "effect_status_name EInconclusive = ''INCONCLUSIVE''"
| "effect_status_name EError = ''ERROR''"

datatype assertion_status = APass | AFail | AInconclusive | AError

fun assertion_status_name :: "assertion_status \<Rightarrow> string" where
  "assertion_status_name APass = ''PASS''"
| "assertion_status_name AFail = ''FAIL''"
| "assertion_status_name AInconclusive = ''INCONCLUSIVE''"
| "assertion_status_name AError = ''ERROR''"

datatype compliance_status = Compliant | Noncompliant | CNotApplicable | CInconclusive | CError

fun compliance_status_name :: "compliance_status \<Rightarrow> string" where
  "compliance_status_name Compliant = ''COMPLIANT''"
| "compliance_status_name Noncompliant = ''NONCOMPLIANT''"
| "compliance_status_name CNotApplicable = ''NOT_APPLICABLE''"
| "compliance_status_name CInconclusive = ''INCONCLUSIVE''"
| "compliance_status_name CError = ''ERROR''"

subsection \<open>Spans, references and errors\<close>

datatype artifact_type =
    PolicyDocumentArtifact | PolicyIRArtifact | PolicyContractArtifact | ScenarioSuiteArtifact
  | EvaluationReportArtifact | FindingReportArtifact | RevisionProposalArtifact
  | RegressionReportArtifact | PatchAcceptanceReportArtifact | ComparisonBundleArtifact
  | MetricsReportArtifact | BenchmarkManifestArtifact | BenchmarkScoreArtifact
  | CoverageSnapshotArtifact | RunManifestArtifact

record source_span =
  span_page :: int
  span_start :: int
  span_end :: int
  span_quote :: string
  span_quote_sha256 :: sha256
  span_section :: "string option"

definition source_span_checks :: "source_span \<Rightarrow> (bool \<times> string) list" where
  "source_span_checks s =
     [(1 \<le> span_page s \<and> non_negative (span_start s) \<and> non_negative (span_end s)
        \<and> nonempty_text (span_quote s) \<and> sha256_ok (span_quote_sha256 s)
        \<and> optional nonempty_text (span_section s), ''SourceSpan''),
      (span_start s < span_end s, ''source span must have end > start'')]"

record artifact_ref =
  ar_artifact_type :: artifact_type
  ar_artifact_sha256 :: sha256
  ar_semantic_sha256 :: sha256

definition artifact_ref_checks :: "artifact_ref \<Rightarrow> (bool \<times> string) list" where
  "artifact_ref_checks a =
     [(sha256_ok (ar_artifact_sha256 a) \<and> sha256_ok (ar_semantic_sha256 a), ''ArtifactRef'')]"

record input_hashes =
  ih_policy_sha256 :: sha256
  ih_contract_sha256 :: sha256
  ih_suite_sha256 :: sha256
  ih_engine_sha256 :: sha256
  ih_run_manifest_sha256 :: sha256

definition input_hashes_checks :: "input_hashes \<Rightarrow> (bool \<times> string) list" where
  "input_hashes_checks i =
     [(sha256_ok (ih_policy_sha256 i) \<and> sha256_ok (ih_contract_sha256 i)
        \<and> sha256_ok (ih_suite_sha256 i) \<and> sha256_ok (ih_engine_sha256 i)
        \<and> sha256_ok (ih_run_manifest_sha256 i), ''InputHashes'')]"

datatype error_code =
    INVALID_INPUT | INVALID_STATE | INVALID_POLICY | INVALID_CITATION | MALFORMED_MODEL_OUTPUT
  | PROVIDER_UNAVAILABLE | COVERAGE_LIMIT_EXCEEDED | HASH_MISMATCH | REVISION_INVALID
  | PROSE_COMPILE_MISMATCH | RUN_NOT_FOUND | INTERNAL_ERROR

record public_error =
  pe_code :: error_code
  pe_message :: string
  pe_error_id :: "ident option"
  pe_retryable :: bool

definition public_error_checks :: "public_error \<Rightarrow> (bool \<times> string) list" where
  "public_error_checks e =
     [(nonempty_text (pe_message e) \<and> optional identifier_ok (pe_error_id e), ''PublicError'')]"

end
