(* ===== verification/Graph_Search.thy ===== *)
theory Graph_Search
  imports Prelude
begin

section \<open>Depth-first cycle search over override edges\<close>

text \<open>
  The recursive \<open>visit\<close> closures of \<open>PolicyIR.valid_rule_set\<close>, \<open>validate_rule_set\<close> and
  \<open>BenchmarkCorrectedSemantics.valid_expected_rules\<close> are one search: a set of nodes on the current
  path, a set of finished nodes, an exception on meeting the path again. \<open>nodes\<close> are the keys of
  the graph dictionary, so visiting anything else raises KeyError. Recursion ends because a call
  that goes deeper puts a new key on the path.
\<close>

function dfs_visit :: "string \<Rightarrow> 'a list \<Rightarrow> ('a \<Rightarrow> 'a list) \<Rightarrow> 'a list \<Rightarrow> 'a list \<Rightarrow> 'a \<Rightarrow> 'a list result"
  and dfs_visits ::
    "string \<Rightarrow> 'a list \<Rightarrow> ('a \<Rightarrow> 'a list) \<Rightarrow> 'a list \<Rightarrow> 'a list \<Rightarrow> 'a list \<Rightarrow> 'a list result"
where
  "dfs_visit msg nodes succ visiting visited v =
     (if v \<in> set visiting then Inl (ValueError msg)
      else if v \<in> set visited then Inr visited
      else if v \<notin> set nodes then Inl KeyError
      else rbind (dfs_visits msg nodes succ (v # visiting) visited (succ v))
             (\<lambda>visited'. Inr (v # visited')))"
| "dfs_visits msg nodes succ visiting visited [] = Inr visited"
| "dfs_visits msg nodes succ visiting visited (t # ts) =
     rbind (dfs_visit msg nodes succ visiting visited t)
       (\<lambda>visited'. dfs_visits msg nodes succ visiting visited' ts)"
  by pat_completeness auto
termination
proof (relation "measures [\<lambda>s. case s of
      Inl (msg, nodes, succ, visiting, visited, v) \<Rightarrow> card (set nodes - set visiting)
    | Inr (msg, nodes, succ, visiting, visited, ts) \<Rightarrow> card (set nodes - set visiting),
    \<lambda>s. case s of Inl _ \<Rightarrow> 0
    | Inr (msg, nodes, succ, visiting, visited, ts) \<Rightarrow> Suc (length ts)]", goal_cases)
  case 1
  then show ?case by simp
next
  case (2 msg nodes succ visiting visited v)
  then have "set nodes - set (v # visiting) \<subset> set nodes - set visiting"
    by auto
  then show ?case
    by (simp add: psubset_card_mono)
qed simp_all

declare dfs_visit.simps [simp del]

text \<open>\<open>for rule_id in graph: visit(rule_id)\<close> on fresh sets.\<close>

definition dfs_all :: "string \<Rightarrow> 'a list \<Rightarrow> ('a \<Rightarrow> 'a list) \<Rightarrow> 'a list result" where
  "dfs_all msg nodes succ = dfs_visits msg nodes succ [] [] nodes"

definition edges :: "'a list \<Rightarrow> ('a \<Rightarrow> 'a list) \<Rightarrow> ('a \<times> 'a) set" where
  "edges nodes succ = {(a, b). a \<in> set nodes \<and> b \<in> set (succ a)}"

lemma edges_iff [simp]: "(a, b) \<in> edges nodes succ \<longleftrightarrow> a \<in> set nodes \<and> b \<in> set (succ a)"
  by (simp add: edges_def)

subsection \<open>The finished nodes are in topological order\<close>

fun topological :: "'a list \<Rightarrow> ('a \<Rightarrow> 'a list) \<Rightarrow> 'a list \<Rightarrow> bool" where
  "topological nodes succ [] = True"
| "topological nodes succ (v # vs) \<longleftrightarrow>
     v \<in> set nodes \<and> set (succ v) \<subseteq> set vs \<and> v \<notin> set vs \<and> topological nodes succ vs"

lemma dfs_topological:
  "dfs_visit msg nodes succ visiting visited v = Inr done \<Longrightarrow>
     topological nodes succ visited \<Longrightarrow> set visiting \<inter> set visited = {} \<Longrightarrow>
     topological nodes succ done \<and> set visited \<subseteq> set done \<and> v \<in> set done
       \<and> set visiting \<inter> set done = {}"
  "dfs_visits msg nodes succ visiting visited ts = Inr done \<Longrightarrow>
     topological nodes succ visited \<Longrightarrow> set visiting \<inter> set visited = {} \<Longrightarrow>
     topological nodes succ done \<and> set visited \<subseteq> set done \<and> set ts \<subseteq> set done
       \<and> set visiting \<inter> set done = {}"
proof (induction msg nodes succ visiting visited v and msg nodes succ visiting visited ts
    arbitrary: "done" and "done" rule: dfs_visit_dfs_visits.induct)
  case (1 msg nodes succ visiting visited v)
  show ?case
  proof (cases "v \<in> set visiting \<or> v \<in> set visited \<or> v \<notin> set nodes")
    case True
    with "1.prems" show ?thesis
      by (auto simp: dfs_visit.simps [of msg nodes succ visiting visited v] split: if_splits)
  next
    case False
    with "1.prems"(1) obtain done' where
      rec: "dfs_visits msg nodes succ (v # visiting) visited (succ v) = Inr done'"
      and "done": "done = v # done'"
      by (auto simp: dfs_visit.simps [of msg nodes succ visiting visited v] rbind_Inr_iff)
    from False "1.prems" "1.IH" [OF _ _ _ rec] have
      "topological nodes succ done'" "set visited \<subseteq> set done'" "set (succ v) \<subseteq> set done'"
      "set (v # visiting) \<inter> set done' = {}"
      by auto
    with False "done" show ?thesis by auto
  qed
next
  case (2 msg nodes succ visiting visited)
  then show ?case by simp
next
  case (3 msg nodes succ visiting visited t ts)
  from "3.prems"(1) obtain middle where
    first: "dfs_visit msg nodes succ visiting visited t = Inr middle"
    and rest: "dfs_visits msg nodes succ visiting middle ts = Inr done"
    by (auto simp: rbind_Inr_iff)
  from "3.IH"(1) [OF first "3.prems"(2,3)] "3.IH"(2) [OF first rest]
  show ?case by auto
qed

lemma topological_closed: "topological nodes succ vs \<Longrightarrow> a \<in> set vs \<Longrightarrow> set (succ a) \<subseteq> set vs"
  by (induction vs) auto

lemma topological_trancl:
  "(a, b) \<in> (edges nodes succ)\<^sup>+ \<Longrightarrow> topological nodes succ vs \<Longrightarrow> a \<in> set vs \<Longrightarrow> b \<in> set vs"
  by (induction rule: trancl_induct) (use topological_closed in force)+

lemma topological_acyclic:
  assumes "topological nodes succ vs" and "a \<in> set vs"
  shows "(a, a) \<notin> (edges nodes succ)\<^sup>+"
  using assms
proof (induction vs)
  case Nil
  then show ?case by simp
next
  case (Cons v vs)
  show ?case
  proof (cases "a = v")
    case False
    with Cons show ?thesis by simp
  next
    case True
    show ?thesis
    proof
      assume "(a, a) \<in> (edges nodes succ)\<^sup>+"
      then obtain b where b: "(a, b) \<in> edges nodes succ" "b = a \<or> (b, a) \<in> (edges nodes succ)\<^sup>+"
        by (metis converse_tranclE)
      then have "b \<in> set vs" using Cons.prems(1) True by auto
      with b topological_trancl [of b a nodes succ vs] Cons.prems(1) True show False by auto
    qed
  qed
qed

subsection \<open>An acyclic closed graph is never rejected\<close>

lemma dfs_accepts:
  assumes "acyclic (edges nodes succ)" and "\<And>a. a \<in> set nodes \<Longrightarrow> set (succ a) \<subseteq> set nodes"
  shows "v \<in> set nodes \<Longrightarrow> (\<And>u. u \<in> set visiting \<Longrightarrow> (u, v) \<in> (edges nodes succ)\<^sup>+) \<Longrightarrow>
      ok (dfs_visit msg nodes succ visiting visited v)"
    and "set ts \<subseteq> set nodes \<Longrightarrow>
      (\<And>u t. u \<in> set visiting \<Longrightarrow> t \<in> set ts \<Longrightarrow> (u, t) \<in> (edges nodes succ)\<^sup>+) \<Longrightarrow>
      ok (dfs_visits msg nodes succ visiting visited ts)"
  using assms
proof (induction msg nodes succ visiting visited v and msg nodes succ visiting visited ts
    rule: dfs_visit_dfs_visits.induct)
  case (1 msg nodes succ visiting visited v)
  have "v \<notin> set visiting"
    using "1.prems"(2,3) by (auto simp: acyclic_def)
  show ?case
  proof (cases "v \<in> set visited")
    case True
    with \<open>v \<notin> set visiting\<close> show ?thesis by (simp add: dfs_visit.simps)
  next
    case False
    have "ok (dfs_visits msg nodes succ (v # visiting) visited (succ v))"
    proof (rule "1.IH" [OF \<open>v \<notin> set visiting\<close> False])
      show "\<not> v \<notin> set nodes" using "1.prems"(1) by simp
      show "set (succ v) \<subseteq> set nodes" using "1.prems"(1,4) by simp
      fix u t
      assume "u \<in> set (v # visiting)" and t: "t \<in> set (succ v)"
      have edge: "(v, t) \<in> edges nodes succ" using t "1.prems"(1) by simp
      show "(u, t) \<in> (edges nodes succ)\<^sup>+"
      proof (cases "u = v")
        case True
        with edge show ?thesis by auto
      next
        case False
        with \<open>u \<in> set (v # visiting)\<close> "1.prems"(2) have "(u, v) \<in> (edges nodes succ)\<^sup>+" by simp
        then show ?thesis using edge by (rule trancl_into_trancl)
      qed
    qed (use "1.prems" in simp_all)
    with False \<open>v \<notin> set visiting\<close> "1.prems"(1) show ?thesis
      by (auto simp: dfs_visit.simps [of msg nodes succ visiting visited v] ok_iff)
  qed
next
  case (2 msg nodes succ visiting visited)
  then show ?case by simp
next
  case (3 msg nodes succ visiting visited t ts)
  from 3 have "ok (dfs_visit msg nodes succ visiting visited t)" by simp
  then obtain middle where m: "dfs_visit msg nodes succ visiting visited t = Inr middle"
    by (auto simp: ok_iff)
  with 3 have "ok (dfs_visits msg nodes succ visiting middle ts)" by simp
  with m show ?case by simp
qed

text \<open>The search accepts exactly the closed acyclic graphs.\<close>

lemma dfs_all_ok_acyclic: "ok (dfs_all msg nodes succ) \<Longrightarrow> acyclic (edges nodes succ)"
proof -
  assume "ok (dfs_all msg nodes succ)"
  then obtain vs where "dfs_visits msg nodes succ [] [] nodes = Inr vs"
    by (auto simp: ok_iff dfs_all_def)
  from dfs_topological(2) [OF this] have vs: "topological nodes succ vs" "set nodes \<subseteq> set vs"
    by auto
  show ?thesis
  proof (rule acyclicI, intro allI notI)
    fix a
    assume cycle: "(a, a) \<in> (edges nodes succ)\<^sup>+"
    then have "a \<in> set nodes" by (auto elim: converse_tranclE)
    with vs cycle topological_acyclic [of nodes succ vs a] show False by blast
  qed
qed

lemma dfs_all_accepts:
  "acyclic (edges nodes succ) \<Longrightarrow> (\<And>a. a \<in> set nodes \<Longrightarrow> set (succ a) \<subseteq> set nodes) \<Longrightarrow>
   ok (dfs_all msg nodes succ)"
  unfolding dfs_all_def by (rule dfs_accepts(2)) auto

lemma dfs_all_iff_acyclic:
  "(\<And>a. a \<in> set nodes \<Longrightarrow> set (succ a) \<subseteq> set nodes) \<Longrightarrow>
   ok (dfs_all msg nodes succ) \<longleftrightarrow> acyclic (edges nodes succ)"
  using dfs_all_ok_acyclic dfs_all_accepts by metis

end
