(* ===== verification/Policy_Models.thy ===== *)
theory Policy_Models
  imports Common Graph_Search
begin

section \<open>Policies, contracts and their validators (domain/models/policy.py)\<close>

text \<open>
  One record per pydantic class, with the class's field constraints and model validators as its
  list of checks. A record value is any Python object of the class, also one made by
  \<open>model_copy\<close>, which skips validation; \<open>valid_by\<close> of the checks is what
  \<open>model_validate\<close> accepts, nested models included (\<open>revalidate_instances="always"\<close>).
\<close>

subsection \<open>Predicates\<close>

text \<open>Values a predicate compares: a predicate holds the first four kinds, a fact any but a tuple.\<close>

datatype pyval =
    VStr string
  | VInt int
  | VBool bool
  | VTuple "string list"
  | VSet "string set"

record predicate =
  p_field :: predicate_field
  p_operator :: predicate_operator
  p_value :: pyval

fun enum_domain :: "predicate_field \<Rightarrow> string list option" where
  "enum_domain F_employee_role = Some [''employee'', ''manager'', ''director'', ''executive'']"
| "enum_domain F_expense_category =
     Some [''meal'', ''hotel'', ''transport'', ''airfare'', ''incidental'']"
| "enum_domain F_destination_type = Some [''domestic'', ''international'']"
| "enum_domain f = None"

fun integer_max :: "predicate_field \<Rightarrow> int option" where
  "integer_max F_amount_minor = Some 10000000"
| "integer_max F_booking_days_before = Some 365"
| "integer_max F_prior_same_day_category_spend_minor = Some 10000000"
| "integer_max F_daily_category_total_minor = Some 20000000"
| "integer_max f = None"

definition comparisons :: "predicate_operator list" where
  "comparisons = [Op_eq, Op_neq, Op_lt, Op_lte, Op_gt, Op_gte]"

definition operators_by_field :: "predicate_field \<Rightarrow> predicate_operator list" where
  "operators_by_field f =
     (if enum_domain f \<noteq> None then [Op_eq, Op_neq, Op_in, Op_not_in]
      else if integer_max f \<noteq> None then comparisons
      else if f = F_receipt_present then [Op_eq, Op_neq]
      else [Op_contains])"

text \<open>The type check of \<open>typed_predicate\<close> after the operator check, with its message.\<close>

definition typed_value_check :: "predicate \<Rightarrow> bool \<times> string" where
  "typed_value_check p =
     (case integer_max (p_field p) of
        Some maximum \<Rightarrow>
          ((case p_value p of VInt v \<Rightarrow> 0 \<le> v \<and> v \<le> maximum | _ \<Rightarrow> False),
           ''integer predicate value is out of domain'')
      | None \<Rightarrow>
          if p_field p = F_receipt_present then
            ((case p_value p of VBool b \<Rightarrow> True | _ \<Rightarrow> False),
             ''receipt predicate requires a Boolean'')
          else if p_field p = F_approval_roles_present then
            ((case p_value p of VStr s \<Rightarrow> s \<in> set [''manager'', ''director'', ''finance''] | _ \<Rightarrow> False),
             ''approval predicate requires a supported approval role'')
          else
            let domain = (case enum_domain (p_field p) of Some d \<Rightarrow> d | None \<Rightarrow> []) in
            if p_operator p \<in> set [Op_in, Op_not_in] then
              ((case p_value p of VTuple items \<Rightarrow> items \<noteq> [] \<and> list_all (\<lambda>i. i \<in> set domain) items
                | _ \<Rightarrow> False),
               ''membership requires a nonempty tuple from the field domain'')
            else
              ((case p_value p of VStr s \<Rightarrow> s \<in> set domain | _ \<Rightarrow> False),
               ''value is outside the field domain''))"

definition predicate_checks :: "predicate \<Rightarrow> (bool \<times> string) list" where
  "predicate_checks p =
     [((case p_value p of VSet _ \<Rightarrow> False | _ \<Rightarrow> True), ''Predicate''),
      (p_operator p \<in> set (operators_by_field (p_field p)),
       ''operator is invalid for this field''),
      typed_value_check p]"

abbreviation valid_predicate :: "predicate \<Rightarrow> bool" where
  "valid_predicate \<equiv> valid_by predicate_checks"

subsection \<open>Effects\<close>

definition effect_value_fits :: "effect_dimension \<Rightarrow> effect_value \<Rightarrow> bool" where
  "effect_value_fits d v =
     (case d of
        Eligibility \<Rightarrow> v \<in> {Allow, Deny}
      | ReceiptRequirement \<Rightarrow> v \<in> {Required, NotRequired}
      | ApprovalRequirement \<Rightarrow> v \<in> {NeedNone, NeedManager, NeedDirector, NeedFinance}
      | _ \<Rightarrow> (case v of Minor n \<Rightarrow> 0 \<le> n | _ \<Rightarrow> False))"

definition categorical :: "effect_dimension \<Rightarrow> bool" where
  "categorical d \<longleftrightarrow> d \<in> {Eligibility, ReceiptRequirement, ApprovalRequirement}"

definition validate_effect_value :: "effect_dimension \<Rightarrow> effect_value \<Rightarrow> bool \<times> string" where
  "validate_effect_value d v =
     (effect_value_fits d v,
      if categorical d then ''value is incompatible with effect dimension''
      else ''cap effect requires a nonnegative integer'')"

record effect =
  e_dimension :: effect_dimension
  e_value :: effect_value

definition effect_value_ok :: "effect_value \<Rightarrow> bool" where
  "effect_value_ok v = (case v of Minor n \<Rightarrow> non_negative n | _ \<Rightarrow> True)"

definition effect_checks :: "effect \<Rightarrow> (bool \<times> string) list" where
  "effect_checks e =
     [(effect_value_ok (e_value e), ''Effect''),
      validate_effect_value (e_dimension e) (e_value e)]"

abbreviation valid_effect :: "effect \<Rightarrow> bool" where
  "valid_effect \<equiv> valid_by effect_checks"

subsection \<open>Provenance, overrides and rules\<close>

record text_rule_provenance =
  tp_citation_id :: ident
  tp_span :: source_span

record session_revision_provenance =
  sp_proposal_id :: ident
  sp_operation_index :: int
  sp_confirmed_at :: timestamp
  sp_baseline_citation_ids :: "ident list"

datatype rule_provenance =
    TextCitation text_rule_provenance
  | SessionRevision session_revision_provenance

definition provenance_checks :: "rule_provenance \<Rightarrow> (bool \<times> string) list" where
  "provenance_checks p =
     (case p of
        TextCitation t \<Rightarrow>
          [(identifier_ok (tp_citation_id t) \<and> valid_by source_span_checks (tp_span t),
            ''TextRuleProvenance'')]
      | SessionRevision s \<Rightarrow>
          [(identifier_ok (sp_proposal_id s)
             \<and> 0 \<le> sp_operation_index s \<and> sp_operation_index s \<le> 2
             \<and> sp_baseline_citation_ids s \<noteq> []
             \<and> list_all identifier_ok (sp_baseline_citation_ids s),
            ''SessionRevisionProvenance'')])"

fun is_text_citation :: "rule_provenance \<Rightarrow> bool" where
  "is_text_citation (TextCitation t) = True"
| "is_text_citation (SessionRevision s) = False"

record override_ref =
  ov_dimension :: effect_dimension
  ov_target_rule_id :: ident

definition override_ref_checks :: "override_ref \<Rightarrow> (bool \<times> string) list" where
  "override_ref_checks ov = [(identifier_ok (ov_target_rule_id ov), ''OverrideRef'')]"

record rule_draft =
  r_description :: string
  r_when :: "predicate list"
  r_effects :: "effect list"
  r_overrides :: "override_ref list"
  r_provenance :: rule_provenance
  r_confidence_percent :: "int option"

definition effect_dims :: "effect list \<Rightarrow> effect_dimension list" where
  "effect_dims es = map e_dimension es"

definition rule_draft_checks :: "'a rule_draft_scheme \<Rightarrow> (bool \<times> string) list" where
  "rule_draft_checks r =
     [(nonempty_text (r_description r)
        \<and> list_all valid_predicate (r_when r)
        \<and> r_effects r \<noteq> [] \<and> list_all valid_effect (r_effects r)
        \<and> list_all (valid_by override_ref_checks) (r_overrides r)
        \<and> valid_by provenance_checks (r_provenance r)
        \<and> optional percentage_ok (r_confidence_percent r), ''RuleDraft''),
      (\<not> list_ex (\<lambda>p. p_field p = F_daily_category_total_minor) (r_when r),
       ''daily_category_total_minor is invariant-only''),
      (distinct (effect_dims (r_effects r)), ''a rule supplies at most one value per dimension''),
      (list_all (\<lambda>e. ov_dimension e \<in> set (effect_dims (r_effects r))) (r_overrides r),
       ''an override must target a dimension supplied by this rule''),
      (distinct (r_overrides r), ''duplicate override'')]"

record rule = rule_draft +
  r_rule_id :: ident
  r_revision :: int

definition rule_checks :: "rule \<Rightarrow> (bool \<times> string) list" where
  "rule_checks r =
     (identifier_ok (r_rule_id r) \<and> non_negative (r_revision r), ''Rule'') # rule_draft_checks r"

abbreviation valid_rule :: "rule \<Rightarrow> bool" where
  "valid_rule \<equiv> valid_by rule_checks"

datatype review_status = Provisional | SessionConfirmed

datatype clause_reason =
    UnsupportedVocabulary | UnsupportedLogic | AmbiguousLanguage | InvalidCitation
  | UnsupportedAggregation | UnsupportedCurrency

record unsupported_clause =
  uc_clause_id :: ident
  uc_span :: source_span
  uc_reason_code :: clause_reason
  uc_affected_dimensions :: "effect_dimension set"
  uc_when_hint :: "predicate list option"
  uc_review_status :: review_status

definition unsupported_clause_checks :: "unsupported_clause \<Rightarrow> (bool \<times> string) list" where
  "unsupported_clause_checks c =
     [(identifier_ok (uc_clause_id c) \<and> valid_by source_span_checks (uc_span c)
        \<and> uc_affected_dimensions c \<noteq> {}
        \<and> optional (list_all valid_predicate) (uc_when_hint c), ''UnsupportedClause''),
      (\<not> (case uc_when_hint c of None \<Rightarrow> False
           | Some hint \<Rightarrow> list_ex (\<lambda>p. p_field p = F_daily_category_total_minor) hint),
       ''unsupported-clause hints use stored facts only'')]"

subsection \<open>Documents\<close>

record policy_page =
  pp_page :: int
  pp_text :: string
  pp_start :: int
  pp_end :: int

definition policy_page_checks :: "policy_page \<Rightarrow> (bool \<times> string) list" where
  "policy_page_checks p =
     [(1 \<le> pp_page p \<and> non_negative (pp_start p) \<and> non_negative (pp_end p), ''PolicyPage''),
      (pp_start p \<le> pp_end p, ''page end must not precede start'')]"

datatype source_type = PastedText | BundledSample

record policy_document =
  pd_document_id :: ident
  pd_title :: string
  pd_source_type :: source_type
  pd_pages :: "policy_page list"
  pd_document_sha256 :: sha256

definition policy_document_checks :: "policy_document \<Rightarrow> (bool \<times> string) list" where
  "policy_document_checks d =
     [(identifier_ok (pd_document_id d) \<and> nonempty_text (pd_title d) \<and> pd_pages d \<noteq> []
        \<and> list_all (valid_by policy_page_checks) (pd_pages d)
        \<and> sha256_ok (pd_document_sha256 d), ''PolicyDocument''),
      (distinct (map pp_page (pd_pages d)), ''page numbers must be unique'')]"

subsection \<open>Rule sets and their override graph\<close>

datatype policy_kind = CompiledBaseline | StructuredRevision

record policy_ir =
  pi_policy_id :: ident
  pi_document_sha256 :: sha256
  pi_kind :: policy_kind
  pi_review_status :: review_status
  pi_rules :: "rule list"
  pi_unsupported_clauses :: "unsupported_clause list"

definition rules_by_id :: "rule list \<Rightarrow> (ident \<times> rule) list" where
  "rules_by_id rules = dict_by r_rule_id rules"

text \<open>\<open>graph[rule_id]\<close>: the targets of a rule's override edges, over every dimension.\<close>

definition override_targets :: "rule list \<Rightarrow> ident \<Rightarrow> ident list" where
  "override_targets rules rid =
     (case map_of (rules_by_id rules) rid of
        None \<Rightarrow> []
      | Some r \<Rightarrow> remdups (map ov_target_rule_id (r_overrides r)))"

definition override_edge_ok :: "rule list \<Rightarrow> override_ref \<Rightarrow> bool" where
  "override_edge_ok rules edge =
     (case map_of (rules_by_id rules) (ov_target_rule_id edge) of
        None \<Rightarrow> False
      | Some target \<Rightarrow> ov_dimension edge \<in> set (effect_dims (r_effects target)))"

definition policy_ir_checks :: "policy_ir \<Rightarrow> (bool \<times> string) list" where
  "policy_ir_checks p =
     [(identifier_ok (pi_policy_id p) \<and> sha256_ok (pi_document_sha256 p)
        \<and> list_all valid_rule (pi_rules p) \<and> length (pi_rules p) \<le> 12
        \<and> list_all (valid_by unsupported_clause_checks) (pi_unsupported_clauses p), ''PolicyIR''),
      (length (rules_by_id (pi_rules p)) = length (pi_rules p), ''rule IDs must be unique''),
      (\<not> (pi_kind p = CompiledBaseline
          \<and> list_ex (\<lambda>r. \<not> is_text_citation (r_provenance r)) (pi_rules p)),
       ''compiled baseline requires text citations''),
      (list_all (\<lambda>r. list_all (override_edge_ok (pi_rules p)) (r_overrides r)) (pi_rules p),
       ''override target and effect dimension must exist''),
      (ok (dfs_all ''override cycles are invalid'' (keys (rules_by_id (pi_rules p)))
             (override_targets (pi_rules p))),
       ''override cycles are invalid'')]"

abbreviation valid_policy_ir :: "policy_ir \<Rightarrow> bool" where
  "valid_policy_ir \<equiv> valid_by policy_ir_checks"

subsection \<open>Assertions and invariants\<close>

datatype target_kind = EffectTarget | ComplianceTarget

datatype assertion_operator = A_eq | A_neq | A_lte | A_gte

text \<open>An expected or observed value: an effect value or one of two compliance states.\<close>

datatype assertion_value = OfEffect effect_value | IsCompliant | IsNoncompliant

record assertion_content =
  a_assertion_id :: ident
  a_target_kind :: target_kind
  a_dimension :: effect_dimension
  a_operator :: assertion_operator
  a_expected_value :: assertion_value

definition assertion_value_ok :: "assertion_value \<Rightarrow> bool" where
  "assertion_value_ok v = (case v of OfEffect e \<Rightarrow> effect_value_ok e | _ \<Rightarrow> True)"

definition typed_assertion_checks :: "'a assertion_content_scheme \<Rightarrow> (bool \<times> string) list" where
  "typed_assertion_checks a =
     (if a_target_kind a = ComplianceTarget then
        [(\<not> (a_dimension a = Eligibility
              \<or> a_expected_value a \<notin> {IsCompliant, IsNoncompliant}
              \<or> a_operator a \<notin> {A_eq, A_neq}),
          ''compliance assertion requires a requirement dimension and compliance value'')]
      else
        [(case a_expected_value a of
            OfEffect v \<Rightarrow> validate_effect_value (a_dimension a) v
          | _ \<Rightarrow> (False, snd (validate_effect_value (a_dimension a) Allow))),
         (\<not> (categorical (a_dimension a) \<and> a_operator a \<notin> {A_eq, A_neq}),
          ''categorical effect assertions support only eq and neq'')])"

definition assertion_content_checks :: "'a assertion_content_scheme \<Rightarrow> (bool \<times> string) list" where
  "assertion_content_checks a =
     (identifier_ok (a_assertion_id a) \<and> assertion_value_ok (a_expected_value a), ''AssertionContent'')
     # typed_assertion_checks a"

datatype assertion_origin = OriginGold | OriginSessionConfirmed | OriginMechanical

record assertion = assertion_content +
  a_origin :: assertion_origin
  a_source_invariant_id :: "ident option"
  a_gold_label_id :: "ident option"
  a_mechanical_relation_id :: "ident option"

definition origin_reference :: "assertion \<Rightarrow> ident option" where
  "origin_reference a =
     (case a_origin a of
        OriginGold \<Rightarrow> a_gold_label_id a
      | OriginSessionConfirmed \<Rightarrow> a_source_invariant_id a
      | OriginMechanical \<Rightarrow> a_mechanical_relation_id a)"

definition assertion_checks :: "assertion \<Rightarrow> (bool \<times> string) list" where
  "assertion_checks a =
     (optional identifier_ok (a_source_invariant_id a) \<and> optional identifier_ok (a_gold_label_id a)
        \<and> optional identifier_ok (a_mechanical_relation_id a), ''Assertion'')
     # assertion_content_checks a
     @ [(\<not> (origin_reference a = None
            \<or> length (filter (\<lambda>v. v \<noteq> None)
                 [a_gold_label_id a, a_source_invariant_id a, a_mechanical_relation_id a]) \<noteq> 1),
         ''assertion requires exactly its independent origin reference'')]"

abbreviation valid_assertion :: "assertion \<Rightarrow> bool" where
  "valid_assertion \<equiv> valid_by assertion_checks"

text \<open>
  \<open>InvariantDraft\<close> and \<open>Invariant\<close> differ by the constant field \<open>origin\<close> only and share one record.
\<close>

record invariant =
  i_invariant_id :: ident
  i_description :: string
  i_when :: "predicate list"
  i_assertion :: assertion
  i_severity :: severity

definition invariant_checks :: "invariant \<Rightarrow> (bool \<times> string) list" where
  "invariant_checks i =
     [(identifier_ok (i_invariant_id i) \<and> nonempty_text (i_description i)
        \<and> list_all valid_predicate (i_when i) \<and> valid_assertion (i_assertion i), ''Invariant''),
      (\<not> (a_origin (i_assertion i) \<noteq> OriginSessionConfirmed
          \<or> a_source_invariant_id (i_assertion i) \<noteq> Some (i_invariant_id i)),
       ''invariant assertion must reference this session invariant'')]"

abbreviation valid_invariant :: "invariant \<Rightarrow> bool" where
  "valid_invariant \<equiv> valid_by invariant_checks"

record invariant_suggestion =
  s_invariant_id :: ident
  s_description :: string
  s_rationale :: string
  s_when :: "predicate list"
  s_assertion :: assertion_content

definition invariant_suggestion_checks :: "invariant_suggestion \<Rightarrow> (bool \<times> string) list" where
  "invariant_suggestion_checks s =
     [(identifier_ok (s_invariant_id s) \<and> nonempty_text (s_description s)
        \<and> nonempty_text (s_rationale s) \<and> list_all valid_predicate (s_when s)
        \<and> valid_by assertion_content_checks (s_assertion s), ''InvariantSuggestion'')]"

text \<open>
  \<open>_suggestion_semantics\<close>. The code renders every value by \<open>json.dumps\<close> before it compares;
  the rendering separates strings, integers, booleans and lists, so the model compares the values.
\<close>

definition membership_normal :: "predicate \<Rightarrow> pyval" where
  "membership_normal p =
     (case p_value p of
        VTuple items \<Rightarrow>
          if p_operator p \<in> {Op_in, Op_not_in} then VTuple (sorted_unique items) else VTuple items
      | v \<Rightarrow> v)"

type_synonym suggestion_semantics =
  "(predicate_field \<times> predicate_operator \<times> pyval) set \<times> target_kind \<times> effect_dimension
   \<times> assertion_operator \<times> assertion_value"

definition suggestion_semantics :: "invariant_suggestion \<Rightarrow> suggestion_semantics" where
  "suggestion_semantics s =
     (set (map (\<lambda>p. (p_field p, p_operator p, membership_normal p)) (s_when s)),
      a_target_kind (s_assertion s), a_dimension (s_assertion s), a_operator (s_assertion s),
      a_expected_value (s_assertion s))"

definition validate_suggestions ::
  "bool \<Rightarrow> invariant_suggestion list \<Rightarrow> (bool \<times> string) list" where
  "validate_suggestions allow_empty suggestions =
     (if suggestions = [] \<and> allow_empty then []
      else
        [(3 \<le> length suggestions \<and> length suggestions \<le> 5,
          ''invariant suggestions require three to five items''),
         (distinct (map s_invariant_id suggestions), ''suggestion IDs must be unique''),
         (distinct (map (a_assertion_id \<circ> s_assertion) suggestions),
          ''suggestion assertion IDs must be unique''),
         (distinct (map suggestion_semantics suggestions), ''suggestion semantics must be unique'')])"

definition invariant_suggestions_checks :: "invariant_suggestion list \<Rightarrow> (bool \<times> string) list" where
  "invariant_suggestions_checks drafts =
     (list_all (valid_by invariant_suggestion_checks) drafts
        \<and> 3 \<le> length drafts \<and> length drafts \<le> 5, ''InvariantSuggestions'')
     # validate_suggestions False drafts"

subsection \<open>Contracts, extraction and compilation\<close>

record policy_contract =
  pc_contract_id :: ident
  pc_required_dimensions :: "effect_dimension set"
  pc_invariants :: "invariant list"

definition policy_contract_checks :: "policy_contract \<Rightarrow> (bool \<times> string) list" where
  "policy_contract_checks c =
     [(identifier_ok (pc_contract_id c) \<and> pc_required_dimensions c \<noteq> {}
        \<and> list_all valid_invariant (pc_invariants c)
        \<and> 3 \<le> length (pc_invariants c) \<and> length (pc_invariants c) \<le> 5, ''PolicyContract''),
      (distinct (map i_invariant_id (pc_invariants c)), ''invariant IDs must be unique''),
      (distinct (map (a_assertion_id \<circ> i_assertion) (pc_invariants c)),
       ''invariant assertion IDs must be unique'')]"

abbreviation valid_contract :: "policy_contract \<Rightarrow> bool" where
  "valid_contract \<equiv> valid_by policy_contract_checks"

record policy_extraction =
  px_document_sha256 :: sha256
  px_rules :: "rule_draft list"
  px_unsupported_clauses :: "unsupported_clause list"

definition policy_extraction_checks :: "policy_extraction \<Rightarrow> (bool \<times> string) list" where
  "policy_extraction_checks x =
     [(sha256_ok (px_document_sha256 x) \<and> list_all (valid_by rule_draft_checks) (px_rules x)
        \<and> list_all (valid_by unsupported_clause_checks) (px_unsupported_clauses x),
       ''PolicyExtraction'')]"

record policy_compilation =
  pcomp_policy :: policy_ir
  pcomp_excluded_rule_count :: int
  pcomp_invariant_drafts :: "invariant_suggestion list"

definition policy_compilation_checks :: "policy_compilation \<Rightarrow> (bool \<times> string) list" where
  "policy_compilation_checks c =
     (valid_policy_ir (pcomp_policy c) \<and> non_negative (pcomp_excluded_rule_count c)
        \<and> list_all (valid_by invariant_suggestion_checks) (pcomp_invariant_drafts c)
        \<and> length (pcomp_invariant_drafts c) \<le> 5, ''PolicyCompilation'')
     # validate_suggestions True (pcomp_invariant_drafts c)"

subsection \<open>What the rule-set validator accepts\<close>

text \<open>The override relation of a rule set, without dictionaries or search.\<close>

definition override_relation :: "rule list \<Rightarrow> (ident \<times> ident) set" where
  "override_relation rules =
     {(r_rule_id r, ov_target_rule_id e) | r e. r \<in> set rules \<and> e \<in> set (r_overrides r)}"

definition override_edge_exists :: "rule list \<Rightarrow> override_ref \<Rightarrow> bool" where
  "override_edge_exists rules edge \<longleftrightarrow>
     (\<exists>target \<in> set rules. r_rule_id target = ov_target_rule_id edge
        \<and> ov_dimension edge \<in> e_dimension ` set (r_effects target))"

lemma rules_by_id_unique:
  "length (rules_by_id rules) = length rules \<longleftrightarrow> distinct (map r_rule_id rules)"
  by (simp add: rules_by_id_def length_dict_by_iff)

lemma override_edge_ok_iff:
  assumes "distinct (map r_rule_id rules)"
  shows "override_edge_ok rules edge \<longleftrightarrow> override_edge_exists rules edge"
proof (cases "map_of (rules_by_id rules) (ov_target_rule_id edge)")
  case None
  then have "ov_target_rule_id edge \<notin> r_rule_id ` set rules"
    by (simp add: rules_by_id_def map_of_dict_by_None_iff)
  with None show ?thesis
    by (simp add: override_edge_ok_def override_edge_exists_def) (metis imageI)
next
  case (Some target)
  then have "target \<in> set rules" "r_rule_id target = ov_target_rule_id edge"
    by (auto simp: rules_by_id_def dest: map_of_dict_by_SomeD)
  moreover have "t = target" if "t \<in> set rules" "r_rule_id t = ov_target_rule_id edge" for t
    using that Some map_of_dict_by_mem [OF assms that(1)] by (simp add: rules_by_id_def)
  ultimately have "override_edge_exists rules edge \<longleftrightarrow>
      ov_dimension edge \<in> e_dimension ` set (r_effects target)"
    unfolding override_edge_exists_def by blast
  with Some show ?thesis
    by (simp add: override_edge_ok_def effect_dims_def)
qed

lemma set_override_targets:
  assumes "distinct (map r_rule_id rules)" and "r \<in> set rules"
  shows "set (override_targets rules (r_rule_id r)) = ov_target_rule_id ` set (r_overrides r)"
  using map_of_dict_by_mem [OF assms] by (simp add: override_targets_def rules_by_id_def)

lemma set_rule_keys [simp]: "set (keys (rules_by_id rules)) = r_rule_id ` set rules"
  by (simp add: rules_by_id_def)

lemma override_edges_eq:
  assumes "distinct (map r_rule_id rules)"
  shows "edges (keys (rules_by_id rules)) (override_targets rules) = override_relation rules"
proof (intro equalityI subrelI)
  fix a b
  assume "(a, b) \<in> edges (keys (rules_by_id rules)) (override_targets rules)"
  then obtain r where r: "r \<in> set rules" "a = r_rule_id r" "b \<in> set (override_targets rules a)"
    by auto
  then show "(a, b) \<in> override_relation rules"
    using set_override_targets [OF assms r(1)] by (auto simp: override_relation_def)
next
  fix a b
  assume "(a, b) \<in> override_relation rules"
  then obtain r e where r: "r \<in> set rules" "e \<in> set (r_overrides r)" "a = r_rule_id r"
    "b = ov_target_rule_id e"
    by (auto simp: override_relation_def)
  then show "(a, b) \<in> edges (keys (rules_by_id rules)) (override_targets rules)"
    using set_override_targets [OF assms r(1)] by auto
qed

lemma override_graph_closed:
  assumes "distinct (map r_rule_id rules)"
    and "\<forall>r \<in> set rules. \<forall>e \<in> set (r_overrides r). override_edge_exists rules e"
    and "rid \<in> set (keys (rules_by_id rules))"
  shows "set (override_targets rules rid) \<subseteq> set (keys (rules_by_id rules))"
proof -
  from assms(3) obtain r where r: "r \<in> set rules" "rid = r_rule_id r" by auto
  have "ov_target_rule_id e \<in> r_rule_id ` set rules" if "e \<in> set (r_overrides r)" for e
    using assms(2) r(1) that unfolding override_edge_exists_def by (metis image_eqI)
  then show ?thesis
    using set_override_targets [OF assms(1) r(1)] r(2) by auto
qed

lemma policy_graph_check_iff:
  assumes "distinct (map r_rule_id rules)"
    and "\<forall>r \<in> set rules. \<forall>e \<in> set (r_overrides r). override_edge_exists rules e"
  shows "ok (dfs_all msg (keys (rules_by_id rules)) (override_targets rules)) \<longleftrightarrow>
    acyclic (override_relation rules)"
  using dfs_all_iff_acyclic [OF override_graph_closed [OF assms]] override_edges_eq [OF assms(1)]
  by simp

definition policy_fields_ok :: "policy_ir \<Rightarrow> bool" where
  "policy_fields_ok p \<longleftrightarrow>
     identifier_ok (pi_policy_id p) \<and> sha256_ok (pi_document_sha256 p)
     \<and> (\<forall>r \<in> set (pi_rules p). valid_rule r) \<and> length (pi_rules p) \<le> 12
     \<and> (\<forall>c \<in> set (pi_unsupported_clauses p). valid_by unsupported_clause_checks c)"

lemma valid_policy_ir_iff:
  "valid_policy_ir p \<longleftrightarrow>
     policy_fields_ok p \<and> distinct (map r_rule_id (pi_rules p))
     \<and> (pi_kind p = CompiledBaseline \<longrightarrow> (\<forall>r \<in> set (pi_rules p). is_text_citation (r_provenance r)))
     \<and> (\<forall>r \<in> set (pi_rules p). \<forall>e \<in> set (r_overrides r). override_edge_exists (pi_rules p) e)
     \<and> acyclic (override_relation (pi_rules p))" (is "?lhs \<longleftrightarrow> ?rhs")
proof (cases "distinct (map r_rule_id (pi_rules p))
    \<and> (\<forall>r \<in> set (pi_rules p). \<forall>e \<in> set (r_overrides r). override_edge_exists (pi_rules p) e)")
  case True
  then show ?thesis
    by (simp add: valid_by_def policy_ir_checks_def policy_fields_ok_def rules_by_id_unique
        policy_graph_check_iff override_edge_ok_iff list_all_iff list_ex_iff)
next
  case False
  then show ?thesis
    by (auto simp: valid_by_def policy_ir_checks_def rules_by_id_unique override_edge_ok_iff
        list_all_iff)
qed

lemma valid_policy_rules:
  "valid_policy_ir p \<Longrightarrow> r \<in> set (pi_rules p) \<Longrightarrow> valid_rule r"
  by (simp add: valid_policy_ir_iff policy_fields_ok_def)

lemma valid_policy_distinct: "valid_policy_ir p \<Longrightarrow> distinct (map r_rule_id (pi_rules p))"
  by (simp add: valid_policy_ir_iff)

lemma valid_rule_predicates: "valid_rule r \<Longrightarrow> p \<in> set (r_when r) \<Longrightarrow> valid_predicate p"
  by (simp add: valid_by_def rule_checks_def rule_draft_checks_def list_all_iff)

lemma valid_rule_effects: "valid_rule r \<Longrightarrow> e \<in> set (r_effects r) \<Longrightarrow> valid_effect e"
  by (simp add: valid_by_def rule_checks_def rule_draft_checks_def list_all_iff)

lemma valid_rule_distinct_dims: "valid_rule r \<Longrightarrow> distinct (effect_dims (r_effects r))"
  by (simp add: valid_by_def rule_checks_def rule_draft_checks_def)

lemma valid_rule_no_daily_total:
  "valid_rule r \<Longrightarrow> p \<in> set (r_when r) \<Longrightarrow> p_field p \<noteq> F_daily_category_total_minor"
  by (auto simp: valid_by_def rule_checks_def rule_draft_checks_def list_ex_iff)

lemma valid_effect_fits: "valid_effect e \<Longrightarrow> effect_value_fits (e_dimension e) (e_value e)"
  by (simp add: valid_by_def effect_checks_def validate_effect_value_def)

end
