(* ===== verification/Scenario_Models.thy ===== *)
theory Scenario_Models
  imports Policy_Models
begin

section \<open>Facts, scenarios, suites and coverage (domain/models/scenario.py)\<close>

text \<open>
  Records and checks of the scenario classes. \<open>ScenarioCandidate\<close> and \<open>Scenario\<close> have the same
  fields but for their identifier, so both extend one base record.
\<close>

subsection \<open>Facts\<close>

record scenario_facts =
  f_employee_role :: employee_role
  f_expense_category :: expense_category
  f_amount_minor :: int
  f_destination_type :: destination_type
  f_booking_days_before :: int
  f_receipt_present :: bool
  f_approval_roles_present :: "approval_role set"
  f_prior_same_day_category_spend_minor :: int

definition scenario_facts_checks :: "scenario_facts \<Rightarrow> (bool \<times> string) list" where
  "scenario_facts_checks f =
     [(money_minor_ok (f_amount_minor f)
        \<and> 0 \<le> f_booking_days_before f \<and> f_booking_days_before f \<le> 365
        \<and> money_minor_ok (f_prior_same_day_category_spend_minor f), ''ScenarioFacts'')]"

abbreviation valid_facts :: "scenario_facts \<Rightarrow> bool" where
  "valid_facts \<equiv> valid_by scenario_facts_checks"

subsection \<open>Scenarios and candidates\<close>

datatype scenario_origin = FromGold | FromSession | FromMechanical | FromLlmExploratory

datatype scenario_category = Normal | Boundary | Adversarial

datatype partition = Visible | Holdout

record scenario_base =
  sc_category :: scenario_category
  sc_origins :: "scenario_origin set"
  sc_facts :: scenario_facts
  sc_target_rule_ids :: "ident list"
  sc_target_invariant_ids :: "ident list"
  sc_assertions :: "assertion list"
  sc_protected :: bool
  sc_partition :: partition

record scenario_candidate = scenario_base +
  sc_candidate_id :: ident

record scenario = scenario_base +
  sc_scenario_id :: ident

fun origin_mapping :: "assertion_origin \<Rightarrow> scenario_origin" where
  "origin_mapping OriginGold = FromGold"
| "origin_mapping OriginSessionConfirmed = FromSession"
| "origin_mapping OriginMechanical = FromMechanical"

definition independent_assertions_checks :: "'a scenario_base_scheme \<Rightarrow> (bool \<times> string) list" where
  "independent_assertions_checks s =
     [(sc_origins s \<noteq> {} \<and> valid_facts (sc_facts s)
        \<and> list_all identifier_ok (sc_target_rule_ids s)
        \<and> list_all identifier_ok (sc_target_invariant_ids s)
        \<and> list_all valid_assertion (sc_assertions s), ''Scenario''),
      (list_all (\<lambda>a. origin_mapping (a_origin a) \<in> sc_origins s) (sc_assertions s),
       ''scored assertions require independently sourced scenario origins''),
      (distinct (map a_assertion_id (sc_assertions s)),
       ''assertion IDs must be unique within a scenario'')]"

definition scenario_candidate_checks :: "scenario_candidate \<Rightarrow> (bool \<times> string) list" where
  "scenario_candidate_checks c =
     (identifier_ok (sc_candidate_id c), ''ScenarioCandidate'') # independent_assertions_checks c"

definition scenario_checks :: "scenario \<Rightarrow> (bool \<times> string) list" where
  "scenario_checks s =
     (identifier_ok (sc_scenario_id s), ''Scenario'') # independent_assertions_checks s"

abbreviation valid_scenario :: "scenario \<Rightarrow> bool" where
  "valid_scenario \<equiv> valid_by scenario_checks"

abbreviation valid_candidate :: "scenario_candidate \<Rightarrow> bool" where
  "valid_candidate \<equiv> valid_by scenario_candidate_checks"

subsection \<open>Suites\<close>

datatype rejection_reason =
  InvalidFacts | InvalidAssertion | Duplicate | BudgetExceeded | IncompatibleAssertions

record scenario_rejection =
  rj_candidate_id :: ident
  rj_reason_code :: rejection_reason
  rj_duplicate_of :: "ident option"

definition scenario_rejection_checks :: "scenario_rejection \<Rightarrow> (bool \<times> string) list" where
  "scenario_rejection_checks r =
     [(identifier_ok (rj_candidate_id r) \<and> optional identifier_ok (rj_duplicate_of r),
       ''ScenarioRejection'')]"

record suite_statistics =
  st_generated_count :: int
  st_rejected_count :: int
  st_duplicate_count :: int
  st_rejections :: "scenario_rejection list"

definition suite_statistics_checks :: "suite_statistics \<Rightarrow> (bool \<times> string) list" where
  "suite_statistics_checks s =
     [(non_negative (st_generated_count s) \<and> non_negative (st_rejected_count s)
        \<and> non_negative (st_duplicate_count s)
        \<and> list_all (valid_by scenario_rejection_checks) (st_rejections s), ''SuiteStatistics'')]"

record scenario_suite =
  ss_suite_id :: ident
  ss_content_sha256 :: sha256
  ss_seed :: int
  ss_document_sha256 :: sha256
  ss_policy_contract_sha256 :: sha256
  ss_rule_set_sha256 :: sha256
  ss_engine_version :: string
  ss_scenarios :: "scenario list"
  ss_statistics :: suite_statistics

definition scenario_suite_checks :: "scenario_suite \<Rightarrow> (bool \<times> string) list" where
  "scenario_suite_checks s =
     [(identifier_ok (ss_suite_id s) \<and> sha256_ok (ss_content_sha256 s) \<and> non_negative (ss_seed s)
        \<and> sha256_ok (ss_document_sha256 s) \<and> sha256_ok (ss_policy_contract_sha256 s)
        \<and> sha256_ok (ss_rule_set_sha256 s) \<and> nonempty_text (ss_engine_version s)
        \<and> list_all valid_scenario (ss_scenarios s)
        \<and> 1 \<le> length (ss_scenarios s) \<and> length (ss_scenarios s) \<le> 15
        \<and> valid_by suite_statistics_checks (ss_statistics s), ''ScenarioSuite''),
      (distinct (map sc_scenario_id (ss_scenarios s)), ''scenario IDs must be unique'')]"

abbreviation valid_suite :: "scenario_suite \<Rightarrow> bool" where
  "valid_suite \<equiv> valid_by scenario_suite_checks"

subsection \<open>Coverage\<close>

datatype coverage_target = TargetInvariant | TargetPredicateBranch | TargetRule

fun coverage_target_name :: "coverage_target \<Rightarrow> string" where
  "coverage_target_name TargetRule = ''rule''"
| "coverage_target_name TargetInvariant = ''invariant''"
| "coverage_target_name TargetPredicateBranch = ''predicate_branch''"

record coverage_evidence =
  ce_target_kind :: coverage_target
  ce_target_id :: ident
  ce_scenario_ids :: "ident list"
  ce_predicate_index :: "int option"
  ce_predicate_outcome :: "bool option"

definition coverage_evidence_checks :: "coverage_evidence \<Rightarrow> (bool \<times> string) list" where
  "coverage_evidence_checks e =
     (let branch = (ce_target_kind e = TargetPredicateBranch) in
      [(identifier_ok (ce_target_id e) \<and> list_all identifier_ok (ce_scenario_ids e)
         \<and> optional non_negative (ce_predicate_index e), ''CoverageEvidence''),
       (branch = (ce_predicate_index e \<noteq> None \<and> ce_predicate_outcome e \<noteq> None),
        ''predicate branch evidence requires index and outcome''),
       (\<not> (\<not> branch \<and> (ce_predicate_index e \<noteq> None \<or> ce_predicate_outcome e \<noteq> None)),
        ''rule and invariant evidence do not use branch coordinates'')])"

datatype coverage_status = CoveragePending | CoverageSatisfied | CoverageLimitExceeded

record coverage_snapshot =
  cs_total_rules :: int
  cs_covered_rules :: int
  cs_total_invariants :: int
  cs_covered_invariants :: int
  cs_total_predicate_branches :: int
  cs_covered_predicate_branches :: int
  cs_evidence :: "coverage_evidence list"
  cs_missing_rule_ids :: "ident list"
  cs_missing_invariant_ids :: "ident list"
  cs_targeted_cycles :: int
  cs_status :: coverage_status

definition coverage_snapshot_checks :: "coverage_snapshot \<Rightarrow> (bool \<times> string) list" where
  "coverage_snapshot_checks c =
     [(non_negative (cs_total_rules c) \<and> non_negative (cs_covered_rules c)
        \<and> non_negative (cs_total_invariants c) \<and> non_negative (cs_covered_invariants c)
        \<and> non_negative (cs_total_predicate_branches c)
        \<and> non_negative (cs_covered_predicate_branches c)
        \<and> list_all (valid_by coverage_evidence_checks) (cs_evidence c)
        \<and> list_all identifier_ok (cs_missing_rule_ids c)
        \<and> list_all identifier_ok (cs_missing_invariant_ids c)
        \<and> 0 \<le> cs_targeted_cycles c \<and> cs_targeted_cycles c \<le> 1, ''CoverageSnapshot''),
      (\<not> (cs_covered_rules c > cs_total_rules c
          \<or> cs_covered_invariants c > cs_total_invariants c
          \<or> cs_covered_predicate_branches c > cs_total_predicate_branches c),
       ''covered count cannot exceed total''),
      (\<not> (cs_status c = CoverageSatisfied
          \<and> (cs_covered_rules c \<noteq> cs_total_rules c
             \<or> cs_covered_invariants c \<noteq> cs_total_invariants c
             \<or> cs_missing_rule_ids c \<noteq> [] \<or> cs_missing_invariant_ids c \<noteq> [])),
       ''minimum rule and invariant coverage is required'')]"

abbreviation valid_coverage :: "coverage_snapshot \<Rightarrow> bool" where
  "valid_coverage \<equiv> valid_by coverage_snapshot_checks"

subsection \<open>Requests\<close>

record generate_request =
  gr_policy :: policy_ir
  gr_contract :: policy_contract
  gr_seed :: int
  gr_scenario_budget :: int

definition generate_initial_checks :: "'a generate_request_scheme \<Rightarrow> (bool \<times> string) list" where
  "generate_initial_checks g =
     [(valid_policy_ir (gr_policy g) \<and> valid_contract (gr_contract g) \<and> non_negative (gr_seed g)
        \<and> 1 \<le> gr_scenario_budget g \<and> gr_scenario_budget g \<le> 15,
       ''GenerateInitialScenariosRequest'')]"

record generate_targeted_request = generate_request +
  gt_existing_candidates :: "scenario_candidate list"
  gt_coverage :: coverage_snapshot
  gt_targeted_cycle :: int

definition generate_targeted_checks :: "generate_targeted_request \<Rightarrow> (bool \<times> string) list" where
  "generate_targeted_checks g =
     (list_all valid_candidate (gt_existing_candidates g) \<and> valid_coverage (gt_coverage g)
        \<and> gt_targeted_cycle g = 1, ''GenerateTargetedScenariosRequest'')
     # generate_initial_checks g"

record assemble_suite_request =
  as_suite_id :: ident
  as_document_sha256 :: sha256
  as_policy_contract_sha256 :: sha256
  as_rule_set_sha256 :: sha256
  as_engine_version :: string
  as_seed :: int
  as_candidates :: "scenario_candidate list"

definition assemble_suite_checks :: "assemble_suite_request \<Rightarrow> (bool \<times> string) list" where
  "assemble_suite_checks a =
     [(identifier_ok (as_suite_id a) \<and> sha256_ok (as_document_sha256 a)
        \<and> sha256_ok (as_policy_contract_sha256 a) \<and> sha256_ok (as_rule_set_sha256 a)
        \<and> nonempty_text (as_engine_version a) \<and> non_negative (as_seed a)
        \<and> list_all valid_candidate (as_candidates a), ''AssembleSuiteRequest'')]"

subsection \<open>Consequences the other components use\<close>

lemma valid_suite_scenarios: "valid_suite s \<Longrightarrow> c \<in> set (ss_scenarios s) \<Longrightarrow> valid_scenario c"
  by (simp add: valid_by_def scenario_suite_checks_def list_all_iff)

lemma valid_suite_distinct: "valid_suite s \<Longrightarrow> distinct (map sc_scenario_id (ss_scenarios s))"
  by (simp add: valid_by_def scenario_suite_checks_def)

lemma valid_scenario_facts: "valid_scenario s \<Longrightarrow> valid_facts (sc_facts s)"
  by (simp add: valid_by_def scenario_checks_def independent_assertions_checks_def)

lemma valid_scenario_assertions: "valid_scenario s \<Longrightarrow> a \<in> set (sc_assertions s) \<Longrightarrow> valid_assertion a"
  by (simp add: valid_by_def scenario_checks_def independent_assertions_checks_def list_all_iff)

lemma valid_scenario_id: "valid_scenario s \<Longrightarrow> identifier_ok (sc_scenario_id s)"
  by (simp add: valid_by_def scenario_checks_def)

lemma valid_facts_iff:
  "valid_facts f \<longleftrightarrow>
     0 \<le> f_amount_minor f \<and> f_amount_minor f \<le> 10000000
     \<and> 0 \<le> f_booking_days_before f \<and> f_booking_days_before f \<le> 365
     \<and> 0 \<le> f_prior_same_day_category_spend_minor f
     \<and> f_prior_same_day_category_spend_minor f \<le> 10000000"
  by (auto simp: valid_by_def scenario_facts_checks_def money_minor_ok_def)

lemma valid_contract_invariants:
  "valid_contract c \<Longrightarrow> i \<in> set (pc_invariants c) \<Longrightarrow> valid_invariant i"
  by (simp add: valid_by_def policy_contract_checks_def list_all_iff)

lemma valid_contract_distinct:
  "valid_contract c \<Longrightarrow> distinct (map i_invariant_id (pc_invariants c))"
  "valid_contract c \<Longrightarrow> distinct (map (\<lambda>i. a_assertion_id (i_assertion i)) (pc_invariants c))"
  by (simp_all add: valid_by_def policy_contract_checks_def comp_def)

lemma valid_invariant_predicates: "valid_invariant i \<Longrightarrow> p \<in> set (i_when i) \<Longrightarrow> valid_predicate p"
  by (simp add: valid_by_def invariant_checks_def list_all_iff)

lemma valid_invariant_assertion: "valid_invariant i \<Longrightarrow> valid_assertion (i_assertion i)"
  by (simp add: valid_by_def invariant_checks_def)

end
