(* ===== verification/Evaluation_Models.thy ===== *)
theory Evaluation_Models
  imports Scenario_Models
begin

section \<open>Evaluation evidence and reports (domain/models/evaluation.py)\<close>

text \<open>Records and checks of the evidence classes the deterministic evaluator produces.\<close>

subsection \<open>Traces\<close>

record predicate_result =
  pr_rule_id :: ident
  pr_predicate_index :: int
  pr_matched :: bool

definition predicate_result_checks :: "predicate_result \<Rightarrow> (bool \<times> string) list" where
  "predicate_result_checks p =
     [(identifier_ok (pr_rule_id p) \<and> non_negative (pr_predicate_index p), ''PredicateResult'')]"

record dimension_result =
  dr_dimension :: effect_dimension
  dr_status :: effect_status
  dr_value :: "effect_value option"
  dr_conflicting_values :: "effect_value list"
  dr_applicable_rule_ids :: "ident list"
  dr_overridden_rule_ids :: "ident list"
  dr_unsupported_clause_ids :: "ident list"

definition dimension_result_checks :: "dimension_result \<Rightarrow> (bool \<times> string) list" where
  "dimension_result_checks d =
     [(optional effect_value_ok (dr_value d) \<and> list_all effect_value_ok (dr_conflicting_values d)
        \<and> list_all identifier_ok (dr_applicable_rule_ids d)
        \<and> list_all identifier_ok (dr_overridden_rule_ids d)
        \<and> list_all identifier_ok (dr_unsupported_clause_ids d), ''DimensionResult''),
      ((dr_status d = EValue) = (dr_value d \<noteq> None),
       ''only VALUE results carry a resolved value'')]
     @ (case dr_value d of None \<Rightarrow> [] | Some v \<Rightarrow> [validate_effect_value (dr_dimension d) v])
     @ map (validate_effect_value (dr_dimension d)) (dr_conflicting_values d)
     @ (if dr_status d = EConflict then
          [(2 \<le> length (remdups (dr_conflicting_values d)),
            ''conflict requires at least two distinct values'')]
        else
          [(dr_conflicting_values d = [], ''only CONFLICT results carry conflicting values'')])"

abbreviation valid_dimension_result :: "dimension_result \<Rightarrow> bool" where
  "valid_dimension_result \<equiv> valid_by dimension_result_checks"

record compliance_result =
  cr_dimension :: effect_dimension
  cr_status :: compliance_status

definition compliance_result_checks :: "compliance_result \<Rightarrow> (bool \<times> string) list" where
  "compliance_result_checks c = [(cr_dimension c \<noteq> Eligibility, ''ComplianceResult'')]"

record assertion_result =
  ar_assertion_id :: ident
  ar_status :: assertion_status
  ar_actual_value :: "assertion_value option"

definition assertion_result_checks :: "assertion_result \<Rightarrow> (bool \<times> string) list" where
  "assertion_result_checks a =
     [(identifier_ok (ar_assertion_id a) \<and> optional assertion_value_ok (ar_actual_value a),
       ''AssertionResult'')]"

record evaluation_trace =
  et_scenario_id :: ident
  et_fired_rule_ids :: "ident list"
  et_predicate_results :: "predicate_result list"
  et_resolved_effects :: "dimension_result list"
  et_compliance_values :: "compliance_result list"
  et_source_citations :: "rule_provenance list"
  et_trace_sha256 :: sha256

definition evaluation_trace_checks :: "evaluation_trace \<Rightarrow> (bool \<times> string) list" where
  "evaluation_trace_checks t =
     [(identifier_ok (et_scenario_id t) \<and> list_all identifier_ok (et_fired_rule_ids t)
        \<and> list_all (valid_by predicate_result_checks) (et_predicate_results t)
        \<and> list_all valid_dimension_result (et_resolved_effects t)
        \<and> list_all (valid_by compliance_result_checks) (et_compliance_values t)
        \<and> list_all (valid_by provenance_checks) (et_source_citations t)
        \<and> sha256_ok (et_trace_sha256 t), ''EvaluationTrace'')]"

abbreviation valid_trace :: "evaluation_trace \<Rightarrow> bool" where
  "valid_trace \<equiv> valid_by evaluation_trace_checks"

subsection \<open>Scenario evaluations and reports\<close>

datatype verdict = VPass | VFail | VUnscored | VInconclusive | VError

record scenario_evaluation =
  se_scenario_id :: ident
  se_trace :: evaluation_trace
  se_assertion_results :: "assertion_result list"
  se_verdict :: verdict
  se_error :: "public_error option"

definition scenario_evaluation_checks :: "scenario_evaluation \<Rightarrow> (bool \<times> string) list" where
  "scenario_evaluation_checks s =
     [(identifier_ok (se_scenario_id s) \<and> valid_trace (se_trace s)
        \<and> list_all (valid_by assertion_result_checks) (se_assertion_results s)
        \<and> optional (valid_by public_error_checks) (se_error s), ''ScenarioEvaluation''),
      (et_scenario_id (se_trace s) = se_scenario_id s, ''trace must belong to this scenario''),
      (\<not> (se_verdict s \<in> {VPass, VFail} \<and> se_assertion_results s = []),
       ''PASS or FAIL requires an independent assertion result''),
      (\<not> (se_verdict s = VPass \<and> list_ex (\<lambda>a. ar_status a \<noteq> APass) (se_assertion_results s)),
       ''PASS cannot contain unsuccessful assertions''),
      (\<not> (se_verdict s = VFail \<and> \<not> list_ex (\<lambda>a. ar_status a = AFail) (se_assertion_results s)),
       ''FAIL requires a failed assertion'')]"

abbreviation valid_scenario_evaluation :: "scenario_evaluation \<Rightarrow> bool" where
  "valid_scenario_evaluation \<equiv> valid_by scenario_evaluation_checks"

record evaluation_report =
  er_report_id :: ident
  er_inputs :: input_hashes
  er_engine_version :: string
  er_results :: "scenario_evaluation list"
  er_coverage :: coverage_snapshot

definition evaluation_report_checks :: "evaluation_report \<Rightarrow> (bool \<times> string) list" where
  "evaluation_report_checks r =
     [(identifier_ok (er_report_id r) \<and> valid_by input_hashes_checks (er_inputs r)
        \<and> nonempty_text (er_engine_version r)
        \<and> list_all valid_scenario_evaluation (er_results r)
        \<and> valid_coverage (er_coverage r), ''EvaluationReport''),
      (distinct (map se_scenario_id (er_results r)), ''scenario evaluation IDs must be unique'')]"

abbreviation valid_report :: "evaluation_report \<Rightarrow> bool" where
  "valid_report \<equiv> valid_by evaluation_report_checks"

subsection \<open>Findings\<close>

datatype finding_type =
    StructuralGap | Conflict | IntentBreach | Regression | UnsupportedClauseFinding
  | PotentialLoophole

fun finding_type_name :: "finding_type \<Rightarrow> string" where
  "finding_type_name StructuralGap = ''structural_gap''"
| "finding_type_name Conflict = ''conflict''"
| "finding_type_name IntentBreach = ''intent_breach''"
| "finding_type_name Regression = ''regression''"
| "finding_type_name UnsupportedClauseFinding = ''unsupported_clause''"
| "finding_type_name PotentialLoophole = ''potential_loophole''"

datatype evidence_level = MechanicallyReproduced | EvidenceSessionConfirmed | Candidate

fun evidence_level_name :: "evidence_level \<Rightarrow> string" where
  "evidence_level_name MechanicallyReproduced = ''mechanically_reproduced''"
| "evidence_level_name EvidenceSessionConfirmed = ''session_confirmed''"
| "evidence_level_name Candidate = ''candidate''"

datatype finding_review_status = Pending | Accepted | Rejected

fun finding_review_status_name :: "finding_review_status \<Rightarrow> string" where
  "finding_review_status_name Pending = ''pending''"
| "finding_review_status_name Accepted = ''accepted''"
| "finding_review_status_name Rejected = ''rejected''"

datatype severity_origin = SessionInvariant | SessionReviewer

fun severity_origin_name :: "severity_origin \<Rightarrow> string" where
  "severity_origin_name SessionInvariant = ''session_invariant''"
| "severity_origin_name SessionReviewer = ''session_reviewer''"

record trace_ref =
  tr_scenario_id :: ident
  tr_trace_sha256 :: sha256

definition trace_ref_checks :: "trace_ref \<Rightarrow> (bool \<times> string) list" where
  "trace_ref_checks t =
     [(identifier_ok (tr_scenario_id t) \<and> sha256_ok (tr_trace_sha256 t), ''TraceRef'')]"

record finding =
  fd_finding_id :: ident
  fd_fingerprint_sha256 :: sha256
  fd_finding_type :: finding_type
  fd_evidence_level :: evidence_level
  fd_scenario_ids :: "ident list"
  fd_rule_ids :: "ident list"
  fd_invariant_id :: "ident option"
  fd_assertion_id :: "ident option"
  fd_dimension :: effect_dimension
  fd_traces :: "trace_ref list"
  fd_citations :: "source_span list"
  fd_review_status :: finding_review_status
  fd_severity :: "severity option"
  fd_severity_origin :: "severity_origin option"

definition finding_checks :: "finding \<Rightarrow> (bool \<times> string) list" where
  "finding_checks f =
     [(identifier_ok (fd_finding_id f) \<and> sha256_ok (fd_fingerprint_sha256 f)
        \<and> fd_scenario_ids f \<noteq> [] \<and> list_all identifier_ok (fd_scenario_ids f)
        \<and> list_all identifier_ok (fd_rule_ids f)
        \<and> optional identifier_ok (fd_invariant_id f) \<and> optional identifier_ok (fd_assertion_id f)
        \<and> fd_traces f \<noteq> [] \<and> list_all (valid_by trace_ref_checks) (fd_traces f)
        \<and> list_all (valid_by source_span_checks) (fd_citations f), ''Finding''),
      ((fd_severity f = None) = (fd_severity_origin f = None),
       ''severity requires an independent severity origin''),
      (\<not> (fd_severity_origin f = Some SessionInvariant \<and> fd_invariant_id f = None),
       ''invariant severity requires an invariant reference''),
      (\<not> (fd_finding_type f = PotentialLoophole \<and> fd_evidence_level f \<noteq> Candidate),
       ''potential loopholes remain review candidates''),
      (\<not> (fd_evidence_level f = Candidate \<and> fd_severity f \<noteq> None),
       ''candidate findings cannot carry authoritative severity''),
      (\<not> (fd_finding_type f = IntentBreach \<and> fd_invariant_id f = None),
       ''intent breach requires an invariant''),
      (\<not> (fd_finding_type f = Regression \<and> fd_assertion_id f = None),
       ''regression requires an assertion''),
      (set (fd_scenario_ids f) = set (map tr_scenario_id (fd_traces f)),
       ''each witness requires a trace reference'')]"

abbreviation valid_finding :: "finding \<Rightarrow> bool" where
  "valid_finding \<equiv> valid_by finding_checks"

record finding_report =
  fr_report_id :: ident
  fr_inputs :: input_hashes
  fr_findings :: "finding list"

definition finding_report_checks :: "finding_report \<Rightarrow> (bool \<times> string) list" where
  "finding_report_checks r =
     [(identifier_ok (fr_report_id r) \<and> valid_by input_hashes_checks (fr_inputs r)
        \<and> list_all valid_finding (fr_findings r), ''FindingReport'')]"

subsection \<open>Requests, metrics and benchmark records\<close>

record evaluate_policy_request =
  ep_policy :: policy_ir
  ep_contract :: policy_contract
  ep_suite :: scenario_suite
  ep_inputs :: input_hashes
  ep_engine_version :: string

definition evaluate_policy_checks :: "evaluate_policy_request \<Rightarrow> (bool \<times> string) list" where
  "evaluate_policy_checks r =
     [(valid_policy_ir (ep_policy r) \<and> valid_contract (ep_contract r) \<and> valid_suite (ep_suite r)
        \<and> valid_by input_hashes_checks (ep_inputs r) \<and> nonempty_text (ep_engine_version r),
       ''EvaluatePolicyRequest'')]"

record analyze_findings_request =
  af_policy :: policy_ir
  af_contract :: policy_contract
  af_suite :: scenario_suite
  af_evaluation :: evaluation_report

definition analyze_findings_checks :: "analyze_findings_request \<Rightarrow> (bool \<times> string) list" where
  "analyze_findings_checks r =
     [(valid_policy_ir (af_policy r) \<and> valid_contract (af_contract r) \<and> valid_suite (af_suite r)
        \<and> valid_report (af_evaluation r), ''AnalyzeFindingsRequest'')]"

record effect_state_counts =
  sc_VALUE :: int
  sc_GAP :: int
  sc_NOT_APPLICABLE :: int
  sc_CONFLICT :: int
  sc_INCONCLUSIVE :: int
  sc_ERROR :: int

definition effect_state_counts_checks :: "effect_state_counts \<Rightarrow> (bool \<times> string) list" where
  "effect_state_counts_checks c =
     [(non_negative (sc_VALUE c) \<and> non_negative (sc_GAP c) \<and> non_negative (sc_NOT_APPLICABLE c)
        \<and> non_negative (sc_CONFLICT c) \<and> non_negative (sc_INCONCLUSIVE c)
        \<and> non_negative (sc_ERROR c), ''EffectStateCounts'')]"

record assertion_counts =
  ac_passed :: int
  ac_failed :: int
  ac_inconclusive :: int
  ac_error :: int

definition assertion_counts_checks :: "assertion_counts \<Rightarrow> (bool \<times> string) list" where
  "assertion_counts_checks c =
     [(non_negative (ac_passed c) \<and> non_negative (ac_failed c) \<and> non_negative (ac_inconclusive c)
        \<and> non_negative (ac_error c), ''AssertionCounts'')]"

record metrics_report =
  mr_inputs :: input_hashes
  mr_scenario_count :: int
  mr_effect_states :: effect_state_counts
  mr_assertions :: assertion_counts
  mr_unique_finding_count :: int
  mr_coverage :: coverage_snapshot
  mr_assertion_pass_percent :: "int option"

definition metrics_report_checks :: "metrics_report \<Rightarrow> (bool \<times> string) list" where
  "metrics_report_checks m =
     [(valid_by input_hashes_checks (mr_inputs m) \<and> non_negative (mr_scenario_count m)
        \<and> valid_by effect_state_counts_checks (mr_effect_states m)
        \<and> valid_by assertion_counts_checks (mr_assertions m)
        \<and> non_negative (mr_unique_finding_count m) \<and> valid_coverage (mr_coverage m)
        \<and> optional percentage_ok (mr_assertion_pass_percent m), ''MetricsReport'')]"

record metrics_request =
  mq_evaluation :: evaluation_report
  mq_findings :: finding_report

record benchmark_defect =
  bd_defect_id :: ident
  bd_finding_type :: finding_type
  bd_dimension :: effect_dimension
  bd_target_ids :: "ident list"
  bd_severity :: severity
  bd_source_spans :: "source_span list"
  bd_semantic_signature_sha256 :: "sha256 option"
  bd_permitted_witness_ids :: "ident list"
  bd_expected_finding_fingerprint_sha256 :: "sha256 option"
  bd_partition :: partition
  bd_unsupported_clause :: bool

definition benchmark_defect_checks :: "benchmark_defect \<Rightarrow> (bool \<times> string) list" where
  "benchmark_defect_checks d =
     [(identifier_ok (bd_defect_id d) \<and> list_all identifier_ok (bd_target_ids d)
        \<and> list_all (valid_by source_span_checks) (bd_source_spans d)
        \<and> optional sha256_ok (bd_semantic_signature_sha256 d)
        \<and> list_all identifier_ok (bd_permitted_witness_ids d)
        \<and> optional sha256_ok (bd_expected_finding_fingerprint_sha256 d), ''BenchmarkDefect'')]"

record benchmark_manifest =
  bm_benchmark_id :: ident
  bm_document_sha256 :: sha256
  bm_policy_contract_sha256 :: sha256
  bm_engine_version :: string
  bm_sealed_at :: timestamp
  bm_seal_sha256 :: sha256
  bm_defects :: "benchmark_defect list"
  bm_gold_scenarios :: "scenario list"
  bm_required_dimensions :: "effect_dimension set"

definition benchmark_manifest_checks :: "benchmark_manifest \<Rightarrow> (bool \<times> string) list" where
  "benchmark_manifest_checks m =
     [(identifier_ok (bm_benchmark_id m) \<and> sha256_ok (bm_document_sha256 m)
        \<and> sha256_ok (bm_policy_contract_sha256 m) \<and> nonempty_text (bm_engine_version m)
        \<and> sha256_ok (bm_seal_sha256 m)
        \<and> list_all (valid_by benchmark_defect_checks) (bm_defects m)
        \<and> list_all valid_scenario (bm_gold_scenarios m), ''BenchmarkManifest''),
      (\<not> list_ex (\<lambda>s. FromGold \<notin> sc_origins s
            \<or> list_ex (\<lambda>a. a_origin a \<noteq> OriginGold) (sc_assertions s)) (bm_gold_scenarios m),
       ''benchmark gold scenarios require gold origins and labels''),
      (distinct (map bd_defect_id (bm_defects m)), ''benchmark defect IDs must be unique'')]"

record benchmark_score =
  bs_benchmark_id :: ident
  bs_inputs :: input_hashes
  bs_true_positives :: int
  bs_false_positives :: int
  bs_false_negatives :: int
  bs_precision_percent :: "int option"
  bs_recall_percent :: "int option"
  bs_f1_percent :: "int option"

definition benchmark_score_checks :: "benchmark_score \<Rightarrow> (bool \<times> string) list" where
  "benchmark_score_checks b =
     [(identifier_ok (bs_benchmark_id b) \<and> valid_by input_hashes_checks (bs_inputs b)
        \<and> non_negative (bs_true_positives b) \<and> non_negative (bs_false_positives b)
        \<and> non_negative (bs_false_negatives b) \<and> optional percentage_ok (bs_precision_percent b)
        \<and> optional percentage_ok (bs_recall_percent b) \<and> optional percentage_ok (bs_f1_percent b),
       ''BenchmarkScore'')]"

record score_benchmark_request =
  sb_manifest :: benchmark_manifest
  sb_findings :: finding_report
  sb_evaluation :: evaluation_report

end
