(* ===== verification/Predicates.thy ===== *)
theory Predicates
  imports Evaluation_Models
begin

section \<open>Typed predicates (features/evaluation/predicates.py)\<close>

text \<open>
  The operators of \<open>predicates.py\<close> on Python values, with the TypeError Python raises on
  operands it cannot compare; evaluation of predicates and rules on facts, which validates both
  first; and the meaning \<open>holds\<close> of a valid predicate, which evaluation is shown to compute.
\<close>

subsection \<open>Python's comparison operators\<close>

definition int_of_bool :: "bool \<Rightarrow> int" where
  "int_of_bool b = (if b then 1 else 0)"

text \<open>\<open>==\<close>: a Boolean is an integer, other kinds are never equal across.\<close>

fun py_eq :: "pyval \<Rightarrow> pyval \<Rightarrow> bool" where
  "py_eq (VStr s) (VStr t) = (s = t)"
| "py_eq (VInt m) (VInt n) = (m = n)"
| "py_eq (VBool b) (VBool c) = (b = c)"
| "py_eq (VInt m) (VBool b) = (m = int_of_bool b)"
| "py_eq (VBool b) (VInt m) = (m = int_of_bool b)"
| "py_eq (VTuple xs) (VTuple ys) = (xs = ys)"
| "py_eq (VSet A) (VSet B) = (A = B)"
| "py_eq v w = False"

fun py_less_equal :: "pyval \<Rightarrow> pyval \<Rightarrow> bool result" where
  "py_less_equal (VStr s) (VStr t) = Inr (s \<le> t)"
| "py_less_equal (VInt m) (VInt n) = Inr (m \<le> n)"
| "py_less_equal (VBool b) (VBool c) = Inr (int_of_bool b \<le> int_of_bool c)"
| "py_less_equal (VInt m) (VBool b) = Inr (m \<le> int_of_bool b)"
| "py_less_equal (VBool b) (VInt m) = Inr (int_of_bool b \<le> m)"
| "py_less_equal (VTuple xs) (VTuple ys) = Inr (xs \<le> ys)"
| "py_less_equal (VSet A) (VSet B) = Inr (A \<subseteq> B)"
| "py_less_equal v w = Inl TypeError"

definition py_less :: "pyval \<Rightarrow> pyval \<Rightarrow> bool result" where
  "py_less v w = rbind (py_less_equal v w) (\<lambda>le. Inr (le \<and> \<not> py_eq v w))"

fun has_prefix :: "'a list \<Rightarrow> 'a list \<Rightarrow> bool" where
  "has_prefix [] ys = True"
| "has_prefix (x # xs) [] = False"
| "has_prefix (x # xs) (y # ys) = (x = y \<and> has_prefix xs ys)"

fun substring :: "string \<Rightarrow> string \<Rightarrow> bool" where
  "substring s [] = (s = [])"
| "substring s (c # t) = (has_prefix s (c # t) \<or> substring s t)"

text \<open>\<open>item in container\<close>.\<close>

fun py_in :: "pyval \<Rightarrow> pyval \<Rightarrow> bool result" where
  "py_in (VStr s) (VStr t) = Inr (substring s t)"
| "py_in v (VStr t) = Inl TypeError"
| "py_in v (VTuple items) = Inr (case v of VStr s \<Rightarrow> s \<in> set items | _ \<Rightarrow> False)"
| "py_in v (VSet A) = Inr (case v of VStr s \<Rightarrow> s \<in> A | _ \<Rightarrow> False)"
| "py_in v (VInt n) = Inl TypeError"
| "py_in v (VBool b) = Inl TypeError"

text \<open>\<open>_OPERATORS[operator](actual, expected)\<close>.\<close>

definition apply_operator :: "predicate_operator \<Rightarrow> pyval \<Rightarrow> pyval \<Rightarrow> bool result" where
  "apply_operator op actual expected =
     (case op of
        Op_eq \<Rightarrow> Inr (py_eq actual expected)
      | Op_neq \<Rightarrow> Inr (\<not> py_eq actual expected)
      | Op_lt \<Rightarrow> py_less actual expected
      | Op_lte \<Rightarrow> py_less_equal actual expected
      | Op_gt \<Rightarrow> py_less expected actual
      | Op_gte \<Rightarrow> py_less_equal expected actual
      | Op_in \<Rightarrow> py_in actual expected
      | Op_not_in \<Rightarrow> rbind (py_in actual expected) (\<lambda>b. Inr (\<not> b))
      | Op_contains \<Rightarrow> py_in expected actual)"

subsection \<open>Predicates on facts\<close>

definition fact_value :: "predicate_field \<Rightarrow> scenario_facts \<Rightarrow> pyval" where
  "fact_value field facts =
     (case field of
        F_employee_role \<Rightarrow> VStr (employee_role_name (f_employee_role facts))
      | F_expense_category \<Rightarrow> VStr (expense_category_name (f_expense_category facts))
      | F_amount_minor \<Rightarrow> VInt (f_amount_minor facts)
      | F_destination_type \<Rightarrow> VStr (destination_type_name (f_destination_type facts))
      | F_booking_days_before \<Rightarrow> VInt (f_booking_days_before facts)
      | F_receipt_present \<Rightarrow> VBool (f_receipt_present facts)
      | F_approval_roles_present \<Rightarrow>
          VSet (approval_role_name ` f_approval_roles_present facts)
      | F_prior_same_day_category_spend_minor \<Rightarrow>
          VInt (f_prior_same_day_category_spend_minor facts)
      | F_daily_category_total_minor \<Rightarrow>
          VInt (f_amount_minor facts + f_prior_same_day_category_spend_minor facts))"

record predicate_trace =
  pt_matched :: bool

record rule_trace =
  rt_rule_id :: ident
  rt_matched :: bool
  rt_predicates :: "predicate_trace list"

definition evaluate_predicate :: "predicate \<Rightarrow> scenario_facts \<Rightarrow> predicate_trace result" where
  "evaluate_predicate p facts =
     rbind (validated predicate_checks p) (\<lambda>p.
     rbind (validated scenario_facts_checks facts) (\<lambda>facts.
     rbind (apply_operator (p_operator p) (fact_value (p_field p) facts) (p_value p)) (\<lambda>b.
       Inr \<lparr>pt_matched = b\<rparr>)))"

definition evaluate_conditions ::
  "predicate list \<Rightarrow> scenario_facts \<Rightarrow> predicate_trace list result" where
  "evaluate_conditions predicates facts = traverse (\<lambda>p. evaluate_predicate p facts) predicates"

text \<open>\<open>all(p.matched for p in evaluate_conditions(...))\<close>, the form every caller uses.\<close>

definition conditions_match :: "predicate list \<Rightarrow> scenario_facts \<Rightarrow> bool result" where
  "conditions_match predicates facts =
     rbind (evaluate_conditions predicates facts) (\<lambda>ts. Inr (list_all pt_matched ts))"

definition rule_matches :: "rule \<Rightarrow> scenario_facts \<Rightarrow> rule_trace result" where
  "rule_matches rule facts =
     rbind (evaluate_conditions (r_when rule) facts) (\<lambda>predicates.
       Inr \<lparr>rt_rule_id = r_rule_id rule, rt_matched = list_all pt_matched predicates,
            rt_predicates = predicates\<rparr>)"

subsection \<open>What a valid predicate means\<close>

text \<open>
  The meaning of a valid predicate on facts, by kind of field and without Python's operators:
  comparison of integers, of names, of Booleans, and presence of an approval.
\<close>

definition compare_int :: "predicate_operator \<Rightarrow> int \<Rightarrow> int \<Rightarrow> bool" where
  "compare_int op m n =
     (case op of Op_eq \<Rightarrow> m = n | Op_neq \<Rightarrow> m \<noteq> n | Op_lt \<Rightarrow> m < n | Op_lte \<Rightarrow> m \<le> n
      | Op_gt \<Rightarrow> m > n | Op_gte \<Rightarrow> m \<ge> n | _ \<Rightarrow> False)"

definition holds_value :: "predicate_operator \<Rightarrow> pyval \<Rightarrow> pyval \<Rightarrow> bool" where
  "holds_value op actual expected =
     (case (actual, expected) of
        (VInt m, VInt n) \<Rightarrow> compare_int op m n
      | (VBool b, VBool c) \<Rightarrow> (if op = Op_eq then b = c else b \<noteq> c)
      | (VSet A, VStr s) \<Rightarrow> s \<in> A
      | (VStr s, VStr t) \<Rightarrow> (if op = Op_eq then s = t else s \<noteq> t)
      | (VStr s, VTuple items) \<Rightarrow> (if op = Op_in then s \<in> set items else s \<notin> set items)
      | _ \<Rightarrow> False)"

definition holds :: "predicate \<Rightarrow> scenario_facts \<Rightarrow> bool" where
  "holds p facts = holds_value (p_operator p) (fact_value (p_field p) facts) (p_value p)"

text \<open>The values a field can take, by its kind.\<close>

definition field_kind_ok :: "predicate_field \<Rightarrow> pyval \<Rightarrow> bool" where
  "field_kind_ok field v =
     (case integer_max field of
        Some maximum \<Rightarrow> (case v of VInt n \<Rightarrow> 0 \<le> n \<and> n \<le> maximum | _ \<Rightarrow> False)
      | None \<Rightarrow>
          if field = F_receipt_present then (case v of VBool b \<Rightarrow> True | _ \<Rightarrow> False)
          else if field = F_approval_roles_present then
            (case v of VSet A \<Rightarrow> A \<subseteq> set [''manager'', ''director'', ''finance''] | _ \<Rightarrow> False)
          else (case v of VStr s \<Rightarrow> s \<in> set (the (enum_domain field)) | _ \<Rightarrow> False))"

lemma py_less_int [simp]: "py_less (VInt m) (VInt n) = Inr (m < n)"
  by (auto simp: py_less_def)

lemma valid_predicate_cases:
  assumes "valid_predicate p"
  obtains
    (number) maximum n where "integer_max (p_field p) = Some maximum" "p_value p = VInt n"
      "0 \<le> n" "n \<le> maximum" "p_operator p \<in> set comparisons"
  | (receipt) b where "p_field p = F_receipt_present" "p_value p = VBool b"
      "p_operator p \<in> {Op_eq, Op_neq}"
  | (approval) s where "p_field p = F_approval_roles_present" "p_value p = VStr s"
      "s \<in> set [''manager'', ''director'', ''finance'']" "p_operator p = Op_contains"
  | (member) items dom where "enum_domain (p_field p) = Some dom" "p_value p = VTuple items"
      "items \<noteq> []" "set items \<subseteq> set dom" "p_operator p \<in> {Op_in, Op_not_in}"
  | (name) s dom where "enum_domain (p_field p) = Some dom" "p_value p = VStr s"
      "s \<in> set dom" "p_operator p \<in> {Op_eq, Op_neq}"
proof -
  have op: "p_operator p \<in> set (operators_by_field (p_field p))" and ty: "fst (typed_value_check p)"
    using assms by (simp_all add: valid_by_def predicate_checks_def)
  show ?thesis
  proof (cases "p_field p")
    case F_approval_roles_present
    then show ?thesis
      using op ty approval by (auto simp: typed_value_check_def operators_by_field_def split: pyval.splits)
  next
    case F_receipt_present
    then show ?thesis
      using op ty receipt by (auto simp: typed_value_check_def operators_by_field_def split: pyval.splits)
  qed (use op ty number member name in
      \<open>force simp: typed_value_check_def operators_by_field_def list_all_iff subset_iff
        split: pyval.splits if_splits\<close>)+
qed

lemma fact_value_kind: "valid_facts facts \<Longrightarrow> field_kind_ok field (fact_value field facts)"
proof -
  assume "valid_facts facts"
  then have r: "0 \<le> f_amount_minor facts" "f_amount_minor facts \<le> 10000000"
    "0 \<le> f_booking_days_before facts" "f_booking_days_before facts \<le> 365"
    "0 \<le> f_prior_same_day_category_spend_minor facts"
    "f_prior_same_day_category_spend_minor facts \<le> 10000000"
    by (auto simp: valid_facts_iff)
  have roles: "approval_role_name ` A \<subseteq> set [''manager'', ''director'', ''finance'']" for A
  proof (rule image_subsetI)
    fix a show "approval_role_name a \<in> set [''manager'', ''director'', ''finance'']"
      by (cases a) auto
  qed
  show ?thesis
  proof (cases field)
    case F_employee_role
    then show ?thesis
      by (cases "f_employee_role facts") (simp_all add: field_kind_ok_def fact_value_def)
  next
    case F_expense_category
    then show ?thesis
      by (cases "f_expense_category facts") (simp_all add: field_kind_ok_def fact_value_def)
  next
    case F_destination_type
    then show ?thesis
      by (cases "f_destination_type facts") (simp_all add: field_kind_ok_def fact_value_def)
  next
    case F_approval_roles_present
    then show ?thesis
      using roles by (simp add: field_kind_ok_def fact_value_def)
  qed (use r in \<open>simp_all add: field_kind_ok_def fact_value_def\<close>)
qed

text \<open>On a value of the field's kind the operator of a valid predicate never raises.\<close>

lemma apply_operator_holds:
  assumes "valid_predicate p" and "field_kind_ok (p_field p) v"
  shows "apply_operator (p_operator p) v (p_value p) = Inr (holds_value (p_operator p) v (p_value p))"
  using assms(1)
proof (cases rule: valid_predicate_cases)
  case (number maximum n)
  then obtain m where "v = VInt m"
    using assms(2) by (auto simp: field_kind_ok_def split: pyval.splits)
  then show ?thesis
    using number by (auto simp: comparisons_def apply_operator_def holds_value_def compare_int_def)
next
  case (receipt b)
  then obtain c where "v = VBool c"
    using assms(2) by (auto simp: field_kind_ok_def split: pyval.splits)
  then show ?thesis
    using receipt by (auto simp: apply_operator_def holds_value_def)
next
  case (approval s)
  then obtain A where "v = VSet A"
    using assms(2) by (auto simp: field_kind_ok_def split: pyval.splits)
  then show ?thesis
    using approval by (auto simp: apply_operator_def holds_value_def)
next
  case (member items dom)
  then obtain s where "v = VStr s"
    using assms(2) by (cases "p_field p") (auto simp: field_kind_ok_def split: pyval.splits)
  then show ?thesis
    using member by (auto simp: apply_operator_def holds_value_def)
next
  case (name s dom)
  then obtain s' where "v = VStr s'"
    using assms(2) by (cases "p_field p") (auto simp: field_kind_ok_def split: pyval.splits)
  then show ?thesis
    using name by (auto simp: apply_operator_def holds_value_def)
qed

lemma evaluate_predicate_holds:
  "valid_predicate p \<Longrightarrow> valid_facts facts \<Longrightarrow>
   evaluate_predicate p facts = Inr \<lparr>pt_matched = holds p facts\<rparr>"
  by (simp add: evaluate_predicate_def holds_def apply_operator_holds fact_value_kind)

lemma evaluate_conditions_holds:
  "list_all valid_predicate ps \<Longrightarrow> valid_facts facts \<Longrightarrow>
   evaluate_conditions ps facts = Inr (map (\<lambda>p. \<lparr>pt_matched = holds p facts\<rparr>) ps)"
  unfolding evaluate_conditions_def
  by (rule traverse_eq_map) (auto simp: evaluate_predicate_holds list_all_iff)

definition all_hold :: "predicate list \<Rightarrow> scenario_facts \<Rightarrow> bool" where
  "all_hold ps facts \<longleftrightarrow> (\<forall>p \<in> set ps. holds p facts)"

lemma conditions_match_holds:
  "list_all valid_predicate ps \<Longrightarrow> valid_facts facts \<Longrightarrow>
   conditions_match ps facts = Inr (all_hold ps facts)"
  by (simp add: conditions_match_def evaluate_conditions_holds all_hold_def list_all_iff)

lemma rule_matches_holds:
  "list_all valid_predicate (r_when rule) \<Longrightarrow> valid_facts facts \<Longrightarrow>
   rule_matches rule facts =
   Inr \<lparr>rt_rule_id = r_rule_id rule, rt_matched = all_hold (r_when rule) facts,
        rt_predicates = map (\<lambda>p. \<lparr>pt_matched = holds p facts\<rparr>) (r_when rule)\<rparr>"
  by (simp add: rule_matches_def evaluate_conditions_holds all_hold_def list_all_iff)

end
