(* ===== verification/Assertions.thy ===== *)
theory Assertions
  imports Predicates
begin

section \<open>Assertions and compliance (features/evaluation/{assertions,compliance}.py)\<close>

text \<open>
  Compliance of a claim with a resolved requirement, and evaluation of an independent expectation
  against the resolved dimensions. Both are shown equal to their meaning on resolved values of
  the right kind, every other branch included.
\<close>

subsection \<open>Compliance\<close>

fun approval_role_rank :: "approval_role \<Rightarrow> int" where
  "approval_role_rank ApproverManager = 1"
| "approval_role_rank ApproverDirector = 2"
| "approval_role_rank ApproverFinance = 3"

text \<open>\<open>_APPROVAL_RANK[value]\<close> for a resolved value.\<close>

definition approval_value_rank :: "effect_value \<Rightarrow> int result" where
  "approval_value_rank v =
     (case v of
        NeedNone \<Rightarrow> Inr 0
      | NeedManager \<Rightarrow> Inr 1
      | NeedDirector \<Rightarrow> Inr 2
      | NeedFinance \<Rightarrow> Inr 3
      | _ \<Rightarrow> Inl KeyError)"

text \<open>\<open>max((rank[r] for r in facts.approval_roles_present), default=0)\<close>; every rank is positive.\<close>

definition present_rank :: "scenario_facts \<Rightarrow> int" where
  "present_rank facts =
     foldr max (map approval_role_rank
       (filter (\<lambda>r. r \<in> f_approval_roles_present facts) approval_roles)) 0"

definition minor_value :: "effect_value \<Rightarrow> int result" where
  "minor_value v = (case v of Minor n \<Rightarrow> Inr n | _ \<Rightarrow> Inl TypeError)"

text \<open>The branches on a valid set of facts; \<open>None\<close> is the result for eligibility.\<close>

definition compliant_with :: "effect_dimension \<Rightarrow> effect_value \<Rightarrow> scenario_facts \<Rightarrow> bool option result" where
  "compliant_with dimension v facts =
     (case dimension of
        Eligibility \<Rightarrow> Inr None
      | ReceiptRequirement \<Rightarrow> Inr (Some (v = NotRequired \<or> f_receipt_present facts))
      | ApprovalRequirement \<Rightarrow>
          rbind (approval_value_rank v) (\<lambda>rank. Inr (Some (rank \<le> present_rank facts)))
      | ClaimCapMinor \<Rightarrow> rbind (minor_value v) (\<lambda>cap. Inr (Some (f_amount_minor facts \<le> cap)))
      | DailyCategoryCapMinor \<Rightarrow>
          rbind (minor_value v) (\<lambda>cap.
            Inr (Some (f_amount_minor facts + f_prior_same_day_category_spend_minor facts \<le> cap))))"

definition derive_compliance ::
  "effect_dimension \<Rightarrow> effect_value \<Rightarrow> scenario_facts \<Rightarrow> compliance_result option result" where
  "derive_compliance dimension v facts =
     rbind (validated scenario_facts_checks facts) (\<lambda>facts.
     rbind (compliant_with dimension v facts) (\<lambda>answer.
       case answer of
         None \<Rightarrow> Inr None
       | Some compliant \<Rightarrow>
           rbind (validated compliance_result_checks
                    \<lparr>cr_dimension = dimension,
                     cr_status = (if compliant then Compliant else Noncompliant)\<rparr>)
             (\<lambda>r. Inr (Some r))))"

text \<open>What it means to meet a resolved requirement, on values of the dimension's kind.\<close>

definition meets :: "effect_dimension \<Rightarrow> effect_value \<Rightarrow> scenario_facts \<Rightarrow> bool" where
  "meets d v facts \<longleftrightarrow>
     (case (d, v) of
        (ReceiptRequirement, Required) \<Rightarrow> f_receipt_present facts
      | (ApprovalRequirement, NeedManager) \<Rightarrow> f_approval_roles_present facts \<noteq> {}
      | (ApprovalRequirement, NeedDirector) \<Rightarrow>
          ApproverDirector \<in> f_approval_roles_present facts
          \<or> ApproverFinance \<in> f_approval_roles_present facts
      | (ApprovalRequirement, NeedFinance) \<Rightarrow> ApproverFinance \<in> f_approval_roles_present facts
      | (ClaimCapMinor, Minor cap) \<Rightarrow> f_amount_minor facts \<le> cap
      | (DailyCategoryCapMinor, Minor cap) \<Rightarrow>
          f_amount_minor facts + f_prior_same_day_category_spend_minor facts \<le> cap
      | _ \<Rightarrow> True)"

lemma approval_set_nonempty:
  "(A :: approval_role set) \<noteq> {} \<longleftrightarrow>
     ApproverManager \<in> A \<or> ApproverDirector \<in> A \<or> ApproverFinance \<in> A"
  by (metis all_not_in_conv approval_role.exhaust)

lemma present_rank_simps:
  "0 \<le> present_rank facts"
  "1 \<le> present_rank facts \<longleftrightarrow> f_approval_roles_present facts \<noteq> {}"
  "2 \<le> present_rank facts \<longleftrightarrow>
     ApproverDirector \<in> f_approval_roles_present facts
     \<or> ApproverFinance \<in> f_approval_roles_present facts"
  "3 \<le> present_rank facts \<longleftrightarrow> ApproverFinance \<in> f_approval_roles_present facts"
  by (auto simp: present_rank_def approval_roles_def approval_set_nonempty)

lemma derive_compliance_meets:
  assumes "valid_facts facts" and "effect_value_fits d v"
  shows "derive_compliance d v facts =
    Inr (if d = Eligibility then None
         else Some \<lparr>cr_dimension = d, cr_status = (if meets d v facts then Compliant else Noncompliant)\<rparr>)"
  using assms
  by (cases d; cases v)
    (simp_all add: derive_compliance_def compliant_with_def effect_value_fits_def meets_def
      approval_value_rank_def minor_value_def present_rank_simps valid_by_def compliance_result_checks_def)

subsection \<open>Assertions\<close>

definition effect_pyval :: "effect_value \<Rightarrow> pyval" where
  "effect_pyval v = (case effect_value_name v of Some s \<Rightarrow> VStr s | None \<Rightarrow> VInt (effect_value_number v))"

fun assertion_pyval :: "assertion_value \<Rightarrow> pyval" where
  "assertion_pyval (OfEffect v) = effect_pyval v"
| "assertion_pyval IsCompliant = VStr ''COMPLIANT''"
| "assertion_pyval IsNoncompliant = VStr ''NONCOMPLIANT''"

fun predicate_operator_of :: "assertion_operator \<Rightarrow> predicate_operator" where
  "predicate_operator_of A_eq = Op_eq"
| "predicate_operator_of A_neq = Op_neq"
| "predicate_operator_of A_lte = Op_lte"
| "predicate_operator_of A_gte = Op_gte"

definition assertion_outcome ::
  "ident \<Rightarrow> assertion_status \<Rightarrow> assertion_value option \<Rightarrow> assertion_result result" where
  "assertion_outcome aid status actual =
     validated assertion_result_checks
       \<lparr>ar_assertion_id = aid, ar_status = status, ar_actual_value = actual\<rparr>"

text \<open>The comparison at the end, with the observed value.\<close>

definition score_assertion :: "assertion \<Rightarrow> assertion_value \<Rightarrow> assertion_result result" where
  "score_assertion a actual =
     rbind (apply_operator (predicate_operator_of (a_operator a)) (assertion_pyval actual)
              (assertion_pyval (a_expected_value a)))
       (\<lambda>matched. assertion_outcome (a_assertion_id a) (if matched then APass else AFail) (Some actual))"

definition evaluate_assertion ::
  "assertion \<Rightarrow> dimension_result list \<Rightarrow> compliance_result list \<Rightarrow> assertion_result result" where
  "evaluate_assertion a dimensions compliance =
     (case find (\<lambda>d. dr_dimension d = a_dimension a) dimensions of
        None \<Rightarrow> assertion_outcome (a_assertion_id a) AError None
      | Some d \<Rightarrow>
          if dr_status d = EError then assertion_outcome (a_assertion_id a) AError None
          else if dr_status d \<noteq> EValue then assertion_outcome (a_assertion_id a) AInconclusive None
          else if a_target_kind a = ComplianceTarget then
            (case find (\<lambda>c. cr_dimension c = a_dimension a) compliance of
               None \<Rightarrow> assertion_outcome (a_assertion_id a) AError None
             | Some c \<Rightarrow>
                 (case cr_status c of
                    CError \<Rightarrow> assertion_outcome (a_assertion_id a) AError None
                  | Compliant \<Rightarrow> score_assertion a IsCompliant
                  | Noncompliant \<Rightarrow> score_assertion a IsNoncompliant
                  | _ \<Rightarrow> assertion_outcome (a_assertion_id a) AInconclusive None))
          else
            (case dr_value d of
               None \<Rightarrow>
                 \<comment> \<open>a VALUE result without a value compares Python's None\<close>
                 (case a_operator a of
                    A_eq \<Rightarrow> assertion_outcome (a_assertion_id a) AFail None
                  | A_neq \<Rightarrow> assertion_outcome (a_assertion_id a) APass None
                  | _ \<Rightarrow> Inl TypeError)
             | Some v \<Rightarrow> score_assertion a (OfEffect v)))"

text \<open>What a valid assertion demands of an observed value.\<close>

definition satisfies :: "assertion \<Rightarrow> assertion_value \<Rightarrow> bool" where
  "satisfies a actual \<longleftrightarrow>
     (case (a_operator a, actual, a_expected_value a) of
        (A_eq, v, w) \<Rightarrow> v = w
      | (A_neq, v, w) \<Rightarrow> v \<noteq> w
      | (A_lte, OfEffect (Minor m), OfEffect (Minor n)) \<Rightarrow> m \<le> n
      | (A_gte, OfEffect (Minor m), OfEffect (Minor n)) \<Rightarrow> m \<ge> n
      | _ \<Rightarrow> False)"

lemma effect_pyval_inject: "py_eq (effect_pyval v) (effect_pyval w) \<longleftrightarrow> v = w"
  by (cases v; cases w) (simp_all add: effect_pyval_def)

lemma assertion_pyval_inject: "py_eq (assertion_pyval v) (assertion_pyval w) \<longleftrightarrow> v = w"
proof (cases v; cases w)
  fix x y assume "v = OfEffect x" "w = OfEffect y"
  then show ?thesis by (simp add: effect_pyval_inject)
next
  fix x assume "v = OfEffect x" "w = IsCompliant"
  then show ?thesis by (cases x) (simp_all add: effect_pyval_def)
next
  fix x assume "v = OfEffect x" "w = IsNoncompliant"
  then show ?thesis by (cases x) (simp_all add: effect_pyval_def)
next
  fix x assume "w = OfEffect x" "v = IsCompliant"
  then show ?thesis by (cases x) (simp_all add: effect_pyval_def)
next
  fix x assume "w = OfEffect x" "v = IsNoncompliant"
  then show ?thesis by (cases x) (simp_all add: effect_pyval_def)
qed simp_all

text \<open>Observed values of the kind a valid assertion compares with.\<close>

definition observable :: "assertion \<Rightarrow> assertion_value \<Rightarrow> bool" where
  "observable a actual \<longleftrightarrow>
     (if a_target_kind a = ComplianceTarget then actual \<in> {IsCompliant, IsNoncompliant}
      else (case actual of OfEffect v \<Rightarrow> effect_value_fits (a_dimension a) v | _ \<Rightarrow> False))"

lemma valid_assertion_typed:
  "valid_assertion a \<Longrightarrow> list_all fst (typed_assertion_checks a) \<and> identifier_ok (a_assertion_id a)"
  by (simp add: valid_by_def assertion_checks_def assertion_content_checks_def)

lemma caps_fit:
  "\<not> categorical d \<Longrightarrow> effect_value_fits d v \<Longrightarrow> \<exists>n. v = Minor n \<and> 0 \<le> n"
  by (cases d; cases v) (simp_all add: categorical_def effect_value_fits_def)

lemma effect_value_fits_ok: "effect_value_fits d v \<Longrightarrow> effect_value_ok v"
  by (cases v; cases d) (simp_all add: effect_value_fits_def effect_value_ok_def non_negative_def)

lemma score_assertion_satisfies:
  assumes "valid_assertion a" and "observable a actual"
  shows "score_assertion a actual =
    Inr \<lparr>ar_assertion_id = a_assertion_id a, ar_status = (if satisfies a actual then APass else AFail),
         ar_actual_value = Some actual\<rparr>"
proof -
  have typed: "list_all fst (typed_assertion_checks a)" and aid: "identifier_ok (a_assertion_id a)"
    using valid_assertion_typed [OF assms(1)] by auto
  have vok: "assertion_value_ok actual"
    using assms(2)
    by (auto simp: observable_def assertion_value_ok_def effect_value_fits_ok
        split: if_splits assertion_value.splits)
  have outcome: "assertion_outcome (a_assertion_id a) st (Some actual) =
      Inr \<lparr>ar_assertion_id = a_assertion_id a, ar_status = st, ar_actual_value = Some actual\<rparr>" for st
    using aid vok by (simp add: assertion_outcome_def valid_by_def assertion_result_checks_def)
  have "apply_operator (predicate_operator_of (a_operator a)) (assertion_pyval actual)
      (assertion_pyval (a_expected_value a)) = Inr (satisfies a actual)"
  proof (cases "a_operator a \<in> {A_eq, A_neq}")
    case True
    then show ?thesis
      by (auto simp: apply_operator_def assertion_pyval_inject satisfies_def)
  next
    case False
    then have effect_kind: "a_target_kind a = EffectTarget" and "\<not> categorical (a_dimension a)"
      using typed by (auto simp: typed_assertion_checks_def split: if_splits) (metis target_kind.exhaust)+
    then obtain m n where "actual = OfEffect (Minor m)" "a_expected_value a = OfEffect (Minor n)"
      using typed assms(2)
      by (auto simp: observable_def typed_assertion_checks_def validate_effect_value_def
          split: assertion_value.splits) (metis caps_fit)
    then show ?thesis
      using False by (cases "a_operator a") (auto simp: apply_operator_def satisfies_def effect_pyval_def)
  qed
  then show ?thesis by (simp add: score_assertion_def outcome)
qed

lemma assertion_outcome_None:
  "identifier_ok aid \<Longrightarrow> assertion_outcome aid st None =
   Inr \<lparr>ar_assertion_id = aid, ar_status = st, ar_actual_value = None\<rparr>"
  by (simp add: assertion_outcome_def valid_by_def assertion_result_checks_def)

lemma evaluate_assertion_id:
  assumes "evaluate_assertion a dimensions compliance = Inr r"
  shows "ar_assertion_id r = a_assertion_id a"
  using assms
  by (auto simp: evaluate_assertion_def assertion_outcome_def score_assertion_def validated_Inr_iff
      rbind_Inr_iff split: option.splits if_splits compliance_status.splits assertion_operator.splits)

end
