(* ===== verification/Resolution.thy ===== *)
theory Resolution
  imports Assertions
begin

section \<open>Dimension-scoped precedence (features/evaluation/resolution.py)\<close>

text \<open>
  \<open>resolve_dimension\<close> as written, and its specification over sets: which rules apply, which of
  them another applicable rule overrides on this dimension, which values survive. The two agree
  on valid policies, whatever order the rules stand in.
\<close>

definition scenario_required_dimensions ::
  "scenario \<Rightarrow> policy_contract \<Rightarrow> ident set \<Rightarrow> effect_dimension set" where
  "scenario_required_dimensions s contract matched_ids =
     pc_required_dimensions contract
     \<union> set (map a_dimension (sc_assertions s))
     \<union> set (map (\<lambda>i. a_dimension (i_assertion i))
          (filter (\<lambda>i. i_invariant_id i \<in> matched_ids) (pc_invariants contract)))"

text \<open>Whether an unsupported clause makes the dimension inconclusive.\<close>

definition clause_applies ::
  "effect_dimension \<Rightarrow> effect_dimension set \<Rightarrow> scenario_facts \<Rightarrow> unsupported_clause \<Rightarrow> bool result" where
  "clause_applies dimension required facts c =
     (if dimension \<notin> uc_affected_dimensions c then Inr False
      else case uc_when_hint c of
        None \<Rightarrow> Inr (dimension \<in> required)
      | Some hint \<Rightarrow> conditions_match hint facts)"

definition effects_on :: "effect_dimension \<Rightarrow> rule \<Rightarrow> effect list" where
  "effects_on dimension r = filter (\<lambda>e. e_dimension e = dimension) (r_effects r)"

definition matching_rules ::
  "policy_ir \<Rightarrow> effect_dimension \<Rightarrow> rule_trace list \<Rightarrow> (ident \<times> rule) list" where
  "matching_rules policy dimension traces =
     (let matching = set (map rt_rule_id (filter rt_matched traces)) in
      dict_by r_rule_id
        (filter (\<lambda>r. r_rule_id r \<in> matching \<and> effects_on dimension r \<noteq> []) (pi_rules policy)))"

definition removed_rules :: "effect_dimension \<Rightarrow> (ident \<times> rule) list \<Rightarrow> ident list" where
  "removed_rules dimension rules =
     concat (map (\<lambda>(rid, r).
       map ov_target_rule_id
         (filter (\<lambda>edge. ov_dimension edge = dimension \<and> ov_target_rule_id edge \<in> set (keys rules))
           (r_overrides r))) rules)"

definition surviving_values ::
  "effect_dimension \<Rightarrow> (ident \<times> rule) list \<Rightarrow> ident list \<Rightarrow> effect_value list" where
  "surviving_values dimension rules removed =
     remdups (concat (map (\<lambda>(rid, r). map e_value (effects_on dimension r))
       (filter (\<lambda>(rid, r). rid \<notin> set removed) rules)))"

text \<open>\<open>sorted(values)\<close>: TypeError when integers meet strings.\<close>

definition sort_values :: "effect_value list \<Rightarrow> effect_value list result" where
  "sort_values vs =
     (if list_all (\<lambda>v. effect_value_name v = None) vs \<or> list_all (\<lambda>v. effect_value_name v \<noteq> None) vs
      then Inr (sort vs) else Inl TypeError)"

definition resolve_dimension ::
  "policy_ir \<Rightarrow> scenario \<Rightarrow> effect_dimension \<Rightarrow> effect_dimension set \<Rightarrow> rule_trace list
   \<Rightarrow> dimension_result result" where
  "resolve_dimension policy s dimension required traces =
     rbind (rfilter (clause_applies dimension required (sc_facts s)) (pi_unsupported_clauses policy))
       (\<lambda>clauses.
     let unsupported = sort (map uc_clause_id clauses) in
     if unsupported \<noteq> [] then
       validated dimension_result_checks
         \<lparr>dr_dimension = dimension, dr_status = EInconclusive, dr_value = None,
          dr_conflicting_values = [], dr_applicable_rule_ids = [], dr_overridden_rule_ids = [],
          dr_unsupported_clause_ids = unsupported\<rparr>
     else
       let rules = matching_rules policy dimension traces;
           removed = removed_rules dimension rules;
           values = surviving_values dimension rules removed;
           common = \<lparr>dr_dimension = dimension, dr_status = EGap, dr_value = None,
                     dr_conflicting_values = [], dr_applicable_rule_ids = sort (keys rules),
                     dr_overridden_rule_ids = sorted_unique removed,
                     dr_unsupported_clause_ids = []\<rparr>
       in if values = [] then
            validated dimension_result_checks
              (common\<lparr>dr_status := (if dimension \<in> required then EGap else ENotApplicable)\<rparr>)
          else if 1 < length values then
            rbind (sort_values values) (\<lambda>sorted_values.
              validated dimension_result_checks
                (common\<lparr>dr_status := EConflict, dr_conflicting_values := sorted_values\<rparr>))
          else
            validated dimension_result_checks
              (common\<lparr>dr_status := EValue, dr_value := Some (hd values)\<rparr>))"

subsection \<open>Specification\<close>

definition applicable :: "rule list \<Rightarrow> scenario_facts \<Rightarrow> effect_dimension \<Rightarrow> rule set" where
  "applicable rules facts d =
     {r \<in> set rules. all_hold (r_when r) facts \<and> d \<in> e_dimension ` set (r_effects r)}"

definition overridden :: "rule list \<Rightarrow> scenario_facts \<Rightarrow> effect_dimension \<Rightarrow> ident set" where
  "overridden rules facts d =
     {r_rule_id t | t. t \<in> applicable rules facts d
        \<and> (\<exists>r \<in> applicable rules facts d. \<exists>e \<in> set (r_overrides r).
              ov_dimension e = d \<and> ov_target_rule_id e = r_rule_id t)}"

definition outcomes :: "rule list \<Rightarrow> scenario_facts \<Rightarrow> effect_dimension \<Rightarrow> effect_value set" where
  "outcomes rules facts d =
     {e_value e | r e. r \<in> applicable rules facts d \<and> r_rule_id r \<notin> overridden rules facts d
        \<and> e \<in> set (r_effects r) \<and> e_dimension e = d}"

definition clause_blocks ::
  "effect_dimension \<Rightarrow> effect_dimension set \<Rightarrow> scenario_facts \<Rightarrow> unsupported_clause \<Rightarrow> bool" where
  "clause_blocks d required facts c \<longleftrightarrow>
     d \<in> uc_affected_dimensions c
     \<and> (case uc_when_hint c of None \<Rightarrow> d \<in> required | Some hint \<Rightarrow> all_hold hint facts)"

definition resolution ::
  "policy_ir \<Rightarrow> scenario_facts \<Rightarrow> effect_dimension \<Rightarrow> effect_dimension set \<Rightarrow> dimension_result" where
  "resolution policy facts d required =
     (let rules = pi_rules policy;
          blockers = filter (clause_blocks d required facts) (pi_unsupported_clauses policy);
          vs = outcomes rules facts d;
          blank = \<lparr>dr_dimension = d, dr_status = EInconclusive, dr_value = None,
                   dr_conflicting_values = [], dr_applicable_rule_ids = [],
                   dr_overridden_rule_ids = [], dr_unsupported_clause_ids = []\<rparr>;
          resolved = blank\<lparr>
            dr_applicable_rule_ids := sorted_list_of_set (r_rule_id ` applicable rules facts d),
            dr_overridden_rule_ids := sorted_list_of_set (overridden rules facts d)\<rparr>
      in if blockers \<noteq> [] then blank\<lparr>dr_unsupported_clause_ids := sort (map uc_clause_id blockers)\<rparr>
         else if vs = {} then
           resolved\<lparr>dr_status := (if d \<in> required then EGap else ENotApplicable)\<rparr>
         else if \<exists>v. vs = {v} then
           resolved\<lparr>dr_status := EValue, dr_value := Some (the_elem vs)\<rparr>
         else resolved\<lparr>dr_status := EConflict, dr_conflicting_values := sorted_list_of_set vs\<rparr>)"

subsection \<open>The dictionaries and lists of the code denote the sets of the specification\<close>

definition traces_of :: "rule list \<Rightarrow> scenario_facts \<Rightarrow> rule_trace list \<Rightarrow> bool" where
  "traces_of rules facts traces \<longleftrightarrow>
     rt_rule_id ` {t \<in> set traces. rt_matched t} =
     r_rule_id ` {r \<in> set rules. all_hold (r_when r) facts}"

lemma effects_on_nonempty: "effects_on d r \<noteq> [] \<longleftrightarrow> d \<in> e_dimension ` set (r_effects r)"
  by (auto simp: effects_on_def filter_empty_conv)

lemma set_effects_on [simp]: "set (effects_on d r) = {e \<in> set (r_effects r). e_dimension e = d}"
  by (simp add: effects_on_def)

lemma finite_applicable [simp]: "finite (applicable rules facts d)"
  by (simp add: applicable_def)

lemma finite_overridden [simp]: "finite (overridden rules facts d)"
  by (rule finite_subset [of _ "r_rule_id ` applicable rules facts d"]) (auto simp: overridden_def)

lemma finite_outcomes [simp]: "finite (outcomes rules facts d)"
  by (rule finite_subset [of _ "\<Union>r \<in> applicable rules facts d. e_value ` set (r_effects r)"])
    (auto simp: outcomes_def)

lemma matched_rule_iff:
  assumes "traces_of (pi_rules policy) facts traces" and "distinct (map r_rule_id (pi_rules policy))"
    and "r \<in> set (pi_rules policy)"
  shows "r_rule_id r \<in> set (map rt_rule_id (filter rt_matched traces)) \<longleftrightarrow> all_hold (r_when r) facts"
proof -
  have "set (map rt_rule_id (filter rt_matched traces)) =
      r_rule_id ` {r \<in> set (pi_rules policy). all_hold (r_when r) facts}"
    using assms(1) by (simp add: traces_of_def)
  moreover have "inj_on r_rule_id (set (pi_rules policy))"
    using assms(2) by (simp add: distinct_map)
  ultimately show ?thesis
    using assms(3) by (auto simp: inj_on_def)
qed

lemma matching_rules_eq:
  assumes "traces_of (pi_rules policy) facts traces" and "distinct (map r_rule_id (pi_rules policy))"
  shows "matching_rules policy d traces =
    map (\<lambda>r. (r_rule_id r, r))
      (filter (\<lambda>r. all_hold (r_when r) facts \<and> d \<in> e_dimension ` set (r_effects r)) (pi_rules policy))"
proof -
  have "filter (\<lambda>r. r_rule_id r \<in> set (map rt_rule_id (filter rt_matched traces))
          \<and> effects_on d r \<noteq> []) (pi_rules policy) =
        filter (\<lambda>r. all_hold (r_when r) facts \<and> d \<in> e_dimension ` set (r_effects r)) (pi_rules policy)"
    using matched_rule_iff [OF assms] unfolding effects_on_nonempty by (intro filter_cong) auto
  then show ?thesis
    using assms(2)
    by (simp add: matching_rules_def Let_def dict_by_distinct distinct_map_filter del: set_map)
qed

lemma set_matching_rules:
  assumes "traces_of (pi_rules policy) facts traces" and "distinct (map r_rule_id (pi_rules policy))"
  shows "set (matching_rules policy d traces) =
    (\<lambda>r. (r_rule_id r, r)) ` applicable (pi_rules policy) facts d"
  by (simp add: matching_rules_eq [OF assms] applicable_def)

lemma keys_matching_rules:
  assumes "traces_of (pi_rules policy) facts traces" and "distinct (map r_rule_id (pi_rules policy))"
  shows "sort (keys (matching_rules policy d traces)) =
    sorted_list_of_set (r_rule_id ` applicable (pi_rules policy) facts d)"
proof -
  have "set (keys (matching_rules policy d traces)) = r_rule_id ` applicable (pi_rules policy) facts d"
    using set_matching_rules [OF assms] by (simp add: keys_def image_image)
  moreover have "distinct (keys (matching_rules policy d traces))"
    using assms(2) by (simp add: matching_rules_eq [OF assms] keys_def comp_def distinct_map_filter)
  ultimately show ?thesis
    by (metis sorted_list_of_set_sort_remdups distinct_remdups_id)
qed

lemma set_removed_rules:
  assumes "traces_of (pi_rules policy) facts traces" and "distinct (map r_rule_id (pi_rules policy))"
  shows "set (removed_rules d (matching_rules policy d traces)) = overridden (pi_rules policy) facts d"
proof -
  have k: "set (keys (matching_rules policy d traces)) = r_rule_id ` applicable (pi_rules policy) facts d"
    using set_matching_rules [OF assms] by (simp add: keys_def image_image)
  have "set (removed_rules d (matching_rules policy d traces)) =
    {ov_target_rule_id e | r e. r \<in> applicable (pi_rules policy) facts d \<and> e \<in> set (r_overrides r)
       \<and> ov_dimension e = d \<and> ov_target_rule_id e \<in> r_rule_id ` applicable (pi_rules policy) facts d}"
    unfolding removed_rules_def k set_concat set_map set_matching_rules [OF assms] by auto
  also have "\<dots> = overridden (pi_rules policy) facts d"
    unfolding overridden_def by force
  finally show ?thesis .
qed

lemma set_surviving_values:
  assumes "traces_of (pi_rules policy) facts traces" and "distinct (map r_rule_id (pi_rules policy))"
  shows "set (surviving_values d (matching_rules policy d traces)
            (removed_rules d (matching_rules policy d traces))) = outcomes (pi_rules policy) facts d"
  unfolding surviving_values_def set_remdups set_concat set_map set_filter
    set_removed_rules [OF assms] set_matching_rules [OF assms] outcomes_def by auto

lemma sort_Nil_iff: "sort xs = [] \<longleftrightarrow> xs = []"
  by (metis mset_sort mset_zero_iff)

lemma sorted_values_outcomes:
  assumes "set vs = A" and "distinct vs"
  shows "sort vs = sorted_list_of_set A"
  using assms by (metis sorted_list_of_set_sort_remdups distinct_remdups_id)

subsection \<open>Outcomes of a valid policy\<close>

lemma outcomes_fit:
  assumes "valid_policy_ir policy" and "v \<in> outcomes (pi_rules policy) facts d"
  shows "effect_value_fits d v"
  using assms valid_effect_fits valid_rule_effects valid_policy_rules
  by (fastforce simp: outcomes_def applicable_def)

lemma sort_values_outcomes:
  assumes "valid_policy_ir policy" and "set vs = outcomes (pi_rules policy) facts d"
  shows "sort_values vs = Inr (sort vs)"
proof -
  have fit: "\<And>v. v \<in> set vs \<Longrightarrow> effect_value_fits d v"
    using outcomes_fit [OF assms(1)] assms(2) by metis
  have "effect_value_name v = None \<longleftrightarrow> \<not> categorical d" if "effect_value_fits d v" for v
    using that by (cases d; cases v) (simp_all add: effect_value_fits_def categorical_def)
  with fit show ?thesis
    by (cases "categorical d") (simp_all add: sort_values_def list_all_iff)
qed

lemma applicable_id_ok:
  "valid_policy_ir policy \<Longrightarrow> r \<in> applicable (pi_rules policy) facts d \<Longrightarrow> identifier_ok (r_rule_id r)"
  using valid_policy_rules [of policy r] by (simp add: applicable_def valid_by_def rule_checks_def)

lemma overridden_applicable: "overridden rules facts d \<subseteq> r_rule_id ` applicable rules facts d"
  by (auto simp: overridden_def)

lemma valid_clause:
  assumes "valid_policy_ir policy" and "c \<in> set (pi_unsupported_clauses policy)"
  shows "identifier_ok (uc_clause_id c)" and "optional (list_all valid_predicate) (uc_when_hint c)"
proof -
  have "valid_by unsupported_clause_checks c"
    using assms by (simp add: valid_policy_ir_iff policy_fields_ok_def)
  then show "identifier_ok (uc_clause_id c)" "optional (list_all valid_predicate) (uc_when_hint c)"
    by (simp_all add: valid_by_def unsupported_clause_checks_def)
qed

lemma clause_applies_blocks:
  assumes "valid_policy_ir policy" and "c \<in> set (pi_unsupported_clauses policy)" and "valid_facts facts"
  shows "clause_applies d required facts c = Inr (clause_blocks d required facts c)"
  using valid_clause(2) [OF assms(1,2)] assms(3)
  by (auto simp: clause_applies_def clause_blocks_def conditions_match_holds split: option.splits)

lemma resolution_valid:
  assumes "valid_policy_ir policy"
  shows "valid_dimension_result (resolution policy facts d required)"
proof -
  let ?vs = "outcomes (pi_rules policy) facts d"
  have fit: "\<And>v. v \<in> ?vs \<Longrightarrow> effect_value_fits d v \<and> effect_value_ok v"
    using outcomes_fit [OF assms] effect_value_fits_ok by metis
  have ids: "list_all identifier_ok (sorted_list_of_set (r_rule_id ` applicable (pi_rules policy) facts d))"
    "list_all identifier_ok (sorted_list_of_set (overridden (pi_rules policy) facts d))"
    using applicable_id_ok [OF assms] overridden_applicable [of "pi_rules policy" facts d]
    by (auto simp: list_all_iff)
  have clauses: "list_all identifier_ok (sort (map uc_clause_id
      (filter (clause_blocks d required facts) (pi_unsupported_clauses policy))))"
    using valid_clause(1) [OF assms] by (auto simp: list_all_iff)
  have two: "2 \<le> length (sorted_list_of_set ?vs)" if "?vs \<noteq> {}" "\<nexists>v. ?vs = {v}"
  proof -
    have "0 < card ?vs" using that(1) by (simp add: card_gt_0_iff)
    moreover have "card ?vs \<noteq> 1" using that(2) by (auto simp: card_1_singleton_iff)
    ultimately show ?thesis by simp
  qed
  have one: "effect_value_fits d (the_elem ?vs) \<and> effect_value_ok (the_elem ?vs)" if "?vs = {v}" for v
    using fit [of v] that by simp
  show ?thesis
    using ids clauses two one fit
    by (auto simp: resolution_def Let_def valid_by_def dimension_result_checks_def list_all_iff
        validate_effect_value_def distinct_remdups_id)
qed

lemma resolve_dimension_resolution:
  assumes "valid_policy_ir policy" and "valid_facts (sc_facts s)"
    and "traces_of (pi_rules policy) (sc_facts s) traces"
  shows "resolve_dimension policy s d required traces = Inr (resolution policy (sc_facts s) d required)"
proof -
  note dist = valid_policy_distinct [OF assms(1)]
  let ?rules = "matching_rules policy d traces"
  let ?vals = "surviving_values d ?rules (removed_rules d ?rules)"
  let ?vs = "outcomes (pi_rules policy) (sc_facts s) d"
  have clauses: "rfilter (clause_applies d required (sc_facts s)) (pi_unsupported_clauses policy) =
      Inr (filter (clause_blocks d required (sc_facts s)) (pi_unsupported_clauses policy))"
    by (rule rfilter_eq_filter) (rule clause_applies_blocks [OF assms(1) _ assms(2)])
  have vals: "set ?vals = ?vs" by (rule set_surviving_values [OF assms(3) dist])
  have dv: "distinct ?vals" by (simp add: surviving_values_def)
  have ids: "sort (keys ?rules) = sorted_list_of_set (r_rule_id ` applicable (pi_rules policy) (sc_facts s) d)"
    by (rule keys_matching_rules [OF assms(3) dist])
  have rem: "sorted_unique (removed_rules d ?rules) =
      sorted_list_of_set (overridden (pi_rules policy) (sc_facts s) d)"
    unfolding sorted_unique_def set_removed_rules [OF assms(3) dist, symmetric]
    by (simp add: sorted_list_of_set_sort_remdups)
  have empty: "?vals = [] \<longleftrightarrow> ?vs = {}"
    unfolding vals [symmetric] by simp
  have single: "length ?vals = 1 \<Longrightarrow> ?vs = {hd ?vals}"
    using vals by (metis One_nat_def length_0_conv length_Suc_conv list.sel(1) list.set(1) list.simps(15))
  have many: "1 < length ?vals \<Longrightarrow> \<nexists>v. ?vs = {v}"
    using distinct_card [OF dv] unfolding vals by (auto simp: card_1_singleton_iff)
  have srt: "sort_values ?vals = Inr (sorted_list_of_set ?vs)"
    using sort_values_outcomes [OF assms(1) vals] sorted_values_outcomes [OF vals dv] by simp
  note valid = resolution_valid [OF assms(1), of "sc_facts s" d required]
  show ?thesis
  proof (cases "filter (clause_blocks d required (sc_facts s)) (pi_unsupported_clauses policy) = []")
    case False
    then show ?thesis
      using valid
      by (simp add: resolve_dimension_def clauses resolution_def Let_def sort_Nil_iff
          del: length_0_conv cong: if_weak_cong)
  next
    case True
    consider "?vals = []" | "length ?vals = 1" | "1 < length ?vals"
      by (cases ?vals) auto
    then show ?thesis
    proof cases
      case 1
      then show ?thesis
        using valid True empty
        by (simp add: resolve_dimension_def clauses resolution_def Let_def ids rem)
    next
      case 2
      then have "?vals \<noteq> []" by auto
      then show ?thesis
        using valid True single [OF 2] 2
        by (simp add: resolve_dimension_def clauses resolution_def Let_def ids rem)
    next
      case 3
      then have "?vals \<noteq> []" by auto
      then show ?thesis
        using valid True many [OF 3] empty 3
        by (simp add: resolve_dimension_def clauses resolution_def Let_def ids rem srt)
    qed
  qed
qed

subsection \<open>Precedence never removes every effect\<close>

text \<open>
  The override relation of a valid policy is acyclic, so among the rules that apply to a dimension
  some rule is overridden by none of the others: a gap means that no rule applies at all.
\<close>

lemma unoverridden_exists:
  assumes "acyclic (override_relation rules)" and "applicable rules facts d \<noteq> {}"
  shows "\<exists>r \<in> applicable rules facts d. r_rule_id r \<notin> overridden rules facts d"
proof -
  let ?R = "override_relation rules" and ?Q = "r_rule_id ` applicable rules facts d"
  have "override_relation rules \<subseteq>
      (\<Union>r \<in> set rules. \<Union>e \<in> set (r_overrides r). {(r_rule_id r, ov_target_rule_id e)})"
    by (auto simp: override_relation_def)
  then have "finite ?R" by (rule finite_subset) auto
  then have "wf ?R" using assms(1) by (rule finite_acyclic_wf)
  then obtain z where z: "z \<in> ?Q" and min: "\<And>y. (y, z) \<in> ?R \<Longrightarrow> y \<notin> ?Q"
    using assms(2) by (metis ex_in_conv image_is_empty wfE_min)
  from z obtain r where r: "r \<in> applicable rules facts d" "z = r_rule_id r" by auto
  have "r_rule_id r \<notin> overridden rules facts d"
  proof
    assume "r_rule_id r \<in> overridden rules facts d"
    then obtain r' e where r': "r' \<in> applicable rules facts d" "e \<in> set (r_overrides r')"
      "ov_target_rule_id e = r_rule_id r"
      by (auto simp: overridden_def)
    then have "(r_rule_id r', z) \<in> ?R"
      using r(2) unfolding override_relation_def applicable_def mem_Collect_eq by metis
    with min r'(1) show False by blast
  qed
  with r(1) show ?thesis by blast
qed

lemma outcomes_empty_iff:
  assumes "acyclic (override_relation rules)"
  shows "outcomes rules facts d = {} \<longleftrightarrow> applicable rules facts d = {}"
proof
  assume none: "outcomes rules facts d = {}"
  show "applicable rules facts d = {}"
  proof (rule ccontr)
    assume "applicable rules facts d \<noteq> {}"
    then obtain r where r: "r \<in> applicable rules facts d" "r_rule_id r \<notin> overridden rules facts d"
      using unoverridden_exists [OF assms] by blast
    then obtain e where "e \<in> set (r_effects r)" "e_dimension e = d"
      by (auto simp: applicable_def)
    with r none show False by (auto simp: outcomes_def)
  qed
qed (auto simp: outcomes_def)

lemma resolution_status_cases:
  assumes "acyclic (override_relation (pi_rules policy))"
    and "\<not> list_ex (clause_blocks d required facts) (pi_unsupported_clauses policy)"
  shows "dr_status (resolution policy facts d required) =
    (if applicable (pi_rules policy) facts d = {} then (if d \<in> required then EGap else ENotApplicable)
     else if card (outcomes (pi_rules policy) facts d) = 1 then EValue else EConflict)"
proof -
  have "filter (clause_blocks d required facts) (pi_unsupported_clauses policy) = []"
    using assms(2) by (auto simp: filter_empty_conv list_ex_iff)
  then show ?thesis
    using outcomes_empty_iff [OF assms(1), of facts d]
    by (auto simp: resolution_def Let_def card_1_singleton_iff)
qed

text \<open>The specification sees the set of rules, not their order.\<close>

lemma resolution_rule_set:
  assumes "set (pi_rules policy) = set (pi_rules policy')"
    and "pi_unsupported_clauses policy = pi_unsupported_clauses policy'"
  shows "resolution policy facts d required = resolution policy' facts d required"
proof -
  have "applicable (pi_rules policy) facts d = applicable (pi_rules policy') facts d"
    using assms(1) by (simp add: applicable_def)
  moreover from this have over: "overridden (pi_rules policy) facts d = overridden (pi_rules policy') facts d"
    unfolding overridden_def by simp
  moreover have "outcomes (pi_rules policy) facts d = outcomes (pi_rules policy') facts d"
    unfolding outcomes_def over calculation by simp
  ultimately show ?thesis
    unfolding resolution_def Let_def using assms(2) by (simp only:)
qed

end
