(* ===== verification/Rule_Validation.thy ===== *)
theory Rule_Validation
  imports Resolution
begin

section \<open>Impossible rules and cyclic precedence (features/evaluation/rule_validation.py)\<close>

text \<open>
  The satisfiability test tries, per field, the ends of the range and the neighbours of every
  constant. It is shown exact: it succeeds precisely when some admissible facts meet the
  condition, and the dual test precisely when all do. The per-dimension cycle search is shown to
  find nothing the policy validator has not refused already.
\<close>

subsection \<open>The tests of the code\<close>

fun domain_values :: "predicate_field \<Rightarrow> pyval list option" where
  "domain_values F_employee_role =
     Some [VStr ''employee'', VStr ''manager'', VStr ''director'', VStr ''executive'']"
| "domain_values F_expense_category =
     Some [VStr ''meal'', VStr ''hotel'', VStr ''transport'', VStr ''airfare'', VStr ''incidental'']"
| "domain_values F_destination_type = Some [VStr ''domestic'', VStr ''international'']"
| "domain_values F_receipt_present = Some [VBool True, VBool False]"
| "domain_values f = None"

fun maxima :: "predicate_field \<Rightarrow> int option" where
  "maxima F_amount_minor = Some 10000000"
| "maxima F_booking_days_before = Some 365"
| "maxima F_prior_same_day_category_spend_minor = Some 10000000"
| "maxima F_daily_category_total_minor = Some 20000000"
| "maxima f = None"

text \<open>The integer a predicate value is in arithmetic.\<close>

definition number_of :: "pyval \<Rightarrow> int result" where
  "number_of v = (case v of VInt n \<Rightarrow> Inr n | VBool b \<Rightarrow> Inr (int_of_bool b) | _ \<Rightarrow> Inl TypeError)"

definition neighbours :: "int \<Rightarrow> predicate \<Rightarrow> pyval list result" where
  "neighbours maximum p =
     rbind (number_of (p_value p)) (\<lambda>n.
       Inr (map VInt (filter (\<lambda>v. 0 \<le> v \<and> v \<le> maximum) [n - 1, n, n + 1])))"

definition field_candidates :: "predicate_field \<Rightarrow> predicate list \<Rightarrow> pyval list result" where
  "field_candidates field items =
     (case maxima field of
        Some maximum \<Rightarrow>
          rbind (traverse (neighbours maximum) items) (\<lambda>vs. Inr (VInt 0 # VInt maximum # concat vs))
      | None \<Rightarrow> (case domain_values field of None \<Rightarrow> Inl KeyError | Some vs \<Rightarrow> Inr vs))"

definition field_satisfiable :: "predicate list \<Rightarrow> predicate_field \<Rightarrow> bool result" where
  "field_satisfiable predicates field =
     (let items = filter (\<lambda>p. p_field p = field) predicates in
      if field = F_approval_roles_present then Inr True
      else rbind (field_candidates field items) (\<lambda>candidates.
             rany (\<lambda>v. rall (\<lambda>p. apply_operator (p_operator p) v (p_value p)) items) candidates))"

definition conditions_satisfiable :: "predicate list \<Rightarrow> bool result" where
  "conditions_satisfiable predicates =
     rall (field_satisfiable predicates) (remdups (map p_field predicates))"

definition predicate_unrestricted :: "predicate \<Rightarrow> bool result" where
  "predicate_unrestricted p =
     (if p_field p = F_approval_roles_present then Inr False
      else rbind
        (case domain_values (p_field p) of
           Some vs \<Rightarrow> Inr vs
         | None \<Rightarrow>
             (case maxima (p_field p) of
                None \<Rightarrow> Inl KeyError
              | Some maximum \<Rightarrow>
                  rbind (number_of (p_value p)) (\<lambda>n.
                    Inr (VInt 0 # VInt maximum # p_value p
                      # map VInt (filter (\<lambda>v. 0 \<le> v \<and> v \<le> maximum) [n - 1, n + 1])))))
        (\<lambda>candidates. rall (\<lambda>v. apply_operator (p_operator p) v (p_value p)) candidates))"

definition conditions_unrestricted :: "predicate list \<Rightarrow> bool result" where
  "conditions_unrestricted predicates = rall predicate_unrestricted predicates"

text \<open>The targets of a rule's edges on one dimension, for \<open>visit\<close> in \<open>validate_rule_set\<close>.\<close>

definition override_targets_on :: "effect_dimension \<Rightarrow> rule list \<Rightarrow> ident \<Rightarrow> ident list" where
  "override_targets_on dimension rules rid =
     (case map_of (rules_by_id rules) rid of
        None \<Rightarrow> []
      | Some r \<Rightarrow> map ov_target_rule_id (filter (\<lambda>e. ov_dimension e = dimension) (r_overrides r)))"

definition validate_rule :: "rule list \<Rightarrow> rule \<Rightarrow> unit result" where
  "validate_rule rules r =
     rbind (conditions_satisfiable (r_when r)) (\<lambda>b.
       if \<not> b then Inl (ValueError (''UNSATISFIABLE: '' @ r_rule_id r))
       else rfold (\<lambda>dimension u.
              rbind (dfs_visit ''OVERRIDE_CYCLE'' (keys (rules_by_id rules))
                       (override_targets_on dimension rules) [] [] (r_rule_id r)) (\<lambda>_. Inr ()))
              (remdups (effect_dims (r_effects r))) ())"

definition validate_rule_set :: "policy_ir \<Rightarrow> unit result" where
  "validate_rule_set policy =
     (case validated policy_ir_checks policy of
        Inl (ValueError msg) \<Rightarrow> Inl (ValueError (''INVALID_RULE_SET: '' @ msg))
      | Inl e \<Rightarrow> Inl e
      | Inr p \<Rightarrow> rfold (\<lambda>r u. validate_rule (pi_rules policy) r) (pi_rules policy) ())"

subsection \<open>Neighbours of the constants are enough\<close>

lemma comparison_representative:
  fixes N :: "int set"
  assumes "finite N" and "\<And>n. n \<in> N \<Longrightarrow> 0 \<le> n \<and> n \<le> maximum" and "0 \<le> v" "v \<le> maximum"
  defines "C \<equiv> {0, maximum} \<union> {c. 0 \<le> c \<and> c \<le> maximum \<and> (\<exists>n \<in> N. c = n - 1 \<or> c = n \<or> c = n + 1)}"
  shows "\<exists>c \<in> C. \<forall>n \<in> N. (c < n \<longleftrightarrow> v < n) \<and> (c = n \<longleftrightarrow> v = n)"
proof (cases "v \<in> C")
  case True
  then show ?thesis by (intro bexI [of _ v]) auto
next
  case False
  have "{c \<in> C. c < v} \<subseteq> {0..maximum}" using assms(3,4) by (auto simp: C_def)
  then have fin: "finite {c \<in> C. c < v}" by (rule finite_subset) (rule finite_atLeastAtMost_int)
  moreover have "0 \<in> {c \<in> C. c < v}"
    using False assms(3) by (auto simp: C_def order.order_iff_strict)
  ultimately have c: "Max {c \<in> C. c < v} \<in> {c \<in> C. c < v}" by (intro Max_in) auto
  let ?c = "Max {c \<in> C. c < v}"
  have "(?c < n \<longleftrightarrow> v < n) \<and> (?c = n \<longleftrightarrow> v = n)" if n: "n \<in> N" for n
  proof -
    note rng = assms(2) [OF n]
    have "n \<in> C" using n rng by (auto simp: C_def)
    then have "v \<noteq> n" using False by auto
    show ?thesis
    proof (cases "v < n")
      case True
      then show ?thesis using c by auto
    next
      case False
      with \<open>v \<noteq> n\<close> have "n < v" by simp
      moreover have "v \<noteq> n + 1" using \<open>v \<notin> C\<close> n assms(3,4) by (auto simp: C_def)
      ultimately have "n + 1 \<in> {c \<in> C. c < v}" using n rng assms(4) by (auto simp: C_def)
      then have "n + 1 \<le> ?c" using fin by (intro Max_ge) auto
      then show ?thesis using \<open>n < v\<close> by auto
    qed
  qed
  with c show ?thesis by blast
qed

lemma compare_int_cong:
  "(c < n \<longleftrightarrow> v < n) \<Longrightarrow> (c = n \<longleftrightarrow> v = n) \<Longrightarrow> compare_int op c n = compare_int op v (n :: int)"
  by (cases op) (auto simp: compare_int_def)

lemma maxima_eq: "maxima f = integer_max f"
  by (cases f) auto

lemma domain_values_kind:
  "domain_values f = Some vs \<Longrightarrow> v \<in> set vs \<longleftrightarrow> field_kind_ok f v"
  by (cases f; cases v) (auto simp: field_kind_ok_def)

lemma no_candidates_approval: "domain_values f = None \<Longrightarrow> integer_max f = None \<Longrightarrow> f = F_approval_roles_present"
  by (cases f) auto

definition number :: "predicate \<Rightarrow> int" where
  "number p = (case p_value p of VInt n \<Rightarrow> n | _ \<Rightarrow> 0)"

lemma valid_number:
  assumes "valid_predicate p" and "integer_max (p_field p) = Some maximum"
  shows "p_value p = VInt (number p)" and "0 \<le> number p" and "number p \<le> maximum"
  using assms(1)
  by (cases rule: valid_predicate_cases; use assms(2) in \<open>auto simp: number_def elim: enum_domain.elims\<close>)+

subsection \<open>The satisfiability test is exact\<close>

text \<open>The values of one field that meet every predicate of the condition on it.\<close>

definition field_solution :: "predicate list \<Rightarrow> predicate_field \<Rightarrow> pyval \<Rightarrow> bool" where
  "field_solution ps f v \<longleftrightarrow>
     field_kind_ok f v \<and> (\<forall>p \<in> set ps. p_field p = f \<longrightarrow> holds_value (p_operator p) v (p_value p))"

definition number_candidates :: "int \<Rightarrow> predicate list \<Rightarrow> pyval list" where
  "number_candidates maximum items =
     VInt 0 # VInt maximum # concat (map (\<lambda>p. map VInt (filter (\<lambda>v. 0 \<le> v \<and> v \<le> maximum)
       [number p - 1, number p, number p + 1])) items)"

lemma field_candidates_number:
  assumes "list_all valid_predicate items" and "\<forall>p \<in> set items. p_field p = f"
    and "integer_max f = Some maximum"
  shows "field_candidates f items = Inr (number_candidates maximum items)"
proof -
  have "neighbours maximum p = Inr (map VInt (filter (\<lambda>v. 0 \<le> v \<and> v \<le> maximum)
      [number p - 1, number p, number p + 1]))" if "p \<in> set items" for p
  proof -
    have "p_value p = VInt (number p)"
      using valid_number(1) [of p maximum] assms that by (simp add: list_all_iff)
    then show ?thesis by (simp add: neighbours_def number_of_def del: filter.simps)
  qed
  then show ?thesis
    using traverse_eq_map [of items "neighbours maximum"] assms(3)
    by (simp add: field_candidates_def maxima_eq number_candidates_def del: filter.simps)
qed

lemma number_candidates_kind:
  assumes "integer_max f = Some maximum" and "v \<in> set (number_candidates maximum items)"
  shows "field_kind_ok f v"
proof -
  have "0 \<le> maximum" using assms(1) by (cases f) auto
  then show ?thesis
    using assms by (auto simp: number_candidates_def field_kind_ok_def simp del: filter.simps)
qed

lemma number_candidates_enough:
  assumes "list_all valid_predicate items" and "\<forall>p \<in> set items. p_field p = f"
    and "integer_max f = Some maximum" and "field_solution items f v"
  shows "\<exists>w \<in> set (number_candidates maximum items). field_solution items f w"
proof -
  obtain m where m: "v = VInt m" "0 \<le> m" "m \<le> maximum"
    using assms(3,4) by (auto simp: field_solution_def field_kind_ok_def split: pyval.splits)
  have rng: "0 \<le> n \<and> n \<le> maximum" if "n \<in> number ` set items" for n
    using that valid_number [of _ maximum] assms(1-3) by (auto simp: list_all_iff)
  have "finite (number ` set items)" by simp
  from comparison_representative [OF this rng m(2,3)]
  obtain c where c: "c \<in> {0, maximum} \<union> {c. 0 \<le> c \<and> c \<le> maximum
        \<and> (\<exists>n \<in> number ` set items. c = n - 1 \<or> c = n \<or> c = n + 1)}"
    and same: "\<forall>n \<in> number ` set items. (c < n \<longleftrightarrow> m < n) \<and> (c = n \<longleftrightarrow> m = n)"
    by blast
  have mem: "VInt c \<in> set (number_candidates maximum items)"
    using c by (auto simp: number_candidates_def)
  have "holds_value (p_operator p) (VInt c) (p_value p)" if "p \<in> set items" for p
  proof -
    have n: "p_value p = VInt (number p)"
      using valid_number(1) [of p maximum] assms(1-3) that by (simp add: list_all_iff)
    have "compare_int (p_operator p) c (number p) = compare_int (p_operator p) m (number p)"
      using same that by (intro compare_int_cong) auto
    moreover have "holds_value (p_operator p) v (p_value p)"
      using assms(2,4) that by (simp add: field_solution_def)
    ultimately show ?thesis
      by (simp add: holds_value_def n m(1))
  qed
  then have "field_solution items f (VInt c)"
    using number_candidates_kind [OF assms(3) mem] by (simp add: field_solution_def)
  with mem show ?thesis by blast
qed

lemma field_satisfiable_iff:
  assumes "list_all valid_predicate ps" and "f \<noteq> F_approval_roles_present"
  shows "field_satisfiable ps f = Inr (\<exists>v. field_solution ps f v)"
proof -
  let ?items = "filter (\<lambda>p. p_field p = f) ps"
  have items: "list_all valid_predicate ?items" "\<forall>p \<in> set ?items. p_field p = f"
    using assms(1) by (auto simp: list_all_iff)
  have sol: "field_solution ?items f v \<longleftrightarrow> field_solution ps f v" for v
    by (auto simp: field_solution_def)
  have test: "rany (\<lambda>v. rall (\<lambda>p. apply_operator (p_operator p) v (p_value p)) ?items) cs =
      Inr (\<exists>v. field_solution ps f v)"
    if kind: "\<And>v. v \<in> set cs \<Longrightarrow> field_kind_ok f v"
      and enough: "(\<exists>v. field_solution ps f v) \<Longrightarrow> \<exists>v \<in> set cs. field_solution ps f v" for cs
  proof -
    have "rall (\<lambda>p. apply_operator (p_operator p) v (p_value p)) ?items = Inr (field_solution ps f v)"
      if v: "v \<in> set cs" for v
    proof -
      have "rall (\<lambda>p. apply_operator (p_operator p) v (p_value p)) ?items =
          Inr (list_all (\<lambda>p. holds_value (p_operator p) v (p_value p)) ?items)"
      proof (rule rall_eq)
        fix p assume "p \<in> set ?items"
        then have "valid_predicate p" "p_field p = f" using assms(1) by (auto simp: list_all_iff)
        then show "apply_operator (p_operator p) v (p_value p) =
            Inr (holds_value (p_operator p) v (p_value p))"
          using kind [OF v] by (intro apply_operator_holds) auto
      qed
      also have "list_all (\<lambda>p. holds_value (p_operator p) v (p_value p)) ?items = field_solution ps f v"
        using kind [OF v] by (auto simp: field_solution_def list_all_iff)
      finally show ?thesis .
    qed
    then have "rany (\<lambda>v. rall (\<lambda>p. apply_operator (p_operator p) v (p_value p)) ?items) cs =
        Inr (list_ex (field_solution ps f) cs)"
      by (rule rany_eq)
    then show ?thesis using enough by (auto simp: list_ex_iff)
  qed
  show ?thesis
  proof (cases "integer_max f")
    case (Some maximum)
    have "rany (\<lambda>v. rall (\<lambda>p. apply_operator (p_operator p) v (p_value p)) ?items)
        (number_candidates maximum ?items) = Inr (\<exists>v. field_solution ps f v)"
    proof (rule test)
      show "field_kind_ok f v" if "v \<in> set (number_candidates maximum ?items)" for v
        using number_candidates_kind [OF Some that] .
      show "\<exists>v \<in> set (number_candidates maximum ?items). field_solution ps f v"
        if "\<exists>v. field_solution ps f v"
        using that number_candidates_enough [OF items Some] unfolding sol by blast
    qed
    then show ?thesis
      using assms(2) field_candidates_number [OF items Some] by (simp add: field_satisfiable_def Let_def)
  next
    case None
    then obtain vs where vs: "domain_values f = Some vs"
      using no_candidates_approval [of f] assms(2) by (cases "domain_values f") auto
    have "rany (\<lambda>v. rall (\<lambda>p. apply_operator (p_operator p) v (p_value p)) ?items) vs =
        Inr (\<exists>v. field_solution ps f v)"
      using domain_values_kind [OF vs] by (intro test) (auto simp: field_solution_def)
    then show ?thesis
      using assms(2) None vs by (simp add: field_satisfiable_def field_candidates_def maxima_eq Let_def)
  qed
qed

subsection \<open>Facts with chosen field values\<close>

lemma ex_enum_name:
  "s \<in> set [''employee'', ''manager'', ''director'', ''executive''] \<Longrightarrow> \<exists>r. employee_role_name r = s"
  "s \<in> set [''meal'', ''hotel'', ''transport'', ''airfare'', ''incidental''] \<Longrightarrow>
     \<exists>c. expense_category_name c = s"
  "s \<in> set [''domestic'', ''international''] \<Longrightarrow> \<exists>t. destination_type_name t = s"
  unfolding list.set
  by (elim insertE emptyE; metis employee_role_name.simps expense_category_name.simps
      destination_type_name.simps)+

lemma ex_role_names:
  assumes "A \<subseteq> set [''manager'', ''director'', ''finance'']"
  shows "\<exists>R. approval_role_name ` R = A"
proof
  show "approval_role_name ` {r. approval_role_name r \<in> A} = A"
  proof (intro equalityI subsetI)
    fix s assume "s \<in> A"
    moreover from this assms have "s \<in> {''manager'', ''director'', ''finance''}" by auto
    then obtain r where "approval_role_name r = s"
      by (elim insertE emptyE; metis approval_role_name.simps)
    ultimately show "s \<in> approval_role_name ` {r. approval_role_name r \<in> A}" by auto
  qed auto
qed

lemma kind_name:
  "field_kind_ok F_employee_role v \<Longrightarrow> \<exists>r. v = VStr (employee_role_name r)"
  "field_kind_ok F_expense_category v \<Longrightarrow> \<exists>c. v = VStr (expense_category_name c)"
  "field_kind_ok F_destination_type v \<Longrightarrow> \<exists>t. v = VStr (destination_type_name t)"
proof -
  assume k: "field_kind_ok F_employee_role v"
  then obtain s where "v = VStr s" "s \<in> set [''employee'', ''manager'', ''director'', ''executive'']"
    by (cases v) (simp_all add: field_kind_ok_def)
  then show "\<exists>r. v = VStr (employee_role_name r)" using ex_enum_name(1) by metis
next
  assume k: "field_kind_ok F_expense_category v"
  then obtain s where "v = VStr s"
    "s \<in> set [''meal'', ''hotel'', ''transport'', ''airfare'', ''incidental'']"
    by (cases v) (simp_all add: field_kind_ok_def)
  then show "\<exists>c. v = VStr (expense_category_name c)" using ex_enum_name(2) by metis
next
  assume k: "field_kind_ok F_destination_type v"
  then obtain s where "v = VStr s" "s \<in> set [''domestic'', ''international'']"
    by (cases v) (simp_all add: field_kind_ok_def)
  then show "\<exists>t. v = VStr (destination_type_name t)" using ex_enum_name(3) by metis
qed

lemma facts_with_values:
  assumes "\<And>f. field_kind_ok f (v f)"
  shows "\<exists>facts. valid_facts facts \<and> (\<forall>f. f \<noteq> F_daily_category_total_minor \<longrightarrow> fact_value f facts = v f)"
proof -
  obtain r where r: "v F_employee_role = VStr (employee_role_name r)"
    using kind_name(1) [OF assms] by blast
  obtain c where c: "v F_expense_category = VStr (expense_category_name c)"
    using kind_name(2) [OF assms] by blast
  obtain t where t: "v F_destination_type = VStr (destination_type_name t)"
    using kind_name(3) [OF assms] by blast
  obtain a where a: "v F_amount_minor = VInt a" "0 \<le> a" "a \<le> 10000000"
    using assms [of F_amount_minor] by (auto simp: field_kind_ok_def split: pyval.splits)
  obtain b where b: "v F_booking_days_before = VInt b" "0 \<le> b" "b \<le> 365"
    using assms [of F_booking_days_before] by (auto simp: field_kind_ok_def split: pyval.splits)
  obtain p where p: "v F_prior_same_day_category_spend_minor = VInt p" "0 \<le> p" "p \<le> 10000000"
    using assms [of F_prior_same_day_category_spend_minor]
    by (auto simp: field_kind_ok_def split: pyval.splits)
  obtain x where x: "v F_receipt_present = VBool x"
    using assms [of F_receipt_present] by (auto simp: field_kind_ok_def split: pyval.splits)
  obtain R where R: "v F_approval_roles_present = VSet (approval_role_name ` R)"
  proof -
    obtain A where "v F_approval_roles_present = VSet A" "A \<subseteq> set [''manager'', ''director'', ''finance'']"
      using assms [of F_approval_roles_present]
      by (cases "v F_approval_roles_present") (simp_all add: field_kind_ok_def)
    then show ?thesis using ex_role_names [of A] that by metis
  qed
  let ?facts = "\<lparr>f_employee_role = r, f_expense_category = c, f_amount_minor = a,
    f_destination_type = t, f_booking_days_before = b, f_receipt_present = x,
    f_approval_roles_present = R, f_prior_same_day_category_spend_minor = p\<rparr>"
  have "fact_value f ?facts = v f" if "f \<noteq> F_daily_category_total_minor" for f
    using that by (cases f) (simp_all add: fact_value_def r c t a b p x R)
  moreover have "valid_facts ?facts"
    using a b p by (simp add: valid_facts_iff)
  ultimately show ?thesis by blast
qed

lemma ex_field_kind: "\<exists>v. field_kind_ok f v"
proof (cases f)
  case F_employee_role
  then show ?thesis by (intro exI [of _ "VStr ''employee''"]) (simp add: field_kind_ok_def)
next
  case F_expense_category
  then show ?thesis by (intro exI [of _ "VStr ''meal''"]) (simp add: field_kind_ok_def)
next
  case F_destination_type
  then show ?thesis by (intro exI [of _ "VStr ''domestic''"]) (simp add: field_kind_ok_def)
next
  case F_receipt_present
  then show ?thesis by (intro exI [of _ "VBool True"]) (simp add: field_kind_ok_def)
next
  case F_approval_roles_present
  then show ?thesis by (intro exI [of _ "VSet {}"]) (simp add: field_kind_ok_def)
qed (rule exI [of _ "VInt 0"], simp add: field_kind_ok_def)+

lemma approval_solution:
  assumes "list_all valid_predicate ps"
  shows "field_solution ps F_approval_roles_present (VSet {''manager'', ''director'', ''finance''})"
proof -
  have "holds_value (p_operator p) (VSet {''manager'', ''director'', ''finance''}) (p_value p)"
    if p: "p \<in> set ps" "p_field p = F_approval_roles_present" for p
  proof -
    have "valid_predicate p" using assms p by (simp add: list_all_iff)
    then show ?thesis
      by (cases rule: valid_predicate_cases) (use p(2) in \<open>auto simp: holds_value_def\<close>)
  qed
  then show ?thesis by (simp add: field_solution_def field_kind_ok_def)
qed

lemma conditions_satisfiable_exact:
  assumes "list_all valid_predicate ps" and "\<forall>p \<in> set ps. p_field p \<noteq> F_daily_category_total_minor"
  shows "conditions_satisfiable ps = Inr (\<exists>facts. valid_facts facts \<and> all_hold ps facts)"
proof -
  have "field_satisfiable ps f = Inr (\<exists>v. field_solution ps f v)" for f
    using field_satisfiable_iff [OF assms(1)] approval_solution [OF assms(1)]
    by (cases "f = F_approval_roles_present") (auto simp: field_satisfiable_def Let_def)
  then have code: "conditions_satisfiable ps =
      Inr (list_all (\<lambda>f. \<exists>v. field_solution ps f v) (remdups (map p_field ps)))"
    unfolding conditions_satisfiable_def by (intro rall_eq) auto
  have "list_all (\<lambda>f. \<exists>v. field_solution ps f v) (remdups (map p_field ps)) \<longleftrightarrow>
      (\<exists>facts. valid_facts facts \<and> all_hold ps facts)"
  proof
    assume each: "list_all (\<lambda>f. \<exists>v. field_solution ps f v) (remdups (map p_field ps))"
    have "\<exists>v. field_solution ps f v" for f
      using each ex_field_kind [of f]
      by (cases "f \<in> p_field ` set ps") (auto simp: list_all_iff field_solution_def)
    then obtain v where v: "\<And>f. field_solution ps f (v f)" by metis
    then obtain facts where facts: "valid_facts facts"
      "\<And>f. f \<noteq> F_daily_category_total_minor \<Longrightarrow> fact_value f facts = v f"
      using facts_with_values [of v] by (auto simp: field_solution_def)
    have "holds p facts" if "p \<in> set ps" for p
      using that v [of "p_field p"] facts(2) [of "p_field p"] assms(2)
      by (simp add: holds_def field_solution_def)
    with facts(1) show "\<exists>facts. valid_facts facts \<and> all_hold ps facts"
      by (auto simp: all_hold_def)
  next
    assume "\<exists>facts. valid_facts facts \<and> all_hold ps facts"
    then obtain facts where "valid_facts facts" "all_hold ps facts" by blast
    then have "field_solution ps f (fact_value f facts)" for f
      by (auto simp: field_solution_def fact_value_kind all_hold_def holds_def)
    then show "list_all (\<lambda>f. \<exists>v. field_solution ps f v) (remdups (map p_field ps))"
      by (auto simp: list_all_iff)
  qed
  with code show ?thesis by simp
qed

subsection \<open>The tautology test is exact\<close>

lemma fact_values_attained:
  assumes "field_kind_ok f v"
  shows "\<exists>facts. valid_facts facts \<and> fact_value f facts = v"
proof (cases "f = F_daily_category_total_minor")
  case True
  then obtain n where n: "v = VInt n" "0 \<le> n" "n \<le> 20000000"
    using assms by (auto simp: field_kind_ok_def split: pyval.splits)
  let ?facts = "\<lparr>f_employee_role = RoleEmployee, f_expense_category = Meal,
    f_amount_minor = min n 10000000, f_destination_type = Domestic, f_booking_days_before = 0,
    f_receipt_present = False, f_approval_roles_present = {},
    f_prior_same_day_category_spend_minor = n - min n 10000000\<rparr>"
  have "valid_facts ?facts" "fact_value f ?facts = v"
    using n True by (auto simp: valid_facts_iff fact_value_def)
  then show ?thesis by blast
next
  case False
  obtain w where "\<And>g. field_kind_ok g (w g)" using ex_field_kind by metis
  then have "field_kind_ok g ((w(f := v)) g)" for g
    using assms by simp
  from facts_with_values [of "w(f := v)", OF this] show ?thesis
    using False by (metis fun_upd_same)
qed

lemma holds_everywhere_iff:
  "(\<forall>facts. valid_facts facts \<longrightarrow> holds p facts) \<longleftrightarrow>
   (\<forall>v. field_kind_ok (p_field p) v \<longrightarrow> holds_value (p_operator p) v (p_value p))"
  using fact_values_attained [of "p_field p"] fact_value_kind unfolding holds_def by metis

lemma tautology_candidates_enough:
  assumes "valid_predicate p" and "integer_max (p_field p) = Some maximum"
    and "\<And>c. c \<in> {0, maximum, number p} \<union> {c. 0 \<le> c \<and> c \<le> maximum \<and> (c = number p - 1 \<or> c = number p + 1)}
      \<Longrightarrow> compare_int (p_operator p) c (number p)"
    and "0 \<le> m" "m \<le> maximum"
  shows "compare_int (p_operator p) m (number p)"
proof -
  have "finite {number p}" by simp
  from comparison_representative [OF this _ assms(4,5)] valid_number(2,3) [OF assms(1,2)]
  obtain c where c: "c \<in> {0, maximum} \<union> {c. 0 \<le> c \<and> c \<le> maximum
        \<and> (\<exists>n \<in> {number p}. c = n - 1 \<or> c = n \<or> c = n + 1)}"
    and same: "\<forall>n \<in> {number p}. (c < n \<longleftrightarrow> m < n) \<and> (c = n \<longleftrightarrow> m = n)"
    by blast
  have "compare_int (p_operator p) c (number p)"
    using c by (intro assms(3)) auto
  then show ?thesis using same compare_int_cong [of c "number p" m] by simp
qed

lemma predicate_unrestricted_exact:
  assumes "valid_predicate p"
  shows "predicate_unrestricted p = Inr (\<forall>facts. valid_facts facts \<longrightarrow> holds p facts)"
proof (cases "p_field p = F_approval_roles_present")
  case True
  from assms have "\<not> holds_value (p_operator p) (VSet {}) (p_value p)"
    by (cases rule: valid_predicate_cases) (use True in \<open>auto simp: holds_value_def\<close>)
  moreover have "field_kind_ok (p_field p) (VSet {})" using True by (simp add: field_kind_ok_def)
  ultimately show ?thesis using True unfolding holds_everywhere_iff predicate_unrestricted_def by auto
next
  case False
  have test: "rall (\<lambda>v. apply_operator (p_operator p) v (p_value p)) cs =
      Inr (list_all (\<lambda>v. holds_value (p_operator p) v (p_value p)) cs)"
    if "\<And>v. v \<in> set cs \<Longrightarrow> field_kind_ok (p_field p) v" for cs
    using that by (intro rall_eq apply_operator_holds [OF assms]) auto
  show ?thesis
  proof (cases "integer_max (p_field p)")
    case (Some maximum)
    note num = valid_number [OF assms Some]
    let ?cs = "VInt 0 # VInt maximum # VInt (number p) #
      map VInt (filter (\<lambda>v. 0 \<le> v \<and> v \<le> maximum) [number p - 1, number p + 1])"
    have none: "domain_values (p_field p) = None" using Some by (cases "p_field p") auto
    have "0 \<le> maximum" using num by linarith
    then have kind: "\<And>v. v \<in> set ?cs \<Longrightarrow> field_kind_ok (p_field p) v"
      using num Some by (auto simp: field_kind_ok_def simp del: filter.simps)
    have "list_all (\<lambda>v. holds_value (p_operator p) v (p_value p)) ?cs \<longleftrightarrow>
        (\<forall>v. field_kind_ok (p_field p) v \<longrightarrow> holds_value (p_operator p) v (p_value p))"
    proof
      assume all: "list_all (\<lambda>v. holds_value (p_operator p) v (p_value p)) ?cs"
      have "compare_int (p_operator p) m (number p)" if m: "0 \<le> m" "m \<le> maximum" for m
      proof (rule tautology_candidates_enough [OF assms Some _ m])
        fix c assume "c \<in> {0, maximum, number p} \<union>
          {c. 0 \<le> c \<and> c \<le> maximum \<and> (c = number p - 1 \<or> c = number p + 1)}"
        then have "VInt c \<in> set ?cs" by (auto simp del: filter.simps)
        with all have "holds_value (p_operator p) (VInt c) (p_value p)"
          unfolding list_all_iff by blast
        then show "compare_int (p_operator p) c (number p)"
          by (simp add: holds_value_def num(1))
      qed
      then show "\<forall>v. field_kind_ok (p_field p) v \<longrightarrow> holds_value (p_operator p) v (p_value p)"
        by (auto simp: field_kind_ok_def Some num(1) holds_value_def split: pyval.splits)
    next
      assume "\<forall>v. field_kind_ok (p_field p) v \<longrightarrow> holds_value (p_operator p) v (p_value p)"
      with kind show "list_all (\<lambda>v. holds_value (p_operator p) v (p_value p)) ?cs"
        unfolding list_all_iff by blast
    qed
    moreover have "rall (\<lambda>v. apply_operator (p_operator p) v (p_value p)) ?cs =
        Inr (list_all (\<lambda>v. holds_value (p_operator p) v (p_value p)) ?cs)"
      by (rule test) (rule kind)
    moreover have "predicate_unrestricted p = rall (\<lambda>v. apply_operator (p_operator p) v (p_value p)) ?cs"
      using False none Some num(1)
      by (simp add: predicate_unrestricted_def maxima_eq number_of_def del: filter.simps list.map rall.simps)
    ultimately show ?thesis unfolding holds_everywhere_iff by simp
  next
    case None
    then obtain vs where vs: "domain_values (p_field p) = Some vs"
      using no_candidates_approval [of "p_field p"] False by (cases "domain_values (p_field p)") auto
    show ?thesis
      using test [of vs] domain_values_kind [OF vs] False vs unfolding holds_everywhere_iff
      by (simp add: predicate_unrestricted_def list_all_iff Ball_def)
  qed
qed

lemma conditions_unrestricted_exact:
  assumes "list_all valid_predicate ps"
  shows "conditions_unrestricted ps = Inr (\<forall>facts. valid_facts facts \<longrightarrow> all_hold ps facts)"
proof -
  have "conditions_unrestricted ps =
      Inr (list_all (\<lambda>p. \<forall>facts. valid_facts facts \<longrightarrow> holds p facts) ps)"
    unfolding conditions_unrestricted_def
    using assms by (intro rall_eq predicate_unrestricted_exact) (auto simp: list_all_iff)
  then show ?thesis by (auto simp: list_all_iff all_hold_def)
qed

subsection \<open>Validation of a rule set\<close>

lemma override_targets_on_subset:
  assumes "distinct (map r_rule_id rules)"
  shows "edges (keys (rules_by_id rules)) (override_targets_on d rules) \<subseteq> override_relation rules"
proof (intro subrelI)
  fix a b assume "(a, b) \<in> edges (keys (rules_by_id rules)) (override_targets_on d rules)"
  then obtain r where r: "r \<in> set rules" "a = r_rule_id r" "b \<in> set (override_targets_on d rules a)"
    by auto
  then have "b \<in> ov_target_rule_id ` set (r_overrides r)"
    using map_of_dict_by_mem [OF assms r(1)] by (auto simp: override_targets_on_def rules_by_id_def)
  then show "(a, b) \<in> override_relation rules" using r by (auto simp: override_relation_def)
qed

lemma cycle_search_redundant:
  assumes "valid_policy_ir p" and "r \<in> set (pi_rules p)"
  shows "ok (dfs_visit msg (keys (rules_by_id (pi_rules p))) (override_targets_on d (pi_rules p)) [] []
    (r_rule_id r))"
proof (rule dfs_accepts(1))
  note dist = valid_policy_distinct [OF assms(1)]
  have acyc: "acyclic (override_relation (pi_rules p))"
    and exist: "\<forall>r \<in> set (pi_rules p). \<forall>e \<in> set (r_overrides r). override_edge_exists (pi_rules p) e"
    using assms(1) by (auto simp: valid_policy_ir_iff)
  show "acyclic (edges (keys (rules_by_id (pi_rules p))) (override_targets_on d (pi_rules p)))"
    by (rule acyclic_subset [OF acyc override_targets_on_subset [OF dist]])
  show "set (override_targets_on d (pi_rules p) a) \<subseteq> set (keys (rules_by_id (pi_rules p)))"
    if "a \<in> set (keys (rules_by_id (pi_rules p)))" for a
  proof -
    have "set (override_targets_on d (pi_rules p) a) \<subseteq> set (override_targets (pi_rules p) a)"
      by (auto simp: override_targets_on_def override_targets_def split: option.splits)
    then show ?thesis
      using override_graph_closed [OF dist exist that] by blast
  qed
qed (use assms(2) in auto)

lemma rule_conditions_decided:
  assumes "valid_policy_ir p" and "r \<in> set (pi_rules p)"
  shows "conditions_satisfiable (r_when r) = Inr (\<exists>facts. valid_facts facts \<and> all_hold (r_when r) facts)"
  using valid_policy_rules [OF assms] valid_rule_predicates valid_rule_no_daily_total
  by (intro conditions_satisfiable_exact) (auto simp: list_all_iff)

lemma rfold_unit:
  "(\<And>x. x \<in> set xs \<Longrightarrow> f x () = Inr ()) \<Longrightarrow> rfold f xs () = Inr ()"
  by (induction xs) auto

lemma validate_rule_outcome:
  assumes "valid_policy_ir p" and "r \<in> set (pi_rules p)"
  shows "validate_rule (pi_rules p) r =
    (if \<exists>facts. valid_facts facts \<and> all_hold (r_when r) facts then Inr ()
     else Inl (ValueError (''UNSATISFIABLE: '' @ r_rule_id r)))"
proof -
  have "rbind (dfs_visit ''OVERRIDE_CYCLE'' (keys (rules_by_id (pi_rules p)))
      (override_targets_on d (pi_rules p)) [] [] (r_rule_id r)) (\<lambda>_. Inr ()) = Inr ()" for d
    using cycle_search_redundant [OF assms, of "''OVERRIDE_CYCLE''" d] by (auto simp: ok_iff)
  then show ?thesis
    by (auto simp: validate_rule_def rule_conditions_decided [OF assms] intro: rfold_unit)
qed

definition impossible :: "rule \<Rightarrow> bool" where
  "impossible r \<longleftrightarrow> (\<nexists>facts. valid_facts facts \<and> all_hold (r_when r) facts)"

lemma rfold_first_failure:
  "(\<And>x. x \<in> set xs \<Longrightarrow> f x () = (if bad x then Inl (err x) else Inr ())) \<Longrightarrow>
   rfold f xs () = (case find bad xs of None \<Rightarrow> Inr () | Some x \<Rightarrow> Inl (err x))"
  by (induction xs) auto

lemma validate_rule_set_outcome:
  assumes "valid_policy_ir p"
  shows "validate_rule_set p =
    (case find impossible (pi_rules p) of
       None \<Rightarrow> Inr ()
     | Some r \<Rightarrow> Inl (ValueError (''UNSATISFIABLE: '' @ r_rule_id r)))"
proof -
  have "rfold (\<lambda>r u. validate_rule (pi_rules p) r) (pi_rules p) () =
    (case find impossible (pi_rules p) of None \<Rightarrow> Inr ()
     | Some r \<Rightarrow> Inl (ValueError (''UNSATISFIABLE: '' @ r_rule_id r)))"
    by (rule rfold_first_failure) (auto simp: validate_rule_outcome [OF assms] impossible_def)
  then show ?thesis using assms by (simp add: validate_rule_set_def)
qed

lemma validate_rule_set_ok_iff:
  "validate_rule_set p = Inr () \<longleftrightarrow>
   valid_policy_ir p \<and> (\<forall>r \<in> set (pi_rules p). \<exists>facts. valid_facts facts \<and> all_hold (r_when r) facts)"
proof (cases "valid_policy_ir p")
  case True
  then show ?thesis
    by (simp add: validate_rule_set_outcome find_None_iff impossible_def split: option.splits)
      (metis (lifting) find_None_iff impossible_def option.distinct(1))
next
  case False
  then show ?thesis
    using validated_invalid [of policy_ir_checks p] by (auto simp: validate_rule_set_def)
qed

end
