(* ===== verification/Hashing.thy ===== *)
theory Hashing
  imports Common
begin

section \<open>Canonical hashing (core/hashing.py)\<close>

text \<open>
  \<open>normalize_for_hash\<close> turns a Python value into a JSON value, \<open>_canonical_json\<close> prints it, and
  \<open>canonical_sha256\<close> hashes the UTF-8 bytes of the text. SHA-256 itself is the parameter \<open>sha\<close>
  of every definition that hashes: a function from byte strings to strings. The identity check
  for cyclic objects has no counterpart, since the values of the model are finite trees. Strings
  hold code points below 256, for which Unicode NFC is the identity.
\<close>

subsection \<open>Python values and JSON values\<close>

text \<open>The classes of models whose instances occur in hashed payloads.\<close>

datatype model_class =
    CPredicate | CEffect | CSourceSpan | CTextRuleProvenance | CSessionRevisionProvenance
  | COverrideRef | CRuleDraft | CRule | CUnsupportedClause | CPolicyIR | CAssertionContent
  | CAssertion | CInvariant | CPolicyContract | CPolicyPage | CPolicyDocument
  | CScenarioFacts | CScenario | CScenarioCandidate | CScenarioRejection | CSuiteStatistics
  | CScenarioSuite | CPredicateResult | CDimensionResult | CComplianceResult | CAssertionResult
  | CEvaluationTrace | CScenarioEvaluation | CCoverageEvidence | CCoverageSnapshot | CInputHashes
  | CEvaluationReport | CTraceRef | CFinding | CFindingReport | CPublicError
  | CRevisionRuleDraft | CAddRuleOperation | CReplaceRuleOperation | CAddOverrideOperation
  | CRevisionProposal | CPromptHash | CGenerationConfig | CRunManifest | CArtifactRef
  | CArtifactEnvelope | CRuleSummary | CInvariantDraft | CInvariantSummary | CRevisionConfirmation
  | CBenchmarkManifest | CApplyRevisionRequest | CRunEvent | CRunView | CRunRecord
  | CArtifactSummary | CFindingSummary | CCreateRunRequest | COtherModel

text \<open>
  A mapping key is \<open>Some\<close> string or, for any other key, \<open>None\<close>; a datetime is \<open>Some\<close> instant
  or, when naive, \<open>None\<close>; a set lists its members in some iteration order.
\<close>

datatype pyobj =
    PNone
  | PBool bool
  | PInt int
  | PFloat
  | PStr string
  | PEnum pyobj
  | PUuid string
  | PTime "timestamp option"
  | PSeq "pyobj list"
  | PSet "pyobj list"
  | PMap "(string option \<times> pyobj) list"
  | PModel model_class "(string \<times> pyobj) list"
  | POther

datatype json =
    JNull
  | JBool bool
  | JInt int
  | JStr string
  | JArr "json list"
  | JObj "(string \<times> json) list"

subsection \<open>Rendering numbers, dates and text\<close>

fun nat_digits :: "nat \<Rightarrow> string" where
  "nat_digits n =
     (if n < 10 then [char_of (48 + n)] else nat_digits (n div 10) @ [char_of (48 + n mod 10)])"

declare nat_digits.simps [simp del]

definition int_text :: "int \<Rightarrow> string" where
  "int_text n = (if n < 0 then CHR ''-'' # nat_digits (nat (- n)) else nat_digits (nat n))"

definition zero_pad :: "nat \<Rightarrow> int \<Rightarrow> string" where
  "zero_pad width n =
     (let s = int_text n in replicate (width - length s) CHR ''0'' @ s)"

text \<open>
  \<open>astimezone(UTC).isoformat(timespec="microseconds")\<close> with the offset written \<open>Z\<close>: the
  proleptic Gregorian date of a day number, then the time of day.
\<close>

definition civil_from_days :: "int \<Rightarrow> int \<times> int \<times> int" where
  "civil_from_days days =
     (let z = days + 719468;
          era = z div 146097;
          doe = z mod 146097;
          yoe = (doe - doe div 1460 + doe div 36524 - doe div 146096) div 365;
          doy = doe - (365 * yoe + yoe div 4 - yoe div 100);
          mp = (5 * doy + 2) div 153;
          day = doy - (153 * mp + 2) div 5 + 1;
          month = (if mp < 10 then mp + 3 else mp - 9);
          year = yoe + era * 400 + (if month \<le> 2 then 1 else 0)
      in (year, month, day))"

definition utc_isoformat :: "timestamp \<Rightarrow> string" where
  "utc_isoformat us =
     (let (year, month, day) = civil_from_days (us div 86400000000);
          tod = us mod 86400000000
      in zero_pad 4 year @ ''-'' @ zero_pad 2 month @ ''-'' @ zero_pad 2 day @ ''T''
         @ zero_pad 2 (tod div 3600000000) @ '':'' @ zero_pad 2 (tod div 60000000 mod 60) @ '':''
         @ zero_pad 2 (tod div 1000000 mod 60) @ ''.'' @ zero_pad 6 (tod mod 1000000) @ ''Z'')"

definition nfc :: "string \<Rightarrow> string" where
  "nfc s = s"

text \<open>\<open>json.dumps(s, ensure_ascii=False)\<close> of a string.\<close>

definition escape_char :: "char \<Rightarrow> string" where
  "escape_char c =
     (let n = (of_char c :: nat) in
      if c = CHR 0x22 then [CHR 0x5C, CHR 0x22]
      else if c = CHR 0x5C then [CHR 0x5C, CHR 0x5C]
      else if n = 10 then [CHR 0x5C, CHR ''n'']
      else if n = 13 then [CHR 0x5C, CHR ''r'']
      else if n = 9 then [CHR 0x5C, CHR ''t'']
      else if n = 12 then [CHR 0x5C, CHR ''f'']
      else if n = 8 then [CHR 0x5C, CHR ''b'']
      else if n < 32 then
        [CHR 0x5C, CHR ''u'', CHR ''0'', CHR ''0'', hex_digits ! (n div 16), hex_digits ! (n mod 16)]
      else [c])"

definition string_text :: "string \<Rightarrow> string" where
  "string_text s = CHR 0x22 # concat (map escape_char s) @ [CHR 0x22]"

fun join :: "string list \<Rightarrow> string" where
  "join [] = []"
| "join [x] = x"
| "join (x # y # xs) = x @ CHR '','' # join (y # xs)"

text \<open>\<open>_canonical_json\<close>: compact separators, keys sorted.\<close>

definition member_text :: "string \<times> string \<Rightarrow> string" where
  "member_text kt = string_text (fst kt) @ CHR '':'' # snd kt"

fun canonical_json :: "json \<Rightarrow> string"
  and canonical_items :: "json list \<Rightarrow> string list"
  and canonical_members :: "(string \<times> json) list \<Rightarrow> (string \<times> string) list" where
  "canonical_json JNull = ''null''"
| "canonical_json (JBool b) = (if b then ''true'' else ''false'')"
| "canonical_json (JInt n) = int_text n"
| "canonical_json (JStr s) = string_text s"
| "canonical_json (JArr xs) = CHR ''['' # join (canonical_items xs) @ '']''"
| "canonical_json (JObj kvs) =
     CHR ''{'' # join (map member_text (sort_key fst (canonical_members kvs))) @ ''}''"
| "canonical_items [] = []"
| "canonical_items (x # xs) = canonical_json x # canonical_items xs"
| "canonical_members [] = []"
| "canonical_members (kv # kvs) = (fst kv, canonical_json (snd kv)) # canonical_members kvs"

lemma canonical_items_map [simp]: "canonical_items xs = map canonical_json xs"
  by (induction xs) auto

lemma canonical_members_map [simp]:
  "canonical_members kvs = map (\<lambda>kv. (fst kv, canonical_json (snd kv))) kvs"
  by (induction kvs) auto

subsection \<open>Normalisation\<close>

text \<open>The members of a set, one per canonical text, in the order of the texts.\<close>

definition unique_by_text :: "json list \<Rightarrow> json list" where
  "unique_by_text values = map snd (sort_key fst (dict_by canonical_json values))"

fun normalize :: "pyobj \<Rightarrow> json result"
  and normalize_all :: "pyobj list \<Rightarrow> json list result"
  and normalize_mapping ::
    "(string option \<times> pyobj) list \<Rightarrow> (string \<times> json) list \<Rightarrow> (string \<times> json) list result"
  and normalize_fields ::
    "(string \<times> pyobj) list \<Rightarrow> (string \<times> json) list \<Rightarrow> (string \<times> json) list result" where
  "normalize PNone = Inr JNull"
| "normalize (PBool b) = Inr (JBool b)"
| "normalize (PInt n) = Inr (JInt n)"
| "normalize PFloat = Inl TypeError"
| "normalize (PStr s) = Inr (JStr (nfc s))"
| "normalize (PEnum v) = normalize v"
| "normalize (PUuid u) = Inr (JStr u)"
| "normalize (PTime t) =
     (case t of
        None \<Rightarrow> Inl (ValueError ''canonical datetime must be timezone-aware'')
      | Some us \<Rightarrow> Inr (JStr (utc_isoformat us)))"
| "normalize (PSeq xs) = rbind (normalize_all xs) (\<lambda>ys. Inr (JArr ys))"
| "normalize (PSet xs) = rbind (normalize_all xs) (\<lambda>ys. Inr (JArr (unique_by_text ys)))"
| "normalize (PMap items) = rbind (normalize_mapping items []) (\<lambda>kvs. Inr (JObj kvs))"
| "normalize (PModel cls flds) = rbind (normalize_fields flds []) (\<lambda>kvs. Inr (JObj kvs))"
| "normalize POther = Inl TypeError"
| "normalize_all [] = Inr []"
| "normalize_all (x # xs) =
     rbind (normalize x) (\<lambda>y. rbind (normalize_all xs) (\<lambda>ys. Inr (y # ys)))"
| "normalize_mapping [] acc = Inr acc"
| "normalize_mapping (item # items) acc =
     (case fst item of
        None \<Rightarrow> Inl TypeError
      | Some key \<Rightarrow>
          if nfc key \<in> fst ` set acc then Inl (ValueError ''normalized mapping key collision'')
          else rbind (normalize (snd item))
                 (\<lambda>v. normalize_mapping items (acc @ [(nfc key, v)])))"
| "normalize_fields [] acc = Inr acc"
| "normalize_fields (fld # flds) acc =
     (if nfc (fst fld) \<in> fst ` set acc then
        Inl (ValueError ''normalized mapping key collision'')
      else rbind (normalize (snd fld))
             (\<lambda>v. normalize_fields flds (acc @ [(nfc (fst fld), v)])))"

text \<open>UTF-8 of code points below 256.\<close>

definition utf8_char :: "char \<Rightarrow> string" where
  "utf8_char c =
     (let n = (of_char c :: nat) in
      if n < 128 then [c] else [char_of (192 + n div 64), char_of (128 + n mod 64)])"

definition utf8 :: "string \<Rightarrow> string" where
  "utf8 s = concat (map utf8_char s)"

definition canonical_bytes :: "json \<Rightarrow> string" where
  "canonical_bytes j = utf8 (canonical_json j)"

definition canonical_sha256 :: "(string \<Rightarrow> sha256) \<Rightarrow> pyobj \<Rightarrow> sha256 result" where
  "canonical_sha256 sha value = rbind (normalize value) (\<lambda>j. Inr (sha (canonical_bytes j)))"

end
