(* ===== verification/Json_Text.thy ===== *)
theory Json_Text
  imports Hashing
begin

section \<open>The canonical text determines the value\<close>

text \<open>
  Two JSON values have the same canonical text exactly when they are equal up to the order of
  object members, which is what a Python dictionary comparison forgets as well. Every rendering
  is shown to be uniquely readable in front of a delimiter.
\<close>

subsection \<open>Strings\<close>

definition hex_value :: "char \<Rightarrow> nat" where
  "hex_value c = (let n = of_char c in if n < 58 then n - 48 else n - 87)"

text \<open>Reads one escaped character back.\<close>

fun unescape :: "string \<Rightarrow> (char \<times> string) option" where
  "unescape (c # d # rest) =
     (if c \<noteq> CHR 0x5C then Some (c, d # rest)
      else if d = CHR ''n'' then Some (char_of (10 :: nat), rest)
      else if d = CHR ''r'' then Some (char_of (13 :: nat), rest)
      else if d = CHR ''t'' then Some (char_of (9 :: nat), rest)
      else if d = CHR ''f'' then Some (char_of (12 :: nat), rest)
      else if d = CHR ''b'' then Some (char_of (8 :: nat), rest)
      else if d = CHR ''u'' then
        Some (char_of (16 * hex_value (rest ! 2) + hex_value (rest ! 3)), drop 4 rest)
      else Some (d, rest))"
| "unescape (c # []) = Some (c, [])"
| "unescape [] = None"

lemma unescape_plain:
  "c \<noteq> CHR 0x5C \<Longrightarrow> unescape (c # rest) = Some (c, rest)"
  by (cases rest) auto

lemma hex_value_digit:
  assumes "k < 16"
  shows "hex_value (hex_digits ! k) = k"
proof -
  have "list_all (\<lambda>k. hex_value (hex_digits ! k) = k) [0..<16]" by code_simp
  with assms show ?thesis by (simp add: list_all_iff)
qed

lemma unescape_escape: "unescape (escape_char c @ rest) = Some (c, rest)"
proof -
  define n where "n = (of_char c :: nat)"
  have c: "c = char_of n" by (simp add: n_def)
  consider (quote) "c = CHR 0x22 \<or> c = CHR 0x5C"
    | (letter) "c \<noteq> CHR 0x22" "c \<noteq> CHR 0x5C" "n \<in> {8, 9, 10, 12, 13}"
    | (control) "c \<noteq> CHR 0x22" "c \<noteq> CHR 0x5C" "n \<notin> {8, 9, 10, 12, 13}" "n < 32"
    | (plain) "c \<noteq> CHR 0x22" "c \<noteq> CHR 0x5C" "n \<notin> {8, 9, 10, 12, 13}" "\<not> n < 32"
    by blast
  then show ?thesis
  proof cases
    case quote
    then show ?thesis by (elim disjE) (simp_all add: escape_char_def)
  next
    case letter
    from letter(3) show ?thesis
      unfolding c by (elim insertE emptyE) (simp_all add: escape_char_def)
  next
    case control
    then have "escape_char c = [CHR 0x5C, CHR ''u'', CHR ''0'', CHR ''0'',
        hex_digits ! (n div 16), hex_digits ! (n mod 16)]"
      by (simp add: escape_char_def Let_def n_def)
    moreover have "16 * hex_value (hex_digits ! (n div 16)) + hex_value (hex_digits ! (n mod 16)) = n"
      using hex_value_digit [of "n div 16"] hex_value_digit [of "n mod 16"] control(4) by simp
    ultimately show ?thesis by (simp add: c)
  next
    case plain
    then show ?thesis by (simp add: escape_char_def unescape_plain flip: n_def)
  qed
qed

lemma escape_char_inject:
  assumes "escape_char c @ r = escape_char d @ s"
  shows "c = d \<and> r = s"
  using unescape_escape [of c r] unescape_escape [of d s] assms
  by (metis option.inject prod.inject)

lemma escape_char_start: "\<exists>h t. escape_char c = h # t \<and> h \<noteq> CHR 0x22"
  by (simp add: escape_char_def Let_def)

lemma string_text_inject:
  assumes "string_text s @ r = string_text t @ q"
  shows "s = t \<and> r = q"
proof -
  have "concat (map escape_char s) @ CHR 0x22 # r = concat (map escape_char t) @ CHR 0x22 # q"
    using assms by (simp add: string_text_def)
  then show ?thesis
  proof (induction s arbitrary: t)
    case Nil
    then show ?case
      using escape_char_start [of "hd t"] by (cases t) auto
  next
    case (Cons c s)
    show ?case
    proof (cases t)
      case Nil
      with Cons.prems show ?thesis using escape_char_start [of c] by auto
    next
      case (Cons d t')
      with Cons.prems have eq: "escape_char c @ concat (map escape_char s) @ CHR 0x22 # r =
          escape_char d @ concat (map escape_char t') @ CHR 0x22 # q" by simp
      from escape_char_inject [OF this] Cons.IH [of t'] Cons show ?thesis by simp
    qed
  qed
qed

subsection \<open>Numbers\<close>

definition is_digit :: "char \<Rightarrow> bool" where
  "is_digit c \<longleftrightarrow> 48 \<le> (of_char c :: nat) \<and> (of_char c :: nat) \<le> 57"

definition digits_value :: "string \<Rightarrow> nat" where
  "digits_value s = foldl (\<lambda>a c. 10 * a + (of_char c - 48)) 0 s"

lemma digit_char: "n < 10 \<Longrightarrow> of_char (char_of (48 + n) :: char) = (48 + n :: nat)"
  by (simp add: of_char_of)

lemma nat_digits_value: "digits_value (nat_digits n) = n"
proof (induction n rule: nat_digits.induct)
  case (1 n)
  then show ?case
    by (subst nat_digits.simps) (simp add: digits_value_def digit_char)
qed

lemma is_digit_char: "(n :: nat) < 10 \<Longrightarrow> is_digit (char_of (48 + n))"
  by (simp add: is_digit_def digit_char)

lemma nat_digits_digits: "list_all is_digit (nat_digits n)"
proof (induction n rule: nat_digits.induct)
  case (1 n)
  then show ?case
    by (subst nat_digits.simps) (simp add: is_digit_char)
qed

lemma nat_digits_nonempty: "nat_digits n \<noteq> []"
  by (subst nat_digits.simps) simp

text \<open>What may follow a value inside a canonical text.\<close>

definition delimited :: "string \<Rightarrow> bool" where
  "delimited r \<longleftrightarrow> r = [] \<or> hd r \<in> set '',]}''"

lemma delimited_not_digit: "delimited r \<Longrightarrow> takeWhile is_digit r = []"
  by (cases r) (auto simp: delimited_def is_digit_def)

lemma nat_digits_inject:
  assumes "nat_digits n @ r = nat_digits m @ q" and "delimited r" and "delimited q"
  shows "n = m \<and> r = q"
proof -
  have "takeWhile is_digit (nat_digits k @ s) = nat_digits k" if "delimited s" for k s
    using nat_digits_digits [of k] delimited_not_digit [OF that]
    by (simp add: takeWhile_append2 list_all_iff)
  with assms have "nat_digits n = nat_digits m" by metis
  with assms(1) show ?thesis using nat_digits_value by (metis append_same_eq same_append_eq)
qed

lemma nat_digits_no_minus: "hd (nat_digits n) \<noteq> CHR ''-''"
  using nat_digits_digits [of n] nat_digits_nonempty [of n]
  by (cases "nat_digits n") (auto simp: is_digit_def)

lemma int_text_inject:
  assumes eq: "int_text n @ r = int_text m @ q" and "delimited r" and "delimited q"
  shows "n = m \<and> r = q"
proof (cases "n < 0"; cases "m < 0")
  assume neg: "n < 0" "m < 0"
  with assms nat_digits_inject [of "nat (- n)" r "nat (- m)" q]
  have "nat (- n) = nat (- m) \<and> r = q" by (simp add: int_text_def)
  with neg show ?thesis by linarith
next
  assume pos: "\<not> n < 0" "\<not> m < 0"
  with assms nat_digits_inject [of "nat n" r "nat m" q]
  have "nat n = nat m \<and> r = q" by (simp add: int_text_def)
  with pos show ?thesis by linarith
next
  assume "n < 0" "\<not> m < 0"
  with eq nat_digits_no_minus [of "nat m"] nat_digits_nonempty [of "nat m"] show ?thesis
    by (cases "nat_digits (nat m)") (auto simp: int_text_def)
next
  assume "\<not> n < 0" "m < 0"
  with eq nat_digits_no_minus [of "nat n"] nat_digits_nonempty [of "nat n"] show ?thesis
    by (cases "nat_digits (nat n)") (auto simp: int_text_def)
qed

subsection \<open>Arrays and objects\<close>

definition unique_reading :: "('a \<Rightarrow> string) \<Rightarrow> 'a \<Rightarrow> bool" where
  "unique_reading f x \<longleftrightarrow>
     (\<forall>y r q. f x @ r = f y @ q \<longrightarrow> delimited r \<longrightarrow> delimited q \<longrightarrow> x = y \<and> r = q)"

lemma unique_readingD:
  "unique_reading f x \<Longrightarrow> f x @ r = f y @ q \<Longrightarrow> delimited r \<Longrightarrow> delimited q \<Longrightarrow> x = y \<and> r = q"
  by (simp add: unique_reading_def)

lemma join_inject:
  assumes "join (map f xs) @ c # r = join (map f ys) @ c # q"
    and "\<And>x. x \<in> set xs \<Longrightarrow> unique_reading f x"
    and "\<And>x. f x \<noteq> [] \<and> hd (f x) \<noteq> c" and "c \<in> set '']}''"
  shows "xs = ys \<and> r = q"
  using assms(1,2)
proof (induction xs arbitrary: ys rule: induct_list012)
  case 1
  then show ?case
    using assms(3) [of "hd ys"]
    by (cases "f (hd ys)"; cases ys rule: remdups_adj.cases) auto
next
  case (2 x)
  note reading = unique_readingD [OF "2.prems"(2) [of x]]
  show ?case
  proof (cases ys rule: remdups_adj.cases)
    case 1
    with "2.prems"(1) assms(3) [of x] show ?thesis by (auto simp: append_eq_Cons_conv)
  next
    case (2 y)
    with "2.prems"(1) reading [of "c # r" y "c # q"] assms(4) show ?thesis
      by (auto simp: delimited_def)
  next
    case (3 y z zs)
    with "2.prems"(1) have "f x @ c # r = f y @ CHR '','' # join (map f (z # zs)) @ c # q" by simp
    from reading [OF _ this] assms(4) show ?thesis by (auto simp: delimited_def)
  qed
next
  case (3 x x' xs)
  note reading = unique_readingD [OF "3.prems"(2) [of x]]
  show ?case
  proof (cases ys rule: remdups_adj.cases)
    case 1
    with "3.prems"(1) assms(3) [of x] show ?thesis by (auto simp: append_eq_Cons_conv)
  next
    case (2 y)
    with "3.prems"(1) have "f x @ CHR '','' # join (map f (x' # xs)) @ c # r = f y @ c # q" by simp
    from reading [OF _ this] assms(4) show ?thesis by (auto simp: delimited_def)
  next
    case (3 y z zs)
    with "3.prems"(1) have "f x @ CHR '','' # join (map f (x' # xs)) @ c # r =
        f y @ CHR '','' # join (map f (z # zs)) @ c # q" by simp
    from reading [OF _ this]
    have "x = y" "join (map f (x' # xs)) @ c # r = join (map f (z # zs)) @ c # q"
      by (auto simp: delimited_def)
    with "3.IH"(2) [of "z # zs"] "3.prems"(2) 3 show ?thesis by simp
  qed
qed

text \<open>The text without sorting, and the value with all its objects sorted.\<close>

fun plain_text :: "json \<Rightarrow> string" where
  "plain_text JNull = ''null''"
| "plain_text (JBool b) = (if b then ''true'' else ''false'')"
| "plain_text (JInt n) = int_text n"
| "plain_text (JStr s) = string_text s"
| "plain_text (JArr xs) = CHR ''['' # join (map plain_text xs) @ '']''"
| "plain_text (JObj kvs) =
     CHR ''{'' # join (map (\<lambda>(k, v). member_text (k, plain_text v)) kvs) @ ''}''"

fun sort_members :: "json \<Rightarrow> json" where
  "sort_members (JArr xs) = JArr (map sort_members xs)"
| "sort_members (JObj kvs) = JObj (sort_key fst (map (\<lambda>(k, v). (k, sort_members v)) kvs))"
| "sort_members j = j"

lemma insort_key_map:
  "(\<And>x. fst (g x) = fst x) \<Longrightarrow> insort_key fst (g x) (map g xs) = map g (insort_key fst x xs)"
  by (induction xs) auto

lemma sort_key_map:
  "(\<And>x. fst (g x) = fst x) \<Longrightarrow> sort_key fst (map g xs) = map g (sort_key fst xs)"
  by (induction xs) (auto simp: insort_key_map)

lemma canonical_json_plain: "canonical_json j = plain_text (sort_members j)"
proof (induction j)
  case (JArr xs)
  then show ?case by (simp cong: map_cong)
next
  case (JObj kvs)
  have "map (\<lambda>kv. (fst kv, canonical_json (snd kv))) kvs =
      map (\<lambda>(k, v). (k, plain_text v)) (map (\<lambda>(k, v). (k, sort_members v)) kvs)"
    using JObj by (auto simp: split_def)
  then show ?case
    by (simp add: sort_key_map split_def del: map_map) (simp add: comp_def)
qed simp_all

lemma member_text_start: "member_text kv \<noteq> [] \<and> hd (member_text kv) = CHR 0x22"
  by (simp add: member_text_def string_text_def)

lemma int_text_start:
  "int_text n \<noteq> [] \<and> (hd (int_text n) = CHR ''-'' \<or> is_digit (hd (int_text n)))"
  using nat_digits_nonempty [of "nat n"] nat_digits_digits [of "nat n"]
  by (auto simp: int_text_def list_all_iff)

lemma plain_text_start:
  "plain_text j \<noteq> [] \<and> hd (plain_text j) \<noteq> CHR '']'' \<and> hd (plain_text j) \<noteq> CHR ''}''"
proof (cases j)
  case (JInt n)
  then show ?thesis using int_text_start [of n] by (auto simp: is_digit_def)
qed (simp_all add: string_text_def)

text \<open>The first character tells the kind of value.\<close>

fun kind_of_start :: "char \<Rightarrow> nat" where
  "kind_of_start c =
     (if c = CHR ''n'' then 0 else if c = CHR ''t'' then 1 else if c = CHR ''f'' then 2
      else if c = CHR 0x22 then 4 else if c = CHR ''['' then 5 else if c = CHR ''{'' then 6 else 3)"

fun kind_of_json :: "json \<Rightarrow> nat" where
  "kind_of_json JNull = 0"
| "kind_of_json (JBool b) = (if b then 1 else 2)"
| "kind_of_json (JInt n) = 3"
| "kind_of_json (JStr s) = 4"
| "kind_of_json (JArr xs) = 5"
| "kind_of_json (JObj kvs) = 6"

lemma kind_of_plain_text: "kind_of_start (hd (plain_text j)) = kind_of_json j"
proof (cases j)
  case (JInt n)
  then show ?thesis using int_text_start [of n] by (auto simp: is_digit_def)
qed (simp_all add: string_text_def)

lemma same_kind: "plain_text j @ r = plain_text k @ q \<Longrightarrow> kind_of_json j = kind_of_json k"
  using plain_text_start [of j] plain_text_start [of k]
  by (metis hd_append2 kind_of_plain_text)

lemma plain_text_unique_reading: "unique_reading plain_text j"
proof (induction j)
  case (JInt n)
  show ?case
    unfolding unique_reading_def
  proof (intro allI impI)
    fix y r q
    assume eq: "plain_text (JInt n) @ r = plain_text y @ q" and del: "delimited r" "delimited q"
    from same_kind [OF eq] obtain m where "y = JInt m" by (cases y) (auto split: if_splits)
    with eq del int_text_inject [of n r m q] show "JInt n = y \<and> r = q" by simp
  qed
next
  case (JStr s)
  show ?case
    unfolding unique_reading_def
  proof (intro allI impI)
    fix y r q
    assume eq: "plain_text (JStr s) @ r = plain_text y @ q"
    from same_kind [OF eq] obtain t where "y = JStr t" by (cases y) (auto split: if_splits)
    with eq string_text_inject [of s r t q] show "JStr s = y \<and> r = q" by simp
  qed
next
  case (JArr xs)
  show ?case
    unfolding unique_reading_def
  proof (intro allI impI)
    fix y r q
    assume eq: "plain_text (JArr xs) @ r = plain_text y @ q"
    from same_kind [OF eq] obtain ys where y: "y = JArr ys" by (cases y) (auto split: if_splits)
    with eq have "join (map plain_text xs) @ CHR '']'' # r = join (map plain_text ys) @ CHR '']'' # q"
      by simp
    from join_inject [OF this JArr] plain_text_start y show "JArr xs = y \<and> r = q" by auto
  qed
next
  case (JObj kvs)
  let ?f = "\<lambda>(k, v). member_text (k, plain_text v)"
  have reading: "unique_reading ?f kv" if "kv \<in> set kvs" for kv
    unfolding unique_reading_def
  proof (intro allI impI)
    fix kw r q
    assume eq: "?f kv @ r = ?f kw @ q" and del: "delimited r" "delimited q"
    then have "string_text (fst kv) @ CHR '':'' # plain_text (snd kv) @ r =
        string_text (fst kw) @ CHR '':'' # plain_text (snd kw) @ q"
      by (simp add: member_text_def split_def)
    from string_text_inject [OF this] have keys: "fst kv = fst kw"
      and rest: "plain_text (snd kv) @ r = plain_text (snd kw) @ q" by auto
    have "unique_reading plain_text (snd kv)"
      using JObj [of kv "snd kv"] that by (cases kv) auto
    from unique_readingD [OF this rest del] keys show "kv = kw \<and> r = q"
      by (simp add: prod_eq_iff)
  qed
  show ?case
    unfolding unique_reading_def
  proof (intro allI impI)
    fix y r q
    assume eq: "plain_text (JObj kvs) @ r = plain_text y @ q"
    from same_kind [OF eq] obtain kws where y: "y = JObj kws" by (cases y) (auto split: if_splits)
    with eq have "join (map ?f kvs) @ CHR ''}'' # r = join (map ?f kws) @ CHR ''}'' # q" by simp
    from join_inject [OF this reading] member_text_start y show "JObj kvs = y \<and> r = q"
      by (auto simp: split_def)
  qed
next
  case JNull
  show ?case
    unfolding unique_reading_def
  proof (intro allI impI)
    fix y r q
    assume eq: "plain_text JNull @ r = plain_text y @ q"
    from same_kind [OF eq] have "y = JNull" by (cases y) (auto split: if_splits)
    with eq show "JNull = y \<and> r = q" by simp
  qed
next
  case (JBool b)
  show ?case
    unfolding unique_reading_def
  proof (intro allI impI)
    fix y r q
    assume eq: "plain_text (JBool b) @ r = plain_text y @ q"
    from same_kind [OF eq] have "y = JBool b" by (cases y) (auto split: if_splits)
    with eq show "JBool b = y \<and> r = q" by simp
  qed
qed

lemma plain_text_inject: "plain_text j = plain_text k \<longleftrightarrow> j = k"
  using unique_readingD [OF plain_text_unique_reading, of j "[]" k "[]"] by (auto simp: delimited_def)

lemma canonical_json_iff: "canonical_json j = canonical_json k \<longleftrightarrow> sort_members j = sort_members k"
  by (simp add: canonical_json_plain plain_text_inject)

subsection \<open>Bytes\<close>

fun utf8_first :: "string \<Rightarrow> (char \<times> string) option" where
  "utf8_first (b # bs) =
     (let n = (of_char b :: nat) in
      if n < 128 then Some (b, bs)
      else Some (char_of (64 * (n - 192) + (of_char (hd bs) - 128)), tl bs))"
| "utf8_first [] = None"

lemma utf8_first_char: "utf8_first (utf8_char c @ rest) = Some (c, rest)"
proof -
  define n where "n = (of_char c :: nat)"
  have c: "c = char_of n" and n: "n < 256" by (simp_all add: n_def)
  show ?thesis
  proof (cases "n < 128")
    case True
    then show ?thesis by (simp add: utf8_char_def flip: n_def)
  next
    case False
    have "192 + n div 64 < 256" "128 + n mod 64 < 256" using n by auto
    then show ?thesis
      using False by (simp add: utf8_char_def c of_char_of Let_def flip: n_def)
  qed
qed

lemma utf8_inject: "utf8 s = utf8 t \<longleftrightarrow> s = t"
proof
  assume "utf8 s = utf8 t"
  then show "s = t"
  proof (induction s arbitrary: t)
    case Nil
    then show ?case by (cases t) (auto simp: utf8_def utf8_char_def Let_def split: if_splits)
  next
    case (Cons c s)
    show ?case
    proof (cases t)
      case Nil
      with Cons.prems show ?thesis by (auto simp: utf8_def utf8_char_def Let_def split: if_splits)
    next
      case (Cons d t')
      with Cons.prems have "utf8_char c @ utf8 s = utf8_char d @ utf8 t'" by (simp add: utf8_def)
      then have "c = d \<and> utf8 s = utf8 t'"
        using utf8_first_char [of c "utf8 s"] utf8_first_char [of d "utf8 t'"]
        by (metis option.inject prod.inject)
      with Cons.IH [of t'] Cons show ?thesis by simp
    qed
  qed
qed simp

text \<open>
  What is hashed determines the JSON value up to member order: two values with different sorted
  forms are hashed from different byte strings.
\<close>

theorem canonical_bytes_iff: "canonical_bytes j = canonical_bytes k \<longleftrightarrow> sort_members j = sort_members k"
  by (simp add: canonical_bytes_def utf8_inject canonical_json_iff)

end
