(* ===== verification/Artifacts.thy ===== *)
theory Artifacts
  imports Json_Text
begin

section \<open>Payload projections and digests (core/artifacts.py)\<close>

text \<open>
  The complete projection of a payload drops the self-digests of suites, traces and envelopes; the
  semantic projection drops the listed display fields and timestamps as well. Exclusions go by the
  exact class of the object. The digest of a payload is the canonical hash of its projection.
\<close>

subsection \<open>Exclusions by class\<close>

definition complete_exclusions :: "model_class \<Rightarrow> string list" where
  "complete_exclusions cls =
     (case cls of
        CArtifactEnvelope \<Rightarrow> [''artifact_sha256'', ''semantic_sha256'']
      | CScenarioSuite \<Rightarrow> [''content_sha256'']
      | CEvaluationTrace \<Rightarrow> [''trace_sha256'']
      | _ \<Rightarrow> [])"

definition semantic_exclusions :: "model_class \<Rightarrow> string list" where
  "semantic_exclusions cls =
     (case cls of
        CPolicyDocument \<Rightarrow> [''title'']
      | CRuleDraft \<Rightarrow> [''description'', ''confidence_percent'']
      | CRule \<Rightarrow> [''description'', ''confidence_percent'']
      | CRuleSummary \<Rightarrow> [''description'', ''confidence_percent'']
      | CInvariantDraft \<Rightarrow> [''description'']
      | CInvariant \<Rightarrow> [''description'']
      | CInvariantSummary \<Rightarrow> [''description'']
      | CRevisionRuleDraft \<Rightarrow> [''description'']
      | CRevisionProposal \<Rightarrow> [''draft_policy_wording'']
      | CRevisionConfirmation \<Rightarrow> [''draft_policy_wording'']
      | CSessionRevisionProvenance \<Rightarrow> [''confirmed_at'']
      | CRunManifest \<Rightarrow> [''started_at'']
      | CBenchmarkManifest \<Rightarrow> [''sealed_at'']
      | CApplyRevisionRequest \<Rightarrow> [''confirmed_at'']
      | CRunEvent \<Rightarrow> [''timestamp'', ''action_summary'']
      | CRunView \<Rightarrow> [''events'', ''decision_at'']
      | CRunRecord \<Rightarrow> [''events'', ''created_at'', ''expires_at'', ''decision_at'']
      | CArtifactSummary \<Rightarrow> [''title'']
      | CFindingSummary \<Rightarrow> [''summary'']
      | CCreateRunRequest \<Rightarrow> [''title'']
      | _ \<Rightarrow> [])"

definition excluded_fields :: "bool \<Rightarrow> model_class \<Rightarrow> string list" where
  "excluded_fields semantic cls =
     complete_exclusions cls @ (if semantic then semantic_exclusions cls else [])"

subsection \<open>Projection\<close>

text \<open>A JSON value as the Python object it is; normalising it again changes nothing.\<close>

fun of_json :: "json \<Rightarrow> pyobj" where
  "of_json JNull = PNone"
| "of_json (JBool b) = PBool b"
| "of_json (JInt n) = PInt n"
| "of_json (JStr s) = PStr s"
| "of_json (JArr xs) = PSeq (map of_json xs)"
| "of_json (JObj kvs) = PMap (map (\<lambda>(k, v). (Some k, of_json v)) kvs)"

text \<open>
  \<open>_payload_projection\<close>. A dictionary comprehension over the children of a model or a mapping is
  normalised again, which is where colliding or non-string keys are refused.
\<close>

fun project :: "bool \<Rightarrow> pyobj \<Rightarrow> json result"
  and project_all :: "bool \<Rightarrow> pyobj list \<Rightarrow> json list result"
  and project_mapping ::
    "bool \<Rightarrow> (string option \<times> pyobj) list \<Rightarrow> (string option \<times> json) list result"
  and project_fields ::
    "bool \<Rightarrow> string list \<Rightarrow> (string \<times> pyobj) list \<Rightarrow> (string option \<times> json) list result" where
  "project semantic (PModel cls flds) =
     rbind (project_fields semantic (excluded_fields semantic cls) flds)
       (\<lambda>kvs. normalize (PMap (map (\<lambda>kv. (fst kv, of_json (snd kv))) kvs)))"
| "project semantic (PMap items) =
     rbind (project_mapping semantic items)
       (\<lambda>kvs. normalize (PMap (map (\<lambda>kv. (fst kv, of_json (snd kv))) kvs)))"
| "project semantic (PSeq xs) = rbind (project_all semantic xs) (\<lambda>ys. Inr (JArr ys))"
| "project semantic (PSet xs) =
     rbind (project_all semantic xs) (\<lambda>ys. Inr (JArr (unique_by_text ys)))"
| "project semantic v = normalize v"
| "project_all semantic [] = Inr []"
| "project_all semantic (x # xs) =
     rbind (project semantic x) (\<lambda>y. rbind (project_all semantic xs) (\<lambda>ys. Inr (y # ys)))"
| "project_mapping semantic [] = Inr []"
| "project_mapping semantic (item # items) =
     rbind (project semantic (snd item))
       (\<lambda>v. rbind (project_mapping semantic items) (\<lambda>kvs. Inr ((fst item, v) # kvs)))"
| "project_fields semantic excluded [] = Inr []"
| "project_fields semantic excluded (fld # flds) =
     (if fst fld \<in> set excluded then project_fields semantic excluded flds
      else rbind (project semantic (snd fld))
        (\<lambda>v. rbind (project_fields semantic excluded flds)
           (\<lambda>kvs. Inr ((Some (fst fld), v) # kvs))))"

definition complete_payload_projection :: "pyobj \<Rightarrow> json result" where
  "complete_payload_projection payload = project False payload"

definition semantic_payload_projection :: "pyobj \<Rightarrow> json result" where
  "semantic_payload_projection payload = project True payload"

definition payload_hash :: "(string \<Rightarrow> sha256) \<Rightarrow> pyobj \<Rightarrow> sha256 result" where
  "payload_hash sha payload =
     rbind (complete_payload_projection payload) (\<lambda>j. canonical_sha256 sha (of_json j))"

definition semantic_hash :: "(string \<Rightarrow> sha256) \<Rightarrow> pyobj \<Rightarrow> sha256 result" where
  "semantic_hash sha payload =
     rbind (semantic_payload_projection payload) (\<lambda>j. canonical_sha256 sha (of_json j))"

subsection \<open>Hashable objects\<close>

text \<open>
  The objects every domain payload is made of: no floats, no foreign objects, no naive datetimes,
  string keys without duplicates. On them normalisation and projection are total, and \<open>norm\<close>
  and \<open>view\<close> are their values.
\<close>

fun hashable :: "pyobj \<Rightarrow> bool" where
  "hashable PFloat = False"
| "hashable POther = False"
| "hashable (PTime t) = (t \<noteq> None)"
| "hashable (PEnum v) = hashable v"
| "hashable (PSeq xs) = list_all hashable xs"
| "hashable (PSet xs) = list_all hashable xs"
| "hashable (PMap items) =
     (list_all (\<lambda>(k, v). k \<noteq> None \<and> hashable v) items \<and> distinct (map fst items))"
| "hashable (PModel cls flds) =
     (list_all (\<lambda>(k, v). hashable v) flds \<and> distinct (map fst flds))"
| "hashable v = True"

fun norm :: "pyobj \<Rightarrow> json" where
  "norm (PBool b) = JBool b"
| "norm (PInt n) = JInt n"
| "norm (PStr s) = JStr s"
| "norm (PEnum v) = norm v"
| "norm (PUuid u) = JStr u"
| "norm (PTime t) = (case t of None \<Rightarrow> JNull | Some us \<Rightarrow> JStr (utc_isoformat us))"
| "norm (PSeq xs) = JArr (map norm xs)"
| "norm (PSet xs) = JArr (unique_by_text (map norm xs))"
| "norm (PMap items) = JObj (map (\<lambda>(k, v). (the k, norm v)) items)"
| "norm (PModel cls flds) = JObj (map (\<lambda>(k, v). (k, norm v)) flds)"
| "norm v = JNull"

lemma nfc_id [simp]: "nfc s = s"
  by (simp add: nfc_def)

lemma fresh_mapping_key:
  "list_all (\<lambda>(k, v). k \<noteq> None \<and> P v) items \<Longrightarrow> Some key \<notin> fst ` set items \<Longrightarrow>
   key \<notin> (\<lambda>kv. the (fst kv)) ` set items"
  by (force simp: list_all_iff)

lemma normalize_total:
  "hashable v \<Longrightarrow> normalize v = Inr (norm v)"
  "list_all hashable vs \<Longrightarrow> normalize_all vs = Inr (map norm vs)"
  "list_all (\<lambda>(k, v). k \<noteq> None \<and> hashable v) items \<Longrightarrow> distinct (map fst items) \<Longrightarrow>
     fst ` set acc \<inter> (\<lambda>kv. the (fst kv)) ` set items = {} \<Longrightarrow>
     normalize_mapping items acc = Inr (acc @ map (\<lambda>(k, v). (the k, norm v)) items)"
  "list_all (\<lambda>(k, v). hashable v) flds \<Longrightarrow> distinct (map fst flds) \<Longrightarrow>
     fst ` set acc2 \<inter> fst ` set flds = {} \<Longrightarrow>
     normalize_fields flds acc2 = Inr (acc2 @ map (\<lambda>(k, v). (k, norm v)) flds)"
proof (induction v and vs and items acc and flds acc2 rule: normalize_normalize_all_normalize_mapping_normalize_fields.induct)
  case (17 item items acc)
  obtain key v where item: "item = (Some key, v)"
    using "17.prems"(1) by (cases item) auto
  have "key \<notin> (\<lambda>kv. the (fst kv)) ` set items"
    using "17.prems"(1,2) item by (intro fresh_mapping_key) auto
  then show ?case
    using 17 item by auto
qed (auto split: option.splits)

subsection \<open>Projections of hashable objects\<close>

fun json_ok :: "json \<Rightarrow> bool" where
  "json_ok (JArr xs) = list_all json_ok xs"
| "json_ok (JObj kvs) = (distinct (map fst kvs) \<and> list_all (\<lambda>(k, v). json_ok v) kvs)"
| "json_ok j = True"

fun view :: "bool \<Rightarrow> pyobj \<Rightarrow> json" where
  "view semantic (PSeq xs) = JArr (map (view semantic) xs)"
| "view semantic (PSet xs) = JArr (unique_by_text (map (view semantic) xs))"
| "view semantic (PMap items) = JObj (map (\<lambda>(k, v). (the k, view semantic v)) items)"
| "view semantic (PModel cls flds) =
     JObj (map (\<lambda>(k, v). (k, view semantic v))
       (filter (\<lambda>(k, v). k \<notin> set (excluded_fields semantic cls)) flds))"
| "view semantic v = norm v"

lemma set_unique_by_text: "set (unique_by_text js) \<subseteq> set js"
  using map_of_dict_by_SomeD [of canonical_json js] distinct_keys_dict_by [of canonical_json js]
  by (fastforce simp: unique_by_text_def keys_def)

lemma distinct_mapping_keys:
  "list_all (\<lambda>(k, v). k \<noteq> None \<and> P v) items \<Longrightarrow> distinct (map fst items) \<Longrightarrow>
   distinct (map (\<lambda>kv. the (fst kv)) items)"
proof (induction items)
  case (Cons item items)
  have "Some (the (fst item)) \<notin> fst ` set items"
    using Cons.prems by (cases item) auto
  then have "the (fst item) \<notin> (\<lambda>kv. the (fst kv)) ` set items"
    using Cons.prems(1) by (intro fresh_mapping_key) auto
  then show ?case using Cons by simp
qed simp

lemma map_pair_id: "(\<And>k v. (k, v) \<in> set kvs \<Longrightarrow> f v = v) \<Longrightarrow> map (\<lambda>(k, v). (k, f v)) kvs = kvs"
  by (induction kvs) auto

lemma json_ok_of_json: "json_ok j \<Longrightarrow> hashable (of_json j) \<and> norm (of_json j) = j"
proof (induction j)
  case (JObj kvs)
  have dist: "distinct (map fst kvs)" using JObj.prems by simp
  have inner: "hashable (of_json v) \<and> norm (of_json v) = v" if "(k, v) \<in> set kvs" for k v
    using JObj.IH [OF that, of v] JObj.prems that by (auto simp: list_all_iff)
  have "map fst (map (\<lambda>(k, v). (Some k, of_json v)) kvs) = map Some (map fst kvs)"
    by auto
  then have "distinct (map fst (map (\<lambda>(k, v). (Some k, of_json v)) kvs))"
    using dist by (simp add: distinct_map inj_on_def del: map_map)
  moreover have "list_all (\<lambda>(k, v). k \<noteq> None \<and> hashable v) (map (\<lambda>(k, v). (Some k, of_json v)) kvs)"
    using inner by (auto simp: list_all_iff)
  moreover have "map (\<lambda>(k, v). (the k, norm v)) (map (\<lambda>(k, v). (Some k, of_json v)) kvs) = kvs"
    using map_pair_id [of kvs "\<lambda>v. norm (of_json v)"] inner
    by (simp add: case_prod_unfold comp_def)
  ultimately show ?case by simp
qed (auto simp: list_all_iff intro: map_idI)

lemma json_ok_unique_by_text:
  "list_all json_ok js \<Longrightarrow> list_all json_ok (unique_by_text js)"
  using set_unique_by_text [of js] by (auto simp: list_all_iff)

lemma json_ok_view: "hashable v \<Longrightarrow> json_ok (view semantic v)"
  and json_ok_norm: "hashable v \<Longrightarrow> json_ok (norm v)"
proof (induction v)
  case (PSet xs)
  { case 1
    then have "list_all json_ok (map (view semantic) xs)" using PSet(1) by (auto simp: list_all_iff)
    then show ?case by (simp add: json_ok_unique_by_text) }
  { case 2
    then have "list_all json_ok (map norm xs)" using PSet(2) by (auto simp: list_all_iff)
    then show ?case by (simp add: json_ok_unique_by_text) }
next
  case (PMap items)
  { case 1
    then have "distinct (map (\<lambda>kv. the (fst kv)) items)" by (auto intro: distinct_mapping_keys)
    moreover have "list_all (\<lambda>(k, v). json_ok v) (map (\<lambda>(k, v). (the k, view semantic v)) items)"
      using 1 PMap(1) by (fastforce simp: list_all_iff)
    ultimately show ?case by (simp add: case_prod_unfold comp_def) }
  { case 2
    then have "distinct (map (\<lambda>kv. the (fst kv)) items)" by (auto intro: distinct_mapping_keys)
    moreover have "list_all (\<lambda>(k, v). json_ok v) (map (\<lambda>(k, v). (the k, norm v)) items)"
      using 2 PMap(2) by (fastforce simp: list_all_iff)
    ultimately show ?case by (simp add: case_prod_unfold comp_def) }
next
  case (PModel cls flds)
  { case 1
    let ?kept = "filter (\<lambda>(k, v). k \<notin> set (excluded_fields semantic cls)) flds"
    have "distinct (map fst ?kept)" using 1 by (simp add: distinct_map_filter)
    moreover have "list_all (\<lambda>(k, v). json_ok v) (map (\<lambda>(k, v). (k, view semantic v)) ?kept)"
      using 1 PModel(1) by (fastforce simp: list_all_iff)
    ultimately show ?case by (simp add: case_prod_unfold comp_def) }
  { case 2
    have "list_all (\<lambda>(k, v). json_ok v) (map (\<lambda>(k, v). (k, norm v)) flds)"
      using 2 PModel(2) by (fastforce simp: list_all_iff)
    then show ?case using 2 by (simp add: case_prod_unfold comp_def) }
qed (auto simp: list_all_iff split: option.splits)

lemma normalize_of_json: "json_ok j \<Longrightarrow> normalize (of_json j) = Inr j"
  using json_ok_of_json normalize_total(1) by metis

lemma normalize_projected:
  assumes "json_ok (JObj kvs)" and "map (\<lambda>(k, v). (Some k, v)) kvs = kvs'"
  shows "normalize (PMap (map (\<lambda>kv. (fst kv, of_json (snd kv))) kvs')) = Inr (JObj kvs)"
proof -
  have "PMap (map (\<lambda>kv. (fst kv, of_json (snd kv))) kvs') = of_json (JObj kvs)"
    unfolding assms(2) [symmetric] by auto
  then show ?thesis by (simp only: normalize_of_json [OF assms(1)])
qed

lemma project_total:
  "hashable v \<Longrightarrow> project semantic v = Inr (view semantic v)"
  "list_all hashable vs \<Longrightarrow> project_all semantic vs = Inr (map (view semantic) vs)"
  "list_all (\<lambda>(k, v). k \<noteq> None \<and> hashable v) items \<Longrightarrow>
     project_mapping semantic items = Inr (map (\<lambda>(k, v). (k, view semantic v)) items)"
  "list_all (\<lambda>(k, v). hashable v) flds \<Longrightarrow>
     project_fields semantic excluded flds =
     Inr (map (\<lambda>(k, v). (Some k, view semantic v)) (filter (\<lambda>(k, v). k \<notin> set excluded) flds))"
proof (induction semantic v and semantic vs and semantic items and semantic excluded flds
    rule: project_project_all_project_mapping_project_fields.induct)
  case (1 semantic cls flds)
  let ?kept = "filter (\<lambda>(k, v). k \<notin> set (excluded_fields semantic cls)) flds"
  have "normalize (PMap (map (\<lambda>kv. (fst kv, of_json (snd kv)))
          (map (\<lambda>(k, v). (Some k, view semantic v)) ?kept))) = Inr (view semantic (PModel cls flds))"
    using normalize_projected [of "map (\<lambda>(k, v). (k, view semantic v)) ?kept"
        "map (\<lambda>(k, v). (Some k, view semantic v)) ?kept"] json_ok_view [OF 1(2), of semantic]
    unfolding view.simps(4) by (auto simp: case_prod_unfold comp_def)
  moreover have "project_fields semantic (excluded_fields semantic cls) flds =
      Inr (map (\<lambda>(k, v). (Some k, view semantic v)) ?kept)"
    using 1 by simp
  ultimately show ?case by (simp only: project.simps rbind_simps)
next
  case (2 semantic items)
  have "map (\<lambda>(k, v). (Some k, v)) (map (\<lambda>(k, v). (the k, view semantic v)) items) =
      map (\<lambda>(k, v). (k, view semantic v)) items"
    using 2(2) by (auto simp: list_all_iff)
  then have "normalize (PMap (map (\<lambda>kv. (fst kv, of_json (snd kv)))
          (map (\<lambda>(k, v). (k, view semantic v)) items))) = Inr (view semantic (PMap items))"
    using normalize_projected json_ok_view [OF 2(2), of semantic]
    unfolding view.simps(3) by blast
  moreover have "project_mapping semantic items = Inr (map (\<lambda>(k, v). (k, view semantic v)) items)"
    using 2 by simp
  ultimately show ?case by (simp only: project.simps rbind_simps)
qed (auto simp: normalize_total split: option.splits)

lemma payload_hash_view:
  "hashable v \<Longrightarrow> payload_hash sha v = Inr (sha (canonical_bytes (view False v)))"
  "hashable v \<Longrightarrow> semantic_hash sha v = Inr (sha (canonical_bytes (view True v)))"
  by (simp_all add: payload_hash_def semantic_hash_def complete_payload_projection_def
      semantic_payload_projection_def canonical_sha256_def project_total normalize_of_json json_ok_view)

lemma canonical_sha256_norm:
  "hashable v \<Longrightarrow> canonical_sha256 sha v = Inr (sha (canonical_bytes (norm v)))"
  by (simp add: canonical_sha256_def normalize_total)

text \<open>Changing an excluded field, or the order of the fields, does not change a digest.\<close>

lemma view_model_cong:
  assumes "filter (\<lambda>(k, v). k \<notin> set (excluded_fields semantic cls)) flds =
           filter (\<lambda>(k, v). k \<notin> set (excluded_fields semantic cls)) flds'"
  shows "view semantic (PModel cls flds) = view semantic (PModel cls flds')"
  using assms by simp

end
