(* ===== verification/Payloads.thy ===== *)
theory Payloads
  imports Evaluation_Models Artifacts
begin

section \<open>Domain objects as hashed payloads\<close>

text \<open>
  Every record of the model as the Python object the hash functions see: the class and its fields
  in declaration order (\<open>dict(model)\<close>), \<open>schema_version\<close> and constant fields included. All of
  them are hashable, so a digest of a domain object is always a value.
\<close>

subsection \<open>Leaves\<close>

definition schema_version :: "string \<times> pyobj" where
  "schema_version = (''schema_version'', PStr ''1.0'')"

definition opt_obj :: "('a \<Rightarrow> pyobj) \<Rightarrow> 'a option \<Rightarrow> pyobj" where
  "opt_obj f v = (case v of None \<Rightarrow> PNone | Some x \<Rightarrow> f x)"

definition seq_obj :: "('a \<Rightarrow> pyobj) \<Rightarrow> 'a list \<Rightarrow> pyobj" where
  "seq_obj f xs = PSeq (map f xs)"

definition strs_obj :: "string list \<Rightarrow> pyobj" where
  "strs_obj xs = PSeq (map PStr xs)"

lemma hashable_leaves [simp]:
  "hashable (snd schema_version)"
  "hashable (opt_obj f v) \<longleftrightarrow> (\<forall>x. v = Some x \<longrightarrow> hashable (f x))"
  "hashable (seq_obj f xs) \<longleftrightarrow> list_all (\<lambda>x. hashable (f x)) xs"
  "hashable (strs_obj ss)"
  by (auto simp: schema_version_def opt_obj_def seq_obj_def strs_obj_def list_all_iff split: option.splits)

lemma hashable_seqI: "(\<And>x. hashable (f x)) \<Longrightarrow> hashable (seq_obj f xs)"
  by (simp add: list_all_iff)

definition dimension_obj :: "effect_dimension \<Rightarrow> pyobj" where
  "dimension_obj d = PStr (effect_dimension_name d)"

definition dimensions_obj :: "effect_dimension set \<Rightarrow> pyobj" where
  "dimensions_obj S = PSet (map dimension_obj (filter (\<lambda>d. d \<in> S) effect_dimensions))"

definition effect_value_obj :: "effect_value \<Rightarrow> pyobj" where
  "effect_value_obj v =
     (case effect_value_name v of Some s \<Rightarrow> PStr s | None \<Rightarrow> PInt (effect_value_number v))"

definition pyval_obj :: "pyval \<Rightarrow> pyobj" where
  "pyval_obj v =
     (case v of VStr s \<Rightarrow> PStr s | VInt n \<Rightarrow> PInt n | VBool b \<Rightarrow> PBool b | VTuple items \<Rightarrow> strs_obj items
      | VSet A \<Rightarrow> PSet (map PStr (sorted_list_of_set A)))"

lemma hashable_values [simp]:
  "hashable (dimension_obj d)" "hashable (dimensions_obj S)" "hashable (effect_value_obj v)"
  "hashable (pyval_obj w)"
  by (auto simp: dimension_obj_def dimensions_obj_def effect_value_obj_def pyval_obj_def list_all_iff
      split: option.splits pyval.splits)

fun error_code_name :: "error_code \<Rightarrow> string" where
  "error_code_name INVALID_INPUT = ''INVALID_INPUT''"
| "error_code_name INVALID_STATE = ''INVALID_STATE''"
| "error_code_name INVALID_POLICY = ''INVALID_POLICY''"
| "error_code_name INVALID_CITATION = ''INVALID_CITATION''"
| "error_code_name MALFORMED_MODEL_OUTPUT = ''MALFORMED_MODEL_OUTPUT''"
| "error_code_name PROVIDER_UNAVAILABLE = ''PROVIDER_UNAVAILABLE''"
| "error_code_name COVERAGE_LIMIT_EXCEEDED = ''COVERAGE_LIMIT_EXCEEDED''"
| "error_code_name HASH_MISMATCH = ''HASH_MISMATCH''"
| "error_code_name REVISION_INVALID = ''REVISION_INVALID''"
| "error_code_name PROSE_COMPILE_MISMATCH = ''PROSE_COMPILE_MISMATCH''"
| "error_code_name RUN_NOT_FOUND = ''RUN_NOT_FOUND''"
| "error_code_name INTERNAL_ERROR = ''INTERNAL_ERROR''"

subsection \<open>Policies and contracts\<close>

definition predicate_obj :: "predicate \<Rightarrow> pyobj" where
  "predicate_obj p = PModel CPredicate
     [schema_version, (''field'', PStr (predicate_field_name (p_field p))),
      (''operator'', PStr (predicate_operator_name (p_operator p))), (''value'', pyval_obj (p_value p))]"

definition effect_obj :: "effect \<Rightarrow> pyobj" where
  "effect_obj e = PModel CEffect
     [schema_version, (''dimension'', dimension_obj (e_dimension e)),
      (''value'', effect_value_obj (e_value e))]"

definition span_obj :: "source_span \<Rightarrow> pyobj" where
  "span_obj s = PModel CSourceSpan
     [schema_version, (''page'', PInt (span_page s)), (''start'', PInt (span_start s)),
      (''end'', PInt (span_end s)), (''quote'', PStr (span_quote s)),
      (''quote_sha256'', PStr (span_quote_sha256 s)), (''section'', opt_obj PStr (span_section s))]"

definition provenance_obj :: "rule_provenance \<Rightarrow> pyobj" where
  "provenance_obj p =
     (case p of
        TextCitation t \<Rightarrow> PModel CTextRuleProvenance
          [schema_version, (''kind'', PStr ''text_citation''),
           (''citation_id'', PStr (tp_citation_id t)), (''span'', span_obj (tp_span t))]
      | SessionRevision s \<Rightarrow> PModel CSessionRevisionProvenance
          [schema_version, (''kind'', PStr ''session_revision''),
           (''proposal_id'', PStr (sp_proposal_id s)), (''operation_index'', PInt (sp_operation_index s)),
           (''confirmed_at'', PTime (Some (sp_confirmed_at s))),
           (''baseline_citation_ids'', strs_obj (sp_baseline_citation_ids s))])"

definition override_obj :: "override_ref \<Rightarrow> pyobj" where
  "override_obj ov = PModel COverrideRef
     [schema_version, (''dimension'', dimension_obj (ov_dimension ov)),
      (''target_rule_id'', PStr (ov_target_rule_id ov))]"

lemma hashable_rule_parts [simp]:
  "hashable (predicate_obj p)" "hashable (effect_obj e)" "hashable (span_obj s)"
  "hashable (provenance_obj q)" "hashable (override_obj ov)"
  by (simp_all add: predicate_obj_def effect_obj_def span_obj_def provenance_obj_def override_obj_def
      schema_version_def split: rule_provenance.splits)

definition rule_obj :: "rule \<Rightarrow> pyobj" where
  "rule_obj r = PModel CRule
     [schema_version, (''description'', PStr (r_description r)),
      (''when'', seq_obj predicate_obj (r_when r)), (''effects'', seq_obj effect_obj (r_effects r)),
      (''overrides'', seq_obj override_obj (r_overrides r)),
      (''provenance'', provenance_obj (r_provenance r)),
      (''confidence_percent'', opt_obj PInt (r_confidence_percent r)),
      (''rule_id'', PStr (r_rule_id r)), (''revision'', PInt (r_revision r))]"

fun clause_reason_name :: "clause_reason \<Rightarrow> string" where
  "clause_reason_name UnsupportedVocabulary = ''unsupported_vocabulary''"
| "clause_reason_name UnsupportedLogic = ''unsupported_logic''"
| "clause_reason_name AmbiguousLanguage = ''ambiguous_language''"
| "clause_reason_name InvalidCitation = ''invalid_citation''"
| "clause_reason_name UnsupportedAggregation = ''unsupported_aggregation''"
| "clause_reason_name UnsupportedCurrency = ''unsupported_currency''"

fun review_status_name :: "review_status \<Rightarrow> string" where
  "review_status_name Provisional = ''provisional''"
| "review_status_name SessionConfirmed = ''session_confirmed''"

definition clause_obj :: "unsupported_clause \<Rightarrow> pyobj" where
  "clause_obj c = PModel CUnsupportedClause
     [schema_version, (''clause_id'', PStr (uc_clause_id c)), (''span'', span_obj (uc_span c)),
      (''reason_code'', PStr (clause_reason_name (uc_reason_code c))),
      (''affected_dimensions'', dimensions_obj (uc_affected_dimensions c)),
      (''when_hint'', opt_obj (seq_obj predicate_obj) (uc_when_hint c)),
      (''review_status'', PStr (review_status_name (uc_review_status c)))]"

fun policy_kind_name :: "policy_kind \<Rightarrow> string" where
  "policy_kind_name CompiledBaseline = ''compiled_baseline''"
| "policy_kind_name StructuredRevision = ''structured_revision''"

lemma hashable_rule [simp]: "hashable (rule_obj r)" "hashable (clause_obj c)"
  by (simp_all add: rule_obj_def clause_obj_def schema_version_def list_all_iff)

definition policy_obj :: "policy_ir \<Rightarrow> pyobj" where
  "policy_obj p = PModel CPolicyIR
     [schema_version, (''policy_id'', PStr (pi_policy_id p)),
      (''document_sha256'', PStr (pi_document_sha256 p)), (''kind'', PStr (policy_kind_name (pi_kind p))),
      (''review_status'', PStr (review_status_name (pi_review_status p))),
      (''base_currency'', PStr ''SGD''), (''rules'', seq_obj rule_obj (pi_rules p)),
      (''unsupported_clauses'', seq_obj clause_obj (pi_unsupported_clauses p))]"

definition assertion_value_obj :: "assertion_value \<Rightarrow> pyobj" where
  "assertion_value_obj v =
     (case v of OfEffect e \<Rightarrow> effect_value_obj e | IsCompliant \<Rightarrow> PStr ''COMPLIANT''
      | IsNoncompliant \<Rightarrow> PStr ''NONCOMPLIANT'')"

definition target_kind_name :: "target_kind \<Rightarrow> string" where
  "target_kind_name k =
     (case k of EffectTarget \<Rightarrow> ''effect_value'' | ComplianceTarget \<Rightarrow> ''compliance_value'')"

definition assertion_operator_name :: "assertion_operator \<Rightarrow> string" where
  "assertion_operator_name op =
     (case op of A_eq \<Rightarrow> ''eq'' | A_neq \<Rightarrow> ''neq'' | A_lte \<Rightarrow> ''lte'' | A_gte \<Rightarrow> ''gte'')"

definition assertion_origin_name :: "assertion_origin \<Rightarrow> string" where
  "assertion_origin_name x =
     (case x of OriginGold \<Rightarrow> ''gold'' | OriginSessionConfirmed \<Rightarrow> ''session_confirmed''
      | OriginMechanical \<Rightarrow> ''mechanical'')"

definition assertion_obj :: "assertion \<Rightarrow> pyobj" where
  "assertion_obj a = PModel CAssertion
     [schema_version, (''assertion_id'', PStr (a_assertion_id a)),
      (''target_kind'', PStr (target_kind_name (a_target_kind a))),
      (''dimension'', dimension_obj (a_dimension a)),
      (''operator'', PStr (assertion_operator_name (a_operator a))),
      (''expected_value'', assertion_value_obj (a_expected_value a)),
      (''origin'', PStr (assertion_origin_name (a_origin a))),
      (''source_invariant_id'', opt_obj PStr (a_source_invariant_id a)),
      (''gold_label_id'', opt_obj PStr (a_gold_label_id a)),
      (''mechanical_relation_id'', opt_obj PStr (a_mechanical_relation_id a))]"

lemma hashable_assertion [simp]: "hashable (assertion_value_obj v)" "hashable (assertion_obj a)"
proof -
  show "hashable (assertion_value_obj v)" for v
    by (simp add: assertion_value_obj_def split: assertion_value.splits)
  then show "hashable (assertion_obj a)"
    by (simp add: assertion_obj_def schema_version_def)
qed

definition invariant_obj :: "invariant \<Rightarrow> pyobj" where
  "invariant_obj i = PModel CInvariant
     [schema_version, (''invariant_id'', PStr (i_invariant_id i)),
      (''description'', PStr (i_description i)), (''when'', seq_obj predicate_obj (i_when i)),
      (''assertion'', assertion_obj (i_assertion i)),
      (''severity'', PStr (severity_name (i_severity i))),
      (''origin'', PStr ''session_confirmed'')]"

definition contract_obj :: "policy_contract \<Rightarrow> pyobj" where
  "contract_obj c = PModel CPolicyContract
     [schema_version, (''contract_id'', PStr (pc_contract_id c)),
      (''required_dimensions'', dimensions_obj (pc_required_dimensions c)),
      (''invariants'', seq_obj invariant_obj (pc_invariants c))]"

lemma hashable_policy [simp]:
  "hashable (policy_obj p)" "hashable (invariant_obj i)" "hashable (contract_obj c)"
proof -
  show "hashable (invariant_obj i)" for i
    by (simp add: invariant_obj_def schema_version_def list_all_iff)
  then show "hashable (contract_obj c)"
    by (simp add: contract_obj_def schema_version_def list_all_iff)
  show "hashable (policy_obj p)"
    by (simp add: policy_obj_def schema_version_def list_all_iff)
qed

subsection \<open>Scenarios and suites\<close>

definition facts_obj :: "scenario_facts \<Rightarrow> pyobj" where
  "facts_obj f = PModel CScenarioFacts
     [schema_version, (''employee_role'', PStr (employee_role_name (f_employee_role f))),
      (''expense_category'', PStr (expense_category_name (f_expense_category f))),
      (''amount_minor'', PInt (f_amount_minor f)),
      (''destination_type'', PStr (destination_type_name (f_destination_type f))),
      (''booking_days_before'', PInt (f_booking_days_before f)),
      (''receipt_present'', PBool (f_receipt_present f)),
      (''approval_roles_present'',
        PSet (map (\<lambda>r. PStr (approval_role_name r))
          (filter (\<lambda>r. r \<in> f_approval_roles_present f) approval_roles))),
      (''prior_same_day_category_spend_minor'', PInt (f_prior_same_day_category_spend_minor f))]"

definition scenario_category_name :: "scenario_category \<Rightarrow> string" where
  "scenario_category_name c =
     (case c of Normal \<Rightarrow> ''normal'' | Boundary \<Rightarrow> ''boundary'' | Adversarial \<Rightarrow> ''adversarial'')"

definition scenario_origin_name :: "scenario_origin \<Rightarrow> string" where
  "scenario_origin_name x =
     (case x of FromGold \<Rightarrow> ''gold'' | FromSession \<Rightarrow> ''session'' | FromMechanical \<Rightarrow> ''mechanical''
      | FromLlmExploratory \<Rightarrow> ''llm_exploratory'')"

definition partition_name :: "partition \<Rightarrow> string" where
  "partition_name p = (case p of Visible \<Rightarrow> ''visible'' | Holdout \<Rightarrow> ''holdout'')"

definition scenario_origins :: "scenario_origin list" where
  "scenario_origins = [FromGold, FromSession, FromMechanical, FromLlmExploratory]"

definition scenario_base_fields :: "'a scenario_base_scheme \<Rightarrow> (string \<times> pyobj) list" where
  "scenario_base_fields s =
     [(''category'', PStr (scenario_category_name (sc_category s))),
      (''origins'', PSet (map (\<lambda>x. PStr (scenario_origin_name x))
         (filter (\<lambda>x. x \<in> sc_origins s) scenario_origins))),
      (''facts'', facts_obj (sc_facts s)),
      (''target_rule_ids'', strs_obj (sc_target_rule_ids s)),
      (''target_invariant_ids'', strs_obj (sc_target_invariant_ids s)),
      (''assertions'', seq_obj assertion_obj (sc_assertions s)),
      (''protected'', PBool (sc_protected s)),
      (''partition'', PStr (partition_name (sc_partition s)))]"

definition scenario_obj :: "scenario \<Rightarrow> pyobj" where
  "scenario_obj s = PModel CScenario
     (schema_version # (''scenario_id'', PStr (sc_scenario_id s)) # scenario_base_fields s)"

definition candidate_obj :: "scenario_candidate \<Rightarrow> pyobj" where
  "candidate_obj c = PModel CScenarioCandidate
     (schema_version # (''candidate_id'', PStr (sc_candidate_id c)) # scenario_base_fields c)"

definition rejection_reason_name :: "rejection_reason \<Rightarrow> string" where
  "rejection_reason_name r =
     (case r of InvalidFacts \<Rightarrow> ''invalid_facts'' | InvalidAssertion \<Rightarrow> ''invalid_assertion''
      | Duplicate \<Rightarrow> ''duplicate'' | BudgetExceeded \<Rightarrow> ''budget_exceeded''
      | IncompatibleAssertions \<Rightarrow> ''incompatible_assertions'')"

definition rejection_obj :: "scenario_rejection \<Rightarrow> pyobj" where
  "rejection_obj r = PModel CScenarioRejection
     [schema_version, (''candidate_id'', PStr (rj_candidate_id r)),
      (''reason_code'', PStr (rejection_reason_name (rj_reason_code r))),
      (''duplicate_of'', opt_obj PStr (rj_duplicate_of r))]"

definition statistics_obj :: "suite_statistics \<Rightarrow> pyobj" where
  "statistics_obj s = PModel CSuiteStatistics
     [schema_version, (''generated_count'', PInt (st_generated_count s)),
      (''rejected_count'', PInt (st_rejected_count s)),
      (''duplicate_count'', PInt (st_duplicate_count s)),
      (''rejections'', seq_obj rejection_obj (st_rejections s))]"

definition suite_obj :: "scenario_suite \<Rightarrow> pyobj" where
  "suite_obj s = PModel CScenarioSuite
     [schema_version, (''suite_id'', PStr (ss_suite_id s)),
      (''content_sha256'', PStr (ss_content_sha256 s)), (''seed'', PInt (ss_seed s)),
      (''document_sha256'', PStr (ss_document_sha256 s)),
      (''policy_contract_sha256'', PStr (ss_policy_contract_sha256 s)),
      (''rule_set_sha256'', PStr (ss_rule_set_sha256 s)),
      (''engine_version'', PStr (ss_engine_version s)),
      (''scenarios'', seq_obj scenario_obj (ss_scenarios s)),
      (''statistics'', statistics_obj (ss_statistics s))]"

lemma hashable_facts [simp]: "hashable (facts_obj f)"
  by (simp add: facts_obj_def schema_version_def list_all_iff)

lemma hashable_scenario [simp]: "hashable (scenario_obj s)" "hashable (candidate_obj c)"
  by (simp_all add: scenario_obj_def candidate_obj_def scenario_base_fields_def schema_version_def
      list_all_iff)

lemma hashable_suite [simp]: "hashable (statistics_obj t)" "hashable (suite_obj s)"
proof -
  have "hashable (rejection_obj r)" for r
    by (simp add: rejection_obj_def schema_version_def)
  then show "hashable (statistics_obj t)" for t
    by (simp add: statistics_obj_def schema_version_def list_all_iff)
  then show "hashable (suite_obj s)"
    by (simp add: suite_obj_def schema_version_def list_all_iff)
qed

subsection \<open>Evaluation evidence\<close>

definition predicate_result_obj :: "predicate_result \<Rightarrow> pyobj" where
  "predicate_result_obj p = PModel CPredicateResult
     [schema_version, (''rule_id'', PStr (pr_rule_id p)),
      (''predicate_index'', PInt (pr_predicate_index p)), (''matched'', PBool (pr_matched p))]"

definition dimension_result_obj :: "dimension_result \<Rightarrow> pyobj" where
  "dimension_result_obj d = PModel CDimensionResult
     [schema_version, (''dimension'', dimension_obj (dr_dimension d)),
      (''status'', PStr (effect_status_name (dr_status d))),
      (''value'', opt_obj effect_value_obj (dr_value d)),
      (''conflicting_values'', seq_obj effect_value_obj (dr_conflicting_values d)),
      (''applicable_rule_ids'', strs_obj (dr_applicable_rule_ids d)),
      (''overridden_rule_ids'', strs_obj (dr_overridden_rule_ids d)),
      (''unsupported_clause_ids'', strs_obj (dr_unsupported_clause_ids d))]"

definition compliance_result_obj :: "compliance_result \<Rightarrow> pyobj" where
  "compliance_result_obj c = PModel CComplianceResult
     [schema_version, (''dimension'', dimension_obj (cr_dimension c)),
      (''status'', PStr (compliance_status_name (cr_status c)))]"

definition assertion_result_obj :: "assertion_result \<Rightarrow> pyobj" where
  "assertion_result_obj a = PModel CAssertionResult
     [schema_version, (''assertion_id'', PStr (ar_assertion_id a)),
      (''status'', PStr (assertion_status_name (ar_status a))),
      (''actual_value'', opt_obj assertion_value_obj (ar_actual_value a))]"

definition trace_obj :: "evaluation_trace \<Rightarrow> pyobj" where
  "trace_obj t = PModel CEvaluationTrace
     [schema_version, (''scenario_id'', PStr (et_scenario_id t)),
      (''fired_rule_ids'', strs_obj (et_fired_rule_ids t)),
      (''predicate_results'', seq_obj predicate_result_obj (et_predicate_results t)),
      (''resolved_effects'', seq_obj dimension_result_obj (et_resolved_effects t)),
      (''compliance_values'', seq_obj compliance_result_obj (et_compliance_values t)),
      (''source_citations'', seq_obj provenance_obj (et_source_citations t)),
      (''trace_sha256'', PStr (et_trace_sha256 t))]"

definition public_error_obj :: "public_error \<Rightarrow> pyobj" where
  "public_error_obj e = PModel CPublicError
     [schema_version, (''code'', PStr (error_code_name (pe_code e))),
      (''message'', PStr (pe_message e)), (''error_id'', opt_obj PStr (pe_error_id e)),
      (''retryable'', PBool (pe_retryable e))]"

definition verdict_name :: "verdict \<Rightarrow> string" where
  "verdict_name v =
     (case v of VPass \<Rightarrow> ''PASS'' | VFail \<Rightarrow> ''FAIL'' | VUnscored \<Rightarrow> ''UNSCORED''
      | VInconclusive \<Rightarrow> ''INCONCLUSIVE'' | VError \<Rightarrow> ''ERROR'')"

definition evaluation_obj :: "scenario_evaluation \<Rightarrow> pyobj" where
  "evaluation_obj s = PModel CScenarioEvaluation
     [schema_version, (''scenario_id'', PStr (se_scenario_id s)), (''trace'', trace_obj (se_trace s)),
      (''assertion_results'', seq_obj assertion_result_obj (se_assertion_results s)),
      (''verdict'', PStr (verdict_name (se_verdict s))),
      (''error'', opt_obj public_error_obj (se_error s))]"

lemma hashable_trace [simp]:
  "hashable (trace_obj t)" "hashable (public_error_obj e)" "hashable (assertion_result_obj a)"
  by (simp_all add: trace_obj_def predicate_result_obj_def dimension_result_obj_def
      compliance_result_obj_def public_error_obj_def assertion_result_obj_def schema_version_def
      list_all_iff)

lemma hashable_evaluation [simp]: "hashable (evaluation_obj s)"
  by (simp add: evaluation_obj_def schema_version_def list_all_iff)

definition coverage_evidence_obj :: "coverage_evidence \<Rightarrow> pyobj" where
  "coverage_evidence_obj e = PModel CCoverageEvidence
     [schema_version, (''target_kind'', PStr (coverage_target_name (ce_target_kind e))),
      (''target_id'', PStr (ce_target_id e)), (''scenario_ids'', strs_obj (ce_scenario_ids e)),
      (''predicate_index'', opt_obj PInt (ce_predicate_index e)),
      (''predicate_outcome'', opt_obj PBool (ce_predicate_outcome e))]"

definition coverage_status_name :: "coverage_status \<Rightarrow> string" where
  "coverage_status_name c =
     (case c of CoveragePending \<Rightarrow> ''pending'' | CoverageSatisfied \<Rightarrow> ''satisfied''
      | CoverageLimitExceeded \<Rightarrow> ''COVERAGE_LIMIT_EXCEEDED'')"

definition coverage_obj :: "coverage_snapshot \<Rightarrow> pyobj" where
  "coverage_obj c = PModel CCoverageSnapshot
     [schema_version, (''total_rules'', PInt (cs_total_rules c)),
      (''covered_rules'', PInt (cs_covered_rules c)),
      (''total_invariants'', PInt (cs_total_invariants c)),
      (''covered_invariants'', PInt (cs_covered_invariants c)),
      (''total_predicate_branches'', PInt (cs_total_predicate_branches c)),
      (''covered_predicate_branches'', PInt (cs_covered_predicate_branches c)),
      (''evidence'', seq_obj coverage_evidence_obj (cs_evidence c)),
      (''missing_rule_ids'', strs_obj (cs_missing_rule_ids c)),
      (''missing_invariant_ids'', strs_obj (cs_missing_invariant_ids c)),
      (''targeted_cycles'', PInt (cs_targeted_cycles c)),
      (''status'', PStr (coverage_status_name (cs_status c)))]"

definition input_hashes_obj :: "input_hashes \<Rightarrow> pyobj" where
  "input_hashes_obj i = PModel CInputHashes
     [schema_version, (''policy_sha256'', PStr (ih_policy_sha256 i)),
      (''contract_sha256'', PStr (ih_contract_sha256 i)), (''suite_sha256'', PStr (ih_suite_sha256 i)),
      (''engine_sha256'', PStr (ih_engine_sha256 i)),
      (''run_manifest_sha256'', PStr (ih_run_manifest_sha256 i))]"

definition report_obj :: "evaluation_report \<Rightarrow> pyobj" where
  "report_obj r = PModel CEvaluationReport
     [schema_version, (''report_id'', PStr (er_report_id r)), (''inputs'', input_hashes_obj (er_inputs r)),
      (''engine_version'', PStr (er_engine_version r)),
      (''results'', seq_obj evaluation_obj (er_results r)), (''coverage'', coverage_obj (er_coverage r))]"

lemma hashable_coverage [simp]: "hashable (coverage_obj c)" "hashable (input_hashes_obj i)"
  by (simp_all add: coverage_obj_def coverage_evidence_obj_def input_hashes_obj_def schema_version_def
      list_all_iff)

lemma hashable_report [simp]: "hashable (report_obj r)"
  by (simp add: report_obj_def schema_version_def list_all_iff)

subsection \<open>Findings\<close>

definition trace_ref_obj :: "trace_ref \<Rightarrow> pyobj" where
  "trace_ref_obj t = PModel CTraceRef
     [schema_version, (''scenario_id'', PStr (tr_scenario_id t)),
      (''trace_sha256'', PStr (tr_trace_sha256 t))]"

definition finding_obj :: "finding \<Rightarrow> pyobj" where
  "finding_obj f = PModel CFinding
     [schema_version, (''finding_id'', PStr (fd_finding_id f)),
      (''fingerprint_sha256'', PStr (fd_fingerprint_sha256 f)),
      (''finding_type'', PStr (finding_type_name (fd_finding_type f))),
      (''evidence_level'', PStr (evidence_level_name (fd_evidence_level f))),
      (''scenario_ids'', strs_obj (fd_scenario_ids f)), (''rule_ids'', strs_obj (fd_rule_ids f)),
      (''invariant_id'', opt_obj PStr (fd_invariant_id f)),
      (''assertion_id'', opt_obj PStr (fd_assertion_id f)),
      (''dimension'', dimension_obj (fd_dimension f)),
      (''traces'', seq_obj trace_ref_obj (fd_traces f)),
      (''citations'', seq_obj span_obj (fd_citations f)),
      (''review_status'', PStr (finding_review_status_name (fd_review_status f))),
      (''severity'', opt_obj (\<lambda>s. PStr (severity_name s)) (fd_severity f)),
      (''severity_origin'', opt_obj (\<lambda>s. PStr (severity_origin_name s)) (fd_severity_origin f))]"

definition finding_report_obj :: "finding_report \<Rightarrow> pyobj" where
  "finding_report_obj r = PModel CFindingReport
     [schema_version, (''report_id'', PStr (fr_report_id r)), (''inputs'', input_hashes_obj (fr_inputs r)),
      (''findings'', seq_obj finding_obj (fr_findings r))]"

lemma hashable_finding [simp]: "hashable (finding_obj f)" "hashable (finding_report_obj r)"
proof -
  show "hashable (finding_obj f)" for f
    by (simp add: finding_obj_def trace_ref_obj_def schema_version_def list_all_iff)
  then show "hashable (finding_report_obj r)"
    by (simp add: finding_report_obj_def schema_version_def list_all_iff)
qed

subsection \<open>What digests depend on\<close>

text \<open>A suite's own digest, and a trace's, are not part of what they are computed from.\<close>

lemma suite_self_digest:
  "payload_hash sha (suite_obj (s\<lparr>ss_content_sha256 := h\<rparr>)) = payload_hash sha (suite_obj s)"
proof -
  have "view False (suite_obj (s\<lparr>ss_content_sha256 := h\<rparr>)) = view False (suite_obj s)"
    by (simp add: suite_obj_def excluded_fields_def complete_exclusions_def schema_version_def)
  then show ?thesis by (simp add: payload_hash_view)
qed

lemma trace_self_digest:
  "payload_hash sha (trace_obj (t\<lparr>et_trace_sha256 := h\<rparr>)) = payload_hash sha (trace_obj t)"
proof -
  have "view False (trace_obj (t\<lparr>et_trace_sha256 := h\<rparr>)) = view False (trace_obj t)"
    by (simp add: trace_obj_def excluded_fields_def complete_exclusions_def schema_version_def)
  then show ?thesis by (simp add: payload_hash_view)
qed

definition redescribe :: "(ident \<Rightarrow> string \<times> int option) \<Rightarrow> policy_ir \<Rightarrow> policy_ir" where
  "redescribe f p =
     p\<lparr>pi_rules := map (\<lambda>r. r\<lparr>r_description := fst (f (r_rule_id r)),
                              r_confidence_percent := snd (f (r_rule_id r))\<rparr>) (pi_rules p)\<rparr>"

lemma semantic_hash_redescribe:
  "semantic_hash sha (policy_obj (redescribe f p)) = semantic_hash sha (policy_obj p)"
proof -
  have "view True (rule_obj (r\<lparr>r_description := d, r_confidence_percent := c\<rparr>)) = view True (rule_obj r)"
    for r d c
    by (simp add: rule_obj_def excluded_fields_def complete_exclusions_def semantic_exclusions_def
        schema_version_def)
  then have "view True (policy_obj (redescribe f p)) = view True (policy_obj p)"
    by (simp add: policy_obj_def redescribe_def excluded_fields_def complete_exclusions_def
        semantic_exclusions_def schema_version_def seq_obj_def comp_def)
  then show ?thesis by (simp add: payload_hash_view)
qed

end
