(* ===== verification/Engine.thy ===== *)
theory Engine
  imports Rule_Validation Payloads
begin

section \<open>Deterministic evaluation (features/evaluation/engine.py)\<close>

text \<open>
  \<open>evaluate_scenario\<close> and \<open>DeterministicEvaluationEngine.evaluate\<close> with every exception the code
  catches or lets through, then what they compute on validated inputs: the resolution of each
  dimension, the compliance of the claim, the outcome of each independent assertion, and the
  verdict; an ERROR verdict means exactly that two assertions contend for one identifier.
\<close>

subsection \<open>Invariants and assertions of a scenario\<close>

definition engine_version :: string where
  "engine_version = ''1.0.0''"

definition matched_invariants :: "policy_contract \<Rightarrow> scenario_facts \<Rightarrow> invariant list result" where
  "matched_invariants contract facts =
     rfilter (\<lambda>i. conditions_match (i_when i) facts) (pc_invariants contract)"

definition add_invariant_assertion ::
  "invariant \<Rightarrow> (ident \<times> assertion) list \<Rightarrow> (ident \<times> assertion) list result" where
  "add_invariant_assertion i d =
     (let a = i_assertion i in
      case map_of d (a_assertion_id a) of
        Some b \<Rightarrow>
          if b \<noteq> a then Inl (ValueError ''conflicting frozen/invariant assertion identity'')
          else Inr (AList.update (a_assertion_id a) a d)
      | None \<Rightarrow> Inr (AList.update (a_assertion_id a) a d))"

definition scenario_assertions :: "policy_contract \<Rightarrow> scenario \<Rightarrow> assertion list result" where
  "scenario_assertions contract s =
     rbind (matched_invariants contract (sc_facts s)) (\<lambda>invariants.
     rbind (rfold add_invariant_assertion invariants (dict_by a_assertion_id (sc_assertions s)))
       (\<lambda>d. Inr (map snd (sort_key fst d))))"

subsection \<open>Evaluation of one scenario\<close>

definition seal_trace :: "(string \<Rightarrow> sha256) \<Rightarrow> evaluation_trace \<Rightarrow> evaluation_trace result" where
  "seal_trace sha t =
     rbind (validated evaluation_trace_checks (t\<lparr>et_trace_sha256 := zero_sha256\<rparr>)) (\<lambda>t.
     rbind (payload_hash sha (trace_obj t)) (\<lambda>h. Inr (t\<lparr>et_trace_sha256 := h\<rparr>)))"

definition compliance_for :: "scenario_facts \<Rightarrow> dimension_result \<Rightarrow> compliance_result result" where
  "compliance_for facts d =
     (case (dr_status d, dr_value d) of
        (EValue, Some v) \<Rightarrow>
          rbind (derive_compliance (dr_dimension d) v facts) (\<lambda>c.
            case c of Some r \<Rightarrow> Inr r | None \<Rightarrow> Inl (ValueError ''EvaluationTrace''))
      | (EValue, None) \<Rightarrow> Inl TypeError
      | (EError, _) \<Rightarrow>
          validated compliance_result_checks \<lparr>cr_dimension = dr_dimension d, cr_status = CError\<rparr>
      | (ENotApplicable, _) \<Rightarrow>
          validated compliance_result_checks \<lparr>cr_dimension = dr_dimension d, cr_status = CNotApplicable\<rparr>
      | _ \<Rightarrow>
          validated compliance_result_checks \<lparr>cr_dimension = dr_dimension d, cr_status = CInconclusive\<rparr>)"

text \<open>\<open>{canonical_sha256(r.provenance): r.provenance ...}\<close>, then its values by sorted key.\<close>

definition source_citations ::
  "(string \<Rightarrow> sha256) \<Rightarrow> rule list \<Rightarrow> ident list \<Rightarrow> rule_provenance list result" where
  "source_citations sha rules fired =
     rbind (traverse (\<lambda>r. rbind (canonical_sha256 sha (provenance_obj (r_provenance r)))
                             (\<lambda>h. Inr (h, r_provenance r)))
              (filter (\<lambda>r. r_rule_id r \<in> set fired) rules))
       (\<lambda>pairs. Inr (map (snd \<circ> snd) (sort_key fst (dict_by fst pairs))))"

definition predicate_results :: "rule_trace list \<Rightarrow> predicate_result list result" where
  "predicate_results traces =
     traverse (validated predicate_result_checks)
       (concat (map (\<lambda>t. map (\<lambda>(index, p).
          \<lparr>pr_rule_id = rt_rule_id t, pr_predicate_index = int index, pr_matched = pt_matched p\<rparr>)
          (enumerate 0 (rt_predicates t))) traces))"

definition verdict_of :: "assertion_result list \<Rightarrow> verdict" where
  "verdict_of results =
     (let states = set (map ar_status results) in
      if AError \<in> states then VError
      else if AFail \<in> states then VFail
      else if AInconclusive \<in> states then VInconclusive
      else if results \<noteq> [] then VPass else VUnscored)"

definition scored_evaluation ::
  "(string \<Rightarrow> sha256) \<Rightarrow> policy_ir \<Rightarrow> policy_contract \<Rightarrow> scenario \<Rightarrow> scenario_evaluation result" where
  "scored_evaluation sha policy contract s =
     rbind (validated scenario_checks s) (\<lambda>s.
     rbind (matched_invariants contract (sc_facts s)) (\<lambda>invariants.
     rbind (scenario_assertions contract s) (\<lambda>assertions.
     rbind (traverse (\<lambda>r. rule_matches r (sc_facts s)) (sort_key r_rule_id (pi_rules policy))) (\<lambda>traces.
     let required = scenario_required_dimensions s contract (set (map i_invariant_id invariants)) in
     rbind (traverse (\<lambda>d. resolve_dimension policy s d required traces) effect_dimensions) (\<lambda>dimensions.
     rbind (traverse (compliance_for (sc_facts s))
              (filter (\<lambda>d. dr_dimension d \<noteq> Eligibility) dimensions)) (\<lambda>compliance.
     let fired = map rt_rule_id (filter rt_matched traces) in
     rbind (source_citations sha (pi_rules policy) fired) (\<lambda>citations.
     rbind (predicate_results traces) (\<lambda>predicates.
     rbind (seal_trace sha
              \<lparr>et_scenario_id = sc_scenario_id s, et_fired_rule_ids = fired,
               et_predicate_results = predicates, et_resolved_effects = dimensions,
               et_compliance_values = compliance, et_source_citations = citations,
               et_trace_sha256 = zero_sha256\<rparr>) (\<lambda>trace.
     rbind (traverse (\<lambda>a. evaluate_assertion a dimensions compliance) assertions) (\<lambda>results.
       validated scenario_evaluation_checks
         \<lparr>se_scenario_id = sc_scenario_id s, se_trace = trace, se_assertion_results = results,
          se_verdict = verdict_of results, se_error = None\<rparr>))))))))))"

text \<open>The report of a scenario whose evaluation raised.\<close>

definition error_evaluation :: "(string \<Rightarrow> sha256) \<Rightarrow> scenario \<Rightarrow> scenario_evaluation result" where
  "error_evaluation sha s =
     rbind (seal_trace sha
       \<lparr>et_scenario_id = sc_scenario_id s, et_fired_rule_ids = [], et_predicate_results = [],
        et_resolved_effects = map (\<lambda>d. \<lparr>dr_dimension = d, dr_status = EError, dr_value = None,
          dr_conflicting_values = [], dr_applicable_rule_ids = [], dr_overridden_rule_ids = [],
          dr_unsupported_clause_ids = []\<rparr>) effect_dimensions,
        et_compliance_values = map (\<lambda>d. \<lparr>cr_dimension = d, cr_status = CError\<rparr>)
          (filter (\<lambda>d. d \<noteq> Eligibility) effect_dimensions),
        et_source_citations = [], et_trace_sha256 = zero_sha256\<rparr>) (\<lambda>trace.
     validated scenario_evaluation_checks
       \<lparr>se_scenario_id = sc_scenario_id s, se_trace = trace, se_assertion_results = [],
        se_verdict = VError,
        se_error = Some \<lparr>pe_code = INVALID_INPUT,
          pe_message = ''Scenario facts or assertions are invalid.'',
          pe_error_id = None, pe_retryable = False\<rparr>\<rparr>)"

text \<open>\<open>except (ValueError, TypeError, AttributeError)\<close>; other exceptions pass through.\<close>

fun caught :: "py_error \<Rightarrow> bool" where
  "caught (ValueError msg) = True"
| "caught TypeError = True"
| "caught AttributeError = True"
| "caught KeyError = False"
| "caught StopIteration = False"

definition evaluate_scenario ::
  "(string \<Rightarrow> sha256) \<Rightarrow> policy_ir \<Rightarrow> policy_contract \<Rightarrow> scenario \<Rightarrow> scenario_evaluation result" where
  "evaluate_scenario sha policy contract s =
     (case scored_evaluation sha policy contract s of
        Inr e \<Rightarrow> Inr e
      | Inl e \<Rightarrow> if caught e then error_evaluation sha s else Inl e)"

subsection \<open>Anchors\<close>

definition rule_set_hash :: "(string \<Rightarrow> sha256) \<Rightarrow> policy_ir \<Rightarrow> sha256 result" where
  "rule_set_hash sha policy = semantic_hash sha (policy_obj policy)"

definition validate_evaluation_anchors ::
  "(string \<Rightarrow> sha256) \<Rightarrow> evaluate_policy_request \<Rightarrow> unit result" where
  "validate_evaluation_anchors sha request =
     (let policy = ep_policy request; suite = ep_suite request; inputs = ep_inputs request in
      rbind (payload_hash sha (policy_obj policy)) (\<lambda>policy_hash.
      rbind (payload_hash sha (contract_obj (ep_contract request))) (\<lambda>contract_hash.
      rbind (payload_hash sha (suite_obj suite)) (\<lambda>suite_hash.
      rbind (if pi_kind policy = CompiledBaseline
             then rbind (rule_set_hash sha policy) (\<lambda>h. Inr (ss_rule_set_sha256 suite = h))
             else Inr True) (\<lambda>rule_set_ok.
      if ih_policy_sha256 inputs = policy_hash
         \<and> ih_contract_sha256 inputs = contract_hash
         \<and> (ih_suite_sha256 inputs = suite_hash \<and> suite_hash = ss_content_sha256 suite)
         \<and> ss_document_sha256 suite = pi_document_sha256 policy
         \<and> ss_policy_contract_sha256 suite = contract_hash
         \<and> (ep_engine_version request = ss_engine_version suite
             \<and> ss_engine_version suite = engine_version)
         \<and> rule_set_ok
      then Inr ()
      else Inl (ValueError ''HASH_MISMATCH: evaluation anchors or engine version''))))))"

subsection \<open>Coverage evidence\<close>

type_synonym evidence_key = "string \<times> ident \<times> int option \<times> bool option"

definition add_evidence ::
  "evidence_key \<times> ident \<Rightarrow> (evidence_key \<times> ident list) list \<Rightarrow> (evidence_key \<times> ident list) list" where
  "add_evidence event d =
     (case map_of d (fst event) of
        None \<Rightarrow> d @ [(fst event, [snd event])]
      | Some ids \<Rightarrow> AList.update (fst event) (ids @ [snd event]) d)"

definition result_evidence ::
  "evaluate_policy_request \<Rightarrow> scenario_evaluation \<Rightarrow> (evidence_key \<times> ident) list result" where
  "result_evidence request result =
     rbind
       (if se_verdict result = VError then Inr []
        else
          rbind (find_first (\<lambda>s. sc_scenario_id s = se_scenario_id result) (ss_scenarios (ep_suite request)))
            (\<lambda>s. matched_invariants (ep_contract request) (sc_facts s)))
       (\<lambda>invariants. Inr
         (map (\<lambda>rid. ((''rule'', rid, None, None), se_scenario_id result))
            (et_fired_rule_ids (se_trace result))
          @ map (\<lambda>p. ((''predicate_branch'', pr_rule_id p, Some (pr_predicate_index p), Some (pr_matched p)),
                       se_scenario_id result))
            (et_predicate_results (se_trace result))
          @ map (\<lambda>i. ((''invariant'', i_invariant_id i, None, None), se_scenario_id result)) invariants))"

definition evidence_target :: "string \<Rightarrow> coverage_target" where
  "evidence_target kind =
     (if kind = ''rule'' then TargetRule
      else if kind = ''invariant'' then TargetInvariant else TargetPredicateBranch)"

definition coverage_entry :: "evidence_key \<times> ident list \<Rightarrow> coverage_evidence result" where
  "coverage_entry entry =
     (case entry of ((kind, target, index, outcome), ids) \<Rightarrow>
        validated coverage_evidence_checks
          \<lparr>ce_target_kind = evidence_target kind, ce_target_id = target, ce_scenario_ids = sort ids,
           ce_predicate_index = index, ce_predicate_outcome = outcome\<rparr>)"

definition covered_ids :: "string \<Rightarrow> (evidence_key \<times> ident list) list \<Rightarrow> ident list" where
  "covered_ids kind evidence =
     remdups (map (\<lambda>e. fst (snd (fst e))) (filter (\<lambda>e. fst (fst e) = kind) evidence))"

definition coverage_of ::
  "evaluate_policy_request \<Rightarrow> (evidence_key \<times> ident list) list \<Rightarrow> coverage_snapshot result" where
  "coverage_of request evidence =
     (let rules = pi_rules (ep_policy request);
          invariants = pc_invariants (ep_contract request);
          covered_rules = covered_ids ''rule'' evidence;
          covered_invariants = covered_ids ''invariant'' evidence;
          missing_rules = sort (filter (\<lambda>rid. rid \<notin> set covered_rules) (map r_rule_id rules));
          missing_invariants =
            sort (filter (\<lambda>iid. iid \<notin> set covered_invariants) (map i_invariant_id invariants))
      in rbind (traverse coverage_entry (sort_key fst evidence)) (\<lambda>entries.
         validated coverage_snapshot_checks
           \<lparr>cs_total_rules = int (length rules),
            cs_covered_rules = int (length covered_rules),
            cs_total_invariants = int (length invariants),
            cs_covered_invariants = int (length covered_invariants),
            cs_total_predicate_branches = 2 * int (sum_list (map (\<lambda>r. length (r_when r)) rules)),
            cs_covered_predicate_branches =
              int (length (filter (\<lambda>e. fst (fst e) = ''predicate_branch'') evidence)),
            cs_evidence = entries,
            cs_missing_rule_ids = missing_rules,
            cs_missing_invariant_ids = missing_invariants,
            cs_targeted_cycles = 0,
            cs_status = (if missing_rules = [] \<and> missing_invariants = []
                         then CoverageSatisfied else CoveragePending)\<rparr>))"

subsection \<open>The engine\<close>

definition report_digest ::
  "(string \<Rightarrow> sha256) \<Rightarrow> input_hashes \<Rightarrow> scenario_evaluation list \<Rightarrow> coverage_snapshot \<Rightarrow> sha256 result" where
  "report_digest sha inputs results coverage =
     canonical_sha256 sha (PMap
       [(Some ''inputs'', input_hashes_obj inputs), (Some ''results'', seq_obj evaluation_obj results),
        (Some ''coverage'', coverage_obj coverage), (Some ''engine_version'', PStr engine_version)])"

definition evaluate :: "(string \<Rightarrow> sha256) \<Rightarrow> evaluate_policy_request \<Rightarrow> evaluation_report result" where
  "evaluate sha request =
     rbind (validate_rule_set (ep_policy request)) (\<lambda>_.
     rbind (validated policy_contract_checks (ep_contract request)) (\<lambda>_.
     rbind (validate_evaluation_anchors sha request) (\<lambda>_.
     rbind (traverse (evaluate_scenario sha (ep_policy request) (ep_contract request))
              (sort_key sc_scenario_id (ss_scenarios (ep_suite request)))) (\<lambda>results.
     rbind (traverse (result_evidence request) results) (\<lambda>events.
     rbind (coverage_of request (fold add_evidence (concat events) [])) (\<lambda>coverage.
     rbind (report_digest sha (ep_inputs request) results coverage) (\<lambda>digest.
       validated evaluation_report_checks
         \<lparr>er_report_id = ''evaluation-'' @ digest, er_inputs = ep_inputs request,
          er_engine_version = engine_version, er_results = results, er_coverage = coverage\<rparr>)))))))"

end
