(* ===== verification/Engine_Meaning.thy ===== *)
theory Engine_Meaning
  imports Engine
begin

section \<open>What evaluation of a scenario computes\<close>

text \<open>
  On a valid policy, contract and scenario the exception handling of \<open>evaluate_scenario\<close> collapses:
  the result is \<open>expected_evaluation\<close>, a function of the meaning of conditions, of the resolution
  of each dimension and of the demands of the assertions, unless a frozen assertion and a matched
  invariant's assertion share an identifier and differ, when it is the error report.
\<close>

subsection \<open>Assertions in force\<close>

definition invariants_in_force :: "policy_contract \<Rightarrow> scenario_facts \<Rightarrow> invariant list" where
  "invariants_in_force contract facts =
     filter (\<lambda>i. all_hold (i_when i) facts) (pc_invariants contract)"

definition contended :: "policy_contract \<Rightarrow> scenario \<Rightarrow> bool" where
  "contended contract s \<longleftrightarrow>
     (\<exists>a \<in> set (sc_assertions s). \<exists>i \<in> set (invariants_in_force contract (sc_facts s)).
        a_assertion_id a = a_assertion_id (i_assertion i) \<and> a \<noteq> i_assertion i)"

definition assertions_in_force :: "policy_contract \<Rightarrow> scenario \<Rightarrow> assertion list" where
  "assertions_in_force contract s =
     sort_key a_assertion_id
       (remdups (sc_assertions s @ map i_assertion (invariants_in_force contract (sc_facts s))))"

lemma matched_invariants_eq:
  assumes "valid_contract contract" and "valid_facts facts"
  shows "matched_invariants contract facts = Inr (invariants_in_force contract facts)"
proof -
  have "conditions_match (i_when i) facts = Inr (all_hold (i_when i) facts)"
    if "i \<in> set (pc_invariants contract)" for i
    using valid_invariant_predicates [OF valid_contract_invariants [OF assms(1) that]] assms(2)
    by (intro conditions_match_holds) (auto simp: list_all_iff)
  then show ?thesis
    unfolding matched_invariants_def invariants_in_force_def by (rule rfilter_eq_filter)
qed

text \<open>A dictionary of assertions keyed by their own identifiers.\<close>

definition indexed :: "assertion list \<Rightarrow> (ident \<times> assertion) list" where
  "indexed xs = map (\<lambda>a. (a_assertion_id a, a)) xs"

lemma indexed_lookup:
  assumes "inj_on a_assertion_id (set xs)" and "a_assertion_id b = a_assertion_id a" and "b \<in> set xs"
  shows "map_of (indexed xs) (a_assertion_id a) = Some b"
  using assms(1,3)
proof (induction xs)
  case (Cons x xs)
  show ?case
  proof (cases "x = b")
    case True
    then show ?thesis using assms(2) by (simp add: indexed_def)
  next
    case False
    then have "a_assertion_id x \<noteq> a_assertion_id a"
      using Cons.prems assms(2) by (metis inj_onD list.set_intros(1))
    then show ?thesis using Cons False by (simp add: indexed_def)
  qed
qed simp

lemma indexed_lookup_None:
  "a_assertion_id a \<notin> a_assertion_id ` set xs \<Longrightarrow> map_of (indexed xs) (a_assertion_id a) = None"
  by (auto simp: map_of_eq_None_iff indexed_def)

lemma update_same: "map_of d k = Some v \<Longrightarrow> AList.update k v d = d"
  by (induction d) (auto split: if_splits)

lemma add_invariant_assertion_step:
  assumes "inj_on a_assertion_id (insert (i_assertion i) (set xs))" and "distinct xs"
  shows "\<exists>ys. add_invariant_assertion i (indexed xs) = Inr (indexed ys) \<and> distinct ys
    \<and> set ys = insert (i_assertion i) (set xs)"
proof (cases "i_assertion i \<in> set xs")
  case True
  then have "map_of (indexed xs) (a_assertion_id (i_assertion i)) = Some (i_assertion i)"
    using assms(1) by (intro indexed_lookup) (auto simp: insert_absorb)
  then have "add_invariant_assertion i (indexed xs) = Inr (indexed xs)"
    by (simp add: add_invariant_assertion_def Let_def update_same)
  then show ?thesis using True assms(2) by (intro exI [of _ xs]) (simp add: insert_absorb)
next
  case False
  then have new: "a_assertion_id (i_assertion i) \<notin> a_assertion_id ` set xs"
    using assms(1) by (auto simp: inj_on_def)
  then have "AList.update (a_assertion_id (i_assertion i)) (i_assertion i) (indexed xs) =
      indexed (xs @ [i_assertion i])"
    by (subst update_new) (auto simp: indexed_def image_image)
  then have "add_invariant_assertion i (indexed xs) = Inr (indexed (xs @ [i_assertion i]))"
    by (simp add: add_invariant_assertion_def Let_def indexed_lookup_None [OF new])
  then show ?thesis
    using False assms(2) by (intro exI [of _ "xs @ [i_assertion i]"]) simp
qed

lemma add_invariant_assertions:
  assumes "inj_on a_assertion_id (set xs \<union> i_assertion ` set is)" and "distinct xs"
  shows "\<exists>ys. rfold add_invariant_assertion is (indexed xs) = Inr (indexed ys) \<and> distinct ys
    \<and> set ys = set xs \<union> i_assertion ` set is"
  using assms
proof (induction "is" arbitrary: xs)
  case (Cons i "is")
  have "inj_on a_assertion_id (insert (i_assertion i) (set xs))"
    by (rule inj_on_subset [OF Cons.prems(1)]) auto
  then obtain ys where ys: "add_invariant_assertion i (indexed xs) = Inr (indexed ys)" "distinct ys"
    "set ys = insert (i_assertion i) (set xs)"
    using add_invariant_assertion_step Cons.prems(2) by blast
  have "inj_on a_assertion_id (set ys \<union> i_assertion ` set is)"
    by (rule inj_on_subset [OF Cons.prems(1)]) (auto simp: ys(3))
  from Cons.IH [OF this ys(2)] ys show ?case by auto
qed auto

lemma add_invariant_assertions_clash:
  assumes "inj_on a_assertion_id (set xs)" and "distinct xs" and "b \<in> set xs" and "i \<in> set is"
    and "a_assertion_id b = a_assertion_id (i_assertion i)" and "b \<noteq> i_assertion i"
  shows "\<exists>msg. rfold add_invariant_assertion is (indexed xs) = Inl (ValueError msg)"
  using assms
proof (induction "is" arbitrary: xs)
  case (Cons j "is")
  show ?case
  proof (cases "\<exists>c \<in> set xs. a_assertion_id c = a_assertion_id (i_assertion j) \<and> c \<noteq> i_assertion j")
    case True
    then obtain c where c: "c \<in> set xs" "a_assertion_id c = a_assertion_id (i_assertion j)"
      "c \<noteq> i_assertion j" by blast
    then have "map_of (indexed xs) (a_assertion_id (i_assertion j)) = Some c"
      using Cons.prems(1) by (intro indexed_lookup) auto
    then show ?thesis using c(3) by (simp add: add_invariant_assertion_def Let_def)
  next
    case False
    then have inj: "inj_on a_assertion_id (insert (i_assertion j) (set xs))"
      using Cons.prems(1) unfolding inj_on_insert by auto
    then obtain ys where ys: "add_invariant_assertion j (indexed xs) = Inr (indexed ys)" "distinct ys"
      "set ys = insert (i_assertion j) (set xs)"
      using add_invariant_assertion_step Cons.prems(2) by blast
    have "i \<noteq> j" using False Cons.prems(3,5,6) by blast
    then have "i \<in> set is" using Cons.prems(4) by simp
    then have "\<exists>msg. rfold add_invariant_assertion is (indexed ys) = Inl (ValueError msg)"
      using Cons.IH [OF _ ys(2)] inj ys(3) Cons.prems by auto
    then show ?thesis using ys(1) by simp
  qed
qed simp

lemma valid_scenario_distinct: "valid_scenario s \<Longrightarrow> distinct (map a_assertion_id (sc_assertions s))"
  by (simp add: valid_by_def scenario_checks_def independent_assertions_checks_def)

lemma indexed_scenario:
  "valid_scenario s \<Longrightarrow> dict_by a_assertion_id (sc_assertions s) = indexed (sc_assertions s)"
  by (simp add: dict_by_distinct valid_scenario_distinct indexed_def)

lemma invariant_assertions_inj:
  assumes "valid_contract contract"
  shows "inj_on a_assertion_id (i_assertion ` set (invariants_in_force contract facts))"
proof -
  have "inj_on (\<lambda>i. a_assertion_id (i_assertion i)) (set (pc_invariants contract))"
    using valid_contract_distinct(2) [OF assms] by (simp add: distinct_map)
  then show ?thesis
    unfolding invariants_in_force_def inj_on_def by auto
qed

lemma uncontended_inj:
  assumes "valid_contract contract" and "valid_scenario s" and "\<not> contended contract s"
  shows "inj_on a_assertion_id (set (sc_assertions s)
    \<union> i_assertion ` set (invariants_in_force contract (sc_facts s)))"
proof (intro inj_onI)
  let ?is = "invariants_in_force contract (sc_facts s)" and ?xs = "sc_assertions s"
  fix a b assume ab: "a \<in> set ?xs \<union> i_assertion ` set ?is" "b \<in> set ?xs \<union> i_assertion ` set ?is"
    "a_assertion_id a = a_assertion_id b"
  have inj: "inj_on a_assertion_id (set ?xs)"
    using valid_scenario_distinct [OF assms(2)] by (simp add: distinct_map)
  have cross: "x = i_assertion i" if "x \<in> set ?xs" "i \<in> set ?is"
    "a_assertion_id x = a_assertion_id (i_assertion i)" for x i
    using assms(3) that unfolding contended_def by blast
  consider "a \<in> set ?xs" "b \<in> set ?xs" | i where "a \<in> set ?xs" "i \<in> set ?is" "b = i_assertion i"
    | i where "i \<in> set ?is" "a = i_assertion i" "b \<in> set ?xs"
    | "a \<in> i_assertion ` set ?is" "b \<in> i_assertion ` set ?is"
    using ab(1,2) by blast
  then show "a = b"
  proof cases
    case 1
    then show ?thesis using ab(3) inj by (simp add: inj_onD)
  next
    case 2
    then show ?thesis using cross [of a] ab(3) by simp
  next
    case (3 i)
    then show ?thesis using cross [of b i] ab(3) by simp
  next
    case 4
    then show ?thesis
      using ab(3) invariant_assertions_inj [OF assms(1), of "sc_facts s"] by (simp add: inj_onD)
  qed
qed

lemma assertions_in_force_distinct:
  assumes "valid_contract contract" and "valid_scenario s" and "\<not> contended contract s"
  shows "distinct (map a_assertion_id (assertions_in_force contract s))"
  using uncontended_inj [OF assms] by (simp add: assertions_in_force_def distinct_map)

lemma scenario_assertions_eq:
  assumes "valid_contract contract" and "valid_scenario s"
  shows "if contended contract s then \<exists>msg. scenario_assertions contract s = Inl (ValueError msg)
    else scenario_assertions contract s = Inr (assertions_in_force contract s)"
proof -
  let ?is = "invariants_in_force contract (sc_facts s)" and ?xs = "sc_assertions s"
  note matched = matched_invariants_eq [OF assms(1) valid_scenario_facts [OF assms(2)]]
  have inj: "inj_on a_assertion_id (set ?xs)" and dist: "distinct ?xs"
    using valid_scenario_distinct [OF assms(2)] by (simp_all add: distinct_map)
  show ?thesis
  proof (cases "contended contract s")
    case True
    then obtain b i where "b \<in> set ?xs" "i \<in> set ?is"
      "a_assertion_id b = a_assertion_id (i_assertion i)" "b \<noteq> i_assertion i"
      unfolding contended_def by blast
    from add_invariant_assertions_clash [OF inj dist this]
    obtain msg where "rfold add_invariant_assertion ?is (indexed ?xs) = Inl (ValueError msg)" by blast
    then show ?thesis
      using True by (simp add: scenario_assertions_def matched indexed_scenario [OF assms(2)])
  next
    case False
    note all_inj = uncontended_inj [OF assms False]
    obtain ys where ys: "rfold add_invariant_assertion ?is (indexed ?xs) = Inr (indexed ys)"
      "distinct ys" "set ys = set ?xs \<union> i_assertion ` set ?is"
      using add_invariant_assertions [OF all_inj dist] by blast
    have "map snd (sort_key fst (indexed ys)) = sort_key a_assertion_id ys"
      unfolding indexed_def by (subst sort_key_of_map) (simp add: comp_def)
    also have "\<dots> = assertions_in_force contract s"
      unfolding assertions_in_force_def
      using ys all_inj by (intro sort_key_set_eq) auto
    finally show ?thesis
      using False ys(1) by (simp add: scenario_assertions_def matched indexed_scenario [OF assms(2)])
  qed
qed

subsection \<open>The expected evaluation\<close>

definition required_dimensions :: "policy_contract \<Rightarrow> scenario \<Rightarrow> effect_dimension set" where
  "required_dimensions contract s =
     scenario_required_dimensions s contract
       (i_invariant_id ` set (invariants_in_force contract (sc_facts s)))"

definition expected_dimension ::
  "policy_ir \<Rightarrow> policy_contract \<Rightarrow> scenario \<Rightarrow> effect_dimension \<Rightarrow> dimension_result" where
  "expected_dimension policy contract s d =
     resolution policy (sc_facts s) d (required_dimensions contract s)"

definition expected_compliance :: "scenario_facts \<Rightarrow> dimension_result \<Rightarrow> compliance_result" where
  "expected_compliance facts r =
     \<lparr>cr_dimension = dr_dimension r,
      cr_status = (case dr_status r of
          EValue \<Rightarrow> if meets (dr_dimension r) (the (dr_value r)) facts then Compliant else Noncompliant
        | EError \<Rightarrow> CError
        | ENotApplicable \<Rightarrow> CNotApplicable
        | _ \<Rightarrow> CInconclusive)\<rparr>"

definition observed :: "scenario_facts \<Rightarrow> assertion \<Rightarrow> dimension_result \<Rightarrow> assertion_value" where
  "observed facts a r =
     (if a_target_kind a = ComplianceTarget then
        (if meets (a_dimension a) (the (dr_value r)) facts then IsCompliant else IsNoncompliant)
      else OfEffect (the (dr_value r)))"

definition expected_assertion :: "scenario_facts \<Rightarrow> dimension_result \<Rightarrow> assertion \<Rightarrow> assertion_result" where
  "expected_assertion facts r a =
     (if dr_status r \<noteq> EValue then
        \<lparr>ar_assertion_id = a_assertion_id a, ar_status = AInconclusive, ar_actual_value = None\<rparr>
      else
        \<lparr>ar_assertion_id = a_assertion_id a,
         ar_status = (if satisfies a (observed facts a r) then APass else AFail),
         ar_actual_value = Some (observed facts a r)\<rparr>)"

definition provenance_hash :: "(string \<Rightarrow> sha256) \<Rightarrow> rule_provenance \<Rightarrow> sha256" where
  "provenance_hash sha p = sha (canonical_bytes (norm (provenance_obj p)))"

definition expected_trace ::
  "(string \<Rightarrow> sha256) \<Rightarrow> policy_ir \<Rightarrow> policy_contract \<Rightarrow> scenario \<Rightarrow> evaluation_trace" where
  "expected_trace sha policy contract s =
     (let rules = sort_key r_rule_id (pi_rules policy);
          fired = filter (\<lambda>r. all_hold (r_when r) (sc_facts s));
          dimensions = map (expected_dimension policy contract s) effect_dimensions;
          trace = \<lparr>et_scenario_id = sc_scenario_id s,
            et_fired_rule_ids = map r_rule_id (fired rules),
            et_predicate_results = concat (map (\<lambda>r. map (\<lambda>(index, p).
               \<lparr>pr_rule_id = r_rule_id r, pr_predicate_index = int index,
                pr_matched = holds p (sc_facts s)\<rparr>) (enumerate 0 (r_when r))) rules),
            et_resolved_effects = dimensions,
            et_compliance_values = map (expected_compliance (sc_facts s))
               (filter (\<lambda>d. dr_dimension d \<noteq> Eligibility) dimensions),
            et_source_citations = map (snd \<circ> snd) (sort_key fst
               (dict_by fst (map (\<lambda>r. (provenance_hash sha (r_provenance r), r_provenance r))
                 (fired (pi_rules policy))))),
            et_trace_sha256 = zero_sha256\<rparr>
      in trace\<lparr>et_trace_sha256 := sha (canonical_bytes (view False (trace_obj trace)))\<rparr>)"

definition expected_results :: "policy_ir \<Rightarrow> policy_contract \<Rightarrow> scenario \<Rightarrow> assertion_result list" where
  "expected_results policy contract s =
     map (\<lambda>a. expected_assertion (sc_facts s) (expected_dimension policy contract s (a_dimension a)) a)
       (assertions_in_force contract s)"

definition expected_evaluation ::
  "(string \<Rightarrow> sha256) \<Rightarrow> policy_ir \<Rightarrow> policy_contract \<Rightarrow> scenario \<Rightarrow> scenario_evaluation" where
  "expected_evaluation sha policy contract s =
     \<lparr>se_scenario_id = sc_scenario_id s, se_trace = expected_trace sha policy contract s,
      se_assertion_results = expected_results policy contract s,
      se_verdict = verdict_of (expected_results policy contract s), se_error = None\<rparr>"

subsection \<open>Each stage\<close>

lemma valid_rule_list: "valid_rule r \<Longrightarrow> list_all valid_predicate (r_when r)"
  by (auto simp: list_all_iff dest: valid_rule_predicates)

definition rule_trace_of :: "scenario_facts \<Rightarrow> rule \<Rightarrow> rule_trace" where
  "rule_trace_of facts r =
     \<lparr>rt_rule_id = r_rule_id r, rt_matched = all_hold (r_when r) facts,
      rt_predicates = map (\<lambda>p. \<lparr>pt_matched = holds p facts\<rparr>) (r_when r)\<rparr>"

lemma traces_stage:
  assumes "valid_policy_ir policy" and "valid_facts facts"
  shows "traverse (\<lambda>r. rule_matches r facts) (sort_key r_rule_id (pi_rules policy)) =
      Inr (map (rule_trace_of facts) (sort_key r_rule_id (pi_rules policy)))"
    and "traces_of (pi_rules policy) facts
      (map (rule_trace_of facts) (sort_key r_rule_id (pi_rules policy)))"
proof -
  show "traverse (\<lambda>r. rule_matches r facts) (sort_key r_rule_id (pi_rules policy)) =
      Inr (map (rule_trace_of facts) (sort_key r_rule_id (pi_rules policy)))"
  proof (rule traverse_eq_map)
    fix r assume "r \<in> set (sort_key r_rule_id (pi_rules policy))"
    then have "valid_rule r" using valid_policy_rules [OF assms(1)] by simp
    then show "rule_matches r facts = Inr (rule_trace_of facts r)"
      using rule_matches_holds [OF valid_rule_list assms(2)] by (simp add: rule_trace_of_def)
  qed
  show "traces_of (pi_rules policy) facts
      (map (rule_trace_of facts) (sort_key r_rule_id (pi_rules policy)))"
    by (force simp: traces_of_def rule_trace_of_def)
qed

lemma dimensions_stage:
  assumes "valid_policy_ir policy" and "valid_scenario s"
  shows "traverse (\<lambda>d. resolve_dimension policy s d (required_dimensions contract s)
      (map (rule_trace_of (sc_facts s)) (sort_key r_rule_id (pi_rules policy)))) effect_dimensions =
    Inr (map (expected_dimension policy contract s) effect_dimensions)"
  using resolve_dimension_resolution [OF assms(1) valid_scenario_facts [OF assms(2)]
      traces_stage(2) [OF assms(1) valid_scenario_facts [OF assms(2)]]]
  by (intro traverse_eq_map) (simp add: expected_dimension_def)

lemma resolution_dimension [simp]: "dr_dimension (resolution policy facts d required) = d"
  by (simp add: resolution_def Let_def)

lemma resolution_value:
  assumes "valid_policy_ir policy"
  shows "dr_status (resolution policy facts d required) = EValue \<Longrightarrow>
      \<exists>v. dr_value (resolution policy facts d required) = Some v \<and> effect_value_fits d v"
    and "dr_status (resolution policy facts d required) \<noteq> EError"
proof -
  show "dr_status (resolution policy facts d required) \<noteq> EError"
    by (simp add: resolution_def Let_def)
  assume is_value: "dr_status (resolution policy facts d required) = EValue"
  have "list_all fst (dimension_result_checks (resolution policy facts d required))"
    using resolution_valid [OF assms] by (simp add: valid_by_def)
  then show "\<exists>v. dr_value (resolution policy facts d required) = Some v \<and> effect_value_fits d v"
    using is_value by (auto simp: dimension_result_checks_def validate_effect_value_def split: option.splits)
qed

lemma compliance_stage:
  assumes "valid_policy_ir policy" and "valid_facts facts" and "d \<noteq> Eligibility"
  shows "compliance_for facts (resolution policy facts' d required) =
    Inr (expected_compliance facts (resolution policy facts' d required))"
  using resolution_value [OF assms(1), of facts' d required] assms(2,3)
  by (cases "dr_status (resolution policy facts' d required)")
    (auto simp: compliance_for_def expected_compliance_def derive_compliance_meets valid_by_def
      compliance_result_checks_def)

lemma find_dimension:
  "find (\<lambda>x. dr_dimension x = d) (map (expected_dimension policy contract s) effect_dimensions) =
     Some (expected_dimension policy contract s d)"
  by (cases d) (simp_all add: effect_dimensions_def expected_dimension_def)

lemma find_compliance:
  "d \<noteq> Eligibility \<Longrightarrow>
   find (\<lambda>c. cr_dimension c = d) (map (expected_compliance facts)
     (filter (\<lambda>x. dr_dimension x \<noteq> Eligibility) (map (expected_dimension policy contract s) effect_dimensions))) =
   Some (expected_compliance facts (expected_dimension policy contract s d))"
  by (cases d) (simp_all add: effect_dimensions_def expected_dimension_def expected_compliance_def)

lemma valid_assertion_compliance:
  assumes "valid_assertion a" and "a_target_kind a = ComplianceTarget"
  shows "a_dimension a \<noteq> Eligibility"
  using valid_assertion_typed [OF assms(1)] assms(2) by (simp add: typed_assertion_checks_def)

lemma assertion_stage:
  fixes s contract
  assumes "valid_policy_ir policy" and "valid_assertion a"
  defines "dims \<equiv> map (expected_dimension policy contract s) effect_dimensions"
  shows "evaluate_assertion a dims
      (map (expected_compliance (sc_facts s)) (filter (\<lambda>x. dr_dimension x \<noteq> Eligibility) dims)) =
    Inr (expected_assertion (sc_facts s) (expected_dimension policy contract s (a_dimension a)) a)"
proof -
  let ?r = "expected_dimension policy contract s (a_dimension a)"
  let ?comps = "map (expected_compliance (sc_facts s)) (filter (\<lambda>x. dr_dimension x \<noteq> Eligibility) dims)"
  have aid: "identifier_ok (a_assertion_id a)" using valid_assertion_typed [OF assms(2)] by simp
  have fd: "find (\<lambda>x. dr_dimension x = a_dimension a) dims = Some ?r"
    unfolding dims_def by (rule find_dimension)
  have dim: "dr_dimension ?r = a_dimension a" by (simp add: expected_dimension_def)
  have noerr: "dr_status ?r \<noteq> EError"
    using resolution_value(2) [OF assms(1)] by (simp add: expected_dimension_def)
  show ?thesis
  proof (cases "dr_status ?r = EValue")
    case False
    then show ?thesis
      by (simp add: evaluate_assertion_def fd noerr expected_assertion_def assertion_outcome_None [OF aid])
  next
    case True
    obtain v where v: "dr_value ?r = Some v" "effect_value_fits (a_dimension a) v"
      using resolution_value(1) [OF assms(1)] True unfolding expected_dimension_def by metis
    show ?thesis
    proof (cases "a_target_kind a = ComplianceTarget")
      case compliance: True
      then have fc: "find (\<lambda>c. cr_dimension c = a_dimension a) ?comps =
          Some (expected_compliance (sc_facts s) ?r)"
        unfolding dims_def by (intro find_compliance valid_assertion_compliance assms(2))
      have "observable a IsCompliant" "observable a IsNoncompliant"
        using compliance by (simp_all add: observable_def)
      then show ?thesis
        using compliance True v score_assertion_satisfies [OF assms(2)]
        by (simp add: evaluate_assertion_def fd fc expected_compliance_def expected_assertion_def
            observed_def dim)
    next
      case effect: False
      then have "observable a (OfEffect v)" using v(2) by (simp add: observable_def)
      then show ?thesis
        using effect True v score_assertion_satisfies [OF assms(2)]
        by (simp add: evaluate_assertion_def fd expected_assertion_def observed_def)
    qed
  qed
qed

lemma traverse_validated:
  "list_all (valid_by checks) xs \<Longrightarrow> traverse (validated checks) xs = Inr xs"
  using traverse_eq_map [of xs "validated checks" "\<lambda>x. x"] by (simp add: list_all_iff)

lemma expected_dimension_valid:
  "valid_policy_ir policy \<Longrightarrow> valid_dimension_result (expected_dimension policy contract s d)"
  by (simp add: expected_dimension_def resolution_valid)

lemma enumerate_map: "enumerate n (map f xs) = map (\<lambda>(i, x). (i, f x)) (enumerate n xs)"
  by (induction xs arbitrary: n) auto

lemma predicates_stage:
  assumes "valid_policy_ir policy"
  shows "predicate_results (map (rule_trace_of facts) (sort_key r_rule_id (pi_rules policy))) =
    Inr (concat (map (\<lambda>r. map (\<lambda>(index, p).
       \<lparr>pr_rule_id = r_rule_id r, pr_predicate_index = int index, pr_matched = holds p facts\<rparr>)
       (enumerate 0 (r_when r))) (sort_key r_rule_id (pi_rules policy))))" (is "_ = Inr ?ps")
    and "list_all (valid_by predicate_result_checks) (concat (map (\<lambda>r. map (\<lambda>(index, p).
       \<lparr>pr_rule_id = r_rule_id r, pr_predicate_index = int index, pr_matched = holds p facts\<rparr>)
       (enumerate 0 (r_when r))) (sort_key r_rule_id (pi_rules policy))))"
proof -
  have "identifier_ok (r_rule_id r)" if "r \<in> set (pi_rules policy)" for r
    using valid_policy_rules [OF assms that] by (simp add: valid_by_def rule_checks_def)
  then show valid: "list_all (valid_by predicate_result_checks) ?ps"
    by (auto simp: list_all_iff valid_by_def predicate_result_checks_def non_negative_def)
  have "concat (map (\<lambda>t. map (\<lambda>(index, p).
          \<lparr>pr_rule_id = rt_rule_id t, pr_predicate_index = int index, pr_matched = pt_matched p\<rparr>)
          (enumerate 0 (rt_predicates t)))
        (map (rule_trace_of facts) (sort_key r_rule_id (pi_rules policy)))) = ?ps"
    by (simp add: rule_trace_of_def comp_def enumerate_map case_prod_unfold)
  then show "predicate_results (map (rule_trace_of facts) (sort_key r_rule_id (pi_rules policy))) = Inr ?ps"
    using traverse_validated [OF valid] by (simp add: predicate_results_def)
qed

lemma fired_ids:
  "map rt_rule_id (filter rt_matched (map (rule_trace_of facts) rs)) =
   map r_rule_id (filter (\<lambda>r. all_hold (r_when r) facts) rs)"
  by (induction rs) (simp_all add: rule_trace_of_def)

lemma citations_stage:
  assumes "valid_policy_ir policy"
  shows "source_citations sha (pi_rules policy)
      (map r_rule_id (filter (\<lambda>r. all_hold (r_when r) facts) (sort_key r_rule_id (pi_rules policy)))) =
    Inr (map (snd \<circ> snd) (sort_key fst (dict_by fst
      (map (\<lambda>r. (provenance_hash sha (r_provenance r), r_provenance r))
        (filter (\<lambda>r. all_hold (r_when r) facts) (pi_rules policy))))))"
proof -
  have inj: "inj_on r_rule_id (set (pi_rules policy))"
    using valid_policy_distinct [OF assms] by (simp add: distinct_map)
  have "filter (\<lambda>r. r_rule_id r \<in> set (map r_rule_id
          (filter (\<lambda>r. all_hold (r_when r) facts) (sort_key r_rule_id (pi_rules policy))))) (pi_rules policy) =
      filter (\<lambda>r. all_hold (r_when r) facts) (pi_rules policy)"
    using inj by (intro filter_cong) (auto dest: inj_onD)
  moreover have "traverse (\<lambda>r. rbind (canonical_sha256 sha (provenance_obj (r_provenance r)))
      (\<lambda>h. Inr (h, r_provenance r))) rs =
      Inr (map (\<lambda>r. (provenance_hash sha (r_provenance r), r_provenance r)) rs)" for rs :: "rule list"
    by (rule traverse_eq_map) (simp add: canonical_sha256_norm provenance_hash_def)
  ultimately show ?thesis by (simp add: source_citations_def)
qed

lemma set_dict_values: "set (map (snd \<circ> snd) (sort_key fst (dict_by fst ps))) \<subseteq> snd ` set ps"
proof
  fix x assume "x \<in> set (map (snd \<circ> snd) (sort_key fst (dict_by fst ps)))"
  then obtain k v where kv: "(k, v) \<in> set (dict_by fst ps)" "x = snd v" by auto
  have "distinct (map fst (dict_by fst ps))" using distinct_keys_dict_by unfolding keys_def .
  then have "map_of (dict_by fst ps) k = Some v" using kv(1) by (rule map_of_is_SomeI)
  then show "x \<in> snd ` set ps" using kv(2) map_of_dict_by_SomeD by fastforce
qed

lemma valid_rule_provenance: "valid_rule r \<Longrightarrow> valid_by provenance_checks (r_provenance r)"
  by (simp add: valid_by_def rule_checks_def rule_draft_checks_def)

lemma valid_rule_id: "valid_rule r \<Longrightarrow> identifier_ok (r_rule_id r)"
  by (simp add: valid_by_def rule_checks_def)

lemma expected_compliance_valid:
  "dr_dimension r \<noteq> Eligibility \<Longrightarrow> valid_by compliance_result_checks (expected_compliance facts r)"
  by (simp add: valid_by_def compliance_result_checks_def expected_compliance_def)

lemma valid_trace_hash:
  "valid_trace t \<Longrightarrow> sha256_ok h \<Longrightarrow> valid_trace (t\<lparr>et_trace_sha256 := h\<rparr>)"
  by (simp add: valid_by_def evaluation_trace_checks_def)

lemma trace_stage:
  fixes sha policy contract s
  assumes "valid_policy_ir policy" and "valid_scenario s"
  defines "t \<equiv> (expected_trace sha policy contract s)\<lparr>et_trace_sha256 := zero_sha256\<rparr>"
  shows "seal_trace sha t = Inr (expected_trace sha policy contract s)" and "valid_trace t"
proof -
  let ?facts = "sc_facts s"
  let ?fired = "filter (\<lambda>r. all_hold (r_when r) ?facts)"
  note rules = valid_policy_rules [OF assms(1)]
  have fired: "list_all identifier_ok (map r_rule_id (?fired (sort_key r_rule_id (pi_rules policy))))"
    using rules valid_rule_id by (auto simp: list_all_iff)
  have dims: "list_all valid_dimension_result (map (expected_dimension policy contract s) effect_dimensions)"
    using expected_dimension_valid [OF assms(1)] by (simp add: list_all_iff)
  have comps: "list_all (valid_by compliance_result_checks) (map (expected_compliance ?facts)
      (filter (\<lambda>d. dr_dimension d \<noteq> Eligibility) (map (expected_dimension policy contract s) effect_dimensions)))"
    by (auto simp: list_all_iff intro: expected_compliance_valid)
  have cites: "list_all (valid_by provenance_checks) (map (snd \<circ> snd) (sort_key fst (dict_by fst
      (map (\<lambda>r. (provenance_hash sha (r_provenance r), r_provenance r)) (?fired (pi_rules policy))))))"
    using set_dict_values [of "map (\<lambda>r. (provenance_hash sha (r_provenance r), r_provenance r))
        (?fired (pi_rules policy))"] rules valid_rule_provenance
    unfolding list_all_iff by fastforce
  show valid: "valid_trace t"
    using fired dims comps cites predicates_stage(2) [OF assms(1)] valid_scenario_id [OF assms(2)]
    by (simp add: valid_by_def evaluation_trace_checks_def t_def expected_trace_def Let_def)
  have zero: "t\<lparr>et_trace_sha256 := zero_sha256\<rparr> = t" by (simp add: t_def)
  have "seal_trace sha t = Inr (t\<lparr>et_trace_sha256 := sha (canonical_bytes (view False (trace_obj t)))\<rparr>)"
    using valid by (simp add: seal_trace_def zero payload_hash_view)
  also have "t\<lparr>et_trace_sha256 := sha (canonical_bytes (view False (trace_obj t)))\<rparr> =
      expected_trace sha policy contract s"
    by (simp add: t_def expected_trace_def Let_def)
  finally show "seal_trace sha t = Inr (expected_trace sha policy contract s)" .
qed

lemma assertions_in_force_valid:
  assumes "valid_contract contract" and "valid_scenario s" and "a \<in> set (assertions_in_force contract s)"
  shows "valid_assertion a"
  using assms valid_scenario_assertions [OF assms(2)]
    valid_invariant_assertion [OF valid_contract_invariants [OF assms(1)]]
  by (auto simp: assertions_in_force_def invariants_in_force_def)

lemma expected_assertion_valid:
  assumes "valid_policy_ir policy" and "valid_assertion a"
  shows "valid_by assertion_result_checks
    (expected_assertion facts (expected_dimension policy contract s (a_dimension a)) a)"
proof (cases "dr_status (expected_dimension policy contract s (a_dimension a)) = EValue")
  case True
  then obtain v where "dr_value (expected_dimension policy contract s (a_dimension a)) = Some v"
    "effect_value_fits (a_dimension a) v"
    using resolution_value(1) [OF assms(1)] unfolding expected_dimension_def by metis
  then show ?thesis
    using True valid_assertion_typed [OF assms(2)] effect_value_fits_ok
    by (simp add: valid_by_def assertion_result_checks_def expected_assertion_def observed_def
        assertion_value_ok_def)
next
  case False
  then show ?thesis
    using valid_assertion_typed [OF assms(2)]
    by (simp add: valid_by_def assertion_result_checks_def expected_assertion_def)
qed

lemma expected_assertion_no_error: "ar_status (expected_assertion facts r a) \<noteq> AError"
  by (simp add: expected_assertion_def)

lemma verdict_checks:
  "\<not> (verdict_of rs \<in> {VPass, VFail} \<and> rs = [])"
  "\<not> (verdict_of rs = VPass \<and> list_ex (\<lambda>a. ar_status a \<noteq> APass) rs)"
  "\<not> (verdict_of rs = VFail \<and> \<not> list_ex (\<lambda>a. ar_status a = AFail) rs)"
proof -
  have "ar_status a = APass" if "verdict_of rs = VPass" "a \<in> set rs" for a
    using that by (cases "ar_status a") (force simp: verdict_of_def Let_def split: if_splits)+
  then show "\<not> (verdict_of rs = VPass \<and> list_ex (\<lambda>a. ar_status a \<noteq> APass) rs)"
    by (auto simp: list_ex_iff)
  show "\<not> (verdict_of rs \<in> {VPass, VFail} \<and> rs = [])"
    by (auto simp: verdict_of_def Let_def)
  show "\<not> (verdict_of rs = VFail \<and> \<not> list_ex (\<lambda>a. ar_status a = AFail) rs)"
    by (force simp: verdict_of_def Let_def list_ex_iff split: if_splits)
qed

lemma expected_evaluation_valid:
  assumes "valid_policy_ir policy" and "valid_contract contract" and "valid_scenario s"
    and "sha256_ok (et_trace_sha256 (expected_trace sha policy contract s))"
  shows "valid_scenario_evaluation (expected_evaluation sha policy contract s)"
proof -
  have "valid_trace (expected_trace sha policy contract s)"
    using valid_trace_hash [OF trace_stage(2) [OF assms(1,3), of sha contract] assms(4)] by simp
  moreover have "list_all (valid_by assertion_result_checks) (expected_results policy contract s)"
    using expected_assertion_valid [OF assms(1) assertions_in_force_valid [OF assms(2,3)]]
    by (auto simp: expected_results_def list_all_iff)
  moreover have "et_scenario_id (expected_trace sha policy contract s) = sc_scenario_id s"
    by (simp add: expected_trace_def Let_def)
  ultimately show ?thesis
    using valid_scenario_id [OF assms(3)] verdict_checks
    by (simp add: valid_by_def scenario_evaluation_checks_def expected_evaluation_def)
qed

lemma scored_evaluation_expected:
  assumes "valid_policy_ir policy" and "valid_contract contract" and "valid_scenario s"
    and "\<not> contended contract s"
    and "sha256_ok (et_trace_sha256 (expected_trace sha policy contract s))"
  shows "scored_evaluation sha policy contract s = Inr (expected_evaluation sha policy contract s)"
proof -
  let ?facts = "sc_facts s"
  note facts = valid_scenario_facts [OF assms(3)]
  have asserts: "scenario_assertions contract s = Inr (assertions_in_force contract s)"
    using scenario_assertions_eq [OF assms(2,3)] assms(4) by simp
  have req: "scenario_required_dimensions s contract
      (set (map i_invariant_id (invariants_in_force contract ?facts))) = required_dimensions contract s"
    by (simp add: required_dimensions_def)
  have comps: "traverse (compliance_for ?facts)
      (filter (\<lambda>d. dr_dimension d \<noteq> Eligibility) (map (expected_dimension policy contract s) effect_dimensions)) =
      Inr (map (expected_compliance ?facts) (filter (\<lambda>d. dr_dimension d \<noteq> Eligibility)
        (map (expected_dimension policy contract s) effect_dimensions)))"
    by (rule traverse_eq_map) (auto simp: expected_dimension_def intro!: compliance_stage [OF assms(1) facts])
  have results: "traverse (\<lambda>a. evaluate_assertion a (map (expected_dimension policy contract s) effect_dimensions)
      (map (expected_compliance ?facts) (filter (\<lambda>x. dr_dimension x \<noteq> Eligibility)
        (map (expected_dimension policy contract s) effect_dimensions)))) (assertions_in_force contract s) =
      Inr (expected_results policy contract s)"
    unfolding expected_results_def
    by (rule traverse_eq_map)
      (rule assertion_stage [OF assms(1) assertions_in_force_valid [OF assms(2,3)]])
  have sealed: "seal_trace sha
     \<lparr>et_scenario_id = sc_scenario_id s,
      et_fired_rule_ids = map r_rule_id (filter (\<lambda>r. all_hold (r_when r) ?facts) (sort_key r_rule_id (pi_rules policy))),
      et_predicate_results = concat (map (\<lambda>r. map (\<lambda>(index, p).
         \<lparr>pr_rule_id = r_rule_id r, pr_predicate_index = int index, pr_matched = holds p ?facts\<rparr>)
         (enumerate 0 (r_when r))) (sort_key r_rule_id (pi_rules policy))),
      et_resolved_effects = map (expected_dimension policy contract s) effect_dimensions,
      et_compliance_values = map (expected_compliance ?facts) (filter (\<lambda>d. dr_dimension d \<noteq> Eligibility)
        (map (expected_dimension policy contract s) effect_dimensions)),
      et_source_citations = map (snd \<circ> snd) (sort_key fst (dict_by fst
        (map (\<lambda>r. (provenance_hash sha (r_provenance r), r_provenance r))
          (filter (\<lambda>r. all_hold (r_when r) ?facts) (pi_rules policy))))),
      et_trace_sha256 = zero_sha256\<rparr> = Inr (expected_trace sha policy contract s)"
    using trace_stage(1) [OF assms(1,3), of sha contract] by (simp add: expected_trace_def Let_def)
  show ?thesis
    using expected_evaluation_valid [OF assms(1,2,3,5)]
    unfolding scored_evaluation_def validated_valid [OF assms(3)] rbind_simps
      matched_invariants_eq [OF assms(2) facts] asserts traces_stage(1) [OF assms(1) facts] Let_def req
      dimensions_stage [OF assms(1,3)] comps fired_ids citations_stage [OF assms(1)]
      predicates_stage(1) [OF assms(1)] sealed results
    by (simp add: expected_evaluation_def)
qed

lemma scored_evaluation_contended:
  assumes "valid_contract contract" and "valid_scenario s" and "contended contract s"
  shows "\<exists>msg. scored_evaluation sha policy contract s = Inl (ValueError msg)"
  using scenario_assertions_eq [OF assms(1,2)] assms(3)
    matched_invariants_eq [OF assms(1) valid_scenario_facts [OF assms(2)]]
  by (auto simp: scored_evaluation_def assms(2))

lemma evaluate_scenario_expected:
  assumes "valid_policy_ir policy" and "valid_contract contract" and "valid_scenario s"
    and "sha256_ok (et_trace_sha256 (expected_trace sha policy contract s))"
  shows "evaluate_scenario sha policy contract s =
    (if contended contract s then error_evaluation sha s
     else Inr (expected_evaluation sha policy contract s))"
proof (cases "contended contract s")
  case True
  then obtain msg where "scored_evaluation sha policy contract s = Inl (ValueError msg)"
    using scored_evaluation_contended [OF assms(2,3)] by blast
  then show ?thesis using True by (simp add: evaluate_scenario_def)
next
  case False
  then show ?thesis
    using scored_evaluation_expected [OF assms(1-3) False assms(4)] by (simp add: evaluate_scenario_def)
qed

end
