(* ===== verification/Engine_Report.thy ===== *)
theory Engine_Report
  imports Engine_Meaning
begin

section \<open>The evaluation report\<close>

text \<open>
  On a request whose parts are valid, whose rules are possible and whose anchors match, the engine
  returns a report that satisfies the report's own validator, one result per scenario in the order
  of identifiers, and a coverage snapshot that counts exactly the rules, invariants and predicate
  branches some uncontended scenario reaches.
\<close>

subsection \<open>Scenario outcomes\<close>

definition expected_error :: "(string \<Rightarrow> sha256) \<Rightarrow> scenario \<Rightarrow> scenario_evaluation" where
  "expected_error sha s =
     (let trace = \<lparr>et_scenario_id = sc_scenario_id s, et_fired_rule_ids = [], et_predicate_results = [],
        et_resolved_effects = map (\<lambda>d. \<lparr>dr_dimension = d, dr_status = EError, dr_value = None,
          dr_conflicting_values = [], dr_applicable_rule_ids = [], dr_overridden_rule_ids = [],
          dr_unsupported_clause_ids = []\<rparr>) effect_dimensions,
        et_compliance_values = map (\<lambda>d. \<lparr>cr_dimension = d, cr_status = CError\<rparr>)
          (filter (\<lambda>d. d \<noteq> Eligibility) effect_dimensions),
        et_source_citations = [], et_trace_sha256 = zero_sha256\<rparr>
      in \<lparr>se_scenario_id = sc_scenario_id s,
          se_trace = trace\<lparr>et_trace_sha256 := sha (canonical_bytes (view False (trace_obj trace)))\<rparr>,
          se_assertion_results = [], se_verdict = VError,
          se_error = Some \<lparr>pe_code = INVALID_INPUT,
            pe_message = ''Scenario facts or assertions are invalid.'',
            pe_error_id = None, pe_retryable = False\<rparr>\<rparr>)"

definition scenario_outcome ::
  "(string \<Rightarrow> sha256) \<Rightarrow> policy_ir \<Rightarrow> policy_contract \<Rightarrow> scenario \<Rightarrow> scenario_evaluation" where
  "scenario_outcome sha policy contract s =
     (if contended contract s then expected_error sha s else expected_evaluation sha policy contract s)"

text \<open>What the SHA-256 parameter is relied on for: 64 hexadecimal digits.\<close>

definition hex_digest :: "(string \<Rightarrow> sha256) \<Rightarrow> bool" where
  "hex_digest sha \<longleftrightarrow> (\<forall>b. sha256_ok (sha b))"

lemma hex_digestD: "hex_digest sha \<Longrightarrow> sha256_ok (sha b)"
  by (simp add: hex_digest_def)

lemma seal_trace_valid:
  assumes "valid_trace t" and "et_trace_sha256 t = zero_sha256"
  shows "seal_trace sha t = Inr (t\<lparr>et_trace_sha256 := sha (canonical_bytes (view False (trace_obj t)))\<rparr>)"
proof -
  have "t\<lparr>et_trace_sha256 := zero_sha256\<rparr> = t" using assms(2) by (cases t) simp
  then show ?thesis using assms(1) by (simp add: seal_trace_def payload_hash_view)
qed

lemma error_evaluation_expected:
  assumes "valid_scenario s" and "hex_digest sha"
  shows "error_evaluation sha s = Inr (expected_error sha s)"
    and "valid_scenario_evaluation (expected_error sha s)"
proof -
  let ?t = "\<lparr>et_scenario_id = sc_scenario_id s, et_fired_rule_ids = [], et_predicate_results = [],
    et_resolved_effects = map (\<lambda>d. \<lparr>dr_dimension = d, dr_status = EError, dr_value = None,
      dr_conflicting_values = [], dr_applicable_rule_ids = [], dr_overridden_rule_ids = [],
      dr_unsupported_clause_ids = []\<rparr>) effect_dimensions,
    et_compliance_values = map (\<lambda>d. \<lparr>cr_dimension = d, cr_status = CError\<rparr>)
      (filter (\<lambda>d. d \<noteq> Eligibility) effect_dimensions),
    et_source_citations = [], et_trace_sha256 = zero_sha256\<rparr>"
  have dims: "list_all valid_dimension_result (et_resolved_effects ?t)"
    by (simp add: list_all_iff valid_by_def dimension_result_checks_def)
  have comps: "list_all (valid_by compliance_result_checks) (et_compliance_values ?t)"
    by (auto simp: list_all_iff valid_by_def compliance_result_checks_def)
  have t: "valid_trace ?t"
    using dims comps valid_scenario_id [OF assms(1)] by (simp add: valid_by_def evaluation_trace_checks_def)
  have sealed: "seal_trace sha ?t = Inr (?t\<lparr>et_trace_sha256 := sha (canonical_bytes (view False (trace_obj ?t)))\<rparr>)"
    using t by (intro seal_trace_valid) simp_all
  have "valid_trace (se_trace (expected_error sha s))"
    using valid_trace_hash [OF t hex_digestD [OF assms(2)]] by (simp add: expected_error_def Let_def)
  then show valid: "valid_scenario_evaluation (expected_error sha s)"
    using valid_scenario_id [OF assms(1)]
    by (simp add: valid_by_def scenario_evaluation_checks_def expected_error_def Let_def
        public_error_checks_def nonempty_text_def)
  show "error_evaluation sha s = Inr (expected_error sha s)"
    using valid unfolding error_evaluation_def sealed by (simp add: expected_error_def Let_def)
qed

lemma expected_trace_hash: "hex_digest sha \<Longrightarrow> sha256_ok (et_trace_sha256 (expected_trace sha policy contract s))"
  by (simp add: expected_trace_def Let_def hex_digestD)

lemma evaluate_scenario_outcome:
  assumes "valid_policy_ir policy" and "valid_contract contract" and "valid_scenario s" and "hex_digest sha"
  shows "evaluate_scenario sha policy contract s = Inr (scenario_outcome sha policy contract s)"
    and "valid_scenario_evaluation (scenario_outcome sha policy contract s)"
  using evaluate_scenario_expected [OF assms(1-3) expected_trace_hash [OF assms(4)]]
    error_evaluation_expected [OF assms(3,4)]
    expected_evaluation_valid [OF assms(1-3) expected_trace_hash [OF assms(4)]]
  by (simp_all add: scenario_outcome_def)

lemma verdict_not_error: "(\<forall>r \<in> set rs. ar_status r \<noteq> AError) \<Longrightarrow> verdict_of rs \<noteq> VError"
  by (auto simp: verdict_of_def Let_def)

lemma scenario_outcome_verdict: "se_verdict (scenario_outcome sha policy contract s) = VError \<longleftrightarrow> contended contract s"
proof -
  have "verdict_of (expected_results policy contract s) \<noteq> VError"
    by (rule verdict_not_error) (auto simp: expected_results_def expected_assertion_no_error)
  then show ?thesis by (simp add: scenario_outcome_def expected_error_def expected_evaluation_def Let_def)
qed

lemma scenario_outcome_id [simp]: "se_scenario_id (scenario_outcome sha policy contract s) = sc_scenario_id s"
  by (simp add: scenario_outcome_def expected_error_def expected_evaluation_def Let_def)

subsection \<open>Evidence as a dictionary of lists\<close>

lemma add_evidence_keys:
  "distinct (map fst d) \<Longrightarrow>
   distinct (map fst (add_evidence ev d)) \<and> fst ` set (add_evidence ev d) = insert (fst ev) (fst ` set d)"
  by (auto simp: add_evidence_def dom_update distinct_update map_of_eq_None_iff split: option.splits)

lemma add_evidence_ids:
  assumes "\<forall>kv \<in> set d. \<forall>x \<in> set (snd kv). P x" and "P (snd ev)" and "distinct (map fst d)"
  shows "\<forall>kv \<in> set (add_evidence ev d). \<forall>x \<in> set (snd kv). P x"
proof (cases "map_of d (fst ev)")
  case None
  then show ?thesis using assms by (auto simp: add_evidence_def)
next
  case (Some ids)
  have mem: "kv \<in> set d \<or> kv = (fst ev, ids @ [snd ev])"
    if "kv \<in> set (AList.update (fst ev) (ids @ [snd ev]) d)" for kv
    using that by (induction d) (auto split: if_splits)
  have "(fst ev, ids) \<in> set d" using Some by (rule map_of_SomeD)
  then show ?thesis using assms mem Some by (fastforce simp: add_evidence_def)
qed

lemma fold_evidence:
  assumes "distinct (map fst d)"
  shows "distinct (map fst (fold add_evidence evs d))"
    and "fst ` set (fold add_evidence evs d) = fst ` set d \<union> fst ` set evs"
proof -
  have "distinct (map fst (fold add_evidence evs d))
    \<and> fst ` set (fold add_evidence evs d) = fst ` set d \<union> fst ` set evs"
    using assms
  proof (induction evs arbitrary: d)
    case (Cons ev evs)
    note step = add_evidence_keys [OF Cons.prems, of ev]
    show ?case using Cons.IH [OF conjunct1 [OF step]] conjunct2 [OF step] by simp
  qed simp
  then show "distinct (map fst (fold add_evidence evs d))"
    and "fst ` set (fold add_evidence evs d) = fst ` set d \<union> fst ` set evs" by auto
qed

lemma fold_evidence_ids:
  assumes "distinct (map fst d)" and "\<forall>kv \<in> set d. \<forall>x \<in> set (snd kv). P x"
    and "\<forall>ev \<in> set evs. P (snd ev)"
  shows "\<forall>kv \<in> set (fold add_evidence evs d). \<forall>x \<in> set (snd kv). P x"
  using assms
proof (induction evs arbitrary: d)
  case (Cons ev evs)
  have "P (snd ev)" and rest: "\<forall>ev \<in> set evs. P (snd ev)" using Cons.prems(3) by simp_all
  then have "\<forall>kv \<in> set (add_evidence ev d). \<forall>x \<in> set (snd kv). P x"
    using Cons.prems(1,2) by (intro add_evidence_ids)
  from Cons.IH [OF conjunct1 [OF add_evidence_keys [OF Cons.prems(1)]] this rest]
  show ?case by simp
qed simp

subsection \<open>Evidence of the scenarios\<close>

definition scenario_evidence ::
  "policy_ir \<Rightarrow> policy_contract \<Rightarrow> scenario \<Rightarrow> (evidence_key \<times> ident) list" where
  "scenario_evidence policy contract s =
     (if contended contract s then []
      else
        map (\<lambda>rid. ((''rule'', rid, None, None), sc_scenario_id s))
          (et_fired_rule_ids (expected_trace (\<lambda>_. zero_sha256) policy contract s))
        @ map (\<lambda>p. ((''predicate_branch'', pr_rule_id p, Some (pr_predicate_index p), Some (pr_matched p)),
                     sc_scenario_id s))
          (et_predicate_results (expected_trace (\<lambda>_. zero_sha256) policy contract s))
        @ map (\<lambda>i. ((''invariant'', i_invariant_id i, None, None), sc_scenario_id s))
          (invariants_in_force contract (sc_facts s)))"

lemma expected_trace_fields:
  "et_fired_rule_ids (expected_trace sha policy contract s) =
     map r_rule_id (filter (\<lambda>r. all_hold (r_when r) (sc_facts s)) (sort_key r_rule_id (pi_rules policy)))"
  "et_predicate_results (expected_trace sha policy contract s) =
     concat (map (\<lambda>r. map (\<lambda>(index, p). \<lparr>pr_rule_id = r_rule_id r, pr_predicate_index = int index,
       pr_matched = holds p (sc_facts s)\<rparr>) (enumerate 0 (r_when r))) (sort_key r_rule_id (pi_rules policy)))"
  "et_resolved_effects (expected_trace sha policy contract s) =
     map (expected_dimension policy contract s) effect_dimensions"
  "et_scenario_id (expected_trace sha policy contract s) = sc_scenario_id s"
  by (simp_all add: expected_trace_def Let_def)

lemma find_first_scenario:
  assumes "valid_suite suite" and "s \<in> set (ss_scenarios suite)"
  shows "find_first (\<lambda>x. sc_scenario_id x = sc_scenario_id s) (ss_scenarios suite) = Inr s"
proof -
  obtain x where x: "find_first (\<lambda>x. sc_scenario_id x = sc_scenario_id s) (ss_scenarios suite) = Inr x"
    using find_first_ex [of "ss_scenarios suite" "\<lambda>x. sc_scenario_id x = sc_scenario_id s"] assms(2) by blast
  then have "x \<in> set (ss_scenarios suite)" "sc_scenario_id x = sc_scenario_id s"
    by (auto dest: find_first_Inr)
  then have "x = s"
    using valid_suite_distinct [OF assms(1)] assms(2) unfolding distinct_map by (metis inj_onD)
  with x show ?thesis by simp
qed

lemma result_evidence_eq:
  assumes "valid_policy_ir (ep_policy request)" and "valid_contract (ep_contract request)"
    and "valid_suite (ep_suite request)" and "s \<in> set (ss_scenarios (ep_suite request))"
  shows "result_evidence request (scenario_outcome sha (ep_policy request) (ep_contract request) s) =
    Inr (scenario_evidence (ep_policy request) (ep_contract request) s)"
proof -
  note facts = valid_scenario_facts [OF valid_suite_scenarios [OF assms(3,4)]]
  show ?thesis
  proof (cases "contended (ep_contract request) s")
    case True
    then show ?thesis
      by (simp add: result_evidence_def scenario_evidence_def scenario_outcome_def expected_error_def Let_def)
  next
    case False
    have "se_verdict (expected_evaluation sha (ep_policy request) (ep_contract request) s) \<noteq> VError"
      using False scenario_outcome_verdict [of sha "ep_policy request" "ep_contract request" s]
      by (simp add: scenario_outcome_def)
    then show ?thesis
      using False find_first_scenario [OF assms(3,4)] matched_invariants_eq [OF assms(2) facts]
      by (simp add: result_evidence_def scenario_evidence_def scenario_outcome_def
          expected_evaluation_def expected_trace_fields)
  qed
qed

definition suite_evidence :: "evaluate_policy_request \<Rightarrow> (evidence_key \<times> ident list) list" where
  "suite_evidence request =
     fold add_evidence
       (concat (map (scenario_evidence (ep_policy request) (ep_contract request))
         (sort_key sc_scenario_id (ss_scenarios (ep_suite request))))) []"

subsection \<open>What is reached\<close>

definition scenarios_scored :: "evaluate_policy_request \<Rightarrow> scenario set" where
  "scenarios_scored request =
     {s \<in> set (ss_scenarios (ep_suite request)). \<not> contended (ep_contract request) s}"

definition reached_rules :: "evaluate_policy_request \<Rightarrow> ident set" where
  "reached_rules request =
     {r_rule_id r | r. r \<in> set (pi_rules (ep_policy request))
        \<and> (\<exists>s \<in> scenarios_scored request. all_hold (r_when r) (sc_facts s))}"

definition reached_invariants :: "evaluate_policy_request \<Rightarrow> ident set" where
  "reached_invariants request =
     {i_invariant_id i | i. i \<in> set (pc_invariants (ep_contract request))
        \<and> (\<exists>s \<in> scenarios_scored request. all_hold (i_when i) (sc_facts s))}"

definition reached_branches :: "evaluate_policy_request \<Rightarrow> (ident \<times> nat \<times> bool) set" where
  "reached_branches request =
     {(r_rule_id r, k, holds (r_when r ! k) (sc_facts s)) | r k s.
        r \<in> set (pi_rules (ep_policy request)) \<and> k < length (r_when r) \<and> s \<in> scenarios_scored request}"

lemma scenario_evidence_keys:
  "\<not> contended contract s \<Longrightarrow>
   fst ` set (scenario_evidence policy contract s) =
     (\<lambda>r. (''rule'', r_rule_id r, None, None)) ` {r \<in> set (pi_rules policy). all_hold (r_when r) (sc_facts s)}
     \<union> {(''predicate_branch'', r_rule_id r, Some (int k), Some (holds (r_when r ! k) (sc_facts s))) | r k.
          r \<in> set (pi_rules policy) \<and> k < length (r_when r)}
     \<union> (\<lambda>i. (''invariant'', i_invariant_id i, None, None)) ` set (invariants_in_force contract (sc_facts s))"
proof -
  assume free: "\<not> contended contract s"
  have "(\<lambda>p. (''predicate_branch'', pr_rule_id p, Some (pr_predicate_index p), Some (pr_matched p))) `
      set (et_predicate_results (expected_trace (\<lambda>_. zero_sha256) policy contract s)) =
    {(''predicate_branch'', r_rule_id r, Some (int k), Some (holds (r_when r ! k) (sc_facts s))) | r k.
       r \<in> set (pi_rules policy) \<and> k < length (r_when r)}"
    unfolding expected_trace_fields
    by (force simp: in_set_enumerate_eq image_iff Bex_def)
  then show ?thesis
    using free by (auto simp: scenario_evidence_def expected_trace_fields image_Un image_image)
qed

lemma UN_cong_filtered:
  "(\<And>x. x \<in> A \<Longrightarrow> \<not> P x \<Longrightarrow> f x = {}) \<Longrightarrow> (\<Union>x \<in> A. f x) = (\<Union>x \<in> {x \<in> A. P x}. f x)"
  by blast

lemma suite_evidence_keys:
  "fst ` set (suite_evidence request) =
     (\<lambda>rid. (''rule'', rid, None, None)) ` reached_rules request
     \<union> (\<lambda>(rid, k, b). (''predicate_branch'', rid, Some (int k), Some b)) ` reached_branches request
     \<union> (\<lambda>iid. (''invariant'', iid, None, None)) ` reached_invariants request"
proof -
  have "fst ` set (suite_evidence request) =
      (\<Union>s \<in> scenarios_scored request.
         fst ` set (scenario_evidence (ep_policy request) (ep_contract request) s))"
  proof -
    have "fst ` set (suite_evidence request) =
        (\<Union>s \<in> set (ss_scenarios (ep_suite request)).
           fst ` set (scenario_evidence (ep_policy request) (ep_contract request) s))"
      unfolding suite_evidence_def by (subst fold_evidence(2)) (simp_all add: image_UN)
    also have "\<dots> = (\<Union>s \<in> scenarios_scored request.
        fst ` set (scenario_evidence (ep_policy request) (ep_contract request) s))"
      unfolding scenarios_scored_def by (rule UN_cong_filtered) (simp add: scenario_evidence_def)
    finally show ?thesis .
  qed
  also have "\<dots> = (\<Union>s \<in> scenarios_scored request.
      (\<lambda>r. (''rule'', r_rule_id r, None, None)) `
        {r \<in> set (pi_rules (ep_policy request)). all_hold (r_when r) (sc_facts s)}
      \<union> {(''predicate_branch'', r_rule_id r, Some (int k), Some (holds (r_when r ! k) (sc_facts s))) | r k.
          r \<in> set (pi_rules (ep_policy request)) \<and> k < length (r_when r)}
      \<union> (\<lambda>i. (''invariant'', i_invariant_id i, None, None)) `
        set (invariants_in_force (ep_contract request) (sc_facts s)))"
    by (rule SUP_cong) (simp_all add: scenarios_scored_def scenario_evidence_keys)
  also have "\<dots> = (\<Union>s \<in> scenarios_scored request. (\<lambda>r. (''rule'', r_rule_id r, None, None)) `
        {r \<in> set (pi_rules (ep_policy request)). all_hold (r_when r) (sc_facts s)})
      \<union> (\<Union>s \<in> scenarios_scored request.
        {(''predicate_branch'', r_rule_id r, Some (int k), Some (holds (r_when r ! k) (sc_facts s))) | r k.
          r \<in> set (pi_rules (ep_policy request)) \<and> k < length (r_when r)})
      \<union> (\<Union>s \<in> scenarios_scored request. (\<lambda>i. (''invariant'', i_invariant_id i, None, None)) `
        set (invariants_in_force (ep_contract request) (sc_facts s)))"
    by (simp only: UN_Un_distrib)
  also have "(\<Union>s \<in> scenarios_scored request. (\<lambda>r. (''rule'', r_rule_id r, None, None)) `
        {r \<in> set (pi_rules (ep_policy request)). all_hold (r_when r) (sc_facts s)}) =
      (\<lambda>rid. (''rule'', rid, None, None)) ` reached_rules request"
    unfolding reached_rules_def by blast
  also have "(\<Union>s \<in> scenarios_scored request.
        {(''predicate_branch'', r_rule_id r, Some (int k), Some (holds (r_when r ! k) (sc_facts s))) | r k.
          r \<in> set (pi_rules (ep_policy request)) \<and> k < length (r_when r)}) =
      (\<lambda>(rid, k, b). (''predicate_branch'', rid, Some (int k), Some b)) ` reached_branches request"
    unfolding reached_branches_def by force
  also have "(\<Union>s \<in> scenarios_scored request. (\<lambda>i. (''invariant'', i_invariant_id i, None, None)) `
        set (invariants_in_force (ep_contract request) (sc_facts s))) =
      (\<lambda>iid. (''invariant'', iid, None, None)) ` reached_invariants request"
    unfolding reached_invariants_def invariants_in_force_def by auto
  finally show ?thesis .
qed

subsection \<open>The coverage snapshot\<close>

lemma suite_evidence_distinct: "distinct (map fst (suite_evidence request))"
  unfolding suite_evidence_def by (rule fold_evidence(1)) simp

lemma length_filter_keys:
  assumes "distinct (map fst d)"
  shows "length (filter (\<lambda>e. Q (fst e)) d) = card {k \<in> fst ` set d. Q k}"
proof -
  have "distinct (map fst (filter (\<lambda>e. Q (fst e)) d))" using assms by (simp add: distinct_map_filter)
  then have "length (filter (\<lambda>e. Q (fst e)) d) = card (set (map fst (filter (\<lambda>e. Q (fst e)) d)))"
    by (metis distinct_card length_map)
  also have "set (map fst (filter (\<lambda>e. Q (fst e)) d)) = {k \<in> fst ` set d. Q k}" by auto
  finally show ?thesis .
qed

lemma set_covered_ids:
  "set (covered_ids kind d) = (\<lambda>k. fst (snd k)) ` {k \<in> fst ` set d. fst k = kind}"
  by (force simp: covered_ids_def image_iff)

lemma covered_rules_eq: "set (covered_ids ''rule'' (suite_evidence request)) = reached_rules request"
proof -
  have "{k \<in> fst ` set (suite_evidence request). fst k = ''rule''} =
      (\<lambda>rid. (''rule'', rid, None, None)) ` reached_rules request"
    unfolding suite_evidence_keys by auto
  then show ?thesis by (simp add: set_covered_ids image_image)
qed

lemma covered_invariants_eq:
  "set (covered_ids ''invariant'' (suite_evidence request)) = reached_invariants request"
proof -
  have "{k \<in> fst ` set (suite_evidence request). fst k = ''invariant''} =
      (\<lambda>iid. (''invariant'', iid, None, None)) ` reached_invariants request"
    unfolding suite_evidence_keys by auto
  then show ?thesis by (simp add: set_covered_ids image_image)
qed

lemma filter_middle:
  "(\<And>x. x \<in> A \<Longrightarrow> \<not> P x) \<Longrightarrow> (\<And>x. x \<in> B \<Longrightarrow> P x) \<Longrightarrow> (\<And>x. x \<in> C \<Longrightarrow> \<not> P x) \<Longrightarrow>
   {x \<in> A \<union> B \<union> C. P x} = B"
  by blast

lemma covered_branches_eq:
  "length (filter (\<lambda>e. fst (fst e) = ''predicate_branch'') (suite_evidence request)) =
   card (reached_branches request)"
proof -
  have "{k \<in> fst ` set (suite_evidence request). fst k = ''predicate_branch''} =
      (\<lambda>(rid, k, b). (''predicate_branch'', rid, Some (int k), Some b)) ` reached_branches request"
    unfolding suite_evidence_keys by (rule filter_middle) auto
  moreover have "inj_on (\<lambda>(rid, k, b). (''predicate_branch'', rid, Some (int k), Some b))
      (reached_branches request)"
    by (auto simp: inj_on_def)
  ultimately show ?thesis
    using length_filter_keys [OF suite_evidence_distinct, of "\<lambda>k. fst k = ''predicate_branch''" request]
    by (simp add: card_image)
qed

lemma covered_ids_length: "length (covered_ids kind d) = card (set (covered_ids kind d))"
  by (simp add: covered_ids_def length_remdups_card_conv)

lemma card_ids_le:
  "A \<subseteq> f ` set xs \<Longrightarrow> card A \<le> length xs"
  by (metis (no_types) card_length card_mono finite_imageI finite_set le_trans length_map list.set_map)

lemma sum_set_le_sum_list: "(\<Sum>x \<in> set xs. f x) \<le> sum_list (map f xs)" for f :: "'a \<Rightarrow> nat"
  by (induction xs) (auto simp: sum.insert_if)

lemma reached_branches_bound:
  "card (reached_branches request) \<le> 2 * sum_list (map (\<lambda>r. length (r_when r)) (pi_rules (ep_policy request)))"
proof -
  let ?slots = "\<lambda>r. (\<lambda>(k, b). (r_rule_id r, k, b)) ` ({..<length (r_when r)} \<times> (UNIV :: bool set))"
  have "reached_branches request \<subseteq> (\<Union>r \<in> set (pi_rules (ep_policy request)). ?slots r)"
    by (auto simp: reached_branches_def)
  then have "card (reached_branches request) \<le> card (\<Union>r \<in> set (pi_rules (ep_policy request)). ?slots r)"
    by (intro card_mono) auto
  also have "\<dots> \<le> (\<Sum>r \<in> set (pi_rules (ep_policy request)). card (?slots r))"
    by (rule card_UN_le) simp
  also have "\<dots> \<le> (\<Sum>r \<in> set (pi_rules (ep_policy request)). 2 * length (r_when r))"
  proof (rule sum_mono)
    fix r show "card (?slots r) \<le> 2 * length (r_when r)"
      by (rule order_trans [OF card_image_le]) (simp_all add: card_cartesian_product)
  qed
  also have "\<dots> \<le> sum_list (map (\<lambda>r. 2 * length (r_when r)) (pi_rules (ep_policy request)))"
    by (rule sum_set_le_sum_list)
  also have "\<dots> = 2 * sum_list (map (\<lambda>r. length (r_when r)) (pi_rules (ep_policy request)))"
    by (simp add: sum_list_const_mult)
  finally show ?thesis .
qed

lemma coverage_entries_valid:
  assumes "valid_policy_ir (ep_policy request)" and "valid_contract (ep_contract request)"
    and "valid_suite (ep_suite request)" and "entry \<in> set (suite_evidence request)"
  shows "\<exists>e. coverage_entry entry = Inr e \<and> valid_by coverage_evidence_checks e"
proof -
  obtain kind target idx outcome ids where entry: "entry = ((kind, target, idx, outcome), ids)"
    by (metis prod.exhaust)
  have "fst entry \<in> fst ` set (suite_evidence request)" using assms(4) by simp
  then have shape: "(kind = ''predicate_branch'') = (idx \<noteq> None) \<and> (idx \<noteq> None) = (outcome \<noteq> None)
      \<and> optional non_negative idx
      \<and> target \<in> r_rule_id ` set (pi_rules (ep_policy request)) \<union> i_invariant_id ` set (pc_invariants (ep_contract request))
      \<and> (kind = ''rule'' \<or> kind = ''invariant'' \<or> kind = ''predicate_branch'')"
    unfolding suite_evidence_keys entry
    by (auto simp: reached_rules_def reached_branches_def reached_invariants_def non_negative_def)
  have target: "identifier_ok target"
    using shape valid_rule_id [OF valid_policy_rules [OF assms(1)]]
      valid_contract_invariants [OF assms(2)]
    by (auto simp: valid_by_def invariant_checks_def)
  have "\<forall>ev \<in> set (concat (map (scenario_evidence (ep_policy request) (ep_contract request))
      (sort_key sc_scenario_id (ss_scenarios (ep_suite request))))). identifier_ok (snd ev)"
    using valid_scenario_id [OF valid_suite_scenarios [OF assms(3)]]
    by (auto simp: scenario_evidence_def)
  from fold_evidence_ids [OF _ _ this, of "[]"]
  have "\<forall>kv \<in> set (suite_evidence request). \<forall>x \<in> set (snd kv). identifier_ok x"
    by (simp add: suite_evidence_def)
  then have ids: "list_all identifier_ok (sort ids)"
    using assms(4) entry by (auto simp: list_all_iff)
  consider "kind = ''rule''" | "kind = ''invariant''" | "kind = ''predicate_branch''"
    using shape by blast
  then show ?thesis
  proof cases
    case 1
    then have "idx = None" "outcome = None" using shape by auto
    then show ?thesis
      using 1 target ids
      by (simp add: entry coverage_entry_def valid_by_def coverage_evidence_checks_def
          evidence_target_def Let_def validated_Inr_iff)
  next
    case 2
    then have "idx = None" "outcome = None" using shape by auto
    then show ?thesis
      using 2 target ids
      by (simp add: entry coverage_entry_def valid_by_def coverage_evidence_checks_def
          evidence_target_def Let_def validated_Inr_iff)
  next
    case 3
    then have "idx \<noteq> None" "outcome \<noteq> None" "optional non_negative idx" using shape by auto
    then show ?thesis
      using 3 target ids
      by (simp add: entry coverage_entry_def valid_by_def coverage_evidence_checks_def
          evidence_target_def Let_def validated_Inr_iff)
  qed
qed

lemma reached_rules_finite [simp]: "finite (reached_rules request)"
  using finite_subset [of "reached_rules request" "r_rule_id ` set (pi_rules (ep_policy request))"]
  by (auto simp: reached_rules_def)

definition unreached_rules :: "evaluate_policy_request \<Rightarrow> ident list" where
  "unreached_rules request =
     sort (filter (\<lambda>rid. rid \<notin> reached_rules request) (map r_rule_id (pi_rules (ep_policy request))))"

definition unreached_invariants :: "evaluate_policy_request \<Rightarrow> ident list" where
  "unreached_invariants request =
     sort (filter (\<lambda>iid. iid \<notin> reached_invariants request)
       (map i_invariant_id (pc_invariants (ep_contract request))))"

text \<open>The counts the snapshot must have.\<close>

definition coverage_describes :: "evaluate_policy_request \<Rightarrow> coverage_snapshot \<Rightarrow> bool" where
  "coverage_describes request c \<longleftrightarrow>
     cs_total_rules c = int (length (pi_rules (ep_policy request)))
     \<and> cs_covered_rules c = int (card (reached_rules request))
     \<and> cs_total_invariants c = int (length (pc_invariants (ep_contract request)))
     \<and> cs_covered_invariants c = int (card (reached_invariants request))
     \<and> cs_covered_predicate_branches c = int (card (reached_branches request))
     \<and> cs_missing_rule_ids c = unreached_rules request
     \<and> cs_missing_invariant_ids c = unreached_invariants request
     \<and> cs_status c = (if unreached_rules request = [] \<and> unreached_invariants request = []
                      then CoverageSatisfied else CoveragePending)"

lemma all_reached_card:
  assumes "distinct (map f xs)" and "A \<subseteq> f ` set xs" and "filter (\<lambda>i. i \<notin> A) (map f xs) = []"
  shows "card A = length xs"
proof -
  have "A = set (map f xs)" using assms(2,3) by (auto simp: filter_empty_conv)
  then show ?thesis using distinct_card [OF assms(1)] by simp
qed

lemma coverage_stage:
  assumes "valid_policy_ir (ep_policy request)" and "valid_contract (ep_contract request)"
    and "valid_suite (ep_suite request)"
  shows "\<exists>c. coverage_of request (suite_evidence request) = Inr c \<and> valid_coverage c \<and> coverage_describes request c"
proof -
  obtain entries where entries: "traverse coverage_entry (sort_key fst (suite_evidence request)) = Inr entries"
    "list_all (valid_by coverage_evidence_checks) entries"
  proof -
    obtain f where f: "\<forall>e \<in> set (suite_evidence request).
        coverage_entry e = Inr (f e) \<and> valid_by coverage_evidence_checks (f e)"
      using bchoice [of "set (suite_evidence request)"] coverage_entries_valid [OF assms] by metis
    then have "traverse coverage_entry (sort_key fst (suite_evidence request)) =
        Inr (map f (sort_key fst (suite_evidence request)))"
      by (intro traverse_eq_map) simp
    then show ?thesis using that f by (simp add: list_all_iff)
  qed
  have sub: "reached_rules request \<subseteq> r_rule_id ` set (pi_rules (ep_policy request))"
    "reached_invariants request \<subseteq> i_invariant_id ` set (pc_invariants (ep_contract request))"
    by (auto simp: reached_rules_def reached_invariants_def)
  note le = card_ids_le [OF sub(1)] card_ids_le [OF sub(2)]
  have all: "unreached_rules request = [] \<Longrightarrow> card (reached_rules request) = length (pi_rules (ep_policy request))"
    "unreached_invariants request = [] \<Longrightarrow>
      card (reached_invariants request) = length (pc_invariants (ep_contract request))"
    using all_reached_card [OF valid_policy_distinct [OF assms(1)] sub(1)]
      all_reached_card [OF valid_contract_distinct(1) [OF assms(2)] sub(2)]
    by (simp_all add: unreached_rules_def unreached_invariants_def sort_Nil_iff)
  have ids: "list_all identifier_ok (unreached_rules request)" "list_all identifier_ok (unreached_invariants request)"
    using valid_rule_id [OF valid_policy_rules [OF assms(1)]] valid_contract_invariants [OF assms(2)]
    by (auto simp: unreached_rules_def unreached_invariants_def list_all_iff valid_by_def invariant_checks_def)
  let ?c = "\<lparr>cs_total_rules = int (length (pi_rules (ep_policy request))),
    cs_covered_rules = int (card (reached_rules request)),
    cs_total_invariants = int (length (pc_invariants (ep_contract request))),
    cs_covered_invariants = int (card (reached_invariants request)),
    cs_total_predicate_branches =
      2 * int (sum_list (map (\<lambda>r. length (r_when r)) (pi_rules (ep_policy request)))),
    cs_covered_predicate_branches = int (card (reached_branches request)),
    cs_evidence = entries, cs_missing_rule_ids = unreached_rules request,
    cs_missing_invariant_ids = unreached_invariants request, cs_targeted_cycles = 0,
    cs_status = (if unreached_rules request = [] \<and> unreached_invariants request = []
                 then CoverageSatisfied else CoveragePending)\<rparr>"
  have bound: "int (card (reached_branches request)) \<le>
      2 * int (sum_list (map (\<lambda>r. length (r_when r)) (pi_rules (ep_policy request))))"
    using reached_branches_bound [of request] by linarith
  have nn: "non_negative (int n)" "non_negative (2 * int n)" for n by (simp_all add: non_negative_def)
  have valid: "valid_coverage ?c"
    using entries(2) ids le all bound by (simp add: valid_by_def coverage_snapshot_checks_def nn)
  have "coverage_of request (suite_evidence request) = validated coverage_snapshot_checks ?c"
    by (simp add: coverage_of_def Let_def entries(1) covered_ids_length covered_rules_eq
        covered_invariants_eq covered_branches_eq unreached_rules_def unreached_invariants_def)
  then have "coverage_of request (suite_evidence request) = Inr ?c" using valid by simp
  moreover have "coverage_describes request ?c" by (simp add: coverage_describes_def)
  ultimately show ?thesis using valid by blast
qed

subsection \<open>The report\<close>

lemma report_digest_total:
  "\<exists>h. report_digest sha inputs results coverage = Inr (sha h)"
proof -
  have "hashable (PMap [(Some ''inputs'', input_hashes_obj inputs), (Some ''results'', seq_obj evaluation_obj results),
      (Some ''coverage'', coverage_obj coverage), (Some ''engine_version'', PStr engine_version)])"
    by (simp add: list_all_iff)
  then show ?thesis unfolding report_digest_def using canonical_sha256_norm by blast
qed

lemma length_sha: "sha256_ok h \<Longrightarrow> length h = 64"
  by (simp add: sha256_ok_def)

lemma evaluate_reports:
  assumes "validate_rule_set (ep_policy request) = Inr ()" and "valid_contract (ep_contract request)"
    and "valid_suite (ep_suite request)" and "valid_by input_hashes_checks (ep_inputs request)"
    and "validate_evaluation_anchors sha request = Inr ()" and "hex_digest sha"
  shows "\<exists>report. evaluate sha request = Inr report \<and> valid_report report
    \<and> er_inputs report = ep_inputs request
    \<and> er_results report = map (scenario_outcome sha (ep_policy request) (ep_contract request))
        (sort_key sc_scenario_id (ss_scenarios (ep_suite request)))
    \<and> coverage_describes request (er_coverage report)"
proof -
  let ?policy = "ep_policy request" and ?contract = "ep_contract request" and ?suite = "ep_suite request"
  let ?scenarios = "sort_key sc_scenario_id (ss_scenarios ?suite)"
  let ?results = "map (scenario_outcome sha ?policy ?contract) ?scenarios"
  have policy: "valid_policy_ir ?policy" using assms(1) by (simp add: validate_rule_set_ok_iff)
  note outcome = evaluate_scenario_outcome [OF policy assms(2) valid_suite_scenarios [OF assms(3)] assms(6)]
  have results: "traverse (evaluate_scenario sha ?policy ?contract) ?scenarios = Inr ?results"
    by (rule traverse_eq_map) (simp add: outcome(1))
  have evidence: "traverse (result_evidence request) ?results =
      Inr (map (scenario_evidence ?policy ?contract) ?scenarios)"
    using result_evidence_eq [OF policy assms(2,3)]
    by (simp add: traverse_Inr_iff list_all2_map1 list_all2_map2 list_all2_same)
  obtain c where c: "coverage_of request (suite_evidence request) = Inr c" "valid_coverage c"
    "coverage_describes request c"
    using coverage_stage [OF policy assms(2,3)] by blast
  obtain h where h: "report_digest sha (ep_inputs request) ?results c = Inr (sha h)"
    using report_digest_total by blast
  define report where "report = \<lparr>er_report_id = ''evaluation-'' @ sha h, er_inputs = ep_inputs request,
      er_engine_version = engine_version, er_results = ?results, er_coverage = c\<rparr>"
  have valid: "valid_report report"
  proof -
    have "list_all valid_scenario_evaluation ?results" by (simp add: list_all_iff outcome(2))
    moreover have "distinct (map se_scenario_id ?results)"
      using valid_suite_distinct [OF assms(3)] by (simp add: comp_def distinct_map)
    ultimately show ?thesis
      using c(2) assms(4) length_sha [OF hex_digestD [OF assms(6), of h]]
      by (simp add: report_def valid_by_def evaluation_report_checks_def identifier_ok_def
          nonempty_text_def engine_version_def)
  qed
  have "evaluate sha request = validated evaluation_report_checks report"
    unfolding evaluate_def assms(1,5) validated_valid [OF assms(2)] results rbind_simps evidence
      suite_evidence_def [symmetric] c(1) h report_def ..
  then have "evaluate sha request = Inr report" using valid by simp
  moreover have "er_inputs report = ep_inputs request" "er_results report = ?results" "er_coverage report = c"
    by (simp_all only: report_def evaluation_report.select_convs)
  ultimately show ?thesis using valid c(3) by blast
qed

end
