(* ===== verification/Revision_Models.thy ===== *)
theory Revision_Models
  imports Evaluation_Models
begin

section \<open>Revisions, acceptance and comparison records (domain/models/revision.py)\<close>

text \<open>Records and checks of the structured-revision contracts.\<close>

subsection \<open>Decisions and operations\<close>

datatype decision = Accept | Reject

record finding_decision =
  fdn_finding_id :: ident
  fdn_decision :: decision
  fdn_reviewer_severity :: "severity option"

definition finding_decision_checks :: "finding_decision \<Rightarrow> (bool \<times> string) list" where
  "finding_decision_checks d = [(identifier_ok (fdn_finding_id d), ''FindingDecision'')]"

record revision_rule_draft =
  rd_description :: string
  rd_when :: "predicate list"
  rd_effects :: "effect list"
  rd_overrides :: "override_ref list"

definition revision_rule_draft_checks :: "revision_rule_draft \<Rightarrow> (bool \<times> string) list" where
  "revision_rule_draft_checks d =
     [(nonempty_text (rd_description d)
        \<and> rd_when d \<noteq> [] \<and> list_all valid_predicate (rd_when d)
        \<and> rd_effects d \<noteq> [] \<and> list_all valid_effect (rd_effects d)
        \<and> list_all (valid_by override_ref_checks) (rd_overrides d), ''RevisionRuleDraft''),
      (\<not> list_ex (\<lambda>p. p_field p = F_daily_category_total_minor) (rd_when d),
       ''derived daily totals cannot be executable conditions''),
      (distinct (effect_dims (rd_effects d)), ''a rule supplies at most one value per dimension''),
      (list_all (\<lambda>e. ov_dimension e \<in> set (effect_dims (rd_effects d))) (rd_overrides d),
       ''override dimension must be supplied by the revised rule'')]"

datatype revision_operation =
    AddRuleOperation (op_rule_id: ident) (op_rule: revision_rule_draft)
      (op_finding_ids: "ident list")
  | ReplaceRuleOperation (op_rule_id: ident) (op_expected_revision: int)
      (op_rule: revision_rule_draft) (op_finding_ids: "ident list")
  | AddOverrideOperation (op_rule_id: ident) (op_dimension: effect_dimension)
      (op_target_rule_id: ident) (op_finding_ids: "ident list")

definition revision_operation_checks :: "revision_operation \<Rightarrow> (bool \<times> string) list" where
  "revision_operation_checks op =
     (identifier_ok (op_rule_id op) \<and> op_finding_ids op \<noteq> []
        \<and> list_all identifier_ok (op_finding_ids op)
        \<and> (case op of
             AddRuleOperation _ draft _ \<Rightarrow> valid_by revision_rule_draft_checks draft
           | ReplaceRuleOperation _ expected draft _ \<Rightarrow>
               non_negative expected \<and> valid_by revision_rule_draft_checks draft
           | AddOverrideOperation _ _ target _ \<Rightarrow> identifier_ok target), ''RevisionOperation'')
     # (case op of
          AddOverrideOperation rid _ target _ \<Rightarrow>
            [(rid \<noteq> target, ''a rule cannot override itself'')]
        | _ \<Rightarrow> [])"

record revision_proposal =
  rp_proposal_id :: ident
  rp_document_sha256 :: sha256
  rp_rule_set_sha256 :: sha256
  rp_policy_contract_sha256 :: sha256
  rp_suite_sha256 :: sha256
  rp_accepted_finding_ids :: "ident list"
  rp_operations :: "revision_operation list"
  rp_draft_policy_wording :: string

definition revision_proposal_checks :: "revision_proposal \<Rightarrow> (bool \<times> string) list" where
  "revision_proposal_checks p =
     [(identifier_ok (rp_proposal_id p) \<and> sha256_ok (rp_document_sha256 p)
        \<and> sha256_ok (rp_rule_set_sha256 p) \<and> sha256_ok (rp_policy_contract_sha256 p)
        \<and> sha256_ok (rp_suite_sha256 p)
        \<and> rp_accepted_finding_ids p \<noteq> [] \<and> list_all identifier_ok (rp_accepted_finding_ids p)
        \<and> list_all (valid_by revision_operation_checks) (rp_operations p)
        \<and> 1 \<le> length (rp_operations p) \<and> length (rp_operations p) \<le> 3
        \<and> nonempty_text (rp_draft_policy_wording p), ''RevisionProposal''),
      (distinct (rp_accepted_finding_ids p), ''accepted finding IDs must be unique''),
      (list_all (\<lambda>op. set (op_finding_ids op) \<subseteq> set (rp_accepted_finding_ids p)) (rp_operations p),
       ''revision operations may target only accepted findings'')]"

abbreviation valid_proposal :: "revision_proposal \<Rightarrow> bool" where
  "valid_proposal \<equiv> valid_by revision_proposal_checks"

subsection \<open>Regression and acceptance reports\<close>

record assertion_transition =
  at_scenario_id :: ident
  at_assertion_id :: ident
  at_before :: assertion_status
  at_after :: assertion_status
  at_protected :: bool
  at_targeted :: bool

definition assertion_transition_checks :: "assertion_transition \<Rightarrow> (bool \<times> string) list" where
  "assertion_transition_checks t =
     [(identifier_ok (at_scenario_id t) \<and> identifier_ok (at_assertion_id t),
       ''AssertionTransition'')]"

record assertion_transition_counts =
  tc_pass_to_pass :: int
  tc_fail_to_pass :: int
  tc_pass_to_fail :: int
  tc_fail_to_fail :: int
  tc_inconclusive_or_error :: int

definition assertion_transition_counts_checks ::
  "assertion_transition_counts \<Rightarrow> (bool \<times> string) list" where
  "assertion_transition_counts_checks c =
     [(non_negative (tc_pass_to_pass c) \<and> non_negative (tc_fail_to_pass c)
        \<and> non_negative (tc_pass_to_fail c) \<and> non_negative (tc_fail_to_fail c)
        \<and> non_negative (tc_inconclusive_or_error c), ''AssertionTransitionCounts'')]"

record regression_report =
  rr_report_id :: ident
  rr_baseline_inputs :: input_hashes
  rr_revised_inputs :: input_hashes
  rr_baseline_effect_states :: effect_state_counts
  rr_revised_effect_states :: effect_state_counts
  rr_assertion_transition_counts :: assertion_transition_counts
  rr_assertion_transitions :: "assertion_transition list"

definition regression_report_checks :: "regression_report \<Rightarrow> (bool \<times> string) list" where
  "regression_report_checks r =
     (let earlier = rr_baseline_inputs r; after = rr_revised_inputs r in
      [(identifier_ok (rr_report_id r) \<and> valid_by input_hashes_checks earlier
         \<and> valid_by input_hashes_checks after
         \<and> valid_by effect_state_counts_checks (rr_baseline_effect_states r)
         \<and> valid_by effect_state_counts_checks (rr_revised_effect_states r)
         \<and> valid_by assertion_transition_counts_checks (rr_assertion_transition_counts r)
         \<and> list_all (valid_by assertion_transition_checks) (rr_assertion_transitions r),
        ''RegressionReport''),
       (\<not> (ih_suite_sha256 earlier \<noteq> ih_suite_sha256 after
            \<or> ih_engine_sha256 earlier \<noteq> ih_engine_sha256 after),
        ''regression comparison requires identical suite and engine hashes''),
       (\<not> (ih_contract_sha256 earlier \<noteq> ih_contract_sha256 after
            \<or> ih_run_manifest_sha256 earlier \<noteq> ih_run_manifest_sha256 after),
        ''regression comparison requires frozen contract and run manifest''),
       (distinct (map (\<lambda>t. (at_scenario_id t, at_assertion_id t)) (rr_assertion_transitions r)),
        ''each frozen assertion has exactly one transition row'')])"

record patch_acceptance_counts =
  pac_target_findings :: int
  pac_fixed_target_findings :: int
  pac_new_failures_outside_targets :: int
  pac_protected_regressions :: int
  pac_baseline_gap_conflict_inconclusive_or_error :: int
  pac_revised_gap_conflict_inconclusive_or_error :: int
  pac_unrelated_rule_changes :: int
  pac_holdout_regressions :: int

definition patch_acceptance_counts_checks ::
  "patch_acceptance_counts \<Rightarrow> (bool \<times> string) list" where
  "patch_acceptance_counts_checks c =
     [(non_negative (pac_target_findings c) \<and> non_negative (pac_fixed_target_findings c)
        \<and> non_negative (pac_new_failures_outside_targets c)
        \<and> non_negative (pac_protected_regressions c)
        \<and> non_negative (pac_baseline_gap_conflict_inconclusive_or_error c)
        \<and> non_negative (pac_revised_gap_conflict_inconclusive_or_error c)
        \<and> non_negative (pac_unrelated_rule_changes c)
        \<and> non_negative (pac_holdout_regressions c), ''PatchAcceptanceCounts'')]"

record patch_acceptance_report =
  pa_baseline_inputs :: input_hashes
  pa_revised_inputs :: input_hashes
  pa_suite_hash_matches :: bool
  pa_all_target_findings_fixed :: bool
  pa_zero_new_failures_outside_targets :: bool
  pa_zero_protected_regressions :: bool
  pa_no_increase_in_gap_conflict_inconclusive_or_error :: bool
  pa_unrelated_rules_unchanged :: bool
  pa_holdout_not_worse :: bool
  pa_patch_accepted :: bool
  pa_counts :: patch_acceptance_counts

definition acceptance_checks :: "patch_acceptance_report \<Rightarrow> bool list" where
  "acceptance_checks p =
     [pa_suite_hash_matches p, pa_all_target_findings_fixed p,
      pa_zero_new_failures_outside_targets p, pa_zero_protected_regressions p,
      pa_no_increase_in_gap_conflict_inconclusive_or_error p, pa_unrelated_rules_unchanged p,
      pa_holdout_not_worse p]"

definition patch_acceptance_report_checks ::
  "patch_acceptance_report \<Rightarrow> (bool \<times> string) list" where
  "patch_acceptance_report_checks p =
     [(valid_by input_hashes_checks (pa_baseline_inputs p)
        \<and> valid_by input_hashes_checks (pa_revised_inputs p)
        \<and> valid_by patch_acceptance_counts_checks (pa_counts p), ''PatchAcceptanceReport''),
      (pa_patch_accepted p = list_all id (acceptance_checks p),
       ''patch_accepted must equal the conjunction of all seven checks'')]"

subsection \<open>Requests and results\<close>

record propose_revision_request =
  prq_policy :: policy_ir
  prq_contract :: policy_contract
  prq_suite :: scenario_suite
  prq_findings :: finding_report
  prq_decisions :: "finding_decision list"
  prq_document_sha256 :: sha256
  prq_rule_set_sha256 :: sha256
  prq_policy_contract_sha256 :: sha256
  prq_suite_sha256 :: sha256

definition propose_revision_checks :: "propose_revision_request \<Rightarrow> (bool \<times> string) list" where
  "propose_revision_checks r =
     [(valid_policy_ir (prq_policy r) \<and> valid_contract (prq_contract r) \<and> valid_suite (prq_suite r)
        \<and> valid_by finding_report_checks (prq_findings r)
        \<and> prq_decisions r \<noteq> [] \<and> list_all (valid_by finding_decision_checks) (prq_decisions r)
        \<and> sha256_ok (prq_document_sha256 r) \<and> sha256_ok (prq_rule_set_sha256 r)
        \<and> sha256_ok (prq_policy_contract_sha256 r) \<and> sha256_ok (prq_suite_sha256 r),
       ''ProposeRevisionRequest'')]"

record apply_revision_request =
  arq_policy :: policy_ir
  arq_contract :: policy_contract
  arq_suite :: scenario_suite
  arq_proposal :: revision_proposal
  arq_confirmed_at :: timestamp

definition apply_revision_checks :: "apply_revision_request \<Rightarrow> (bool \<times> string) list" where
  "apply_revision_checks r =
     [(valid_policy_ir (arq_policy r) \<and> valid_contract (arq_contract r) \<and> valid_suite (arq_suite r)
        \<and> valid_proposal (arq_proposal r), ''ApplyRevisionRequest'')]"

record patch_application_result =
  par_proposal_id :: ident
  par_applied :: bool
  par_revised_policy :: "policy_ir option"
  par_changed_rule_ids :: "ident list"
  par_error :: "public_error option"

definition patch_application_result_checks ::
  "patch_application_result \<Rightarrow> (bool \<times> string) list" where
  "patch_application_result_checks r =
     [(identifier_ok (par_proposal_id r) \<and> optional valid_policy_ir (par_revised_policy r)
        \<and> list_all identifier_ok (par_changed_rule_ids r)
        \<and> optional (valid_by public_error_checks) (par_error r), ''PatchApplicationResult''),
      if par_applied r then
        ((case par_revised_policy r of None \<Rightarrow> False
          | Some p \<Rightarrow> pi_kind p = StructuredRevision) \<and> par_error r = None,
         ''successful application requires a structured revision and no error'')
      else
        (\<not> (par_revised_policy r \<noteq> None \<or> par_changed_rule_ids r \<noteq> [] \<or> par_error r = None),
         ''failed application requires an error and no changed policy'')]"

record compare_revision_request =
  crq_baseline_policy :: policy_ir
  crq_revised_policy :: policy_ir
  crq_contract :: policy_contract
  crq_suite :: scenario_suite
  crq_proposal :: revision_proposal
  crq_baseline_evaluation :: evaluation_report
  crq_revised_evaluation :: evaluation_report
  crq_baseline_findings :: finding_report
  crq_revised_findings :: finding_report

definition compare_revision_checks :: "compare_revision_request \<Rightarrow> (bool \<times> string) list" where
  "compare_revision_checks r =
     [(valid_policy_ir (crq_baseline_policy r) \<and> valid_policy_ir (crq_revised_policy r)
        \<and> valid_contract (crq_contract r) \<and> valid_suite (crq_suite r)
        \<and> valid_proposal (crq_proposal r)
        \<and> valid_report (crq_baseline_evaluation r) \<and> valid_report (crq_revised_evaluation r)
        \<and> valid_by finding_report_checks (crq_baseline_findings r)
        \<and> valid_by finding_report_checks (crq_revised_findings r), ''CompareRevisionRequest'')]"

record comparison_bundle =
  cb_baseline_inputs :: input_hashes
  cb_revised_inputs :: input_hashes
  cb_regression :: regression_report
  cb_acceptance :: patch_acceptance_report
  cb_baseline_metrics :: metrics_report
  cb_revised_metrics :: metrics_report

definition comparison_bundle_checks :: "comparison_bundle \<Rightarrow> (bool \<times> string) list" where
  "comparison_bundle_checks b =
     [(valid_by input_hashes_checks (cb_baseline_inputs b)
        \<and> valid_by input_hashes_checks (cb_revised_inputs b)
        \<and> valid_by regression_report_checks (cb_regression b)
        \<and> valid_by patch_acceptance_report_checks (cb_acceptance b)
        \<and> valid_by metrics_report_checks (cb_baseline_metrics b)
        \<and> valid_by metrics_report_checks (cb_revised_metrics b), ''ComparisonBundle'')]"

end
