(* ===== verification/Examples.thy ===== *)
theory Examples
  imports Engine_Report Revision_Models
begin

section \<open>A small travel policy\<close>

text \<open>
  Concrete inputs the witnesses of the properties use: a policy of two hotel rules of which the
  second overrides the first for managers, a contract of three invariants, and two scenarios.
\<close>

definition sample_span :: source_span where
  "sample_span = \<lparr>span_page = 1, span_start = 0, span_end = 5, span_quote = ''hotel'',
     span_quote_sha256 = zero_sha256, span_section = None\<rparr>"

definition hotel_rule :: rule where
  "hotel_rule = \<lparr>r_description = ''hotel cap'',
     r_when = [\<lparr>p_field = F_expense_category, p_operator = Op_eq, p_value = VStr ''hotel''\<rparr>],
     r_effects = [\<lparr>e_dimension = ClaimCapMinor, e_value = Minor 20000\<rparr>,
                  \<lparr>e_dimension = Eligibility, e_value = Allow\<rparr>],
     r_overrides = [],
     r_provenance = TextCitation \<lparr>tp_citation_id = ''c1'', tp_span = sample_span\<rparr>,
     r_confidence_percent = None, r_rule_id = ''hotel'', r_revision = 0\<rparr>"

definition manager_rule :: rule where
  "manager_rule = \<lparr>r_description = ''manager hotel cap'',
     r_when = [\<lparr>p_field = F_employee_role, p_operator = Op_in, p_value = VTuple [''manager'', ''director'']\<rparr>,
               \<lparr>p_field = F_expense_category, p_operator = Op_eq, p_value = VStr ''hotel''\<rparr>],
     r_effects = [\<lparr>e_dimension = ClaimCapMinor, e_value = Minor 30000\<rparr>],
     r_overrides = [\<lparr>ov_dimension = ClaimCapMinor, ov_target_rule_id = ''hotel''\<rparr>],
     r_provenance = TextCitation \<lparr>tp_citation_id = ''c2'', tp_span = sample_span\<rparr>,
     r_confidence_percent = Some 90, r_rule_id = ''manager'', r_revision = 0\<rparr>"

definition sample_policy :: policy_ir where
  "sample_policy = \<lparr>pi_policy_id = ''travel'', pi_document_sha256 = zero_sha256,
     pi_kind = CompiledBaseline, pi_review_status = Provisional,
     pi_rules = [hotel_rule, manager_rule], pi_unsupported_clauses = []\<rparr>"

definition sample_assertion :: "ident \<Rightarrow> ident \<Rightarrow> int \<Rightarrow> assertion" where
  "sample_assertion aid iid cap =
     \<lparr>a_assertion_id = aid, a_target_kind = EffectTarget, a_dimension = ClaimCapMinor,
      a_operator = A_lte, a_expected_value = OfEffect (Minor cap), a_origin = OriginSessionConfirmed,
      a_source_invariant_id = Some iid, a_gold_label_id = None, a_mechanical_relation_id = None\<rparr>"

definition sample_invariant :: "ident \<Rightarrow> ident \<Rightarrow> int \<Rightarrow> invariant" where
  "sample_invariant iid aid cap =
     \<lparr>i_invariant_id = iid, i_description = ''hotel claims are capped'',
      i_when = [\<lparr>p_field = F_expense_category, p_operator = Op_eq, p_value = VStr ''hotel''\<rparr>],
      i_assertion = sample_assertion aid iid cap, i_severity = High\<rparr>"

definition sample_contract :: policy_contract where
  "sample_contract = \<lparr>pc_contract_id = ''contract'', pc_required_dimensions = {ClaimCapMinor},
     pc_invariants = [sample_invariant ''i1'' ''a1'' 30000, sample_invariant ''i2'' ''a2'' 25000,
                      sample_invariant ''i3'' ''a3'' 40000]\<rparr>"

definition sample_facts :: "employee_role \<Rightarrow> expense_category \<Rightarrow> scenario_facts" where
  "sample_facts role category = \<lparr>f_employee_role = role, f_expense_category = category,
     f_amount_minor = 25000, f_destination_type = Domestic, f_booking_days_before = 14,
     f_receipt_present = True, f_approval_roles_present = {ApproverManager},
     f_prior_same_day_category_spend_minor = 0\<rparr>"

definition sample_scenario :: "ident \<Rightarrow> employee_role \<Rightarrow> expense_category \<Rightarrow> scenario" where
  "sample_scenario sid role category =
     \<lparr>sc_category = Normal, sc_origins = {FromSession}, sc_facts = sample_facts role category,
      sc_target_rule_ids = [], sc_target_invariant_ids = [], sc_assertions = [],
      sc_protected = False, sc_partition = Visible, sc_scenario_id = sid\<rparr>"

definition sample_sha :: "string \<Rightarrow> sha256" where
  "sample_sha s = zero_sha256"

definition sample_suite :: scenario_suite where
  "sample_suite = \<lparr>ss_suite_id = ''suite'', ss_content_sha256 = zero_sha256, ss_seed = 7,
     ss_document_sha256 = zero_sha256, ss_policy_contract_sha256 = zero_sha256,
     ss_rule_set_sha256 = zero_sha256, ss_engine_version = engine_version,
     ss_scenarios = [sample_scenario ''s1'' RoleManager Hotel, sample_scenario ''s2'' RoleEmployee Hotel],
     ss_statistics = \<lparr>st_generated_count = 2, st_rejected_count = 0, st_duplicate_count = 0, st_rejections = []\<rparr>\<rparr>"

definition sample_inputs :: input_hashes where
  "sample_inputs = \<lparr>ih_policy_sha256 = zero_sha256, ih_contract_sha256 = zero_sha256,
     ih_suite_sha256 = zero_sha256, ih_engine_sha256 = zero_sha256, ih_run_manifest_sha256 = zero_sha256\<rparr>"

definition sample_request :: evaluate_policy_request where
  "sample_request = \<lparr>ep_policy = sample_policy, ep_contract = sample_contract, ep_suite = sample_suite,
     ep_inputs = sample_inputs, ep_engine_version = engine_version\<rparr>"

lemma sample_policy_valid: "valid_policy_ir sample_policy"
  by code_simp

lemma sample_contract_valid: "valid_contract sample_contract"
  by code_simp

lemma sample_suite_valid: "valid_suite sample_suite"
  by code_simp

lemma sample_scenario_valid:
  "valid_scenario (sample_scenario ''s1'' RoleManager Hotel)"
  "valid_scenario (sample_scenario ''s2'' RoleEmployee Hotel)"
  by code_simp+

lemma sample_sha_digest: "hex_digest sample_sha"
  by (simp add: hex_digest_def sample_sha_def)

lemma sample_inputs_valid: "valid_by input_hashes_checks sample_inputs"
  by (simp add: valid_by_def input_hashes_checks_def sample_inputs_def)

lemma sample_anchors: "validate_evaluation_anchors sample_sha sample_request = Inr ()"
  by (simp add: validate_evaluation_anchors_def payload_hash_view rule_set_hash_def sample_request_def
      sample_policy_def sample_inputs_def sample_suite_def sample_sha_def)

lemma sample_rules_possible: "validate_rule_set sample_policy = Inr ()"
  by code_simp

end
