(* ===== verification/Metrics.thy ===== *)
theory Metrics
  imports Evaluation_Models
begin

section \<open>Aggregate metrics (features/evaluation/metrics.py)\<close>

text \<open>
  Percentages are rounded to the nearest integer with integer arithmetic; the counters count the
  states of the evidence, and what is reported satisfies the report's own validator.
\<close>

definition percent :: "int \<Rightarrow> int \<Rightarrow> int option" where
  "percent numerator denominator =
     (if denominator = 0 then None
      else Some ((numerator * 100 + denominator div 2) div denominator))"

text \<open>\<open>Counter(...)[key]\<close>.\<close>

definition count_of :: "'a \<Rightarrow> 'a list \<Rightarrow> int" where
  "count_of x xs = int (length (filter (\<lambda>y. y = x) xs))"

definition effect_statuses :: "evaluation_report \<Rightarrow> effect_status list" where
  "effect_statuses report =
     concat (map (\<lambda>result. map dr_status (et_resolved_effects (se_trace result))) (er_results report))"

definition assertion_statuses :: "evaluation_report \<Rightarrow> assertion_status list" where
  "assertion_statuses report =
     concat (map (\<lambda>result. map ar_status (se_assertion_results result)) (er_results report))"

definition scored_fingerprints :: "finding_report \<Rightarrow> sha256 list" where
  "scored_fingerprints findings =
     remdups (map fd_fingerprint_sha256
       (filter (\<lambda>f. fd_evidence_level f \<noteq> Candidate \<and> fd_finding_type f \<noteq> PotentialLoophole)
         (fr_findings findings)))"

definition compute_metrics :: "metrics_request \<Rightarrow> metrics_report result" where
  "compute_metrics request =
     (let evaluation = mq_evaluation request; findings = mq_findings request;
          effects = effect_statuses evaluation; assertions = assertion_statuses evaluation in
      if fr_inputs findings \<noteq> er_inputs evaluation then
        Inl (ValueError ''HASH_MISMATCH: metric finding anchors'')
      else
        rbind (validated effect_state_counts_checks
          \<lparr>sc_VALUE = count_of EValue effects, sc_GAP = count_of EGap effects,
           sc_NOT_APPLICABLE = count_of ENotApplicable effects,
           sc_CONFLICT = count_of EConflict effects,
           sc_INCONCLUSIVE = count_of EInconclusive effects, sc_ERROR = count_of EError effects\<rparr>)
          (\<lambda>effect_states.
        rbind (validated assertion_counts_checks
          \<lparr>ac_passed = count_of APass assertions, ac_failed = count_of AFail assertions,
           ac_inconclusive = count_of AInconclusive assertions, ac_error = count_of AError assertions\<rparr>)
          (\<lambda>assertion_counts.
        validated metrics_report_checks
          \<lparr>mr_inputs = er_inputs evaluation, mr_scenario_count = int (length (er_results evaluation)),
           mr_effect_states = effect_states, mr_assertions = assertion_counts,
           mr_unique_finding_count = int (length (scored_fingerprints findings)),
           mr_coverage = er_coverage evaluation,
           mr_assertion_pass_percent =
             percent (count_of APass assertions) (int (length assertions))\<rparr>)))"

subsection \<open>Rounding\<close>

lemma percent_value:
  assumes "percent n d = Some p" and "0 \<le> n" and "0 < d"
  shows "p = (n * 100 + d div 2) div d"
  using assms by (simp add: percent_def)

text \<open>The percentage is the nearest integer to \<open>100 * n / d\<close>, halves rounded up.\<close>

lemma percent_nearest:
  fixes n d :: int
  assumes "0 < d"
  shows "\<exists>p. percent n d = Some p \<and> 2 * (p * d - 100 * n) \<le> d \<and> - d < 2 * (p * d - 100 * n) + 1"
proof -
  define p r h where "p = (n * 100 + d div 2) div d" and "r = (n * 100 + d div 2) mod d"
    and "h = d div 2"
  have "p * d = n * 100 + h - r"
    unfolding p_def r_def h_def by (simp add: minus_mod_eq_div_mult)
  then have eq: "2 * (p * d - 100 * n) = 2 * h - 2 * r" by simp
  have r: "0 \<le> r" "r < d" using assms by (simp_all add: r_def)
  have h: "2 * h \<le> d" "d - 1 \<le> 2 * h" unfolding h_def by presburger+
  have "2 * (p * d - 100 * n) \<le> d" unfolding eq using r h by linarith
  moreover have "- d < 2 * (p * d - 100 * n) + 1" unfolding eq using r h by linarith
  moreover have "percent n d = Some p" using assms by (simp add: percent_def p_def)
  ultimately show ?thesis by blast
qed

lemma percent_range:
  assumes "0 \<le> n" and "n \<le> d"
  shows "optional percentage_ok (percent n d)"
proof (cases "d = 0")
  case False
  then have d: "0 < d" using assms by linarith
  have "(n * 100 + d div 2) div d \<le> (d * 100 + d div 2) div d"
    using assms d by (intro zdiv_mono1) auto
  also have "\<dots> = 100" using d by (simp add: div_pos_pos_trivial)
  finally have "(n * 100 + d div 2) div d \<le> 100" .
  moreover have "0 \<le> (n * 100 + d div 2) div d"
    using assms d by (intro pos_imp_zdiv_nonneg_iff [THEN iffD2]) auto
  ultimately show ?thesis using False by (simp add: percent_def percentage_ok_def)
qed (simp add: percent_def)

subsection \<open>Counts\<close>

lemma count_of_nonneg [simp]: "0 \<le> count_of x xs" "non_negative (count_of x xs)"
  by (simp_all add: count_of_def non_negative_def)

lemma count_of_le: "count_of x xs \<le> int (length xs)"
  by (simp add: count_of_def)

lemma effect_counts_total:
  "count_of EValue xs + count_of EGap xs + count_of ENotApplicable xs + count_of EConflict xs
     + count_of EInconclusive xs + count_of EError xs = int (length xs)"
proof (induction xs)
  case (Cons x xs)
  then show ?case by (cases x) (simp_all add: count_of_def)
qed (simp add: count_of_def)

lemma assertion_counts_total:
  "count_of APass xs + count_of AFail xs + count_of AInconclusive xs + count_of AError xs =
   int (length xs)"
proof (induction xs)
  case (Cons x xs)
  then show ?case by (cases x) (simp_all add: count_of_def)
qed (simp add: count_of_def)

lemma compute_metrics_value:
  assumes "valid_report (mq_evaluation request)"
    and "fr_inputs (mq_findings request) = er_inputs (mq_evaluation request)"
  shows "\<exists>m. compute_metrics request = Inr m \<and> valid_by metrics_report_checks m
    \<and> mr_inputs m = er_inputs (mq_evaluation request)
    \<and> mr_scenario_count m = int (length (er_results (mq_evaluation request)))
    \<and> ac_passed (mr_assertions m) + ac_failed (mr_assertions m) + ac_inconclusive (mr_assertions m)
        + ac_error (mr_assertions m) = int (length (assertion_statuses (mq_evaluation request)))
    \<and> sc_VALUE (mr_effect_states m) + sc_GAP (mr_effect_states m) + sc_NOT_APPLICABLE (mr_effect_states m)
        + sc_CONFLICT (mr_effect_states m) + sc_INCONCLUSIVE (mr_effect_states m)
        + sc_ERROR (mr_effect_states m) = int (length (effect_statuses (mq_evaluation request)))
    \<and> mr_assertion_pass_percent m =
        percent (ac_passed (mr_assertions m)) (int (length (assertion_statuses (mq_evaluation request))))"
proof -
  let ?effects = "effect_statuses (mq_evaluation request)"
  let ?assertions = "assertion_statuses (mq_evaluation request)"
  let ?e = "\<lparr>sc_VALUE = count_of EValue ?effects, sc_GAP = count_of EGap ?effects,
    sc_NOT_APPLICABLE = count_of ENotApplicable ?effects, sc_CONFLICT = count_of EConflict ?effects,
    sc_INCONCLUSIVE = count_of EInconclusive ?effects, sc_ERROR = count_of EError ?effects\<rparr>"
  let ?a = "\<lparr>ac_passed = count_of APass ?assertions, ac_failed = count_of AFail ?assertions,
    ac_inconclusive = count_of AInconclusive ?assertions, ac_error = count_of AError ?assertions\<rparr>"
  let ?m = "\<lparr>mr_inputs = er_inputs (mq_evaluation request),
    mr_scenario_count = int (length (er_results (mq_evaluation request))),
    mr_effect_states = ?e, mr_assertions = ?a,
    mr_unique_finding_count = int (length (scored_fingerprints (mq_findings request))),
    mr_coverage = er_coverage (mq_evaluation request),
    mr_assertion_pass_percent = percent (count_of APass ?assertions) (int (length ?assertions))\<rparr>"
  have e: "valid_by effect_state_counts_checks ?e" and a: "valid_by assertion_counts_checks ?a"
    by (simp_all add: valid_by_def effect_state_counts_checks_def assertion_counts_checks_def)
  have "valid_by input_hashes_checks (er_inputs (mq_evaluation request))"
    "valid_coverage (er_coverage (mq_evaluation request))"
    using assms(1) by (simp_all add: valid_by_def evaluation_report_checks_def)
  then have m: "valid_by metrics_report_checks ?m"
    using e a percent_range [OF count_of_nonneg(1) count_of_le [of APass ?assertions]]
    by (simp add: valid_by_def metrics_report_checks_def non_negative_def)
  have "compute_metrics request = Inr ?m"
    using assms(2) by (simp add: compute_metrics_def Let_def validated_valid [OF e] validated_valid [OF a]
        validated_valid [OF m])
  with m show ?thesis
    by (intro exI [of _ ?m]) (simp add: effect_counts_total assertion_counts_total)
qed

end
