(* ===== verification/Evaluation_Properties.thy ===== *)
theory Evaluation_Properties
  imports Examples Metrics
begin

section \<open>Properties of policies, conditions, resolution and evaluation\<close>

text \<open>
  The statements a user of the evaluator relies on, each over the definitions that model the code,
  with a witness on the sample policy where it has hypotheses.
\<close>

subsection \<open>Rule sets\<close>

text \<open>
  C25: The rule-set validator, a depth-first search over a graph dictionary, accepts a policy
  exactly when its fields are in range, rule identifiers are unique, a compiled baseline cites text
  for every rule, every override edge names an existing rule that has an effect on the edge's
  dimension, and the override relation is acyclic.
\<close>

theorem rule_set_validator_exact:
  "valid_policy_ir p \<longleftrightarrow>
     policy_fields_ok p \<and> distinct (map r_rule_id (pi_rules p))
     \<and> (if pi_kind p = CompiledBaseline
         then list_all (\<lambda>r. is_text_citation (r_provenance r)) (pi_rules p) else True)
     \<and> list_all (\<lambda>r. list_all (override_edge_exists (pi_rules p)) (r_overrides r)) (pi_rules p)
     \<and> acyclic (override_relation (pi_rules p))"
  unfolding valid_policy_ir_iff list_all_iff by simp



text \<open>
  The catch-all test is exact: it answers True precisely when every admissible set of facts meets
  the whole condition, daily totals included.
\<close>

theorem catch_all_test_exact:
  assumes "list_all valid_predicate ps"
  shows "conditions_unrestricted ps = Inr (\<nexists>facts. valid_facts facts \<and> \<not> all_hold ps facts)"
  using conditions_unrestricted_exact [OF assms] by simp

lemma catch_all_test_exact_witness:
  "conditions_unrestricted (r_when manager_rule) =
   Inr (\<nexists>facts. valid_facts facts \<and> \<not> all_hold (r_when manager_rule) facts)"
  by (rule catch_all_test_exact) code_simp

text \<open>
  C22: Rule-set validation accepts exactly the valid policies all of whose rules can fire; the second,
  per-dimension cycle search never refuses what the policy validator accepted.
\<close>

theorem rule_set_accepted_exact:
  "validate_rule_set p = Inr () \<longleftrightarrow>
   valid_policy_ir p \<and> \<not> list_ex impossible (pi_rules p)"
  unfolding validate_rule_set_ok_iff impossible_def list_ex_iff by blast

text \<open>
  On a policy its validator accepts, the only refusal left is UNSATISFIABLE, and it names the
  first rule no admissible facts can fire.
\<close>

theorem rule_set_refusal:
  assumes "valid_policy_ir p"
  shows "validate_rule_set p =
    (case find impossible (pi_rules p) of
       None \<Rightarrow> Inr ()
     | Some r \<Rightarrow> Inl (ValueError (''UNSATISFIABLE: '' @ r_rule_id r)))"
  by (rule validate_rule_set_outcome [OF assms])

lemma rule_set_refusal_witness:
  "validate_rule_set sample_policy =
    (case find impossible (pi_rules sample_policy) of
       None \<Rightarrow> Inr ()
     | Some r \<Rightarrow> Inl (ValueError (''UNSATISFIABLE: '' @ r_rule_id r)))"
  by (rule rule_set_refusal [OF sample_policy_valid])

subsection \<open>Predicates, compliance and assertions\<close>

text \<open>
  C36: A validated predicate on validated facts never raises TypeError or any other exception, and
  evaluates to its meaning: integer comparison, equality of names, membership, presence of an
  approval role.
\<close>

theorem predicate_total:
  assumes "valid_predicate p" and "valid_facts facts"
  shows "evaluate_predicate p facts = Inr \<lparr>pt_matched = holds p facts\<rparr>"
  by (rule evaluate_predicate_holds [OF assms])

lemma predicate_total_witness:
  "evaluate_predicate (hd (r_when manager_rule)) (sample_facts RoleManager Hotel) =
     Inr \<lparr>pt_matched = holds (hd (r_when manager_rule)) (sample_facts RoleManager Hotel)\<rparr>
   \<and> holds (hd (r_when manager_rule)) (sample_facts RoleManager Hotel)"
proof
  show "evaluate_predicate (hd (r_when manager_rule)) (sample_facts RoleManager Hotel) =
     Inr \<lparr>pt_matched = holds (hd (r_when manager_rule)) (sample_facts RoleManager Hotel)\<rparr>"
    by (rule predicate_total) code_simp+
  show "holds (hd (r_when manager_rule)) (sample_facts RoleManager Hotel)" by code_simp
qed

text \<open>
  Compliance of validated facts with a value of the dimension's kind is a value, never an
  exception: nothing for eligibility, otherwise COMPLIANT exactly when the claim meets the
  requirement (receipt, approval rank, claim amount, daily total).
\<close>

theorem compliance_total:
  assumes "valid_facts facts" and "effect_value_fits d v"
  shows "derive_compliance d v facts =
    Inr (if d = Eligibility then None
         else Some \<lparr>cr_dimension = d, cr_status = (if meets d v facts then Compliant else Noncompliant)\<rparr>)"
  by (rule derive_compliance_meets [OF assms])

lemma compliance_total_witness:
  "derive_compliance ApprovalRequirement NeedDirector (sample_facts RoleManager Hotel) =
    Inr (if ApprovalRequirement = Eligibility then None
         else Some \<lparr>cr_dimension = ApprovalRequirement,
           cr_status = (if meets ApprovalRequirement NeedDirector (sample_facts RoleManager Hotel)
                        then Compliant else Noncompliant)\<rparr>)"
  by (rule compliance_total) code_simp+



subsection \<open>Resolution of a dimension\<close>

text \<open>
  C10: The function resolve_dimension, with its dictionaries and removed sets, computes the set-based
  specification: unsupported clauses in force make the dimension INCONCLUSIVE; otherwise the rules
  that apply, less those another applicable rule overrides on this dimension, determine GAP or
  NOT_APPLICABLE, VALUE, or CONFLICT with the surviving values in order.
\<close>

theorem resolution_refines_specification:
  assumes "valid_policy_ir policy" and "valid_scenario s"
    and "traverse (\<lambda>r. rule_matches r (sc_facts s)) (sort_key r_rule_id (pi_rules policy)) = Inr traces"
  shows "resolve_dimension policy s d required traces = Inr (resolution policy (sc_facts s) d required)"
proof -
  note facts = valid_scenario_facts [OF assms(2)]
  have "traces = map (rule_trace_of (sc_facts s)) (sort_key r_rule_id (pi_rules policy))"
    using traces_stage(1) [OF assms(1) facts] assms(3) by simp
  then show ?thesis
    using resolve_dimension_resolution [OF assms(1) facts] traces_stage(2) [OF assms(1) facts] by simp
qed

lemma resolution_refines_specification_witness:
  "\<exists>traces. resolve_dimension sample_policy (sample_scenario ''s1'' RoleManager Hotel) ClaimCapMinor {ClaimCapMinor} traces =
     Inr (resolution sample_policy (sample_facts RoleManager Hotel) ClaimCapMinor {ClaimCapMinor})"
  using resolution_refines_specification [OF sample_policy_valid sample_scenario_valid(1)
      traces_stage(1) [OF sample_policy_valid valid_scenario_facts [OF sample_scenario_valid(1)]]]
  by (auto simp: sample_scenario_def)



text \<open>
  C35: The order in which a policy lists its rules has no influence: two valid policies with the same
  rules and clauses resolve every dimension of every scenario alike.
\<close>

theorem resolution_ignores_rule_order:
  assumes "valid_policy_ir policy" and "valid_policy_ir policy'" and "valid_scenario s"
    and "mset (pi_rules policy) = mset (pi_rules policy')"
    and "pi_unsupported_clauses policy = pi_unsupported_clauses policy'"
    and "traverse (\<lambda>r. rule_matches r (sc_facts s)) (sort_key r_rule_id (pi_rules policy)) = Inr traces"
  shows "resolve_dimension policy s d required traces = resolve_dimension policy' s d required traces"
proof -
  note facts = valid_scenario_facts [OF assms(3)]
  have set: "set (pi_rules policy) = set (pi_rules policy')" using assms(4) by (rule mset_eq_setD)
  have traces: "traces = map (rule_trace_of (sc_facts s)) (sort_key r_rule_id (pi_rules policy))"
    using traces_stage(1) [OF assms(1) facts] assms(6) by simp
  have "traces_of (pi_rules policy) (sc_facts s) traces"
    unfolding traces by (rule traces_stage(2) [OF assms(1) facts])
  moreover from this have "traces_of (pi_rules policy') (sc_facts s) traces"
    unfolding traces_of_def set .
  ultimately show ?thesis
    using resolve_dimension_resolution [OF assms(1) facts] resolve_dimension_resolution [OF assms(2) facts]
      resolution_rule_set [OF set assms(5)]
    by simp
qed

lemma resolution_ignores_rule_order_witness:
  "\<exists>traces. resolve_dimension sample_policy (sample_scenario ''s1'' RoleManager Hotel) ClaimCapMinor {} traces =
     resolve_dimension (sample_policy\<lparr>pi_rules := [manager_rule, hotel_rule]\<rparr>)
       (sample_scenario ''s1'' RoleManager Hotel) ClaimCapMinor {} traces"
proof -
  have "valid_policy_ir (sample_policy\<lparr>pi_rules := [manager_rule, hotel_rule]\<rparr>)" by code_simp
  from resolution_ignores_rule_order [OF sample_policy_valid this sample_scenario_valid(1) _ _
      traces_stage(1) [OF sample_policy_valid valid_scenario_facts [OF sample_scenario_valid(1)]]]
  show ?thesis by (auto simp: sample_policy_def)
qed

subsection \<open>Evaluation of scenarios and suites\<close>

text \<open>
  C12: On a valid policy, contract and scenario, evaluation always returns a well-formed result; the
  verdict is ERROR exactly when a frozen assertion and a matched invariant's assertion contend for
  one identifier; otherwise it is FAIL when some assertion fails, else INCONCLUSIVE when some is
  inconclusive, else PASS when there is an assertion and UNSCORED when there is none.
\<close>

theorem scenario_verdict:
  assumes "valid_policy_ir policy" and "valid_contract contract" and "valid_scenario s" and "hex_digest sha"
  shows "\<exists>e. evaluate_scenario sha policy contract s = Inr e \<and> valid_scenario_evaluation e
    \<and> se_verdict e =
      (let statuses = set (map ar_status (expected_results policy contract s)) in
       if contended contract s then VError
       else if AFail \<in> statuses then VFail
       else if AInconclusive \<in> statuses then VInconclusive
       else if assertions_in_force contract s = [] then VUnscored else VPass)"
proof -
  have "AError \<notin> set (map ar_status (expected_results policy contract s))"
    by (auto simp: expected_results_def dest: expected_assertion_no_error [THEN notE, OF sym])
  moreover have "(expected_results policy contract s = []) = (assertions_in_force contract s = [])"
    by (simp add: expected_results_def)
  ultimately have "se_verdict (scenario_outcome sha policy contract s) =
      (let statuses = set (map ar_status (expected_results policy contract s)) in
       if contended contract s then VError
       else if AFail \<in> statuses then VFail
       else if AInconclusive \<in> statuses then VInconclusive
       else if assertions_in_force contract s = [] then VUnscored else VPass)"
    by (simp add: scenario_outcome_def expected_error_def expected_evaluation_def verdict_of_def Let_def)
  then show ?thesis
    using evaluate_scenario_outcome [OF assms] by blast
qed

lemma scenario_verdict_witness:
  "\<exists>e. evaluate_scenario sample_sha sample_policy sample_contract (sample_scenario ''s1'' RoleManager Hotel) = Inr e
    \<and> valid_scenario_evaluation e"
  using scenario_verdict [OF sample_policy_valid sample_contract_valid sample_scenario_valid(1) sample_sha_digest]
  by blast

text \<open>
  C30: Every assertion of the scenario and of every matched invariant is scored exactly once, in the
  order of identifiers, and its outcome is the one its expectation demands of the resolved dimension.
\<close>

theorem assertions_scored_as_expected:
  assumes "valid_policy_ir policy" and "valid_contract contract" and "valid_scenario s" and "hex_digest sha"
    and "\<not> contended contract s"
  shows "\<exists>e. evaluate_scenario sha policy contract s = Inr e
    \<and> se_assertion_results e =
        map (\<lambda>a. expected_assertion (sc_facts s) (expected_dimension policy contract s (a_dimension a)) a)
          (assertions_in_force contract s)
    \<and> et_resolved_effects (se_trace e) = map (expected_dimension policy contract s) effect_dimensions"
  using evaluate_scenario_outcome(1) [OF assms(1-4)] assms(5)
  by (simp add: scenario_outcome_def expected_evaluation_def expected_results_def expected_trace_fields)

lemma assertions_scored_as_expected_witness:
  "\<exists>e. evaluate_scenario sample_sha sample_policy sample_contract (sample_scenario ''s1'' RoleManager Hotel) = Inr e
    \<and> length (se_assertion_results e) = 3"
proof -
  let ?s = "sample_scenario ''s1'' RoleManager Hotel"
  have "\<not> contended sample_contract ?s" by (simp add: contended_def sample_scenario_def)
  from assertions_scored_as_expected [OF sample_policy_valid sample_contract_valid
      sample_scenario_valid(1) sample_sha_digest this]
  obtain e where e: "evaluate_scenario sample_sha sample_policy sample_contract ?s = Inr e"
    "se_assertion_results e = map (\<lambda>a. expected_assertion (sc_facts ?s)
       (expected_dimension sample_policy sample_contract ?s (a_dimension a)) a)
       (assertions_in_force sample_contract ?s)"
    by blast
  have "length (assertions_in_force sample_contract ?s) = 3" by code_simp
  with e show ?thesis by auto
qed

text \<open>
  C1: On a request that is valid, whose rules are possible and whose anchors match, the engine returns
  a report its own validator accepts, with one result per scenario in the order of identifiers, and a
  coverage snapshot whose counts are the numbers of distinct rules, invariants and predicate branches
  that some scored scenario reaches, with exactly the unreached ones listed as missing.
\<close>

theorem engine_report_exact:
  assumes "validate_rule_set (ep_policy request) = Inr ()" and "valid_contract (ep_contract request)"
    and "valid_suite (ep_suite request)" and "valid_by input_hashes_checks (ep_inputs request)"
    and "validate_evaluation_anchors sha request = Inr ()" and "hex_digest sha"
  shows "\<exists>report. evaluate sha request = Inr report \<and> valid_report report
    \<and> er_inputs report = ep_inputs request
    \<and> er_results report = map (scenario_outcome sha (ep_policy request) (ep_contract request))
        (sort_key sc_scenario_id (ss_scenarios (ep_suite request)))
    \<and> coverage_describes request (er_coverage report)"
  by (rule evaluate_reports [OF assms])

lemma engine_report_exact_witness:
  "\<exists>report. evaluate sample_sha sample_request = Inr report \<and> valid_report report"
proof -
  have "\<exists>report. evaluate sample_sha sample_request = Inr report \<and> valid_report report
    \<and> er_inputs report = ep_inputs sample_request
    \<and> er_results report = map (scenario_outcome sample_sha (ep_policy sample_request) (ep_contract sample_request))
        (sort_key sc_scenario_id (ss_scenarios (ep_suite sample_request)))
    \<and> coverage_describes sample_request (er_coverage report)"
    by (rule engine_report_exact)
      (simp_all add: sample_request_def sample_rules_possible sample_contract_valid sample_suite_valid
        sample_inputs_valid sample_sha_digest sample_anchors [unfolded sample_request_def])
  then show ?thesis by blast
qed

subsection \<open>Metrics\<close>

text \<open>
  Percentages are the nearest integer to the exact ratio, halves rounded up, and lie between 0 and
  100 whenever the numerator is at most the denominator.
\<close>

theorem percent_rounds_to_nearest:
  fixes n d :: int
  assumes "0 < d"
  shows "\<exists>p. percent n d = Some p \<and> 2 * (p * d - 100 * n) \<le> d \<and> - d < 2 * (p * d - 100 * n) + 1
    \<and> (if 0 \<le> n \<and> n \<le> d then 0 \<le> p \<and> p \<le> 100 else True)"
  using percent_nearest [OF assms, of n] percent_range [of n d] by (auto simp: percentage_ok_def)

lemma percent_rounds_to_nearest_witness:
  "\<exists>p. percent 2 3 = Some p \<and> 2 * (p * 3 - 100 * 2) \<le> 3 \<and> - 3 < 2 * (p * 3 - 100 * 2) + (1 :: int)"
  using percent_rounds_to_nearest [of 3 2] by auto


definition sample_report :: evaluation_report where
  "sample_report = \<lparr>er_report_id = ''report'', er_inputs = sample_inputs, er_engine_version = engine_version,
     er_results = [], er_coverage = \<lparr>cs_total_rules = 0, cs_covered_rules = 0, cs_total_invariants = 0,
       cs_covered_invariants = 0, cs_total_predicate_branches = 0, cs_covered_predicate_branches = 0,
       cs_evidence = [], cs_missing_rule_ids = [], cs_missing_invariant_ids = [],
       cs_targeted_cycles = 0, cs_status = CoveragePending\<rparr>\<rparr>"


subsection \<open>Digests\<close>

text \<open>
  C26: Two JSON values have the same canonical bytes exactly when they agree up to the order of object
  members: the text that is hashed loses nothing else.
\<close>

theorem canonical_text_injective:
  "canonical_bytes j = canonical_bytes k \<longleftrightarrow> sort_members j = sort_members k"
  by (rule canonical_bytes_iff)

text \<open>
  The payload digest of a suite exists and does not depend on the digest stored in it, and the
  digest of a trace does not depend on the trace's own digest, so both can be recomputed and compared.
\<close>

theorem self_digests_excluded:
  "payload_hash sha (suite_obj (s\<lparr>ss_content_sha256 := h\<rparr>)) = payload_hash sha (suite_obj s)
   \<and> payload_hash sha (trace_obj (t\<lparr>et_trace_sha256 := h\<rparr>)) = payload_hash sha (trace_obj t)
   \<and> ok (payload_hash sha (suite_obj s)) \<and> ok (payload_hash sha (trace_obj t))"
  using suite_self_digest trace_self_digest by (simp add: payload_hash_view)

text \<open>
  The semantic digest of a rule set ignores the descriptions and confidences of its rules, so
  rewording a rule does not detach the suite anchored to it.
\<close>

theorem semantic_digest_ignores_display:
  "rule_set_hash sha (redescribe f p) = rule_set_hash sha p"
  by (simp add: rule_set_hash_def semantic_hash_redescribe)

end
