(* ===== verification/Findings.thy ===== *)
theory Findings
  imports Engine_Report
begin

section \<open>Grouping of witnesses into findings (features/evaluation/findings.py)\<close>

text \<open>
  The analyzer walks the results of an evaluation, adds every breach, gap, conflict and unsupported
  clause to the group of its fingerprint, and turns the groups into a report. The second half gives
  the events an evaluation contains, independently of the walk, and shows that the report holds
  exactly them.
\<close>

subsection \<open>Fingerprints\<close>

definition fingerprint_payload ::
  "finding_type \<Rightarrow> effect_dimension \<Rightarrow> ident list \<Rightarrow> ident option \<Rightarrow> ident option
   \<Rightarrow> sha256 option \<Rightarrow> sha256 list \<Rightarrow> pyobj" where
  "fingerprint_payload kind dimension rule_ids invariant_id assertion_id span_sha fact_shas = PMap
     ([(Some ''type'', PStr (finding_type_name kind)), (Some ''dimension'', dimension_obj dimension)]
      @ (case kind of
           StructuralGap \<Rightarrow> [(Some ''rule_ids'', strs_obj (sorted_unique rule_ids))]
         | Conflict \<Rightarrow> [(Some ''rule_ids'', strs_obj (sorted_unique rule_ids))]
         | IntentBreach \<Rightarrow> [(Some ''invariant_id'', opt_obj PStr invariant_id)]
         | UnsupportedClauseFinding \<Rightarrow> [(Some ''source_span_sha256'', opt_obj PStr span_sha)]
         | Regression \<Rightarrow> [(Some ''assertion_id'', opt_obj PStr assertion_id)]
         | PotentialLoophole \<Rightarrow>
             [(Some ''rule_ids'', strs_obj (sorted_unique rule_ids)),
              (Some ''invariant_id'', opt_obj PStr invariant_id),
              (Some ''scenario_fact_sha256s'', strs_obj (sorted_unique fact_shas))]))"

definition finding_fingerprint ::
  "(string \<Rightarrow> sha256) \<Rightarrow> finding_type \<Rightarrow> effect_dimension \<Rightarrow> ident list \<Rightarrow> ident option \<Rightarrow> ident option
   \<Rightarrow> sha256 option \<Rightarrow> sha256 list \<Rightarrow> sha256 result" where
  "finding_fingerprint sha kind dimension rule_ids invariant_id assertion_id span_sha fact_shas =
     canonical_sha256 sha
       (fingerprint_payload kind dimension rule_ids invariant_id assertion_id span_sha fact_shas)"

subsection \<open>Groups\<close>

text \<open>The dictionary the code keeps per fingerprint; finding_id and fingerprint are its key.\<close>

record finding_group =
  fg_finding_type :: finding_type
  fg_dimension :: effect_dimension
  fg_rule_ids :: "ident list"
  fg_invariant_id :: "ident option"
  fg_assertion_id :: "ident option"
  fg_evidence_level :: evidence_level
  fg_severity :: "severity option"
  fg_severity_origin :: "severity_origin option"
  fg_witnesses :: "(ident \<times> trace_ref) list"
  fg_citations :: "(sha256 \<times> source_span) list"

type_synonym groups = "(sha256 \<times> finding_group) list"

text \<open>The arguments of one call of \<open>add\<close>; of the result it uses the two fields of the trace reference.\<close>

record finding_event =
  fe_trace :: trace_ref
  fe_kind :: finding_type
  fe_dimension :: effect_dimension
  fe_rule_ids :: "ident list"
  fe_invariant_id :: "ident option"
  fe_assertion_id :: "ident option"
  fe_clause :: "unsupported_clause option"

text \<open>Truth of an optional string.\<close>

definition truthy :: "string option \<Rightarrow> bool" where
  "truthy v = (case v of None \<Rightarrow> False | Some s \<Rightarrow> s \<noteq> [])"

definition group_severity :: "policy_contract \<Rightarrow> ident option \<Rightarrow> severity option result" where
  "group_severity contract invariant_id =
     (if truthy invariant_id then
        rbind (lookup (dict_by i_invariant_id (pc_invariants contract)) (the invariant_id))
          (\<lambda>i. Inr (Some (i_severity i)))
      else Inr None)"

definition new_group :: "policy_contract \<Rightarrow> finding_event \<Rightarrow> finding_group result" where
  "new_group contract e =
     rbind (group_severity contract (fe_invariant_id e)) (\<lambda>severity. Inr
       \<lparr>fg_finding_type = fe_kind e, fg_dimension = fe_dimension e,
        fg_rule_ids = sorted_unique (fe_rule_ids e), fg_invariant_id = fe_invariant_id e,
        fg_assertion_id = fe_assertion_id e,
        fg_evidence_level =
          (if truthy (fe_invariant_id e) then EvidenceSessionConfirmed
           else if fe_clause e \<noteq> None then Candidate else MechanicallyReproduced),
        fg_severity = severity,
        fg_severity_origin = (if truthy (fe_invariant_id e) then Some SessionInvariant else None),
        fg_witnesses = [], fg_citations = []\<rparr>)"

fun text_span :: "rule_provenance \<Rightarrow> source_span list" where
  "text_span (TextCitation t) = [tp_span t]"
| "text_span (SessionRevision s) = []"

definition event_spans :: "policy_ir \<Rightarrow> finding_event \<Rightarrow> source_span list" where
  "event_spans policy e =
     (case fe_clause e of
        Some clause \<Rightarrow> [uc_span clause]
      | None \<Rightarrow> concat (map (\<lambda>rid.
          case map_of (rules_by_id (pi_rules policy)) rid of
            None \<Rightarrow> []
          | Some r \<Rightarrow> text_span (r_provenance r)) (fe_rule_ids e)))"

definition hash_span :: "(string \<Rightarrow> sha256) \<Rightarrow> source_span \<Rightarrow> sha256 result" where
  "hash_span sha span = canonical_sha256 sha (span_obj span)"

definition event_fingerprint :: "(string \<Rightarrow> sha256) \<Rightarrow> finding_event \<Rightarrow> sha256 result" where
  "event_fingerprint sha e =
     rbind (case fe_clause e of
              None \<Rightarrow> Inr None
            | Some clause \<Rightarrow> rbind (hash_span sha (uc_span clause)) (\<lambda>h. Inr (Some h))) (\<lambda>span_sha.
       finding_fingerprint sha (fe_kind e) (fe_dimension e) (fe_rule_ids e) (fe_invariant_id e)
         (fe_assertion_id e) span_sha [])"

definition add_finding ::
  "(string \<Rightarrow> sha256) \<Rightarrow> policy_ir \<Rightarrow> policy_contract \<Rightarrow> finding_event \<Rightarrow> groups \<Rightarrow> groups result" where
  "add_finding sha policy contract e groups =
     rbind (event_fingerprint sha e) (\<lambda>fingerprint.
     rbind (case map_of groups fingerprint of
              Some g \<Rightarrow> Inr g
            | None \<Rightarrow> new_group contract e) (\<lambda>g.
     rbind (validated trace_ref_checks (fe_trace e)) (\<lambda>t.
     rbind (traverse (\<lambda>span. rbind (hash_span sha span) (\<lambda>h. Inr (h, span))) (event_spans policy e))
       (\<lambda>spans. Inr (AList.update fingerprint
         (g\<lparr>fg_witnesses := AList.update (tr_scenario_id t) t (fg_witnesses g),
            fg_citations := fold (\<lambda>(h, span). AList.update h span) spans (fg_citations g)\<rparr>)
         groups)))))"

subsection \<open>The walk over the results\<close>

text \<open>\<open>tuple(r.rule_id for r in rules if any(e.dimension == d for e in r.effects))\<close>.\<close>

definition concerned_rules :: "policy_ir \<Rightarrow> effect_dimension \<Rightarrow> ident list" where
  "concerned_rules policy d =
     map r_rule_id (filter (\<lambda>r. d \<in> set (effect_dims (r_effects r))) (pi_rules policy))"

definition trace_of_result :: "scenario_evaluation \<Rightarrow> trace_ref" where
  "trace_of_result result =
     \<lparr>tr_scenario_id = se_scenario_id result, tr_trace_sha256 = et_trace_sha256 (se_trace result)\<rparr>"

definition breach_event :: "policy_ir \<Rightarrow> trace_ref \<Rightarrow> assertion \<Rightarrow> finding_event" where
  "breach_event policy t a =
     \<lparr>fe_trace = t, fe_kind = IntentBreach, fe_dimension = a_dimension a,
      fe_rule_ids = concerned_rules policy (a_dimension a),
      fe_invariant_id = a_source_invariant_id a, fe_assertion_id = None, fe_clause = None\<rparr>"

definition breached :: "policy_ir \<Rightarrow> assertion \<Rightarrow> assertion_status \<Rightarrow> dimension_result \<Rightarrow> bool" where
  "breached policy a status d \<longleftrightarrow>
     truthy (a_source_invariant_id a)
     \<and> (status = AFail \<or> (dr_status d = EGap \<and> concerned_rules policy (a_dimension a) = []))"

definition analyze_assertion ::
  "(string \<Rightarrow> sha256) \<Rightarrow> policy_ir \<Rightarrow> policy_contract \<Rightarrow> scenario_evaluation \<Rightarrow> (ident \<times> assertion) list
   \<Rightarrow> assertion_result \<Rightarrow> groups \<times> effect_dimension set \<Rightarrow> (groups \<times> effect_dimension set) result" where
  "analyze_assertion sha policy contract result assertions outcome state =
     (case map_of assertions (ar_assertion_id outcome) of
        None \<Rightarrow> Inl (ValueError ''unknown assertion result'')
      | Some a \<Rightarrow>
          rbind (find_first (\<lambda>d. dr_dimension d = a_dimension a) (et_resolved_effects (se_trace result)))
            (\<lambda>d. if breached policy a (ar_status outcome) d then
               rbind (add_finding sha policy contract
                        (breach_event policy (trace_of_result result) a) (fst state)) (\<lambda>groups.
               Inr (groups, if a_dimension a \<notin> pc_required_dimensions contract
                            then insert (a_dimension a) (snd state) else snd state))
             else Inr state))"

definition gap_event :: "policy_ir \<Rightarrow> trace_ref \<Rightarrow> effect_dimension \<Rightarrow> finding_event" where
  "gap_event policy t d =
     \<lparr>fe_trace = t, fe_kind = StructuralGap, fe_dimension = d, fe_rule_ids = concerned_rules policy d,
      fe_invariant_id = None, fe_assertion_id = None, fe_clause = None\<rparr>"

definition conflict_event :: "trace_ref \<Rightarrow> dimension_result \<Rightarrow> finding_event" where
  "conflict_event t d =
     \<lparr>fe_trace = t, fe_kind = Conflict, fe_dimension = dr_dimension d,
      fe_rule_ids = filter (\<lambda>r. r \<notin> set (dr_overridden_rule_ids d)) (dr_applicable_rule_ids d),
      fe_invariant_id = None, fe_assertion_id = None, fe_clause = None\<rparr>"

definition clause_event :: "trace_ref \<Rightarrow> effect_dimension \<Rightarrow> unsupported_clause \<Rightarrow> finding_event" where
  "clause_event t d clause =
     \<lparr>fe_trace = t, fe_kind = UnsupportedClauseFinding, fe_dimension = d, fe_rule_ids = [],
      fe_invariant_id = None, fe_assertion_id = None, fe_clause = Some clause\<rparr>"

definition analyze_dimension ::
  "(string \<Rightarrow> sha256) \<Rightarrow> policy_ir \<Rightarrow> policy_contract \<Rightarrow> scenario_evaluation \<Rightarrow> effect_dimension set
   \<Rightarrow> dimension_result \<Rightarrow> groups \<Rightarrow> groups result" where
  "analyze_dimension sha policy contract result gap_dimensions d groups =
     (let t = trace_of_result result in
      rbind
        (if dr_status d = EGap \<and> dr_dimension d \<notin> gap_dimensions then
           add_finding sha policy contract (gap_event policy t (dr_dimension d)) groups
         else if dr_status d = EConflict then
           add_finding sha policy contract (conflict_event t d) groups
         else Inr groups) (\<lambda>groups.
      rfold (\<lambda>clause_id groups.
          rbind (find_first (\<lambda>c. uc_clause_id c = clause_id) (pi_unsupported_clauses policy)) (\<lambda>clause.
            add_finding sha policy contract (clause_event t (dr_dimension d) clause) groups))
        (dr_unsupported_clause_ids d) groups))"

definition analyze_result ::
  "(string \<Rightarrow> sha256) \<Rightarrow> analyze_findings_request \<Rightarrow> scenario_evaluation \<Rightarrow> groups \<Rightarrow> groups result" where
  "analyze_result sha request result groups =
     (let policy = af_policy request; contract = af_contract request in
      rbind (lookup (dict_by sc_scenario_id (ss_scenarios (af_suite request))) (se_scenario_id result))
        (\<lambda>s. if se_verdict result = VError then Inr groups else
      rbind (scenario_assertions contract s) (\<lambda>assertions.
      rbind (rfold (analyze_assertion sha policy contract result (dict_by a_assertion_id assertions))
               (se_assertion_results result) (groups, {})) (\<lambda>state.
      rfold (analyze_dimension sha policy contract result (snd state))
        (et_resolved_effects (se_trace result)) (fst state)))))"

subsection \<open>The report\<close>

definition finding_of :: "sha256 \<times> finding_group \<Rightarrow> finding" where
  "finding_of entry =
     (case entry of (fingerprint, g) \<Rightarrow>
        \<lparr>fd_finding_id = ''finding-'' @ fingerprint, fd_fingerprint_sha256 = fingerprint,
         fd_finding_type = fg_finding_type g, fd_evidence_level = fg_evidence_level g,
         fd_scenario_ids = sort (keys (fg_witnesses g)), fd_rule_ids = fg_rule_ids g,
         fd_invariant_id = fg_invariant_id g, fd_assertion_id = fg_assertion_id g,
         fd_dimension = fg_dimension g,
         fd_traces = map snd (sort_key fst (fg_witnesses g)),
         fd_citations = map snd (sort_key fst (fg_citations g)),
         fd_review_status = Pending, fd_severity = fg_severity g,
         fd_severity_origin = fg_severity_origin g\<rparr>)"

definition finding_anchors ::
  "(string \<Rightarrow> sha256) \<Rightarrow> analyze_findings_request \<Rightarrow> unit result" where
  "finding_anchors sha request =
     (let inputs = er_inputs (af_evaluation request) in
      rbind (payload_hash sha (policy_obj (af_policy request))) (\<lambda>policy_hash.
      rbind (payload_hash sha (contract_obj (af_contract request))) (\<lambda>contract_hash.
      rbind (payload_hash sha (suite_obj (af_suite request))) (\<lambda>suite_hash.
      check_all
        [(\<not> (ih_policy_sha256 inputs \<noteq> policy_hash \<or> ih_contract_sha256 inputs \<noteq> contract_hash
              \<or> ih_suite_sha256 inputs \<noteq> suite_hash),
          ''HASH_MISMATCH: finding input anchors''),
         (set (map sc_scenario_id (ss_scenarios (af_suite request))) =
            set (map se_scenario_id (er_results (af_evaluation request))),
          ''finding evaluation scenario set mismatch'')]))))"

definition analyze :: "(string \<Rightarrow> sha256) \<Rightarrow> analyze_findings_request \<Rightarrow> finding_report result" where
  "analyze sha request =
     rbind (finding_anchors sha request) (\<lambda>_.
     rbind (rfold (analyze_result sha request)
              (sort_key se_scenario_id (er_results (af_evaluation request))) []) (\<lambda>groups.
     rbind (traverse (\<lambda>entry. validated finding_checks (finding_of entry)) (sort_key fst groups))
       (\<lambda>findings.
     rbind (canonical_sha256 sha (seq_obj finding_obj findings)) (\<lambda>digest.
       validated finding_report_checks
         \<lparr>fr_report_id = ''findings-'' @ digest, fr_inputs = er_inputs (af_evaluation request),
          fr_findings = findings\<rparr>))))"

end
