(* ===== verification/Signatures.thy ===== *)
theory Signatures
  imports Payloads
begin

section \<open>Semantic rule signatures (features/evaluation/signatures.py)\<close>

text \<open>
  The signature of a rule is a digest of its conditions as a set, its effects, and the signatures of
  the rules it overrides; identifiers, wording and provenance do not enter it.
\<close>

text \<open>\<open>tuple(sorted(set(p.value)))\<close> for membership, else the value; a string iterates by characters.\<close>

definition signature_value :: "predicate \<Rightarrow> pyobj result" where
  "signature_value p =
     (if p_operator p \<in> {Op_in, Op_not_in} then
        (case p_value p of
           VTuple items \<Rightarrow> Inr (strs_obj (sorted_unique items))
         | VStr s \<Rightarrow> Inr (strs_obj (sorted_unique (map (\<lambda>c. [c]) s)))
         | VSet A \<Rightarrow> Inr (strs_obj (sorted_list_of_set A))
         | _ \<Rightarrow> Inl TypeError)
      else Inr (pyval_obj (p_value p)))"

definition predicate_signature :: "(string \<Rightarrow> sha256) \<Rightarrow> predicate \<Rightarrow> sha256 result" where
  "predicate_signature sha p =
     rbind (signature_value p) (\<lambda>v.
       canonical_sha256 sha (PMap
         [(Some ''field'', PStr (predicate_field_name (p_field p))),
          (Some ''operator'', PStr (predicate_operator_name (p_operator p))), (Some ''value'', v)]))"

definition base_rule_signature :: "(string \<Rightarrow> sha256) \<Rightarrow> 'a rule_draft_scheme \<Rightarrow> sha256 result" where
  "base_rule_signature sha r =
     rbind (traverse (predicate_signature sha) (r_when r)) (\<lambda>predicates.
       canonical_sha256 sha (PMap
         [(Some ''when'', strs_obj (sorted_unique predicates)),
          (Some ''effects'', seq_obj (\<lambda>e. PSeq [dimension_obj (e_dimension e), effect_value_obj (e_value e)])
             (sort_key (\<lambda>e. (e_dimension e, e_value e)) (r_effects r)))]))"

definition semantic_rule_signature ::
  "(string \<Rightarrow> sha256) \<Rightarrow> rule \<Rightarrow> (ident \<times> rule) list \<Rightarrow> sha256 result" where
  "semantic_rule_signature sha r by_id =
     rbind (base_rule_signature sha r) (\<lambda>base.
     rbind (traverse (\<lambda>o'. rbind (lookup by_id (ov_target_rule_id o')) (\<lambda>target.
              rbind (base_rule_signature sha target) (\<lambda>h. Inr (ov_dimension o', h)))) (r_overrides r))
       (\<lambda>edges.
       canonical_sha256 sha (PMap
         [(Some ''base'', PStr base),
          (Some ''overrides'', seq_obj (\<lambda>(d, h). PSeq [dimension_obj d, PStr h]) (sort edges))])))"

subsection \<open>Totality\<close>

lemma canonical_sha256_ex: "hashable v \<Longrightarrow> \<exists>b. canonical_sha256 sha v = Inr (sha b)"
  by (auto simp: canonical_sha256_norm)

lemma signature_value_total:
  assumes "valid_predicate p"
  shows "\<exists>v. signature_value p = Inr v \<and> hashable v"
proof (cases "p_operator p \<in> {Op_in, Op_not_in}")
  case True
  then have "\<exists>items. p_value p = VTuple items"
    using assms by (cases "p_field p") (auto simp: valid_by_def predicate_checks_def typed_value_check_def
        operators_by_field_def comparisons_def Let_def split: option.splits pyval.splits if_splits)
  then show ?thesis using True by (auto simp: signature_value_def)
qed (simp add: signature_value_def)

lemma predicate_signature_total:
  assumes "valid_predicate p"
  shows "\<exists>b. predicate_signature sha p = Inr (sha b)"
  using signature_value_total [OF assms] by (auto simp: predicate_signature_def intro!: canonical_sha256_ex)

lemma base_rule_signature_total:
  assumes "list_all valid_predicate (r_when r)"
  shows "\<exists>b. base_rule_signature sha r = Inr (sha b)"
proof -
  have "\<forall>p \<in> set (r_when r). \<exists>h. predicate_signature sha p = Inr h"
    using assms predicate_signature_total by (auto simp: list_all_iff) blast
  then obtain f where "\<forall>p \<in> set (r_when r). predicate_signature sha p = Inr (f p)" by metis
  then have "traverse (predicate_signature sha) (r_when r) = Inr (map f (r_when r))"
    by (intro traverse_eq_map) blast
  then show ?thesis by (auto simp: base_rule_signature_def list_all_iff intro!: canonical_sha256_ex)
qed

text \<open>Renaming a rule, rewording it or moving its provenance does not change its signature.\<close>

lemma signature_ignores_identity:
  "semantic_rule_signature sha
     (r\<lparr>r_rule_id := i, r_revision := n, r_description := t, r_provenance := q, r_confidence_percent := c\<rparr>) rules =
   semantic_rule_signature sha r rules"
  by (simp add: semantic_rule_signature_def base_rule_signature_def)

end
