(* ===== verification/Patches.thy ===== *)
theory Patches
  imports Findings Signatures Revision_Models
begin

section \<open>Applying a structured revision (features/evaluation/patches.py)\<close>

text \<open>
  A proposal is checked against the findings it targets, applied to a copy of the rules, and only a
  policy every validator accepts is returned; any refusal leaves the caller with an error result and
  no policy. Python's \<open>str(exc)\<close> of an exception is the parameter \<open>text\<close>.
\<close>

subsection \<open>Targets and anchors\<close>

definition baseline_findings ::
  "(string \<Rightarrow> sha256) \<Rightarrow> policy_ir \<Rightarrow> policy_contract \<Rightarrow> scenario_suite \<Rightarrow> finding list result" where
  "baseline_findings sha policy contract suite =
     rbind (payload_hash sha (policy_obj policy)) (\<lambda>policy_hash.
     rbind (payload_hash sha (contract_obj contract)) (\<lambda>contract_hash.
     rbind (payload_hash sha (suite_obj suite)) (\<lambda>suite_hash.
     rbind (validated input_hashes_checks
              \<lparr>ih_policy_sha256 = policy_hash, ih_contract_sha256 = contract_hash,
               ih_suite_sha256 = suite_hash, ih_engine_sha256 = zero_sha256,
               ih_run_manifest_sha256 = zero_sha256\<rparr>) (\<lambda>inputs.
     rbind (validated evaluate_policy_checks
              \<lparr>ep_policy = policy, ep_contract = contract, ep_suite = suite, ep_inputs = inputs,
               ep_engine_version = ss_engine_version suite\<rparr>) (\<lambda>request.
     rbind (evaluate sha request) (\<lambda>evaluation.
     rbind (validated analyze_findings_checks
              \<lparr>af_policy = policy, af_contract = contract, af_suite = suite, af_evaluation = evaluation\<rparr>)
       (\<lambda>request.
     rbind (analyze sha request) (\<lambda>report. Inr (fr_findings report)))))))))"

definition validate_proposal_anchors ::
  "(string \<Rightarrow> sha256) \<Rightarrow> apply_revision_request \<Rightarrow> unit result" where
  "validate_proposal_anchors sha request =
     (let proposal = arq_proposal request; policy = arq_policy request; suite = arq_suite request in
      rbind (rule_set_hash sha policy) (\<lambda>rules_hash.
      rbind (payload_hash sha (contract_obj (arq_contract request))) (\<lambda>contract_hash.
      rbind (payload_hash sha (suite_obj suite)) (\<lambda>suite_hash.
      check_all
        [(rp_document_sha256 proposal = pi_document_sha256 policy
            \<and> pi_document_sha256 policy = ss_document_sha256 suite
            \<and> rp_rule_set_sha256 proposal = ss_rule_set_sha256 suite
            \<and> ss_rule_set_sha256 suite = rules_hash
            \<and> rp_policy_contract_sha256 proposal = ss_policy_contract_sha256 suite
            \<and> ss_policy_contract_sha256 suite = contract_hash
            \<and> rp_suite_sha256 proposal = ss_content_sha256 suite
            \<and> ss_content_sha256 suite = suite_hash, ''HASH_MISMATCH'')]))))"

text \<open>A reviewable target: reproduced, not a candidate, all its scenarios visible.\<close>

definition reviewable :: "scenario_suite \<Rightarrow> finding \<Rightarrow> bool" where
  "reviewable suite f \<longleftrightarrow>
     \<not> (fd_evidence_level f = Candidate
        \<or> list_ex (\<lambda>s. sc_partition s \<noteq> Visible)
            (filter (\<lambda>s. sc_scenario_id s \<in> set (fd_scenario_ids f)) (ss_scenarios suite)))"

definition validate_targets ::
  "scenario_suite \<Rightarrow> revision_proposal \<Rightarrow> (ident \<times> finding) list \<Rightarrow> unit result" where
  "validate_targets suite proposal findings =
     check_all
       [(list_all (\<lambda>fid. case map_of findings fid of None \<Rightarrow> False | Some f \<Rightarrow> reviewable suite f)
           (rp_accepted_finding_ids proposal),
         ''targets must be reproduced reviewable findings''),
        (set (rp_accepted_finding_ids proposal) =
           \<Union> (set (map (\<lambda>op. set (op_finding_ids op)) (rp_operations proposal))),
         ''all accepted findings require an operation'')]"

subsection \<open>One operation\<close>

fun citation_ids :: "rule_provenance \<Rightarrow> ident list" where
  "citation_ids (TextCitation t) = [tp_citation_id t]"
| "citation_ids (SessionRevision s) = []"

definition target_rules :: "finding list \<Rightarrow> ident list" where
  "target_rules targets = concat (map fd_rule_ids targets)"

text \<open>The baseline citations that motivate an operation, as a sorted tuple.\<close>

definition motivating_citations ::
  "(ident \<times> rule) list \<Rightarrow> finding list \<Rightarrow> rule option \<Rightarrow> ident list" where
  "motivating_citations baseline targets old =
     (let cited = concat (map (\<lambda>rid. case map_of baseline rid of
                        None \<Rightarrow> [] | Some r \<Rightarrow> citation_ids (r_provenance r)) (target_rules targets))
                  @ (case old of None \<Rightarrow> [] | Some r \<Rightarrow> citation_ids (r_provenance r))
      in sorted_unique
           (if cited = [] then concat (map (\<lambda>(rid, r). citation_ids (r_provenance r)) baseline)
            else cited))"

definition revision_provenance ::
  "apply_revision_request \<Rightarrow> (ident \<times> rule) list \<Rightarrow> nat \<Rightarrow> finding list \<Rightarrow> rule option
   \<Rightarrow> rule_provenance result" where
  "revision_provenance request baseline index targets old =
     validated provenance_checks (SessionRevision
       \<lparr>sp_proposal_id = rp_proposal_id (arq_proposal request), sp_operation_index = int index,
        sp_confirmed_at = arq_confirmed_at request,
        sp_baseline_citation_ids = motivating_citations baseline targets old\<rparr>)"

definition override_replacement ::
  "(ident \<times> rule) list \<Rightarrow> finding list \<Rightarrow> rule_provenance \<Rightarrow> ident \<Rightarrow> effect_dimension \<Rightarrow> ident
   \<Rightarrow> rule result" where
  "override_replacement baseline targets provenance rid dimension target =
     (case map_of baseline rid of
        None \<Rightarrow> Inl (ValueError ''override endpoint missing'')
      | Some old \<Rightarrow>
          rbind (check_all
            [(map_of baseline target \<noteq> None, ''override endpoint missing''),
             (dimension \<in> set (map fd_dimension targets)
                \<and> list_all (\<lambda>f. fd_finding_type f = Conflict) targets,
              ''override requires the targeted conflict dimension''),
             (rid \<in> set (target_rules targets) \<and> target \<in> set (target_rules targets),
              ''override endpoints must belong to target conflict'')]) (\<lambda>_.
          rbind (validated override_ref_checks
                   \<lparr>ov_dimension = dimension, ov_target_rule_id = target\<rparr>) (\<lambda>edge.
          rbind (check_all [(edge \<notin> set (r_overrides old), ''no-op override'')]) (\<lambda>_.
          Inr (old\<lparr>r_overrides := r_overrides old @ [edge], r_revision := r_revision old + 1,
                   r_provenance := provenance\<rparr>)))))"

text \<open>A dictionary of effects outside the targeted dimensions; dictionaries compare as sets of items.\<close>

definition unrelated_effects :: "effect_dimension set \<Rightarrow> rule \<Rightarrow> (effect_dimension \<times> effect) list" where
  "unrelated_effects allowed r = dict_by e_dimension (filter (\<lambda>e. e_dimension e \<notin> allowed) (r_effects r))"

definition unrelated_overrides :: "effect_dimension set \<Rightarrow> rule \<Rightarrow> override_ref set" where
  "unrelated_overrides allowed r = set (filter (\<lambda>o'. ov_dimension o' \<notin> allowed) (r_overrides r))"

definition replacement_checks :: "effect_dimension set \<Rightarrow> rule \<Rightarrow> rule \<Rightarrow> (bool \<times> string) list" where
  "replacement_checks allowed old new =
     [(set (unrelated_effects allowed old) = set (unrelated_effects allowed new)
         \<and> (unrelated_effects allowed old = [] \<or> r_when old = r_when new), ''unrelated effect change''),
      (unrelated_overrides allowed old = unrelated_overrides allowed new, ''unrelated override change''),
      (set (effect_dims (r_effects old)) \<subseteq> set (effect_dims (r_effects new)), ''effect deletion''),
      (set (effect_dims (r_effects new)) - set (effect_dims (r_effects old)) - allowed = {},
       ''unrelated dimension'')]"

definition draft_replacement ::
  "finding list \<Rightarrow> rule option \<Rightarrow> rule_provenance \<Rightarrow> ident \<Rightarrow> revision_rule_draft \<Rightarrow> rule result" where
  "draft_replacement targets old provenance rid draft =
     (let allowed = set (map fd_dimension targets) in
      rbind (conditions_unrestricted (rd_when draft)) (\<lambda>catch_all.
      rbind (check_all [(\<not> catch_all, ''unrestricted catch-all revision'')]) (\<lambda>_.
      rbind (validated rule_checks
        \<lparr>r_description = rd_description draft, r_when = rd_when draft, r_effects = rd_effects draft,
         r_overrides = rd_overrides draft, r_provenance = provenance, r_confidence_percent = None,
         r_rule_id = rid, r_revision = (case old of None \<Rightarrow> 1 | Some r \<Rightarrow> r_revision r + 1)\<rparr>) (\<lambda>new.
      rbind (check_all (case old of
               Some r \<Rightarrow> replacement_checks allowed r new
             | None \<Rightarrow> [(set (effect_dims (r_effects new)) \<subseteq> allowed, ''unrelated added dimension'')]))
        (\<lambda>_. Inr new)))))"

definition operation_replacement ::
  "(ident \<times> rule) list \<Rightarrow> finding list \<Rightarrow> rule_provenance \<Rightarrow> revision_operation \<Rightarrow> rule result" where
  "operation_replacement baseline targets provenance op =
     (case op of
        AddOverrideOperation rid dimension target _ \<Rightarrow>
          override_replacement baseline targets provenance rid dimension target
      | AddRuleOperation rid draft _ \<Rightarrow>
          rbind (check_all [(map_of baseline rid = None, ''rule ID collision'')]) (\<lambda>_.
          draft_replacement targets None provenance rid draft)
      | ReplaceRuleOperation rid expected draft _ \<Rightarrow>
          rbind (check_all
            [((case map_of baseline rid of None \<Rightarrow> False | Some old \<Rightarrow> r_revision old = expected),
              ''stale or missing rule''),
             (target_rules targets = [] \<or> rid \<in> set (target_rules targets), ''unrelated rule replacement'')])
            (\<lambda>_. draft_replacement targets (map_of baseline rid) provenance rid draft))"

definition old_overrides :: "rule option \<Rightarrow> override_ref list" where
  "old_overrides old = (case old of None \<Rightarrow> [] | Some r \<Rightarrow> r_overrides r)"

text \<open>Every override edge the operation adds or drops lies inside an accepted conflict.\<close>

definition changed_edges :: "rule option \<Rightarrow> rule \<Rightarrow> override_ref list" where
  "changed_edges old new =
     filter (\<lambda>o'. o' \<notin> set (old_overrides old)) (r_overrides new)
     @ filter (\<lambda>o'. o' \<notin> set (r_overrides new)) (old_overrides old)"

definition edge_within_conflict :: "finding list \<Rightarrow> ident \<Rightarrow> override_ref \<Rightarrow> bool" where
  "edge_within_conflict targets rid edge \<longleftrightarrow>
     list_ex (\<lambda>f. fd_finding_type f = Conflict \<and> fd_dimension f = ov_dimension edge
        \<and> rid \<in> set (fd_rule_ids f) \<and> ov_target_rule_id edge \<in> set (fd_rule_ids f)) targets"

type_synonym revision_state = "(ident \<times> rule) list \<times> ident list"

definition apply_operation ::
  "apply_revision_request \<Rightarrow> (ident \<times> finding) list \<Rightarrow> (ident \<times> rule) list
   \<Rightarrow> nat \<times> revision_operation \<Rightarrow> revision_state \<Rightarrow> revision_state result" where
  "apply_operation request findings baseline indexed_op state =
     (let (index, op) = indexed_op; rid = op_rule_id op; old = map_of baseline rid in
      rbind (check_all [(rid \<notin> set (snd state), ''a rule may be revised only once per proposal'')]) (\<lambda>_.
      rbind (traverse (lookup findings) (op_finding_ids op)) (\<lambda>targets.
      rbind (revision_provenance request baseline index targets old) (\<lambda>provenance.
      rbind (operation_replacement baseline targets provenance op) (\<lambda>new.
      rbind (check_all [(list_all (edge_within_conflict targets rid) (changed_edges old new),
               ''override change must stay within the accepted conflict endpoints'')]) (\<lambda>_.
      Inr (AList.update rid new (fst state), snd state @ [rid])))))))"

subsection \<open>The revision\<close>

definition changes_semantics ::
  "(string \<Rightarrow> sha256) \<Rightarrow> (ident \<times> rule) list \<Rightarrow> (ident \<times> rule) list \<Rightarrow> ident \<Rightarrow> unit \<Rightarrow> unit result" where
  "changes_semantics sha baseline revised rid u =
     (case map_of baseline rid of
        None \<Rightarrow> Inr ()
      | Some old \<Rightarrow>
          rbind (semantic_rule_signature sha old baseline) (\<lambda>earlier.
          rbind (lookup revised rid) (\<lambda>new.
          rbind (semantic_rule_signature sha new revised) (\<lambda>after.
          check_all [(earlier \<noteq> after, ''no-op semantic revision'')]))))"

definition apply_proposal ::
  "(string \<Rightarrow> sha256) \<Rightarrow> apply_revision_request \<Rightarrow> patch_application_result result" where
  "apply_proposal sha request =
     (let proposal = arq_proposal request; policy = arq_policy request;
          baseline = rules_by_id (pi_rules policy) in
      rbind (validate_proposal_anchors sha request) (\<lambda>_.
      rbind (baseline_findings sha policy (arq_contract request) (arq_suite request)) (\<lambda>found.
      let findings = dict_by fd_finding_id found in
      rbind (validate_targets (arq_suite request) proposal findings) (\<lambda>_.
      rbind (rfold (apply_operation request findings baseline) (enumerate 0 (rp_operations proposal))
               (baseline, [])) (\<lambda>(revised, changed).
      rbind (validated policy_ir_checks
        \<lparr>pi_policy_id = pi_policy_id policy, pi_document_sha256 = pi_document_sha256 policy,
         pi_kind = StructuredRevision, pi_review_status = SessionConfirmed,
         pi_rules = map snd (sort_key fst revised),
         pi_unsupported_clauses = pi_unsupported_clauses policy\<rparr>) (\<lambda>revised_policy.
      rbind (validate_rule_set revised_policy) (\<lambda>_.
      rbind (rfold (changes_semantics sha baseline revised) changed ()) (\<lambda>_.
      validated patch_application_result_checks
        \<lparr>par_proposal_id = rp_proposal_id proposal, par_applied = True,
         par_revised_policy = Some revised_policy, par_changed_rule_ids = sort changed,
         par_error = None\<rparr>))))))))"

text \<open>\<open>except (ValueError, TypeError, KeyError)\<close>.\<close>

fun revision_caught :: "py_error \<Rightarrow> bool" where
  "revision_caught (ValueError msg) = True"
| "revision_caught TypeError = True"
| "revision_caught KeyError = True"
| "revision_caught AttributeError = False"
| "revision_caught StopIteration = False"

definition rejected_result :: "ident \<Rightarrow> string \<Rightarrow> patch_application_result result" where
  "rejected_result proposal_id reason =
     rbind (validated public_error_checks
       \<lparr>pe_code = REVISION_INVALID, pe_message = ''Structured revision rejected: '' @ take 180 reason,
        pe_error_id = None, pe_retryable = False\<rparr>) (\<lambda>error.
     validated patch_application_result_checks
       \<lparr>par_proposal_id = proposal_id, par_applied = False, par_revised_policy = None,
        par_changed_rule_ids = [], par_error = Some error\<rparr>)"

definition apply_revision ::
  "(string \<Rightarrow> sha256) \<Rightarrow> (py_error \<Rightarrow> string) \<Rightarrow> apply_revision_request
   \<Rightarrow> patch_application_result result" where
  "apply_revision sha text request =
     (case rbind (validated apply_revision_checks request) (apply_proposal sha) of
        Inr r \<Rightarrow> Inr r
      | Inl e \<Rightarrow>
          if revision_caught e
          then rejected_result (rp_proposal_id (arq_proposal request)) (text e)
          else Inl e)"

end
