(* ===== verification/Regression_Analysis.thy ===== *)
theory Regression_Analysis
  imports Patches Metrics
begin

section \<open>Comparison of two evaluations (features/evaluation/regression.py)\<close>

text \<open>
  Both reports and both finding reports must be what the engine and the analyzer produce; then every
  scenario, dimension and assertion is compared, and a revision is accepted only when all seven
  gates hold. The sets the code fills in its loop hold pairs of a scenario identifier and a string,
  the name of a dimension or an assertion identifier; here each scenario yields its own list of
  deteriorations and the sets are formed from them.
\<close>

subsection \<open>Single outcomes and reports\<close>

definition bad_status :: "effect_status \<Rightarrow> bool" where
  "bad_status s \<longleftrightarrow> s \<in> {EGap, EConflict, EInconclusive, EError}"

definition compare_assertion_outcomes ::
  "assertion_result \<Rightarrow> assertion_result \<Rightarrow> ident \<Rightarrow> bool \<Rightarrow> bool \<Rightarrow> assertion_transition result" where
  "compare_assertion_outcomes earlier after scenario_id protected targeted =
     rbind (check_all [(ar_assertion_id earlier = ar_assertion_id after, ''assertion identity mismatch'')])
       (\<lambda>_. validated assertion_transition_checks
         \<lparr>at_scenario_id = scenario_id, at_assertion_id = ar_assertion_id earlier,
          at_before = ar_status earlier, at_after = ar_status after,
          at_protected = protected, at_targeted = targeted\<rparr>)"

definition effect_counts :: "evaluation_report \<Rightarrow> effect_state_counts result" where
  "effect_counts report =
     (let statuses = effect_statuses report in
      validated effect_state_counts_checks
        \<lparr>sc_VALUE = count_of EValue statuses, sc_GAP = count_of EGap statuses,
         sc_NOT_APPLICABLE = count_of ENotApplicable statuses, sc_CONFLICT = count_of EConflict statuses,
         sc_INCONCLUSIVE = count_of EInconclusive statuses, sc_ERROR = count_of EError statuses\<rparr>)"

definition validate_report ::
  "(string \<Rightarrow> sha256) \<Rightarrow> policy_ir \<Rightarrow> policy_contract \<Rightarrow> scenario_suite \<Rightarrow> evaluation_report \<Rightarrow> unit result" where
  "validate_report sha policy contract suite report =
     rbind (validated evaluate_policy_checks
       \<lparr>ep_policy = policy, ep_contract = contract, ep_suite = suite, ep_inputs = er_inputs report,
        ep_engine_version = er_engine_version report\<rparr>) (\<lambda>request.
     rbind (evaluate sha request) (\<lambda>expected.
     check_all [(expected = report, ''comparison requires complete authentic deterministic reports'')]))"

text \<open>The evidence of a supplied finding, with the reviewer's additions taken out.\<close>

definition finding_evidence :: "finding \<Rightarrow> finding" where
  "finding_evidence f =
     (let g = f\<lparr>fd_review_status := Pending\<rparr> in
      if fd_severity_origin f = Some SessionReviewer
      then g\<lparr>fd_severity := None, fd_severity_origin := None\<rparr> else g)"

definition authentic_findings ::
  "(string \<Rightarrow> sha256) \<Rightarrow> compare_revision_request \<Rightarrow> policy_ir \<times> evaluation_report \<times> finding_report
   \<Rightarrow> unit \<Rightarrow> unit result" where
  "authentic_findings sha request side u =
     (case side of (policy, evaluation, supplied) \<Rightarrow>
        rbind (validated analyze_findings_checks
          \<lparr>af_policy = policy, af_contract = crq_contract request, af_suite = crq_suite request,
           af_evaluation = evaluation\<rparr>) (\<lambda>r.
        rbind (analyze sha r) (\<lambda>expected.
        check_all [(map finding_evidence (fr_findings supplied) = fr_findings expected,
                    ''comparison finding evidence is not authentic'')])))"

subsection \<open>Repair of the targeted findings\<close>

definition status_in :: "assertion_result list \<Rightarrow> ident \<Rightarrow> assertion_status option" where
  "status_in results aid = map_option ar_status (map_of (dict_by ar_assertion_id results) aid)"

definition witness_fixed ::
  "finding \<Rightarrow> (ident \<times> scenario_evaluation) list \<Rightarrow> (ident \<times> scenario_evaluation) list
   \<Rightarrow> (ident \<times> scenario) list \<Rightarrow> policy_contract \<Rightarrow> ident \<Rightarrow> bool result" where
  "witness_fixed f earlier after scenarios contract sid =
     rbind (lookup earlier sid) (\<lambda>old.
     rbind (lookup after sid) (\<lambda>new.
     rbind (find_first (\<lambda>d. dr_dimension d = fd_dimension f) (et_resolved_effects (se_trace old))) (\<lambda>old_dimension.
     rbind (find_first (\<lambda>d. dr_dimension d = fd_dimension f) (et_resolved_effects (se_trace new))) (\<lambda>new_dimension.
     if dr_status new_dimension \<noteq> EValue then Inr False else
     rbind (lookup scenarios sid) (\<lambda>s.
     rbind (scenario_assertions contract s) (\<lambda>all_assertions.
       let assertions = filter (\<lambda>a. a_dimension a = fd_dimension f) all_assertions;
           was = status_in (se_assertion_results old); now = status_in (se_assertion_results new) in
       Inr (if list_ex (\<lambda>a. now (a_assertion_id a) \<noteq> Some APass) assertions then False
         else case fd_invariant_id f of
           Some i \<Rightarrow>
             (let relevant = filter (\<lambda>a. a_source_invariant_id a = Some i) assertions in
              relevant \<noteq> [] \<and> list_all (\<lambda>a. was (a_assertion_id a) \<noteq> Some APass) relevant)
         | None \<Rightarrow>
             (case fd_assertion_id f of
                Some aid \<Rightarrow> \<not> (was aid = Some APass \<or> now aid \<noteq> Some APass)
              | None \<Rightarrow> dr_status old_dimension \<in> {EGap, EConflict}))))))))"

definition target_witnesses_fixed ::
  "finding \<Rightarrow> (ident \<times> scenario_evaluation) list \<Rightarrow> (ident \<times> scenario_evaluation) list
   \<Rightarrow> (ident \<times> scenario) list \<Rightarrow> policy_contract \<Rightarrow> bool result" where
  "target_witnesses_fixed f earlier after scenarios contract =
     (if fd_evidence_level f = Candidate then Inr False
      else rall (witness_fixed f earlier after scenarios contract) (fd_scenario_ids f))"

subsection \<open>Deteriorations of one scenario\<close>

type_synonym pair = "ident \<times> string"

record scenario_changes =
  ch_scenario :: scenario
  ch_transitions :: "assertion_transition list"
  ch_dimensions :: "effect_dimension list"
  ch_assertions :: "ident list"
  ch_compliance :: "effect_dimension list"

definition deteriorated_dimension ::
  "(effect_dimension \<times> dimension_result) list \<Rightarrow> effect_dimension \<times> dimension_result \<Rightarrow> bool result" where
  "deteriorated_dimension old_dimensions entry =
     rbind (lookup old_dimensions (fst entry)) (\<lambda>prior.
       Inr (bad_status (dr_status (snd entry))
            \<and> (dr_status (snd entry) \<noteq> dr_status prior \<or> snd entry \<noteq> prior)))"

definition deteriorated_assertion :: "assertion_status \<Rightarrow> assertion_status \<Rightarrow> bool" where
  "deteriorated_assertion prior now \<longleftrightarrow>
     (prior = APass \<and> now \<noteq> APass) \<or> (prior \<in> {AFail, AInconclusive} \<and> now = AError)"

definition compare_scenario ::
  "(ident \<times> scenario) list \<Rightarrow> (ident \<times> scenario_evaluation) list \<Rightarrow> pair set \<Rightarrow> scenario_evaluation
   \<Rightarrow> scenario_changes result" where
  "compare_scenario scenarios after_by_id target_assertions old =
     rbind (lookup after_by_id (se_scenario_id old)) (\<lambda>new.
     rbind (lookup scenarios (se_scenario_id old)) (\<lambda>s.
     let old_dimensions = dict_by dr_dimension (et_resolved_effects (se_trace old));
         new_dimensions = dict_by dr_dimension (et_resolved_effects (se_trace new)) in
     rbind (check_all
       [(set (keys old_dimensions) = set effect_dimensions
           \<and> set (keys new_dimensions) = set (keys old_dimensions),
         ''missing or additional scenario-dimension pair'')]) (\<lambda>_.
     rbind (rfilter (deteriorated_dimension old_dimensions) new_dimensions) (\<lambda>worse.
     let old_assertions = dict_by ar_assertion_id (se_assertion_results old);
         new_assertions = dict_by ar_assertion_id (se_assertion_results new) in
     rbind (check_all [(set (keys old_assertions) = set (keys new_assertions),
                        ''missing or additional assertion instance'')]) (\<lambda>_.
     rbind (traverse (\<lambda>aid.
              rbind (lookup old_assertions aid) (\<lambda>prior.
              rbind (lookup new_assertions aid) (\<lambda>now.
                compare_assertion_outcomes prior now (se_scenario_id old) (sc_protected s)
                  ((se_scenario_id old, aid) \<in> target_assertions))))
              (sort (keys old_assertions))) (\<lambda>transitions.
     let old_compliance = dict_by cr_dimension (et_compliance_values (se_trace old)) in
     Inr \<lparr>ch_scenario = s, ch_transitions = transitions, ch_dimensions = map fst worse,
          ch_assertions = map at_assertion_id
            (filter (\<lambda>t. deteriorated_assertion (at_before t) (at_after t)) transitions),
          ch_compliance = map cr_dimension
            (filter (\<lambda>c. map_option cr_status (map_of old_compliance (cr_dimension c)) = Some Compliant
                         \<and> cr_status c \<noteq> Compliant)
              (et_compliance_values (se_trace new)))\<rparr>))))))"

text \<open>The sets the loop fills.\<close>

definition dimension_pairs :: "scenario_changes \<Rightarrow> effect_dimension list \<Rightarrow> pair set" where
  "dimension_pairs c ds = (\<lambda>d. (sc_scenario_id (ch_scenario c), effect_dimension_name d)) ` set ds"

definition assertion_pairs :: "scenario_changes \<Rightarrow> pair set" where
  "assertion_pairs c = (\<lambda>a. (sc_scenario_id (ch_scenario c), a)) ` set (ch_assertions c)"

definition all_pairs :: "scenario_changes \<Rightarrow> pair set" where
  "all_pairs c = dimension_pairs c (ch_dimensions c @ ch_compliance c) \<union> assertion_pairs c"

definition new_bad :: "scenario_changes list \<Rightarrow> pair set" where
  "new_bad cs = \<Union> (set (map (\<lambda>c. dimension_pairs c (ch_dimensions c)) cs))"

definition outside_targets :: "pair set \<Rightarrow> pair set \<Rightarrow> scenario_changes list \<Rightarrow> pair set" where
  "outside_targets target_pairs target_assertions cs =
     \<Union> (set (map (\<lambda>c. (dimension_pairs c (ch_dimensions c @ ch_compliance c) - target_pairs)
                    \<union> (assertion_pairs c - target_assertions)) cs))"

definition protected_pairs :: "scenario_changes list \<Rightarrow> pair set" where
  "protected_pairs cs = \<Union> (set (map all_pairs (filter (\<lambda>c. sc_protected (ch_scenario c)) cs)))"

definition holdout_pairs :: "scenario_changes list \<Rightarrow> pair set" where
  "holdout_pairs cs = \<Union> (set (map all_pairs (filter (\<lambda>c. sc_partition (ch_scenario c) = Holdout) cs)))"

subsection \<open>Rules outside the proposal\<close>

definition rule_changed ::
  "(string \<Rightarrow> sha256) \<Rightarrow> (ident \<times> rule) list \<Rightarrow> (ident \<times> rule) list \<Rightarrow> ident list \<Rightarrow> ident \<Rightarrow> bool result" where
  "rule_changed sha baseline revised allowed rid =
     (if rid \<in> set allowed then Inr False
      else case (map_of baseline rid, map_of revised rid) of
        (Some old, Some new) \<Rightarrow>
          rbind (semantic_rule_signature sha old baseline) (\<lambda>earlier.
          rbind (semantic_rule_signature sha new revised) (\<lambda>after. Inr (earlier \<noteq> after)))
      | _ \<Rightarrow> Inr True)"

fun is_add_rule :: "revision_operation \<Rightarrow> bool" where
  "is_add_rule (AddRuleOperation rid draft ids) = True"
| "is_add_rule op = False"

definition expected_fields ::
  "rule option \<Rightarrow> revision_operation \<Rightarrow> (predicate list \<times> effect list \<times> override_ref list) option" where
  "expected_fields old op =
     (case op of
        AddOverrideOperation rid dimension target _ \<Rightarrow>
          map_option (\<lambda>r. (r_when r, r_effects r,
            r_overrides r @ [\<lparr>ov_dimension = dimension, ov_target_rule_id = target\<rparr>])) old
      | AddRuleOperation rid draft _ \<Rightarrow> Some (rd_when draft, rd_effects draft, rd_overrides draft)
      | ReplaceRuleOperation rid expected draft _ \<Rightarrow> Some (rd_when draft, rd_effects draft, rd_overrides draft))"

fun session_proposal :: "rule_provenance \<Rightarrow> ident option" where
  "session_proposal (SessionRevision s) = Some (sp_proposal_id s)"
| "session_proposal (TextCitation t) = None"

definition of_bool_int :: "bool \<Rightarrow> int" where
  "of_bool_int b = (if b then 1 else 0)"

definition operation_deviations ::
  "ident \<Rightarrow> (ident \<times> rule) list \<Rightarrow> (ident \<times> rule) list \<Rightarrow> revision_operation \<Rightarrow> int" where
  "operation_deviations proposal_id baseline revised op =
     (let old = map_of baseline (op_rule_id op) in
      case map_of revised (op_rule_id op) of
        None \<Rightarrow> 1
      | Some actual \<Rightarrow>
          (case expected_fields old op of
             None \<Rightarrow> 1
           | Some expected \<Rightarrow>
               of_bool_int ((r_when actual, r_effects actual, r_overrides actual) \<noteq> expected)
               + of_bool_int (r_revision actual \<noteq> (case old of Some r \<Rightarrow> r_revision r + 1 | None \<Rightarrow> 1))
               + of_bool_int (session_proposal (r_provenance actual) \<noteq> Some proposal_id)))"

definition unrelated_changes ::
  "(string \<Rightarrow> sha256) \<Rightarrow> compare_revision_request \<Rightarrow> int result" where
  "unrelated_changes sha request =
     (let baseline = rules_by_id (pi_rules (crq_baseline_policy request));
          revised = rules_by_id (pi_rules (crq_revised_policy request));
          ops = rp_operations (crq_proposal request);
          added = map op_rule_id (filter is_add_rule ops) in
      rbind (rfilter (rule_changed sha baseline revised (map op_rule_id ops))
               (remdups (keys baseline @ keys revised))) (\<lambda>changed.
      Inr (int (length changed)
        + int (length (filter (\<lambda>rid. rid \<notin> set (keys revised)) (keys baseline)))
        + int (length (filter (\<lambda>rid. rid \<notin> set (keys baseline) \<and> rid \<notin> set added) (keys revised)))
        + sum_list (map (operation_deviations (rp_proposal_id (crq_proposal request)) baseline revised) ops)
        + of_bool_int (pi_unsupported_clauses (crq_baseline_policy request)
                       \<noteq> pi_unsupported_clauses (crq_revised_policy request)))))"

subsection \<open>Counts and anchors\<close>

text \<open>\<open>f"{before.lower()}_to_{after.lower()}"\<close> when it is a counter, else the last one.\<close>

fun transition_key :: "assertion_status \<Rightarrow> assertion_status \<Rightarrow> string" where
  "transition_key APass APass = ''pass_to_pass''"
| "transition_key AFail APass = ''fail_to_pass''"
| "transition_key APass AFail = ''pass_to_fail''"
| "transition_key AFail AFail = ''fail_to_fail''"
| "transition_key b a = ''inconclusive_or_error''"

definition transition_counts :: "assertion_transition list \<Rightarrow> assertion_transition_counts" where
  "transition_counts ts =
     (let n = (\<lambda>key. count_of key (map (\<lambda>t. transition_key (at_before t) (at_after t)) ts)) in
      \<lparr>tc_pass_to_pass = n ''pass_to_pass'', tc_fail_to_pass = n ''fail_to_pass'',
       tc_pass_to_fail = n ''pass_to_fail'', tc_fail_to_fail = n ''fail_to_fail'',
       tc_inconclusive_or_error = n ''inconclusive_or_error''\<rparr>)"

definition frozen_anchors :: "input_hashes \<Rightarrow> input_hashes \<Rightarrow> bool" where
  "frozen_anchors earlier after \<longleftrightarrow>
     ih_suite_sha256 earlier = ih_suite_sha256 after
     \<and> ih_contract_sha256 earlier = ih_contract_sha256 after
     \<and> ih_engine_sha256 earlier = ih_engine_sha256 after
     \<and> ih_run_manifest_sha256 earlier = ih_run_manifest_sha256 after"

definition proposal_anchors :: "(string \<Rightarrow> sha256) \<Rightarrow> compare_revision_request \<Rightarrow> unit result" where
  "proposal_anchors sha request =
     (let proposal = crq_proposal request in
      rbind (payload_hash sha (suite_obj (crq_suite request))) (\<lambda>suite_hash.
      rbind (payload_hash sha (contract_obj (crq_contract request))) (\<lambda>contract_hash.
      check_all
        [(rp_document_sha256 proposal = pi_document_sha256 (crq_baseline_policy request)
            \<and> rp_suite_sha256 proposal = suite_hash
            \<and> rp_policy_contract_sha256 proposal = contract_hash
            \<and> rp_rule_set_sha256 proposal = ss_rule_set_sha256 (crq_suite request),
          ''HASH_MISMATCH: proposal anchors'')])))"

definition targeted_findings :: "compare_revision_request \<Rightarrow> (ident \<times> finding) list" where
  "targeted_findings request =
     dict_by fd_finding_id
       (filter (\<lambda>f. fd_finding_id f \<in> set (rp_accepted_finding_ids (crq_proposal request)))
         (fr_findings (crq_baseline_findings request)))"

definition target_pairs :: "finding list \<Rightarrow> pair set" where
  "target_pairs targets =
     set (concat (map (\<lambda>f. map (\<lambda>sid. (sid, effect_dimension_name (fd_dimension f))) (fd_scenario_ids f)) targets))"

definition target_assertions :: "policy_contract \<Rightarrow> finding list \<Rightarrow> pair set" where
  "target_assertions contract targets =
     set (concat (map (\<lambda>f. concat (map (\<lambda>sid.
       map (\<lambda>i. (sid, a_assertion_id (i_assertion i)))
         (filter (\<lambda>i. Some (i_invariant_id i) = fd_invariant_id f) (pc_invariants contract)))
       (fd_scenario_ids f))) targets))"

text \<open>\<open>sum(getattr(states, s) for s in _BAD)\<close>.\<close>

definition bad_count :: "effect_state_counts \<Rightarrow> int" where
  "bad_count c = sc_GAP c + sc_CONFLICT c + sc_INCONCLUSIVE c + sc_ERROR c"

subsection \<open>The comparison\<close>

definition validate_comparison ::
  "(string \<Rightarrow> sha256) \<Rightarrow> compare_revision_request \<Rightarrow> unit result" where
  "validate_comparison sha request =
     (let earlier = crq_baseline_evaluation request; after = crq_revised_evaluation request in
      rbind (check_all [(frozen_anchors (er_inputs earlier) (er_inputs after),
                         ''HASH_MISMATCH: frozen comparison anchors'')]) (\<lambda>_.
      rbind (validate_report sha (crq_baseline_policy request) (crq_contract request) (crq_suite request) earlier) (\<lambda>_.
      rbind (validate_report sha (crq_revised_policy request) (crq_contract request) (crq_suite request) after) (\<lambda>_.
      rbind (check_all
        [(fr_inputs (crq_baseline_findings request) = er_inputs earlier
            \<and> fr_inputs (crq_revised_findings request) = er_inputs after,
          ''HASH_MISMATCH: comparison finding anchors'')]) (\<lambda>_.
      rbind (proposal_anchors sha request) (\<lambda>_.
      rbind (rfold (authentic_findings sha request)
        [(crq_baseline_policy request, earlier, crq_baseline_findings request),
         (crq_revised_policy request, after, crq_revised_findings request)] ()) (\<lambda>_.
      check_all
        [(set (keys (targeted_findings request)) = set (rp_accepted_finding_ids (crq_proposal request)),
          ''unknown targeted finding'')])))))))"

definition target_fixed ::
  "compare_revision_request \<Rightarrow> finding \<Rightarrow> bool result" where
  "target_fixed request f =
     (if fd_fingerprint_sha256 f \<in> set (map fd_fingerprint_sha256 (fr_findings (crq_revised_findings request)))
      then Inr False
      else target_witnesses_fixed f
        (dict_by se_scenario_id (er_results (crq_baseline_evaluation request)))
        (dict_by se_scenario_id (er_results (crq_revised_evaluation request)))
        (dict_by sc_scenario_id (ss_scenarios (crq_suite request))) (crq_contract request))"

definition acceptance_report ::
  "input_hashes \<Rightarrow> input_hashes \<Rightarrow> patch_acceptance_counts \<Rightarrow> bool \<Rightarrow> patch_acceptance_report" where
  "acceptance_report earlier after c no_new_bad =
     (let report =
        \<lparr>pa_baseline_inputs = earlier, pa_revised_inputs = after,
         pa_suite_hash_matches = (ih_suite_sha256 earlier = ih_suite_sha256 after),
         pa_all_target_findings_fixed = (pac_fixed_target_findings c = pac_target_findings c),
         pa_zero_new_failures_outside_targets = (pac_new_failures_outside_targets c = 0),
         pa_zero_protected_regressions = (pac_protected_regressions c = 0),
         pa_no_increase_in_gap_conflict_inconclusive_or_error = no_new_bad,
         pa_unrelated_rules_unchanged = (pac_unrelated_rule_changes c = 0),
         pa_holdout_not_worse = (pac_holdout_regressions c = 0),
         pa_patch_accepted = False, pa_counts = c\<rparr>
      in report\<lparr>pa_patch_accepted := list_all id (acceptance_checks report)\<rparr>)"

definition compare ::
  "(string \<Rightarrow> sha256) \<Rightarrow> compare_revision_request \<Rightarrow> comparison_bundle result" where
  "compare sha request =
     (let earlier = crq_baseline_evaluation request; after = crq_revised_evaluation request;
          targets = map snd (targeted_findings request);
          pairs = target_pairs targets;
          assertions = target_assertions (crq_contract request) targets in
      rbind (validate_comparison sha request) (\<lambda>_.
      rbind (rfilter (target_fixed request) targets) (\<lambda>fixed.
      rbind (traverse
        (compare_scenario (dict_by sc_scenario_id (ss_scenarios (crq_suite request)))
          (dict_by se_scenario_id (er_results after)) assertions) (er_results earlier)) (\<lambda>changes.
      rbind (unrelated_changes sha request) (\<lambda>unrelated.
      let transitions = concat (map ch_transitions changes) in
      rbind (effect_counts earlier) (\<lambda>baseline_states.
      rbind (effect_counts after) (\<lambda>revised_states.
      rbind (canonical_sha256 sha (PSeq [report_obj earlier, report_obj after])) (\<lambda>digest.
      rbind (validated assertion_transition_counts_checks (transition_counts transitions)) (\<lambda>counts.
      rbind (validated regression_report_checks
        \<lparr>rr_report_id = ''regression-'' @ digest, rr_baseline_inputs = er_inputs earlier,
         rr_revised_inputs = er_inputs after, rr_baseline_effect_states = baseline_states,
         rr_revised_effect_states = revised_states, rr_assertion_transition_counts = counts,
         rr_assertion_transitions = transitions\<rparr>) (\<lambda>regression.
      rbind (validated patch_acceptance_counts_checks
        \<lparr>pac_target_findings = int (length targets), pac_fixed_target_findings = int (length fixed),
         pac_new_failures_outside_targets = int (card (outside_targets pairs assertions changes)),
         pac_protected_regressions = int (card (protected_pairs changes)),
         pac_baseline_gap_conflict_inconclusive_or_error = bad_count baseline_states,
         pac_revised_gap_conflict_inconclusive_or_error = bad_count revised_states,
         pac_unrelated_rule_changes = unrelated,
         pac_holdout_regressions = int (card (holdout_pairs changes))\<rparr>) (\<lambda>c.
      rbind (validated patch_acceptance_report_checks
        (acceptance_report (er_inputs earlier) (er_inputs after) c (new_bad changes = {}))) (\<lambda>acceptance.
      rbind (compute_metrics \<lparr>mq_evaluation = earlier, mq_findings = crq_baseline_findings request\<rparr>) (\<lambda>baseline_metrics.
      rbind (compute_metrics \<lparr>mq_evaluation = after, mq_findings = crq_revised_findings request\<rparr>) (\<lambda>revised_metrics.
      validated comparison_bundle_checks
        \<lparr>cb_baseline_inputs = er_inputs earlier, cb_revised_inputs = er_inputs after,
         cb_regression = regression, cb_acceptance = acceptance,
         cb_baseline_metrics = baseline_metrics, cb_revised_metrics = revised_metrics\<rparr>))))))))))))))"

end
