(* ===== verification/Findings_Meaning.thy ===== *)
theory Findings_Meaning
  imports Findings
begin

section \<open>What a finding report contains\<close>

text \<open>
  The events of a suite are listed from the policy, the contract and the scenarios alone. The walk
  adds exactly these events, and the report has one finding per fingerprint, with the scenarios of
  the events of that fingerprint as its witnesses.
\<close>

subsection \<open>Adding an event\<close>

definition fingerprint :: "(string \<Rightarrow> sha256) \<Rightarrow> finding_event \<Rightarrow> sha256" where
  "fingerprint sha e = (case event_fingerprint sha e of Inr h \<Rightarrow> h | Inl _ \<Rightarrow> [])"

lemma fingerprint_hashable [simp]: "hashable (fingerprint_payload kind d rs i j h fs)"
  by (cases kind) (simp_all add: fingerprint_payload_def)

definition span_hash :: "(string \<Rightarrow> sha256) \<Rightarrow> source_span \<Rightarrow> sha256" where
  "span_hash sha span = sha (canonical_bytes (norm (span_obj span)))"

lemma hash_span_eq: "hash_span sha span = Inr (span_hash sha span)"
  by (simp add: hash_span_def span_hash_def canonical_sha256_norm)

lemma event_fingerprint_total: "\<exists>b. event_fingerprint sha e = Inr (sha b)"
proof -
  have "\<exists>h. (case fe_clause e of None \<Rightarrow> Inr None
      | Some clause \<Rightarrow> rbind (hash_span sha (uc_span clause)) (\<lambda>h. Inr (Some h))) = Inr h"
    by (cases "fe_clause e") (simp_all add: hash_span_eq)
  then show ?thesis
    by (auto simp: event_fingerprint_def finding_fingerprint_def canonical_sha256_norm)
qed

lemma event_fingerprint_eq: "event_fingerprint sha e = Inr (fingerprint sha e)"
  using event_fingerprint_total [of sha e] by (auto simp: fingerprint_def)

lemma fingerprint_ok: "hex_digest sha \<Longrightarrow> sha256_ok (fingerprint sha e)"
  using event_fingerprint_total [of sha e] by (auto simp: fingerprint_def hex_digestD)

definition knows_invariant :: "policy_contract \<Rightarrow> ident option \<Rightarrow> bool" where
  "knows_invariant contract i \<longleftrightarrow>
     (if truthy i then the i \<in> set (map i_invariant_id (pc_invariants contract)) else True)"

definition event_ok :: "policy_contract \<Rightarrow> finding_event \<Rightarrow> bool" where
  "event_ok contract e \<longleftrightarrow>
     valid_by trace_ref_checks (fe_trace e) \<and> knows_invariant contract (fe_invariant_id e)"

definition blank_group :: "policy_contract \<Rightarrow> finding_event \<Rightarrow> finding_group" where
  "blank_group contract e = projr (new_group contract e)"

lemma new_group_eq:
  assumes "event_ok contract e"
  shows "new_group contract e = Inr (blank_group contract e)"
proof -
  have "\<exists>s. group_severity contract (fe_invariant_id e) = Inr s"
  proof (cases "truthy (fe_invariant_id e)")
    case True
    then have "map_of (dict_by i_invariant_id (pc_invariants contract)) (the (fe_invariant_id e)) \<noteq> None"
      using assms by (auto simp: event_ok_def knows_invariant_def map_of_dict_by_None_iff)
    then show ?thesis using True by (auto simp: group_severity_def lookup_def)
  qed (simp add: group_severity_def)
  then show ?thesis by (auto simp: blank_group_def new_group_def)
qed

definition put_event ::
  "(string \<Rightarrow> sha256) \<Rightarrow> policy_ir \<Rightarrow> policy_contract \<Rightarrow> finding_event \<Rightarrow> groups \<Rightarrow> groups" where
  "put_event sha policy contract e groups =
     (let g = (case map_of groups (fingerprint sha e) of Some g \<Rightarrow> g | None \<Rightarrow> blank_group contract e)
      in AList.update (fingerprint sha e)
           (g\<lparr>fg_witnesses := AList.update (tr_scenario_id (fe_trace e)) (fe_trace e) (fg_witnesses g),
              fg_citations := fold (\<lambda>span. AList.update (span_hash sha span) span)
                (event_spans policy e) (fg_citations g)\<rparr>) groups)"

lemma fold_hashed:
  "fold (\<lambda>(h, span). AList.update h span) (map (\<lambda>s. (f s, s)) xs) d =
   fold (\<lambda>s. AList.update (f s) s) xs d"
  by (induction xs arbitrary: d) auto

lemma add_finding_eq:
  assumes "event_ok contract e"
  shows "add_finding sha policy contract e groups = Inr (put_event sha policy contract e groups)"
proof -
  have trace: "validated trace_ref_checks (fe_trace e) = Inr (fe_trace e)"
    using assms by (simp add: event_ok_def)
  show ?thesis
    by (cases "map_of groups (fingerprint sha e)")
      (simp_all add: add_finding_def put_event_def event_fingerprint_eq new_group_eq [OF assms] trace
        hash_span_eq fold_hashed Let_def)
qed

subsection \<open>The events of an evaluation\<close>

definition first_clause :: "policy_ir \<Rightarrow> ident \<Rightarrow> unsupported_clause" where
  "first_clause policy clause_id =
     the (find (\<lambda>c. uc_clause_id c = clause_id) (pi_unsupported_clauses policy))"

definition dimension_events ::
  "policy_ir \<Rightarrow> trace_ref \<Rightarrow> effect_dimension set \<Rightarrow> dimension_result \<Rightarrow> finding_event list" where
  "dimension_events policy t gap_dimensions d =
     (if dr_status d = EGap \<and> dr_dimension d \<notin> gap_dimensions then [gap_event policy t (dr_dimension d)]
      else if dr_status d = EConflict then [conflict_event t d] else [])
     @ map (\<lambda>i. clause_event t (dr_dimension d) (first_clause policy i)) (dr_unsupported_clause_ids d)"

text \<open>The assertions whose confirmed intent the policy breaches in a scenario.\<close>

definition breaches :: "policy_ir \<Rightarrow> policy_contract \<Rightarrow> scenario \<Rightarrow> assertion list" where
  "breaches policy contract s =
     filter (\<lambda>a. let d = expected_dimension policy contract s (a_dimension a) in
               breached policy a (ar_status (expected_assertion (sc_facts s) d a)) d)
       (assertions_in_force contract s)"

definition scenario_events ::
  "(string \<Rightarrow> sha256) \<Rightarrow> policy_ir \<Rightarrow> policy_contract \<Rightarrow> scenario \<Rightarrow> finding_event list" where
  "scenario_events sha policy contract s =
     (if contended contract s then [] else
      let t = trace_of_result (scenario_outcome sha policy contract s);
          bs = breaches policy contract s;
          gaps = {d \<in> a_dimension ` set bs. d \<notin> pc_required_dimensions contract}
      in map (breach_event policy t) bs
         @ concat (map (\<lambda>d. dimension_events policy t gaps (expected_dimension policy contract s d))
             effect_dimensions))"

definition suite_events ::
  "(string \<Rightarrow> sha256) \<Rightarrow> policy_ir \<Rightarrow> policy_contract \<Rightarrow> scenario_suite \<Rightarrow> finding_event list" where
  "suite_events sha policy contract suite =
     concat (map (scenario_events sha policy contract) (sort_key sc_scenario_id (ss_scenarios suite)))"

text \<open>Frozen assertions that claim a session invariant as their source name one of the contract.\<close>

definition sources_known :: "policy_contract \<Rightarrow> scenario_suite \<Rightarrow> bool" where
  "sources_known contract suite \<longleftrightarrow>
     list_all (\<lambda>s. list_all (\<lambda>a. knows_invariant contract (a_source_invariant_id a)) (sc_assertions s))
       (ss_scenarios suite)"

subsection \<open>The walk adds exactly these events\<close>

lemma rfold_puts:
  assumes "\<And>x g. x \<in> set xs \<Longrightarrow> f x g = Inr (fold put (es x) g)"
  shows "rfold f xs g = Inr (fold put (concat (map es xs)) g)"
  using assms by (induction xs arbitrary: g) auto

lemma source_known:
  assumes "valid_contract contract" and "a \<in> set (assertions_in_force contract s)"
    and "\<forall>a \<in> set (sc_assertions s). knows_invariant contract (a_source_invariant_id a)"
  shows "knows_invariant contract (a_source_invariant_id a)"
proof -
  consider "a \<in> set (sc_assertions s)" | i where "i \<in> set (pc_invariants contract)" "a = i_assertion i"
    using assms(2) by (auto simp: assertions_in_force_def invariants_in_force_def)
  then show ?thesis
  proof cases
    case (2 i)
    then have "a_source_invariant_id a = Some (i_invariant_id i)"
      using valid_contract_invariants [OF assms(1)] by (auto simp: valid_by_def invariant_checks_def)
    then show ?thesis using 2(1) by (simp add: knows_invariant_def)
  qed (simp add: assms(3))
qed

text \<open>Over a list of assertions, the loop adds the breaches and collects their dimensions.\<close>

lemma assertion_walk:
  assumes "\<forall>a \<in> set as. map_of d (a_assertion_id a) = Some a
      \<and> find_first (\<lambda>r. dr_dimension r = a_dimension a) (et_resolved_effects (se_trace result)) =
          Inr (res (a_dimension a))
      \<and> ar_assertion_id (out a) = a_assertion_id a
      \<and> event_ok contract (breach_event policy (trace_of_result result) a)"
  shows "rfold (analyze_assertion sha policy contract result d) (map out as) (groups, G) =
    (let bs = filter (\<lambda>a. breached policy a (ar_status (out a)) (res (a_dimension a))) as in
     Inr (fold (put_event sha policy contract) (map (breach_event policy (trace_of_result result)) bs) groups,
          G \<union> {d \<in> a_dimension ` set bs. d \<notin> pc_required_dimensions contract}))"
  using assms
proof (induction as arbitrary: groups G)
  case (Cons a as)
  have a: "map_of d (a_assertion_id a) = Some a"
    "find_first (\<lambda>r. dr_dimension r = a_dimension a) (et_resolved_effects (se_trace result)) =
       Inr (res (a_dimension a))"
    "ar_assertion_id (out a) = a_assertion_id a"
    "event_ok contract (breach_event policy (trace_of_result result) a)"
    using Cons.prems by auto
  have IH: "rfold (analyze_assertion sha policy contract result d) (map out as) (g, H) =
    (let bs = filter (\<lambda>a. breached policy a (ar_status (out a)) (res (a_dimension a))) as in
     Inr (fold (put_event sha policy contract) (map (breach_event policy (trace_of_result result)) bs) g,
          H \<union> {d \<in> a_dimension ` set bs. d \<notin> pc_required_dimensions contract}))" for g H
    using Cons by simp
  show ?case
  proof (cases "breached policy a (ar_status (out a)) (res (a_dimension a))")
    case True
    have "analyze_assertion sha policy contract result d (out a) (groups, G) =
        Inr (put_event sha policy contract (breach_event policy (trace_of_result result) a) groups,
             G \<union> {e \<in> {a_dimension a}. e \<notin> pc_required_dimensions contract})"
      using True by (auto simp: analyze_assertion_def a add_finding_eq [OF a(4)])
    then show ?thesis using True by (auto simp: IH Let_def)
  next
    case False
    have "analyze_assertion sha policy contract result d (out a) (groups, G) = Inr (groups, G)"
      using False by (simp add: analyze_assertion_def a)
    then show ?thesis using False by (simp add: IH)
  qed
qed simp

lemma dimension_walk:
  assumes "valid_by trace_ref_checks (trace_of_result result)"
    and "\<forall>i \<in> set (dr_unsupported_clause_ids d). i \<in> uc_clause_id ` set (pi_unsupported_clauses policy)"
  shows "analyze_dimension sha policy contract result G d groups =
    Inr (fold (put_event sha policy contract)
          (dimension_events policy (trace_of_result result) G d) groups)"
proof -
  let ?t = "trace_of_result result" and ?put = "put_event sha policy contract"
  have plain: "event_ok contract e" if "fe_trace e = ?t" "fe_invariant_id e = None" for e
    using assms(1) that by (simp add: event_ok_def knows_invariant_def truthy_def)
  have clause: "rbind (find_first (\<lambda>c. uc_clause_id c = i) (pi_unsupported_clauses policy)) (\<lambda>clause.
      add_finding sha policy contract (clause_event ?t (dr_dimension d) clause) g) =
      Inr (fold ?put [clause_event ?t (dr_dimension d) (first_clause policy i)] g)"
    if "i \<in> set (dr_unsupported_clause_ids d)" for i g
  proof -
    have "find (\<lambda>c. uc_clause_id c = i) (pi_unsupported_clauses policy) \<noteq> None"
      using assms(2) that by (auto simp: find_None_iff)
    then obtain c where c: "find (\<lambda>c. uc_clause_id c = i) (pi_unsupported_clauses policy) = Some c"
      by blast
    show ?thesis
      by (simp add: find_first_def first_clause_def c add_finding_eq [OF plain] clause_event_def)
  qed
  have loop: "rfold (\<lambda>i g. rbind (find_first (\<lambda>c. uc_clause_id c = i) (pi_unsupported_clauses policy))
      (\<lambda>clause. add_finding sha policy contract (clause_event ?t (dr_dimension d) clause) g))
      (dr_unsupported_clause_ids d) g =
      Inr (fold ?put (map (\<lambda>i. clause_event ?t (dr_dimension d) (first_clause policy i))
        (dr_unsupported_clause_ids d)) g)" for g
    using rfold_puts [of "dr_unsupported_clause_ids d" _ ?put, OF clause]
    by (simp add: concat_map_singleton)
  show ?thesis
    by (simp add: analyze_dimension_def dimension_events_def Let_def loop add_finding_eq plain
        gap_event_def conflict_event_def)
qed

lemma resolution_clause_ids:
  "set (dr_unsupported_clause_ids (resolution policy facts d required)) \<subseteq>
     uc_clause_id ` set (pi_unsupported_clauses policy)"
  by (auto simp: resolution_def Let_def)

text \<open>One result of the engine, walked by the analyzer.\<close>

lemma result_walk:
  assumes "valid_policy_ir (af_policy request)" and "valid_contract (af_contract request)"
    and "valid_suite (af_suite request)" and "s \<in> set (ss_scenarios (af_suite request))"
    and "hex_digest sha" and "sources_known (af_contract request) (af_suite request)"
  shows "analyze_result sha request (scenario_outcome sha (af_policy request) (af_contract request) s) groups =
    Inr (fold (put_event sha (af_policy request) (af_contract request))
          (scenario_events sha (af_policy request) (af_contract request) s) groups)"
proof -
  let ?policy = "af_policy request" and ?contract = "af_contract request"
  let ?result = "scenario_outcome sha ?policy ?contract s"
  let ?t = "trace_of_result ?result" and ?res = "expected_dimension ?policy ?contract s"
  note s = valid_suite_scenarios [OF assms(3,4)]
  have scenario: "lookup (dict_by sc_scenario_id (ss_scenarios (af_suite request))) (sc_scenario_id s) = Inr s"
    using map_of_dict_by_mem [OF valid_suite_distinct [OF assms(3)] assms(4)] by (simp add: lookup_def)
  show ?thesis
  proof (cases "contended ?contract s")
    case True
    then show ?thesis
      using scenario scenario_outcome_verdict [of sha ?policy ?contract s]
      by (simp add: analyze_result_def scenario_events_def)
  next
    case False
    have verdict: "se_verdict ?result \<noteq> VError" using False by (simp add: scenario_outcome_verdict)
    have as: "scenario_assertions ?contract s = Inr (assertions_in_force ?contract s)"
      using scenario_assertions_eq [OF assms(2) s] False by simp
    have effects: "et_resolved_effects (se_trace ?result) = map ?res effect_dimensions"
      using False by (simp add: scenario_outcome_def expected_evaluation_def expected_trace_fields)
    have trace: "valid_by trace_ref_checks ?t"
      using valid_scenario_id [OF s] False expected_trace_hash [OF assms(5)]
      by (simp add: valid_by_def trace_ref_checks_def trace_of_result_def scenario_outcome_def
          expected_evaluation_def)
    have found: "find_first (\<lambda>r. dr_dimension r = d) (map ?res effect_dimensions) = Inr (?res d)" for d
      by (simp add: find_first_def find_dimension)
    have known: "\<forall>a \<in> set (sc_assertions s). knows_invariant ?contract (a_source_invariant_id a)"
      using assms(4,6) by (simp add: sources_known_def list_all_iff)
    have walk: "\<forall>a \<in> set (assertions_in_force ?contract s).
        map_of (dict_by a_assertion_id (assertions_in_force ?contract s)) (a_assertion_id a) = Some a
        \<and> find_first (\<lambda>r. dr_dimension r = a_dimension a) (et_resolved_effects (se_trace ?result)) =
            Inr (?res (a_dimension a))
        \<and> ar_assertion_id (expected_assertion (sc_facts s) (?res (a_dimension a)) a) = a_assertion_id a
        \<and> event_ok ?contract (breach_event ?policy ?t a)"
      using map_of_dict_by_mem [OF assertions_in_force_distinct [OF assms(2) s False]] trace
        source_known [OF assms(2) _ known]
      by (auto simp: effects found expected_assertion_def event_ok_def breach_event_def)
    have results: "se_assertion_results ?result =
        map (\<lambda>a. expected_assertion (sc_facts s) (?res (a_dimension a)) a) (assertions_in_force ?contract s)"
      using False by (simp add: scenario_outcome_def expected_evaluation_def expected_results_def)
    have dims: "rfold (analyze_dimension sha ?policy ?contract ?result G) (map ?res effect_dimensions) g =
        Inr (fold (put_event sha ?policy ?contract)
          (concat (map (dimension_events ?policy ?t G) (map ?res effect_dimensions))) g)" for G g
      using resolution_clause_ids
      by (intro rfold_puts dimension_walk [OF trace]) (fastforce simp: expected_dimension_def)
    show ?thesis
      using verdict assertion_walk [OF walk, of sha groups "{}"]
      by (simp add: analyze_result_def scenario as results effects dims scenario_events_def False
          breaches_def Let_def comp_def)
  qed
qed

lemma suite_walk:
  assumes "valid_policy_ir (af_policy request)" and "valid_contract (af_contract request)"
    and "valid_suite (af_suite request)" and "hex_digest sha"
    and "sources_known (af_contract request) (af_suite request)"
  shows "rfold (analyze_result sha request)
      (map (scenario_outcome sha (af_policy request) (af_contract request))
        (sort_key sc_scenario_id (ss_scenarios (af_suite request)))) [] =
    Inr (fold (put_event sha (af_policy request) (af_contract request))
      (suite_events sha (af_policy request) (af_contract request) (af_suite request)) [])"
proof -
  have map: "rfold f (map g xs) st = rfold (\<lambda>x. f (g x)) xs st" for f g and xs :: "scenario list" and st
    by (induction xs arbitrary: st) (auto intro!: rbind_cong)
  show ?thesis
    unfolding map suite_events_def
    by (rule rfold_puts) (use result_walk [OF assms(1-3) _ assms(4,5)] in simp)
qed

subsection \<open>Groups describe their events\<close>

definition blank_citations :: "finding_group \<Rightarrow> finding_group" where
  "blank_citations g = g\<lparr>fg_witnesses := [], fg_citations := []\<rparr>"

text \<open>\<open>h\<close> and \<open>g\<close> are what the events \<open>es\<close> give one fingerprint.\<close>

definition group_describes ::
  "(string \<Rightarrow> sha256) \<Rightarrow> policy_ir \<Rightarrow> policy_contract \<Rightarrow> finding_event list \<Rightarrow> sha256 \<Rightarrow> finding_group \<Rightarrow> bool" where
  "group_describes sha policy contract es h g \<longleftrightarrow>
     (let mine = {e \<in> set es. fingerprint sha e = h} in
      (\<exists>e \<in> mine. blank_citations g = blank_group contract e)
      \<and> distinct (keys (fg_witnesses g))
      \<and> set (keys (fg_witnesses g)) = (\<lambda>e. tr_scenario_id (fe_trace e)) ` mine
      \<and> (\<forall>(sid, t) \<in> set (fg_witnesses g). sid = tr_scenario_id t \<and> t \<in> fe_trace ` mine)
      \<and> (\<forall>(k, span) \<in> set (fg_citations g). \<exists>e \<in> mine. span \<in> set (event_spans policy e)))"

definition groups_describe ::
  "(string \<Rightarrow> sha256) \<Rightarrow> policy_ir \<Rightarrow> policy_contract \<Rightarrow> finding_event list \<Rightarrow> groups \<Rightarrow> bool" where
  "groups_describe sha policy contract es groups \<longleftrightarrow>
     distinct (keys groups) \<and> set (keys groups) = fingerprint sha ` set es
     \<and> (\<forall>(h, g) \<in> set groups. group_describes sha policy contract es h g)"

lemma set_update_subset: "set (AList.update k v d) \<subseteq> insert (k, v) (set d)"
  by (induction d) auto

lemma set_fold_citations:
  "set (fold (\<lambda>span. AList.update (f span) span) spans d) \<subseteq> set d \<union> (\<lambda>s. (f s, s)) ` set spans"
proof (induction spans arbitrary: d)
  case (Cons s spans)
  show ?case
    using Cons [of "AList.update (f s) s d"] set_update_subset [of "f s" s d] by auto
qed simp

lemma blank_group_fields:
  assumes "event_ok contract e"
  shows "blank_citations (blank_group contract e) = blank_group contract e"
    and "fg_witnesses (blank_group contract e) = []" and "fg_citations (blank_group contract e) = []"
proof -
  obtain severity where "group_severity contract (fe_invariant_id e) = Inr severity"
    using new_group_eq [OF assms] by (auto simp: new_group_def rbind_Inr_iff)
  then show "blank_citations (blank_group contract e) = blank_group contract e"
    "fg_witnesses (blank_group contract e) = []" "fg_citations (blank_group contract e) = []"
    by (simp_all add: blank_group_def new_group_def blank_citations_def)
qed

lemma group_describes_put:
  assumes "event_ok contract e" and "h = fingerprint sha e"
    and "g = blank_group contract e \<and> h \<notin> fingerprint sha ` set es
         \<or> group_describes sha policy contract es h g"
  shows "group_describes sha policy contract (es @ [e]) h
    (g\<lparr>fg_witnesses := AList.update (tr_scenario_id (fe_trace e)) (fe_trace e) (fg_witnesses g),
       fg_citations := fold (\<lambda>span. AList.update (span_hash sha span) span)
         (event_spans policy e) (fg_citations g)\<rparr>)"
proof -
  let ?mine = "{e \<in> set es. fingerprint sha e = h}"
  let ?w = "AList.update (tr_scenario_id (fe_trace e)) (fe_trace e) (fg_witnesses g)"
  let ?c = "fold (\<lambda>span. AList.update (span_hash sha span) span) (event_spans policy e) (fg_citations g)"
  have mine: "{x \<in> set (es @ [e]). fingerprint sha x = h} = insert e ?mine"
    using assms(2) by auto
  have same: "blank_citations (g\<lparr>fg_witnesses := ?w, fg_citations := ?c\<rparr>) = blank_citations g"
    by (simp add: blank_citations_def)
  have old: "(\<exists>x \<in> insert e ?mine. blank_citations g = blank_group contract x)
      \<and> distinct (keys (fg_witnesses g))
      \<and> set (keys (fg_witnesses g)) = (\<lambda>x. tr_scenario_id (fe_trace x)) ` ?mine
      \<and> (\<forall>(sid, t) \<in> set (fg_witnesses g). sid = tr_scenario_id t \<and> t \<in> fe_trace ` ?mine)
      \<and> (\<forall>(k, span) \<in> set (fg_citations g). \<exists>x \<in> ?mine. span \<in> set (event_spans policy x))"
    using assms(3)
  proof
    assume g: "g = blank_group contract e \<and> h \<notin> fingerprint sha ` set es"
    then have "?mine = {}" by blast
    then show ?thesis using g blank_group_fields [OF assms(1)] by (simp add: keys_def)
  next
    assume "group_describes sha policy contract es h g"
    then show ?thesis unfolding group_describes_def Let_def by blast
  qed
  have w: "\<forall>(sid, t) \<in> set ?w. sid = tr_scenario_id t \<and> t \<in> fe_trace ` insert e ?mine"
    using old set_update_subset [of "tr_scenario_id (fe_trace e)" "fe_trace e" "fg_witnesses g"] by blast
  have c: "\<forall>(k, span) \<in> set ?c. \<exists>x \<in> insert e ?mine. span \<in> set (event_spans policy x)"
    using old set_fold_citations [of "span_hash sha" "event_spans policy e" "fg_citations g"] by blast
  show ?thesis
    unfolding group_describes_def mine Let_def same
    using old w c by (simp add: set_keys_update distinct_keys_update)
qed

lemma group_describes_other:
  assumes "group_describes sha policy contract es h g" and "h \<noteq> fingerprint sha e"
  shows "group_describes sha policy contract (es @ [e]) h g"
proof -
  have "{x \<in> set (es @ [e]). fingerprint sha x = h} = {x \<in> set es. fingerprint sha x = h}"
    using assms(2) by auto
  then show ?thesis using assms(1) by (simp only: group_describes_def)
qed

lemma groups_describe_put:
  assumes "groups_describe sha policy contract es groups" and "event_ok contract e"
  shows "groups_describe sha policy contract (es @ [e]) (put_event sha policy contract e groups)"
proof -
  let ?h = "fingerprint sha e"
  obtain g where g: "g = (case map_of groups ?h of Some g \<Rightarrow> g | None \<Rightarrow> blank_group contract e)" by blast
  have desc: "group_describes sha policy contract es h x" if "(h, x) \<in> set groups" for h x
  proof -
    have "\<forall>entry \<in> set groups. case entry of (h, g) \<Rightarrow> group_describes sha policy contract es h g"
      using assms(1) by (simp add: groups_describe_def)
    from bspec [OF this that] show ?thesis by simp
  qed
  have "g = blank_group contract e \<and> ?h \<notin> fingerprint sha ` set es
      \<or> group_describes sha policy contract es ?h g"
  proof (cases "map_of groups ?h")
    case None
    then have "?h \<notin> set (keys groups)" by (simp add: map_of_eq_None_iff keys_def)
    then show ?thesis using None g assms(1) by (simp add: groups_describe_def)
  next
    case (Some x)
    then have "g = x" using g by simp
    then show ?thesis using desc [OF map_of_SomeD [OF Some]] by blast
  qed
  note new = group_describes_put [OF assms(2) refl this]
  have "group_describes sha policy contract (es @ [e]) h x"
    if "(h, x) \<in> set (put_event sha policy contract e groups)" for h x
  proof (cases "h = ?h")
    case True
    have dist: "distinct (map fst (put_event sha policy contract e groups))"
      using assms(1) by (simp add: put_event_def Let_def groups_describe_def keys_def distinct_update)
    have "map_of (put_event sha policy contract e groups) h = Some x"
      using that dist by (rule map_of_is_SomeI [rotated])
    then have "x = g\<lparr>fg_witnesses := AList.update (tr_scenario_id (fe_trace e)) (fe_trace e) (fg_witnesses g),
        fg_citations := fold (\<lambda>span. AList.update (span_hash sha span) span)
          (event_spans policy e) (fg_citations g)\<rparr>"
      by (simp add: put_event_def Let_def True g update_conv)
    then show ?thesis using new True by simp
  next
    case False
    have "(h, x) \<in> set groups"
      using that False set_update_subset [of ?h _ groups] unfolding put_event_def Let_def by blast
    then show ?thesis using group_describes_other desc False by blast
  qed
  then have "\<forall>(h, x) \<in> set (put_event sha policy contract e groups).
      group_describes sha policy contract (es @ [e]) h x" by blast
  moreover have "distinct (keys (put_event sha policy contract e groups))"
    "set (keys (put_event sha policy contract e groups)) = fingerprint sha ` set (es @ [e])"
    using assms(1) by (simp_all add: groups_describe_def put_event_def Let_def set_keys_update distinct_keys_update)
  ultimately show ?thesis unfolding groups_describe_def by blast
qed

lemma groups_describe_all:
  assumes "\<forall>e \<in> set es. event_ok contract e"
  shows "groups_describe sha policy contract es (fold (put_event sha policy contract) es [])"
  using assms
proof (induction es rule: rev_induct)
  case Nil
  then show ?case by (simp add: groups_describe_def keys_def)
next
  case (snoc e es)
  then show ?case by (simp add: groups_describe_put)
qed

subsection \<open>The report\<close>

text \<open>A finding shows an event: same fingerprint, kind, dimension, rules and invariant.\<close>

definition shows_event ::
  "(string \<Rightarrow> sha256) \<Rightarrow> finding \<Rightarrow> finding_event \<Rightarrow> bool" where
  "shows_event sha f e \<longleftrightarrow>
     fd_finding_id f = ''finding-'' @ fingerprint sha e \<and> fd_fingerprint_sha256 f = fingerprint sha e
     \<and> fd_finding_type f = fe_kind e \<and> fd_dimension f = fe_dimension e
     \<and> fd_rule_ids f = sorted_unique (fe_rule_ids e) \<and> fd_invariant_id f = fe_invariant_id e"

text \<open>What \<open>Finding(...)\<close> accepts of the events the walk produces.\<close>

definition event_fine :: "policy_ir \<Rightarrow> policy_contract \<Rightarrow> finding_event \<Rightarrow> bool" where
  "event_fine policy contract e \<longleftrightarrow>
     event_ok contract e \<and> list_all identifier_ok (fe_rule_ids e)
     \<and> optional identifier_ok (fe_invariant_id e) \<and> fe_assertion_id e = None
     \<and> list_all (valid_by source_span_checks) (event_spans policy e)
     \<and> fe_kind e \<notin> {Regression, PotentialLoophole}
     \<and> (fe_kind e = IntentBreach \<longrightarrow> fe_invariant_id e \<noteq> None)"

lemma sorted_snd_set: "set (map snd (sort_key fst d)) = snd ` set d"
  by simp

lemma finding_shows:
  assumes "group_describes sha policy contract es h g" and "\<forall>e \<in> set es. event_fine policy contract e"
  shows "\<exists>e \<in> set es. fingerprint sha e = h \<and> shows_event sha (finding_of (h, g)) e"
    and "set (fd_scenario_ids (finding_of (h, g))) =
      {tr_scenario_id (fe_trace e) | e. e \<in> set es \<and> fingerprint sha e = h}"
    and "hex_digest sha \<Longrightarrow> valid_finding (finding_of (h, g))"
proof -
  let ?mine = "{e \<in> set es. fingerprint sha e = h}"
  have d: "distinct (keys (fg_witnesses g))"
      "set (keys (fg_witnesses g)) = (\<lambda>e. tr_scenario_id (fe_trace e)) ` ?mine"
      "\<forall>(sid, t) \<in> set (fg_witnesses g). sid = tr_scenario_id t \<and> t \<in> fe_trace ` ?mine"
      "\<forall>(k, span) \<in> set (fg_citations g). \<exists>e \<in> ?mine. span \<in> set (event_spans policy e)"
    using assms(1) by (simp_all add: group_describes_def Let_def)
  obtain e where e: "e \<in> set es" "fingerprint sha e = h" "blank_citations g = blank_group contract e"
    using assms(1) by (auto simp: group_describes_def Let_def)
  have fine: "event_fine policy contract e" using assms(2) e(1) by blast
  then have ok: "event_ok contract e" by (simp add: event_fine_def)
  obtain sev where sev: "group_severity contract (fe_invariant_id e) = Inr sev"
    using new_group_eq [OF ok] by (auto simp: new_group_def rbind_Inr_iff)
  have "g = (blank_citations g)\<lparr>fg_witnesses := fg_witnesses g, fg_citations := fg_citations g\<rparr>"
    by (simp add: blank_citations_def)
  then have g: "g = (blank_group contract e)\<lparr>fg_witnesses := fg_witnesses g, fg_citations := fg_citations g\<rparr>"
    by (simp only: e(3))
  have fields: "fg_finding_type g = fe_kind e" "fg_dimension g = fe_dimension e"
    "fg_rule_ids g = sorted_unique (fe_rule_ids e)" "fg_invariant_id g = fe_invariant_id e"
    "fg_assertion_id g = fe_assertion_id e" "fg_severity g = sev"
    "fg_severity_origin g = (if truthy (fe_invariant_id e) then Some SessionInvariant else None)"
    "fg_evidence_level g = (if truthy (fe_invariant_id e) then EvidenceSessionConfirmed
       else if fe_clause e \<noteq> None then Candidate else MechanicallyReproduced)"
    by (subst g, simp add: blank_group_def new_group_def sev)+
  show "\<exists>e \<in> set es. fingerprint sha e = h \<and> shows_event sha (finding_of (h, g)) e"
    using e fields by (intro bexI [of _ e]) (simp_all add: shows_event_def finding_of_def)
  show ids: "set (fd_scenario_ids (finding_of (h, g))) =
      {tr_scenario_id (fe_trace e) | e. e \<in> set es \<and> fingerprint sha e = h}"
    using d(2) by (auto simp: finding_of_def)
  have traces: "set (fd_traces (finding_of (h, g))) = snd ` set (fg_witnesses g)"
    by (simp add: finding_of_def)
  assume hex: "hex_digest sha"
  have trace_ok: "valid_by trace_ref_checks t" if "t \<in> set (fd_traces (finding_of (h, g)))" for t
    using that d(3) assms(2) unfolding traces event_fine_def event_ok_def by fastforce
  have cited: "valid_by source_span_checks c" if "c \<in> set (fd_citations (finding_of (h, g)))" for c
  proof -
    have "c \<in> snd ` set (fg_citations g)" using that by (simp add: finding_of_def)
    then obtain k where "(k, c) \<in> set (fg_citations g)" by auto
    then obtain x where "x \<in> set es" "c \<in> set (event_spans policy x)" using d(4) by blast
    then show ?thesis using assms(2) by (auto simp: event_fine_def list_all_iff)
  qed
  have same: "set (fd_scenario_ids (finding_of (h, g))) = tr_scenario_id ` set (fd_traces (finding_of (h, g)))"
  proof -
    have "keys (fg_witnesses g) = map (\<lambda>w. tr_scenario_id (snd w)) (fg_witnesses g)"
      using d(3) by (auto simp: keys_def)
    then show ?thesis unfolding traces by (simp add: finding_of_def image_image)
  qed
  have some: "fd_scenario_ids (finding_of (h, g)) \<noteq> []" using ids e(1,2) by (metis (mono_tags, lifting) Collect_empty_eq empty_set)
  then have some': "fd_traces (finding_of (h, g)) \<noteq> []" using same by auto
  have id_ok: "list_all identifier_ok (fd_scenario_ids (finding_of (h, g)))"
    using same trace_ok by (auto simp: list_all_iff valid_by_def trace_ref_checks_def)
  have sev_iff: "(sev = None) = (\<not> truthy (fe_invariant_id e))"
    using sev by (auto simp: group_severity_def result_simps split: if_splits)
  have h: "sha256_ok h" using fingerprint_ok [OF hex, of e] e(2) by simp
  then have len: "length h = 64" by (rule length_sha)
  have f: "fd_finding_id (finding_of (h, g)) = ''finding-'' @ h" "fd_fingerprint_sha256 (finding_of (h, g)) = h"
    "fd_finding_type (finding_of (h, g)) = fe_kind e"
    "fd_evidence_level (finding_of (h, g)) = fg_evidence_level g"
    "fd_rule_ids (finding_of (h, g)) = sorted_unique (fe_rule_ids e)"
    "fd_invariant_id (finding_of (h, g)) = fe_invariant_id e" "fd_assertion_id (finding_of (h, g)) = None"
    "fd_severity (finding_of (h, g)) = sev"
    "fd_severity_origin (finding_of (h, g)) = (if truthy (fe_invariant_id e) then Some SessionInvariant else None)"
    using fine fields by (simp_all add: finding_of_def event_fine_def)
  have rules: "list_all identifier_ok (sorted_unique (fe_rule_ids e))"
    using fine by (simp add: event_fine_def list_all_iff)
  have lists: "list_all (valid_by trace_ref_checks) (fd_traces (finding_of (h, g)))"
    "list_all (valid_by source_span_checks) (fd_citations (finding_of (h, g)))"
    using trace_ok cited by (simp_all add: list_all_iff)
  have nice: "optional identifier_ok (fe_invariant_id e)" "fe_kind e \<notin> {Regression, PotentialLoophole}"
    "fe_kind e = IntentBreach \<longrightarrow> fe_invariant_id e \<noteq> None"
    using fine by (simp_all add: event_fine_def)
  have "fe_invariant_id e \<noteq> None" if "truthy (fe_invariant_id e)"
    using that by (cases "fe_invariant_id e") (simp_all add: truthy_def)
  then show "valid_finding (finding_of (h, g))"
    unfolding valid_by_def [of finding_checks] finding_checks_def f fields(8)
    using h len some some' id_ok rules lists same sev_iff nice
    by (cases "truthy (fe_invariant_id e)") (simp_all add: identifier_ok_def)
qed

lemma text_spans_valid:
  assumes "valid_policy_ir policy" and "r \<in> set (pi_rules policy)" and "span \<in> set (text_span (r_provenance r))"
  shows "valid_by source_span_checks span"
  using assms(3) valid_rule_provenance [OF valid_policy_rules [OF assms(1,2)]]
  by (cases "r_provenance r") (auto simp: valid_by_def provenance_checks_def)

lemma clause_span_valid:
  assumes "valid_policy_ir policy" and "c \<in> set (pi_unsupported_clauses policy)"
  shows "valid_by source_span_checks (uc_span c)"
proof -
  have "valid_by unsupported_clause_checks c"
    using assms by (simp add: valid_policy_ir_iff policy_fields_ok_def)
  then show ?thesis by (simp add: valid_by_def [of unsupported_clause_checks] unsupported_clause_checks_def)
qed

lemma event_spans_valid:
  assumes "valid_policy_ir policy"
    and "\<And>c. fe_clause e = Some c \<Longrightarrow> c \<in> set (pi_unsupported_clauses policy)"
  shows "list_all (valid_by source_span_checks) (event_spans policy e)"
proof (cases "fe_clause e")
  case None
  have "valid_by source_span_checks span"
    if "map_of (rules_by_id (pi_rules policy)) rid = Some r" "span \<in> set (text_span (r_provenance r))" for rid r span
    using that text_spans_valid [OF assms(1)] map_of_dict_by_SomeD by (fastforce simp: rules_by_id_def)
  then show ?thesis using None by (auto simp: event_spans_def list_all_iff split: option.splits) (metis)
next
  case (Some c)
  then show ?thesis using clause_span_valid [OF assms] by (simp add: event_spans_def)
qed

lemma suite_events_fine:
  assumes "valid_policy_ir policy" and "valid_contract contract" and "valid_suite suite"
    and "hex_digest sha" and "sources_known contract suite"
    and "e \<in> set (suite_events sha policy contract suite)"
  shows "event_fine policy contract e"
proof -
  obtain s where s: "s \<in> set (ss_scenarios suite)" "e \<in> set (scenario_events sha policy contract s)"
    using assms(6) by (auto simp: suite_events_def)
  note vs = valid_suite_scenarios [OF assms(3) s(1)]
  let ?t = "trace_of_result (scenario_outcome sha policy contract s)"
  have quiet: "\<not> contended contract s" using s(2) by (auto simp: scenario_events_def split: if_splits)
  have trace: "valid_by trace_ref_checks ?t"
    using valid_scenario_id [OF vs] expected_trace_hash [OF assms(4)] quiet
    by (simp add: valid_by_def trace_ref_checks_def trace_of_result_def scenario_outcome_def
        expected_evaluation_def)
  have concerned: "list_all identifier_ok (concerned_rules policy d)" for d
    using valid_rule_id valid_policy_rules [OF assms(1)] by (auto simp: concerned_rules_def list_all_iff)
  have known: "\<forall>a \<in> set (sc_assertions s). knows_invariant contract (a_source_invariant_id a)"
    using assms(5) s(1) by (simp add: sources_known_def list_all_iff)
  let ?d = "expected_dimension policy contract s"
  consider (breach) a where "a \<in> set (breaches policy contract s)" "e = breach_event policy ?t a"
    | (gap) d where "e = gap_event policy ?t d"
    | (conflict) d where "e = conflict_event ?t (?d d)"
    | (clause) d i where "i \<in> set (dr_unsupported_clause_ids (?d d))"
        "e = clause_event ?t (dr_dimension (?d d)) (first_clause policy i)"
    using s(2) quiet by (auto simp: scenario_events_def Let_def dimension_events_def split: if_splits)
  then show ?thesis
  proof cases
    case breach
    then have a: "a \<in> set (assertions_in_force contract s)" "truthy (a_source_invariant_id a)"
      by (simp_all add: breaches_def breached_def Let_def)
    have "optional identifier_ok (a_source_invariant_id a)"
      using assertions_in_force_valid [OF assms(2) vs a(1)] by (simp add: valid_by_def assertion_checks_def)
    moreover have "a_source_invariant_id a \<noteq> None"
      using a(2) by (cases "a_source_invariant_id a") (simp_all add: truthy_def)
    ultimately show ?thesis
      using trace concerned source_known [OF assms(2) a(1) known] event_spans_valid [OF assms(1), of e]
      by (simp add: event_fine_def event_ok_def breach(2) breach_event_def)
  next
    case gap
    then show ?thesis
      using trace concerned event_spans_valid [OF assms(1), of e]
      by (simp add: event_fine_def event_ok_def gap_event_def knows_invariant_def truthy_def)
  next
    case conflict
    have "list_all identifier_ok (dr_applicable_rule_ids (?d d))"
      using expected_dimension_valid [OF assms(1), of contract s d]
      by (simp add: valid_by_def dimension_result_checks_def)
    then show ?thesis
      using trace event_spans_valid [OF assms(1), of e]
      by (simp add: event_fine_def event_ok_def conflict conflict_event_def knows_invariant_def truthy_def
          list_all_iff)
  next
    case clause
    have "i \<in> uc_clause_id ` set (pi_unsupported_clauses policy)"
      using resolution_clause_ids clause(1) unfolding expected_dimension_def by blast
    then have "find (\<lambda>c. uc_clause_id c = i) (pi_unsupported_clauses policy) \<noteq> None"
      by (auto simp: find_None_iff)
    then have "first_clause policy i \<in> set (pi_unsupported_clauses policy)"
      by (auto simp: first_clause_def dest: find_SomeD)
    then show ?thesis
      using trace event_spans_valid [OF assms(1), of e]
      by (simp add: event_fine_def event_ok_def clause(2) clause_event_def knows_invariant_def truthy_def)
  qed
qed

text \<open>The report of the analyzer on an evaluation the engine produced.\<close>

definition reports_events ::
  "(string \<Rightarrow> sha256) \<Rightarrow> finding_event list \<Rightarrow> finding list \<Rightarrow> bool" where
  "reports_events sha es fs \<longleftrightarrow>
     sorted (map fd_fingerprint_sha256 fs) \<and> distinct (map fd_fingerprint_sha256 fs)
     \<and> list_all (\<lambda>f. list_ex (shows_event sha f) es) fs
     \<and> {(fd_fingerprint_sha256 f, s) | f s. f \<in> set fs \<and> s \<in> set (fd_scenario_ids f)} =
        (\<lambda>e. (fingerprint sha e, tr_scenario_id (fe_trace e))) ` set es"

lemma groups_report:
  assumes "groups_describe sha policy contract es groups" and "\<forall>e \<in> set es. event_fine policy contract e"
    and "hex_digest sha"
  shows "traverse (\<lambda>entry. validated finding_checks (finding_of entry)) (sort_key fst groups) =
      Inr (map finding_of (sort_key fst groups))"
    and "list_all valid_finding (map finding_of (sort_key fst groups))"
    and "reports_events sha es (map finding_of (sort_key fst groups))"
proof -
  have desc: "group_describes sha policy contract es h g" if "(h, g) \<in> set groups" for h g
  proof -
    have "\<forall>entry \<in> set groups. case entry of (h, g) \<Rightarrow> group_describes sha policy contract es h g"
      using assms(1) by (simp add: groups_describe_def)
    from bspec [OF this that] show ?thesis by simp
  qed
  note found = finding_shows [OF desc assms(2)]
  have valid: "valid_finding (finding_of entry)" if "entry \<in> set groups" for entry
    using found(3) [OF _ assms(3)] that by (cases entry) simp
  then show "traverse (\<lambda>entry. validated finding_checks (finding_of entry)) (sort_key fst groups) =
      Inr (map finding_of (sort_key fst groups))"
    by (intro traverse_eq_map) simp
  show "list_all valid_finding (map finding_of (sort_key fst groups))"
    using valid by (simp add: list_all_iff)
  have prints: "map fd_fingerprint_sha256 (map finding_of (sort_key fst groups)) = map fst (sort_key fst groups)"
    by (auto simp: finding_of_def)
  have "distinct (map fst (sort_key fst groups))"
    using assms(1) by (simp add: groups_describe_def keys_def distinct_map)
  moreover have "list_ex (shows_event sha (finding_of entry)) es" if "entry \<in> set groups" for entry
    using found(1) that unfolding list_ex_iff by (cases entry) blast
  moreover have "{(fd_fingerprint_sha256 f, s) | f s. f \<in> finding_of ` set groups \<and> s \<in> set (fd_scenario_ids f)} =
      (\<lambda>e. (fingerprint sha e, tr_scenario_id (fe_trace e))) ` set es" (is "?L = ?R")
  proof (intro equalityI subsetI)
    fix x assume "x \<in> ?L"
    then obtain h g s where x: "(h, g) \<in> set groups" "s \<in> set (fd_scenario_ids (finding_of (h, g)))" "x = (h, s)"
      by (auto simp: finding_of_def)
    then show "x \<in> ?R" using found(2) [OF x(1)] by auto
  next
    fix x assume "x \<in> ?R"
    then obtain e where e: "e \<in> set es" "x = (fingerprint sha e, tr_scenario_id (fe_trace e))" by auto
    then have "fingerprint sha e \<in> set (keys groups)" using assms(1) by (simp add: groups_describe_def)
    then obtain g where g: "(fingerprint sha e, g) \<in> set groups" by (auto simp: keys_def)
    have "tr_scenario_id (fe_trace e) \<in> set (fd_scenario_ids (finding_of (fingerprint sha e, g)))"
      using found(2) [OF g] e(1) by blast
    moreover have "fd_fingerprint_sha256 (finding_of (fingerprint sha e, g)) = fingerprint sha e"
      by (simp add: finding_of_def)
    ultimately show "x \<in> ?L" using g e(2) by force
  qed
  ultimately show "reports_events sha es (map finding_of (sort_key fst groups))"
    unfolding reports_events_def prints by (simp add: list_all_iff)
qed

lemma analyze_value:
  assumes "valid_policy_ir (af_policy request)" and "valid_contract (af_contract request)"
    and "valid_suite (af_suite request)" and "valid_by input_hashes_checks (er_inputs (af_evaluation request))"
    and "hex_digest sha" and "sources_known (af_contract request) (af_suite request)"
    and "finding_anchors sha request = Inr ()"
    and "er_results (af_evaluation request) =
      map (scenario_outcome sha (af_policy request) (af_contract request))
        (sort_key sc_scenario_id (ss_scenarios (af_suite request)))"
  shows "\<exists>report. analyze sha request = Inr report \<and> valid_by finding_report_checks report
    \<and> fr_inputs report = er_inputs (af_evaluation request)
    \<and> reports_events sha (suite_events sha (af_policy request) (af_contract request) (af_suite request))
        (fr_findings report)
    \<and> fr_findings report = map finding_of (sort_key fst
        (fold (put_event sha (af_policy request) (af_contract request))
          (suite_events sha (af_policy request) (af_contract request) (af_suite request)) []))"
proof -
  let ?es = "suite_events sha (af_policy request) (af_contract request) (af_suite request)"
  define groups where "groups = fold (put_event sha (af_policy request) (af_contract request)) ?es []"
  have fine: "\<forall>e \<in> set ?es. event_fine (af_policy request) (af_contract request) e"
    using suite_events_fine [OF assms(1-3,5,6)] by blast
  then have groups: "groups_describe sha (af_policy request) (af_contract request) ?es groups"
    unfolding groups_def by (intro groups_describe_all) (simp add: event_fine_def)
  note report = groups_report [OF groups fine assms(5)]
  have sorted: "sort_key se_scenario_id (er_results (af_evaluation request)) = er_results (af_evaluation request)"
  proof -
    have "sorted (map se_scenario_id (er_results (af_evaluation request)))"
      unfolding assms(8) by (simp add: comp_def)
    then show ?thesis by (rule sort_key_id_if_sorted)
  qed
  have walk: "rfold (analyze_result sha request)
      (sort_key se_scenario_id (er_results (af_evaluation request))) [] = Inr groups"
    unfolding sorted unfolding assms(8) groups_def by (rule suite_walk [OF assms(1-3,5,6)])
  define fs where "fs = map finding_of (sort_key fst groups)"
  obtain b where digest: "canonical_sha256 sha (seq_obj finding_obj fs) = Inr (sha b)"
    by (simp add: canonical_sha256_norm list_all_iff)
  define r where "r = \<lparr>fr_report_id = ''findings-'' @ sha b, fr_inputs = er_inputs (af_evaluation request),
    fr_findings = fs\<rparr>"
  have "valid_by finding_report_checks r"
    using length_sha [OF hex_digestD [OF assms(5), of b]] assms(4) report(2)
    by (simp add: r_def fs_def valid_by_def finding_report_checks_def identifier_ok_def)
  moreover from this have "analyze sha request = Inr r"
    unfolding analyze_def assms(7) rbind_simps walk report(1) fs_def [symmetric] digest r_def [symmetric]
    by simp
  ultimately show ?thesis using report(3) unfolding fs_def [symmetric] groups_def [symmetric] by (auto simp: r_def)
qed

end
