(* ===== verification/Patches_Meaning.thy ===== *)
theory Patches_Meaning
  imports Patches Findings_Meaning
begin

section \<open>What an applied revision is\<close>

text \<open>
  The loop over the operations replaces exactly the rules they name, and what each replacement may
  change is bounded by the findings it targets. No exception escapes \<open>apply_revision\<close>.
\<close>

subsection \<open>The loop over operations\<close>

text \<open>\<open>new\<close> is what the operation makes of the rule it names.\<close>

definition revises ::
  "apply_revision_request \<Rightarrow> (ident \<times> finding) list \<Rightarrow> (ident \<times> rule) list
   \<Rightarrow> nat \<times> revision_operation \<Rightarrow> rule \<Rightarrow> bool" where
  "revises request findings baseline indexed_op new \<longleftrightarrow>
     (\<exists>targets provenance.
        traverse (lookup findings) (op_finding_ids (snd indexed_op)) = Inr targets
        \<and> revision_provenance request baseline (fst indexed_op) targets
            (map_of baseline (op_rule_id (snd indexed_op))) = Inr provenance
        \<and> operation_replacement baseline targets provenance (snd indexed_op) = Inr new
        \<and> list_all (edge_within_conflict targets (op_rule_id (snd indexed_op)))
            (changed_edges (map_of baseline (op_rule_id (snd indexed_op))) new))"

lemma apply_operation_Inr:
  "apply_operation request findings baseline iop state = Inr state' \<longleftrightarrow>
     op_rule_id (snd iop) \<notin> set (snd state)
     \<and> (\<exists>new. revises request findings baseline iop new
          \<and> state' = (AList.update (op_rule_id (snd iop)) new (fst state),
                      snd state @ [op_rule_id (snd iop)]))"
  by (cases iop) (auto simp: apply_operation_def revises_def Let_def rbind_Inr_iff)

abbreviation op_ids :: "(nat \<times> revision_operation) list \<Rightarrow> ident list" where
  "op_ids iops \<equiv> map (\<lambda>iop. op_rule_id (snd iop)) iops"

lemma apply_operations:
  assumes "rfold (apply_operation request findings baseline) iops (revised, changed) = Inr (revised', changed')"
    and "distinct changed"
  shows "changed' = changed @ op_ids iops \<and> distinct changed'
    \<and> (\<forall>rid. rid \<notin> set (op_ids iops) \<longrightarrow> map_of revised' rid = map_of revised rid)
    \<and> (\<forall>iop \<in> set iops. \<exists>new. revises request findings baseline iop new
          \<and> map_of revised' (op_rule_id (snd iop)) = Some new)
    \<and> (distinct (keys revised) \<longrightarrow> distinct (keys revised'))"
  using assms
proof (induction iops arbitrary: revised changed)
  case (Cons i iops)
  let ?rid = "op_rule_id (snd i)"
  obtain new where i: "?rid \<notin> set changed" "revises request findings baseline i new"
    "rfold (apply_operation request findings baseline) iops
      (AList.update ?rid new revised, changed @ [?rid]) = Inr (revised', changed')"
    using Cons.prems(1) by (auto simp: rbind_Inr_iff apply_operation_Inr)
  have "distinct (changed @ [?rid])" using Cons.prems(2) i(1) by simp
  note IH = Cons.IH [OF i(3) this]
  then have shape: "changed' = (changed @ [?rid]) @ op_ids iops" "distinct changed'" by blast+
  then have fresh: "?rid \<notin> set (op_ids iops)" by (simp del: set_map)
  then have "map_of revised' ?rid = Some new" using IH by (simp add: update_conv del: set_map)
  moreover have "\<forall>rid. rid \<notin> set (op_ids (i # iops)) \<longrightarrow> map_of revised' rid = map_of revised rid"
    using IH by (simp add: update_conv)
  moreover have "distinct (keys revised) \<longrightarrow> distinct (keys revised')"
    using IH by (blast intro: distinct_keys_update)
  moreover have "changed' = changed @ op_ids (i # iops)" using shape(1) by simp
  moreover have "\<forall>iop \<in> set iops. \<exists>new. revises request findings baseline iop new
      \<and> map_of revised' (op_rule_id (snd iop)) = Some new" using IH by blast
  ultimately show ?case using shape(2) i(2) by (simp del: distinct_append)
qed simp

subsection \<open>What a replacement may change\<close>

definition effects_at :: "effect_dimension \<Rightarrow> rule \<Rightarrow> effect list" where
  "effects_at d r = filter (\<lambda>e. e_dimension e = d) (r_effects r)"

lemma unrelated_effects_at:
  assumes "distinct (effect_dims (r_effects r))" and "d \<notin> allowed"
  shows "set (effects_at d r) = {e. (d, e) \<in> set (unrelated_effects allowed r)}"
proof -
  have "distinct (map e_dimension (filter (\<lambda>e. e_dimension e \<notin> allowed) (r_effects r)))"
    using assms(1) by (simp add: effect_dims_def distinct_map_filter)
  then show ?thesis
    using assms(2) by (auto simp: effects_at_def unrelated_effects_def dict_by_distinct)
qed

lemma draft_replacement_Inr:
  assumes "draft_replacement targets old provenance rid draft = Inr new"
  shows "valid_rule new" and "r_rule_id new = rid" and "r_provenance new = provenance"
    and "r_revision new = (case old of None \<Rightarrow> 1 | Some r \<Rightarrow> r_revision r + 1)"
    and "conditions_unrestricted (r_when new) = Inr False"
    and "old = Some r \<Longrightarrow> list_all fst (replacement_checks (set (map fd_dimension targets)) r new)"
    and "old = None \<Longrightarrow> set (effect_dims (r_effects new)) \<subseteq> set (map fd_dimension targets)"
  using assms by (auto simp: draft_replacement_def Let_def result_simps check_all_ok split: if_splits)

lemma operation_replacement_cases:
  assumes "operation_replacement baseline targets provenance op = Inr new"
  obtains (override) r edge where "map_of baseline (op_rule_id op) = Some r"
      "new = r\<lparr>r_overrides := r_overrides r @ [edge], r_revision := r_revision r + 1, r_provenance := provenance\<rparr>"
    | (draft) draft where
      "draft_replacement targets (map_of baseline (op_rule_id op)) provenance (op_rule_id op) draft = Inr new"
proof (cases op)
  case (AddRuleOperation rid rule ids)
  then show ?thesis
    using assms draft by (auto simp: operation_replacement_def result_simps split: if_splits)
next
  case (ReplaceRuleOperation rid expected rule ids)
  then show ?thesis
    using assms draft by (auto simp: operation_replacement_def result_simps split: if_splits)
next
  case (AddOverrideOperation rid dimension target ids)
  then show ?thesis
    using assms override
    by (auto simp: operation_replacement_def override_replacement_def result_simps split: if_splits option.splits)
qed

lemma operation_replacement_identity:
  assumes "operation_replacement baseline targets provenance op = Inr new"
    and "\<And>r. map_of baseline (op_rule_id op) = Some r \<Longrightarrow> r_rule_id r = op_rule_id op"
  shows "r_rule_id new = op_rule_id op" and "r_provenance new = provenance"
    and "r_revision new = (case map_of baseline (op_rule_id op) of None \<Rightarrow> 1 | Some r \<Rightarrow> r_revision r + 1)"
  using assms(1)
  by (cases rule: operation_replacement_cases; simp add: assms(2) draft_replacement_Inr(2-4))+

text \<open>Effects on dimensions no targeted finding is about stay, and a new rule has none.\<close>

definition keeps_effects :: "effect_dimension set \<Rightarrow> rule option \<Rightarrow> rule \<Rightarrow> bool" where
  "keeps_effects allowed old new \<longleftrightarrow>
     (\<forall>d. d \<notin> allowed \<longrightarrow>
        set (effects_at d new) = (case old of None \<Rightarrow> {} | Some r \<Rightarrow> set (effects_at d r)))"

lemma operation_replacement_effects:
  assumes "operation_replacement baseline targets provenance op = Inr new"
    and "\<And>r. map_of baseline (op_rule_id op) = Some r \<Longrightarrow> distinct (effect_dims (r_effects r))"
  shows "keeps_effects (set (map fd_dimension targets)) (map_of baseline (op_rule_id op)) new"
  using assms(1)
proof (cases rule: operation_replacement_cases)
  case (override r edge)
  then show ?thesis by (simp add: keeps_effects_def effects_at_def)
next
  case (draft draft)
  note distinct_new = valid_rule_distinct_dims [OF draft_replacement_Inr(1) [OF draft]]
  show ?thesis
  proof (cases "map_of baseline (op_rule_id op)")
    case None
    have "effects_at d new = []" if "d \<notin> set (map fd_dimension targets)" for d
      using draft_replacement_Inr(7) [OF draft None] that
      by (auto simp: effects_at_def effect_dims_def filter_empty_conv)
    then show ?thesis by (simp add: keeps_effects_def None)
  next
    case (Some r)
    have "set (unrelated_effects (set (map fd_dimension targets)) r) =
        set (unrelated_effects (set (map fd_dimension targets)) new)"
      using draft_replacement_Inr(6) [OF draft Some] by (simp add: replacement_checks_def)
    then show ?thesis
      using unrelated_effects_at [OF distinct_new] unrelated_effects_at [OF assms(2) [OF Some]]
      by (simp add: keeps_effects_def Some)
  qed
qed

subsection \<open>The revised policy\<close>

text \<open>
  Unnamed rules are the baseline's own; a named rule is what its operation, with its findings as
  targets, makes of it.
\<close>

definition revised_rule ::
  "apply_revision_request \<Rightarrow> finding list \<Rightarrow> nat \<times> revision_operation \<Rightarrow> rule \<Rightarrow> bool" where
  "revised_rule request found indexed_op new \<longleftrightarrow>
     (let op = snd indexed_op; old = find (\<lambda>r. r_rule_id r = op_rule_id op) (pi_rules (arq_policy request)) in
      r_rule_id new = op_rule_id op
      \<and> r_revision new = (case old of None \<Rightarrow> 1 | Some r \<Rightarrow> r_revision r + 1)
      \<and> (\<exists>cites. r_provenance new = SessionRevision
           \<lparr>sp_proposal_id = rp_proposal_id (arq_proposal request), sp_operation_index = int (fst indexed_op),
            sp_confirmed_at = arq_confirmed_at request, sp_baseline_citation_ids = cites\<rparr>)
      \<and> keeps_effects {fd_dimension f | f. f \<in> set found \<and> fd_finding_id f \<in> set (op_finding_ids op)} old new)"

definition revision_of :: "apply_revision_request \<Rightarrow> finding list \<Rightarrow> policy_ir \<Rightarrow> bool" where
  "revision_of request found policy \<longleftrightarrow>
     (let baseline = arq_policy request; ops = rp_operations (arq_proposal request);
          named = set (map op_rule_id ops) in
      pi_policy_id policy = pi_policy_id baseline
      \<and> pi_document_sha256 policy = pi_document_sha256 baseline
      \<and> pi_unsupported_clauses policy = pi_unsupported_clauses baseline
      \<and> pi_kind policy = StructuredRevision \<and> pi_review_status policy = SessionConfirmed
      \<and> {r \<in> set (pi_rules policy). r_rule_id r \<notin> named} = {r \<in> set (pi_rules baseline). r_rule_id r \<notin> named}
      \<and> (\<forall>iop \<in> set (enumerate 0 ops). \<exists>new \<in> set (pi_rules policy). revised_rule request found iop new))"

lemma revises_revised_rule:
  assumes "revises request (dict_by fd_finding_id found) (rules_by_id (pi_rules (arq_policy request))) iop new"
    and "valid_policy_ir (arq_policy request)"
  shows "revised_rule request found iop new"
proof -
  let ?rules = "pi_rules (arq_policy request)" and ?op = "snd iop"
  let ?baseline = "rules_by_id ?rules"
  note dist = valid_policy_distinct [OF assms(2)]
  obtain targets provenance where t: "traverse (lookup (dict_by fd_finding_id found)) (op_finding_ids ?op) = Inr targets"
    and p: "revision_provenance request ?baseline (fst iop) targets (map_of ?baseline (op_rule_id ?op)) = Inr provenance"
    and r: "operation_replacement ?baseline targets provenance ?op = Inr new"
    using assms(1) unfolding revises_def by blast
  have old: "r_rule_id x = op_rule_id ?op" "distinct (effect_dims (r_effects x))"
    if "map_of ?baseline (op_rule_id ?op) = Some x" for x
  proof -
    have "x \<in> set ?rules \<and> r_rule_id x = op_rule_id ?op"
      using that map_of_dict_by_SomeD unfolding rules_by_id_def by fast
    then show "r_rule_id x = op_rule_id ?op" "distinct (effect_dims (r_effects x))"
      using valid_rule_distinct_dims valid_policy_rules [OF assms(2)] by auto
  qed
  have "set (map fd_dimension targets) \<subseteq>
      {fd_dimension f | f. f \<in> set found \<and> fd_finding_id f \<in> set (op_finding_ids ?op)}" (is "_ \<subseteq> ?allowed")
  proof
    fix d assume "d \<in> set (map fd_dimension targets)"
    then obtain f where f: "f \<in> set targets" "d = fd_dimension f" by auto
    from t f(1) obtain i where "i \<in> set (op_finding_ids ?op)" "lookup (dict_by fd_finding_id found) i = Inr f"
      by (rule traverse_memE)
    then show "d \<in> ?allowed"
      using f(2) map_of_dict_by_SomeD [of fd_finding_id found i f] by (auto simp: lookup_Inr_iff)
  qed
  then have "keeps_effects ?allowed (map_of ?baseline (op_rule_id ?op)) new"
    using operation_replacement_effects [OF r old(2)] unfolding keeps_effects_def by blast
  then show ?thesis
    using operation_replacement_identity [OF r old(1)] p
    by (auto simp: revised_rule_def Let_def rules_by_id_def map_of_dict_by_find [OF dist] revision_provenance_def result_simps)
qed

lemma apply_proposal_Inr:
  assumes "apply_proposal sha request = Inr result"
  obtains found revised changed policy where
    "baseline_findings sha (arq_policy request) (arq_contract request) (arq_suite request) = Inr found"
    "validate_targets (arq_suite request) (arq_proposal request) (dict_by fd_finding_id found) = Inr ()"
    "rfold (apply_operation request (dict_by fd_finding_id found) (rules_by_id (pi_rules (arq_policy request))))
       (enumerate 0 (rp_operations (arq_proposal request)))
       (rules_by_id (pi_rules (arq_policy request)), []) = Inr (revised, changed)"
    "policy = \<lparr>pi_policy_id = pi_policy_id (arq_policy request),
       pi_document_sha256 = pi_document_sha256 (arq_policy request), pi_kind = StructuredRevision,
       pi_review_status = SessionConfirmed, pi_rules = map snd (sort_key fst revised),
       pi_unsupported_clauses = pi_unsupported_clauses (arq_policy request)\<rparr>"
    "validate_rule_set policy = Inr ()"
    "result = \<lparr>par_proposal_id = rp_proposal_id (arq_proposal request), par_applied = True,
       par_revised_policy = Some policy, par_changed_rule_ids = sort changed, par_error = None\<rparr>"
    "rfold (changes_semantics sha (rules_by_id (pi_rules (arq_policy request))) revised) changed () = Inr ()"
  using assms unfolding apply_proposal_def Let_def
  by (elim rbind_InrE) (auto simp: validated_Inr_iff elim!: rbind_InrE)

lemma revised_unnamed:
  assumes base: "distinct (map r_rule_id rules)" and keys: "distinct (keys revised)"
    and keep: "\<forall>rid. rid \<notin> set named \<longrightarrow> map_of revised rid = map_of (rules_by_id rules) rid"
    and made: "\<forall>rid \<in> set named. \<forall>r. map_of revised rid = Some r \<longrightarrow> r_rule_id r = rid"
  shows "{r \<in> set (map snd (sort_key fst revised)). r_rule_id r \<notin> set named} =
    {r \<in> set rules. r_rule_id r \<notin> set named}"
proof -
  have own: "r \<in> set rules \<and> r_rule_id r = k" if "map_of (rules_by_id rules) k = Some r" for k r
    using that by (simp add: rules_by_id_def map_of_dict_by_distinct [OF base])
  have id: "r_rule_id r = k" if "map_of revised k = Some r" for k r
    using that own keep made by (cases "k \<in> set named") auto
  have members: "r \<in> set (map snd (sort_key fst revised)) \<longleftrightarrow> (\<exists>k. map_of revised k = Some r)" for r
    using map_of_values [OF keys, of r] by simp
  have "(\<exists>k. map_of revised k = Some r) \<longleftrightarrow> r \<in> set rules" if "r_rule_id r \<notin> set named" for r
  proof
    assume "\<exists>k. map_of revised k = Some r"
    then show "r \<in> set rules" using id own keep that by metis
  next
    assume "r \<in> set rules"
    then have "map_of (rules_by_id rules) (r_rule_id r) = Some r"
      by (simp add: rules_by_id_def map_of_dict_by_distinct [OF base])
    then show "\<exists>k. map_of revised k = Some r" using keep that by metis
  qed
  then show ?thesis unfolding members by blast
qed

lemma apply_proposal_applied:
  assumes "apply_proposal sha request = Inr result" and "valid_policy_ir (arq_policy request)"
  obtains policy found where "par_revised_policy result = Some policy"
    "baseline_findings sha (arq_policy request) (arq_contract request) (arq_suite request) = Inr found"
    "validate_rule_set policy = Inr ()" "revision_of request found policy"
    "par_applied result" "par_error result = None"
    "par_changed_rule_ids result = sort (map op_rule_id (rp_operations (arq_proposal request)))"
    "distinct (par_changed_rule_ids result)"
    "par_proposal_id result = rp_proposal_id (arq_proposal request)"
    "list_all (\<lambda>fid. list_ex (\<lambda>f. fd_finding_id f = fid \<and> reviewable (arq_suite request) f) found)
        (rp_accepted_finding_ids (arq_proposal request))"
proof -
  let ?proposal = "arq_proposal request" and ?policy = "arq_policy request"
  let ?baseline = "rules_by_id (pi_rules ?policy)"
  let ?iops = "enumerate 0 (rp_operations ?proposal)"
  from assms(1) obtain found revised changed policy where
    found: "baseline_findings sha ?policy (arq_contract request) (arq_suite request) = Inr found"
    and targets: "validate_targets (arq_suite request) ?proposal (dict_by fd_finding_id found) = Inr ()"
    and loop: "rfold (apply_operation request (dict_by fd_finding_id found) ?baseline) ?iops
        (?baseline, []) = Inr (revised, changed)"
    and policy: "policy = \<lparr>pi_policy_id = pi_policy_id ?policy, pi_document_sha256 = pi_document_sha256 ?policy,
         pi_kind = StructuredRevision, pi_review_status = SessionConfirmed,
         pi_rules = map snd (sort_key fst revised), pi_unsupported_clauses = pi_unsupported_clauses ?policy\<rparr>"
    and valid: "validate_rule_set policy = Inr ()"
    and result: "result = \<lparr>par_proposal_id = rp_proposal_id ?proposal, par_applied = True,
         par_revised_policy = Some policy, par_changed_rule_ids = sort changed, par_error = None\<rparr>"
    by (rule apply_proposal_Inr)
  have "map snd ?iops = rp_operations ?proposal" by simp
  then have ops: "op_ids ?iops = map op_rule_id (rp_operations ?proposal)"
    by (metis (no_types, lifting) comp_apply map_eq_conv map_map)
  note l = apply_operations [OF loop distinct.simps(1) [THEN iffD2, OF TrueI]]
  have made: "\<exists>new. revised_rule request found iop new \<and> map_of revised (op_rule_id (snd iop)) = Some new"
    if "iop \<in> set ?iops" for iop
    using l that revises_revised_rule [OF _ assms(2)] by blast
  have keys: "distinct (keys revised)" using l by (simp add: rules_by_id_def)
  have keep: "\<forall>rid. rid \<notin> set (op_ids ?iops) \<longrightarrow> map_of revised rid = map_of ?baseline rid"
    using l by blast
  have "\<forall>rid \<in> set (op_ids ?iops). \<forall>r. map_of revised rid = Some r \<longrightarrow> r_rule_id r = rid"
    using made by (fastforce simp: revised_rule_def Let_def)
  then have "{r \<in> set (pi_rules policy). r_rule_id r \<notin> set (op_ids ?iops)} =
      {r \<in> set (pi_rules ?policy). r_rule_id r \<notin> set (op_ids ?iops)}"
    using revised_unnamed [OF valid_policy_distinct [OF assms(2)] keys keep]
    by (simp only: policy policy_ir.select_convs)
  moreover have "\<exists>new \<in> set (pi_rules policy). revised_rule request found iop new"
    if mem: "iop \<in> set ?iops" for iop
  proof -
    obtain new where new: "revised_rule request found iop new" "map_of revised (op_rule_id (snd iop)) = Some new"
      using made [OF mem] by blast
    have "new \<in> set (pi_rules policy)" using map_of_values [OF keys, of new] new(2) by (auto simp: policy)
    then show ?thesis using new(1) by blast
  qed
  ultimately have "revision_of request found policy"
    unfolding revision_of_def Let_def ops by (simp add: policy)
  moreover have "list_all (\<lambda>fid. list_ex (\<lambda>f. fd_finding_id f = fid \<and> reviewable (arq_suite request) f) found)
        (rp_accepted_finding_ids ?proposal)"
    using targets map_of_dict_by_SomeD
    by (fastforce simp: validate_targets_def check_all_ok list_all_iff list_ex_iff split: option.splits if_splits)
  moreover have "changed = [] @ op_ids ?iops" "distinct changed" using l by blast+
  then have "changed = map op_rule_id (rp_operations ?proposal)" "distinct changed"
    unfolding ops by simp_all
  ultimately show ?thesis using found valid by (intro that [of policy found]) (simp_all add: result)
qed

subsection \<open>No exception escapes\<close>

text \<open>
  A computation is contained when the exceptions it can raise are among those the handler of
  \<open>apply_revision\<close> catches. The rules follow the way the code is composed.
\<close>

definition contained :: "'a result \<Rightarrow> bool" where
  "contained m = (case m of Inl e \<Rightarrow> revision_caught e | Inr _ \<Rightarrow> True)"

named_theorems containment \<open>computations that raise only exceptions the handler catches\<close>

lemma contained_Inr [simp, containment]: "contained (Inr x)"
  by (simp add: contained_def)

lemma contained_Inl [simp]: "contained (Inl e) = revision_caught e"
  by (simp add: contained_def)

lemma contained_rbind [containment]:
  "contained m \<Longrightarrow> (\<And>x. m = Inr x \<Longrightarrow> contained (f x)) \<Longrightarrow> contained (rbind m f)"
  by (cases m) auto

lemma contained_checks [containment]: "contained (check_all cs)"
  using check_all_cases [of cs] by auto

lemma contained_validated [containment]: "contained (validated checks x)"
  unfolding validated_def by (rule contained_rbind [OF contained_checks]) simp

lemma contained_lookup [containment]: "contained (lookup d k)"
  by (auto simp: lookup_def contained_def split: option.splits)

lemma contained_rfold [containment]:
  "(\<And>x s. x \<in> set xs \<Longrightarrow> contained (f x s)) \<Longrightarrow> contained (rfold f xs s)"
  by (induction xs arbitrary: s) (auto intro: contained_rbind)

lemma contained_traverse [containment]:
  "(\<And>x. x \<in> set xs \<Longrightarrow> contained (f x)) \<Longrightarrow> contained (traverse f xs)"
  by (induction xs) (auto intro!: contained_rbind)

lemma contained_rfilter [containment]:
  "(\<And>x. x \<in> set xs \<Longrightarrow> contained (f x)) \<Longrightarrow> contained (rfilter f xs)"
  by (induction xs) (auto intro!: contained_rbind)

lemma contained_if [containment]:
  "(b \<Longrightarrow> contained m) \<Longrightarrow> (\<not> b \<Longrightarrow> contained m') \<Longrightarrow> contained (if b then m else m')"
  by simp

lemma contained_option [containment]:
  "contained m \<Longrightarrow> (\<And>x. v = Some x \<Longrightarrow> contained (f x)) \<Longrightarrow>
   contained (case v of None \<Rightarrow> m | Some x \<Rightarrow> f x)"
  by (cases v) auto

lemma contained_hash [containment]:
  "hashable v \<Longrightarrow> contained (canonical_sha256 sha v)"
  "hashable v \<Longrightarrow> contained (payload_hash sha v)"
  "hashable v \<Longrightarrow> contained (semantic_hash sha v)"
  by (simp_all add: canonical_sha256_norm payload_hash_view)

lemma contained_found:
  "find_first P xs = Inr x \<Longrightarrow> contained (find_first P xs)"
  by simp

lemma contained_add_finding [containment]: "contained (add_finding sha policy contract e groups)"
  unfolding add_finding_def event_fingerprint_eq rbind_simps new_group_def group_severity_def hash_span_eq
  by (auto intro!: containment)

lemma contained_result:
  assumes "valid_policy_ir (af_policy request)" and "valid_contract (af_contract request)"
    and "valid_suite (af_suite request)" and "s \<in> set (ss_scenarios (af_suite request))"
  shows "contained (analyze_result sha request
    (scenario_outcome sha (af_policy request) (af_contract request) s) groups)"
proof (cases "contended (af_contract request) s")
  case True
  then show ?thesis
    unfolding analyze_result_def Let_def
    by (intro contained_rbind contained_lookup) (simp add: scenario_outcome_verdict)
next
  case False
  let ?policy = "af_policy request" and ?contract = "af_contract request"
  let ?result = "scenario_outcome sha ?policy ?contract s"
  let ?res = "expected_dimension ?policy ?contract s"
  note s = valid_suite_scenarios [OF assms(3,4)]
  have scenario: "lookup (dict_by sc_scenario_id (ss_scenarios (af_suite request))) (se_scenario_id ?result) = Inr s"
    using map_of_dict_by_mem [OF valid_suite_distinct [OF assms(3)] assms(4)] by (simp add: lookup_def)
  have as: "scenario_assertions ?contract s = Inr (assertions_in_force ?contract s)"
    using scenario_assertions_eq [OF assms(2) s] False by simp
  have effects: "et_resolved_effects (se_trace ?result) = map ?res effect_dimensions"
    using False by (simp add: scenario_outcome_def expected_evaluation_def expected_trace_fields)
  have found: "find_first (\<lambda>r. dr_dimension r = d) (map ?res effect_dimensions) = Inr (?res d)" for d
    by (simp add: find_first_def find_dimension)
  have step: "contained (analyze_assertion sha ?policy ?contract ?result d out st)" for d out st
    unfolding analyze_assertion_def effects found
    by (intro containment) (simp_all add: contained_found)
  have clause: "contained (find_first (\<lambda>c. uc_clause_id c = i) (pi_unsupported_clauses ?policy))"
    if "i \<in> set (dr_unsupported_clause_ids (?res d))" for i d
  proof -
    have "i \<in> uc_clause_id ` set (pi_unsupported_clauses ?policy)"
      using resolution_clause_ids that unfolding expected_dimension_def by blast
    then have "\<exists>c \<in> set (pi_unsupported_clauses ?policy). uc_clause_id c = i" by auto
    from find_first_ex [OF this] obtain c where
      "find_first (\<lambda>c. uc_clause_id c = i) (pi_unsupported_clauses ?policy) = Inr c" by blast
    then show ?thesis by (rule contained_found)
  qed
  have dim: "contained (analyze_dimension sha ?policy ?contract ?result G (?res d) st)" for G d st
    unfolding analyze_dimension_def Let_def
    by (rule contained_rbind, intro contained_if contained_add_finding contained_Inr,
        rule contained_rfold, rule contained_rbind, erule clause, rule contained_add_finding)
  show ?thesis
    unfolding analyze_result_def Let_def scenario as effects rbind_simps
    by (intro contained_if contained_rbind contained_rfold contained_Inr step) (use dim in auto)
qed

lemma contained_analyze:
  assumes "valid_policy_ir (af_policy request)" and "valid_contract (af_contract request)"
    and "valid_suite (af_suite request)"
    and "er_results (af_evaluation request) =
      map (scenario_outcome sha (af_policy request) (af_contract request))
        (sort_key sc_scenario_id (ss_scenarios (af_suite request)))"
  shows "contained (analyze sha request)"
proof -
  have anchors: "contained (finding_anchors sha request)"
    unfolding finding_anchors_def Let_def by (intro contained_rbind contained_hash contained_checks) simp_all
  have walk: "contained (rfold (analyze_result sha request)
      (sort_key se_scenario_id (er_results (af_evaluation request))) [])"
  proof (rule contained_rfold)
    fix result groups
    assume "result \<in> set (sort_key se_scenario_id (er_results (af_evaluation request)))"
    then obtain s where "s \<in> set (ss_scenarios (af_suite request))"
      "result = scenario_outcome sha (af_policy request) (af_contract request) s"
      using assms(4) by auto
    then show "contained (analyze_result sha request result groups)"
      using contained_result [OF assms(1-3)] by simp
  qed
  have digest: "contained (canonical_sha256 sha (seq_obj finding_obj fs))" for fs
    by (rule contained_hash) (simp add: list_all_iff)
  show ?thesis
    unfolding analyze_def
    by (intro contained_rbind anchors walk digest contained_traverse contained_validated)
qed

lemma contained_validate_rule_set: "contained (validate_rule_set policy)"
proof (cases "valid_policy_ir policy")
  case True
  then show ?thesis by (simp add: validate_rule_set_outcome split: option.splits)
next
  case False
  from validated_invalid [OF this] obtain msg where
    "validated policy_ir_checks policy = Inl (ValueError msg)" by blast
  then show ?thesis by (simp add: validate_rule_set_def)
qed

lemma contained_evaluate:
  assumes "valid_contract (ep_contract request)" and "valid_suite (ep_suite request)"
    and "valid_by input_hashes_checks (ep_inputs request)" and "hex_digest sha"
  shows "contained (evaluate sha request)"
proof (cases "validate_rule_set (ep_policy request) = Inr () \<and> validate_evaluation_anchors sha request = Inr ()")
  case True
  then show ?thesis using evaluate_reports [OF _ assms(1-3) _ assms(4)] by fastforce
next
  case False
  have anchors: "contained (validate_evaluation_anchors sha request)"
    unfolding validate_evaluation_anchors_def Let_def rule_set_hash_def
    by (intro containment) simp_all
  show ?thesis
  proof (cases "validate_rule_set (ep_policy request)")
    case (Inl e)
    then show ?thesis
      using contained_validate_rule_set [of "ep_policy request"] by (simp add: evaluate_def)
  next
    case (Inr u)
    then obtain e where "validate_evaluation_anchors sha request = Inl e"
      using False by (cases "validate_evaluation_anchors sha request") auto
    then show ?thesis using anchors Inr assms(1) by (simp add: evaluate_def)
  qed
qed

lemma contained_baseline_findings:
  assumes "valid_policy_ir policy" and "valid_contract contract" and "valid_suite suite" and "hex_digest sha"
  shows "contained (baseline_findings sha policy contract suite)"
proof -
  have report: "er_results report = map (scenario_outcome sha policy contract)
      (sort_key sc_scenario_id (ss_scenarios suite))"
    if "evaluate sha r = Inr report" "ep_policy r = policy" "ep_contract r = contract" "ep_suite r = suite"
      "valid_by input_hashes_checks (ep_inputs r)" for r report
  proof -
    have "validate_rule_set (ep_policy r) = Inr ()" "validate_evaluation_anchors sha r = Inr ()"
      using that(1) by (auto simp: evaluate_def elim!: rbind_InrE)
    then show ?thesis using evaluate_reports [of r sha] that assms by auto
  qed
  show ?thesis
    unfolding baseline_findings_def
    by (intro contained_rbind contained_hash contained_validated contained_Inr contained_evaluate
        contained_analyze; (simp add: validated_Inr_iff assms)?; (erule report; simp)?)
qed

lemma contained_signature: "contained (semantic_rule_signature sha r rules)"
proof -
  have leaf_ok: "contained (signature_value p)" for p
    by (auto simp: signature_value_def split: pyval.splits)
  have leaf: "hashable v" if "signature_value p = Inr v" for p v
    using that by (auto simp: signature_value_def split: pyval.splits if_splits)
  have base: "contained (base_rule_signature sha x)" for x :: rule
    unfolding base_rule_signature_def predicate_signature_def
    by (intro contained_rbind contained_traverse contained_hash leaf_ok) (auto simp: list_all_iff leaf)
  show ?thesis
    unfolding semantic_rule_signature_def
    by (intro contained_rbind contained_traverse contained_hash contained_lookup base contained_Inr)
      (simp add: list_all_iff case_prod_beta)
qed

lemma contained_apply_operation:
  assumes "valid_by revision_operation_checks (snd iop)"
  shows "contained (apply_operation request findings baseline iop state)"
proof -
  have draft: "contained (draft_replacement targets old provenance rid draft)"
    if "valid_by revision_rule_draft_checks draft" for targets old provenance rid draft
  proof -
    have "list_all valid_predicate (rd_when draft)"
      using that by (simp add: valid_by_def [of revision_rule_draft_checks] revision_rule_draft_checks_def)
    from conditions_unrestricted_exact [OF this] show ?thesis
      unfolding draft_replacement_def Let_def
      by (auto intro!: contained_rbind contained_checks contained_validated)
  qed
  have replacement: "contained (operation_replacement baseline targets provenance (snd iop))"
    for targets provenance
    using assms
    by (cases "snd iop")
      (auto simp: operation_replacement_def override_replacement_def valid_by_def [of revision_operation_checks]
        revision_operation_checks_def
        intro!: contained_rbind contained_checks contained_validated draft contained_option)
  show ?thesis
    unfolding apply_operation_def Let_def case_prod_beta
    by (intro contained_rbind contained_checks contained_traverse contained_lookup replacement contained_Inr)
      (simp add: revision_provenance_def contained_validated)
qed

lemma contained_apply_proposal:
  assumes "valid_by apply_revision_checks request" and "hex_digest sha"
  shows "contained (apply_proposal sha request)"
proof -
  have valid: "valid_policy_ir (arq_policy request)" "valid_contract (arq_contract request)"
    "valid_suite (arq_suite request)" "valid_proposal (arq_proposal request)"
    using assms(1) by (simp_all add: valid_by_def [of apply_revision_checks] apply_revision_checks_def)
  have ops: "list_all (valid_by revision_operation_checks) (rp_operations (arq_proposal request))"
    using valid(4) by (simp add: valid_by_def [of revision_proposal_checks] revision_proposal_checks_def)
  have anchors: "contained (validate_proposal_anchors sha request)"
    unfolding validate_proposal_anchors_def Let_def rule_set_hash_def
    by (intro contained_rbind contained_hash contained_checks) simp_all
  have loop: "contained (rfold (apply_operation request findings baseline)
      (enumerate 0 (rp_operations (arq_proposal request))) state)" for findings baseline state
  proof (rule contained_rfold)
    fix iop s assume "iop \<in> set (enumerate 0 (rp_operations (arq_proposal request)))"
    then have "snd iop \<in> snd ` set (enumerate 0 (rp_operations (arq_proposal request)))" by (rule imageI)
    then have "snd iop \<in> set (rp_operations (arq_proposal request))"
      by (simp only: list.set_map [symmetric] map_snd_enumerate)
    then show "contained (apply_operation request findings baseline iop s)"
      using ops by (intro contained_apply_operation) (simp add: list_all_iff)
  qed
  have semantics: "contained (rfold (changes_semantics sha baseline revised) changed ())" for baseline revised changed
    unfolding changes_semantics_def
    by (intro contained_rfold contained_option contained_rbind contained_signature contained_lookup
        contained_checks contained_Inr)
  show ?thesis
    unfolding apply_proposal_def Let_def case_prod_beta validate_targets_def
    by (intro contained_rbind anchors contained_checks contained_baseline_findings valid assms(2) loop
        contained_validated contained_validate_rule_set semantics)
qed

subsection \<open>The two outcomes of apply_revision\<close>

lemma apply_revision_outcome:
  assumes "valid_by apply_revision_checks request" and "hex_digest sha"
  shows "(\<exists>result. apply_proposal sha request = Inr result \<and> apply_revision sha text request = Inr result)
    \<or> (\<exists>e error. apply_proposal sha request = Inl e
        \<and> apply_revision sha text request = Inr
            \<lparr>par_proposal_id = rp_proposal_id (arq_proposal request), par_applied = False,
             par_revised_policy = None, par_changed_rule_ids = [], par_error = Some error\<rparr>
        \<and> pe_code error = REVISION_INVALID)"
proof (cases "apply_proposal sha request")
  case (Inr result)
  then show ?thesis using assms(1) by (simp add: apply_revision_def)
next
  case (Inl e)
  have caught: "revision_caught e" using contained_apply_proposal [OF assms] Inl by simp
  let ?error = "\<lparr>pe_code = REVISION_INVALID,
    pe_message = ''Structured revision rejected: '' @ take 180 (text e), pe_error_id = None, pe_retryable = False\<rparr>"
  have error: "valid_by public_error_checks ?error"
    by (simp add: valid_by_def public_error_checks_def nonempty_text_def)
  have "identifier_ok (rp_proposal_id (arq_proposal request))"
    using assms(1) by (simp add: valid_by_def [of apply_revision_checks] apply_revision_checks_def
        valid_by_def [of revision_proposal_checks] revision_proposal_checks_def)
  then have "valid_by patch_application_result_checks
      \<lparr>par_proposal_id = rp_proposal_id (arq_proposal request), par_applied = False,
       par_revised_policy = None, par_changed_rule_ids = [], par_error = Some ?error\<rparr>"
    using error by (simp add: valid_by_def [of patch_application_result_checks] patch_application_result_checks_def)
  then show ?thesis
    using assms(1) Inl caught error by (simp add: apply_revision_def rejected_result_def)
qed

end
