(* ===== verification/Regression_Meaning.thy ===== *)
theory Regression_Meaning
  imports Regression_Analysis Patches_Meaning
begin

section \<open>What an accepted revision guarantees\<close>

text \<open>
  The two reports a comparison accepts are the engine's own, so its sets can be read over the
  policies themselves. An accepted revision repairs every target, changes no other rule, and makes no
  dimension of any scenario worse.
\<close>

subsection \<open>Authentic reports\<close>

lemma validate_report_outcomes:
  assumes "validate_report sha policy contract suite report = Inr ()"
    and "valid_contract contract" and "valid_suite suite" and "valid_report report" and "hex_digest sha"
  shows "er_results report = map (scenario_outcome sha policy contract)
      (sort_key sc_scenario_id (ss_scenarios suite))"
    and "validate_rule_set policy = Inr ()"
proof -
  let ?r = "\<lparr>ep_policy = policy, ep_contract = contract, ep_suite = suite, ep_inputs = er_inputs report,
    ep_engine_version = er_engine_version report\<rparr>"
  have run: "evaluate sha ?r = Inr report"
    using assms(1) by (auto simp: validate_report_def validated_Inr_iff split: if_splits elim!: rbind_InrE)
  have "valid_by input_hashes_checks (er_inputs report)"
    using assms(4) by (simp add: valid_by_def [of evaluation_report_checks] evaluation_report_checks_def)
  moreover have ok: "validate_rule_set policy = Inr ()" "validate_evaluation_anchors sha ?r = Inr ()"
    using run by (auto simp: evaluate_def elim!: rbind_InrE)
  ultimately show "er_results report = map (scenario_outcome sha policy contract)
      (sort_key sc_scenario_id (ss_scenarios suite))"
    using evaluate_reports [of ?r sha] run assms(2,3,5) by auto
  show "validate_rule_set policy = Inr ()" by (rule ok(1))
qed

lemma validate_comparison_Inr:
  assumes "validate_comparison sha request = Inr ()"
  shows "validate_report sha (crq_baseline_policy request) (crq_contract request) (crq_suite request)
      (crq_baseline_evaluation request) = Inr ()"
    and "validate_report sha (crq_revised_policy request) (crq_contract request) (crq_suite request)
      (crq_revised_evaluation request) = Inr ()"
    and "fst ` set (targeted_findings request) = set (rp_accepted_finding_ids (crq_proposal request))"
  using assms by (auto simp: validate_comparison_def Let_def keys_def split: if_splits elim!: rbind_InrE)

subsection \<open>The deteriorations of one scenario\<close>

lemma traverse_mem:
  "traverse f xs = Inr ys \<Longrightarrow> x \<in> set xs \<Longrightarrow> \<exists>y \<in> set ys. f x = Inr y"
  by (induction xs arbitrary: ys) (auto simp: rbind_Inr_iff)

lemma rfilter_set:
  "rfilter f xs = Inr ys \<Longrightarrow> x \<in> set xs \<Longrightarrow> f x = Inr True \<Longrightarrow> x \<in> set ys"
  by (induction xs arbitrary: ys) (auto simp: rbind_Inr_iff)

lemma rfilter_defined: "rfilter f xs = Inr ys \<Longrightarrow> x \<in> set xs \<Longrightarrow> \<exists>b. f x = Inr b"
  by (induction xs arbitrary: ys) (auto simp: rbind_Inr_iff)

lemma rfilter_length: "rfilter f xs = Inr ys \<Longrightarrow> length ys \<le> length xs"
  by (induction xs arbitrary: ys) (fastforce simp: rbind_Inr_iff split: if_splits)+

lemma rfilter_all: "rfilter f xs = Inr ys \<Longrightarrow> length ys = length xs \<Longrightarrow> ys = xs"
  by (induction xs arbitrary: ys) (fastforce simp: rbind_Inr_iff dest: rfilter_length split: if_splits)+

lemma rfilter_same: "rfilter f xs = Inr xs \<Longrightarrow> x \<in> set xs \<Longrightarrow> f x = Inr True"
  by (induction xs) (fastforce simp: rbind_Inr_iff dest: rfilter_length split: if_splits)+

text \<open>Every dimension, assertion and compliance that got worse is recorded.\<close>

definition records_changes :: "scenario_evaluation \<Rightarrow> scenario_evaluation \<Rightarrow> scenario_changes \<Rightarrow> bool" where
  "records_changes old new c \<longleftrightarrow>
     (\<forall>d r r'. map_of (dict_by dr_dimension (et_resolved_effects (se_trace new))) d = Some r \<longrightarrow>
        map_of (dict_by dr_dimension (et_resolved_effects (se_trace old))) d = Some r' \<longrightarrow>
        bad_status (dr_status r) \<longrightarrow> r \<noteq> r' \<longrightarrow> d \<in> set (ch_dimensions c))
     \<and> (\<forall>a b b'. status_in (se_assertion_results old) a = Some b \<longrightarrow>
        status_in (se_assertion_results new) a = Some b' \<longrightarrow>
        deteriorated_assertion b b' \<longrightarrow> a \<in> set (ch_assertions c))
     \<and> (\<forall>x y. map_of (dict_by cr_dimension (et_compliance_values (se_trace old))) (cr_dimension x) = Some y \<longrightarrow>
        x \<in> set (et_compliance_values (se_trace new)) \<longrightarrow> cr_status y = Compliant \<longrightarrow>
        cr_status x \<noteq> Compliant \<longrightarrow> cr_dimension x \<in> set (ch_compliance c))"

lemma compare_scenario_Inr:
  assumes "compare_scenario scenarios after_by_id tas old = Inr c"
  shows "\<exists>new. map_of after_by_id (se_scenario_id old) = Some new
    \<and> map_of scenarios (se_scenario_id old) = Some (ch_scenario c) \<and> records_changes old new c"
proof -
  from assms obtain new s worse transitions where
    new: "map_of after_by_id (se_scenario_id old) = Some new"
    and s: "map_of scenarios (se_scenario_id old) = Some s"
    and worse: "rfilter (deteriorated_dimension (dict_by dr_dimension (et_resolved_effects (se_trace old))))
      (dict_by dr_dimension (et_resolved_effects (se_trace new))) = Inr worse"
    and ids: "set (keys (dict_by ar_assertion_id (se_assertion_results old))) =
      set (keys (dict_by ar_assertion_id (se_assertion_results new)))"
    and transitions: "traverse (\<lambda>aid.
        rbind (lookup (dict_by ar_assertion_id (se_assertion_results old)) aid) (\<lambda>prior.
        rbind (lookup (dict_by ar_assertion_id (se_assertion_results new)) aid) (\<lambda>now.
          compare_assertion_outcomes prior now (se_scenario_id old) (sc_protected s)
            ((se_scenario_id old, aid) \<in> tas))))
        (sort (keys (dict_by ar_assertion_id (se_assertion_results old)))) = Inr transitions"
    and c: "c = \<lparr>ch_scenario = s, ch_transitions = transitions, ch_dimensions = map fst worse,
          ch_assertions = map at_assertion_id
            (filter (\<lambda>t. deteriorated_assertion (at_before t) (at_after t)) transitions),
          ch_compliance = map cr_dimension
            (filter (\<lambda>c. map_option cr_status
                (map_of (dict_by cr_dimension (et_compliance_values (se_trace old))) (cr_dimension c)) = Some Compliant
                         \<and> cr_status c \<noteq> Compliant)
              (et_compliance_values (se_trace new)))\<rparr>"
    unfolding compare_scenario_def Let_def lookup_Inr_iff
    by (elim rbind_InrE) (simp add: lookup_Inr_iff split: if_splits)
  have dims: "d \<in> set (ch_dimensions c)"
    if "map_of (dict_by dr_dimension (et_resolved_effects (se_trace new))) d = Some r"
      "map_of (dict_by dr_dimension (et_resolved_effects (se_trace old))) d = Some r'"
      "bad_status (dr_status r)" "r \<noteq> r'" for d r r'
  proof -
    have "(d, r) \<in> set worse"
      by (rule rfilter_set [OF worse map_of_SomeD [OF that(1)]])
        (use that in \<open>simp add: deteriorated_dimension_def lookup_def\<close>)
    then show ?thesis by (force simp: c)
  qed
  have asserts: "a \<in> set (ch_assertions c)"
    if a: "status_in (se_assertion_results old) a = Some b" "status_in (se_assertion_results new) a = Some b'"
      "deteriorated_assertion b b'" for a b b'
  proof -
    obtain x y where x: "map_of (dict_by ar_assertion_id (se_assertion_results old)) a = Some x" "ar_status x = b"
      and y: "map_of (dict_by ar_assertion_id (se_assertion_results new)) a = Some y" "ar_status y = b'"
      using a(1,2) by (auto simp: status_in_def)
    have key: "a \<in> set (sort (keys (dict_by ar_assertion_id (se_assertion_results old))))"
      using map_of_dict_by_SomeD [OF x(1)] by auto
    obtain t where t: "t \<in> set transitions"
      and step: "rbind (lookup (dict_by ar_assertion_id (se_assertion_results old)) a) (\<lambda>prior.
        rbind (lookup (dict_by ar_assertion_id (se_assertion_results new)) a) (\<lambda>now.
          compare_assertion_outcomes prior now (se_scenario_id old) (sc_protected s)
            ((se_scenario_id old, a) \<in> tas))) = Inr t"
      using traverse_mem [OF transitions key] by blast
    have "compare_assertion_outcomes x y (se_scenario_id old) (sc_protected s)
         ((se_scenario_id old, a) \<in> tas) = Inr t"
      using step x(1) y(1) by (simp add: lookup_def)
    then have "at_assertion_id t = a" "at_before t = b" "at_after t = b'"
      using map_of_dict_by_SomeD [OF x(1)] x(2) y(2)
      by (auto simp: compare_assertion_outcomes_def validated_Inr_iff split: if_splits elim!: rbind_InrE)
    moreover note t
    ultimately show ?thesis using a(3) by (force simp: c)
  qed
  have comps: "cr_dimension x \<in> set (ch_compliance c)"
    if "map_of (dict_by cr_dimension (et_compliance_values (se_trace old))) (cr_dimension x) = Some y"
      "x \<in> set (et_compliance_values (se_trace new))" "cr_status y = Compliant" "cr_status x \<noteq> Compliant" for x y
    using that by (force simp: c)
  have "records_changes old new c"
    unfolding records_changes_def using dims asserts comps by blast
  moreover have "ch_scenario c = s" by (simp add: c)
  ultimately show ?thesis using new s by simp
qed

subsection \<open>Reading an outcome\<close>

lemma map_of_keyed:
  assumes "\<And>d. k (f d) = d" and "distinct ds" and "d \<in> set ds"
  shows "map_of (dict_by k (map f ds)) d = Some (f d)"
proof -
  have "distinct (map k (map f ds))" using assms(1,2) by (simp add: comp_def)
  then show ?thesis using assms map_of_dict_by_mem [of k "map f ds" "f d"] by simp
qed

lemma outcome_dimension:
  assumes "\<not> contended contract s"
  shows "map_of (dict_by dr_dimension (et_resolved_effects (se_trace (scenario_outcome sha policy contract s)))) d =
    Some (expected_dimension policy contract s d)"
  using assms map_of_keyed [of dr_dimension "expected_dimension policy contract s" effect_dimensions d]
  by (simp add: scenario_outcome_def expected_evaluation_def expected_trace_fields expected_dimension_def)

lemma outcome_assertion:
  assumes "valid_contract contract" and "valid_scenario s" and "\<not> contended contract s"
    and "a \<in> set (assertions_in_force contract s)"
  shows "status_in (se_assertion_results (scenario_outcome sha policy contract s)) (a_assertion_id a) =
    Some (ar_status (expected_assertion (sc_facts s) (expected_dimension policy contract s (a_dimension a)) a))"
proof -
  let ?f = "\<lambda>a. expected_assertion (sc_facts s) (expected_dimension policy contract s (a_dimension a)) a"
  have id: "ar_assertion_id (?f x) = a_assertion_id x" for x by (simp add: expected_assertion_def)
  have "distinct (map ar_assertion_id (map ?f (assertions_in_force contract s)))"
    using assertions_in_force_distinct [OF assms(1-3)] by (simp add: comp_def id)
  then have "map_of (dict_by ar_assertion_id (map ?f (assertions_in_force contract s))) (ar_assertion_id (?f a)) =
      Some (?f a)"
    using assms(4) by (intro map_of_dict_by_mem) simp_all
  then show ?thesis
    using assms(3) by (simp add: status_in_def scenario_outcome_def expected_evaluation_def expected_results_def id)
qed

lemma outcome_compliance:
  assumes "\<not> contended contract s" and "d \<noteq> Eligibility"
  shows "map_of (dict_by cr_dimension (et_compliance_values (se_trace (scenario_outcome sha policy contract s)))) d =
      Some (expected_compliance (sc_facts s) (expected_dimension policy contract s d))"
    and "expected_compliance (sc_facts s) (expected_dimension policy contract s d)
      \<in> set (et_compliance_values (se_trace (scenario_outcome sha policy contract s)))"
proof -
  let ?f = "\<lambda>d. expected_compliance (sc_facts s) (expected_dimension policy contract s d)"
  have dim: "cr_dimension (?f e) = e" for e by (simp add: expected_compliance_def expected_dimension_def)
  have eq: "et_compliance_values (se_trace (scenario_outcome sha policy contract s)) =
      map ?f (filter (\<lambda>d. d \<noteq> Eligibility) effect_dimensions)"
    using assms(1) by (simp add: scenario_outcome_def expected_evaluation_def expected_trace_def Let_def
        filter_map comp_def expected_dimension_def)
  have mem: "d \<in> set (filter (\<lambda>d. d \<noteq> Eligibility) effect_dimensions)" using assms(2) by simp
  show "map_of (dict_by cr_dimension (et_compliance_values (se_trace (scenario_outcome sha policy contract s)))) d =
      Some (?f d)"
    unfolding eq by (rule map_of_keyed [where k = cr_dimension and f = ?f]) (use dim mem in simp_all)
  show "?f d \<in> set (et_compliance_values (se_trace (scenario_outcome sha policy contract s)))"
    unfolding eq using mem by simp
qed

subsection \<open>What no gate lets through\<close>

definition assertion_passes :: "policy_ir \<Rightarrow> policy_contract \<Rightarrow> scenario \<Rightarrow> assertion \<Rightarrow> bool" where
  "assertion_passes policy contract s a \<longleftrightarrow>
     ar_status (expected_assertion (sc_facts s) (expected_dimension policy contract s (a_dimension a)) a) = APass"

definition complies :: "policy_ir \<Rightarrow> policy_contract \<Rightarrow> scenario \<Rightarrow> effect_dimension \<Rightarrow> bool" where
  "complies policy contract s d \<longleftrightarrow>
     cr_status (expected_compliance (sc_facts s) (expected_dimension policy contract s d)) = Compliant"

text \<open>
  A scenario is no worse under the revised policy: a dimension without a value is unchanged, and an
  assertion or a compliance that was met is met, unless it is targeted and the scenario is neither
  protected nor held out.
\<close>

definition no_worse ::
  "pair set \<Rightarrow> pair set \<Rightarrow> policy_ir \<Rightarrow> policy_ir \<Rightarrow> policy_contract \<Rightarrow> scenario \<Rightarrow> bool" where
  "no_worse pairs assertions baseline revised contract s \<longleftrightarrow>
     (let excused = (\<lambda>targets key. \<not> sc_protected s \<and> sc_partition s \<noteq> Holdout
                                   \<and> (sc_scenario_id s, key) \<in> targets) in
      (\<forall>d. bad_status (dr_status (expected_dimension revised contract s d)) \<longrightarrow>
           expected_dimension revised contract s d = expected_dimension baseline contract s d)
      \<and> (\<forall>a \<in> set (assertions_in_force contract s).
           assertion_passes baseline contract s a \<longrightarrow>
           assertion_passes revised contract s a \<or> excused assertions (a_assertion_id a))
      \<and> (\<forall>d. d \<noteq> Eligibility \<longrightarrow> complies baseline contract s d \<longrightarrow>
           complies revised contract s d \<or> excused pairs (effect_dimension_name d)))"

lemma finite_pairs [simp]:
  "finite (dimension_pairs c ds)" "finite (assertion_pairs c)" "finite (all_pairs c)"
  by (simp_all add: dimension_pairs_def assertion_pairs_def all_pairs_def)

lemma finite_changes [simp]:
  "finite (outside_targets ps as cs)" "finite (protected_pairs cs)" "finite (holdout_pairs cs)"
  by (simp_all add: outside_targets_def protected_pairs_def holdout_pairs_def)

lemma scenario_no_worse:
  assumes "compare_scenario (dict_by sc_scenario_id scenarios) (dict_by se_scenario_id (map (scenario_outcome sha revised contract) ordered))
      tas (scenario_outcome sha baseline contract s) = Inr c"
    and "c \<in> set changes" and "distinct (map sc_scenario_id scenarios)" and "mset ordered = mset scenarios"
    and "s \<in> set scenarios" and "valid_contract contract" and "valid_scenario s" and "\<not> contended contract s"
    and "new_bad changes = {}" and "outside_targets pairs tas changes = {}"
    and "protected_pairs changes = {}" and "holdout_pairs changes = {}"
  shows "no_worse pairs tas baseline revised contract s"
proof -
  let ?old = "scenario_outcome sha baseline contract s" and ?new = "scenario_outcome sha revised contract s"
  obtain new where new: "map_of (dict_by se_scenario_id (map (scenario_outcome sha revised contract) ordered))
      (sc_scenario_id s) = Some new"
    and cs: "map_of (dict_by sc_scenario_id scenarios) (sc_scenario_id s) = Some (ch_scenario c)"
    and records: "records_changes ?old new c"
    using compare_scenario_Inr [OF assms(1)] by auto
  note dims = records [unfolded records_changes_def, THEN conjunct1, rule_format]
  note asserts = records [unfolded records_changes_def, THEN conjunct2, THEN conjunct1, rule_format]
  note comps = records [unfolded records_changes_def, THEN conjunct2, THEN conjunct2, rule_format]
  have "distinct (map sc_scenario_id ordered)" "set ordered = set scenarios"
    using assms(3,4) by (metis mset_map mset_eq_imp_distinct_iff, metis mset_eq_setD)
  then have new': "new = ?new"
    using new map_of_dict_by_mem [of se_scenario_id "map (scenario_outcome sha revised contract) ordered" ?new] assms(5)
    by (simp add: comp_def)
  have s: "ch_scenario c = s" using cs map_of_dict_by_mem [OF assms(3,5)] by simp
  have none: "ch_dimensions c = []"
    using assms(2,9) by (force simp: new_bad_def dimension_pairs_def)
  have excused: "\<not> sc_protected s \<and> sc_partition s \<noteq> Holdout \<and> (sc_scenario_id s, a) \<in> tas"
    if "a \<in> set (ch_assertions c)" for a
  proof -
    have "(sc_scenario_id s, a) \<in> assertion_pairs c" using that by (simp add: assertion_pairs_def s)
    then show ?thesis
      using assms(2,10-12) by (auto simp: outside_targets_def protected_pairs_def holdout_pairs_def all_pairs_def s)
  qed
  have excused': "\<not> sc_protected s \<and> sc_partition s \<noteq> Holdout \<and> (sc_scenario_id s, effect_dimension_name d) \<in> pairs"
    if "d \<in> set (ch_compliance c)" for d
  proof -
    have "(sc_scenario_id s, effect_dimension_name d) \<in> dimension_pairs c (ch_dimensions c @ ch_compliance c)"
      using that by (simp add: dimension_pairs_def s)
    then show ?thesis
      using assms(2,10-12) by (auto simp: outside_targets_def protected_pairs_def holdout_pairs_def all_pairs_def s)
  qed
  have "expected_dimension revised contract s d = expected_dimension baseline contract s d"
    if "bad_status (dr_status (expected_dimension revised contract s d))" for d
    using dims [of d] outcome_dimension [OF assms(8)] that none by (auto simp: new')
  moreover have "assertion_passes revised contract s a
      \<or> (\<not> sc_protected s \<and> sc_partition s \<noteq> Holdout \<and> (sc_scenario_id s, a_assertion_id a) \<in> tas)"
    if "a \<in> set (assertions_in_force contract s)" "assertion_passes baseline contract s a" for a
  proof (cases "assertion_passes revised contract s a")
    case False
    note status = outcome_assertion [OF assms(6-8) that(1)]
    have "a_assertion_id a \<in> set (ch_assertions c)"
      by (rule asserts [unfolded new', OF status status])
        (use False that(2) in \<open>simp add: assertion_passes_def deteriorated_assertion_def\<close>)
    then show ?thesis using excused by blast
  qed simp
  moreover have "complies revised contract s d
      \<or> (\<not> sc_protected s \<and> sc_partition s \<noteq> Holdout \<and> (sc_scenario_id s, effect_dimension_name d) \<in> pairs)"
    if "d \<noteq> Eligibility" "complies baseline contract s d" for d
  proof (cases "complies revised contract s d")
    case False
    let ?x = "expected_compliance (sc_facts s) (expected_dimension revised contract s d)"
    have dim: "cr_dimension ?x = d" by (simp add: expected_compliance_def expected_dimension_def)
    have "cr_dimension ?x \<in> set (ch_compliance c)"
    proof (rule comps [unfolded new'])
      show "map_of (dict_by cr_dimension (et_compliance_values (se_trace ?old))) (cr_dimension ?x) =
          Some (expected_compliance (sc_facts s) (expected_dimension baseline contract s d))"
        unfolding dim by (rule outcome_compliance(1) [OF assms(8) that(1)])
      show "?x \<in> set (et_compliance_values (se_trace ?new))"
        by (rule outcome_compliance(2) [OF assms(8) that(1)])
    qed (use False that(2) in \<open>simp_all add: complies_def\<close>)
    then show ?thesis unfolding dim using excused' by blast
  qed simp
  ultimately show ?thesis unfolding no_worse_def Let_def by blast
qed

subsection \<open>Accepted revisions\<close>

lemma compare_accepted:
  assumes "compare sha request = Inr bundle" and "pa_patch_accepted (cb_acceptance bundle)"
  obtains changes where "validate_comparison sha request = Inr ()"
    and "rfilter (target_fixed request) (map snd (targeted_findings request)) =
      Inr (map snd (targeted_findings request))"
    and "traverse (compare_scenario (dict_by sc_scenario_id (ss_scenarios (crq_suite request)))
      (dict_by se_scenario_id (er_results (crq_revised_evaluation request)))
      (target_assertions (crq_contract request) (map snd (targeted_findings request))))
      (er_results (crq_baseline_evaluation request)) = Inr changes"
    and "unrelated_changes sha request = Inr 0" and "new_bad changes = {}"
    and "outside_targets (target_pairs (map snd (targeted_findings request)))
      (target_assertions (crq_contract request) (map snd (targeted_findings request))) changes = {}"
    and "protected_pairs changes = {}" and "holdout_pairs changes = {}"
proof -
  let ?targets = "map snd (targeted_findings request)"
  from assms(1) obtain fixed changes unrelated c before after where
    ok: "validate_comparison sha request = Inr ()"
    and fixed: "rfilter (target_fixed request) ?targets = Inr fixed"
    and changes: "traverse (compare_scenario (dict_by sc_scenario_id (ss_scenarios (crq_suite request)))
      (dict_by se_scenario_id (er_results (crq_revised_evaluation request)))
      (target_assertions (crq_contract request) ?targets))
      (er_results (crq_baseline_evaluation request)) = Inr changes"
    and unrelated: "unrelated_changes sha request = Inr unrelated"
    and c: "c = \<lparr>pac_target_findings = int (length ?targets), pac_fixed_target_findings = int (length fixed),
       pac_new_failures_outside_targets = int (card (outside_targets (target_pairs ?targets)
         (target_assertions (crq_contract request) ?targets) changes)),
       pac_protected_regressions = int (card (protected_pairs changes)),
       pac_baseline_gap_conflict_inconclusive_or_error = bad_count before,
       pac_revised_gap_conflict_inconclusive_or_error = bad_count after,
       pac_unrelated_rule_changes = unrelated,
       pac_holdout_regressions = int (card (holdout_pairs changes))\<rparr>"
    and acceptance: "cb_acceptance bundle = acceptance_report (er_inputs (crq_baseline_evaluation request))
      (er_inputs (crq_revised_evaluation request)) c (new_bad changes = {})"
    unfolding compare_def Let_def by (elim rbind_InrE) (simp add: validated_Inr_iff split: if_splits)
  have checks: "list_all id (acceptance_checks (cb_acceptance bundle))"
    using assms(2) unfolding acceptance acceptance_report_def Let_def by (simp add: acceptance_checks_def)
  then have gates: "length fixed = length ?targets" "unrelated = 0" "new_bad changes = {}"
    "outside_targets (target_pairs ?targets) (target_assertions (crq_contract request) ?targets) changes = {}"
    "protected_pairs changes = {}" "holdout_pairs changes = {}"
    unfolding acceptance acceptance_report_def Let_def acceptance_checks_def by (simp_all add: c)
  have "fixed = ?targets" using fixed gates(1) by (rule rfilter_all)
  then show ?thesis using that ok fixed changes unrelated gates by blast
qed

lemma rall_True: "rall f xs = Inr True \<Longrightarrow> x \<in> set xs \<Longrightarrow> f x = Inr True"
  by (induction xs) (auto simp: rbind_Inr_iff split: if_splits)

text \<open>
  A target is repaired when its root cause is gone from the revised findings and, in every scenario
  that witnessed it, its dimension has a value and every assertion on that dimension passes.
\<close>

definition repaired :: "compare_revision_request \<Rightarrow> finding \<Rightarrow> bool" where
  "repaired request f \<longleftrightarrow>
     fd_evidence_level f \<noteq> Candidate
     \<and> fd_fingerprint_sha256 f \<notin> set (map fd_fingerprint_sha256 (fr_findings (crq_revised_findings request)))
     \<and> (\<forall>s \<in> set (ss_scenarios (crq_suite request)). sc_scenario_id s \<in> set (fd_scenario_ids f) \<longrightarrow>
          \<not> contended (crq_contract request) s
          \<and> dr_status (expected_dimension (crq_revised_policy request) (crq_contract request) s (fd_dimension f)) = EValue
          \<and> (\<forall>a \<in> set (assertions_in_force (crq_contract request) s). a_dimension a = fd_dimension f \<longrightarrow>
               assertion_passes (crq_revised_policy request) (crq_contract request) s a))"

lemma outcome_value:
  assumes "find_first (\<lambda>r. dr_dimension r = d) (et_resolved_effects (se_trace (scenario_outcome sha policy contract s))) = Inr r"
    and "dr_status r = EValue"
  shows "\<not> contended contract s" and "dr_status (expected_dimension policy contract s d) = EValue"
proof -
  have r: "r \<in> set (et_resolved_effects (se_trace (scenario_outcome sha policy contract s)))" "dr_dimension r = d"
    using find_first_Inr [OF assms(1)] by simp_all
  show calm: "\<not> contended contract s"
    using r(1) assms(2) by (auto simp: scenario_outcome_def expected_error_def Let_def)
  show "dr_status (expected_dimension policy contract s d) = EValue"
    using r assms(2) calm
    by (auto simp: scenario_outcome_def expected_evaluation_def expected_trace_fields expected_dimension_def)
qed

lemma map_of_outcomes:
  assumes "distinct (map sc_scenario_id scenarios)" and "mset ordered = mset scenarios" and "s \<in> set scenarios"
  shows "map_of (dict_by se_scenario_id (map (scenario_outcome sha policy contract) ordered)) (sc_scenario_id s) =
    Some (scenario_outcome sha policy contract s)"
proof -
  have "distinct (map sc_scenario_id ordered)" "set ordered = set scenarios"
    using assms(1,2) by (metis mset_map mset_eq_imp_distinct_iff, metis mset_eq_setD)
  then show ?thesis
    using map_of_dict_by_mem [of se_scenario_id "map (scenario_outcome sha policy contract) ordered"
        "scenario_outcome sha policy contract s"] assms(3)
    by (simp add: comp_def)
qed

lemma witness_fixed_revised:
  assumes "witness_fixed f before (dict_by se_scenario_id (map (scenario_outcome sha policy contract) ordered))
      (dict_by sc_scenario_id scenarios) contract (sc_scenario_id s) = Inr True"
    and "distinct (map sc_scenario_id scenarios)" and "mset ordered = mset scenarios" and "s \<in> set scenarios"
    and "valid_contract contract" and "valid_scenario s"
  shows "\<not> contended contract s"
    and "dr_status (expected_dimension policy contract s (fd_dimension f)) = EValue"
    and "\<forall>a \<in> set (assertions_in_force contract s). a_dimension a = fd_dimension f \<longrightarrow>
      assertion_passes policy contract s a"
proof -
  note new = map_of_outcomes [OF assms(2-4), of sha policy contract]
  note s = map_of_dict_by_mem [OF assms(2,4)]
  from assms(1) obtain r as where
    r: "find_first (\<lambda>r. dr_dimension r = fd_dimension f)
      (et_resolved_effects (se_trace (scenario_outcome sha policy contract s))) = Inr r" "dr_status r = EValue"
    and as: "scenario_assertions contract s = Inr as"
    and pass: "\<not> list_ex (\<lambda>a. status_in (se_assertion_results (scenario_outcome sha policy contract s))
      (a_assertion_id a) \<noteq> Some APass) (filter (\<lambda>a. a_dimension a = fd_dimension f) as)"
    unfolding witness_fixed_def Let_def lookup_Inr_iff
    by (elim rbind_InrE) (auto simp: lookup_Inr_iff new s split: if_splits elim!: rbind_InrE)
  show calm: "\<not> contended contract s"
    and "dr_status (expected_dimension policy contract s (fd_dimension f)) = EValue"
    by (rule outcome_value [OF r])+
  have "as = assertions_in_force contract s"
    using scenario_assertions_eq [OF assms(5,6)] calm as by simp
  then show "\<forall>a \<in> set (assertions_in_force contract s). a_dimension a = fd_dimension f \<longrightarrow>
      assertion_passes policy contract s a"
    using pass outcome_assertion [OF assms(5,6) calm]
    by (auto simp: assertion_passes_def Bex_set [symmetric] list_ex_iff)
qed

lemma target_fixed_repaired:
  assumes "target_fixed request f = Inr True"
    and "er_results (crq_revised_evaluation request) =
      map (scenario_outcome sha (crq_revised_policy request) (crq_contract request))
        (sort_key sc_scenario_id (ss_scenarios (crq_suite request)))"
    and "valid_contract (crq_contract request)" and "valid_suite (crq_suite request)"
  shows "repaired request f"
proof -
  have fresh: "fd_fingerprint_sha256 f \<notin> set (map fd_fingerprint_sha256 (fr_findings (crq_revised_findings request)))"
    and witnesses: "target_witnesses_fixed f
        (dict_by se_scenario_id (er_results (crq_baseline_evaluation request)))
        (dict_by se_scenario_id (er_results (crq_revised_evaluation request)))
        (dict_by sc_scenario_id (ss_scenarios (crq_suite request))) (crq_contract request) = Inr True"
    using assms(1) by (auto simp: target_fixed_def split: if_splits)
  have level: "fd_evidence_level f \<noteq> Candidate"
    and all: "rall (witness_fixed f (dict_by se_scenario_id (er_results (crq_baseline_evaluation request)))
        (dict_by se_scenario_id (er_results (crq_revised_evaluation request)))
        (dict_by sc_scenario_id (ss_scenarios (crq_suite request))) (crq_contract request)) (fd_scenario_ids f) = Inr True"
    using witnesses by (auto simp: target_witnesses_fixed_def split: if_splits)
  have dist: "distinct (map sc_scenario_id (ss_scenarios (crq_suite request)))"
    and valid: "\<And>s. s \<in> set (ss_scenarios (crq_suite request)) \<Longrightarrow> valid_scenario s"
    using assms(4) by (auto dest: valid_suite_distinct valid_suite_scenarios)
  show ?thesis
    unfolding repaired_def
    using witness_fixed_revised [OF rall_True [OF all, unfolded assms(2)] dist mset_sort _ assms(3) valid] level fresh
    by blast
qed

text \<open>
  What the counter of unrelated changes rules out when it is zero: a rule no operation names is kept
  with its signature, no rule is removed, only an added rule is new, and the rule an operation names
  has the fields the operation gives it.
\<close>

definition operation_applied ::
  "ident \<Rightarrow> (ident \<times> rule) list \<Rightarrow> (ident \<times> rule) list \<Rightarrow> revision_operation \<Rightarrow> bool" where
  "operation_applied proposal_id baseline revised op \<longleftrightarrow>
     (\<exists>actual. map_of revised (op_rule_id op) = Some actual
        \<and> expected_fields (map_of baseline (op_rule_id op)) op =
            Some (r_when actual, r_effects actual, r_overrides actual)
        \<and> r_revision actual = (case map_of baseline (op_rule_id op) of Some r \<Rightarrow> r_revision r + 1 | None \<Rightarrow> 1)
        \<and> session_proposal (r_provenance actual) = Some proposal_id)"

definition only_proposed_changes :: "(string \<Rightarrow> sha256) \<Rightarrow> compare_revision_request \<Rightarrow> bool" where
  "only_proposed_changes sha request \<longleftrightarrow>
     (let baseline = rules_by_id (pi_rules (crq_baseline_policy request));
          revised = rules_by_id (pi_rules (crq_revised_policy request));
          ops = rp_operations (crq_proposal request) in
      (\<forall>rid r. rid \<notin> set (map op_rule_id ops) \<longrightarrow> map_of baseline rid = Some r \<longrightarrow>
         (\<exists>r'. map_of revised rid = Some r'
               \<and> semantic_rule_signature sha r baseline = semantic_rule_signature sha r' revised))
      \<and> (\<forall>rid. map_of baseline rid \<noteq> None \<longrightarrow> map_of revised rid \<noteq> None)
      \<and> (\<forall>rid. map_of revised rid \<noteq> None \<longrightarrow> map_of baseline rid = None \<longrightarrow>
          (\<exists>op \<in> set ops. is_add_rule op \<and> op_rule_id op = rid))
      \<and> list_all (operation_applied (rp_proposal_id (crq_proposal request)) baseline revised) ops
      \<and> pi_unsupported_clauses (crq_baseline_policy request) = pi_unsupported_clauses (crq_revised_policy request))"

lemma of_bool_int_simps [simp]: "0 \<le> of_bool_int b" "of_bool_int b = 0 \<longleftrightarrow> \<not> b"
  by (simp_all add: of_bool_int_def)

lemma operation_deviations_nonneg [simp]: "0 \<le> operation_deviations pid baseline revised op"
  by (auto simp: operation_deviations_def Let_def split: option.splits)

lemma operation_deviations_zero:
  "operation_deviations pid baseline revised op = 0 \<Longrightarrow> operation_applied pid baseline revised op"
  by (auto simp: operation_deviations_def operation_applied_def Let_def of_bool_int_def
      split: option.splits if_splits)

lemma zero_counts:
  assumes "0 \<le> d" and "int (length as) + int (length bs) + int (length cs) + d + of_bool_int b = 0"
  shows "as = [] \<and> bs = [] \<and> cs = [] \<and> d = 0 \<and> \<not> b"
proof -
  have "length as = 0 \<and> length bs = 0 \<and> length cs = 0 \<and> d = 0 \<and> of_bool_int b = 0"
    using assms of_bool_int_simps(1) [of b] by linarith
  then show ?thesis by simp
qed

lemma rfilter_nothing: "rfilter f xs = Inr [] \<Longrightarrow> x \<in> set xs \<Longrightarrow> f x = Inr False"
  by (induction xs) (auto simp: rbind_Inr_iff split: if_splits)

lemma unrelated_changes_zero:
  assumes "unrelated_changes sha request = Inr 0"
  shows "only_proposed_changes sha request"
proof -
  let ?baseline = "rules_by_id (pi_rules (crq_baseline_policy request))"
  let ?revised = "rules_by_id (pi_rules (crq_revised_policy request))"
  let ?ops = "rp_operations (crq_proposal request)"
  let ?added = "map op_rule_id (filter is_add_rule ?ops)"
  let ?deviations = "map (operation_deviations (rp_proposal_id (crq_proposal request)) ?baseline ?revised) ?ops"
  from assms obtain changed where
    changed: "rfilter (rule_changed sha ?baseline ?revised (map op_rule_id ?ops))
      (remdups (keys ?baseline @ keys ?revised)) = Inr changed"
    and total: "int (length changed)
        + int (length (filter (\<lambda>rid. rid \<notin> set (keys ?revised)) (keys ?baseline)))
        + int (length (filter (\<lambda>rid. rid \<notin> set (keys ?baseline) \<and> rid \<notin> set ?added) (keys ?revised)))
        + sum_list ?deviations
        + of_bool_int (pi_unsupported_clauses (crq_baseline_policy request)
                       \<noteq> pi_unsupported_clauses (crq_revised_policy request)) = 0"
    unfolding unrelated_changes_def Let_def by (elim rbind_InrE) simp
  have nonneg: "0 \<le> sum_list ?deviations" by (intro sum_list_nonneg) auto
  have none: "changed = []"
    "filter (\<lambda>rid. rid \<notin> set (keys ?revised)) (keys ?baseline) = []"
    "filter (\<lambda>rid. rid \<notin> set (keys ?baseline) \<and> rid \<notin> set ?added) (keys ?revised) = []"
    "sum_list ?deviations = 0"
    "pi_unsupported_clauses (crq_baseline_policy request) = pi_unsupported_clauses (crq_revised_policy request)"
    using zero_counts [OF nonneg total] by blast+
  have kept: "\<exists>r'. map_of ?revised rid = Some r'
      \<and> semantic_rule_signature sha r ?baseline = semantic_rule_signature sha r' ?revised"
    if "rid \<notin> set (map op_rule_id ?ops)" "map_of ?baseline rid = Some r" for rid r
  proof -
    have "rid \<in> set (remdups (keys ?baseline @ keys ?revised))"
      using that(2) by (force simp: keys_def dest: map_of_SomeD)
    then have "rule_changed sha ?baseline ?revised (map op_rule_id ?ops) rid = Inr False"
      using rfilter_nothing changed none(1) by fast
    then show ?thesis
      using that by (auto simp: rule_changed_def split: option.splits elim!: rbind_InrE)
  qed
  have same_keys: "map_of ?baseline rid \<noteq> None \<Longrightarrow> map_of ?revised rid \<noteq> None" for rid
    using none(2) by (auto simp: filter_empty_conv keys_def map_of_eq_None_iff)
  have news: "\<exists>op \<in> set ?ops. is_add_rule op \<and> op_rule_id op = rid"
    if "map_of ?revised rid \<noteq> None" "map_of ?baseline rid = None" for rid
  proof -
    have "rid \<in> set (keys ?revised)" "rid \<notin> set (keys ?baseline)"
      using that by (auto simp: keys_def map_of_eq_None_iff)
    then have "rid \<in> set ?added" using none(3) by (simp add: filter_empty_conv) blast
    then show ?thesis by auto
  qed
  have "\<forall>x \<in> set ?deviations. x = 0"
    using none(4) by (subst (asm) sum_list_nonneg_eq_0_iff) auto
  then have "list_all (operation_applied (rp_proposal_id (crq_proposal request)) ?baseline ?revised) ?ops"
    by (auto simp: list_all_iff intro: operation_deviations_zero)
  then show ?thesis
    unfolding only_proposed_changes_def Let_def using kept same_keys news none(5) by blast
qed

end
