(* ===== verification/Revision_Example.thy ===== *)
theory Revision_Example
  imports Examples Regression_Meaning
begin

section \<open>A small revision\<close>

text \<open>
  The sample policy says nothing about receipts for transport, and the contract here requires the
  dimension. The suite's one scenario witnesses the gap; the proposal adds a rule that closes it. The
  witnesses of the properties on findings, patches and comparisons use this revision.
\<close>

subsection \<open>Inputs\<close>

definition gap_contract :: policy_contract where
  "gap_contract = \<lparr>pc_contract_id = ''contract'', pc_required_dimensions = {ReceiptRequirement},
     pc_invariants = pc_invariants sample_contract\<rparr>"

definition gap_scenario :: scenario where
  "gap_scenario = sample_scenario ''s1'' RoleEmployee Transport"

definition gap_suite :: scenario_suite where
  "gap_suite = \<lparr>ss_suite_id = ''suite'', ss_content_sha256 = zero_sha256, ss_seed = 7,
     ss_document_sha256 = zero_sha256, ss_policy_contract_sha256 = zero_sha256,
     ss_rule_set_sha256 = zero_sha256, ss_engine_version = engine_version, ss_scenarios = [gap_scenario],
     ss_statistics = \<lparr>st_generated_count = 1, st_rejected_count = 0, st_duplicate_count = 0, st_rejections = []\<rparr>\<rparr>"

definition receipt_draft :: revision_rule_draft where
  "receipt_draft = \<lparr>rd_description = ''receipts for transport'',
     rd_when = [\<lparr>p_field = F_expense_category, p_operator = Op_eq, p_value = VStr ''transport''\<rparr>],
     rd_effects = [\<lparr>e_dimension = ReceiptRequirement, e_value = Required\<rparr>], rd_overrides = []\<rparr>"

definition gap_proposal :: revision_proposal where
  "gap_proposal = \<lparr>rp_proposal_id = ''proposal'', rp_document_sha256 = zero_sha256,
     rp_rule_set_sha256 = zero_sha256, rp_policy_contract_sha256 = zero_sha256, rp_suite_sha256 = zero_sha256,
     rp_accepted_finding_ids = [''finding-'' @ zero_sha256],
     rp_operations = [AddRuleOperation ''receipt'' receipt_draft [''finding-'' @ zero_sha256]],
     rp_draft_policy_wording = ''Transport claims need a receipt.''\<rparr>"

definition receipt_rule :: rule where
  "receipt_rule = \<lparr>r_description = ''receipts for transport'',
     r_when = rd_when receipt_draft, r_effects = rd_effects receipt_draft, r_overrides = [],
     r_provenance = SessionRevision \<lparr>sp_proposal_id = ''proposal'', sp_operation_index = 0,
       sp_confirmed_at = 0, sp_baseline_citation_ids = [''c1'', ''c2'']\<rparr>,
     r_confidence_percent = None, r_rule_id = ''receipt'', r_revision = 1\<rparr>"

definition receipt_policy :: policy_ir where
  "receipt_policy = \<lparr>pi_policy_id = ''travel'', pi_document_sha256 = zero_sha256,
     pi_kind = StructuredRevision, pi_review_status = SessionConfirmed,
     pi_rules = [hotel_rule, manager_rule, receipt_rule], pi_unsupported_clauses = []\<rparr>"

definition gap_apply :: apply_revision_request where
  "gap_apply = \<lparr>arq_policy = sample_policy, arq_contract = gap_contract, arq_suite = gap_suite,
     arq_proposal = gap_proposal, arq_confirmed_at = 0\<rparr>"

definition gap_evaluate :: "policy_ir \<Rightarrow> evaluate_policy_request" where
  "gap_evaluate policy = \<lparr>ep_policy = policy, ep_contract = gap_contract, ep_suite = gap_suite,
     ep_inputs = sample_inputs, ep_engine_version = engine_version\<rparr>"

lemma gap_contract_valid: "valid_contract gap_contract"
  by code_simp

lemma gap_suite_valid: "valid_suite gap_suite"
  by code_simp

lemma gap_scenario_valid: "valid_scenario gap_scenario"
  by (rule valid_suite_scenarios [OF gap_suite_valid]) (simp add: gap_suite_def)

lemma receipt_rules_possible: "validate_rule_set receipt_policy = Inr ()"
  by code_simp

lemma receipt_policy_valid: "valid_policy_ir receipt_policy"
  using receipt_rules_possible by (simp add: validate_rule_set_ok_iff)

lemma gap_proposal_valid: "valid_proposal gap_proposal"
  by code_simp

lemma gap_apply_valid: "valid_by apply_revision_checks gap_apply"
  by (simp add: valid_by_def [of apply_revision_checks] apply_revision_checks_def gap_apply_def
      sample_policy_valid gap_contract_valid gap_suite_valid gap_proposal_valid)

lemma gap_anchors:
  "validate_evaluation_anchors sample_sha (gap_evaluate sample_policy) = Inr ()"
  "validate_evaluation_anchors sample_sha (gap_evaluate receipt_policy) = Inr ()"
  by (simp_all add: validate_evaluation_anchors_def payload_hash_view rule_set_hash_def gap_evaluate_def
      sample_policy_def receipt_policy_def sample_inputs_def gap_suite_def sample_sha_def)

lemma sample_sha_eq: "sample_sha = (\<lambda>_. zero_sha256)"
  by (simp add: sample_sha_def fun_eq_iff)

subsection \<open>Outcomes of the scenario\<close>

definition plain_result :: "effect_dimension \<Rightarrow> effect_status \<Rightarrow> dimension_result" where
  "plain_result d s = \<lparr>dr_dimension = d, dr_status = s, dr_value = None, dr_conflicting_values = [],
     dr_applicable_rule_ids = [], dr_overridden_rule_ids = [], dr_unsupported_clause_ids = []\<rparr>"

definition gap_result :: scenario_evaluation where
  "gap_result = \<lparr>se_scenario_id = ''s1'',
     se_trace = \<lparr>et_scenario_id = ''s1'', et_fired_rule_ids = [],
       et_predicate_results =
         [\<lparr>pr_rule_id = ''hotel'', pr_predicate_index = 0, pr_matched = False\<rparr>,
          \<lparr>pr_rule_id = ''manager'', pr_predicate_index = 0, pr_matched = False\<rparr>,
          \<lparr>pr_rule_id = ''manager'', pr_predicate_index = 1, pr_matched = False\<rparr>],
       et_resolved_effects =
         [plain_result Eligibility ENotApplicable, plain_result ReceiptRequirement EGap,
          plain_result ApprovalRequirement ENotApplicable, plain_result ClaimCapMinor ENotApplicable,
          plain_result DailyCategoryCapMinor ENotApplicable],
       et_compliance_values =
         [\<lparr>cr_dimension = ReceiptRequirement, cr_status = CInconclusive\<rparr>,
          \<lparr>cr_dimension = ApprovalRequirement, cr_status = CNotApplicable\<rparr>,
          \<lparr>cr_dimension = ClaimCapMinor, cr_status = CNotApplicable\<rparr>,
          \<lparr>cr_dimension = DailyCategoryCapMinor, cr_status = CNotApplicable\<rparr>],
       et_source_citations = [], et_trace_sha256 = zero_sha256\<rparr>,
     se_assertion_results = [], se_verdict = VUnscored, se_error = None\<rparr>"

definition receipt_result :: scenario_evaluation where
  "receipt_result = \<lparr>se_scenario_id = ''s1'',
     se_trace = \<lparr>et_scenario_id = ''s1'', et_fired_rule_ids = [''receipt''],
       et_predicate_results = et_predicate_results (se_trace gap_result) @
         [\<lparr>pr_rule_id = ''receipt'', pr_predicate_index = 0, pr_matched = True\<rparr>],
       et_resolved_effects =
         [plain_result Eligibility ENotApplicable,
          (plain_result ReceiptRequirement EValue)\<lparr>dr_value := Some Required,
            dr_applicable_rule_ids := [''receipt'']\<rparr>,
          plain_result ApprovalRequirement ENotApplicable, plain_result ClaimCapMinor ENotApplicable,
          plain_result DailyCategoryCapMinor ENotApplicable],
       et_compliance_values =
         [\<lparr>cr_dimension = ReceiptRequirement, cr_status = Compliant\<rparr>,
          \<lparr>cr_dimension = ApprovalRequirement, cr_status = CNotApplicable\<rparr>,
          \<lparr>cr_dimension = ClaimCapMinor, cr_status = CNotApplicable\<rparr>,
          \<lparr>cr_dimension = DailyCategoryCapMinor, cr_status = CNotApplicable\<rparr>],
       et_source_citations = [r_provenance receipt_rule], et_trace_sha256 = zero_sha256\<rparr>,
     se_assertion_results = [], se_verdict = VUnscored, se_error = None\<rparr>"

lemma gap_outcome: "scenario_outcome sample_sha sample_policy gap_contract gap_scenario = gap_result"
proof -
  have "evaluate_scenario (\<lambda>_. zero_sha256) sample_policy gap_contract gap_scenario = Inr gap_result"
    by code_simp
  then show ?thesis
    using evaluate_scenario_outcome(1) [OF sample_policy_valid gap_contract_valid gap_scenario_valid sample_sha_digest]
    by (simp add: sample_sha_eq)
qed

lemma receipt_outcome: "scenario_outcome sample_sha receipt_policy gap_contract gap_scenario = receipt_result"
proof -
  have "evaluate_scenario (\<lambda>_. zero_sha256) receipt_policy gap_contract gap_scenario = Inr receipt_result"
    by code_simp
  then show ?thesis
    using evaluate_scenario_outcome(1) [OF receipt_policy_valid gap_contract_valid gap_scenario_valid sample_sha_digest]
    by (simp add: sample_sha_eq)
qed

subsection \<open>Reports and findings\<close>

lemma evaluate_engine_version: "evaluate sha request = Inr report \<Longrightarrow> er_engine_version report = engine_version"
  by (auto simp: evaluate_def validated_Inr_iff elim!: rbind_InrE)

definition gap_report :: "policy_ir \<Rightarrow> evaluation_report" where
  "gap_report policy = projr (evaluate sample_sha (gap_evaluate policy))"

definition gap_analyze :: "policy_ir \<Rightarrow> analyze_findings_request" where
  "gap_analyze policy = \<lparr>af_policy = policy, af_contract = gap_contract, af_suite = gap_suite,
     af_evaluation = gap_report policy\<rparr>"

definition gap_findings :: "policy_ir \<Rightarrow> finding_report" where
  "gap_findings policy = projr (analyze sample_sha (gap_analyze policy))"

lemma gap_report_value:
  assumes "validate_rule_set policy = Inr ()"
    and "validate_evaluation_anchors sample_sha (gap_evaluate policy) = Inr ()"
  shows "evaluate sample_sha (gap_evaluate policy) = Inr (gap_report policy)"
    and "valid_report (gap_report policy)" and "er_inputs (gap_report policy) = sample_inputs"
    and "er_results (gap_report policy) = [scenario_outcome sample_sha policy gap_contract gap_scenario]"
    and "er_engine_version (gap_report policy) = engine_version"
proof -
  have "\<exists>report. evaluate sample_sha (gap_evaluate policy) = Inr report \<and> valid_report report
    \<and> er_inputs report = sample_inputs
    \<and> er_results report = [scenario_outcome sample_sha policy gap_contract gap_scenario]"
    using evaluate_reports [of "gap_evaluate policy" sample_sha] assms gap_contract_valid gap_suite_valid
      sample_inputs_valid sample_sha_digest
    by (auto simp: gap_evaluate_def gap_suite_def)
  then show "evaluate sample_sha (gap_evaluate policy) = Inr (gap_report policy)"
    and "valid_report (gap_report policy)" and "er_inputs (gap_report policy) = sample_inputs"
    and "er_results (gap_report policy) = [scenario_outcome sample_sha policy gap_contract gap_scenario]"
    and "er_engine_version (gap_report policy) = engine_version"
    using evaluate_engine_version by (auto simp: gap_report_def)
qed

lemmas baseline_report = gap_report_value [OF sample_rules_possible gap_anchors(1)]
lemmas revised_report = gap_report_value [OF receipt_rules_possible gap_anchors(2)]

lemma gap_sources_known: "sources_known gap_contract gap_suite"
  by (simp add: sources_known_def gap_suite_def gap_scenario_def sample_scenario_def)

lemma gap_finding_anchors:
  assumes "er_inputs (gap_report policy) = sample_inputs" and "se_scenario_id (hd (er_results (gap_report policy))) = ''s1''"
    and "length (er_results (gap_report policy)) = 1"
  shows "finding_anchors sample_sha (gap_analyze policy) = Inr ()"
proof -
  have "er_results (gap_report policy) = [hd (er_results (gap_report policy))]"
    using assms(3) by (cases "er_results (gap_report policy)") auto
  then have "map se_scenario_id (er_results (gap_report policy)) = [''s1'']"
    using assms(2) by (metis list.simps(8) list.simps(9))
  then show ?thesis
    using assms(1) by (simp add: finding_anchors_def payload_hash_view gap_analyze_def sample_inputs_def
        sample_sha_def gap_suite_def gap_scenario_def sample_scenario_def del: set_map)
qed

lemma gap_findings_value:
  assumes "valid_policy_ir policy"
    and "validate_rule_set policy = Inr ()"
    and "validate_evaluation_anchors sample_sha (gap_evaluate policy) = Inr ()"
  shows "analyze sample_sha (gap_analyze policy) = Inr (gap_findings policy)"
    and "valid_by finding_report_checks (gap_findings policy)"
    and "fr_inputs (gap_findings policy) = sample_inputs"
    and "fr_findings (gap_findings policy) = map finding_of (sort_key fst
        (fold (put_event sample_sha policy gap_contract) (suite_events sample_sha policy gap_contract gap_suite) []))"
proof -
  note report = gap_report_value [OF assms(2,3)]
  have anchors: "finding_anchors sample_sha (gap_analyze policy) = Inr ()"
    by (rule gap_finding_anchors) (simp_all add: report(3,4) gap_scenario_def sample_scenario_def)
  have ordered: "sort_key sc_scenario_id (ss_scenarios gap_suite) = [gap_scenario]"
    by (simp add: gap_suite_def)
  have "\<exists>fs. analyze sample_sha (gap_analyze policy) = Inr fs \<and> valid_by finding_report_checks fs
      \<and> fr_inputs fs = sample_inputs \<and> fr_findings fs = map finding_of (sort_key fst
        (fold (put_event sample_sha policy gap_contract) (suite_events sample_sha policy gap_contract gap_suite) []))"
    using analyze_value [of "gap_analyze policy" sample_sha] assms(1) gap_contract_valid gap_suite_valid
      sample_inputs_valid sample_sha_digest gap_sources_known anchors report(3,4) ordered
    by (simp add: gap_analyze_def) blast
  then show "analyze sample_sha (gap_analyze policy) = Inr (gap_findings policy)"
    and "valid_by finding_report_checks (gap_findings policy)"
    and "fr_inputs (gap_findings policy) = sample_inputs"
    and "fr_findings (gap_findings policy) = map finding_of (sort_key fst
        (fold (put_event sample_sha policy gap_contract) (suite_events sample_sha policy gap_contract gap_suite) []))"
    by (auto simp: gap_findings_def)
qed

lemmas baseline_findings_value = gap_findings_value [OF sample_policy_valid sample_rules_possible gap_anchors(1)]
lemmas revised_findings_value = gap_findings_value [OF receipt_policy_valid receipt_rules_possible gap_anchors(2)]

definition gap_finding :: finding where
  "gap_finding = \<lparr>fd_finding_id = ''finding-'' @ zero_sha256, fd_fingerprint_sha256 = zero_sha256,
     fd_finding_type = StructuralGap, fd_evidence_level = MechanicallyReproduced, fd_scenario_ids = [''s1''],
     fd_rule_ids = [], fd_invariant_id = None, fd_assertion_id = None, fd_dimension = ReceiptRequirement,
     fd_traces = [\<lparr>tr_scenario_id = ''s1'', tr_trace_sha256 = zero_sha256\<rparr>], fd_citations = [],
     fd_review_status = Pending, fd_severity = None, fd_severity_origin = None\<rparr>"

lemma sample_fingerprint: "fingerprint sample_sha e = zero_sha256"
  using event_fingerprint_total [of sample_sha e] by (auto simp: fingerprint_def sample_sha_def)

lemma gap_calm: "\<not> contended gap_contract gap_scenario"
  by (simp add: contended_def gap_scenario_def sample_scenario_def)

lemma gap_no_assertions: "assertions_in_force gap_contract gap_scenario = []"
  by code_simp

lemma gap_events:
  assumes "scenario_outcome sample_sha policy gap_contract gap_scenario = result"
  shows "suite_events sample_sha policy gap_contract gap_suite =
    concat (map (dimension_events policy (trace_of_result result) {}) (et_resolved_effects (se_trace result)))"
proof -
  have dims: "map (expected_dimension policy gap_contract gap_scenario) effect_dimensions =
      et_resolved_effects (se_trace result)"
    using assms gap_calm by (auto simp: scenario_outcome_def expected_evaluation_def expected_trace_def Let_def)
  have "suite_events sample_sha policy gap_contract gap_suite =
      scenario_events sample_sha policy gap_contract gap_scenario"
    by (simp add: suite_events_def gap_suite_def)
  also have "\<dots> = concat (map (dimension_events policy (trace_of_result result) {})
      (map (expected_dimension policy gap_contract gap_scenario) effect_dimensions))"
    by (simp add: scenario_events_def gap_calm breaches_def gap_no_assertions assms Let_def comp_def)
  finally show ?thesis unfolding dims .
qed

lemma gap_findings_baseline: "fr_findings (gap_findings sample_policy) = [gap_finding]"
  unfolding baseline_findings_value(4) gap_events [OF gap_outcome]
  by (simp add: gap_result_def plain_result_def dimension_events_def trace_of_result_def gap_event_def
      concerned_rules_def sample_policy_def hotel_rule_def manager_rule_def effect_dims_def
      put_event_def sample_fingerprint blank_group_def new_group_def group_severity_def truthy_def
      event_spans_def finding_of_def gap_finding_def sorted_unique_def keys_def Let_def)

lemma gap_findings_revised: "fr_findings (gap_findings receipt_policy) = []"
  unfolding revised_findings_value(4) gap_events [OF receipt_outcome]
  by (simp add: receipt_result_def plain_result_def dimension_events_def)

subsection \<open>The application of the proposal\<close>

lemma gap_requests_valid:
  assumes "valid_policy_ir policy"
  shows "valid_by evaluate_policy_checks (gap_evaluate policy)"
    and "valid_report (gap_report policy) \<Longrightarrow> valid_by analyze_findings_checks (gap_analyze policy)"
  using assms by (simp_all add: valid_by_def [of evaluate_policy_checks] evaluate_policy_checks_def
      valid_by_def [of analyze_findings_checks] analyze_findings_checks_def gap_evaluate_def gap_analyze_def
      gap_contract_valid gap_suite_valid sample_inputs_valid nonempty_text_def engine_version_def)

lemma gap_baseline_findings:
  "Patches.baseline_findings sample_sha sample_policy gap_contract gap_suite = Inr [gap_finding]"
proof -
  note requests = gap_requests_valid(1) [OF sample_policy_valid]
    gap_requests_valid(2) [OF sample_policy_valid baseline_report(2)]
  show ?thesis
    using requests baseline_report(1) baseline_findings_value(1) gap_findings_baseline sample_inputs_valid
    by (simp add: Patches.baseline_findings_def payload_hash_view sample_sha_def
        gap_evaluate_def gap_analyze_def sample_inputs_def gap_suite_def)
qed

definition gap_patch :: patch_application_result where
  "gap_patch = \<lparr>par_proposal_id = ''proposal'', par_applied = True, par_revised_policy = Some receipt_policy,
     par_changed_rule_ids = [''receipt''], par_error = None\<rparr>"

lemma gap_applied: "apply_proposal sample_sha gap_apply = Inr gap_patch"
proof -
  have anchors: "validate_proposal_anchors sample_sha gap_apply = Inr ()"
    by (simp add: validate_proposal_anchors_def rule_set_hash_def payload_hash_view gap_apply_def gap_proposal_def
        sample_policy_def gap_suite_def sample_sha_def)
  have targets: "validate_targets gap_suite gap_proposal [(''finding-'' @ zero_sha256, gap_finding)] = Inr ()"
    by code_simp
  have loop: "rfold (apply_operation gap_apply [(''finding-'' @ zero_sha256, gap_finding)]
      (rules_by_id (pi_rules sample_policy))) (enumerate 0 (rp_operations gap_proposal))
      (rules_by_id (pi_rules sample_policy), []) =
    Inr ([(''hotel'', hotel_rule), (''manager'', manager_rule), (''receipt'', receipt_rule)], [''receipt''])"
    by code_simp
  have none: "rfold (changes_semantics sample_sha (rules_by_id (pi_rules sample_policy))
      [(''hotel'', hotel_rule), (''manager'', manager_rule), (''receipt'', receipt_rule)]) [''receipt''] () = Inr ()"
    by (simp add: changes_semantics_def rules_by_id_def dict_by_def sample_policy_def hotel_rule_def manager_rule_def)
  have revised: "\<lparr>pi_policy_id = pi_policy_id sample_policy, pi_document_sha256 = pi_document_sha256 sample_policy,
      pi_kind = StructuredRevision, pi_review_status = SessionConfirmed,
      pi_rules = map snd (sort_key fst [(''hotel'', hotel_rule), (''manager'', manager_rule), (''receipt'', receipt_rule)]),
      pi_unsupported_clauses = pi_unsupported_clauses sample_policy\<rparr> = receipt_policy"
    by (simp add: receipt_policy_def sample_policy_def)
  have result: "valid_by patch_application_result_checks gap_patch"
    by (simp add: valid_by_def [of patch_application_result_checks] patch_application_result_checks_def gap_patch_def
        receipt_policy_valid identifier_ok_def) (simp add: receipt_policy_def)
  have fields: "arq_policy gap_apply = sample_policy" "arq_contract gap_apply = gap_contract"
    "arq_suite gap_apply = gap_suite" "arq_proposal gap_apply = gap_proposal"
    by (simp_all add: gap_apply_def)
  have found: "dict_by fd_finding_id [gap_finding] = [(''finding-'' @ zero_sha256, gap_finding)]"
    by (simp add: dict_by_def gap_finding_def)
  show ?thesis
    using result unfolding apply_proposal_def Let_def fields anchors gap_baseline_findings rbind_simps found targets loop
      prod.case revised validated_valid [OF receipt_policy_valid] receipt_rules_possible none
    by (simp add: gap_patch_def gap_proposal_def)
qed

lemma gap_revision: "apply_revision sample_sha text gap_apply = Inr gap_patch"
  using gap_applied by (simp add: apply_revision_def gap_apply_valid)

subsection \<open>The comparison\<close>

definition gap_compare :: compare_revision_request where
  "gap_compare = \<lparr>crq_baseline_policy = sample_policy, crq_revised_policy = receipt_policy,
     crq_contract = gap_contract, crq_suite = gap_suite, crq_proposal = gap_proposal,
     crq_baseline_evaluation = gap_report sample_policy, crq_revised_evaluation = gap_report receipt_policy,
     crq_baseline_findings = gap_findings sample_policy, crq_revised_findings = gap_findings receipt_policy\<rparr>"

lemma gap_compare_fields [simp]:
  "crq_baseline_policy gap_compare = sample_policy" "crq_revised_policy gap_compare = receipt_policy"
  "crq_contract gap_compare = gap_contract" "crq_suite gap_compare = gap_suite"
  "crq_proposal gap_compare = gap_proposal"
  "crq_baseline_evaluation gap_compare = gap_report sample_policy"
  "crq_revised_evaluation gap_compare = gap_report receipt_policy"
  "crq_baseline_findings gap_compare = gap_findings sample_policy"
  "crq_revised_findings gap_compare = gap_findings receipt_policy"
  by (simp_all add: gap_compare_def)

lemma gap_compare_valid: "valid_by compare_revision_checks gap_compare"
  by (simp add: valid_by_def [of compare_revision_checks] compare_revision_checks_def sample_policy_valid
      receipt_policy_valid gap_contract_valid gap_suite_valid gap_proposal_valid baseline_report(2) revised_report(2)
      baseline_findings_value(2) revised_findings_value(2))

lemma gap_validate_report:
  assumes "valid_policy_ir policy" and "er_inputs (gap_report policy) = sample_inputs"
    and "er_engine_version (gap_report policy) = engine_version"
    and "evaluate sample_sha (gap_evaluate policy) = Inr (gap_report policy)"
  shows "validate_report sample_sha policy gap_contract gap_suite (gap_report policy) = Inr ()"
  using assms gap_requests_valid(1) [OF assms(1)]
  by (simp add: validate_report_def gap_evaluate_def [symmetric])

lemma gap_finding_evidence: "finding_evidence gap_finding = gap_finding"
  by (simp add: finding_evidence_def gap_finding_def)

lemma gap_authentic:
  assumes "valid_policy_ir policy" and "valid_report (gap_report policy)"
    and "analyze sample_sha (gap_analyze policy) = Inr (gap_findings policy)"
    and "map finding_evidence (fr_findings (gap_findings policy)) = fr_findings (gap_findings policy)"
  shows "authentic_findings sample_sha gap_compare (policy, gap_report policy, gap_findings policy) u = Inr ()"
  using assms gap_requests_valid(2) [OF assms(1,2)]
  by (simp add: authentic_findings_def gap_analyze_def [symmetric])

lemma gap_comparison_valid: "validate_comparison sample_sha gap_compare = Inr ()"
proof -
  have "authentic_findings sample_sha gap_compare (sample_policy, gap_report sample_policy, gap_findings sample_policy) u = Inr ()" for u
    by (rule gap_authentic) (simp_all add: sample_policy_valid baseline_report(2) baseline_findings_value(1)
        gap_findings_baseline gap_finding_evidence)
  moreover have "authentic_findings sample_sha gap_compare (receipt_policy, gap_report receipt_policy, gap_findings receipt_policy) u = Inr ()" for u
    by (rule gap_authentic) (simp_all add: receipt_policy_valid revised_report(2) revised_findings_value(1)
        gap_findings_revised)
  moreover have "proposal_anchors sample_sha gap_compare = Inr ()"
    by (simp add: proposal_anchors_def payload_hash_view gap_proposal_def sample_policy_def gap_suite_def
        sample_sha_def Let_def)
  moreover have "keys (targeted_findings gap_compare) = rp_accepted_finding_ids gap_proposal"
    by (simp add: targeted_findings_def gap_findings_baseline gap_finding_def gap_proposal_def dict_by_def keys_def)
  ultimately show ?thesis
    using gap_validate_report [OF sample_policy_valid] gap_validate_report [OF receipt_policy_valid]
    by (simp add: validate_comparison_def frozen_anchors_def Let_def baseline_report revised_report
        baseline_findings_value(3) revised_findings_value(3))
qed

lemma gap_targets: "map snd (targeted_findings gap_compare) = [gap_finding]"
  by (simp add: targeted_findings_def gap_findings_baseline gap_finding_def gap_proposal_def dict_by_def)

lemma gap_target_fixed: "target_fixed gap_compare gap_finding = Inr True"
proof -
  have "target_witnesses_fixed gap_finding [(''s1'', gap_result)] [(''s1'', receipt_result)]
      [(''s1'', gap_scenario)] gap_contract = Inr True"
    by code_simp
  then show ?thesis
    by (simp add: target_fixed_def gap_findings_revised baseline_report(4) revised_report(4) gap_outcome receipt_outcome
        dict_by_def gap_suite_def gap_result_def [THEN arg_cong, of se_scenario_id]
        receipt_result_def [THEN arg_cong, of se_scenario_id] gap_scenario_def [THEN arg_cong, of sc_scenario_id]
        sample_scenario_def)
qed

definition gap_changes :: scenario_changes where
  "gap_changes = \<lparr>ch_scenario = gap_scenario, ch_transitions = [], ch_dimensions = [], ch_assertions = [],
     ch_compliance = []\<rparr>"

lemma gap_compare_scenario:
  "compare_scenario [(''s1'', gap_scenario)] [(''s1'', receipt_result)] {} gap_result = Inr gap_changes"
  by code_simp

lemma gap_unrelated: "unrelated_changes sample_sha gap_compare = Inr 0"
proof -
  have "unrelated_changes (\<lambda>_. zero_sha256) \<lparr>crq_baseline_policy = sample_policy, crq_revised_policy = receipt_policy,
     crq_contract = gap_contract, crq_suite = gap_suite, crq_proposal = gap_proposal,
     crq_baseline_evaluation = undefined, crq_revised_evaluation = undefined,
     crq_baseline_findings = undefined, crq_revised_findings = undefined\<rparr> = Inr 0"
    by code_simp
  then show ?thesis
    by (simp add: unrelated_changes_def sample_sha_eq Let_def)
qed

lemma gap_changes_sets:
  "new_bad [gap_changes] = {}" "outside_targets ps as [gap_changes] = {}" "protected_pairs [gap_changes] = {}"
  "holdout_pairs [gap_changes] = {}"
  by (simp_all add: new_bad_def outside_targets_def protected_pairs_def holdout_pairs_def all_pairs_def
      dimension_pairs_def assertion_pairs_def gap_changes_def)

definition gap_counts :: "int \<Rightarrow> int \<Rightarrow> effect_state_counts" where
  "gap_counts v g = \<lparr>sc_VALUE = v, sc_GAP = g, sc_NOT_APPLICABLE = 4, sc_CONFLICT = 0, sc_INCONCLUSIVE = 0,
     sc_ERROR = 0\<rparr>"

lemma gap_effect_counts:
  "effect_counts (gap_report sample_policy) = Inr (gap_counts 0 1)"
  "effect_counts (gap_report receipt_policy) = Inr (gap_counts 1 0)"
  by (simp_all add: effect_counts_def effect_statuses_def baseline_report(4) revised_report(4) gap_outcome receipt_outcome
      gap_result_def receipt_result_def plain_result_def count_of_def validated_def effect_state_counts_checks_def
      non_negative_def gap_counts_def Let_def)

definition gap_regression :: regression_report where
  "gap_regression = \<lparr>rr_report_id = ''regression-'' @ zero_sha256, rr_baseline_inputs = sample_inputs,
     rr_revised_inputs = sample_inputs, rr_baseline_effect_states = gap_counts 0 1,
     rr_revised_effect_states = gap_counts 1 0,
     rr_assertion_transition_counts = \<lparr>tc_pass_to_pass = 0, tc_fail_to_pass = 0, tc_pass_to_fail = 0,
       tc_fail_to_fail = 0, tc_inconclusive_or_error = 0\<rparr>, rr_assertion_transitions = []\<rparr>"

lemma gap_regression_valid: "valid_by regression_report_checks gap_regression"
  by code_simp

definition gap_acceptance :: patch_acceptance_report where
  "gap_acceptance = acceptance_report sample_inputs sample_inputs
     \<lparr>pac_target_findings = 1, pac_fixed_target_findings = 1, pac_new_failures_outside_targets = 0,
      pac_protected_regressions = 0, pac_baseline_gap_conflict_inconclusive_or_error = 1,
      pac_revised_gap_conflict_inconclusive_or_error = 0, pac_unrelated_rule_changes = 0,
      pac_holdout_regressions = 0\<rparr> True"

lemma gap_acceptance_valid:
  "valid_by patch_acceptance_report_checks gap_acceptance" "pa_patch_accepted gap_acceptance"
  by code_simp+

lemma gap_accepted:
  "\<exists>bundle. compare sample_sha gap_compare = Inr bundle \<and> pa_patch_accepted (cb_acceptance bundle)"
proof -
  obtain m m' where metrics:
    "compute_metrics \<lparr>mq_evaluation = gap_report sample_policy, mq_findings = gap_findings sample_policy\<rparr> = Inr m"
    "compute_metrics \<lparr>mq_evaluation = gap_report receipt_policy, mq_findings = gap_findings receipt_policy\<rparr> = Inr m'"
    "valid_by metrics_report_checks m" "valid_by metrics_report_checks m'"
    using compute_metrics_value [of "\<lparr>mq_evaluation = gap_report sample_policy, mq_findings = gap_findings sample_policy\<rparr>"]
      compute_metrics_value [of "\<lparr>mq_evaluation = gap_report receipt_policy, mq_findings = gap_findings receipt_policy\<rparr>"]
      baseline_report(2,3) revised_report(2,3) baseline_findings_value(3) revised_findings_value(3)
    by auto
  let ?b = "\<lparr>cb_baseline_inputs = sample_inputs, cb_revised_inputs = sample_inputs, cb_regression = gap_regression,
    cb_acceptance = gap_acceptance, cb_baseline_metrics = m, cb_revised_metrics = m'\<rparr>"
  have whole: "valid_by comparison_bundle_checks ?b"
    by (simp add: valid_by_def [of comparison_bundle_checks] comparison_bundle_checks_def sample_inputs_valid
        gap_regression_valid gap_acceptance_valid metrics)
  have fixed: "rfilter (target_fixed gap_compare) [gap_finding] = Inr [gap_finding]"
    by (simp add: gap_target_fixed)
  have asserts: "target_assertions gap_contract [gap_finding] = {}"
    by (simp add: target_assertions_def gap_finding_def)
  have results: "er_results (gap_report sample_policy) = [gap_result]" "er_results (gap_report receipt_policy) = [receipt_result]"
    by (simp_all add: baseline_report(4) revised_report(4) gap_outcome receipt_outcome)
  have dicts: "dict_by sc_scenario_id (ss_scenarios gap_suite) = [(''s1'', gap_scenario)]"
    "dict_by se_scenario_id [receipt_result] = [(''s1'', receipt_result)]"
    by (simp_all add: dict_by_def gap_suite_def gap_scenario_def sample_scenario_def receipt_result_def)
  have changes: "traverse (compare_scenario [(''s1'', gap_scenario)] [(''s1'', receipt_result)] {}) [gap_result] =
      Inr [gap_changes]"
    by (simp add: gap_compare_scenario)
  have digest: "canonical_sha256 sample_sha (PSeq [report_obj (gap_report sample_policy), report_obj (gap_report receipt_policy)]) =
      Inr zero_sha256"
    by (simp add: canonical_sha256_norm sample_sha_def)
  have transitions: "concat (map ch_transitions [gap_changes]) = []" by (simp add: gap_changes_def)
  have counts: "validated assertion_transition_counts_checks (transition_counts []) =
      Inr (rr_assertion_transition_counts gap_regression)"
    by (simp add: transition_counts_def count_of_def gap_regression_def validated_def
        assertion_transition_counts_checks_def non_negative_def Let_def)
  have regression: "validated regression_report_checks
      \<lparr>rr_report_id = ''regression-'' @ zero_sha256, rr_baseline_inputs = sample_inputs,
       rr_revised_inputs = sample_inputs, rr_baseline_effect_states = gap_counts 0 1,
       rr_revised_effect_states = gap_counts 1 0,
       rr_assertion_transition_counts = rr_assertion_transition_counts gap_regression,
       rr_assertion_transitions = []\<rparr> = Inr gap_regression"
    using gap_regression_valid unfolding gap_regression_def by simp
  have counted: "validated patch_acceptance_counts_checks (pa_counts gap_acceptance) = Inr (pa_counts gap_acceptance)"
    using gap_acceptance_valid(1)
    by (simp add: valid_by_def [of patch_acceptance_report_checks] patch_acceptance_report_checks_def)
  have c: "\<lparr>pac_target_findings = int (length [gap_finding]), pac_fixed_target_findings = int (length [gap_finding]),
      pac_new_failures_outside_targets = int (card (outside_targets (target_pairs [gap_finding]) {} [gap_changes])),
      pac_protected_regressions = int (card (protected_pairs [gap_changes])),
      pac_baseline_gap_conflict_inconclusive_or_error = bad_count (gap_counts 0 1),
      pac_revised_gap_conflict_inconclusive_or_error = bad_count (gap_counts 1 0),
      pac_unrelated_rule_changes = 0, pac_holdout_regressions = int (card (holdout_pairs [gap_changes]))\<rparr> =
    pa_counts gap_acceptance"
    by (simp add: gap_changes_sets bad_count_def gap_counts_def gap_acceptance_def acceptance_report_def Let_def)
  have accepted: "acceptance_report sample_inputs sample_inputs (pa_counts gap_acceptance) (new_bad [gap_changes] = {}) =
      gap_acceptance"
    by (simp add: gap_changes_sets gap_acceptance_def acceptance_report_def Let_def)
  have "compare sample_sha gap_compare = Inr ?b"
    unfolding compare_def Let_def gap_compare_fields gap_comparison_valid rbind_simps gap_targets fixed asserts results
      dicts changes gap_unrelated transitions gap_effect_counts digest counts baseline_report(3) revised_report(3)
      regression c counted accepted validated_valid [OF gap_acceptance_valid(1)] metrics(1,2)
    by (rule validated_valid [OF whole])
  then show ?thesis using gap_acceptance_valid(2) by simp
qed

end
