(* ===== verification/Benchmark.thy ===== *)
theory Benchmark
  imports Metrics Payloads
begin

section \<open>Benchmark scoring (features/evaluation/benchmark.py)\<close>

text \<open>
  The sealed evidence is checked first, then findings are scored against sealed defects by a maximum one-to-one matching, computed with
  augmenting paths. The search is shown to terminate and to return the size of a largest matching;
  precision, recall and F1 follow from the counts.
\<close>

subsection \<open>Matching by augmenting paths\<close>

text \<open>
  \<open>assign\<close> tries the findings in order; the closure's mutable state is threaded: the set
  \<open>visited\<close> (a list of indices) and the dictionary \<open>matched_findings\<close> from finding to defect.
  \<open>adjacent d f\<close> is \<open>_matches(defects[d], findings[f])\<close> and \<open>n\<close> is \<open>len(findings)\<close>.
\<close>

type_synonym search_result = "bool \<times> nat list \<times> (nat \<times> nat) list"

function assign ::
  "(nat \<Rightarrow> nat \<Rightarrow> bool) \<Rightarrow> nat \<Rightarrow> nat \<Rightarrow> nat list \<Rightarrow> nat list \<Rightarrow> (nat \<times> nat) list \<Rightarrow> search_result" where
  "assign adjacent n d [] visited matched = (False, visited, matched)"
| "assign adjacent n d (f # fs) visited matched =
     (if f \<in> set visited \<or> \<not> adjacent d f then assign adjacent n d fs visited matched
      else
        (case map_of matched f of
           None \<Rightarrow> (True, f # visited, AList.update f d matched)
         | Some prior \<Rightarrow>
             (case assign adjacent n prior [0..<n] (f # visited) matched of
                (found, visited', matched') \<Rightarrow>
                  if found then (True, visited', AList.update f d matched')
                  else assign adjacent n d fs visited' matched')))"
  by pat_completeness auto

lemma assign_visited_dom:
  "assign_dom (adjacent, n, d, fs, visited, matched) \<Longrightarrow>
   set visited \<subseteq> set (fst (snd (assign adjacent n d fs visited matched)))"
proof (induction rule: assign.pinduct)
  case (2 adjacent n d f fs visited matched)
  show ?case
  proof (cases "f \<in> set visited \<or> \<not> adjacent d f")
    case True
    then show ?thesis using 2 by (simp add: assign.psimps)
  next
    case free: False
    show ?thesis
    proof (cases "map_of matched f")
      case None
      then show ?thesis using free 2(1) by (auto simp: assign.psimps)
    next
      case (Some prior)
      obtain found visited' matched' where
        inner: "assign adjacent n prior [0..<n] (f # visited) matched = (found, visited', matched')"
        by (metis prod.exhaust)
      have sub: "set (f # visited) \<subseteq> set visited'"
        using 2(3) [OF free Some] inner by simp
      show ?thesis
      proof (cases found)
        case True
        then show ?thesis using free Some inner sub 2(1) by (auto simp: assign.psimps)
      next
        case False
        then show ?thesis
          using free Some inner sub 2(1) 2(4) [OF free Some inner [symmetric] refl False]
          by (auto simp: assign.psimps)
      qed
    qed
  qed
qed (simp add: assign.psimps)

termination assign
proof (relation "measures [
    \<lambda>(adjacent, n, d, fs, visited, matched). card (({..<n} \<union> set fs) - set visited),
    \<lambda>(adjacent, n, d, fs, visited, matched). length fs]", goal_cases)
  case 1
  then show ?case by simp
next
  case (2 adjacent n d f fs visited matched)
  have "card (({..<n} \<union> set fs) - set visited) \<le> card (({..<n} \<union> set (f # fs)) - set visited)"
    by (rule card_mono) auto
  then show ?case by (simp add: order.order_iff_strict)
next
  case (3 adjacent n d f fs visited matched prior)
  then have "({..<n} \<union> set [0..<n]) - set (f # visited) \<subset> ({..<n} \<union> set (f # fs)) - set visited"
    by auto
  then show ?case by (simp add: psubset_card_mono)
next
  case (4 adjacent n d f fs visited matched prior res y visited' matched')
  then have "set (f # visited) \<subseteq> set visited'"
    using assign_visited_dom by (metis fst_conv snd_conv)
  with 4 have "({..<n} \<union> set fs) - set visited' \<subset> ({..<n} \<union> set (f # fs)) - set visited"
    by auto
  then show ?case by (simp add: psubset_card_mono)
qed

subsection \<open>What one search achieves\<close>

lemma assign_visited: "set visited \<subseteq> set (fst (snd (assign adjacent n d fs visited matched)))"
proof (induction adjacent n d fs visited matched rule: assign.induct)
  case (2 adjacent n d f fs visited matched)
  show ?case
    by (cases "f \<in> set visited \<or> \<not> adjacent d f"; cases "map_of matched f")
      (use 2 in \<open>fastforce split: prod.splits if_splits\<close>)+
qed simp

text \<open>
  A failed search leaves the matching alone and has visited a closed set: every neighbour of the
  defect, and with each visited finding every neighbour of the defect it is matched to.
\<close>

definition closed_visit ::
  "(nat \<Rightarrow> nat \<Rightarrow> bool) \<Rightarrow> nat \<Rightarrow> (nat \<Rightarrow> nat option) \<Rightarrow> nat set \<Rightarrow> nat set \<Rightarrow> bool" where
  "closed_visit adjacent n m fresh visited \<longleftrightarrow>
     (\<forall>g \<in> fresh. \<exists>p. m g = Some p \<and> (\<forall>h < n. adjacent p h \<longrightarrow> h \<in> visited))"

lemma assign_failed:
  assumes "assign adjacent n d fs visited matched = (False, visited', matched')"
  shows "matched' = matched \<and> {f \<in> set fs. adjacent d f} \<subseteq> set visited'
    \<and> closed_visit adjacent n (map_of matched) (set visited' - set visited) (set visited')"
  using assms
proof (induction adjacent n d fs visited matched arbitrary: visited' matched' rule: assign.induct)
  case (1 adjacent n d visited matched)
  then show ?case by (simp add: closed_visit_def)
next
  case (2 adjacent n d f fs visited matched)
  show ?case
  proof (cases "f \<in> set visited \<or> \<not> adjacent d f")
    case True
    then have "assign adjacent n d fs visited matched = (False, visited', matched')"
      using 2(4) by simp
    then have "set visited \<subseteq> set visited'" using assign_visited by (metis fst_conv snd_conv)
    then show ?thesis using True 2(1) [OF True] 2(4) by auto
  next
    case free: False
    then obtain prior where prior: "map_of matched f = Some prior"
      using 2(4) by (auto split: option.splits)
    obtain found v m where inner: "assign adjacent n prior [0..<n] (f # visited) matched = (found, v, m)"
      by (metis prod.exhaust)
    have lost: "\<not> found" and rest: "assign adjacent n d fs v m = (False, visited', matched')"
      using 2(4) free prior inner by (simp_all split: if_splits)
    have i: "m = matched" "{h \<in> set [0..<n]. adjacent prior h} \<subseteq> set v"
      "closed_visit adjacent n (map_of matched) (set v - set (f # visited)) (set v)"
      using 2(2) [OF free prior] inner lost by auto
    have o: "matched' = m" "{h \<in> set fs. adjacent d h} \<subseteq> set visited'"
      "closed_visit adjacent n (map_of m) (set visited' - set v) (set visited')"
      using 2(3) [OF free prior inner [symmetric] refl lost rest] by auto
    have grow: "set (f # visited) \<subseteq> set v" "set v \<subseteq> set visited'"
      using assign_visited inner rest by (metis fst_conv snd_conv)+
    have "closed_visit adjacent n (map_of matched) (set visited' - set visited) (set visited')"
      unfolding closed_visit_def
    proof
      fix g assume "g \<in> set visited' - set visited"
      then consider "g = f" | "g \<in> set v - set (f # visited)" | "g \<in> set visited' - set v"
        by auto
      then show "\<exists>p. map_of matched g = Some p \<and> (\<forall>h<n. adjacent p h \<longrightarrow> h \<in> set visited')"
      proof cases
        case 1 then show ?thesis using prior i(2) grow by fastforce
      next
        case 2 then show ?thesis using i(3) grow unfolding closed_visit_def by blast
      next
        case 3 then show ?thesis using o(3) i(1) unfolding closed_visit_def by blast
      qed
    qed
    then show ?thesis using o i(1) grow by auto
  qed
qed

text \<open>
  A successful search matches one more defect: outside the findings visited before, the matching
  stays one to one and the matched defects are the old ones and \<open>d\<close>; visited findings keep theirs.
\<close>

definition matched_defects :: "(nat \<Rightarrow> nat option) \<Rightarrow> nat set \<Rightarrow> nat set" where
  "matched_defects m visited = {d. \<exists>f. f \<notin> visited \<and> m f = Some d}"

definition one_to_one :: "(nat \<Rightarrow> nat option) \<Rightarrow> nat set \<Rightarrow> bool" where
  "one_to_one m visited \<longleftrightarrow>
     (\<forall>f g d. f \<notin> visited \<longrightarrow> g \<notin> visited \<longrightarrow> m f = Some d \<longrightarrow> m g = Some d \<longrightarrow> f = g)"

definition extends ::
  "(nat \<Rightarrow> nat option) \<Rightarrow> nat \<Rightarrow> nat set \<Rightarrow> (nat \<Rightarrow> nat option) \<Rightarrow> bool" where
  "extends m d visited m' \<longleftrightarrow>
     (\<forall>f \<in> visited. m' f = m f) \<and> one_to_one m' visited
     \<and> matched_defects m' visited = insert d (matched_defects m visited)"

lemma extends_take:
  assumes "one_to_one m visited" and "d \<notin> matched_defects m visited"
    and "f \<notin> visited" and "m f = None"
  shows "extends m d visited (m(f \<mapsto> d))"
proof -
  have "matched_defects (m(f \<mapsto> d)) visited = insert d (matched_defects m visited)"
    using assms(3,4) unfolding matched_defects_def by (auto split: if_splits) (metis option.simps(3))
  moreover have "one_to_one (m(f \<mapsto> d)) visited"
    using assms(1,2) unfolding one_to_one_def matched_defects_def by (auto split: if_splits)
  ultimately show ?thesis using assms(3) by (auto simp: extends_def)
qed

lemma extends_displace:
  assumes "one_to_one m visited" and "d \<notin> matched_defects m visited"
    and "f \<notin> visited" and "m f = Some prior" and "extends m prior (insert f visited) m'"
  shows "extends m d visited (m'(f \<mapsto> d))"
proof -
  have keep: "m' g = m g" if "g \<in> insert f visited" for g
    using assms(5) that by (auto simp: extends_def)
  have inj: "one_to_one m' (insert f visited)"
    and all: "matched_defects m' (insert f visited) = insert prior (matched_defects m (insert f visited))"
    using assms(5) by (simp_all add: extends_def)
  have old: "insert prior (matched_defects m (insert f visited)) = matched_defects m visited"
    using assms(3,4) unfolding matched_defects_def by (auto, metis option.inject)
  have "matched_defects (m'(f \<mapsto> d)) visited = insert d (matched_defects m' (insert f visited))"
    using assms(3) unfolding matched_defects_def by (auto split: if_splits)
  then have "matched_defects (m'(f \<mapsto> d)) visited = insert d (matched_defects m visited)"
    unfolding all old .
  moreover have "one_to_one (m'(f \<mapsto> d)) visited"
  proof -
    have "d \<notin> matched_defects m' (insert f visited)" using assms(2) unfolding all old .
    then show ?thesis
      using inj unfolding one_to_one_def matched_defects_def by (auto split: if_splits)
  qed
  moreover have "(m'(f \<mapsto> d)) g = m g" if "g \<in> visited" for g
    using keep that assms(3) by auto
  ultimately show ?thesis by (simp add: extends_def)
qed

lemma extends_later:
  assumes "one_to_one m visited" and "d \<notin> matched_defects m visited"
    and "visited \<subseteq> visited'" and "extends m d visited' m'"
  shows "extends m d visited m'"
proof -
  have keep: "m' g = m g" if "g \<in> visited'" for g using assms(4) that by (simp add: extends_def)
  have inj: "one_to_one m' visited'"
    and all: "matched_defects m' visited' = insert d (matched_defects m visited')"
    using assms(4) by (simp_all add: extends_def)
  have split: "matched_defects x visited = matched_defects x visited' \<union> {e. \<exists>g \<in> visited' - visited. x g = Some e}"
    for x using assms(3) unfolding matched_defects_def by auto
  have "matched_defects m' visited = insert d (matched_defects m visited)"
    unfolding split all using keep by auto
  moreover have "one_to_one m' visited"
    unfolding one_to_one_def
  proof (intro allI impI)
    fix f g e assume fg: "f \<notin> visited" "g \<notin> visited" "m' f = Some e" "m' g = Some e"
    have inner: False if "h \<in> visited'" "h \<notin> visited" "k \<notin> visited'" "m' h = Some e" "m' k = Some e" for h k
    proof -
      have mh: "m h = Some e" using keep that by simp
      have "e \<in> insert d (matched_defects m visited')"
        using that(3,5) all unfolding matched_defects_def by auto
      then show False
      proof
        assume "e = d"
        then show False using mh that(2) assms(2) unfolding matched_defects_def by auto
      next
        assume "e \<in> matched_defects m visited'"
        then obtain k' where "k' \<notin> visited'" "m k' = Some e" unfolding matched_defects_def by auto
        then show False using mh that(1,2) assms(1,3) unfolding one_to_one_def by blast
      qed
    qed
    consider "f \<in> visited'" "g \<in> visited'" | "f \<notin> visited'" "g \<notin> visited'" | "f \<in> visited'" "g \<notin> visited'"
      | "f \<notin> visited'" "g \<in> visited'" by blast
    then show "f = g"
    proof cases
      case 1 then show ?thesis using keep fg assms(1) unfolding one_to_one_def by metis
    next
      case 2 then show ?thesis using inj fg unfolding one_to_one_def by blast
    next
      case 3 then show ?thesis using inner fg by blast
    next
      case 4 then show ?thesis using inner fg by blast
    qed
  qed
  ultimately show ?thesis using keep assms(3) by (auto simp: extends_def)
qed

lemma map_update: "map_of (AList.update f d matched) = (map_of matched)(f \<mapsto> d)"
  by (rule update_conv')

lemma assign_found:
  assumes "assign adjacent n d fs visited matched = (True, visited', matched')"
    and "one_to_one (map_of matched) (set visited)"
    and "d \<notin> matched_defects (map_of matched) (set visited)"
  shows "extends (map_of matched) d (set visited) (map_of matched')"
  using assms
proof (induction adjacent n d fs visited matched arbitrary: visited' matched' rule: assign.induct)
  case (2 adjacent n d f fs visited matched)
  show ?case
  proof (cases "f \<in> set visited \<or> \<not> adjacent d f")
    case True
    then show ?thesis using 2(1) [OF True] 2(4-6) by simp
  next
    case free: False
    show ?thesis
    proof (cases "map_of matched f")
      case None
      then show ?thesis
        using free 2(4) extends_take [OF 2(5,6) _ None] by (auto simp only: assign.simps map_update
            option.case if_False if_True prod.inject simp_thms)
    next
      case (Some prior)
      obtain found v m where inner: "assign adjacent n prior [0..<n] (f # visited) matched = (found, v, m)"
        by (metis prod.exhaust)
      have one: "one_to_one (map_of matched) (set (f # visited))"
        using 2(5) by (auto simp: one_to_one_def)
      have "prior \<notin> matched_defects (map_of matched) (set (f # visited))"
        using 2(5) Some free by (auto simp: one_to_one_def matched_defects_def)
      with one have step: "extends (map_of matched) prior (set (f # visited)) (map_of m)" if found
        using 2(2) [OF free Some] inner that by auto
      show ?thesis
      proof (cases found)
        case True
        then have m': "map_of matched' = (map_of m)(f \<mapsto> d)"
          using 2(4) free Some inner map_update by auto
        show ?thesis
          unfolding m' by (rule extends_displace [OF 2(5,6) _ Some]) (use step True free in simp_all)
      next
        case False
        have rest: "assign adjacent n d fs v m = (True, visited', matched')"
          using 2(4) free Some inner False by simp
        have same: "m = matched"
          using assign_failed [of adjacent n prior "[0..<n]" "f # visited" matched v m] inner False by simp
        have grow: "set visited \<subseteq> set v"
          using assign_visited [of "f # visited" adjacent n prior "[0..<n]" matched] inner by simp
        have "one_to_one (map_of m) (set v)" "d \<notin> matched_defects (map_of m) (set v)"
          using 2(5,6) grow same by (auto simp: one_to_one_def matched_defects_def)
        then have "extends (map_of m) d (set v) (map_of matched')"
          using 2(3) [OF free Some inner [symmetric] refl False rest] by blast
        then show ?thesis using extends_later [OF 2(5,6) grow] same by simp
      qed
    qed
  qed
qed simp

definition sound_matching :: "(nat \<Rightarrow> nat \<Rightarrow> bool) \<Rightarrow> nat \<Rightarrow> (nat \<Rightarrow> nat option) \<Rightarrow> bool" where
  "sound_matching adjacent n m \<longleftrightarrow> (\<forall>f d. m f = Some d \<longrightarrow> f < n \<and> adjacent d f)"

lemma assign_sound:
  assumes "sound_matching adjacent n (map_of matched)" and "set fs \<subseteq> {..<n}"
    and "assign adjacent n d fs visited matched = (found, visited', matched')"
  shows "sound_matching adjacent n (map_of matched')"
  using assms
proof (induction adjacent n d fs visited matched arbitrary: found visited' matched' rule: assign.induct)
  case (2 adjacent n d f fs visited matched)
  show ?case
  proof (cases "f \<in> set visited \<or> \<not> adjacent d f")
    case True
    then show ?thesis using 2(1) [OF True] 2(4-6) by auto
  next
    case free: False
    show ?thesis
    proof (cases "map_of matched f")
      case None
      then have "matched' = AList.update f d matched" using free 2(6) by simp
      then show ?thesis using free 2(4,5) by (simp add: map_update sound_matching_def)
    next
      case (Some prior)
      obtain got v m where inner: "assign adjacent n prior [0..<n] (f # visited) matched = (got, v, m)"
        by (metis prod.exhaust)
      have m: "sound_matching adjacent n (map_of m)"
        using 2(2) [OF free Some 2(4) _ inner] by (simp add: atLeast0LessThan)
      show ?thesis
      proof (cases got)
        case True
        then have "matched' = AList.update f d m" using free Some inner 2(6) by simp
        then show ?thesis using m free 2(5) by (simp add: map_update sound_matching_def)
      next
        case False
        then show ?thesis
          using 2(3) [OF free Some inner [symmetric] refl False m] free Some inner 2(5,6) by auto
      qed
    qed
  qed
qed simp

subsection \<open>Maximality\<close>

text \<open>The loop over all defects, and the specification of a matching in the bipartite graph.\<close>

definition assign_next ::
  "(nat \<Rightarrow> nat \<Rightarrow> bool) \<Rightarrow> nat \<Rightarrow> nat \<Rightarrow> nat \<times> (nat \<times> nat) list \<Rightarrow> nat \<times> (nat \<times> nat) list" where
  "assign_next adjacent n d state =
     (case assign adjacent n d [0..<n] [] (snd state) of
        (found, _, matched) \<Rightarrow> (if found then fst state + 1 else fst state, matched))"

definition matching :: "(nat \<Rightarrow> nat \<Rightarrow> bool) \<Rightarrow> nat \<Rightarrow> nat \<Rightarrow> (nat \<times> nat) set \<Rightarrow> bool" where
  "matching adjacent k n M \<longleftrightarrow>
     M \<subseteq> {(d, f). d < k \<and> f < n \<and> adjacent d f} \<and> inj_on fst M \<and> inj_on snd M"

definition pairs_of :: "(nat \<Rightarrow> nat option) \<Rightarrow> (nat \<times> nat) set" where
  "pairs_of m = {(d, f). m f = Some d}"

definition largest :: "(nat \<Rightarrow> nat \<Rightarrow> bool) \<Rightarrow> nat \<Rightarrow> nat \<Rightarrow> nat \<Rightarrow> bool" where
  "largest adjacent k n c \<longleftrightarrow> (\<forall>M. matching adjacent k n M \<longrightarrow> card M \<le> c)"

lemma matching_finite: "matching adjacent k n M \<Longrightarrow> finite M"
  unfolding matching_def
  by (rule finite_subset [of _ "{..<k} \<times> {..<n}"]) auto

lemma matching_subset: "matching adjacent k n M \<Longrightarrow> N \<subseteq> M \<Longrightarrow> matching adjacent k n N"
  unfolding matching_def by (meson inj_on_subset order_trans)

lemma matching_pairs_of:
  "matching adjacent k n (pairs_of m) \<longleftrightarrow>
     sound_matching adjacent n m \<and> one_to_one m {} \<and> matched_defects m {} \<subseteq> {..<k}"
proof -
  have "pairs_of m \<subseteq> {(d, f). d < k \<and> f < n \<and> adjacent d f} \<longleftrightarrow>
      sound_matching adjacent n m \<and> matched_defects m {} \<subseteq> {..<k}"
    unfolding pairs_of_def sound_matching_def matched_defects_def by auto
  moreover have "inj_on fst (pairs_of m) \<longleftrightarrow> one_to_one m {}"
    unfolding pairs_of_def one_to_one_def inj_on_def by auto
  moreover have "inj_on snd (pairs_of m)"
    unfolding pairs_of_def inj_on_def by auto
  ultimately show ?thesis unfolding matching_def by blast
qed

lemma card_pairs_of: "one_to_one m {} \<Longrightarrow> card (pairs_of m) = card (matched_defects m {})"
proof -
  assume "one_to_one m {}"
  then have "inj_on fst (pairs_of m)"
    unfolding pairs_of_def one_to_one_def inj_on_def by auto
  then have "card (fst ` pairs_of m) = card (pairs_of m)" by (rule card_image)
  moreover have "fst ` pairs_of m = matched_defects m {}"
    unfolding pairs_of_def matched_defects_def by force
  ultimately show ?thesis by simp
qed

text \<open>Without the new defect a matching is one of the graph before it.\<close>

lemma matching_remove:
  assumes "matching adjacent (Suc k) n M"
  shows "matching adjacent k n {e \<in> M. fst e \<noteq> k}" and "card M \<le> card {e \<in> M. fst e \<noteq> k} + 1"
proof -
  show "matching adjacent k n {e \<in> M. fst e \<noteq> k}"
    using assms unfolding matching_def inj_on_def by fastforce
  have "card {e \<in> M. fst e = k} \<le> 1"
    using assms matching_finite [OF assms] card_le_Suc0_iff_eq [of "{e \<in> M. fst e = k}"]
    unfolding matching_def inj_on_def by auto
  moreover have "card M = card {e \<in> M. fst e \<noteq> k} + card {e \<in> M. fst e = k}"
    using matching_finite [OF assms] by (subst card_Un_disjoint [symmetric]) (auto intro: arg_cong [where f = card])
  ultimately show "card M \<le> card {e \<in> M. fst e \<noteq> k} + 1" by simp
qed

text \<open>
  A closed set of findings exchanges: replacing the edges of any matching that touch it by the
  search's own edges loses nothing, and frees the new defect.
\<close>

lemma closed_exchange:
  assumes M: "matching adjacent (Suc k) n M" and own: "matching adjacent k n (pairs_of m)"
    and new: "\<forall>f < n. adjacent k f \<longrightarrow> f \<in> V" and closed: "closed_visit adjacent n m V V"
  shows "\<exists>N. matching adjacent k n N \<and> card M \<le> card N"
proof -
  define A where "A = {e \<in> M. snd e \<notin> V}"
  define B where "B = {e \<in> pairs_of m. snd e \<in> V}"
  have far: "fst e \<noteq> k \<and> fst e \<notin> fst ` B" if "e \<in> A" for e
  proof -
    obtain d f where "e = (d, f)" by (cases e)
    with that have e: "e = (d, f)" "(d, f) \<in> M" "f \<notin> V" by (simp_all add: A_def)
    then have df: "f < n" "adjacent d f" using M by (auto simp: matching_def)
    have "d \<noteq> k" using new df e(3) by auto
    moreover have "d \<notin> fst ` B"
    proof
      assume "d \<in> fst ` B"
      then obtain g where "m g = Some d" "g \<in> V" by (auto simp: B_def pairs_of_def)
      then have "f \<in> V" using closed df unfolding closed_visit_def by fastforce
      then show False using e by simp
    qed
    ultimately show ?thesis using e by simp
  qed
  have sub: "matching adjacent (Suc k) n A" "matching adjacent k n B"
    using matching_subset [OF M, of A] matching_subset [OF own, of B] by (auto simp: A_def B_def)
  have "matching adjacent k n (A \<union> B)"
    unfolding matching_def
  proof (intro conjI)
    show "A \<union> B \<subseteq> {(d, f). d < k \<and> f < n \<and> adjacent d f}"
      using sub far unfolding matching_def by fastforce
    show "inj_on fst (A \<union> B)"
      using sub far unfolding matching_def by (auto simp: inj_on_Un)
    show "inj_on snd (A \<union> B)"
      using sub unfolding matching_def by (auto simp: inj_on_Un A_def B_def)
  qed
  moreover have "card M \<le> card (A \<union> B)"
  proof -
    have fin: "finite A" "finite B" "finite M" using sub M by (auto intro: matching_finite)
    have "card M = card A + card {e \<in> M. snd e \<in> V}"
      using fin by (subst card_Un_disjoint [symmetric]) (auto simp: A_def intro: arg_cong [where f = card])
    also have "card {e \<in> M. snd e \<in> V} \<le> card B"
    proof -
      have "card {e \<in> M. snd e \<in> V} = card (snd ` {e \<in> M. snd e \<in> V})"
        using M unfolding matching_def by (intro card_image [symmetric]) (auto intro: inj_on_subset)
      also have "\<dots> \<le> card (snd ` B)"
        using fin closed by (intro card_mono) (auto simp: B_def pairs_of_def closed_visit_def image_iff)
      also have "\<dots> \<le> card B" using fin by (intro card_image_le)
      finally show ?thesis .
    qed
    also have "card A + card B = card (A \<union> B)"
      using fin by (intro card_Un_disjoint [symmetric]) (auto simp: A_def B_def)
    finally show ?thesis by simp
  qed
  ultimately show ?thesis by blast
qed

definition maximum_so_far ::
  "(nat \<Rightarrow> nat \<Rightarrow> bool) \<Rightarrow> nat \<Rightarrow> nat \<Rightarrow> nat \<times> (nat \<times> nat) list \<Rightarrow> bool" where
  "maximum_so_far adjacent k n state \<longleftrightarrow>
     matching adjacent k n (pairs_of (map_of (snd state)))
     \<and> fst state = card (pairs_of (map_of (snd state))) \<and> largest adjacent k n (fst state)"

lemma assign_next_maximum:
  assumes "maximum_so_far adjacent k n state"
  shows "maximum_so_far adjacent (Suc k) n (assign_next adjacent n k state)"
proof -
  obtain found v m where run: "assign adjacent n k [0..<n] [] (snd state) = (found, v, m)"
    by (metis prod.exhaust)
  let ?m = "map_of (snd state)"
  have mat: "matching adjacent k n (pairs_of ?m)" and count: "fst state = card (pairs_of ?m)"
    and best: "largest adjacent k n (fst state)"
    using assms by (auto simp: maximum_so_far_def)
  have parts: "sound_matching adjacent n ?m" "one_to_one ?m {}" "matched_defects ?m {} \<subseteq> {..<k}"
    using mat by (auto simp: matching_pairs_of)
  show ?thesis
  proof (cases found)
    case True
    have ext: "extends ?m k {} (map_of m)"
      using assign_found [of adjacent n k "[0..<n]" "[]" "snd state" v m] run True parts by auto
    then have ext': "one_to_one (map_of m) {}"
      "matched_defects (map_of m) {} = insert k (matched_defects ?m {})"
      by (auto simp: extends_def)
    have "sound_matching adjacent n (map_of m)"
      using assign_sound [OF parts(1) _ run] by (simp add: atLeast0LessThan)
    then have "matching adjacent (Suc k) n (pairs_of (map_of m))"
      using parts(3) ext' by (auto simp: matching_pairs_of)
    moreover have "card (pairs_of (map_of m)) = fst state + 1"
    proof -
      have "finite (matched_defects ?m {})" using parts(3) by (rule finite_subset) simp
      moreover have "k \<notin> matched_defects ?m {}" using parts(3) by auto
      ultimately show ?thesis
        by (simp add: count card_pairs_of [OF parts(2)] card_pairs_of [OF ext'(1)] ext'(2))
    qed
    moreover have "largest adjacent (Suc k) n (fst state + 1)"
      using best matching_remove unfolding largest_def by (meson add_le_mono1 order_trans)
    ultimately show ?thesis
      using run True by (simp add: maximum_so_far_def assign_next_def)
  next
    case False
    then have failed: "m = snd state" "{f \<in> set [0..<n]. adjacent k f} \<subseteq> set v"
      "closed_visit adjacent n ?m (set v) (set v)"
      using assign_failed [of adjacent n k "[0..<n]" "[]" "snd state" v m] run by auto
    have "card M \<le> fst state" if "matching adjacent (Suc k) n M" for M
      using closed_exchange [OF that mat _ failed(3)] failed(2) best
      unfolding largest_def by fastforce
    moreover have "matching adjacent (Suc k) n (pairs_of ?m)"
      using parts by (auto simp: matching_pairs_of)
    ultimately show ?thesis
      using run False failed(1) count by (simp add: maximum_so_far_def assign_next_def largest_def)
  qed
qed

lemma assign_all_maximum: "maximum_so_far adjacent k n (fold (assign_next adjacent n) [0..<k] (0, []))"
proof (induction k)
  case 0
  have "M = {}" if "matching adjacent 0 n M" for M using that by (auto simp: matching_def)
  then show ?case
    by (auto simp: maximum_so_far_def pairs_of_def matching_def largest_def)
next
  case (Suc k)
  then show ?case by (simp add: assign_next_maximum)
qed

subsection \<open>Scoring\<close>

definition finding_targets :: "finding \<Rightarrow> ident list" where
  "finding_targets f =
     (if fd_finding_type f = IntentBreach then
        (case fd_invariant_id f of Some i \<Rightarrow> [i] | None \<Rightarrow> [])
      else if fd_finding_type f = Regression then
        (case fd_assertion_id f of Some i \<Rightarrow> [i] | None \<Rightarrow> [])
      else sort (fd_rule_ids f))"

definition is_scored :: "finding \<Rightarrow> bool" where
  "is_scored f \<longleftrightarrow> fd_evidence_level f \<noteq> Candidate \<and> fd_finding_type f \<noteq> PotentialLoophole"

text \<open>\<open>hashlib.sha256(span.quote.encode("utf-8")).hexdigest() != span.quote_sha256\<close>.\<close>

definition quote_ok :: "(string \<Rightarrow> sha256) \<Rightarrow> source_span \<Rightarrow> bool" where
  "quote_ok sha span \<longleftrightarrow> sha (utf8 (span_quote span)) = span_quote_sha256 span"

text \<open>The loops of \<open>_validate_evidence\<close>, each iteration a list of checks.\<close>

definition trace_authentic ::
  "(string \<Rightarrow> sha256) \<Rightarrow> scenario_evaluation \<Rightarrow> unit \<Rightarrow> unit result" where
  "trace_authentic sha result u =
     rbind (payload_hash sha (trace_obj (se_trace result))) (\<lambda>h.
       check_all [(h = et_trace_sha256 (se_trace result),
                   ''HASH_MISMATCH: fabricated evaluation trace'')])"

definition defect_evidence_checks ::
  "(string \<Rightarrow> sha256) \<Rightarrow> ident list \<Rightarrow> benchmark_defect \<Rightarrow> (bool \<times> string) list" where
  "defect_evidence_checks sha gold_ids defect =
     [(distinct (bd_target_ids defect), ''benchmark defect contains duplicate target IDs''),
      (distinct (bd_permitted_witness_ids defect),
       ''benchmark defect contains duplicate permitted witnesses''),
      (set (bd_permitted_witness_ids defect) \<subseteq> set gold_ids,
       ''benchmark defect witness is outside the gold suite''),
      (bd_expected_finding_fingerprint_sha256 defect \<noteq> None,
       ''benchmark scoring requires an explicit expected finding fingerprint''),
      (list_all (quote_ok sha) (bd_source_spans defect),
       ''HASH_MISMATCH: benchmark source citation'')]"

definition witness_trace_ok :: "(ident \<times> scenario_evaluation) list \<Rightarrow> trace_ref \<Rightarrow> bool" where
  "witness_trace_ok results t =
     (case map_of results (tr_scenario_id t) of
        None \<Rightarrow> False
      | Some result \<Rightarrow> et_trace_sha256 (se_trace result) = tr_trace_sha256 t)"

definition finding_evidence_checks ::
  "(string \<Rightarrow> sha256) \<Rightarrow> (ident \<times> scenario_evaluation) list \<Rightarrow> finding \<Rightarrow> (bool \<times> string) list" where
  "finding_evidence_checks sha results f =
     [(distinct (fd_scenario_ids f) \<and> distinct (map tr_scenario_id (fd_traces f)),
       ''finding contains duplicate witness''),
      (set (fd_scenario_ids f) = set (map tr_scenario_id (fd_traces f)),
       ''finding witness and trace identities differ''),
      (list_all (witness_trace_ok results) (fd_traces f), ''HASH_MISMATCH: finding witness trace''),
      (list_all (quote_ok sha) (fd_citations f), ''HASH_MISMATCH: finding citation'')]"

definition validate_evidence ::
  "(string \<Rightarrow> sha256) \<Rightarrow> score_benchmark_request \<Rightarrow> unit result" where
  "validate_evidence sha request =
     (let manifest = sb_manifest request; findings = fr_findings (sb_findings request);
          evaluation = sb_evaluation request;
          gold_ids = map sc_scenario_id (bm_gold_scenarios manifest);
          results = dict_by se_scenario_id (er_results evaluation) in
      rbind (check_all
        [(fr_inputs (sb_findings request) = er_inputs evaluation
            \<and> bm_policy_contract_sha256 manifest = ih_contract_sha256 (er_inputs evaluation)
            \<and> bm_engine_version manifest = er_engine_version evaluation,
          ''HASH_MISMATCH: benchmark inputs''),
         (distinct gold_ids, ''benchmark contains duplicate gold scenario IDs''),
         (set gold_ids = set (map se_scenario_id (er_results evaluation)),
          ''HASH_MISMATCH: benchmark evaluation scenario set'')]) (\<lambda>_.
      rbind (rfold (trace_authentic sha) (er_results evaluation) ()) (\<lambda>_.
      check_all
        ((distinct (map bd_defect_id (bm_defects manifest)), ''benchmark contains duplicate defect IDs'')
         # concat (map (defect_evidence_checks sha gold_ids) (bm_defects manifest))
         @ [(distinct (map fd_finding_id findings), ''finding report contains duplicate finding IDs''),
            (distinct (map fd_fingerprint_sha256 findings),
             ''finding report contains duplicate root-cause fingerprints'')]
         @ concat (map (finding_evidence_checks sha results) findings)))))"

definition matches :: "benchmark_defect \<Rightarrow> finding \<Rightarrow> bool" where
  "matches defect f \<longleftrightarrow>
     bd_finding_type defect = fd_finding_type f
     \<and> bd_dimension defect = fd_dimension f
     \<and> sort (bd_target_ids defect) = finding_targets f
     \<and> bd_expected_finding_fingerprint_sha256 defect = Some (fd_fingerprint_sha256 f)
     \<and> list_ex (\<lambda>w. w \<in> set (fd_scenario_ids f)) (bd_permitted_witness_ids defect)"

definition maximum_matching :: "benchmark_defect list \<Rightarrow> finding list \<Rightarrow> nat" where
  "maximum_matching defects findings =
     fst (fold (assign_next (\<lambda>d f. matches (defects ! d) (findings ! f)) (length findings))
            [0..<length defects] (0, []))"

definition scored_findings :: "score_benchmark_request \<Rightarrow> finding list" where
  "scored_findings request =
     sort_key (\<lambda>f. (fd_fingerprint_sha256 f, fd_finding_id f))
       (filter is_scored (fr_findings (sb_findings request)))"

definition sorted_defects :: "score_benchmark_request \<Rightarrow> benchmark_defect list" where
  "sorted_defects request = sort_key bd_defect_id (bm_defects (sb_manifest request))"

definition score_benchmark ::
  "(string \<Rightarrow> sha256) \<Rightarrow> score_benchmark_request \<Rightarrow> benchmark_score result" where
  "score_benchmark sha request =
     rbind (validate_evidence sha request) (\<lambda>_.
       let found = scored_findings request; defects = sorted_defects request;
           true_positives = int (maximum_matching defects found);
           false_positives = int (length found) - true_positives;
           false_negatives = int (length defects) - true_positives in
       validated benchmark_score_checks
         \<lparr>bs_benchmark_id = bm_benchmark_id (sb_manifest request),
          bs_inputs = er_inputs (sb_evaluation request),
          bs_true_positives = true_positives, bs_false_positives = false_positives,
          bs_false_negatives = false_negatives,
          bs_precision_percent = percent true_positives (true_positives + false_positives),
          bs_recall_percent = percent true_positives (true_positives + false_negatives),
          bs_f1_percent =
            percent (2 * true_positives) (2 * true_positives + false_positives + false_negatives)\<rparr>)"

subsection \<open>What the score counts\<close>

text \<open>A one-to-one assignment of findings to defects they match, by position.\<close>

definition assignment :: "benchmark_defect list \<Rightarrow> finding list \<Rightarrow> (nat \<times> nat) set \<Rightarrow> bool" where
  "assignment defects findings =
     matching (\<lambda>d f. matches (defects ! d) (findings ! f)) (length defects) (length findings)"

lemma maximum_matching_largest:
  "\<exists>M. assignment defects findings M \<and> card M = maximum_matching defects findings"
  "assignment defects findings M \<Longrightarrow> card M \<le> maximum_matching defects findings"
  using assign_all_maximum [of "\<lambda>d f. matches (defects ! d) (findings ! f)" "length defects" "length findings"]
  by (auto simp: maximum_so_far_def maximum_matching_def assignment_def largest_def)

lemma assignment_bounds:
  assumes "assignment defects findings M"
  shows "card M \<le> length defects" and "card M \<le> length findings"
proof -
  have "card M = card (fst ` M)" "card M = card (snd ` M)"
    using assms by (simp_all add: assignment_def matching_def card_image)
  moreover have "fst ` M \<subseteq> {..<length defects}" "snd ` M \<subseteq> {..<length findings}"
    using assms by (auto simp: assignment_def matching_def)
  ultimately show "card M \<le> length defects" "card M \<le> length findings"
    by (metis card_lessThan card_mono finite_lessThan)+
qed

lemma maximum_matching_bounds:
  "maximum_matching defects findings \<le> length defects"
  "maximum_matching defects findings \<le> length findings"
  using maximum_matching_largest(1) [of defects findings] assignment_bounds by metis+

lemma score_benchmark_value:
  assumes "validate_evidence sha request = Inr ()"
    and "valid_by benchmark_manifest_checks (sb_manifest request)"
    and "valid_report (sb_evaluation request)"
  shows "\<exists>b. score_benchmark sha request = Inr b \<and> valid_by benchmark_score_checks b
    \<and> bs_true_positives b = int (maximum_matching (sorted_defects request) (scored_findings request))
    \<and> bs_true_positives b + bs_false_positives b = int (length (scored_findings request))
    \<and> bs_true_positives b + bs_false_negatives b = int (length (bm_defects (sb_manifest request)))
    \<and> bs_precision_percent b = percent (bs_true_positives b) (int (length (scored_findings request)))
    \<and> bs_recall_percent b = percent (bs_true_positives b) (int (length (bm_defects (sb_manifest request))))"
proof -
  let ?tp = "int (maximum_matching (sorted_defects request) (scored_findings request))"
  let ?n = "int (length (scored_findings request))" and ?k = "int (length (sorted_defects request))"
  have le: "0 \<le> ?tp" "?tp \<le> ?n" "?tp \<le> ?k" using maximum_matching_bounds by simp_all
  have "identifier_ok (bm_benchmark_id (sb_manifest request))"
    "valid_by input_hashes_checks (er_inputs (sb_evaluation request))"
    using assms(2,3)
    by (simp_all add: valid_by_def benchmark_manifest_checks_def evaluation_report_checks_def)
  then have "valid_by benchmark_score_checks
      \<lparr>bs_benchmark_id = bm_benchmark_id (sb_manifest request),
       bs_inputs = er_inputs (sb_evaluation request),
       bs_true_positives = ?tp, bs_false_positives = ?n - ?tp, bs_false_negatives = ?k - ?tp,
       bs_precision_percent = percent ?tp (?tp + (?n - ?tp)),
       bs_recall_percent = percent ?tp (?tp + (?k - ?tp)),
       bs_f1_percent = percent (2 * ?tp) (2 * ?tp + (?n - ?tp) + (?k - ?tp))\<rparr>"
    using le percent_range [of ?tp "?tp + (?n - ?tp)"] percent_range [of ?tp "?tp + (?k - ?tp)"]
      percent_range [of "2 * ?tp" "2 * ?tp + (?n - ?tp) + (?k - ?tp)"]
    by (simp add: valid_by_def benchmark_score_checks_def non_negative_def)
  then show ?thesis
    using assms(1) by (simp add: score_benchmark_def Let_def sorted_defects_def)
qed

end
