(* ===== verification/Benchmark_Models.thy ===== *)
theory Benchmark_Models
  imports Revision_Models
begin

section \<open>Sealed benchmark schemas (domain/models/benchmark.py)\<close>

text \<open>
  Source labels and the corrected semantics of a benchmark policy. Its validator searches the
  override graph of the expected rules depth first, as the one of a policy does.
\<close>

record benchmark_source_label =
  bl_label_id :: ident
  bl_source_span :: source_span
  bl_rule_ids :: "ident list"
  bl_unsupported_clause_id :: "ident option"

definition benchmark_source_label_checks :: "benchmark_source_label \<Rightarrow> (bool \<times> string) list" where
  "benchmark_source_label_checks l =
     [(identifier_ok (bl_label_id l) \<and> valid_by source_span_checks (bl_source_span l)
        \<and> list_all identifier_ok (bl_rule_ids l)
        \<and> optional identifier_ok (bl_unsupported_clause_id l), ''BenchmarkSourceLabel''),
      (\<not> (bl_rule_ids l = [] \<and> bl_unsupported_clause_id l = None),
       ''a label requires a rule or unsupported clause''),
      (distinct (bl_rule_ids l), ''label rule IDs must be unique'')]"

record benchmark_source_labels =
  bls_document :: policy_document
  bls_labels :: "benchmark_source_label list"

definition benchmark_source_labels_checks :: "benchmark_source_labels \<Rightarrow> (bool \<times> string) list" where
  "benchmark_source_labels_checks l =
     [(valid_by policy_document_checks (bls_document l)
        \<and> list_all (valid_by benchmark_source_label_checks) (bls_labels l), ''BenchmarkSourceLabels''),
      (distinct (map bl_label_id (bls_labels l)), ''label IDs must be unique'')]"

record benchmark_expected_rule =
  be_rule_id :: ident
  be_revision :: int
  be_rule :: revision_rule_draft

definition benchmark_expected_rule_checks :: "benchmark_expected_rule \<Rightarrow> (bool \<times> string) list" where
  "benchmark_expected_rule_checks r =
     [(identifier_ok (be_rule_id r) \<and> non_negative (be_revision r)
        \<and> valid_by revision_rule_draft_checks (be_rule r), ''BenchmarkExpectedRule'')]"

record benchmark_corrected_semantics =
  bcs_document_sha256 :: sha256
  bcs_baseline_policy_sha256 :: sha256
  bcs_rules :: "benchmark_expected_rule list"

definition expected_rules :: "benchmark_expected_rule list \<Rightarrow> (ident \<times> benchmark_expected_rule) list" where
  "expected_rules rules = dict_by be_rule_id rules"

definition expected_edge_ok :: "benchmark_expected_rule list \<Rightarrow> override_ref \<Rightarrow> bool" where
  "expected_edge_ok rules edge =
     (case map_of (expected_rules rules) (ov_target_rule_id edge) of
        None \<Rightarrow> False
      | Some target \<Rightarrow> ov_dimension edge \<in> set (effect_dims (rd_effects (be_rule target))))"

definition expected_targets :: "benchmark_expected_rule list \<Rightarrow> ident \<Rightarrow> ident list" where
  "expected_targets rules rid =
     (case map_of (expected_rules rules) rid of
        None \<Rightarrow> []
      | Some r \<Rightarrow> remdups (map ov_target_rule_id (rd_overrides (be_rule r))))"

definition benchmark_corrected_semantics_checks ::
  "benchmark_corrected_semantics \<Rightarrow> (bool \<times> string) list" where
  "benchmark_corrected_semantics_checks c =
     (let rules = bcs_rules c in
      [(sha256_ok (bcs_document_sha256 c) \<and> sha256_ok (bcs_baseline_policy_sha256 c)
         \<and> 1 \<le> length rules \<and> length rules \<le> 12
         \<and> list_all (valid_by benchmark_expected_rule_checks) rules, ''BenchmarkCorrectedSemantics''),
       (length (expected_rules rules) = length rules, ''expected rule IDs must be unique''),
       (list_all (\<lambda>r. list_all (expected_edge_ok rules) (rd_overrides (be_rule r))) rules,
        ''override target and dimension must exist''),
       (ok (dfs_all ''override cycles are invalid'' (keys (expected_rules rules)) (expected_targets rules)),
        ''override cycles are invalid'')])"

subsection \<open>What the validator accepts\<close>

definition expected_relation :: "benchmark_expected_rule list \<Rightarrow> (ident \<times> ident) set" where
  "expected_relation rules =
     {(be_rule_id r, ov_target_rule_id e) | r e. r \<in> set rules \<and> e \<in> set (rd_overrides (be_rule r))}"

lemma set_expected_keys: "set (keys (expected_rules rules)) = be_rule_id ` set rules"
  by (simp add: expected_rules_def)

lemma set_expected_targets:
  assumes "distinct (map be_rule_id rules)" and "r \<in> set rules"
  shows "set (expected_targets rules (be_rule_id r)) = ov_target_rule_id ` set (rd_overrides (be_rule r))"
  using map_of_dict_by_mem [OF assms] by (simp add: expected_targets_def expected_rules_def)

lemma expected_edges:
  assumes "distinct (map be_rule_id rules)"
  shows "edges (keys (expected_rules rules)) (expected_targets rules) = expected_relation rules"
proof -
  have "(a, b) \<in> edges (keys (expected_rules rules)) (expected_targets rules)
      \<longleftrightarrow> (\<exists>r \<in> set rules. a = be_rule_id r \<and> b \<in> set (expected_targets rules (be_rule_id r)))" for a b
    by (auto simp: set_expected_keys)
  then show ?thesis
    using set_expected_targets [OF assms] by (auto simp: expected_relation_def set_eq_iff)
qed

lemma expected_target_known:
  "expected_edge_ok rules edge \<Longrightarrow> ov_target_rule_id edge \<in> be_rule_id ` set rules"
  by (force simp: expected_edge_ok_def expected_rules_def split: option.splits dest!: map_of_dict_by_SomeD)

lemma corrected_semantics_iff:
  "valid_by benchmark_corrected_semantics_checks c \<longleftrightarrow>
     sha256_ok (bcs_document_sha256 c) \<and> sha256_ok (bcs_baseline_policy_sha256 c)
     \<and> 1 \<le> length (bcs_rules c) \<and> length (bcs_rules c) \<le> 12
     \<and> list_all (valid_by benchmark_expected_rule_checks) (bcs_rules c)
     \<and> distinct (map be_rule_id (bcs_rules c))
     \<and> list_all (\<lambda>r. list_all (expected_edge_ok (bcs_rules c)) (rd_overrides (be_rule r))) (bcs_rules c)
     \<and> acyclic (expected_relation (bcs_rules c))"
proof (cases "distinct (map be_rule_id (bcs_rules c))
    \<and> list_all (\<lambda>r. list_all (expected_edge_ok (bcs_rules c)) (rd_overrides (be_rule r))) (bcs_rules c)")
  case True
  then have dist: "distinct (map be_rule_id (bcs_rules c))"
    and edges_ok: "\<And>r e. r \<in> set (bcs_rules c) \<Longrightarrow> e \<in> set (rd_overrides (be_rule r)) \<Longrightarrow>
      expected_edge_ok (bcs_rules c) e"
    by (simp_all add: list_all_iff)
  have "set (expected_targets (bcs_rules c) a) \<subseteq> set (keys (expected_rules (bcs_rules c)))"
    if "a \<in> set (keys (expected_rules (bcs_rules c)))" for a
    using that set_expected_targets [OF dist] edges_ok expected_target_known by (auto simp: set_expected_keys)
  then have "ok (dfs_all ''override cycles are invalid'' (keys (expected_rules (bcs_rules c)))
        (expected_targets (bcs_rules c))) \<longleftrightarrow> acyclic (expected_relation (bcs_rules c))"
    using dfs_all_iff_acyclic expected_edges [OF dist] by metis
  then show ?thesis
    using True by (simp add: valid_by_def [of benchmark_corrected_semantics_checks] Let_def
        benchmark_corrected_semantics_checks_def expected_rules_def length_dict_by_iff)
next
  case False
  then show ?thesis
    by (auto simp: valid_by_def [of benchmark_corrected_semantics_checks] Let_def
        benchmark_corrected_semantics_checks_def expected_rules_def length_dict_by_iff)
qed

end
