(* ===== verification/Revision_Properties.thy ===== *)
theory Revision_Properties
  imports Revision_Example Benchmark Benchmark_Models
begin

section \<open>Properties of findings, revisions, comparisons and benchmark scores\<close>

text \<open>
  What a reviewer relies on from the finding report to the acceptance of a patch, each over the
  definitions that model the code, with the structural gap of the sample policy as the witness.
\<close>

subsection \<open>Findings\<close>



subsection \<open>Applying a revision\<close>

text \<open>
  C19: Applying a proposal is contained: on a valid request it never raises. Either the proposal was
  applied whole, or nothing was: the result then names the proposal, carries no policy and no changed
  rule, and its error has the code REVISION_INVALID.
\<close>

theorem revision_contained:
  assumes "valid_by apply_revision_checks request" and "hex_digest sha"
  shows "(\<exists>result. apply_proposal sha request = Inr result \<and> apply_revision sha text request = Inr result)
    \<or> (\<exists>e error. apply_proposal sha request = Inl e
        \<and> apply_revision sha text request = Inr
            \<lparr>par_proposal_id = rp_proposal_id (arq_proposal request), par_applied = False,
             par_revised_policy = None, par_changed_rule_ids = [], par_error = Some error\<rparr>
        \<and> pe_code error = REVISION_INVALID)"
  using apply_revision_outcome [OF assms] .

definition gap_stale :: apply_revision_request where
  "gap_stale = gap_apply\<lparr>arq_proposal := gap_proposal\<lparr>rp_document_sha256 := replicate 64 CHR ''1''\<rparr>\<rparr>"

lemma revision_contained_witness:
  "\<exists>error. apply_revision sample_sha (\<lambda>e. ''stale'') gap_stale = Inr
      \<lparr>par_proposal_id = ''proposal'', par_applied = False, par_revised_policy = None,
       par_changed_rule_ids = [], par_error = Some error\<rparr> \<and> pe_code error = REVISION_INVALID"
proof -
  have valid: "valid_by apply_revision_checks gap_stale" by code_simp
  have "arq_policy gap_stale = sample_policy" "arq_proposal gap_stale =
      gap_proposal\<lparr>rp_document_sha256 := replicate 64 CHR ''1''\<rparr>"
    by (simp_all add: gap_stale_def gap_apply_def)
  moreover have "pi_document_sha256 sample_policy \<noteq> replicate 64 CHR ''1''" by code_simp
  ultimately have "apply_proposal sample_sha gap_stale \<noteq> Inr result" for result
    by (auto simp: apply_proposal_def validate_proposal_anchors_def Let_def elim!: rbind_InrE split: if_splits)
  then show ?thesis
    using revision_contained [OF valid sample_sha_digest, of "\<lambda>e. ''stale''"] by (simp add: gap_stale_def gap_proposal_def)
qed



subsection \<open>Accepting a patch\<close>

text \<open>
  C4: A comparison that accepts a patch means what it says, over the two policies themselves and not
  only over the reports. Every targeted finding is repaired: its fingerprint is gone, and on every
  scenario that showed it the dimension resolves to one value and the assertions in force on it pass. In
  every scenario without contended assertion identities no dimension gets a new gap, conflict,
  inconclusive or error state, and no assertion or compliance verdict is lost except a targeted one of
  an unprotected visible scenario. And no rule changed but as the proposal says.
\<close>

theorem accepted_patch_sound:
  assumes "compare sha request = Inr b" and "pa_patch_accepted (cb_acceptance b)"
    and "valid_by compare_revision_checks request" and "hex_digest sha"
  shows "list_all (repaired request) (map snd (targeted_findings request))
    \<and> fst ` set (targeted_findings request) = set (rp_accepted_finding_ids (crq_proposal request))
    \<and> (\<forall>s \<in> set (ss_scenarios (crq_suite request)). \<not> contended (crq_contract request) s \<longrightarrow>
         no_worse (target_pairs (map snd (targeted_findings request)))
           (target_assertions (crq_contract request) (map snd (targeted_findings request)))
           (crq_baseline_policy request) (crq_revised_policy request) (crq_contract request) s)
    \<and> only_proposed_changes sha request"
proof -
  let ?targets = "map snd (targeted_findings request)"
  let ?scenarios = "ss_scenarios (crq_suite request)" and ?contract = "crq_contract request"
  obtain changes where ok: "validate_comparison sha request = Inr ()"
    and fixed: "rfilter (target_fixed request) ?targets = Inr ?targets"
    and walk: "traverse (compare_scenario (dict_by sc_scenario_id ?scenarios)
      (dict_by se_scenario_id (er_results (crq_revised_evaluation request)))
      (target_assertions ?contract ?targets)) (er_results (crq_baseline_evaluation request)) = Inr changes"
    and unrelated: "unrelated_changes sha request = Inr 0"
    and none: "new_bad changes = {}" "outside_targets (target_pairs ?targets) (target_assertions ?contract ?targets) changes = {}"
      "protected_pairs changes = {}" "holdout_pairs changes = {}"
    using assms(1,2) by (rule compare_accepted)
  have valid: "valid_contract ?contract" "valid_suite (crq_suite request)"
    "valid_report (crq_baseline_evaluation request)" "valid_report (crq_revised_evaluation request)"
    using assms(3) by (simp_all add: valid_by_def [of compare_revision_checks] compare_revision_checks_def)
  note baseline = validate_report_outcomes [OF validate_comparison_Inr(1) [OF ok] valid(1-3) assms(4)]
  note revised = validate_report_outcomes [OF validate_comparison_Inr(2) [OF ok] valid(1,2,4) assms(4)]
  have "repaired request f" if "f \<in> set ?targets" for f
    using rfilter_same [OF fixed that] revised(1) valid(1,2) by (rule target_fixed_repaired)
  moreover have "no_worse (target_pairs ?targets) (target_assertions ?contract ?targets)
      (crq_baseline_policy request) (crq_revised_policy request) ?contract s"
    if s: "s \<in> set ?scenarios" "\<not> contended ?contract s" for s
  proof -
    have "scenario_outcome sha (crq_baseline_policy request) ?contract s \<in> set (er_results (crq_baseline_evaluation request))"
      using s(1) unfolding baseline(1) by simp
    from traverse_mem [OF walk this] obtain c where c: "c \<in> set changes"
      "compare_scenario (dict_by sc_scenario_id ?scenarios)
        (dict_by se_scenario_id (er_results (crq_revised_evaluation request)))
        (target_assertions ?contract ?targets) (scenario_outcome sha (crq_baseline_policy request) ?contract s) = Inr c"
      by blast
    show ?thesis
      by (rule scenario_no_worse [OF c(2) [unfolded revised(1)] c(1) _ _ s(1) valid(1) _ s(2) none])
        (use valid(2) s(1) in \<open>auto dest: valid_suite_distinct valid_suite_scenarios\<close>)
  qed
  ultimately show ?thesis
    using validate_comparison_Inr(3) [OF ok] unrelated_changes_zero [OF unrelated] by (simp add: list_all_iff)
qed

lemma accepted_patch_sound_witness:
  "repaired gap_compare gap_finding \<and> only_proposed_changes sample_sha gap_compare
    \<and> no_worse (target_pairs [gap_finding]) (target_assertions gap_contract [gap_finding])
        sample_policy receipt_policy gap_contract gap_scenario"
proof -
  obtain b where "compare sample_sha gap_compare = Inr b" "pa_patch_accepted (cb_acceptance b)"
    using gap_accepted by blast
  from accepted_patch_sound [OF this gap_compare_valid sample_sha_digest] show ?thesis
    using gap_calm unfolding gap_targets gap_compare_fields by (simp add: gap_suite_def)
qed

subsection \<open>Signatures and scores\<close>

text \<open>
  The semantic signature that decides whether a rule was changed does not depend on the rule's
  identifier, revision number, wording, provenance or confidence.
\<close>

theorem signature_semantic:
  "semantic_rule_signature sha
     (r\<lparr>r_rule_id := i, r_revision := n, r_description := t, r_provenance := q, r_confidence_percent := c\<rparr>) rules =
   semantic_rule_signature sha r rules"
  by (rule signature_ignores_identity)

text \<open>
  C29: The true positives of a benchmark score are the size of a largest one-to-one assignment of
  findings to defects they match: the augmenting-path search misses no better assignment.
\<close>

theorem matching_is_maximum:
  "\<exists>M. assignment defects findings M \<and> card M = maximum_matching defects findings
     \<and> \<not> (\<exists>M'. assignment defects findings M' \<and> card M < card M')"
  using maximum_matching_largest [of defects findings] by (metis leD)


end
