(* ===== verification/Run_Models.thy ===== *)
theory Run_Models
  imports Revision_Models
begin

section \<open>Runs, commands and the public view (domain/models/run.py, workflow/types.py)\<close>

text \<open>
  The records a run is stored in, the commands of the browser with their validators, the
  confirmations a run waits for, and the restricted view. \<open>StoredRun\<close> extends \<open>RunRecord\<close> as a
  record extension. \<open>Literal\<close> fields of one value are left out.
\<close>

subsection \<open>Stages and actions\<close>

datatype run_stage =
    Queued | Ingesting | Extracting | AwaitingContract | GeneratingInitialTests
  | ProvisionalExecution | TargetingCoverage | FreezingSuite | BaselineExecution | Analyzing
  | AwaitingFindingReview | DraftingRevision | AwaitingRevisionConfirmation | ApplyingRevision
  | Retesting | Complete | CompletedNoFindings | CompletedNoRevision | ContractRejected
  | RevisionRejected | CoverageLimit | Failed

definition run_stages :: "run_stage list" where
  "run_stages =
     [Queued, Ingesting, Extracting, AwaitingContract, GeneratingInitialTests, ProvisionalExecution,
      TargetingCoverage, FreezingSuite, BaselineExecution, Analyzing, AwaitingFindingReview,
      DraftingRevision, AwaitingRevisionConfirmation, ApplyingRevision, Retesting, Complete,
      CompletedNoFindings, CompletedNoRevision, ContractRejected, RevisionRejected, CoverageLimit, Failed]"

lemma set_run_stages [simp]: "set run_stages = UNIV"
proof -
  have "s \<in> set run_stages" for s by (cases s) (simp_all add: run_stages_def)
  then show ?thesis by blast
qed

text \<open>\<open>TerminalStatus\<close> is the sub-vocabulary of final stages.\<close>

definition terminal_stages :: "run_stage list" where
  "terminal_stages =
     [Complete, CompletedNoFindings, CompletedNoRevision, ContractRejected, RevisionRejected,
      CoverageLimit, Failed]"

datatype run_action =
    ConfirmContract | RejectContract | SelectFindings | ConfirmRevision | RejectRevision | DeleteRun

subsection \<open>Manifest and artifacts\<close>

record generation_config =
  gc_temperature_milli :: int
  gc_top_p_percent :: int
  gc_max_output_tokens :: int
  gc_seed :: "int option"

definition generation_config_checks :: "generation_config \<Rightarrow> (bool \<times> string) list" where
  "generation_config_checks g =
     [(0 \<le> gc_temperature_milli g \<and> gc_temperature_milli g \<le> 2000
        \<and> percentage_ok (gc_top_p_percent g) \<and> 1 \<le> gc_max_output_tokens g
        \<and> optional non_negative (gc_seed g), ''GenerationConfig'')]"

record prompt_hash =
  ph_prompt_name :: ident
  ph_prompt_sha256 :: sha256

definition prompt_hash_checks :: "prompt_hash \<Rightarrow> (bool \<times> string) list" where
  "prompt_hash_checks p =
     [(identifier_ok (ph_prompt_name p) \<and> sha256_ok (ph_prompt_sha256 p), ''PromptHash'')]"

record run_manifest =
  rm_manifest_id :: ident
  rm_run_id :: ident
  rm_engine_version :: string
  rm_engine_sha256 :: sha256
  rm_prompt_hashes :: "prompt_hash list"
  rm_provider :: ident
  rm_model_identifier :: ident
  rm_generation_config :: generation_config
  rm_random_seed :: int
  rm_started_at :: timestamp
  rm_mode :: run_mode

definition run_manifest_checks :: "run_manifest \<Rightarrow> (bool \<times> string) list" where
  "run_manifest_checks m =
     [(identifier_ok (rm_manifest_id m) \<and> identifier_ok (rm_run_id m)
        \<and> nonempty_text (rm_engine_version m) \<and> sha256_ok (rm_engine_sha256 m)
        \<and> list_all (valid_by prompt_hash_checks) (rm_prompt_hashes m)
        \<and> identifier_ok (rm_provider m) \<and> identifier_ok (rm_model_identifier m)
        \<and> valid_by generation_config_checks (rm_generation_config m)
        \<and> non_negative (rm_random_seed m), ''RunManifest'')]"

datatype artifact_payload =
    DocumentPayload policy_document
  | PolicyPayload policy_ir
  | ContractPayload policy_contract
  | SuitePayload scenario_suite
  | EvaluationPayload evaluation_report
  | FindingsPayload finding_report
  | ProposalPayload revision_proposal
  | RegressionPayload regression_report
  | AcceptancePayload patch_acceptance_report
  | BundlePayload comparison_bundle
  | MetricsPayload metrics_report
  | BenchmarkPayload benchmark_manifest
  | ScorePayload benchmark_score
  | CoveragePayload coverage_snapshot
  | ManifestPayload run_manifest

text \<open>\<open>_PAYLOAD_TYPES\<close>, read from the payload's class to the artifact type.\<close>

fun payload_type :: "artifact_payload \<Rightarrow> artifact_type" where
  "payload_type (DocumentPayload x) = PolicyDocumentArtifact"
| "payload_type (PolicyPayload x) = PolicyIRArtifact"
| "payload_type (ContractPayload x) = PolicyContractArtifact"
| "payload_type (SuitePayload x) = ScenarioSuiteArtifact"
| "payload_type (EvaluationPayload x) = EvaluationReportArtifact"
| "payload_type (FindingsPayload x) = FindingReportArtifact"
| "payload_type (ProposalPayload x) = RevisionProposalArtifact"
| "payload_type (RegressionPayload x) = RegressionReportArtifact"
| "payload_type (AcceptancePayload x) = PatchAcceptanceReportArtifact"
| "payload_type (BundlePayload x) = ComparisonBundleArtifact"
| "payload_type (MetricsPayload x) = MetricsReportArtifact"
| "payload_type (BenchmarkPayload x) = BenchmarkManifestArtifact"
| "payload_type (ScorePayload x) = BenchmarkScoreArtifact"
| "payload_type (CoveragePayload x) = CoverageSnapshotArtifact"
| "payload_type (ManifestPayload x) = RunManifestArtifact"

fun valid_payload :: "artifact_payload \<Rightarrow> bool" where
  "valid_payload (DocumentPayload x) = valid_by policy_document_checks x"
| "valid_payload (PolicyPayload x) = valid_policy_ir x"
| "valid_payload (ContractPayload x) = valid_contract x"
| "valid_payload (SuitePayload x) = valid_suite x"
| "valid_payload (EvaluationPayload x) = valid_report x"
| "valid_payload (FindingsPayload x) = valid_by finding_report_checks x"
| "valid_payload (ProposalPayload x) = valid_proposal x"
| "valid_payload (RegressionPayload x) = valid_by regression_report_checks x"
| "valid_payload (AcceptancePayload x) = valid_by patch_acceptance_report_checks x"
| "valid_payload (BundlePayload x) = valid_by comparison_bundle_checks x"
| "valid_payload (MetricsPayload x) = valid_by metrics_report_checks x"
| "valid_payload (BenchmarkPayload x) = valid_by benchmark_manifest_checks x"
| "valid_payload (ScorePayload x) = valid_by benchmark_score_checks x"
| "valid_payload (CoveragePayload x) = valid_coverage x"
| "valid_payload (ManifestPayload x) = valid_by run_manifest_checks x"

record artifact_envelope =
  ae_artifact_type :: artifact_type
  ae_artifact_sha256 :: sha256
  ae_semantic_sha256 :: sha256
  ae_parent_hashes :: "sha256 list"
  ae_run_manifest_id :: ident
  ae_payload :: artifact_payload

definition artifact_envelope_checks :: "artifact_envelope \<Rightarrow> (bool \<times> string) list" where
  "artifact_envelope_checks e =
     [(sha256_ok (ae_artifact_sha256 e) \<and> sha256_ok (ae_semantic_sha256 e)
        \<and> list_all sha256_ok (ae_parent_hashes e) \<and> identifier_ok (ae_run_manifest_id e)
        \<and> valid_payload (ae_payload e), ''ArtifactEnvelope''),
      (payload_type (ae_payload e) = ae_artifact_type e, ''payload must match artifact_type'')]"

record run_event =
  ev_timestamp :: timestamp
  ev_stage :: run_stage
  ev_action_summary :: string
  ev_artifact :: "artifact_ref option"
  ev_error_id :: "ident option"

definition run_event_checks :: "run_event \<Rightarrow> (bool \<times> string) list" where
  "run_event_checks e =
     [(nonempty_text (ev_action_summary e) \<and> optional (valid_by artifact_ref_checks) (ev_artifact e)
        \<and> optional identifier_ok (ev_error_id e), ''RunEvent'')]"

record artifact_summary =
  as_artifact :: artifact_ref
  as_title :: string
  as_item_count :: "int option"

definition artifact_summary_checks :: "artifact_summary \<Rightarrow> (bool \<times> string) list" where
  "artifact_summary_checks a =
     [(valid_by artifact_ref_checks (as_artifact a) \<and> nonempty_text (as_title a)
        \<and> optional non_negative (as_item_count a), ''ArtifactSummary'')]"

subsection \<open>Summaries shown for review\<close>

record rule_summary =
  rs_rule_id :: ident
  rs_revision :: int
  rs_description :: string
  rs_when :: "predicate list"
  rs_effects :: "effect list"
  rs_overrides :: "override_ref list"
  rs_citations :: "text_rule_provenance list"
  rs_confidence_percent :: "int option"

definition rule_summary_checks :: "rule_summary \<Rightarrow> (bool \<times> string) list" where
  "rule_summary_checks r =
     [(identifier_ok (rs_rule_id r) \<and> non_negative (rs_revision r) \<and> nonempty_text (rs_description r)
        \<and> list_all valid_predicate (rs_when r)
        \<and> rs_effects r \<noteq> [] \<and> list_all valid_effect (rs_effects r)
        \<and> list_all (valid_by override_ref_checks) (rs_overrides r)
        \<and> rs_citations r \<noteq> [] \<and> list_all (\<lambda>t. valid_by provenance_checks (TextCitation t)) (rs_citations r)
        \<and> optional percentage_ok (rs_confidence_percent r), ''RuleSummary'')]"

record invariant_summary =
  is_invariant_id :: ident
  is_description :: string
  is_when :: "predicate list"
  is_assertion :: assertion_content
  is_severity :: severity

definition invariant_summary_checks :: "invariant_summary \<Rightarrow> (bool \<times> string) list" where
  "invariant_summary_checks i =
     [(identifier_ok (is_invariant_id i) \<and> nonempty_text (is_description i)
        \<and> list_all valid_predicate (is_when i)
        \<and> valid_by assertion_content_checks (is_assertion i), ''InvariantSummary'')]"

record finding_summary =
  fs_finding_id :: ident
  fs_finding_type :: finding_type
  fs_dimension :: effect_dimension
  fs_summary :: string
  fs_severity :: "severity option"
  fs_review_status :: finding_review_status
  fs_witness_count :: int

definition finding_summary_checks :: "finding_summary \<Rightarrow> (bool \<times> string) list" where
  "finding_summary_checks f =
     [(identifier_ok (fs_finding_id f) \<and> nonempty_text (fs_summary f)
        \<and> non_negative (fs_witness_count f), ''FindingSummary'')]"

record coverage_counters =
  cc_total_rules :: int
  cc_covered_rules :: int
  cc_total_invariants :: int
  cc_covered_invariants :: int
  cc_total_predicate_branches :: int
  cc_covered_predicate_branches :: int
  cc_scenario_count :: int

definition coverage_counters_checks :: "coverage_counters \<Rightarrow> (bool \<times> string) list" where
  "coverage_counters_checks c =
     [(non_negative (cc_total_rules c) \<and> non_negative (cc_covered_rules c)
        \<and> non_negative (cc_total_invariants c) \<and> non_negative (cc_covered_invariants c)
        \<and> non_negative (cc_total_predicate_branches c) \<and> non_negative (cc_covered_predicate_branches c)
        \<and> 0 \<le> cc_scenario_count c \<and> cc_scenario_count c \<le> 15, ''CoverageCounters'')]"

record public_metrics =
  pm_scenario_count :: int
  pm_effect_states :: effect_state_counts
  pm_assertions :: assertion_counts
  pm_unique_finding_count :: int
  pm_assertion_pass_percent :: "int option"

definition public_metrics_checks :: "public_metrics \<Rightarrow> (bool \<times> string) list" where
  "public_metrics_checks m =
     [(non_negative (pm_scenario_count m) \<and> valid_by effect_state_counts_checks (pm_effect_states m)
        \<and> valid_by assertion_counts_checks (pm_assertions m) \<and> non_negative (pm_unique_finding_count m)
        \<and> optional percentage_ok (pm_assertion_pass_percent m), ''PublicMetrics'')]"

record public_comparison_metrics =
  pcm_baseline :: public_metrics
  pcm_revised :: public_metrics
  pcm_assertion_transition_counts :: assertion_transition_counts
  pcm_acceptance :: patch_acceptance_report
  pcm_patch_accepted :: bool
  pcm_protected_regressions :: int
  pcm_new_failures_outside_targets :: int

definition public_comparison_metrics_checks :: "public_comparison_metrics \<Rightarrow> (bool \<times> string) list" where
  "public_comparison_metrics_checks m =
     [(valid_by public_metrics_checks (pcm_baseline m) \<and> valid_by public_metrics_checks (pcm_revised m)
        \<and> valid_by assertion_transition_counts_checks (pcm_assertion_transition_counts m)
        \<and> valid_by patch_acceptance_report_checks (pcm_acceptance m)
        \<and> non_negative (pcm_protected_regressions m)
        \<and> non_negative (pcm_new_failures_outside_targets m), ''PublicComparisonMetrics''),
      (pcm_patch_accepted m = pa_patch_accepted (pcm_acceptance m), ''patch_accepted must match acceptance''),
      (pcm_protected_regressions m = pac_protected_regressions (pa_counts (pcm_acceptance m)),
       ''protected_regressions must match acceptance counts''),
      (pcm_new_failures_outside_targets m =
         pac_new_failures_outside_targets (pa_counts (pcm_acceptance m)),
       ''new_failures_outside_targets must match acceptance counts'')]"

subsection \<open>Pending confirmations\<close>

record contract_confirmation =
  cf_baseline_policy_id :: ident
  cf_baseline_policy_sha256 :: sha256
  cf_document_sha256 :: sha256
  cf_rules :: "rule_summary list"
  cf_invariants :: "invariant_summary list"
  cf_required_dimensions :: "effect_dimension set"

definition contract_confirmation_checks :: "contract_confirmation \<Rightarrow> (bool \<times> string) list" where
  "contract_confirmation_checks c =
     [(identifier_ok (cf_baseline_policy_id c) \<and> sha256_ok (cf_baseline_policy_sha256 c)
        \<and> sha256_ok (cf_document_sha256 c)
        \<and> length (cf_rules c) \<le> 12 \<and> list_all (valid_by rule_summary_checks) (cf_rules c)
        \<and> 3 \<le> length (cf_invariants c) \<and> length (cf_invariants c) \<le> 5
        \<and> list_all (valid_by invariant_summary_checks) (cf_invariants c)
        \<and> cf_required_dimensions c \<noteq> {}, ''ContractConfirmation'')]"

record revision_operation_summary =
  ros_operation :: revision_operation
  ros_before :: "rule_summary option"

definition matching_before_rule :: "revision_operation_summary \<Rightarrow> (bool \<times> string) list" where
  "matching_before_rule s =
     (case ros_operation s of
        AddRuleOperation _ _ _ \<Rightarrow>
          [(ros_before s = None, ''an added rule has no baseline rule'')]
      | op \<Rightarrow>
          [(case ros_before s of None \<Rightarrow> False | Some b \<Rightarrow> rs_rule_id b = op_rule_id op,
            ''a modified rule requires its matching baseline summary''),
           (case (op, ros_before s) of
              (ReplaceRuleOperation _ expected _ _, Some b) \<Rightarrow> rs_revision b = expected
            | _ \<Rightarrow> True,
            ''replacement must match the displayed baseline revision'')])"

definition revision_operation_summary_checks :: "revision_operation_summary \<Rightarrow> (bool \<times> string) list" where
  "revision_operation_summary_checks s =
     (valid_by revision_operation_checks (ros_operation s)
        \<and> optional (valid_by rule_summary_checks) (ros_before s), ''RevisionOperationSummary'')
     # matching_before_rule s"

record revision_confirmation =
  rc_proposal_id :: ident
  rc_operations :: "revision_operation_summary list"
  rc_draft_policy_wording :: string

definition revision_confirmation_checks :: "revision_confirmation \<Rightarrow> (bool \<times> string) list" where
  "revision_confirmation_checks c =
     [(identifier_ok (rc_proposal_id c)
        \<and> 1 \<le> length (rc_operations c) \<and> length (rc_operations c) \<le> 3
        \<and> list_all (valid_by revision_operation_summary_checks) (rc_operations c)
        \<and> nonempty_text (rc_draft_policy_wording c), ''RevisionConfirmation'')]"

datatype pending_confirmation =
    PendingContract contract_confirmation
  | PendingFindings "ident list"
  | PendingRevision revision_confirmation

fun valid_pending :: "pending_confirmation \<Rightarrow> bool" where
  "valid_pending (PendingContract c) = valid_by contract_confirmation_checks c"
| "valid_pending (PendingFindings ids) = list_all identifier_ok ids"
| "valid_pending (PendingRevision c) = valid_by revision_confirmation_checks c"

subsection \<open>Evidence of the public view\<close>

datatype clause_disposition = PendingReview | RetainedInconclusive | ExcludedClause

record unsupported_clause_evidence = unsupported_clause +
  uce_disposition :: clause_disposition

definition unsupported_clause_evidence_checks :: "unsupported_clause_evidence \<Rightarrow> (bool \<times> string) list" where
  "unsupported_clause_evidence_checks c = unsupported_clause_checks (unsupported_clause.truncate c)"

datatype rejected_kind = RejectedRule | RejectedScenario

datatype rejection_code =
    RejInvalidCitation | RejUnsupportedVocabulary | RejUnsupportedLogic | RejInvalidRule
  | RejDanglingOverride | RejOverrideCycle | RejInvalidFacts | RejInvalidAssertion | RejDuplicate
  | RejBudgetExceeded | RejIncompatibleAssertions

datatype rejection_disposition = DispExcluded | DispMergedDuplicate | DispRuleSetRejected

record rejection_evidence =
  rv_item_kind :: rejected_kind
  rv_item_id :: ident
  rv_source_spans :: "source_span list"
  rv_reason_code :: rejection_code
  rv_disposition :: rejection_disposition

definition rejection_evidence_checks :: "rejection_evidence \<Rightarrow> (bool \<times> string) list" where
  "rejection_evidence_checks r =
     [(identifier_ok (rv_item_id r) \<and> list_all (valid_by source_span_checks) (rv_source_spans r),
       ''RejectionEvidence'')]"

datatype trace_phase = PhaseBaseline | PhaseRevised

record visible_trace_summary =
  vt_scenario_id :: ident
  vt_phase :: trace_phase
  vt_trace_sha256 :: sha256
  vt_fired_rule_ids :: "ident list"
  vt_predicate_results :: "predicate_result list"
  vt_resolved_effects :: "dimension_result list"
  vt_compliance_values :: "compliance_result list"
  vt_source_citations :: "source_span list"

definition visible_trace_summary_checks :: "visible_trace_summary \<Rightarrow> (bool \<times> string) list" where
  "visible_trace_summary_checks t =
     [(identifier_ok (vt_scenario_id t) \<and> sha256_ok (vt_trace_sha256 t)
        \<and> list_all identifier_ok (vt_fired_rule_ids t)
        \<and> list_all (valid_by predicate_result_checks) (vt_predicate_results t)
        \<and> list_all valid_dimension_result (vt_resolved_effects t)
        \<and> list_all (valid_by compliance_result_checks) (vt_compliance_values t)
        \<and> list_all (valid_by source_span_checks) (vt_source_citations t), ''VisibleTraceSummary'')]"

record holdout_evidence_summary =
  he_scenario_count :: int
  he_unsupported_clause_count :: int
  he_rejected_rule_count :: int
  he_rejected_scenario_count :: int
  he_baseline_effect_states :: effect_state_counts
  he_revised_effect_states :: "effect_state_counts option"

definition holdout_evidence_summary_checks :: "holdout_evidence_summary \<Rightarrow> (bool \<times> string) list" where
  "holdout_evidence_summary_checks h =
     [(0 \<le> he_scenario_count h \<and> he_scenario_count h \<le> 15
        \<and> non_negative (he_unsupported_clause_count h) \<and> non_negative (he_rejected_rule_count h)
        \<and> non_negative (he_rejected_scenario_count h)
        \<and> valid_by effect_state_counts_checks (he_baseline_effect_states h)
        \<and> optional (valid_by effect_state_counts_checks) (he_revised_effect_states h),
       ''HoldoutEvidenceSummary'')]"

record run_view =
  rw_run_id :: ident
  rw_stage :: run_stage
  rw_allowed_actions :: "run_action list"
  rw_mode :: run_mode
  rw_events :: "run_event list"
  rw_artifacts :: "artifact_summary list"
  rw_pending_confirmation :: "pending_confirmation option"
  rw_coverage :: coverage_counters
  rw_findings :: "finding_summary list"
  rw_unsupported_clauses :: "unsupported_clause_evidence list"
  rw_rejections :: "rejection_evidence list"
  rw_traces :: "visible_trace_summary list"
  rw_holdout_evidence :: "holdout_evidence_summary option"
  rw_baseline_metrics :: "public_metrics option"
  rw_comparison_metrics :: "public_comparison_metrics option"
  rw_terminal_status :: "run_stage option"
  rw_error :: "public_error option"
  rw_decision_at :: "timestamp option"

definition run_view_checks :: "run_view \<Rightarrow> (bool \<times> string) list" where
  "run_view_checks v =
     [(identifier_ok (rw_run_id v) \<and> list_all (valid_by run_event_checks) (rw_events v)
        \<and> list_all (valid_by artifact_summary_checks) (rw_artifacts v)
        \<and> optional valid_pending (rw_pending_confirmation v)
        \<and> valid_by coverage_counters_checks (rw_coverage v)
        \<and> list_all (valid_by finding_summary_checks) (rw_findings v)
        \<and> list_all (valid_by unsupported_clause_evidence_checks) (rw_unsupported_clauses v)
        \<and> list_all (valid_by rejection_evidence_checks) (rw_rejections v)
        \<and> list_all (valid_by visible_trace_summary_checks) (rw_traces v)
        \<and> optional (valid_by holdout_evidence_summary_checks) (rw_holdout_evidence v)
        \<and> optional (valid_by public_metrics_checks) (rw_baseline_metrics v)
        \<and> optional (valid_by public_comparison_metrics_checks) (rw_comparison_metrics v)
        \<and> optional (\<lambda>s. s \<in> set terminal_stages) (rw_terminal_status v)
        \<and> optional (valid_by public_error_checks) (rw_error v), ''RunView'')]"

subsection \<open>The stored run\<close>

record run_record =
  rn_run_id :: ident
  rn_stage :: run_stage
  rn_manifest :: run_manifest
  rn_created_at :: timestamp
  rn_expires_at :: timestamp
  rn_artifacts :: "artifact_envelope list"
  rn_events :: "run_event list"
  rn_finding_decisions :: "finding_decision list"
  rn_decision_at :: "timestamp option"
  rn_error :: "public_error option"

text \<open>An hour in microseconds.\<close>

definition lifetime_limit :: int where
  "lifetime_limit = 3600 * 1000000"

definition run_record_checks :: "'a run_record_scheme \<Rightarrow> (bool \<times> string) list" where
  "run_record_checks r =
     [(identifier_ok (rn_run_id r) \<and> valid_by run_manifest_checks (rn_manifest r)
        \<and> list_all (valid_by artifact_envelope_checks) (rn_artifacts r)
        \<and> list_all (valid_by run_event_checks) (rn_events r)
        \<and> list_all (valid_by finding_decision_checks) (rn_finding_decisions r)
        \<and> optional (valid_by public_error_checks) (rn_error r), ''RunRecord''),
      (0 < rn_expires_at r - rn_created_at r \<and> rn_expires_at r - rn_created_at r \<le> lifetime_limit,
       ''run lifetime must be positive and at most 60 minutes''),
      (rm_run_id (rn_manifest r) = rn_run_id r, ''manifest must belong to this run'')]"

subsection \<open>Commands\<close>

record create_run_request =
  cq_source_type :: source_type
  cq_title :: string
  cq_text :: "string option"
  cq_sample_id :: "ident option"
  cq_non_confidential_confirmed :: bool

text \<open>\<open>str.strip\<close> removes these characters; a text of nothing else is blank.\<close>

definition python_space :: "char \<Rightarrow> bool" where
  "python_space c \<longleftrightarrow>
     of_char c \<in> set ([9, 10, 11, 12, 13, 28, 29, 30, 31, 32, 133, 160] :: nat list)"

definition blank_text :: "string \<Rightarrow> bool" where
  "blank_text s = list_all python_space s"

definition create_run_checks :: "create_run_request \<Rightarrow> (bool \<times> string) list" where
  "create_run_checks r =
     (nonempty_text (cq_title r)
        \<and> optional (\<lambda>t. 1 \<le> length t \<and> length t \<le> 50000) (cq_text r)
        \<and> optional identifier_ok (cq_sample_id r), ''CreateRunRequest'')
     # (if cq_source_type r = PastedText then
          [(\<not> ((case cq_text r of None \<Rightarrow> True | Some t \<Rightarrow> blank_text t)
                \<or> cq_sample_id r \<noteq> None \<or> \<not> cq_non_confidential_confirmed r),
            ''pasted text requires nonempty text and non-confidential confirmation; maximum 50000 characters'')]
        else
          [(\<not> (cq_sample_id r = None \<or> cq_text r \<noteq> None),
            ''bundled sample requires a sample ID and no pasted text'')])"

datatype confirmation_decision = DecisionConfirm | DecisionReject

record confirm_contract_request =
  ccr_decision :: confirmation_decision
  ccr_baseline_policy_id :: "ident option"
  ccr_baseline_policy_sha256 :: "sha256 option"
  ccr_invariants :: "invariant_summary list"
  ccr_required_dimensions :: "effect_dimension set"

definition confirmation_shape :: "confirm_contract_request \<Rightarrow> (bool \<times> string) list" where
  "confirmation_shape r =
     (if ccr_decision r = DecisionConfirm then
        [(\<not> (ccr_baseline_policy_id r = None \<or> ccr_baseline_policy_sha256 r = None
             \<or> \<not> (3 \<le> length (ccr_invariants r) \<and> length (ccr_invariants r) \<le> 5)
             \<or> ccr_required_dimensions r = {}),
          ''confirmation requires baseline ID/hash, three to five invariants, and required dimensions''),
         (distinct (map is_invariant_id (ccr_invariants r)), ''invariant IDs must be unique''),
         (distinct (map (a_assertion_id \<circ> is_assertion) (ccr_invariants r)),
          ''invariant assertion IDs must be unique'')]
      else
        [(\<not> (ccr_baseline_policy_id r \<noteq> None \<or> ccr_baseline_policy_sha256 r \<noteq> None
             \<or> ccr_invariants r \<noteq> [] \<or> ccr_required_dimensions r \<noteq> {}),
          ''rejection cannot include a confirmed contract'')])"

definition confirm_contract_checks :: "confirm_contract_request \<Rightarrow> (bool \<times> string) list" where
  "confirm_contract_checks r =
     (optional identifier_ok (ccr_baseline_policy_id r)
        \<and> optional sha256_ok (ccr_baseline_policy_sha256 r)
        \<and> length (ccr_invariants r) \<le> 5
        \<and> list_all (valid_by invariant_summary_checks) (ccr_invariants r), ''ConfirmContractRequest'')
     # confirmation_shape r"

definition select_findings_checks :: "finding_decision list \<Rightarrow> (bool \<times> string) list" where
  "select_findings_checks ds =
     [(ds \<noteq> [] \<and> list_all (valid_by finding_decision_checks) ds, ''SelectFindingsRequest''),
      (distinct (map fdn_finding_id ds), ''each finding receives only one decision'')]"

record confirm_revision_request =
  cvr_proposal_id :: ident
  cvr_decision :: confirmation_decision

definition confirm_revision_checks :: "confirm_revision_request \<Rightarrow> (bool \<times> string) list" where
  "confirm_revision_checks r = [(identifier_ok (cvr_proposal_id r), ''ConfirmRevisionRequest'')]"

subsection \<open>StoredRun (workflow/types.py)\<close>

record stored_run = run_record +
  sr_version :: int
  sr_source_request :: "create_run_request option"
  sr_pending_confirmation :: "pending_confirmation option"

definition stored_run_checks :: "stored_run \<Rightarrow> (bool \<times> string) list" where
  "stored_run_checks r =
     (0 \<le> sr_version r \<and> optional (valid_by create_run_checks) (sr_source_request r)
        \<and> optional valid_pending (sr_pending_confirmation r), ''StoredRun'')
     # run_record_checks r"

abbreviation valid_stored :: "stored_run \<Rightarrow> bool" where
  "valid_stored \<equiv> valid_by stored_run_checks"

text \<open>
  A confirmed contract request carries between three and five invariants with distinct identifiers,
  so its invariants can become those of a contract.
\<close>

lemma confirmed_contract_shape:
  assumes "valid_by confirm_contract_checks r" and "ccr_decision r = DecisionConfirm"
  shows "3 \<le> length (ccr_invariants r)" and "length (ccr_invariants r) \<le> 5"
    and "distinct (map is_invariant_id (ccr_invariants r))" and "ccr_required_dimensions r \<noteq> {}"
  using assms by (auto simp: valid_by_def [of confirm_contract_checks] confirm_contract_checks_def confirmation_shape_def)

lemma stored_run_lifetime:
  assumes "valid_stored r"
  shows "rn_created_at r < rn_expires_at r" and "rn_expires_at r \<le> rn_created_at r + lifetime_limit"
  using assms by (auto simp: valid_by_def [of stored_run_checks] stored_run_checks_def run_record_checks_def)

end
