(* ===== verification/State_Machine.thy ===== *)
theory State_Machine
  imports Run_Models
begin

section \<open>Run stages and their transitions (workflow/state_machine.py, workflow/errors.py)\<close>

text \<open>
  The typed failures of the workflow, the transition table, and \<open>transition_to\<close>, which advances a
  stored run along one edge and appends the event of the stage. The clock is the parameter \<open>now\<close>.
  A run's events are then a path through the table, whatever else its handlers change.
\<close>

subsection \<open>Typed failures\<close>

datatype workflow_error =
    RunNotFound
  | ConcurrentRunMutation (we_stage: "run_stage option") (we_actions: "run_action list")
  | InvalidRunState (we_stage: "run_stage option") (we_actions: "run_action list")
  | StaleArtifact (we_stage: "run_stage option") (we_actions: "run_action list")
  | InvalidRunCommand (we_stage: "run_stage option") (we_actions: "run_action list")
  | PlainError public_error
  | RaisedByChange py_error
where
  "we_stage RunNotFound = None"
| "we_actions RunNotFound = []"
| "we_stage (PlainError p) = None"
| "we_actions (PlainError p) = []"
| "we_stage (RaisedByChange e) = None"
| "we_actions (RaisedByChange e) = []"

text \<open>
  The public error each class is constructed with, \<open>PlainError\<close> being the base class itself; a Python
  exception has none.
\<close>

definition fixed_error :: "error_code \<Rightarrow> string \<Rightarrow> bool \<Rightarrow> public_error" where
  "fixed_error code message retryable =
     \<lparr>pe_code = code, pe_message = message, pe_error_id = None, pe_retryable = retryable\<rparr>"

fun public_error_of :: "workflow_error \<Rightarrow> public_error option" where
  "public_error_of RunNotFound =
     Some (fixed_error RUN_NOT_FOUND ''The run was not found or has expired.'' False)"
| "public_error_of (ConcurrentRunMutation s as) =
     Some (fixed_error INVALID_STATE ''The run changed before the request completed.'' True)"
| "public_error_of (InvalidRunState s as) =
     Some (fixed_error INVALID_STATE ''The run cannot perform that action in its current state.'' False)"
| "public_error_of (StaleArtifact s as) =
     Some (fixed_error HASH_MISMATCH ''The referenced artifact is no longer current.'' False)"
| "public_error_of (InvalidRunCommand s as) =
     Some (fixed_error INVALID_INPUT ''The run command is invalid.'' False)"
| "public_error_of (PlainError p) = Some p"
| "public_error_of (RaisedByChange e) = None"

type_synonym 'a outcome = "workflow_error + 'a"

subsection \<open>The transition table\<close>

fun transitions :: "run_stage \<Rightarrow> run_stage list" where
  "transitions Queued = [Ingesting, Failed]"
| "transitions Ingesting = [Extracting, Failed]"
| "transitions Extracting = [AwaitingContract, Failed]"
| "transitions AwaitingContract = [GeneratingInitialTests, ContractRejected, Failed]"
| "transitions GeneratingInitialTests = [ProvisionalExecution, Failed]"
| "transitions ProvisionalExecution = [TargetingCoverage, FreezingSuite, CoverageLimit, Failed]"
| "transitions TargetingCoverage = [FreezingSuite, CoverageLimit, Failed]"
| "transitions FreezingSuite = [BaselineExecution, Failed]"
| "transitions BaselineExecution = [Analyzing, Failed]"
| "transitions Analyzing = [AwaitingFindingReview, CompletedNoFindings, Failed]"
| "transitions AwaitingFindingReview = [DraftingRevision, CompletedNoRevision, Failed]"
| "transitions DraftingRevision = [AwaitingRevisionConfirmation, Failed]"
| "transitions AwaitingRevisionConfirmation = [ApplyingRevision, RevisionRejected, Failed]"
| "transitions ApplyingRevision = [Retesting, Failed]"
| "transitions Retesting = [Complete, Failed]"
| "transitions Complete = []"
| "transitions CompletedNoFindings = []"
| "transitions CompletedNoRevision = []"
| "transitions ContractRejected = []"
| "transitions RevisionRejected = []"
| "transitions CoverageLimit = []"
| "transitions Failed = []"

definition allowed_actions :: "run_stage \<Rightarrow> run_action list" where
  "allowed_actions stage =
     (case stage of
        AwaitingContract \<Rightarrow> [ConfirmContract, DeleteRun]
      | AwaitingFindingReview \<Rightarrow> [SelectFindings, DeleteRun]
      | AwaitingRevisionConfirmation \<Rightarrow> [ConfirmRevision, DeleteRun]
      | _ \<Rightarrow> [DeleteRun])"

fun stage_summary :: "run_stage \<Rightarrow> string" where
  "stage_summary Queued = ''Run queued.''"
| "stage_summary Ingesting = ''Policy ingestion started.''"
| "stage_summary Extracting = ''Policy extraction started.''"
| "stage_summary AwaitingContract = ''Review the policy contract and invariant severities.''"
| "stage_summary GeneratingInitialTests = ''Initial test generation started.''"
| "stage_summary ProvisionalExecution = ''Provisional suite execution started.''"
| "stage_summary TargetingCoverage = ''Targeted coverage pass started.''"
| "stage_summary FreezingSuite = ''Scenario suite freezing started.''"
| "stage_summary BaselineExecution = ''Baseline execution started.''"
| "stage_summary Analyzing = ''Finding analysis started.''"
| "stage_summary AwaitingFindingReview = ''Findings are ready for review.''"
| "stage_summary DraftingRevision = ''Revision drafting started.''"
| "stage_summary AwaitingRevisionConfirmation = ''Revision is ready for review.''"
| "stage_summary ApplyingRevision = ''Revision application started.''"
| "stage_summary Retesting = ''Revision retest started.''"
| "stage_summary Complete = ''Run completed.''"
| "stage_summary CompletedNoFindings = ''Run completed with no reviewable findings.''"
| "stage_summary CompletedNoRevision = ''Run completed without a revision.''"
| "stage_summary ContractRejected = ''Policy contract was rejected.''"
| "stage_summary RevisionRejected = ''Revision was rejected.''"
| "stage_summary CoverageLimit = ''Run stopped at the coverage limit.''"
| "stage_summary Failed = ''Run failed.''"

definition python :: "'a result \<Rightarrow> 'a outcome" where
  "python m = (case m of Inl e \<Rightarrow> Inl (RaisedByChange e) | Inr x \<Rightarrow> Inr x)"

definition transition_to ::
  "stored_run \<Rightarrow> run_stage \<Rightarrow> timestamp \<Rightarrow> artifact_ref option \<Rightarrow> stored_run outcome" where
  "transition_to r stage now artifact =
     (if stage \<notin> set (transitions (rn_stage r))
      then Inl (InvalidRunState (Some (rn_stage r)) (allowed_actions (rn_stage r)))
      else python
        (rbind (validated run_event_checks
           \<lparr>ev_timestamp = now, ev_stage = stage, ev_action_summary = stage_summary stage,
            ev_artifact = artifact, ev_error_id = None\<rparr>) (\<lambda>event.
         validated stored_run_checks (r\<lparr>rn_stage := stage, rn_events := rn_events r @ [event]\<rparr>))))"

lemma python_Inr_iff [simp]: "python m = Inr x \<longleftrightarrow> m = Inr x"
  by (cases m) (simp_all add: python_def)

lemma stage_summary_nonempty [simp]: "nonempty_text (stage_summary stage)"
  by (cases stage) (simp_all add: nonempty_text_def)

lemma transition_to_Inr_iff:
  "transition_to r stage now artifact = Inr r' \<longleftrightarrow>
     stage \<in> set (transitions (rn_stage r)) \<and> valid_stored r'
     \<and> r' = r\<lparr>rn_stage := stage, rn_events := rn_events r @
         [\<lparr>ev_timestamp = now, ev_stage = stage, ev_action_summary = stage_summary stage,
           ev_artifact = artifact, ev_error_id = None\<rparr>]\<rparr>"
proof -
  have "valid_by run_event_checks \<lparr>ev_timestamp = now, ev_stage = stage,
      ev_action_summary = stage_summary stage, ev_artifact = artifact, ev_error_id = None\<rparr>"
    if "valid_stored (r\<lparr>rn_stage := stage, rn_events := rn_events r @
         [\<lparr>ev_timestamp = now, ev_stage = stage, ev_action_summary = stage_summary stage,
           ev_artifact = artifact, ev_error_id = None\<rparr>]\<rparr>)"
    using that by (simp add: valid_by_def [of stored_run_checks] stored_run_checks_def run_record_checks_def)
  then show ?thesis
    by (auto simp: transition_to_def validated_Inr_iff rbind_Inr_iff)
qed

text \<open>On a stored run that is valid, a legal edge with a valid reference is always taken.\<close>

lemma transition_to_total:
  assumes "valid_stored r" and "stage \<in> set (transitions (rn_stage r))"
    and "optional (valid_by artifact_ref_checks) artifact"
  shows "\<exists>r'. transition_to r stage now artifact = Inr r' \<and> rn_stage r' = stage"
  using assms
  by (simp add: transition_to_Inr_iff valid_by_def [of stored_run_checks] stored_run_checks_def
      run_record_checks_def valid_by_def [of run_event_checks] run_event_checks_def)

subsection \<open>Runs as paths through the table\<close>

text \<open>
  A run starts queued and without events. A handler may change its artifacts, decisions and pending
  confirmation, but stage and events change by \<open>transition_to\<close> only.
\<close>

inductive run_step :: "stored_run \<Rightarrow> stored_run \<Rightarrow> bool" where
  advance: "transition_to r stage now artifact = Inr r' \<Longrightarrow> run_step r r'"
| update: "rn_stage r' = rn_stage r \<Longrightarrow> rn_events r' = rn_events r \<Longrightarrow> run_step r r'"

inductive lifecycle :: "stored_run \<Rightarrow> bool" where
  created: "rn_stage r = Queued \<Longrightarrow> rn_events r = [] \<Longrightarrow> lifecycle r"
| stepped: "lifecycle r \<Longrightarrow> run_step r r' \<Longrightarrow> lifecycle r'"

fun path :: "run_stage \<Rightarrow> run_stage list \<Rightarrow> bool" where
  "path s [] = True"
| "path s (t # ts) = (t \<in> set (transitions s) \<and> path t ts)"

lemma path_snoc: "path s (ts @ [t]) \<longleftrightarrow> path s ts \<and> t \<in> set (transitions (last (s # ts)))"
  by (induction ts arbitrary: s) auto

lemma last_stage: "last (s # ts @ [t]) = t"
  by simp

abbreviation event_stages :: "stored_run \<Rightarrow> run_stage list" where
  "event_stages r \<equiv> map ev_stage (rn_events r)"

lemma lifecycle_path:
  assumes "lifecycle r"
  shows "path Queued (event_stages r)" and "rn_stage r = last (Queued # event_stages r)"
    and "\<forall>e \<in> set (rn_events r). ev_action_summary e = stage_summary (ev_stage e) \<and> ev_error_id e = None"
proof -
  have "path Queued (event_stages r) \<and> rn_stage r = last (Queued # event_stages r)
    \<and> (\<forall>e \<in> set (rn_events r). ev_action_summary e = stage_summary (ev_stage e) \<and> ev_error_id e = None)"
    using assms
  proof induction
    case (created r)
    then show ?case by simp
  next
    case (stepped r r')
    from stepped(2) show ?case
    proof cases
      case (advance stage now artifact)
      then show ?thesis using stepped.IH by (auto simp: transition_to_Inr_iff path_snoc last_stage simp del: last.simps)
    next
      case update
      then show ?thesis using stepped.IH by simp
    qed
  qed
  then show "path Queued (event_stages r)" and "rn_stage r = last (Queued # event_stages r)"
    and "\<forall>e \<in> set (rn_events r). ev_action_summary e = stage_summary (ev_stage e) \<and> ev_error_id e = None"
    by blast+
qed

subsection \<open>The table is acyclic\<close>

fun rank :: "run_stage \<Rightarrow> nat" where
  "rank Queued = 0"
| "rank Ingesting = 1"
| "rank Extracting = 2"
| "rank AwaitingContract = 3"
| "rank GeneratingInitialTests = 4"
| "rank ProvisionalExecution = 5"
| "rank TargetingCoverage = 6"
| "rank FreezingSuite = 7"
| "rank BaselineExecution = 8"
| "rank Analyzing = 9"
| "rank AwaitingFindingReview = 10"
| "rank DraftingRevision = 11"
| "rank AwaitingRevisionConfirmation = 12"
| "rank ApplyingRevision = 13"
| "rank Retesting = 14"
| "rank s = 15"

lemma rank_increases: "t \<in> set (transitions s) \<Longrightarrow> rank s < rank t"
  by (cases s) auto

lemma rank_bound: "rank s \<le> 15"
  by (cases s) simp_all

lemma path_length: "path s ts \<Longrightarrow> rank s + length ts \<le> rank (last (s # ts))"
proof (induction ts arbitrary: s)
  case (Cons t ts)
  then have "rank s < rank t" "rank t + length ts \<le> rank (last (t # ts))" using rank_increases by auto
  then show ?case by (simp only: last_ConsR list.distinct list.size not_False_eq_True)
qed simp

lemma path_rank: "path s ts \<Longrightarrow> sorted_wrt (<) (map rank (s # ts))"
proof (induction ts arbitrary: s)
  case (Cons t ts)
  then have "rank s < rank t" "sorted_wrt (<) (map rank (t # ts))" using rank_increases by auto
  then show ?case by fastforce
qed simp

lemma path_distinct: "path s ts \<Longrightarrow> distinct (s # ts)"
  using path_rank [of s ts] strict_sorted_iff [of "map rank (s # ts)"] distinct_map [of rank "s # ts"] by blast

lemma terminal_iff: "transitions s = [] \<longleftrightarrow> s \<in> set terminal_stages"
  by (cases s) (simp_all add: terminal_stages_def)

lemma failure_always_possible: "s \<notin> set terminal_stages \<Longrightarrow> Failed \<in> set (transitions s)"
  by (cases s) (simp_all add: terminal_stages_def)

subsection \<open>Human gates\<close>

text \<open>
  A stage \<open>g\<close> guards a set of stages that can be entered from \<open>g\<close> and from the set itself only: every
  path into the set has passed \<open>g\<close>.
\<close>

definition guards :: "run_stage \<Rightarrow> run_stage list \<Rightarrow> bool" where
  "guards g stages \<longleftrightarrow> g \<noteq> Queued \<and> Queued \<notin> set stages
     \<and> list_all (\<lambda>s. list_all (\<lambda>t. t \<in> set stages \<longrightarrow> s = g \<or> s \<in> set stages) (transitions s)) run_stages"

lemma guarded:
  assumes "guards g stages"
  shows "path Queued ts \<Longrightarrow> last (Queued # ts) \<in> set stages \<Longrightarrow> g \<in> set ts"
proof (induction ts rule: rev_induct)
  case Nil
  then show ?case using assms by (simp add: guards_def)
next
  case (snoc t ts)
  let ?l = "last (Queued # ts)"
  have "?l = g \<or> ?l \<in> set stages"
    using snoc.prems assms unfolding guards_def list_all_iff path_snoc set_run_stages by (metis UNIV_I last_snoc last_ConsR snoc_eq_iff_butlast)
  then show ?case
  proof
    assume "?l = g"
    moreover have "g \<noteq> Queued" using assms by (simp add: guards_def)
    ultimately have "ts \<noteq> []" "last ts = g" by (auto split: if_splits)
    then show ?thesis using last_in_set [of ts] by simp
  qed (use snoc in \<open>simp add: path_snoc\<close>)
qed

definition tested_stages :: "run_stage list" where
  "tested_stages =
     [GeneratingInitialTests, ProvisionalExecution, TargetingCoverage, FreezingSuite, BaselineExecution,
      Analyzing, AwaitingFindingReview, DraftingRevision, AwaitingRevisionConfirmation, ApplyingRevision,
      Retesting, Complete, CompletedNoFindings, CompletedNoRevision, RevisionRejected, CoverageLimit]"

definition revision_stages :: "run_stage list" where
  "revision_stages =
     [DraftingRevision, AwaitingRevisionConfirmation, ApplyingRevision, Retesting, Complete,
      CompletedNoRevision, RevisionRejected]"

definition applied_stages :: "run_stage list" where
  "applied_stages = [ApplyingRevision, Retesting, Complete]"

lemma human_gates:
  "guards AwaitingContract tested_stages"
  "guards AwaitingFindingReview revision_stages"
  "guards AwaitingRevisionConfirmation applied_stages"
  by (simp_all add: guards_def run_stages_def tested_stages_def revision_stages_def applied_stages_def)

end
