(* ===== verification/Run_Store.thy ===== *)
theory Run_Store
  imports State_Machine Complex_Main
begin

section \<open>The run store (workflow/store.py)\<close>

text \<open>
  Entries by run identifier, each an object of its own with a record, a monotonic deadline and a
  lock. Objects are compared by identity, so an entry carries a number no other entry has. A
  coroutine may be suspended wherever it awaits a lock: each function below is the code between two
  such points, and the interleavings are the step relation at the end. A finite float is the rational
  it denotes and the sum of a reading and the lifetime is exact; any other reading is refused. A
  snapshot is a validation of the dumped record. The argument of \<open>create\<close> is a \<open>StoredRun\<close>; a plain
  \<open>RunRecord\<close> is the one with the default fields.
\<close>

subsection \<open>State\<close>

record run_entry =
  en_id :: nat
  en_record :: stored_run
  en_deadline :: rat

record run_store =
  st_ttl_seconds :: int
  st_entries :: "(ident \<times> run_entry) list"
  st_closed :: bool
  st_created :: nat

text \<open>A reading of the monotonic clock; \<open>None\<close> is no finite number.\<close>

type_synonym reading = "rat option"

type_synonym mutation = "stored_run \<Rightarrow> stored_run option outcome"

abbreviation invalid_command :: "'a outcome" where
  "invalid_command \<equiv> Inl (InvalidRunCommand None [])"

definition new_store :: "int \<Rightarrow> run_store outcome" where
  "new_store ttl_seconds =
     (if \<not> (1 \<le> ttl_seconds \<and> ttl_seconds \<le> 3600) then invalid_command
      else Inr \<lparr>st_ttl_seconds = ttl_seconds, st_entries = [], st_closed = False, st_created = 0\<rparr>)"

definition entry_of :: "run_store \<Rightarrow> ident \<Rightarrow> run_entry option" where
  "entry_of s run_id = map_of (st_entries s) run_id"

text \<open>\<open>self._entries.pop(run_id, None)\<close>.\<close>

definition pop_entry :: "ident \<Rightarrow> run_store \<Rightarrow> run_store" where
  "pop_entry run_id s = s\<lparr>st_entries := filter (\<lambda>e. fst e \<noteq> run_id) (st_entries s)\<rparr>"

definition snapshot :: "stored_run \<Rightarrow> stored_run result" where
  "snapshot r = validated stored_run_checks r"

subsection \<open>Creation\<close>

definition rebased :: "run_store \<Rightarrow> timestamp \<Rightarrow> stored_run \<Rightarrow> stored_run" where
  "rebased s wall r =
     r\<lparr>rn_created_at := wall, rn_expires_at := wall + st_ttl_seconds s * 1000000\<rparr>"

definition insert_entry :: "run_store \<Rightarrow> stored_run \<Rightarrow> rat \<Rightarrow> rat \<Rightarrow> stored_run outcome \<times> run_store" where
  "insert_entry s stored now deadline =
     (if st_closed s then (invalid_command, s)
      else if (case entry_of s (rn_run_id stored) of None \<Rightarrow> False | Some e \<Rightarrow> now < en_deadline e)
      then (invalid_command, s)
      else
        (let s' = pop_entry (rn_run_id stored) s in
         (python (snapshot stored),
          s'\<lparr>st_entries := st_entries s' @
               [(rn_run_id stored, \<lparr>en_id = st_created s, en_record = stored, en_deadline = deadline\<rparr>)],
             st_created := Suc (st_created s)\<rparr>)))"

definition create_run :: "run_store \<Rightarrow> timestamp option \<Rightarrow> reading \<Rightarrow> stored_run \<Rightarrow> stored_run outcome \<times> run_store" where
  "create_run s wall_now monotonic r =
     (case wall_now of None \<Rightarrow> (invalid_command, s) | Some wall \<Rightarrow>
      case monotonic of None \<Rightarrow> (invalid_command, s) | Some now \<Rightarrow>
        (let deadline = now + of_int (st_ttl_seconds s) in
         if deadline \<le> now then (invalid_command, s)
         else case snapshot (rebased s wall r) of
           Inl e \<Rightarrow> (invalid_command, s)
         | Inr stored \<Rightarrow> insert_entry s stored now deadline))"

subsection \<open>Reading\<close>

definition capture :: "run_store \<Rightarrow> ident \<Rightarrow> run_entry outcome" where
  "capture s run_id =
     (if st_closed s then Inl RunNotFound
      else case entry_of s run_id of None \<Rightarrow> Inl RunNotFound | Some e \<Rightarrow> Inr e)"

text \<open>\<open>self._closed or self._entries.get(run_id) is not entry\<close>, then the deadline.\<close>

definition live_entry :: "run_store \<Rightarrow> ident \<Rightarrow> nat \<Rightarrow> reading \<Rightarrow> run_entry outcome \<times> run_store" where
  "live_entry s run_id eid monotonic =
     (case entry_of s run_id of
        None \<Rightarrow> (Inl RunNotFound, s)
      | Some e \<Rightarrow>
          if st_closed s \<or> en_id e \<noteq> eid then (Inl RunNotFound, s)
          else case monotonic of None \<Rightarrow> (invalid_command, s) | Some now \<Rightarrow>
            if en_deadline e \<le> now then (Inl RunNotFound, pop_entry run_id s) else (Inr e, s))"

definition current_record :: "run_store \<Rightarrow> ident \<Rightarrow> nat \<Rightarrow> reading \<Rightarrow> stored_run outcome \<times> run_store" where
  "current_record s run_id eid monotonic =
     (case live_entry s run_id eid monotonic of
        (Inl err, s') \<Rightarrow> (Inl err, s')
      | (Inr e, s') \<Rightarrow> (python (snapshot (en_record e)), s'))"

definition get_run :: "run_store \<Rightarrow> ident \<Rightarrow> reading \<Rightarrow> stored_run outcome \<times> run_store" where
  "get_run s run_id monotonic =
     (case capture s run_id of
        Inl err \<Rightarrow> (Inl err, s)
      | Inr e \<Rightarrow> current_record s run_id (en_id e) monotonic)"

subsection \<open>Compare-and-set mutation\<close>

text \<open>Up to the call of \<open>change\<close>: the record under the lock, when its version is the expected one.\<close>

definition begin_mutation ::
  "run_store \<Rightarrow> ident \<Rightarrow> nat \<Rightarrow> int \<Rightarrow> reading \<Rightarrow> stored_run outcome \<times> run_store" where
  "begin_mutation s run_id eid expected monotonic =
     (case current_record s run_id eid monotonic of
        (Inl err, s') \<Rightarrow> (Inl err, s')
      | (Inr current, s') \<Rightarrow>
          if sr_version current \<noteq> expected
          then (Inl (ConcurrentRunMutation (Some (rn_stage current)) (allowed_actions (rn_stage current))), s')
          else (Inr current, s'))"

definition refused :: "stored_run \<Rightarrow> 'a outcome" where
  "refused current = Inl (InvalidRunCommand (Some (rn_stage current)) (allowed_actions (rn_stage current)))"

definition same_identity :: "stored_run \<Rightarrow> stored_run \<Rightarrow> bool" where
  "same_identity r r' \<longleftrightarrow>
     rn_run_id r = rn_run_id r' \<and> rn_manifest r = rn_manifest r'
     \<and> rn_created_at r = rn_created_at r' \<and> rn_expires_at r = rn_expires_at r'"

text \<open>The candidate of \<open>change\<close>, \<open>None\<close> for an awaitable or a value of another class, is checked.\<close>

definition updated_run :: "mutation \<Rightarrow> stored_run \<Rightarrow> stored_run outcome" where
  "updated_run change current =
     (case change current of
        Inl err \<Rightarrow> Inl err
      | Inr None \<Rightarrow> refused current
      | Inr (Some candidate) \<Rightarrow>
          (case snapshot candidate of
             Inl e \<Rightarrow> refused current
           | Inr run \<Rightarrow>
               if \<not> same_identity run current then refused current
               else case validated stored_run_checks (run\<lparr>sr_version := sr_version current + 1\<rparr>) of
                 Inl e \<Rightarrow> refused current
               | Inr updated \<Rightarrow> Inr updated))"

definition replace_record :: "ident \<Rightarrow> stored_run \<Rightarrow> run_store \<Rightarrow> run_store" where
  "replace_record run_id r s =
     s\<lparr>st_entries := map (\<lambda>(k, e). (k, if k = run_id then e\<lparr>en_record := r\<rparr> else e)) (st_entries s)\<rparr>"

definition commit_mutation ::
  "run_store \<Rightarrow> ident \<Rightarrow> nat \<Rightarrow> stored_run \<Rightarrow> reading \<Rightarrow> stored_run outcome \<times> run_store" where
  "commit_mutation s run_id eid updated monotonic =
     (case live_entry s run_id eid monotonic of
        (Inl err, s') \<Rightarrow> (Inl err, s')
      | (Inr e, s') \<Rightarrow>
          (case snapshot updated of
             Inl err \<Rightarrow> (Inl (RaisedByChange err), s')
           | Inr r \<Rightarrow> (Inr r, replace_record run_id r s')))"

text \<open>The whole mutation when no other coroutine runs in between.\<close>

definition mutate ::
  "run_store \<Rightarrow> ident \<Rightarrow> int \<Rightarrow> mutation \<Rightarrow> reading \<Rightarrow> reading \<Rightarrow> stored_run outcome \<times> run_store" where
  "mutate s run_id expected change earlier after =
     (if expected < 0 then (invalid_command, s)
      else case capture s run_id of
        Inl err \<Rightarrow> (Inl err, s)
      | Inr e \<Rightarrow>
          (case begin_mutation s run_id (en_id e) expected earlier of
             (Inl err, s') \<Rightarrow> (Inl err, s')
           | (Inr current, s') \<Rightarrow>
               (case updated_run change current of
                  Inl err \<Rightarrow> (Inl err, s')
                | Inr updated \<Rightarrow> commit_mutation s' run_id (en_id e) updated after)))"

subsection \<open>Removal\<close>

definition delete_run :: "run_store \<Rightarrow> ident \<Rightarrow> unit outcome \<times> run_store" where
  "delete_run s run_id =
     (if st_closed s \<or> entry_of s run_id = None then (Inl RunNotFound, s)
      else (Inr (), pop_entry run_id s))"

definition purge_expired :: "run_store \<Rightarrow> reading \<Rightarrow> nat outcome \<times> run_store" where
  "purge_expired s monotonic =
     (case monotonic of
        None \<Rightarrow> (invalid_command, s)
      | Some now \<Rightarrow>
          if st_closed s then (Inr 0, s)
          else (let expired = map fst (filter (\<lambda>(k, e). en_deadline e \<le> now) (st_entries s)) in
                (Inr (length expired), fold pop_entry expired s)))"

definition close_store :: "run_store \<Rightarrow> run_store" where
  "close_store s = s\<lparr>st_closed := True, st_entries := []\<rparr>"

end
