(* ===== verification/Store_Meaning.thy ===== *)
theory Store_Meaning
  imports Run_Store
begin

section \<open>What the run store promises\<close>

text \<open>
  The invariant of a store and its preservation, the laws its clients rely on as a locale that the
  store interprets, and the interleavings of coroutines: however they are scheduled, a stored run
  changes only by one whole mutation of the record it replaces.
\<close>

subsection \<open>Entries\<close>

named_theorems entry_simps \<open>lookup of entries after an operation\<close>

lemma entry_of_pop [entry_simps]: "entry_of (pop_entry k s) j = (if j = k then None else entry_of s j)"
proof -
  have "map_of (filter (\<lambda>e. fst e \<noteq> k) xs) j = (if j = k then None else map_of xs j)" for xs :: "(ident \<times> run_entry) list"
    by (induction xs) auto
  from this [of "st_entries s"] show ?thesis by (simp add: entry_of_def pop_entry_def)
qed

lemma entry_of_replace [entry_simps]:
  "entry_of (replace_record k r s) j =
     (if j = k then map_option (\<lambda>e. e\<lparr>en_record := r\<rparr>) (entry_of s j) else entry_of s j)"
proof -
  have "map_of (map (\<lambda>(k', e). (k', if k' = k then e\<lparr>en_record := r\<rparr> else e)) xs) j =
      (if j = k then map_option (\<lambda>e. e\<lparr>en_record := r\<rparr>) (map_of xs j) else map_of xs j)" for xs
    by (induction xs) auto
  from this [of "st_entries s"] show ?thesis by (simp add: entry_of_def replace_record_def)
qed

lemma store_fields [simp]:
  "st_closed (pop_entry k s) = st_closed s" "st_created (pop_entry k s) = st_created s"
  "st_ttl_seconds (pop_entry k s) = st_ttl_seconds s"
  "st_closed (replace_record k r s) = st_closed s" "st_created (replace_record k r s) = st_created s"
  "st_ttl_seconds (replace_record k r s) = st_ttl_seconds s"
  by (simp_all add: pop_entry_def replace_record_def)

lemma keys_pop: "map fst (st_entries (pop_entry k s)) = filter (\<lambda>j. j \<noteq> k) (map fst (st_entries s))"
  by (simp add: pop_entry_def filter_map comp_def)

lemma keys_replace [simp]: "map fst (st_entries (replace_record k r s)) = map fst (st_entries s)"
  by (auto simp: replace_record_def)

lemma ids_pop: "map (en_id \<circ> snd) (st_entries (pop_entry k s)) =
    map (en_id \<circ> snd) (filter (\<lambda>e. fst e \<noteq> k) (st_entries s))"
  by (simp add: pop_entry_def)

lemma ids_replace [simp]: "map (en_id \<circ> snd) (st_entries (replace_record k r s)) = map (en_id \<circ> snd) (st_entries s)"
  by (auto simp: replace_record_def)

subsection \<open>The invariant\<close>

definition entry_ok :: "run_store \<Rightarrow> ident \<times> run_entry \<Rightarrow> bool" where
  "entry_ok s ke \<longleftrightarrow> (case ke of (k, e) \<Rightarrow>
     en_id e < st_created s \<and> rn_run_id (en_record e) = k \<and> valid_stored (en_record e))"

definition store_ok :: "run_store \<Rightarrow> bool" where
  "store_ok s \<longleftrightarrow>
     distinct (map fst (st_entries s)) \<and> distinct (map (en_id \<circ> snd) (st_entries s))
     \<and> list_all (entry_ok s) (st_entries s)
     \<and> (st_closed s \<longrightarrow> st_entries s = [])
     \<and> 1 \<le> st_ttl_seconds s \<and> st_ttl_seconds s \<le> 3600"

lemma store_ok_new: "new_store ttl = Inr s \<Longrightarrow> store_ok s"
  by (auto simp: new_store_def store_ok_def split: if_splits)

lemma store_ok_entry:
  assumes "store_ok s" and "entry_of s k = Some e"
  shows "en_id e < st_created s" and "rn_run_id (en_record e) = k" and "valid_stored (en_record e)"
    and "\<not> st_closed s"
  using assms by (auto simp: store_ok_def entry_of_def list_all_iff entry_ok_def dest!: map_of_SomeD)

lemma store_ok_pop: "store_ok s \<Longrightarrow> store_ok (pop_entry k s)"
  by (auto simp: store_ok_def keys_pop ids_pop distinct_map_filter list_all_iff entry_ok_def pop_entry_def)

lemma store_ok_pops: "store_ok s \<Longrightarrow> store_ok (fold pop_entry ks s)"
  by (induction ks arbitrary: s) (simp_all add: store_ok_pop)

lemma store_ok_close: "store_ok s \<Longrightarrow> store_ok (close_store s)"
  by (simp add: store_ok_def close_store_def)

lemma store_ok_replace:
  assumes "store_ok s" and "valid_stored r" and "rn_run_id r = k"
  shows "store_ok (replace_record k r s)"
proof -
  have "list_all (entry_ok (replace_record k r s)) (st_entries (replace_record k r s))"
    using assms by (auto simp: store_ok_def list_all_iff entry_ok_def replace_record_def)
  moreover have "st_entries s = [] \<Longrightarrow> st_entries (replace_record k r s) = []"
    by (simp add: replace_record_def)
  ultimately show ?thesis using assms(1) by (simp add: store_ok_def)
qed

lemma snapshot_Inr [simp]: "snapshot r = Inr r' \<longleftrightarrow> r' = r \<and> valid_stored r"
  by (simp add: snapshot_def validated_Inr_iff)

lemma store_ok_insert:
  assumes "store_ok s" and "valid_stored r"
  shows "store_ok (snd (insert_entry s r now deadline))"
proof -
  have "store_ok (pop_entry (rn_run_id r) s)" using assms(1) by (rule store_ok_pop)
  then show ?thesis
    using assms
    by (auto simp: insert_entry_def Let_def store_ok_def list_all_iff entry_ok_def pop_entry_def
        intro: less_SucI dest: less_imp_neq)
qed

lemma store_ok_create: "store_ok s \<Longrightarrow> store_ok (snd (create_run s wall now r))"
  by (auto simp: create_run_def Let_def store_ok_insert split: option.splits sum.splits)

text \<open>A live entry is the one stored now; a refusal at most removes the entry.\<close>

lemma live_entry_cases:
  "(\<exists>e now. live_entry s k eid m = (Inr e, s) \<and> entry_of s k = Some e \<and> en_id e = eid
      \<and> m = Some now \<and> now < en_deadline e \<and> \<not> st_closed s)
   \<or> (\<exists>err s'. live_entry s k eid m = (Inl err, s') \<and> (s' = s \<or> s' = pop_entry k s))"
  by (auto simp: live_entry_def split: option.splits if_splits)

lemma store_ok_live: "store_ok s \<Longrightarrow> live_entry s k eid m = (out, s') \<Longrightarrow> store_ok s'"
  using live_entry_cases [of s k eid m] store_ok_pop by auto

lemma current_record_Inr:
  assumes "current_record s k eid m = (Inr r, s')"
  obtains e now where "s' = s" "entry_of s k = Some e" "en_id e = eid" "r = en_record e"
    "m = Some now" "now < en_deadline e"
  using assms live_entry_cases [of s k eid m]
  by (auto simp: current_record_def split: prod.splits sum.splits)

lemma current_record_Inl:
  assumes "current_record s k eid m = (Inl err, s')" and "store_ok s"
  shows "s' = s \<or> s' = pop_entry k s"
  using assms live_entry_cases [of s k eid m]
  by (auto simp: current_record_def split: prod.splits sum.splits)

lemma begin_mutation_Inr:
  assumes "begin_mutation s k eid expected m = (Inr r, s')"
  obtains e where "s' = s" "entry_of s k = Some e" "en_id e = eid" "r = en_record e" "sr_version r = expected"
  using assms by (auto simp: begin_mutation_def split: prod.splits sum.splits if_splits elim!: current_record_Inr)

lemma begin_mutation_Inl:
  assumes "begin_mutation s k eid expected m = (Inl err, s')" and "store_ok s"
  shows "s' = s \<or> s' = pop_entry k s"
  using assms current_record_Inl
  by (fastforce simp: begin_mutation_def split: prod.splits sum.splits if_splits elim!: current_record_Inr)

lemma updated_run_Inr:
  assumes "updated_run change current = Inr r"
  obtains candidate where "change current = Inr (Some candidate)" "r = candidate\<lparr>sr_version := sr_version current + 1\<rparr>"
    "same_identity r current" "valid_stored r" "sr_version r = sr_version current + 1"
  using assms
  by (auto simp: updated_run_def refused_def same_identity_def validated_Inr_iff
      split: sum.splits option.splits if_splits)

lemma commit_mutation_cases:
  assumes "commit_mutation s k eid r m = (out, s')"
  shows "(\<exists>e. out = Inr r \<and> entry_of s k = Some e \<and> en_id e = eid \<and> valid_stored r \<and> s' = replace_record k r s)
    \<or> ((\<exists>err. out = Inl err) \<and> (s' = s \<or> s' = pop_entry k s))"
  using assms live_entry_cases [of s k eid m]
  by (auto simp: commit_mutation_def split: prod.splits sum.splits)

subsection \<open>The laws of a versioned store\<close>

text \<open>
  What the coordinator relies on: a successful mutation applied \<open>change\<close> to the stored run of the
  expected version and stored the result under the next version; any other outcome removes the run at
  most; other runs are not touched.
\<close>

locale versioned_store =
  fixes invar :: "'s \<Rightarrow> bool"
    and stored :: "'s \<Rightarrow> ident \<Rightarrow> stored_run option"
    and change_run :: "'s \<Rightarrow> ident \<Rightarrow> int \<Rightarrow> mutation \<Rightarrow> reading \<Rightarrow> reading \<Rightarrow> stored_run outcome \<times> 's"
  assumes invar_kept: "invar s \<Longrightarrow> change_run s k v f m m' = (out, s') \<Longrightarrow> invar s'"
    and changed: "invar s \<Longrightarrow> change_run s k v f m m' = (Inr r, s') \<Longrightarrow>
      \<exists>current candidate. stored s k = Some current \<and> sr_version current = v
        \<and> f current = Inr (Some candidate) \<and> r = candidate\<lparr>sr_version := v + 1\<rparr>
        \<and> same_identity r current \<and> stored s' k = Some r"
    and unchanged: "invar s \<Longrightarrow> change_run s k v f m m' = (Inl err, s') \<Longrightarrow>
      stored s' k = stored s k \<or> stored s' k = None"
    and others: "invar s \<Longrightarrow> change_run s k v f m m' = (out, s') \<Longrightarrow> j \<noteq> k \<Longrightarrow> stored s' j = stored s j"
begin

lemma stale_version:
  assumes "invar s" and "change_run s k v f m m' = (Inr r, s')" and "change_run s' k v g n n' = (out, s'')"
  shows "\<exists>err. out = Inl err"
proof (cases out)
  case (Inr r')
  have "stored s' k = Some r" "sr_version r = v + 1" using changed [OF assms(1,2)] by auto
  moreover obtain current where "stored s' k = Some current" "sr_version current = v"
    using changed [OF invar_kept [OF assms(1,2)]] assms(3) Inr by blast
  ultimately show ?thesis by simp
qed blast

text \<open>A client that changes runs by legal updates only keeps every run on its path.\<close>

lemma lifecycle_kept:
  assumes "invar s" and "\<forall>j r. stored s j = Some r \<longrightarrow> lifecycle r"
    and "change_run s k v f m m' = (out, s')"
    and legal: "\<And>current candidate. f current = Inr (Some candidate) \<Longrightarrow> lifecycle current \<Longrightarrow> lifecycle candidate"
  shows "\<forall>j r. stored s' j = Some r \<longrightarrow> lifecycle r"
proof (intro allI impI)
  fix j r assume r: "stored s' j = Some r"
  show "lifecycle r"
  proof (cases "j = k")
    case False
    then show ?thesis using others [OF assms(1,3)] r assms(2) by metis
  next
    case True
    show ?thesis
    proof (cases out)
      case (Inl err)
      then show ?thesis using unchanged [OF assms(1) assms(3) [unfolded Inl]] assms(2) r True by auto
    next
      case (Inr new)
      then obtain current candidate where c: "stored s k = Some current" "f current = Inr (Some candidate)"
        "new = candidate\<lparr>sr_version := v + 1\<rparr>" "stored s' k = Some new"
        using changed [OF assms(1)] assms(3) by blast
      have "lifecycle candidate" using legal c(1,2) assms(2) by blast
      then have "lifecycle new" by (rule lifecycle.stepped) (auto simp: c(3) intro: run_step.update)
      then show ?thesis using r c(4) True by simp
    qed
  qed
qed

end

definition stored_record :: "run_store \<Rightarrow> ident \<Rightarrow> stored_run option" where
  "stored_record s k = map_option en_record (entry_of s k)"

lemma mutate_cases:
  assumes "mutate s k v f m m' = (out, s')" and "store_ok s"
  shows "(\<exists>e candidate r. out = Inr r \<and> entry_of s k = Some e \<and> sr_version (en_record e) = v
        \<and> f (en_record e) = Inr (Some candidate) \<and> r = candidate\<lparr>sr_version := v + 1\<rparr>
        \<and> same_identity r (en_record e) \<and> valid_stored r \<and> s' = replace_record k r s)
    \<or> ((\<exists>err. out = Inl err) \<and> (s' = s \<or> s' = pop_entry k s))"
proof -
  consider (early) err where "out = Inl err" "s' = s"
    | (begun) e current where "capture s k = Inr e" "begin_mutation s k (en_id e) v m = (Inr current, s)"
        "(case updated_run f current of Inl err \<Rightarrow> (Inl err, s)
          | Inr updated \<Rightarrow> commit_mutation s k (en_id e) updated m') = (out, s')"
    | (refused) e :: run_entry and err where "out = Inl err" "begin_mutation s k (en_id e) v m = (Inl err, s')"
  proof (cases "v < 0 \<or> (\<exists>err. capture s k = Inl err)")
    case True
    then show thesis using assms(1) early by (auto simp: mutate_def split: if_splits)
  next
    case False
    then obtain e where e: "capture s k = Inr e" "\<not> v < 0" by (cases "capture s k") auto
    obtain m1 s1 where first: "begin_mutation s k (en_id e) v m = (m1, s1)" by fastforce
    show thesis
    proof (cases m1)
      case (Inl err)
      then have "out = Inl err" "s' = s1" using assms(1) e first by (simp_all add: mutate_def)
      then show thesis using first Inl by (intro refused [of err e]) simp_all
    next
      case (Inr current)
      have "s1 = s" by (rule begin_mutation_Inr [OF first [unfolded Inr]])
      then show thesis using assms(1) e first Inr begun by (simp add: mutate_def)
    qed
  qed
  then show ?thesis
  proof cases
    case early
    then show ?thesis by blast
  next
    case refused
    then show ?thesis using begin_mutation_Inl [OF _ assms(2)] by blast
  next
    case begun
    obtain e' where e: "entry_of s k = Some e'" "current = en_record e'" "sr_version current = v"
      using begun(2) by (rule begin_mutation_Inr)
    show ?thesis
    proof (cases "updated_run f current")
      case (Inl err)
      then have "out = Inl err" "s' = s" using begun(3) by simp_all
      then show ?thesis by blast
    next
      case (Inr updated)
      obtain candidate where "f current = Inr (Some candidate)"
        "updated = candidate\<lparr>sr_version := sr_version current + 1\<rparr>" "same_identity updated current"
        using Inr by (rule updated_run_Inr)
      then show ?thesis using commit_mutation_cases [of s k "en_id e" updated m' out s'] begun(3) Inr e by auto
    qed
  qed
qed

lemma store_ok_mutate:
  assumes "store_ok s" and "mutate s k v f m m' = (out, s')"
  shows "store_ok s'"
  using mutate_cases [OF assms(2,1)] assms(1) store_ok_entry(2) [OF assms(1)]
  by (auto intro: store_ok_pop store_ok_replace simp: same_identity_def)

interpretation runs: versioned_store store_ok stored_record mutate
proof
  fix s k v f m m' out s'
  assume ok: "store_ok s" and run: "mutate s k v f m m' = (out, s')"
  show "store_ok s'" by (rule store_ok_mutate [OF ok run])
  show "stored_record s' j = stored_record s j" if "j \<noteq> k" for j
    using mutate_cases [OF run ok] that by (auto simp: stored_record_def entry_simps)
next
  fix s k v f m m' r s'
  assume ok: "store_ok s" and run: "mutate s k v f m m' = (Inr r, s')"
  show "\<exists>current candidate. stored_record s k = Some current \<and> sr_version current = v
        \<and> f current = Inr (Some candidate) \<and> r = candidate\<lparr>sr_version := v + 1\<rparr>
        \<and> same_identity r current \<and> stored_record s' k = Some r"
    using mutate_cases [OF run ok] by (auto simp: stored_record_def entry_simps)
next
  fix s k v f m m' err s'
  assume ok: "store_ok s" and run: "mutate s k v f m m' = (Inl err, s')"
  show "stored_record s' k = stored_record s k \<or> stored_record s' k = None"
    using mutate_cases [OF run ok] by (auto simp: stored_record_def entry_simps)
qed

subsection \<open>Interleavings\<close>

text \<open>
  Coroutines over one store. A mutation holds the lock of its entry from the moment it has read the
  record until it stores the result, or is refused; the ticket it holds is the key, the record it read,
  the change and the result. Reads, creation, deletion, purging and closing happen in between at will,
  as do mutations of other entries. \<open>eid\<close> is whatever entry object the coroutine captured before.
\<close>

record ticket =
  tk_run_id :: ident
  tk_current :: stored_run
  tk_change :: mutation
  tk_updated :: stored_run

type_synonym store_system = "run_store \<times> (nat \<Rightarrow> ticket option)"

inductive store_step :: "store_system \<Rightarrow> store_system \<Rightarrow> bool" where
  begin_ok: "locks eid = None \<Longrightarrow> begin_mutation s k eid v m = (Inr current, s') \<Longrightarrow>
    updated_run f current = Inr r \<Longrightarrow> store_step (s, locks)
      (s', locks(eid \<mapsto> \<lparr>tk_run_id = k, tk_current = current, tk_change = f, tk_updated = r\<rparr>))"
| begin_refused: "locks eid = None \<Longrightarrow> begin_mutation s k eid v m = (Inl err, s') \<Longrightarrow>
    store_step (s, locks) (s', locks)"
| commit: "locks eid = Some t \<Longrightarrow> commit_mutation s (tk_run_id t) eid (tk_updated t) m = (out, s') \<Longrightarrow>
    store_step (s, locks) (s', locks(eid := None))"
| read: "locks eid = None \<Longrightarrow> current_record s k eid m = (out, s') \<Longrightarrow> store_step (s, locks) (s', locks)"
| create: "create_run s wall m r = (out, s') \<Longrightarrow> store_step (s, locks) (s', locks)"
| delete: "delete_run s k = (gone, s') \<Longrightarrow> store_step (s, locks) (s', locks)"
| purge: "purge_expired s m = (number, s') \<Longrightarrow> store_step (s, locks) (s', locks)"
| close: "store_step (s, locks) (close_store s, locks)"

inductive store_run :: "store_system \<Rightarrow> bool" where
  opened: "new_store ttl = Inr s \<Longrightarrow> store_run (s, Map.empty)"
| ran: "store_run \<sigma> \<Longrightarrow> store_step \<sigma> \<sigma>' \<Longrightarrow> store_run \<sigma>'"

text \<open>A lock protects what its ticket read: while it is held, the entry still has that record.\<close>

definition ticket_ok :: "run_store \<Rightarrow> nat \<Rightarrow> ticket \<Rightarrow> bool" where
  "ticket_ok s eid t \<longleftrightarrow>
     eid < st_created s \<and> updated_run (tk_change t) (tk_current t) = Inr (tk_updated t)
     \<and> rn_run_id (tk_updated t) = tk_run_id t
     \<and> (\<forall>k e. entry_of s k = Some e \<longrightarrow> en_id e = eid \<longrightarrow> k = tk_run_id t \<and> en_record e = tk_current t)"

definition system_ok :: "store_system \<Rightarrow> bool" where
  "system_ok \<sigma> \<longleftrightarrow> store_ok (fst \<sigma>) \<and> (\<forall>eid t. snd \<sigma> eid = Some t \<longrightarrow> ticket_ok (fst \<sigma>) eid t)"

text \<open>What an operation other than a commit does to the entries: it drops some and adds fresh ones.\<close>

definition only_drops :: "run_store \<Rightarrow> run_store \<Rightarrow> bool" where
  "only_drops s s' \<longleftrightarrow> st_created s \<le> st_created s'
     \<and> (\<forall>k e. entry_of s' k = Some e \<longrightarrow> entry_of s k = Some e \<or> st_created s \<le> en_id e)"

lemma only_drops_refl [simp]: "only_drops s s"
  by (simp add: only_drops_def)

lemma only_drops_pop [simp]: "only_drops s (pop_entry k s)"
  by (simp add: only_drops_def entry_simps)

lemma only_drops_trans: "only_drops s s' \<Longrightarrow> only_drops s' s'' \<Longrightarrow> only_drops s s''"
  unfolding only_drops_def by (meson order_trans)

lemma only_drops_pops: "only_drops s (fold pop_entry ks s)"
proof (induction ks arbitrary: s)
  case (Cons k ks)
  show ?case using only_drops_trans [OF only_drops_pop Cons.IH [of "pop_entry k s"]] by simp
qed simp

lemma only_drops_close: "only_drops s (close_store s)"
  by (simp add: only_drops_def close_store_def entry_of_def)

lemma only_drops_insert: "only_drops s (snd (insert_entry s r now deadline))"
proof -
  have "entry_of (s'\<lparr>st_entries := st_entries s' @ [(k, e)], st_created := n\<rparr>) j =
      (case entry_of s' j of Some e' \<Rightarrow> Some e' | None \<Rightarrow> if j = k then Some e else None)" for s' k e n j
    by (auto simp: entry_of_def map_add_def split: option.splits)
  then show ?thesis
    by (auto simp: insert_entry_def Let_def only_drops_def entry_simps split: if_splits option.splits)
qed

lemma only_drops_create: "create_run s wall m r = (out, s') \<Longrightarrow> only_drops s s'"
  using only_drops_insert
  by (fastforce simp: create_run_def Let_def split: option.splits sum.splits if_splits dest: arg_cong [where f = snd])

lemma ticket_kept: "ticket_ok s eid t \<Longrightarrow> only_drops s s' \<Longrightarrow> ticket_ok s' eid t"
  unfolding ticket_ok_def only_drops_def by (metis leD less_le_trans)

lemma system_kept:
  "system_ok (s, locks) \<Longrightarrow> only_drops s s' \<Longrightarrow> store_ok s' \<Longrightarrow> system_ok (s', locks)"
  by (auto simp: system_ok_def intro: ticket_kept)

lemma entry_id_unique:
  assumes "store_ok s" and "entry_of s k = Some e" and "entry_of s j = Some e'" and "en_id e = en_id e'"
  shows "k = j"
proof -
  have "(k, e) \<in> set (st_entries s)" "(j, e') \<in> set (st_entries s)"
    using assms(2,3) by (simp_all add: entry_of_def map_of_SomeD)
  moreover have "inj_on (en_id \<circ> snd) (set (st_entries s))" using assms(1) by (simp add: store_ok_def distinct_map)
  ultimately show ?thesis using assms(4) inj_onD [of "en_id \<circ> snd" "set (st_entries s)" "(k, e)" "(j, e')"] by simp
qed

lemma store_step_kept:
  assumes "store_step \<sigma> \<sigma>'" and "system_ok \<sigma>"
  shows "system_ok \<sigma>'"
  using assms
proof cases
  case (begin_ok locks eid s k v m current s' f r)
  obtain e where e: "s' = s" "entry_of s k = Some e" "en_id e = eid" "current = en_record e"
    using begin_ok(4) by (rule begin_mutation_Inr)
  have ok: "store_ok s" using assms(2) begin_ok(1) by (simp add: system_ok_def)
  have "same_identity r current" using begin_ok(5) by (rule updated_run_Inr)
  then have run_id: "rn_run_id r = k" using e(4) store_ok_entry(2) [OF ok e(2)] by (simp add: same_identity_def)
  have "j = k \<and> en_record x = current" if x: "entry_of s j = Some x" "en_id x = eid" for j x
  proof -
    have "j = k" by (rule entry_id_unique [OF ok x(1) e(2)]) (use x(2) e(3) in simp)
    then show ?thesis using x(1) e(2,4) by simp
  qed
  then have "ticket_ok s eid \<lparr>tk_run_id = k, tk_current = current, tk_change = f, tk_updated = r\<rparr>"
    using begin_ok(5) run_id store_ok_entry(1) [OF ok e(2)] e(3) by (simp add: ticket_ok_def)
  then show ?thesis using assms(2) begin_ok(1,2) e(1) by (simp add: system_ok_def)
next
  case (begin_refused locks eid s k v m err s')
  have ok: "store_ok s" using assms(2) begin_refused(1) by (simp add: system_ok_def)
  have "s' = s \<or> s' = pop_entry k s" by (rule begin_mutation_Inl [OF begin_refused(4) ok])
  then have "only_drops s s'" "store_ok s'" using store_ok_pop [OF ok] ok by auto
  then show ?thesis using system_kept assms(2) unfolding begin_refused(1,2) by blast
next
  case (commit locks eid t s m out s')
  have ok: "store_ok s" and t: "ticket_ok s eid t" using assms(2) commit(1,3) by (auto simp: system_ok_def)
  have other: "ticket_ok s eid' t'" if "locks eid' = Some t'" for eid' t'
    using assms(2) commit(1) that by (auto simp: system_ok_def)
  from commit_mutation_cases [OF commit(4)] show ?thesis
  proof (elim disjE exE conjE)
    fix e assume e: "entry_of s (tk_run_id t) = Some e" "en_id e = eid" "valid_stored (tk_updated t)"
      "s' = replace_record (tk_run_id t) (tk_updated t) s"
    have "store_ok s'" unfolding e(4) using t by (intro store_ok_replace ok e(3)) (simp add: ticket_ok_def)
    moreover have "ticket_ok s' eid' t'" if "locks eid' = Some t'" "eid' \<noteq> eid" for eid' t'
      using other [OF that(1)] that(2) e(1,2) by (auto simp: ticket_ok_def e(4) entry_simps split: if_splits)
    ultimately show ?thesis by (auto simp: system_ok_def commit(2))
  next
    assume "s' = s"
    then show ?thesis using assms(2) by (auto simp: system_ok_def commit(1,2))
  next
    assume "s' = pop_entry (tk_run_id t) s"
    then show ?thesis using store_ok_pop [OF ok] by (auto simp: system_ok_def commit(2) intro: ticket_kept [OF other])
  qed
next
  case (read locks eid s k m out s')
  have "s' = s \<or> s' = pop_entry k s"
    using read(4) current_record_Inl [of s k eid m] assms(2) read(1)
    by (cases out) (auto simp: system_ok_def elim: current_record_Inr)
  moreover have ok: "store_ok s" using assms(2) read(1) by (simp add: system_ok_def)
  ultimately have "only_drops s s'" "store_ok s'" using store_ok_pop [OF ok] by auto
  then show ?thesis using system_kept assms(2) unfolding read(1,2) by blast
next
  case (create s wall m r out s' locks)
  then show ?thesis
    using assms(2) system_kept [of s locks s'] store_ok_create [of s wall m r] only_drops_create [of s wall m r]
    by (auto simp: system_ok_def)
next
  case (delete s k gone s' locks)
  then show ?thesis
    using assms(2) system_kept [of s locks s'] store_ok_pop
    by (auto simp: system_ok_def delete_run_def split: if_splits)
next
  case (purge s m number s' locks)
  then show ?thesis
    using assms(2) system_kept [of s locks s'] store_ok_pops only_drops_pops
    by (auto simp: system_ok_def purge_expired_def Let_def split: option.splits if_splits)
next
  case (close s locks)
  then show ?thesis
    using assms(2) system_kept [of s locks "close_store s"] store_ok_close only_drops_close
    by (auto simp: system_ok_def)
qed

lemma store_run_ok: "store_run \<sigma> \<Longrightarrow> system_ok \<sigma>"
proof (induction rule: store_run.induct)
  case (opened ttl s)
  then show ?case by (simp add: system_ok_def store_ok_new)
qed (rule store_step_kept)

text \<open>One step either leaves the record of a surviving entry or applies one whole mutation to it.\<close>

lemma only_drops_same:
  assumes "only_drops s s'" and "store_ok s" and "entry_of s k = Some e" and "entry_of s' k = Some e'"
    and "en_id e' = en_id e"
  shows "e' = e"
  using assms store_ok_entry(1) [OF assms(2,3)] unfolding only_drops_def by (metis leD option.inject)

lemma store_step_record:
  assumes "store_step \<sigma> \<sigma>'" and "system_ok \<sigma>" and "entry_of (fst \<sigma>) k = Some e"
    and "entry_of (fst \<sigma>') k = Some e'" and "en_id e' = en_id e"
  shows "en_deadline e' = en_deadline e
    \<and> (en_record e' = en_record e \<or> (\<exists>change. updated_run change (en_record e) = Inr (en_record e')))"
proof -
  have ok: "store_ok (fst \<sigma>)" using assms(2) by (simp add: system_ok_def)
  note same = only_drops_same [OF _ ok assms(3-5)]
  from assms(1) show ?thesis
  proof cases
    case (begin_ok locks eid s k' v m current s' f r)
    have "s' = s" using begin_ok(4) by (rule begin_mutation_Inr)
    then show ?thesis using same begin_ok(1,2) by simp
  next
    case (begin_refused locks eid s k' v m err s')
    have "s' = s \<or> s' = pop_entry k' s" using begin_mutation_Inl [OF begin_refused(4)] ok begin_refused(1) by simp
    then have "only_drops s s'" by auto
    then show ?thesis using same begin_refused(1,2) by simp
  next
    case (commit locks eid t s m out s')
    have t: "ticket_ok s eid t" using assms(2) commit(1,3) by (auto simp: system_ok_def)
    from commit_mutation_cases [OF commit(4)] show ?thesis
    proof (elim disjE exE conjE)
      fix x assume x: "entry_of s (tk_run_id t) = Some x" "en_id x = eid"
        "s' = replace_record (tk_run_id t) (tk_updated t) s"
      have "en_record x = tk_current t" using t x(1,2) unfolding ticket_ok_def by blast
      moreover have "e' = (if k = tk_run_id t then e\<lparr>en_record := tk_updated t\<rparr> else e)"
        using assms(3,4) x(3) by (simp add: commit(1,2) entry_simps split: if_splits)
      moreover have "k = tk_run_id t \<Longrightarrow> e = x" using assms(3) x(1) by (simp add: commit(1))
      ultimately show ?thesis using t by (auto simp: ticket_ok_def)
    qed (use same commit(1,2) in simp_all)
  next
    case (read locks eid s k' m out s')
    have "s' = s \<or> s' = pop_entry k' s"
      using read(4) current_record_Inl [of s k' eid m] ok read(1) by (cases out) (auto elim: current_record_Inr)
    then have "only_drops s s'" by auto
    then show ?thesis using same read(1,2) by simp
  next
    case (create s wall m r out s' locks)
    then show ?thesis using same only_drops_create [of s wall m r] by auto
  next
    case (delete s k' gone s' locks)
    then show ?thesis using same by (auto simp: delete_run_def split: if_splits)
  next
    case (purge s m number s' locks)
    then show ?thesis using same only_drops_pops by (auto simp: purge_expired_def Let_def split: option.splits if_splits)
  next
    case (close s locks)
    then show ?thesis using same only_drops_close by auto
  qed
qed

end
