(* ===== verification/Workflow_Properties.thy ===== *)
theory Workflow_Properties
  imports Store_Meaning
begin

section \<open>Properties of runs and of the run store\<close>

text \<open>
  The life cycle of a run and the promises of the in-memory store, with one stored run as the witness.
\<close>

subsection \<open>A run and its store\<close>

definition demo_manifest :: run_manifest where
  "demo_manifest = \<lparr>rm_manifest_id = ''manifest'', rm_run_id = ''run'', rm_engine_version = ''engine'',
     rm_engine_sha256 = replicate 64 CHR ''0'', rm_prompt_hashes = [], rm_provider = ''none'',
     rm_model_identifier = ''none'', rm_generation_config = \<lparr>gc_temperature_milli = 0,
       gc_top_p_percent = 100, gc_max_output_tokens = 1, gc_seed = None\<rparr>, rm_random_seed = 0,
     rm_started_at = 0, rm_mode = Cached\<rparr>"

definition demo_run :: stored_run where
  "demo_run = \<lparr>rn_run_id = ''run'', rn_stage = Queued, rn_manifest = demo_manifest, rn_created_at = 0,
     rn_expires_at = 3600000000, rn_artifacts = [], rn_events = [], rn_finding_decisions = [],
     rn_decision_at = None, rn_error = None, sr_version = 0, sr_source_request = None,
     sr_pending_confirmation = None\<rparr>"

definition demo_store :: run_store where
  "demo_store = \<lparr>st_ttl_seconds = 3600,
     st_entries = [(''run'', \<lparr>en_id = 0, en_record = demo_run, en_deadline = 3600\<rparr>)],
     st_closed = False, st_created = 1\<rparr>"

definition demo_advance :: mutation where
  "demo_advance r = (case transition_to r Ingesting 1 None of Inl e \<Rightarrow> Inl e | Inr r' \<Rightarrow> Inr (Some r'))"

definition demo_advanced :: stored_run where
  "demo_advanced = demo_run\<lparr>rn_stage := Ingesting, rn_events := [\<lparr>ev_timestamp = 1, ev_stage = Ingesting,
     ev_action_summary = stage_summary Ingesting, ev_artifact = None, ev_error_id = None\<rparr>], sr_version := 1\<rparr>"

lemma demo_valid: "valid_stored demo_run" "valid_stored demo_advanced"
  by code_simp+

lemma demo_fields [simp]:
  "rn_stage demo_run = Queued" "rn_events demo_run = []" "rn_run_id demo_run = ''run''" "sr_version demo_run = 0"
  "rn_stage demo_advanced = Ingesting" "sr_version demo_advanced = 1"
  by (simp_all add: demo_run_def demo_advanced_def)

lemma demo_transition: "transition_to demo_run Ingesting 1 None = Inr (demo_advanced\<lparr>sr_version := 0\<rparr>)"
proof -
  have "valid_stored (demo_advanced\<lparr>sr_version := 0\<rparr>)" by code_simp
  then show ?thesis by (simp add: transition_to_Inr_iff) (simp add: demo_advanced_def demo_run_def)
qed

lemma demo_updated: "updated_run demo_advance demo_run = Inr demo_advanced"
proof -
  have "valid_stored (demo_advanced\<lparr>sr_version := 0\<rparr>)" by code_simp
  moreover have "validated stored_run_checks (demo_advanced\<lparr>sr_version := 1\<rparr>) = Inr demo_advanced"
  proof -
    have same: "demo_advanced\<lparr>sr_version := 1\<rparr> = demo_advanced" by (simp add: demo_advanced_def)
    show ?thesis unfolding same using demo_valid(2) by simp
  qed
  moreover have "same_identity (demo_advanced\<lparr>sr_version := 0\<rparr>) demo_run"
    by (simp add: same_identity_def demo_advanced_def)
  ultimately show ?thesis
    by (simp add: updated_run_def demo_advance_def demo_transition snapshot_def demo_valid(2))
qed

lemma demo_opened: "new_store 3600 = Inr \<lparr>st_ttl_seconds = 3600, st_entries = [], st_closed = False, st_created = 0\<rparr>"
  by (simp add: new_store_def)

lemma demo_created:
  "create_run \<lparr>st_ttl_seconds = 3600, st_entries = [], st_closed = False, st_created = 0\<rparr> (Some 0) (Some 0) demo_run =
   (Inr demo_run, demo_store)"
proof -
  have "rebased \<lparr>st_ttl_seconds = 3600, st_entries = [], st_closed = False, st_created = 0\<rparr> 0 demo_run = demo_run"
    by (simp add: rebased_def demo_run_def)
  then show ?thesis
    by (simp add: create_run_def insert_entry_def entry_of_def pop_entry_def snapshot_def demo_valid demo_store_def python_def)
qed

lemma demo_entry: "entry_of demo_store ''run'' = Some \<lparr>en_id = 0, en_record = demo_run, en_deadline = 3600\<rparr>"
  by (simp add: entry_of_def demo_store_def)

lemma demo_store_ok: "store_ok demo_store"
  by (simp add: store_ok_def demo_store_def entry_ok_def demo_valid)

lemma demo_begun: "begin_mutation demo_store ''run'' 0 0 (Some 1) = (Inr demo_run, demo_store)"
  by (simp add: begin_mutation_def current_record_def live_entry_def demo_entry demo_valid snapshot_def python_def)
     (simp add: demo_store_def)

lemma demo_committed:
  "commit_mutation demo_store ''run'' 0 demo_advanced (Some 2) =
   (Inr demo_advanced, replace_record ''run'' demo_advanced demo_store)"
  by (simp add: commit_mutation_def live_entry_def demo_entry demo_valid snapshot_def)
     (simp add: demo_store_def)

lemma demo_mutated:
  "mutate demo_store ''run'' 0 demo_advance (Some 1) (Some 2) =
   (Inr demo_advanced, replace_record ''run'' demo_advanced demo_store)"
proof -
  have "capture demo_store ''run'' = Inr \<lparr>en_id = 0, en_record = demo_run, en_deadline = 3600\<rparr>"
    by (simp add: capture_def demo_entry) (simp add: demo_store_def)
  then show ?thesis by (simp add: mutate_def demo_begun demo_updated demo_committed)
qed

definition demo_ticket :: ticket where
  "demo_ticket = \<lparr>tk_run_id = ''run'', tk_current = demo_run, tk_change = demo_advance, tk_updated = demo_advanced\<rparr>"

lemma demo_store_run: "store_run (demo_store, [0 \<mapsto> demo_ticket])"
proof -
  have "store_run (demo_store, Map.empty)"
    using store_run.ran [OF store_run.opened [OF demo_opened] store_step.create [OF demo_created]] .
  moreover have "store_step (demo_store, Map.empty) (demo_store, [0 \<mapsto> demo_ticket])"
    using store_step.begin_ok [OF _ demo_begun demo_updated, of Map.empty] by (simp add: demo_ticket_def)
  ultimately show ?thesis by (rule store_run.ran)
qed

lemma demo_commit_step:
  "store_step (demo_store, [0 \<mapsto> demo_ticket]) (replace_record ''run'' demo_advanced demo_store, Map.empty)"
  using store_step.commit [of "[0 \<mapsto> demo_ticket]" 0 demo_ticket demo_store "Some 2"] demo_committed
  by (simp add: demo_ticket_def)

lemma demo_lifecycle: "lifecycle (demo_advanced\<lparr>sr_version := 0\<rparr>)" "lifecycle demo_run"
proof -
  show run: "lifecycle demo_run" by (rule lifecycle.created) simp_all
  show "lifecycle (demo_advanced\<lparr>sr_version := 0\<rparr>)"
    using lifecycle.stepped [OF run run_step.advance [OF demo_transition]] .
qed

subsection \<open>The life cycle\<close>

text \<open>
  C32: The events of a run, in order, are a path of the transition table from the queued stage, its stage
  is the last of them, no stage is entered twice, and there are at most fifteen.
\<close>

theorem run_follows_table:
  assumes "lifecycle r"
  shows "path Queued (event_stages r) \<and> rn_stage r = last (Queued # event_stages r)
    \<and> distinct (Queued # event_stages r) \<and> length (rn_events r) \<le> 15"
proof -
  note steps = lifecycle_path(1) [OF assms]
  have "length (event_stages r) \<le> 15"
    using path_length [OF steps] rank_bound [of "last (Queued # event_stages r)"] by linarith
  then show ?thesis using steps path_distinct [OF steps] lifecycle_path(2) [OF assms] by simp
qed

lemma run_follows_table_witness:
  "path Queued [Ingesting] \<and> distinct [Queued, Ingesting]"
  using run_follows_table [OF demo_lifecycle(1)] by (simp add: demo_advanced_def)

text \<open>
  C16: People decide before the run goes on. A run that generated or executed tests has stopped for the
  contract before; one that drafted a revision, or ended without one after a review, has stopped for the
  findings; one that applied a revision has stopped for its confirmation, after both.
\<close>

theorem human_decisions_first:
  assumes "lifecycle r"
  shows "(rn_stage r \<in> set tested_stages \<longrightarrow> AwaitingContract \<in> set (event_stages r))
    \<and> (rn_stage r \<in> set revision_stages \<longrightarrow> AwaitingFindingReview \<in> set (event_stages r))
    \<and> (rn_stage r \<in> set applied_stages \<longrightarrow> AwaitingRevisionConfirmation \<in> set (event_stages r))"
  using guarded [OF human_gates(1)] guarded [OF human_gates(2)] guarded [OF human_gates(3)]
    lifecycle_path(1,2) [OF assms] by metis

lemma reached:
  "path Queued ts \<Longrightarrow> \<exists>r. lifecycle r \<and> valid_stored r \<and> event_stages r = ts \<and> rn_stage r = last (Queued # ts)"
proof (induction ts rule: rev_induct)
  case Nil
  then show ?case using demo_lifecycle(2) demo_valid(1) by (intro exI [of _ demo_run]) simp
next
  case (snoc t ts)
  then obtain r where r: "lifecycle r" "valid_stored r" "event_stages r = ts" "rn_stage r = last (Queued # ts)"
    by (auto simp: path_snoc)
  then obtain r' where r': "transition_to r t 0 None = Inr r'"
    using transition_to_total [of r t None 0] snoc.prems by (auto simp: path_snoc)
  then show ?case
    using lifecycle.stepped [OF r(1) run_step.advance [OF r']] r(3)
    by (intro exI [of _ r']) (auto simp: transition_to_Inr_iff last_stage simp del: last.simps)
qed

lemma human_decisions_first_witness:
  "\<exists>r. lifecycle r \<and> rn_stage r = Complete \<and> AwaitingContract \<in> set (event_stages r)
     \<and> AwaitingFindingReview \<in> set (event_stages r) \<and> AwaitingRevisionConfirmation \<in> set (event_stages r)"
proof -
  obtain r where r: "lifecycle r" "rn_stage r = Complete"
    using reached [of "[Ingesting, Extracting, AwaitingContract, GeneratingInitialTests, ProvisionalExecution,
      FreezingSuite, BaselineExecution, Analyzing, AwaitingFindingReview, DraftingRevision,
      AwaitingRevisionConfirmation, ApplyingRevision, Retesting, Complete]"] by auto
  then show ?thesis
    using human_decisions_first [OF r(1)]
    by (auto simp: tested_stages_def revision_stages_def applied_stages_def)
qed

text \<open>
  A transition is taken exactly when the table has the edge and the run with the event appended is a
  valid stored run; it changes the stage, appends that one event, and nothing else.
\<close>

theorem transition_exact:
  "transition_to r stage now artifact = Inr r' \<longleftrightarrow>
     stage \<in> set (transitions (rn_stage r)) \<and> valid_stored r'
     \<and> r' = r\<lparr>rn_stage := stage, rn_events := rn_events r @
         [\<lparr>ev_timestamp = now, ev_stage = stage, ev_action_summary = stage_summary stage,
           ev_artifact = artifact, ev_error_id = None\<rparr>]\<rparr>"
  by (rule transition_to_Inr_iff)

text \<open>
  C39: A run that has not ended can always be failed, and a run that has ended refuses every transition
  with the actions of its stage.
\<close>

theorem failure_possible_until_end:
  assumes "valid_stored r"
  shows "if rn_stage r \<in> set terminal_stages
    then \<forall>stage artifact. transition_to r stage now artifact =
      Inl (InvalidRunState (Some (rn_stage r)) [DeleteRun])
    else \<exists>r'. transition_to r Failed now None = Inr r' \<and> rn_stage r' = Failed"
proof (cases "rn_stage r \<in> set terminal_stages")
  case True
  then have "transitions (rn_stage r) = []" "allowed_actions (rn_stage r) = [DeleteRun]"
    by (auto simp: terminal_stages_def allowed_actions_def)
  then show ?thesis using True by (simp add: transition_to_def)
next
  case False
  then show ?thesis using transition_to_total [OF assms failure_always_possible [OF False], of None] by simp
qed

lemma failure_possible_until_end_witness:
  "\<exists>r'. transition_to demo_run Failed 5 None = Inr r' \<and> rn_stage r' = Failed"
  using failure_possible_until_end [OF demo_valid(1), of 5] by (simp add: terminal_stages_def)

text \<open>
  C38: No run goes on for ever: there is no infinite sequence of transitions.
\<close>

theorem transitions_terminate:
  "\<not> (\<exists>run. \<forall>i. \<exists>stage now artifact. transition_to (run i) stage now artifact = Inr (run (Suc i)))"
proof
  assume "\<exists>run. \<forall>i. \<exists>stage now artifact. transition_to (run i) stage now artifact = Inr (run (Suc i))"
  then obtain run where run: "\<exists>stage now artifact. transition_to (run i) stage now artifact = Inr (run (Suc i))" for i
    by blast
  have step: "rank (rn_stage (run i)) < rank (rn_stage (run (Suc i)))" for i
  proof -
    obtain stage now artifact where "transition_to (run i) stage now artifact = Inr (run (Suc i))"
      using run by blast
    then have "stage \<in> set (transitions (rn_stage (run i)))" "rn_stage (run (Suc i)) = stage"
      unfolding transition_to_Inr_iff by simp_all
    then show ?thesis using rank_increases by simp
  qed
  have "n \<le> rank (rn_stage (run n))" for n
  proof (induction n)
    case (Suc n)
    then show ?case using step [of n] by linarith
  qed simp
  then show False using rank_bound [of "rn_stage (run 16)"] by (metis not_numeral_le_zero numeral_le_iff order_trans semiring_norm(68) semiring_norm(69) semiring_norm(72))
qed

subsection \<open>The store\<close>

text \<open>
  C14: However the coroutines of a store are interleaved, one step leaves the record of an entry as it is
  or replaces it by the result of one whole mutation of exactly that record: no update is lost, none is
  applied to a record another coroutine replaced. The deadline never moves.
\<close>

theorem mutations_are_atomic:
  assumes "store_run \<sigma>" and "store_step \<sigma> \<sigma>'" and "entry_of (fst \<sigma>) k = Some e"
    and "entry_of (fst \<sigma>') k = Some e'" and "en_id e' = en_id e"
  shows "en_deadline e' = en_deadline e
    \<and> (en_record e' = en_record e \<or> (\<exists>change. updated_run change (en_record e) = Inr (en_record e')))"
  using store_step_record [OF assms(2) store_run_ok [OF assms(1)] assms(3-5)] .

lemma mutations_are_atomic_witness:
  "demo_advanced = demo_run \<or> (\<exists>change. updated_run change demo_run = Inr demo_advanced)"
  using mutations_are_atomic [OF demo_store_run demo_commit_step, of "''run''"
      "\<lparr>en_id = 0, en_record = demo_run, en_deadline = 3600\<rparr>"
      "\<lparr>en_id = 0, en_record = demo_advanced, en_deadline = 3600\<rparr>"]
  by (simp add: demo_entry entry_simps)

text \<open>
  Whatever coroutines did to a store, run identifiers are unique, every record is valid and filed under
  its own identifier, entry objects are never reused, and a closed store is empty.
\<close>

theorem store_invariant:
  assumes "store_run \<sigma>"
  shows "store_ok (fst \<sigma>)"
  using store_run_ok [OF assms] by (simp add: system_ok_def)

lemma store_invariant_witness: "store_ok demo_store"
  using store_invariant [OF demo_store_run] by simp

text \<open>
  A version can be used once. After a successful mutation, another one that expects the same version is
  refused, whatever it would change and whatever the clock says.
\<close>

theorem stale_version_refused:
  assumes "store_ok s" and "mutate s k v f m m' = (Inr r, s')" and "mutate s' k v g n n' = (out, s'')"
  shows "\<exists>err. out = Inl err"
  by (rule runs.stale_version [OF assms])

lemma stale_version_refused_witness:
  "\<exists>err. fst (mutate (replace_record ''run'' demo_advanced demo_store) ''run'' 0 demo_advance (Some 3) (Some 4)) = Inl err"
  using stale_version_refused [OF demo_store_ok demo_mutated, of demo_advance "Some 3" "Some 4"]
  by (metis prod.collapse)



text \<open>
  C34: A created run can be read back until its deadline, with its times set by the store, and is gone after
  it, after its deletion and after the store is closed.
\<close>

theorem created_run_readable:
  assumes "store_ok s" and "create_run s (Some wall) (Some now) r = (Inr stored, s')"
  shows "stored = rebased s wall r
    \<and> (\<forall>t. fst (get_run s' (rn_run_id r) (Some t)) =
        (if t < now + of_int (st_ttl_seconds s) then Inr stored else Inl RunNotFound))
    \<and> fst (get_run (snd (delete_run s' (rn_run_id r))) (rn_run_id r) m) = Inl RunNotFound
    \<and> fst (get_run (close_store s') (rn_run_id r) m) = Inl RunNotFound"
proof -
  have made: "snapshot (rebased s wall r) = Inr (rebased s wall r)" "\<not> st_closed s"
    "stored = rebased s wall r" "valid_stored stored"
    "s' = (pop_entry (rn_run_id r) s)\<lparr>st_entries := st_entries (pop_entry (rn_run_id r) s) @
       [(rn_run_id r, \<lparr>en_id = st_created s, en_record = stored, en_deadline = now + of_int (st_ttl_seconds s)\<rparr>)],
       st_created := Suc (st_created s)\<rparr>"
    using assms(2)
    by (auto simp: create_run_def insert_entry_def rebased_def Let_def split: if_splits sum.splits)
  have entry: "entry_of s' (rn_run_id r) = Some \<lparr>en_id = st_created s, en_record = stored,
      en_deadline = now + of_int (st_ttl_seconds s)\<rparr>"
    using entry_of_pop [of "rn_run_id r" s "rn_run_id r"]
    by (simp add: made(5) entry_of_def map_add_def)
  have "\<not> st_closed s'" using made(2,5) by simp
  then have "fst (get_run s' (rn_run_id r) (Some t)) =
      (if t < now + of_int (st_ttl_seconds s) then Inr stored else Inl RunNotFound)" for t
    using made(4) by (simp add: get_run_def capture_def entry current_record_def live_entry_def python_def
        snapshot_def)
  then show ?thesis
    using made(3) \<open>\<not> st_closed s'\<close>
    by (simp add: get_run_def delete_run_def capture_def entry entry_simps close_store_def)
qed

lemma created_run_readable_witness:
  "fst (get_run demo_store ''run'' (Some 3599)) = Inr demo_run \<and> fst (get_run demo_store ''run'' (Some 3600)) = Inl RunNotFound"
  using created_run_readable [OF store_ok_new [OF demo_opened] demo_created] by simp

end
