(* ===== verification/Envelopes.thy ===== *)
theory Envelopes
  imports Run_Models Engine_Report
begin

section \<open>Artifact envelopes (core/artifacts.py)\<close>

text \<open>
  The rest of the payload classes as the objects the projections see, and the construction and
  validation of artifact envelopes. A payload is content-addressed: the envelope built from it carries
  the complete and the semantic digest of the payload, and validation recomputes both.
\<close>

subsection \<open>Payload objects\<close>

definition page_obj :: "policy_page \<Rightarrow> pyobj" where
  "page_obj p = PModel CPolicyPage
     [schema_version, (''page'', PInt (pp_page p)), (''text'', PStr (pp_text p)),
      (''start'', PInt (pp_start p)), (''end'', PInt (pp_end p))]"

fun source_type_name :: "source_type \<Rightarrow> string" where
  "source_type_name PastedText = ''pasted_text''"
| "source_type_name BundledSample = ''bundled_sample''"

definition document_obj :: "policy_document \<Rightarrow> pyobj" where
  "document_obj d = PModel CPolicyDocument
     [schema_version, (''document_id'', PStr (pd_document_id d)), (''title'', PStr (pd_title d)),
      (''source_type'', PStr (source_type_name (pd_source_type d))), (''pages'', seq_obj page_obj (pd_pages d)),
      (''document_sha256'', PStr (pd_document_sha256 d))]"

definition revision_draft_obj :: "revision_rule_draft \<Rightarrow> pyobj" where
  "revision_draft_obj d = PModel CRevisionRuleDraft
     [schema_version, (''description'', PStr (rd_description d)), (''when'', seq_obj predicate_obj (rd_when d)),
      (''effects'', seq_obj effect_obj (rd_effects d)), (''overrides'', seq_obj override_obj (rd_overrides d))]"

fun operation_obj :: "revision_operation \<Rightarrow> pyobj" where
  "operation_obj (AddRuleOperation rid draft fids) = PModel CAddRuleOperation
     [schema_version, (''kind'', PStr ''add_rule''), (''rule_id'', PStr rid),
      (''rule'', revision_draft_obj draft), (''finding_ids'', strs_obj fids)]"
| "operation_obj (ReplaceRuleOperation rid expected draft fids) = PModel CReplaceRuleOperation
     [schema_version, (''kind'', PStr ''replace_rule''), (''rule_id'', PStr rid),
      (''expected_revision'', PInt expected), (''rule'', revision_draft_obj draft), (''finding_ids'', strs_obj fids)]"
| "operation_obj (AddOverrideOperation rid d target fids) = PModel CAddOverrideOperation
     [schema_version, (''kind'', PStr ''add_override''), (''rule_id'', PStr rid),
      (''dimension'', dimension_obj d), (''target_rule_id'', PStr target), (''finding_ids'', strs_obj fids)]"

definition proposal_obj :: "revision_proposal \<Rightarrow> pyobj" where
  "proposal_obj p = PModel CRevisionProposal
     [schema_version, (''proposal_id'', PStr (rp_proposal_id p)),
      (''document_sha256'', PStr (rp_document_sha256 p)), (''rule_set_sha256'', PStr (rp_rule_set_sha256 p)),
      (''policy_contract_sha256'', PStr (rp_policy_contract_sha256 p)),
      (''suite_sha256'', PStr (rp_suite_sha256 p)),
      (''accepted_finding_ids'', strs_obj (rp_accepted_finding_ids p)),
      (''operations'', seq_obj operation_obj (rp_operations p)),
      (''draft_policy_wording'', PStr (rp_draft_policy_wording p))]"

definition effect_state_counts_obj :: "effect_state_counts \<Rightarrow> pyobj" where
  "effect_state_counts_obj c = PModel COtherModel
     [schema_version, (''VALUE'', PInt (sc_VALUE c)), (''GAP'', PInt (sc_GAP c)),
      (''NOT_APPLICABLE'', PInt (sc_NOT_APPLICABLE c)), (''CONFLICT'', PInt (sc_CONFLICT c)),
      (''INCONCLUSIVE'', PInt (sc_INCONCLUSIVE c)), (''ERROR'', PInt (sc_ERROR c))]"

definition assertion_counts_obj :: "assertion_counts \<Rightarrow> pyobj" where
  "assertion_counts_obj c = PModel COtherModel
     [schema_version, (''passed'', PInt (ac_passed c)), (''failed'', PInt (ac_failed c)),
      (''inconclusive'', PInt (ac_inconclusive c)), (''error'', PInt (ac_error c))]"

definition metrics_obj :: "metrics_report \<Rightarrow> pyobj" where
  "metrics_obj m = PModel COtherModel
     [schema_version, (''inputs'', input_hashes_obj (mr_inputs m)),
      (''scenario_count'', PInt (mr_scenario_count m)),
      (''effect_states'', effect_state_counts_obj (mr_effect_states m)),
      (''assertions'', assertion_counts_obj (mr_assertions m)),
      (''unique_finding_count'', PInt (mr_unique_finding_count m)), (''coverage'', coverage_obj (mr_coverage m)),
      (''assertion_pass_percent'', opt_obj PInt (mr_assertion_pass_percent m))]"

definition transition_obj :: "assertion_transition \<Rightarrow> pyobj" where
  "transition_obj t = PModel COtherModel
     [schema_version, (''scenario_id'', PStr (at_scenario_id t)), (''assertion_id'', PStr (at_assertion_id t)),
      (''before'', PStr (assertion_status_name (at_before t))), (''after'', PStr (assertion_status_name (at_after t))),
      (''protected'', PBool (at_protected t)), (''targeted'', PBool (at_targeted t))]"

definition transition_counts_obj :: "assertion_transition_counts \<Rightarrow> pyobj" where
  "transition_counts_obj c = PModel COtherModel
     [schema_version, (''pass_to_pass'', PInt (tc_pass_to_pass c)), (''fail_to_pass'', PInt (tc_fail_to_pass c)),
      (''pass_to_fail'', PInt (tc_pass_to_fail c)), (''fail_to_fail'', PInt (tc_fail_to_fail c)),
      (''inconclusive_or_error'', PInt (tc_inconclusive_or_error c))]"

definition regression_obj :: "regression_report \<Rightarrow> pyobj" where
  "regression_obj r = PModel COtherModel
     [schema_version, (''report_id'', PStr (rr_report_id r)),
      (''baseline_inputs'', input_hashes_obj (rr_baseline_inputs r)),
      (''revised_inputs'', input_hashes_obj (rr_revised_inputs r)),
      (''baseline_effect_states'', effect_state_counts_obj (rr_baseline_effect_states r)),
      (''revised_effect_states'', effect_state_counts_obj (rr_revised_effect_states r)),
      (''assertion_transition_counts'', transition_counts_obj (rr_assertion_transition_counts r)),
      (''assertion_transitions'', seq_obj transition_obj (rr_assertion_transitions r))]"

definition acceptance_counts_obj :: "patch_acceptance_counts \<Rightarrow> pyobj" where
  "acceptance_counts_obj c = PModel COtherModel
     [schema_version, (''target_findings'', PInt (pac_target_findings c)),
      (''fixed_target_findings'', PInt (pac_fixed_target_findings c)),
      (''new_failures_outside_targets'', PInt (pac_new_failures_outside_targets c)),
      (''protected_regressions'', PInt (pac_protected_regressions c)),
      (''baseline_gap_conflict_inconclusive_or_error'', PInt (pac_baseline_gap_conflict_inconclusive_or_error c)),
      (''revised_gap_conflict_inconclusive_or_error'', PInt (pac_revised_gap_conflict_inconclusive_or_error c)),
      (''unrelated_rule_changes'', PInt (pac_unrelated_rule_changes c)),
      (''holdout_regressions'', PInt (pac_holdout_regressions c))]"

definition acceptance_obj :: "patch_acceptance_report \<Rightarrow> pyobj" where
  "acceptance_obj a = PModel COtherModel
     [schema_version, (''baseline_inputs'', input_hashes_obj (pa_baseline_inputs a)),
      (''revised_inputs'', input_hashes_obj (pa_revised_inputs a)),
      (''suite_hash_matches'', PBool (pa_suite_hash_matches a)),
      (''all_target_findings_fixed'', PBool (pa_all_target_findings_fixed a)),
      (''zero_new_failures_outside_targets'', PBool (pa_zero_new_failures_outside_targets a)),
      (''zero_protected_regressions'', PBool (pa_zero_protected_regressions a)),
      (''no_increase_in_gap_conflict_inconclusive_or_error'',
         PBool (pa_no_increase_in_gap_conflict_inconclusive_or_error a)),
      (''unrelated_rules_unchanged'', PBool (pa_unrelated_rules_unchanged a)),
      (''holdout_not_worse'', PBool (pa_holdout_not_worse a)),
      (''patch_accepted'', PBool (pa_patch_accepted a)), (''counts'', acceptance_counts_obj (pa_counts a))]"

definition bundle_obj :: "comparison_bundle \<Rightarrow> pyobj" where
  "bundle_obj b = PModel COtherModel
     [schema_version, (''baseline_inputs'', input_hashes_obj (cb_baseline_inputs b)),
      (''revised_inputs'', input_hashes_obj (cb_revised_inputs b)),
      (''regression'', regression_obj (cb_regression b)), (''acceptance'', acceptance_obj (cb_acceptance b)),
      (''baseline_metrics'', metrics_obj (cb_baseline_metrics b)),
      (''revised_metrics'', metrics_obj (cb_revised_metrics b))]"

lemma hashable_comparison [simp]:
  "hashable (metrics_obj m)" "hashable (regression_obj r)" "hashable (acceptance_obj a)" "hashable (bundle_obj b)"
proof -
  have counts: "hashable (effect_state_counts_obj c)" "hashable (assertion_counts_obj d)"
    "hashable (transition_counts_obj e)" "hashable (acceptance_counts_obj g)" "hashable (transition_obj t)" for c d e g t
    by (simp_all add: effect_state_counts_obj_def assertion_counts_obj_def transition_counts_obj_def
        acceptance_counts_obj_def transition_obj_def schema_version_def)
  then have parts: "hashable (metrics_obj m)" "hashable (regression_obj r)" "hashable (acceptance_obj a)" for m r a
    by (simp_all add: metrics_obj_def regression_obj_def acceptance_obj_def schema_version_def list_all_iff)
  then show "hashable (metrics_obj m)" "hashable (regression_obj r)" "hashable (acceptance_obj a)"
    "hashable (bundle_obj b)"
    by (simp_all add: bundle_obj_def schema_version_def)
qed

definition defect_obj :: "benchmark_defect \<Rightarrow> pyobj" where
  "defect_obj d = PModel COtherModel
     [schema_version, (''defect_id'', PStr (bd_defect_id d)),
      (''finding_type'', PStr (finding_type_name (bd_finding_type d))),
      (''dimension'', dimension_obj (bd_dimension d)), (''target_ids'', strs_obj (bd_target_ids d)),
      (''severity'', PStr (severity_name (bd_severity d))), (''source_spans'', seq_obj span_obj (bd_source_spans d)),
      (''semantic_signature_sha256'', opt_obj PStr (bd_semantic_signature_sha256 d)),
      (''permitted_witness_ids'', strs_obj (bd_permitted_witness_ids d)),
      (''expected_finding_fingerprint_sha256'', opt_obj PStr (bd_expected_finding_fingerprint_sha256 d)),
      (''partition'', PStr (partition_name (bd_partition d))),
      (''unsupported_clause'', PBool (bd_unsupported_clause d))]"

definition benchmark_obj :: "benchmark_manifest \<Rightarrow> pyobj" where
  "benchmark_obj m = PModel CBenchmarkManifest
     [schema_version, (''benchmark_id'', PStr (bm_benchmark_id m)),
      (''document_sha256'', PStr (bm_document_sha256 m)),
      (''policy_contract_sha256'', PStr (bm_policy_contract_sha256 m)),
      (''engine_version'', PStr (bm_engine_version m)), (''sealed_at'', PTime (Some (bm_sealed_at m))),
      (''seal_sha256'', PStr (bm_seal_sha256 m)), (''defects'', seq_obj defect_obj (bm_defects m)),
      (''gold_scenarios'', seq_obj scenario_obj (bm_gold_scenarios m)),
      (''required_dimensions'', dimensions_obj (bm_required_dimensions m))]"

definition score_obj :: "benchmark_score \<Rightarrow> pyobj" where
  "score_obj s = PModel COtherModel
     [schema_version, (''benchmark_id'', PStr (bs_benchmark_id s)), (''inputs'', input_hashes_obj (bs_inputs s)),
      (''true_positives'', PInt (bs_true_positives s)), (''false_positives'', PInt (bs_false_positives s)),
      (''false_negatives'', PInt (bs_false_negatives s)),
      (''precision_percent'', opt_obj PInt (bs_precision_percent s)),
      (''recall_percent'', opt_obj PInt (bs_recall_percent s)), (''f1_percent'', opt_obj PInt (bs_f1_percent s))]"

definition prompt_hash_obj :: "prompt_hash \<Rightarrow> pyobj" where
  "prompt_hash_obj p = PModel CPromptHash
     [schema_version, (''prompt_name'', PStr (ph_prompt_name p)), (''prompt_sha256'', PStr (ph_prompt_sha256 p))]"

definition generation_config_obj :: "generation_config \<Rightarrow> pyobj" where
  "generation_config_obj g = PModel CGenerationConfig
     [schema_version, (''temperature_milli'', PInt (gc_temperature_milli g)),
      (''top_p_percent'', PInt (gc_top_p_percent g)), (''max_output_tokens'', PInt (gc_max_output_tokens g)),
      (''seed'', opt_obj PInt (gc_seed g))]"

definition manifest_obj :: "run_manifest \<Rightarrow> pyobj" where
  "manifest_obj m = PModel CRunManifest
     [schema_version, (''manifest_id'', PStr (rm_manifest_id m)), (''run_id'', PStr (rm_run_id m)),
      (''engine_version'', PStr (rm_engine_version m)), (''engine_sha256'', PStr (rm_engine_sha256 m)),
      (''prompt_hashes'', seq_obj prompt_hash_obj (rm_prompt_hashes m)), (''provider'', PStr (rm_provider m)),
      (''model_identifier'', PStr (rm_model_identifier m)),
      (''generation_config'', generation_config_obj (rm_generation_config m)),
      (''random_seed'', PInt (rm_random_seed m)), (''started_at'', PTime (Some (rm_started_at m))),
      (''mode'', PStr (run_mode_name (rm_mode m)))]"

fun payload_obj :: "artifact_payload \<Rightarrow> pyobj" where
  "payload_obj (DocumentPayload x) = document_obj x"
| "payload_obj (PolicyPayload x) = policy_obj x"
| "payload_obj (ContractPayload x) = contract_obj x"
| "payload_obj (SuitePayload x) = suite_obj x"
| "payload_obj (EvaluationPayload x) = report_obj x"
| "payload_obj (FindingsPayload x) = finding_report_obj x"
| "payload_obj (ProposalPayload x) = proposal_obj x"
| "payload_obj (RegressionPayload x) = regression_obj x"
| "payload_obj (AcceptancePayload x) = acceptance_obj x"
| "payload_obj (BundlePayload x) = bundle_obj x"
| "payload_obj (MetricsPayload x) = metrics_obj x"
| "payload_obj (BenchmarkPayload x) = benchmark_obj x"
| "payload_obj (ScorePayload x) = score_obj x"
| "payload_obj (CoveragePayload x) = coverage_obj x"
| "payload_obj (ManifestPayload x) = manifest_obj x"

lemma hashable_operation [simp]: "hashable (operation_obj op)"
  by (cases op) (simp_all add: revision_draft_obj_def schema_version_def list_all_iff)

lemma hashable_payload [simp]: "hashable (payload_obj p)"
  by (cases p) (simp_all add: document_obj_def page_obj_def proposal_obj_def benchmark_obj_def defect_obj_def
      score_obj_def manifest_obj_def prompt_hash_obj_def generation_config_obj_def schema_version_def list_all_iff)

subsection \<open>Envelopes\<close>

definition digest_of :: "(string \<Rightarrow> sha256) \<Rightarrow> artifact_payload \<Rightarrow> sha256 result" where
  "digest_of sha payload = payload_hash sha (payload_obj payload)"

definition semantic_of :: "(string \<Rightarrow> sha256) \<Rightarrow> artifact_payload \<Rightarrow> sha256 result" where
  "semantic_of sha payload = semantic_hash sha (payload_obj payload)"

definition make_artifact_envelope ::
  "(string \<Rightarrow> sha256) \<Rightarrow> artifact_type \<Rightarrow> artifact_payload \<Rightarrow> artifact_ref list \<Rightarrow> ident \<Rightarrow> artifact_envelope result" where
  "make_artifact_envelope sha artifact_type payload parent_refs run_manifest_id =
     rbind (traverse (validated artifact_ref_checks) parent_refs) (\<lambda>refs.
     rbind (validated artifact_envelope_checks
       \<lparr>ae_artifact_type = artifact_type, ae_artifact_sha256 = zero_sha256, ae_semantic_sha256 = zero_sha256,
        ae_parent_hashes = sorted_unique (map ar_artifact_sha256 refs), ae_run_manifest_id = run_manifest_id,
        ae_payload = payload\<rparr>) (\<lambda>envelope.
     rbind (digest_of sha (ae_payload envelope)) (\<lambda>complete.
     rbind (semantic_of sha (ae_payload envelope)) (\<lambda>semantic.
     validated artifact_envelope_checks
       (envelope\<lparr>ae_artifact_sha256 := complete, ae_semantic_sha256 := semantic\<rparr>)))))"

definition validate_artifact_envelope ::
  "(string \<Rightarrow> sha256) \<Rightarrow> artifact_envelope \<Rightarrow> artifact_envelope result" where
  "validate_artifact_envelope sha envelope =
     rbind (validated artifact_envelope_checks envelope) (\<lambda>e.
     rbind (check_all [(ae_parent_hashes e = sorted_unique (ae_parent_hashes e),
                        ''parent_hashes must be sorted and unique'')]) (\<lambda>_.
     rbind (digest_of sha (ae_payload e)) (\<lambda>complete.
     rbind (check_all [(ae_artifact_sha256 e = complete, ''artifact_sha256 does not match complete payload'')]) (\<lambda>_.
     rbind (semantic_of sha (ae_payload e)) (\<lambda>semantic.
     rbind (check_all [(ae_semantic_sha256 e = semantic, ''semantic_sha256 does not match semantic payload'')]) (\<lambda>_.
     Inr e))))))"

definition envelope_ref :: "artifact_envelope \<Rightarrow> artifact_ref" where
  "envelope_ref e = \<lparr>ar_artifact_type = ae_artifact_type e, ar_artifact_sha256 = ae_artifact_sha256 e,
     ar_semantic_sha256 = ae_semantic_sha256 e\<rparr>"

subsection \<open>Digests and envelopes are total on valid content\<close>

abbreviation complete_digest :: "(string \<Rightarrow> sha256) \<Rightarrow> artifact_payload \<Rightarrow> sha256" where
  "complete_digest sha p \<equiv> sha (canonical_bytes (view False (payload_obj p)))"

abbreviation semantic_digest :: "(string \<Rightarrow> sha256) \<Rightarrow> artifact_payload \<Rightarrow> sha256" where
  "semantic_digest sha p \<equiv> sha (canonical_bytes (view True (payload_obj p)))"

lemma digest_of_value [simp]:
  "digest_of sha p = Inr (complete_digest sha p)" "semantic_of sha p = Inr (semantic_digest sha p)"
  by (simp_all add: digest_of_def semantic_of_def payload_hash_view)

definition envelope_of ::
  "(string \<Rightarrow> sha256) \<Rightarrow> artifact_type \<Rightarrow> artifact_payload \<Rightarrow> artifact_ref list \<Rightarrow> ident \<Rightarrow> artifact_envelope" where
  "envelope_of sha artifact_type payload refs run_manifest_id =
     \<lparr>ae_artifact_type = artifact_type, ae_artifact_sha256 = complete_digest sha payload,
      ae_semantic_sha256 = semantic_digest sha payload,
      ae_parent_hashes = sorted_unique (map ar_artifact_sha256 refs), ae_run_manifest_id = run_manifest_id,
      ae_payload = payload\<rparr>"

lemma sorted_unique_fixed [simp]: "sorted_unique (sorted_unique xs) = sorted_unique xs"
  unfolding sorted_unique_def
  by (metis distinct_sort distinct_remdups remdups_id_iff_distinct sort_key_id_if_sorted sorted_sort map_idI)

lemma make_artifact_envelope_Inr:
  assumes "hex_digest sha"
  shows "make_artifact_envelope sha artifact_type payload refs manifest_id = Inr e \<longleftrightarrow>
     list_all (valid_by artifact_ref_checks) refs \<and> valid_payload payload
     \<and> payload_type payload = artifact_type \<and> identifier_ok manifest_id
     \<and> e = envelope_of sha artifact_type payload refs manifest_id"
proof -
  have refs: "traverse (validated artifact_ref_checks) refs = Inr rs \<longleftrightarrow>
      list_all (valid_by artifact_ref_checks) refs \<and> rs = refs" for rs
    by (induction refs arbitrary: rs) (auto simp: rbind_Inr_iff validated_Inr_iff)
  have "list_all sha256_ok (sorted_unique (map ar_artifact_sha256 refs))"
    if "list_all (valid_by artifact_ref_checks) refs"
    using that by (auto simp: list_all_iff valid_by_def [of artifact_ref_checks] artifact_ref_checks_def)
  then show ?thesis
    using hex_digestD [OF assms]
    by (auto simp: make_artifact_envelope_def refs rbind_Inr_iff validated_Inr_iff envelope_of_def
        valid_by_def [of artifact_envelope_checks] artifact_envelope_checks_def)
qed

lemma validate_artifact_envelope_Inr:
  "validate_artifact_envelope sha e = Inr e' \<longleftrightarrow>
     e' = e \<and> valid_by artifact_envelope_checks e \<and> ae_parent_hashes e = sorted_unique (ae_parent_hashes e)
     \<and> ae_artifact_sha256 e = complete_digest sha (ae_payload e)
     \<and> ae_semantic_sha256 e = semantic_digest sha (ae_payload e)"
  by (auto simp: validate_artifact_envelope_def rbind_Inr_iff validated_Inr_iff split: if_splits)

text \<open>Whatever is made is accepted, and an accepted envelope is the one made from its content.\<close>

lemma envelope_accepted:
  assumes "make_artifact_envelope sha artifact_type payload refs manifest_id = Inr e" and "hex_digest sha"
  shows "validate_artifact_envelope sha e = Inr e" and "ae_payload e = payload" and "ae_artifact_type e = artifact_type"
proof -
  have e: "list_all (valid_by artifact_ref_checks) refs" "valid_payload payload" "payload_type payload = artifact_type"
    "identifier_ok manifest_id" "e = envelope_of sha artifact_type payload refs manifest_id"
    using assms(1) unfolding make_artifact_envelope_Inr [OF assms(2)] by simp_all
  have "list_all sha256_ok (sorted_unique (map ar_artifact_sha256 refs))"
    using e(1) by (auto simp: list_all_iff valid_by_def [of artifact_ref_checks] artifact_ref_checks_def)
  then show "validate_artifact_envelope sha e = Inr e"
    using e(2-4) hex_digestD [OF assms(2)] unfolding validate_artifact_envelope_Inr
    by (simp add: e(5) envelope_of_def valid_by_def [of artifact_envelope_checks] artifact_envelope_checks_def)
  show "ae_payload e = payload" "ae_artifact_type e = artifact_type" by (simp_all add: e(5) envelope_of_def)
qed

end
