(* ===== verification/Workflow_Validation.thy ===== *)
theory Workflow_Validation
  imports Envelopes Regression_Analysis
begin

section \<open>Checks of the workflow on stage results (workflow/validation.py)\<close>

text \<open>
  What the coordinator demands of the values its stages return, independently of how they were
  computed: identities, digests, counters and references must agree. Every failed demand is the same
  \<open>ValueError\<close>; \<open>model_validate\<close> of a value is the validator of its class.
\<close>

subsection \<open>Digests and demands\<close>

definition require :: "bool \<Rightarrow> unit result" where
  "require condition = (if condition then Inr () else Inl (ValueError ''workflow evidence is inconsistent''))"

lemma require_Inr [simp]: "require b = Inr u \<longleftrightarrow> b"
  by (simp add: require_def)

definition input_hashes_of ::
  "(string \<Rightarrow> sha256) \<Rightarrow> policy_ir \<Rightarrow> policy_contract \<Rightarrow> scenario_suite \<Rightarrow> run_manifest \<Rightarrow> input_hashes result" where
  "input_hashes_of sha policy contract suite manifest =
     rbind (digest_of sha (PolicyPayload policy)) (\<lambda>policy_sha256.
     rbind (digest_of sha (ContractPayload contract)) (\<lambda>contract_sha256.
     rbind (digest_of sha (SuitePayload suite)) (\<lambda>suite_sha256.
     rbind (digest_of sha (ManifestPayload manifest)) (\<lambda>run_manifest_sha256.
     validated input_hashes_checks
       \<lparr>ih_policy_sha256 = policy_sha256, ih_contract_sha256 = contract_sha256, ih_suite_sha256 = suite_sha256,
        ih_engine_sha256 = rm_engine_sha256 manifest, ih_run_manifest_sha256 = run_manifest_sha256\<rparr>))))"

subsection \<open>Scenario batches and suites\<close>

definition scenario_batch_checks :: "scenario_candidate list \<Rightarrow> (bool \<times> string) list" where
  "scenario_batch_checks candidates = [(list_all valid_candidate candidates, ''ScenarioBatch'')]"

definition candidate_assertion_ok :: "(ident \<times> invariant) list \<Rightarrow> assertion \<Rightarrow> bool" where
  "candidate_assertion_ok invariants a \<longleftrightarrow>
     (a_origin a = OriginSessionConfirmed \<longrightarrow>
        (case a_source_invariant_id a of None \<Rightarrow> False
         | Some i \<Rightarrow> (case map_of invariants i of None \<Rightarrow> False | Some known \<Rightarrow> i_assertion known = a)))"

definition validate_batch ::
  "scenario_candidate list \<Rightarrow> int \<Rightarrow> policy_ir \<Rightarrow> policy_contract \<Rightarrow> scenario_candidate list result" where
  "validate_batch value budget policy contract =
     rbind (validated scenario_batch_checks value) (\<lambda>candidates.
     rbind (require (int (length candidates) \<le> budget)) (\<lambda>_.
     rbind (require (distinct (map sc_candidate_id candidates))) (\<lambda>_.
       let rules = map r_rule_id (pi_rules policy);
           invariants = dict_by i_invariant_id (pc_invariants contract) in
       rbind (require (list_all (\<lambda>c.
         set (sc_target_rule_ids c) \<subseteq> set rules
         \<and> set (sc_target_invariant_ids c) \<subseteq> set (keys invariants)
         \<and> list_all (candidate_assertion_ok invariants) (sc_assertions c)) candidates)) (\<lambda>_.
       Inr candidates))))"

definition validate_suite ::
  "(string \<Rightarrow> sha256) \<Rightarrow> scenario_suite \<Rightarrow> policy_ir \<Rightarrow> policy_contract \<Rightarrow> run_manifest
   \<Rightarrow> ident option \<Rightarrow> nat option \<Rightarrow> scenario_suite result" where
  "validate_suite sha value policy contract manifest suite_id candidate_count =
     rbind (validated scenario_suite_checks value) (\<lambda>suite.
     rbind (digest_of sha (SuitePayload suite)) (\<lambda>own.
     rbind (require (ss_content_sha256 suite = own)) (\<lambda>_.
     rbind (require (ss_document_sha256 suite = pi_document_sha256 policy)) (\<lambda>_.
     rbind (digest_of sha (ContractPayload contract)) (\<lambda>contract_sha256.
     rbind (require (ss_policy_contract_sha256 suite = contract_sha256)) (\<lambda>_.
     rbind (semantic_of sha (PolicyPayload policy)) (\<lambda>rules_sha256.
     rbind (require (ss_rule_set_sha256 suite = rules_sha256)) (\<lambda>_.
     rbind (require (ss_engine_version suite = rm_engine_version manifest
                     \<and> ss_seed suite = rm_random_seed manifest)) (\<lambda>_.
     rbind (require (case suite_id of None \<Rightarrow> True | Some i \<Rightarrow> ss_suite_id suite = i)) (\<lambda>_.
     rbind (require (case candidate_count of None \<Rightarrow> True | Some n \<Rightarrow> length (ss_scenarios suite) \<le> n)) (\<lambda>_.
     Inr suite)))))))))))"

subsection \<open>Evaluations\<close>

definition known_predicate :: "(ident \<times> rule) list \<Rightarrow> ident \<Rightarrow> int \<Rightarrow> bool" where
  "known_predicate rules rule_id index \<longleftrightarrow>
     (case map_of rules rule_id of None \<Rightarrow> False | Some r \<Rightarrow> index < int (length (r_when r)))"

definition validate_row ::
  "(string \<Rightarrow> sha256) \<Rightarrow> (ident \<times> scenario) list \<Rightarrow> (ident \<times> rule) list \<Rightarrow> rule_provenance list
   \<Rightarrow> scenario_evaluation \<Rightarrow> unit result" where
  "validate_row sha scenarios rules permitted_provenances row =
     (let trace = se_trace row in
      rbind (require (list_all (\<lambda>p. p \<in> set permitted_provenances) (et_source_citations trace))) (\<lambda>_.
      rbind (payload_hash sha (trace_obj trace)) (\<lambda>h.
      rbind (require (et_trace_sha256 trace = h)) (\<lambda>_.
      rbind (require (set (et_fired_rule_ids trace) \<subseteq> set (keys rules))) (\<lambda>_.
      rbind (lookup scenarios (se_scenario_id row)) (\<lambda>s.
        let assertions = map a_assertion_id (sc_assertions s);
            result_ids = map ar_assertion_id (se_assertion_results row) in
      rbind (require (distinct result_ids \<and> set result_ids = set assertions)) (\<lambda>_.
      rbind (require (list_all (\<lambda>p. known_predicate rules (pr_rule_id p) (pr_predicate_index p))
               (et_predicate_results trace))) (\<lambda>_.
      require (list_all (\<lambda>e. set (dr_applicable_rule_ids e @ dr_overridden_rule_ids e) \<subseteq> set (keys rules))
               (et_resolved_effects trace))))))))))"

text \<open>The key of a piece of evidence and what the loop over the evidence has collected.\<close>

type_synonym evidence_key = "coverage_target \<times> ident \<times> int option \<times> bool option"

definition evidence_key :: "coverage_evidence \<Rightarrow> evidence_key" where
  "evidence_key e = (ce_target_kind e, ce_target_id e, ce_predicate_index e, ce_predicate_outcome e)"

record evidence_state =
  es_keys :: "evidence_key list"
  es_rules :: "ident list"
  es_invariants :: "ident list"
  es_branches :: "evidence_key list"

definition validate_rule_evidence ::
  "(ident \<times> rule) list \<Rightarrow> (ident \<times> scenario_evaluation) list \<Rightarrow> coverage_evidence \<Rightarrow> unit result" where
  "validate_rule_evidence rules results e =
     rbind (require (ce_target_id e \<in> set (keys rules))) (\<lambda>_.
     rfold (\<lambda>sid _. rbind (lookup results sid) (\<lambda>row.
       require (ce_target_id e \<in> set (et_fired_rule_ids (se_trace row))))) (ce_scenario_ids e) ())"

definition validate_invariant_evidence ::
  "(ident \<times> invariant) list \<Rightarrow> (ident \<times> scenario) list \<Rightarrow> (ident \<times> scenario_evaluation) list
   \<Rightarrow> coverage_evidence \<Rightarrow> unit result" where
  "validate_invariant_evidence invariants scenarios results e =
     rbind (require (ce_target_id e \<in> set (keys invariants))) (\<lambda>_.
     rbind (lookup invariants (ce_target_id e)) (\<lambda>invariant.
     rfold (\<lambda>sid _.
       rbind (lookup scenarios sid) (\<lambda>s.
       rbind (require (i_assertion invariant \<in> set (sc_assertions s))) (\<lambda>_.
       rbind (lookup results sid) (\<lambda>row.
       require (list_ex (\<lambda>a. ar_assertion_id a = a_assertion_id (i_assertion invariant))
         (se_assertion_results row)))))) (ce_scenario_ids e) ()))"

definition validate_branch_evidence ::
  "(ident \<times> rule) list \<Rightarrow> (ident \<times> scenario_evaluation) list \<Rightarrow> coverage_evidence \<Rightarrow> unit result" where
  "validate_branch_evidence rules results e =
     (case map_of rules (ce_target_id e) of
        None \<Rightarrow> require False
      | Some r \<Rightarrow>
          (case ce_predicate_index e of
             None \<Rightarrow> Inl TypeError
           | Some index \<Rightarrow>
               rbind (require (index < int (length (r_when r)))) (\<lambda>_.
               rfold (\<lambda>sid _. rbind (lookup results sid) (\<lambda>row.
                 require (list_ex (\<lambda>p. pr_rule_id p = ce_target_id e \<and> pr_predicate_index p = index
                       \<and> Some (pr_matched p) = ce_predicate_outcome e)
                   (et_predicate_results (se_trace row))))) (ce_scenario_ids e) ())))"

definition validate_evidence_item ::
  "(ident \<times> rule) list \<Rightarrow> (ident \<times> invariant) list \<Rightarrow> (ident \<times> scenario) list
   \<Rightarrow> (ident \<times> scenario_evaluation) list \<Rightarrow> coverage_evidence \<Rightarrow> evidence_state \<Rightarrow> evidence_state result" where
  "validate_evidence_item rules invariants scenarios results e st =
     (let key = evidence_key e in
      rbind (require (key \<notin> set (es_keys st))) (\<lambda>_.
        let st = st\<lparr>es_keys := es_keys st @ [key]\<rparr> in
      rbind (require (ce_scenario_ids e \<noteq> [] \<and> distinct (ce_scenario_ids e))) (\<lambda>_.
      rbind (require (set (ce_scenario_ids e) \<subseteq> set (keys scenarios))) (\<lambda>_.
        (case ce_target_kind e of
           TargetRule \<Rightarrow>
             rbind (validate_rule_evidence rules results e) (\<lambda>_.
             Inr (st\<lparr>es_rules := es_rules st @ [ce_target_id e]\<rparr>))
         | TargetInvariant \<Rightarrow>
             rbind (validate_invariant_evidence invariants scenarios results e) (\<lambda>_.
             Inr (st\<lparr>es_invariants := es_invariants st @ [ce_target_id e]\<rparr>))
         | TargetPredicateBranch \<Rightarrow>
             rbind (validate_branch_evidence rules results e) (\<lambda>_.
             Inr (st\<lparr>es_branches := es_branches st @ [key]\<rparr>)))))))"

definition counted :: "int \<Rightarrow> 'a list \<Rightarrow> bool" where
  "counted n xs \<longleftrightarrow> n = int (length (remdups xs))"

definition validate_coverage_counts ::
  "(ident \<times> rule) list \<Rightarrow> (ident \<times> invariant) list \<Rightarrow> coverage_snapshot \<Rightarrow> evidence_state \<Rightarrow> unit result" where
  "validate_coverage_counts rules invariants coverage st =
     rbind (require (counted (cs_covered_rules coverage) (es_rules st)
                     \<and> counted (cs_covered_invariants coverage) (es_invariants st)
                     \<and> counted (cs_covered_predicate_branches coverage) (es_branches st))) (\<lambda>_.
     rbind (require (set (cs_missing_rule_ids coverage) = set (keys rules) - set (es_rules st))) (\<lambda>_.
     rbind (require (set (cs_missing_invariant_ids coverage) = set (keys invariants) - set (es_invariants st))) (\<lambda>_.
     rbind (require (distinct (cs_missing_rule_ids coverage))) (\<lambda>_.
     require (distinct (cs_missing_invariant_ids coverage))))))"

definition validate_evaluation ::
  "(string \<Rightarrow> sha256) \<Rightarrow> evaluation_report \<Rightarrow> evaluate_policy_request \<Rightarrow> evaluation_report result" where
  "validate_evaluation sha value request =
     rbind (validated evaluation_report_checks value) (\<lambda>report.
     rbind (require (er_inputs report = ep_inputs request \<and> er_engine_version report = ep_engine_version request)) (\<lambda>_.
       let scenarios = dict_by sc_scenario_id (ss_scenarios (ep_suite request));
           rules = dict_by r_rule_id (pi_rules (ep_policy request));
           invariants = dict_by i_invariant_id (pc_invariants (ep_contract request));
           results = dict_by se_scenario_id (er_results report);
           coverage = er_coverage report in
     rbind (require (set (map se_scenario_id (er_results report)) = set (keys scenarios))) (\<lambda>_.
     rbind (rfold (\<lambda>row _. validate_row sha scenarios rules (map r_provenance (pi_rules (ep_policy request))) row)
              (er_results report) ()) (\<lambda>_.
     rbind (require (cs_total_rules coverage = int (length rules)
                     \<and> cs_total_invariants coverage = int (length invariants))) (\<lambda>_.
     rbind (require (cs_total_predicate_branches coverage =
                     2 * sum_list (map (\<lambda>entry. int (length (r_when (snd entry)))) rules))) (\<lambda>_.
     rbind (rfold (validate_evidence_item rules invariants scenarios results) (cs_evidence coverage)
              \<lparr>es_keys = [], es_rules = [], es_invariants = [], es_branches = []\<rparr>) (\<lambda>st.
     rbind (validate_coverage_counts rules invariants coverage st) (\<lambda>_.
     Inr report))))))))"

definition minimum_coverage :: "evaluation_report \<Rightarrow> bool" where
  "minimum_coverage report \<longleftrightarrow>
     cs_missing_rule_ids (er_coverage report) = [] \<and> cs_missing_invariant_ids (er_coverage report) = []"

subsection \<open>Findings and metrics\<close>

definition validate_finding ::
  "bool \<Rightarrow> (ident \<times> scenario_evaluation) list \<Rightarrow> ident list \<Rightarrow> (ident \<times> invariant) list
   \<Rightarrow> finding \<Rightarrow> unit result" where
  "validate_finding reviewed rows rules invariants f =
     rbind (require (reviewed \<or> fd_review_status f = Pending)) (\<lambda>_.
     rbind (require (set (fd_scenario_ids f) \<subseteq> set (keys rows))) (\<lambda>_.
     rbind (require (set (fd_rule_ids f) \<subseteq> set rules)) (\<lambda>_.
     rbind (rfold (\<lambda>t _. rbind (lookup rows (tr_scenario_id t)) (\<lambda>row.
              require (tr_trace_sha256 t = et_trace_sha256 (se_trace row)))) (fd_traces f) ()) (\<lambda>_.
     (case fd_invariant_id f of
        Some i \<Rightarrow>
          rbind (require (i \<in> set (keys invariants))) (\<lambda>_.
          rbind (lookup invariants i) (\<lambda>invariant.
          rbind (require (fd_assertion_id f \<in> {None, Some (a_assertion_id (i_assertion invariant))})) (\<lambda>_.
          require (fd_severity f \<noteq> None \<longrightarrow>
            fd_severity f = Some (i_severity invariant) \<and> fd_severity_origin f = Some SessionInvariant))))
      | None \<Rightarrow>
          require (fd_severity f \<noteq> None \<longrightarrow>
            reviewed \<and> fd_review_status f = Accepted \<and> fd_severity_origin f = Some SessionReviewer))))))"

definition validate_findings ::
  "finding_report \<Rightarrow> evaluation_report \<Rightarrow> policy_ir \<Rightarrow> policy_contract \<Rightarrow> bool \<Rightarrow> finding_report result" where
  "validate_findings value evaluation policy contract reviewed =
     rbind (validated finding_report_checks value) (\<lambda>report.
     rbind (require (fr_inputs report = er_inputs evaluation)) (\<lambda>_.
     rbind (require (distinct (map fd_finding_id (fr_findings report)))) (\<lambda>_.
     rbind (rfold (\<lambda>f _. validate_finding reviewed (dict_by se_scenario_id (er_results evaluation))
              (map r_rule_id (pi_rules policy)) (dict_by i_invariant_id (pc_invariants contract)) f)
              (fr_findings report) ()) (\<lambda>_.
     Inr report))))"

definition reviewable_findings :: "finding_report \<Rightarrow> scenario_suite \<Rightarrow> finding list" where
  "reviewable_findings report suite =
     (let visible = map sc_scenario_id (filter (\<lambda>s. sc_partition s = Visible) (ss_scenarios suite)) in
      filter (\<lambda>f. fd_evidence_level f \<noteq> Candidate \<and> fd_finding_type f \<noteq> PotentialLoophole
                  \<and> set (fd_scenario_ids f) \<subseteq> set visible) (fr_findings report))"

definition validate_metrics ::
  "metrics_report \<Rightarrow> evaluation_report \<Rightarrow> finding_report \<Rightarrow> metrics_report result" where
  "validate_metrics value evaluation findings =
     rbind (validated metrics_report_checks value) (\<lambda>report.
     rbind (require (mr_inputs report = er_inputs evaluation \<and> mr_coverage report = er_coverage evaluation)) (\<lambda>_.
     rbind (require (mr_scenario_count report = int (length (er_results evaluation)))) (\<lambda>_.
     rbind (require (mr_unique_finding_count report = int (length (scored_fingerprints findings)))) (\<lambda>_.
       let effects = effect_statuses evaluation; counts = assertion_statuses evaluation;
           states = mr_effect_states report; assertions = mr_assertions report in
     rbind (require (sc_VALUE states = count_of EValue effects \<and> sc_GAP states = count_of EGap effects
         \<and> sc_NOT_APPLICABLE states = count_of ENotApplicable effects
         \<and> sc_CONFLICT states = count_of EConflict effects
         \<and> sc_INCONCLUSIVE states = count_of EInconclusive effects
         \<and> sc_ERROR states = count_of EError effects)) (\<lambda>_.
     rbind (require (ac_passed assertions = count_of APass counts \<and> ac_failed assertions = count_of AFail counts
         \<and> ac_inconclusive assertions = count_of AInconclusive counts
         \<and> ac_error assertions = count_of AError counts)) (\<lambda>_.
     Inr report))))))"

subsection \<open>Proposals\<close>

definition validate_operation :: "(ident \<times> rule) list \<Rightarrow> revision_operation \<Rightarrow> unit result" where
  "validate_operation rules op =
     (case op of
        AddRuleOperation rid draft fids \<Rightarrow> require (rid \<notin> set (keys rules))
      | ReplaceRuleOperation rid expected draft fids \<Rightarrow>
          rbind (require (rid \<in> set (keys rules))) (\<lambda>_.
          rbind (lookup rules rid) (\<lambda>r. require (expected = r_revision r)))
      | AddOverrideOperation rid d target fids \<Rightarrow>
          rbind (require (rid \<in> set (keys rules))) (\<lambda>_. require (target \<in> set (keys rules))))"

definition validate_proposal ::
  "revision_proposal \<Rightarrow> propose_revision_request \<Rightarrow> revision_proposal result" where
  "validate_proposal value request =
     rbind (validated revision_proposal_checks value) (\<lambda>proposal.
     rbind (require (rp_document_sha256 proposal = prq_document_sha256 request
         \<and> rp_rule_set_sha256 proposal = prq_rule_set_sha256 request
         \<and> rp_policy_contract_sha256 proposal = prq_policy_contract_sha256 request
         \<and> rp_suite_sha256 proposal = prq_suite_sha256 request)) (\<lambda>_.
       let accepted = map fdn_finding_id (filter (\<lambda>d. fdn_decision d = Accept) (prq_decisions request)) in
     rbind (require (set (rp_accepted_finding_ids proposal) = set accepted)) (\<lambda>_.
     rbind (require (set (concat (map op_finding_ids (rp_operations proposal))) = set accepted)) (\<lambda>_.
     rbind (rfold (\<lambda>op _. validate_operation (dict_by r_rule_id (pi_rules (prq_policy request))) op)
              (rp_operations proposal) ()) (\<lambda>_.
     Inr proposal)))))"

subsection \<open>Comparisons\<close>

definition assertion_table :: "evaluation_report \<Rightarrow> ((ident \<times> ident) \<times> assertion_status) list" where
  "assertion_table report =
     map (\<lambda>entry. (fst entry, snd (snd entry)))
       (dict_by fst (concat (map (\<lambda>r. map (\<lambda>a. ((se_scenario_id r, ar_assertion_id a), ar_status a))
         (se_assertion_results r)) (er_results report))))"

definition validate_transition ::
  "((ident \<times> ident) \<times> assertion_status) list \<Rightarrow> ((ident \<times> ident) \<times> assertion_status) list
   \<Rightarrow> (ident \<times> scenario) list \<Rightarrow> assertion_transition \<Rightarrow> unit result" where
  "validate_transition old new cases t =
     (let key = (at_scenario_id t, at_assertion_id t) in
      rbind (lookup old key) (\<lambda>earlier.
      rbind (require (at_before t = earlier)) (\<lambda>_.
      rbind (lookup new key) (\<lambda>after.
      rbind (require (at_after t = after)) (\<lambda>_.
      rbind (lookup cases (at_scenario_id t)) (\<lambda>s.
      require (at_protected t = sc_protected s)))))))"

definition bad_effects :: "evaluation_report \<Rightarrow> int" where
  "bad_effects report = int (length (filter bad_status (effect_statuses report)))"

definition validate_acceptance ::
  "compare_revision_request \<Rightarrow> (ident \<times> scenario) list \<Rightarrow> assertion_transition list
   \<Rightarrow> patch_acceptance_report \<Rightarrow> unit result" where
  "validate_acceptance request cases transitions acceptance =
     (let counts = pa_counts acceptance;
          earlier = crq_baseline_evaluation request; after = crq_revised_evaluation request in
      rbind (require (pac_target_findings counts = int (length (rp_accepted_finding_ids (crq_proposal request))))) (\<lambda>_.
      rbind (require (pac_fixed_target_findings counts \<le> pac_target_findings counts)) (\<lambda>_.
      rbind (require (pac_protected_regressions counts =
        int (length (filter (\<lambda>t. at_protected t \<and> at_before t = APass \<and> at_after t \<noteq> APass) transitions)))) (\<lambda>_.
      rbind (rfilter (\<lambda>t. rbind (lookup cases (at_scenario_id t)) (\<lambda>s. Inr (sc_partition s = Holdout))) transitions) (\<lambda>holdout.
      rbind (require (pac_holdout_regressions counts \<le> int (length holdout))) (\<lambda>_.
      rbind (require (pac_baseline_gap_conflict_inconclusive_or_error counts = bad_effects earlier)) (\<lambda>_.
      rbind (require (pac_revised_gap_conflict_inconclusive_or_error counts = bad_effects after)) (\<lambda>_.
      rbind (require (pa_suite_hash_matches acceptance =
        (ih_suite_sha256 (er_inputs earlier) = ih_suite_sha256 (er_inputs after)))) (\<lambda>_.
      rbind (require (pa_all_target_findings_fixed acceptance =
        (pac_target_findings counts = pac_fixed_target_findings counts))) (\<lambda>_.
      rbind (require (pa_zero_new_failures_outside_targets acceptance =
        (pac_new_failures_outside_targets counts = 0))) (\<lambda>_.
      rbind (require (pa_zero_protected_regressions acceptance = (pac_protected_regressions counts = 0))) (\<lambda>_.
      rbind (require (\<not> pa_no_increase_in_gap_conflict_inconclusive_or_error acceptance
        \<or> pac_revised_gap_conflict_inconclusive_or_error counts
          \<le> pac_baseline_gap_conflict_inconclusive_or_error counts)) (\<lambda>_.
      rbind (require (pa_unrelated_rules_unchanged acceptance = (pac_unrelated_rule_changes counts = 0))) (\<lambda>_.
      require (pa_holdout_not_worse acceptance = (pac_holdout_regressions counts = 0))))))))))))))))"

definition validate_comparison_bundle ::
  "comparison_bundle \<Rightarrow> compare_revision_request \<Rightarrow> comparison_bundle result" where
  "validate_comparison_bundle value request =
     rbind (validated comparison_bundle_checks value) (\<lambda>bundle.
       let earlier = crq_baseline_evaluation request; after = crq_revised_evaluation request;
           regression = cb_regression bundle; acceptance = cb_acceptance bundle in
     rbind (require (cb_baseline_inputs bundle = er_inputs earlier \<and> cb_revised_inputs bundle = er_inputs after)) (\<lambda>_.
     rbind (require (rr_baseline_inputs regression = er_inputs earlier
                     \<and> rr_revised_inputs regression = er_inputs after)) (\<lambda>_.
     rbind (require (pa_baseline_inputs acceptance = er_inputs earlier
                     \<and> pa_revised_inputs acceptance = er_inputs after)) (\<lambda>_.
     rbind (validate_metrics (cb_baseline_metrics bundle) earlier (crq_baseline_findings request)) (\<lambda>_.
     rbind (validate_metrics (cb_revised_metrics bundle) after (crq_revised_findings request)) (\<lambda>_.
     rbind (require (rr_baseline_effect_states regression = mr_effect_states (cb_baseline_metrics bundle))) (\<lambda>_.
     rbind (require (rr_revised_effect_states regression = mr_effect_states (cb_revised_metrics bundle))) (\<lambda>_.
       let cases = dict_by sc_scenario_id (ss_scenarios (crq_suite request));
           old = assertion_table earlier; new = assertion_table after;
           transitions = rr_assertion_transitions regression in
     rbind (require (set (map (\<lambda>t. (at_scenario_id t, at_assertion_id t)) transitions) = set (keys old)
                     \<and> set (keys old) = set (keys new))) (\<lambda>_.
     rbind (rfold (\<lambda>t _. validate_transition old new cases t) transitions ()) (\<lambda>_.
     rbind (require (rr_assertion_transition_counts regression = transition_counts transitions)) (\<lambda>_.
     rbind (validate_acceptance request cases transitions acceptance) (\<lambda>_.
     Inr bundle))))))))))))"

end
