(* ===== verification/Views.thy ===== *)
theory Views
  imports Envelopes State_Machine Metrics
begin

section \<open>The public view of a run (workflow/views.py)\<close>

text \<open>
  The projection of a stored run onto what a browser may see. Holdout scenarios appear only as counts;
  suites that are missing, duplicated or not authentic establish no public partition; benchmark
  artifacts do not appear at all; texts of errors, events and findings come from fixed tables.
\<close>

subsection \<open>Fixed texts\<close>

definition private_artifact_types :: "artifact_type list" where
  "private_artifact_types = [BenchmarkManifestArtifact, BenchmarkScoreArtifact]"

fun artifact_title :: "artifact_type \<Rightarrow> string result" where
  "artifact_title PolicyDocumentArtifact = Inr ''Policy source''"
| "artifact_title PolicyIRArtifact = Inr ''Compiled policy''"
| "artifact_title PolicyContractArtifact = Inr ''Confirmed policy contract''"
| "artifact_title ScenarioSuiteArtifact = Inr ''Scenario suite''"
| "artifact_title EvaluationReportArtifact = Inr ''Evaluation report''"
| "artifact_title FindingReportArtifact = Inr ''Finding report''"
| "artifact_title RevisionProposalArtifact = Inr ''Structured revision proposal''"
| "artifact_title RegressionReportArtifact = Inr ''Regression report''"
| "artifact_title PatchAcceptanceReportArtifact = Inr ''Patch acceptance report''"
| "artifact_title ComparisonBundleArtifact = Inr ''Revision comparison''"
| "artifact_title MetricsReportArtifact = Inr ''Metrics report''"
| "artifact_title CoverageSnapshotArtifact = Inr ''Coverage snapshot''"
| "artifact_title RunManifestArtifact = Inr ''Run configuration''"
| "artifact_title BenchmarkManifestArtifact = Inl KeyError"
| "artifact_title BenchmarkScoreArtifact = Inl KeyError"

fun error_message :: "error_code \<Rightarrow> string" where
  "error_message INVALID_INPUT = ''The request input is invalid.''"
| "error_message INVALID_STATE = ''The run is not ready for that action.''"
| "error_message INVALID_POLICY = ''The policy could not be validated.''"
| "error_message INVALID_CITATION = ''A policy citation could not be validated.''"
| "error_message MALFORMED_MODEL_OUTPUT = ''A generated result could not be validated.''"
| "error_message PROVIDER_UNAVAILABLE = ''The model provider is temporarily unavailable.''"
| "error_message COVERAGE_LIMIT_EXCEEDED = ''Required coverage was not reached within the limit.''"
| "error_message HASH_MISMATCH = ''Stored artifact verification failed.''"
| "error_message REVISION_INVALID = ''The proposed revision could not be applied.''"
| "error_message PROSE_COMPILE_MISMATCH = ''The revised wording does not match the structured policy.''"
| "error_message RUN_NOT_FOUND = ''The run was not found.''"
| "error_message INTERNAL_ERROR = ''The run could not be completed.''"

fun finding_text :: "finding_type \<Rightarrow> string" where
  "finding_text StructuralGap = ''Policy behavior has a structural gap.''"
| "finding_text Conflict = ''Policy rules produce conflicting outcomes.''"
| "finding_text IntentBreach = ''Observed behavior breaches a confirmed invariant.''"
| "finding_text Regression = ''A previously passing assertion regressed.''"
| "finding_text UnsupportedClauseFinding = ''A policy clause cannot be evaluated deterministically.''"
| "finding_text PotentialLoophole = ''A possible loophole requires reviewer attention.''"

subsection \<open>Payloads by class\<close>

fun as_policy :: "artifact_payload \<Rightarrow> policy_ir option" where
  "as_policy (PolicyPayload p) = Some p" | "as_policy x = None"

fun as_suite :: "artifact_payload \<Rightarrow> scenario_suite option" where
  "as_suite (SuitePayload p) = Some p" | "as_suite x = None"

fun as_evaluation :: "artifact_payload \<Rightarrow> evaluation_report option" where
  "as_evaluation (EvaluationPayload p) = Some p" | "as_evaluation x = None"

fun as_findings :: "artifact_payload \<Rightarrow> finding_report option" where
  "as_findings (FindingsPayload p) = Some p" | "as_findings x = None"

fun as_metrics :: "artifact_payload \<Rightarrow> metrics_report option" where
  "as_metrics (MetricsPayload p) = Some p" | "as_metrics x = None"

fun as_bundle :: "artifact_payload \<Rightarrow> comparison_bundle option" where
  "as_bundle (BundlePayload p) = Some p" | "as_bundle x = None"

text \<open>\<open>_payloads\<close>: the payloads of one class, in order.\<close>

definition payloads :: "(artifact_payload \<Rightarrow> 'a option) \<Rightarrow> artifact_envelope list \<Rightarrow> 'a list" where
  "payloads f artifacts = List.map_filter (\<lambda>e. f (ae_payload e)) artifacts"

definition last_of :: "'a list \<Rightarrow> 'a option" where
  "last_of xs = (if xs = [] then None else Some (last xs))"

definition first_of :: "'a list \<Rightarrow> 'a option" where
  "first_of xs = (case xs of [] \<Rightarrow> None | x # _ \<Rightarrow> Some x)"

text \<open>\<open>tuple(dict.fromkeys(xs))\<close>: the first occurrence of every item.\<close>

definition unique_first :: "'a list \<Rightarrow> 'a list" where
  "unique_first xs = rev (remdups (rev xs))"

subsection \<open>The frozen suite and its evaluations\<close>

definition frozen_suite :: "(string \<Rightarrow> sha256) \<Rightarrow> artifact_envelope list \<Rightarrow> scenario_suite option result" where
  "frozen_suite sha artifacts =
     (case filter (\<lambda>e. as_suite (ae_payload e) \<noteq> None) artifacts of
        [e] \<Rightarrow>
          (case validate_artifact_envelope sha e of
             Inl (ValueError msg) \<Rightarrow> Inr None
           | Inl TypeError \<Rightarrow> Inr None
           | Inl err \<Rightarrow> Inl err
           | Inr envelope \<Rightarrow>
               (case as_suite (ae_payload envelope) of
                  None \<Rightarrow> Inr None
                | Some suite \<Rightarrow>
                    rbind (digest_of sha (SuitePayload suite)) (\<lambda>own.
                    Inr (if ss_content_sha256 suite = own then Some suite else None))))
      | _ \<Rightarrow> Inr None)"

definition bound_to_suite :: "(string \<Rightarrow> sha256) \<Rightarrow> input_hashes \<Rightarrow> scenario_suite option \<Rightarrow> bool result" where
  "bound_to_suite sha inputs suite =
     (case suite of None \<Rightarrow> Inr False
      | Some s \<Rightarrow> rbind (digest_of sha (SuitePayload s)) (\<lambda>own. Inr (ih_suite_sha256 inputs = own)))"

definition evaluation_policy ::
  "(string \<Rightarrow> sha256) \<Rightarrow> artifact_envelope list \<Rightarrow> evaluation_report \<Rightarrow> policy_ir option result" where
  "evaluation_policy sha artifacts report =
     rbind (rfilter (\<lambda>p. rbind (digest_of sha (PolicyPayload p)) (\<lambda>own.
              Inr (own = ih_policy_sha256 (er_inputs report)))) (payloads as_policy artifacts)) (\<lambda>ps.
     Inr (first_of ps))"

text \<open>The loop of \<open>_phase_evaluations\<close> over baseline, revised and whether a revision was seen.\<close>

fun phase_step ::
  "artifact_payload \<Rightarrow> evaluation_report option \<times> evaluation_report option \<times> bool
   \<Rightarrow> evaluation_report option \<times> evaluation_report option \<times> bool" where
  "phase_step (PolicyPayload p) (baseline, revised, seen) =
     (baseline, revised, seen \<or> pi_kind p = StructuredRevision)"
| "phase_step (EvaluationPayload r) (baseline, revised, seen) =
     (if baseline = None then (Some r, revised, seen)
      else if seen \<and> revised = None then (baseline, Some r, seen)
      else (baseline, revised, seen))"
| "phase_step x st = st"

definition phase_evaluations :: "artifact_envelope list \<Rightarrow> evaluation_report list" where
  "phase_evaluations artifacts =
     (case fold (\<lambda>e. phase_step (ae_payload e)) artifacts (None, None, False) of
        (baseline, revised, seen) \<Rightarrow>
          (case baseline of None \<Rightarrow> [] | Some r \<Rightarrow> [r]) @ (case revised of None \<Rightarrow> [] | Some r \<Rightarrow> [r]))"

definition scenario_ids_in :: "partition \<Rightarrow> scenario_suite option \<Rightarrow> ident list" where
  "scenario_ids_in p suite =
     (case suite of None \<Rightarrow> []
      | Some s \<Rightarrow> map sc_scenario_id (filter (\<lambda>s. sc_partition s = p) (ss_scenarios s)))"

definition holdout_counts :: "evaluation_report \<Rightarrow> ident list \<Rightarrow> effect_state_counts result" where
  "holdout_counts report holdout =
     (let statuses = concat (map (\<lambda>r. if se_scenario_id r \<in> set holdout
                                        then map dr_status (et_resolved_effects (se_trace r)) else [])
                              (er_results report)) in
      validated effect_state_counts_checks
        \<lparr>sc_VALUE = count_of EValue statuses, sc_GAP = count_of EGap statuses,
         sc_NOT_APPLICABLE = count_of ENotApplicable statuses, sc_CONFLICT = count_of EConflict statuses,
         sc_INCONCLUSIVE = count_of EInconclusive statuses, sc_ERROR = count_of EError statuses\<rparr>)"

subsection \<open>Metrics and coverage\<close>

definition public_metrics_of :: "metrics_report \<Rightarrow> public_metrics result" where
  "public_metrics_of m = validated public_metrics_checks
     \<lparr>pm_scenario_count = mr_scenario_count m, pm_effect_states = mr_effect_states m,
      pm_assertions = mr_assertions m, pm_unique_finding_count = mr_unique_finding_count m,
      pm_assertion_pass_percent = mr_assertion_pass_percent m\<rparr>"

definition public_comparison_of :: "comparison_bundle \<Rightarrow> public_comparison_metrics result" where
  "public_comparison_of b =
     (let acceptance = cb_acceptance b in
      rbind (public_metrics_of (cb_baseline_metrics b)) (\<lambda>baseline.
      rbind (public_metrics_of (cb_revised_metrics b)) (\<lambda>revised.
      validated public_comparison_metrics_checks
        \<lparr>pcm_baseline = baseline, pcm_revised = revised,
         pcm_assertion_transition_counts = rr_assertion_transition_counts (cb_regression b),
         pcm_acceptance = acceptance, pcm_patch_accepted = pa_patch_accepted acceptance,
         pcm_protected_regressions = pac_protected_regressions (pa_counts acceptance),
         pcm_new_failures_outside_targets = pac_new_failures_outside_targets (pa_counts acceptance)\<rparr>)))"

fun snapshot_of :: "artifact_payload \<Rightarrow> coverage_snapshot option" where
  "snapshot_of (CoveragePayload c) = Some c"
| "snapshot_of (EvaluationPayload r) = Some (er_coverage r)"
| "snapshot_of x = None"

definition coverage_view ::
  "artifact_envelope list \<Rightarrow> scenario_suite option \<Rightarrow> coverage_counters result" where
  "coverage_view artifacts suite =
     (let c = last_of (payloads snapshot_of artifacts);
          n = (\<lambda>f. case c of None \<Rightarrow> 0 | Some s \<Rightarrow> f s) in
      validated coverage_counters_checks
        \<lparr>cc_total_rules = n cs_total_rules, cc_covered_rules = n cs_covered_rules,
         cc_total_invariants = n cs_total_invariants, cc_covered_invariants = n cs_covered_invariants,
         cc_total_predicate_branches = n cs_total_predicate_branches,
         cc_covered_predicate_branches = n cs_covered_predicate_branches,
         cc_scenario_count = (case suite of None \<Rightarrow> 0 | Some s \<Rightarrow> int (length (ss_scenarios s)))\<rparr>)"

subsection \<open>Findings, traces and rejections\<close>

definition visible_finding :: "ident list \<Rightarrow> finding \<Rightarrow> bool" where
  "visible_finding visible f \<longleftrightarrow> fd_scenario_ids f \<noteq> [] \<and> set (fd_scenario_ids f) \<subseteq> set visible"

definition finding_summary_of :: "finding \<Rightarrow> finding_summary result" where
  "finding_summary_of f = validated finding_summary_checks
     \<lparr>fs_finding_id = fd_finding_id f, fs_finding_type = fd_finding_type f, fs_dimension = fd_dimension f,
      fs_summary = finding_text (fd_finding_type f), fs_severity = fd_severity f,
      fs_review_status = fd_review_status f,
      fs_witness_count = int (length (remdups (fd_scenario_ids f)))\<rparr>"

definition visible_findings ::
  "finding_report option \<Rightarrow> ident list \<Rightarrow> (finding \<times> finding_summary) list result" where
  "visible_findings report visible =
     (case report of None \<Rightarrow> Inr []
      | Some r \<Rightarrow> traverse (\<lambda>f. rbind (finding_summary_of f) (\<lambda>s. Inr (f, s)))
          (filter (visible_finding visible) (fr_findings r)))"

definition baseline_citations :: "policy_ir option \<Rightarrow> (ident \<times> text_rule_provenance) list" where
  "baseline_citations policy =
     (case policy of None \<Rightarrow> []
      | Some p \<Rightarrow> dict_by tp_citation_id
          (List.map_filter (\<lambda>r. case r_provenance r of TextCitation t \<Rightarrow> Some t | _ \<Rightarrow> None) (pi_rules p)))"

definition provenance_spans ::
  "(ident \<times> text_rule_provenance) list \<Rightarrow> rule_provenance \<Rightarrow> source_span list" where
  "provenance_spans citations p =
     (case p of
        TextCitation t \<Rightarrow>
          (case map_of citations (tp_citation_id t) of
             Some canonical \<Rightarrow> if canonical = t then [tp_span canonical] else []
           | None \<Rightarrow> [])
      | SessionRevision s \<Rightarrow>
          (if list_all (\<lambda>c. c \<in> set (keys citations)) (sp_baseline_citation_ids s)
           then map (\<lambda>c. tp_span (the (map_of citations c))) (sp_baseline_citation_ids s) else []))"

definition trace_citations ::
  "rule_provenance list \<Rightarrow> (ident \<times> text_rule_provenance) list \<Rightarrow> policy_ir \<Rightarrow> source_span list" where
  "trace_citations provenances citations evaluated_policy =
     unique_first (concat (map (provenance_spans citations)
       (filter (\<lambda>p. p \<in> set (map r_provenance (pi_rules evaluated_policy))) provenances)))"

definition trace_summary ::
  "trace_phase \<Rightarrow> (ident \<times> text_rule_provenance) list \<Rightarrow> policy_ir \<Rightarrow> scenario_evaluation
   \<Rightarrow> visible_trace_summary result" where
  "trace_summary phase citations policy e =
     (let t = se_trace e in validated visible_trace_summary_checks
        \<lparr>vt_scenario_id = se_scenario_id e, vt_phase = phase, vt_trace_sha256 = et_trace_sha256 t,
         vt_fired_rule_ids = et_fired_rule_ids t, vt_predicate_results = et_predicate_results t,
         vt_resolved_effects = et_resolved_effects t, vt_compliance_values = et_compliance_values t,
         vt_source_citations = trace_citations (et_source_citations t) citations policy\<rparr>)"

definition visible_traces ::
  "(string \<Rightarrow> sha256) \<Rightarrow> artifact_envelope list \<Rightarrow> evaluation_report list \<Rightarrow> ident list
   \<Rightarrow> (ident \<times> text_rule_provenance) list \<Rightarrow> visible_trace_summary list result" where
  "visible_traces sha artifacts evaluations visible citations =
     rbind (traverse (\<lambda>(phase, report).
       rbind (evaluation_policy sha artifacts report) (\<lambda>policy.
         case policy of None \<Rightarrow> Inr []
         | Some p \<Rightarrow> traverse (trace_summary phase citations p)
             (filter (\<lambda>e. se_scenario_id e \<in> set visible) (er_results report))))
       (zip [PhaseBaseline, PhaseRevised] evaluations)) (\<lambda>summaries.
     Inr (concat summaries))"

fun rejection_code_of :: "rejection_reason \<Rightarrow> rejection_code" where
  "rejection_code_of InvalidFacts = RejInvalidFacts"
| "rejection_code_of InvalidAssertion = RejInvalidAssertion"
| "rejection_code_of Duplicate = RejDuplicate"
| "rejection_code_of BudgetExceeded = RejBudgetExceeded"
| "rejection_code_of IncompatibleAssertions = RejIncompatibleAssertions"

definition visible_rejections :: "scenario_suite option \<Rightarrow> ident list \<Rightarrow> rejection_evidence list result" where
  "visible_rejections suite visible =
     (case suite of None \<Rightarrow> Inr []
      | Some s \<Rightarrow> traverse (\<lambda>r. validated rejection_evidence_checks
          \<lparr>rv_item_kind = RejectedScenario, rv_item_id = rj_candidate_id r, rv_source_spans = [],
           rv_reason_code = rejection_code_of (rj_reason_code r),
           rv_disposition = (if rj_reason_code r = Duplicate then DispMergedDuplicate else DispExcluded)\<rparr>)
          (filter (\<lambda>r. rj_candidate_id r \<in> set visible) (st_rejections (ss_statistics s))))"

subsection \<open>Confirmations\<close>

text \<open>\<open>_rule_summary\<close>: no summary for a rule without a text citation.\<close>

definition rule_summary_fields :: "rule \<Rightarrow> text_rule_provenance \<Rightarrow> rule_summary" where
  "rule_summary_fields r t =
     \<lparr>rs_rule_id = r_rule_id r, rs_revision = r_revision r, rs_description = r_description r,
      rs_when = r_when r, rs_effects = r_effects r, rs_overrides = r_overrides r,
      rs_citations = [t], rs_confidence_percent = r_confidence_percent r\<rparr>"

definition rule_summary_view :: "rule \<Rightarrow> rule_summary option result" where
  "rule_summary_view r =
     (case r_provenance r of
        TextCitation t \<Rightarrow> rbind (validated rule_summary_checks (rule_summary_fields r t)) (\<lambda>s. Inr (Some s))
      | SessionRevision s \<Rightarrow> Inr None)"

definition contract_confirmation_view ::
  "contract_confirmation \<Rightarrow> artifact_envelope option \<Rightarrow> contract_confirmation option result" where
  "contract_confirmation_view pending baseline_envelope =
     (case baseline_envelope of
        None \<Rightarrow> Inr None
      | Some e \<Rightarrow>
          (case as_policy (ae_payload e) of
             None \<Rightarrow> Inr None
           | Some policy \<Rightarrow>
               rbind (traverse rule_summary_view (pi_rules policy)) (\<lambda>summaries.
               if None \<in> set summaries then Inr None
               else rbind (validated contract_confirmation_checks
                 \<lparr>cf_baseline_policy_id = pi_policy_id policy, cf_baseline_policy_sha256 = ae_artifact_sha256 e,
                  cf_document_sha256 = pi_document_sha256 policy, cf_rules = map the summaries,
                  cf_invariants = cf_invariants pending,
                  cf_required_dimensions = cf_required_dimensions pending\<rparr>) (\<lambda>c. Inr (Some c)))))"

text \<open>One operation of a pending revision; \<open>None\<close> abandons the whole confirmation.\<close>

definition operation_view ::
  "ident list \<Rightarrow> (ident \<times> rule) list \<Rightarrow> revision_operation_summary
   \<Rightarrow> revision_operation_summary list option \<Rightarrow> revision_operation_summary list option result" where
  "operation_view visible_finding_ids baseline_rules summary st =
     (case st of
        None \<Rightarrow> Inr None
      | Some shown \<Rightarrow>
          let op = ros_operation summary in
          if \<not> set (op_finding_ids op) \<subseteq> set visible_finding_ids then Inr None
          else rbind
            (case op of
               AddRuleOperation rid draft fids \<Rightarrow> Inr (Some None)
             | _ \<Rightarrow>
                 (case map_of baseline_rules (op_rule_id op) of
                    None \<Rightarrow> Inr None
                  | Some r \<Rightarrow> rbind (rule_summary_view r) (\<lambda>s. Inr (map_option Some s))))
            (\<lambda>found. case found of
               None \<Rightarrow> Inr None
             | Some earlier \<Rightarrow>
                 rbind (validated revision_operation_summary_checks \<lparr>ros_operation = op, ros_before = earlier\<rparr>)
                   (\<lambda>s. Inr (Some (shown @ [s])))))"

definition revision_confirmation_view ::
  "revision_confirmation \<Rightarrow> ident list \<Rightarrow> policy_ir option \<Rightarrow> revision_confirmation option result" where
  "revision_confirmation_view pending visible_finding_ids baseline_policy =
     (let baseline_rules = (case baseline_policy of None \<Rightarrow> [] | Some p \<Rightarrow> dict_by r_rule_id (pi_rules p)) in
      rbind (rfold (operation_view visible_finding_ids baseline_rules) (rc_operations pending) (Some []))
        (\<lambda>operations. case operations of
           None \<Rightarrow> Inr None
         | Some ops \<Rightarrow> rbind (validated revision_confirmation_checks
             \<lparr>rc_proposal_id = rc_proposal_id pending, rc_operations = ops,
              rc_draft_policy_wording = rc_draft_policy_wording pending\<rparr>) (\<lambda>c. Inr (Some c))))"

definition pending_confirmation_view ::
  "stored_run \<Rightarrow> (finding \<times> finding_summary) list \<Rightarrow> policy_ir option \<Rightarrow> artifact_envelope option
   \<Rightarrow> pending_confirmation option result" where
  "pending_confirmation_view r projected baseline_policy baseline_envelope =
     (let selectable = filter (\<lambda>f. fd_evidence_level f \<noteq> Candidate) (map fst projected);
          targets = filter (\<lambda>f. fd_review_status f = Accepted) selectable in
      case (rn_stage r, sr_pending_confirmation r) of
        (AwaitingContract, Some (PendingContract c)) \<Rightarrow>
          rbind (contract_confirmation_view c baseline_envelope) (\<lambda>v. Inr (map_option PendingContract v))
      | (AwaitingFindingReview, Some (PendingFindings ids)) \<Rightarrow>
          Inr (Some (PendingFindings (filter (\<lambda>i. i \<in> set (map fd_finding_id selectable)) ids)))
      | (AwaitingRevisionConfirmation, Some (PendingRevision c)) \<Rightarrow>
          rbind (revision_confirmation_view c (map fd_finding_id targets) baseline_policy)
            (\<lambda>v. Inr (map_option PendingRevision v))
      | _ \<Rightarrow> Inr None)"

subsection \<open>Artifacts, events and errors\<close>

fun artifact_count :: "ident list \<Rightarrow> artifact_payload \<Rightarrow> int option result" where
  "artifact_count visible (PolicyPayload p) = Inr (Some (int (length (pi_rules p))))"
| "artifact_count visible (ContractPayload c) = Inr (Some (int (length (pc_invariants c))))"
| "artifact_count visible (SuitePayload s) = Inr (Some (int (length (ss_scenarios s))))"
| "artifact_count visible (EvaluationPayload r) = Inr (Some (int (length (er_results r))))"
| "artifact_count visible (FindingsPayload r) =
     rbind (visible_findings (Some r) visible) (\<lambda>fs. Inr (Some (int (length fs))))"
| "artifact_count visible (ProposalPayload p) = Inr (Some (int (length (rp_operations p))))"
| "artifact_count visible (RegressionPayload r) = Inr (Some (int (length (rr_assertion_transitions r))))"
| "artifact_count visible (AcceptancePayload a) = Inr (Some 7)"
| "artifact_count visible (BundlePayload b) = Inr (Some 7)"
| "artifact_count visible (MetricsPayload m) = Inr (Some (mr_scenario_count m))"
| "artifact_count visible x = Inr None"

definition public_artifact :: "artifact_envelope \<Rightarrow> bool" where
  "public_artifact e \<longleftrightarrow> ae_artifact_type e \<notin> set private_artifact_types"

definition artifact_summary_of ::
  "(string \<Rightarrow> sha256) \<Rightarrow> ident list \<Rightarrow> scenario_suite option \<Rightarrow> artifact_envelope \<Rightarrow> artifact_summary result" where
  "artifact_summary_of sha visible suite e =
     rbind (artifact_title (ae_artifact_type e)) (\<lambda>title.
     rbind (case as_findings (ae_payload e) of None \<Rightarrow> Inr True | Some r \<Rightarrow> bound_to_suite sha (fr_inputs r) suite)
       (\<lambda>bound.
     rbind (artifact_count (if bound then visible else []) (ae_payload e)) (\<lambda>n.
     validated artifact_summary_checks
       \<lparr>as_artifact = envelope_ref e, as_title = title, as_item_count = n\<rparr>)))"

definition events_view :: "stored_run \<Rightarrow> run_event list result" where
  "events_view r =
     (let public = map envelope_ref (filter public_artifact (rn_artifacts r)) in
      traverse (\<lambda>ev. validated run_event_checks
        \<lparr>ev_timestamp = ev_timestamp ev, ev_stage = ev_stage ev, ev_action_summary = stage_summary (ev_stage ev),
         ev_artifact = (case ev_artifact ev of None \<Rightarrow> None | Some a \<Rightarrow> if a \<in> set public then Some a else None),
         ev_error_id = ev_error_id ev\<rparr>) (rn_events r))"

definition error_view :: "public_error option \<Rightarrow> public_error option result" where
  "error_view e =
     (case e of None \<Rightarrow> Inr None
      | Some err \<Rightarrow> rbind (validated public_error_checks
          \<lparr>pe_code = pe_code err, pe_message = error_message (pe_code err),
           pe_error_id = pe_error_id err, pe_retryable = pe_retryable err\<rparr>) (\<lambda>p. Inr (Some p)))"

subsection \<open>Clauses and holdout evidence\<close>

text \<open>The evidence is built without a review status, so it always shows the default one.\<close>

definition clause_view :: "unsupported_clause \<Rightarrow> unsupported_clause_evidence result" where
  "clause_view c = validated unsupported_clause_evidence_checks
     (unsupported_clause.extend (c\<lparr>uc_review_status := Provisional\<rparr>) (unsupported_clause_evidence.fields
       (if uc_review_status c = Provisional then PendingReview else RetainedInconclusive)))"

definition holdout_view ::
  "scenario_suite option \<Rightarrow> ident list \<Rightarrow> ident list \<Rightarrow> policy_ir option \<Rightarrow> evaluation_report list
   \<Rightarrow> holdout_evidence_summary option result" where
  "holdout_view suite visible holdout policy evaluations =
     (case (holdout, suite) of
        (h # hs, Some s) \<Rightarrow>
          rbind (case evaluations of
                   [] \<Rightarrow> validated effect_state_counts_checks
                     \<lparr>sc_VALUE = 0, sc_GAP = 0, sc_NOT_APPLICABLE = 0, sc_CONFLICT = 0, sc_INCONCLUSIVE = 0,
                      sc_ERROR = 0\<rparr>
                 | e # _ \<Rightarrow> holdout_counts e holdout) (\<lambda>baseline.
          rbind (case evaluations of
                   _ # e # _ \<Rightarrow> rbind (holdout_counts e holdout) (\<lambda>c. Inr (Some c))
                 | _ \<Rightarrow> Inr None) (\<lambda>revised.
          rbind (validated holdout_evidence_summary_checks
            \<lparr>he_scenario_count = int (length (remdups holdout)),
             he_unsupported_clause_count =
               (case policy of None \<Rightarrow> 0 | Some p \<Rightarrow> int (length (pi_unsupported_clauses p))),
             he_rejected_rule_count = 0,
             he_rejected_scenario_count = int (length
               (filter (\<lambda>r. rj_candidate_id r \<notin> set visible) (st_rejections (ss_statistics s)))),
             he_baseline_effect_states = baseline, he_revised_effect_states = revised\<rparr>) (\<lambda>h. Inr (Some h))))
      | _ \<Rightarrow> Inr None)"

subsection \<open>The view\<close>

definition optionally :: "('a \<Rightarrow> 'b result) \<Rightarrow> 'a option \<Rightarrow> 'b option result" where
  "optionally f x = (case x of None \<Rightarrow> Inr None | Some a \<Rightarrow> rbind (f a) (\<lambda>b. Inr (Some b)))"

definition unbound_evaluation ::
  "(string \<Rightarrow> sha256) \<Rightarrow> artifact_envelope list \<Rightarrow> scenario_suite option \<Rightarrow> evaluation_report \<Rightarrow> bool result" where
  "unbound_evaluation sha artifacts suite report =
     rbind (bound_to_suite sha (er_inputs report) suite) (\<lambda>bound.
     if \<not> bound then Inr True
     else rbind (evaluation_policy sha artifacts report) (\<lambda>policy. Inr (policy = None)))"

definition baseline_envelope_of :: "artifact_envelope list \<Rightarrow> artifact_envelope option" where
  "baseline_envelope_of artifacts =
     first_of (filter (\<lambda>e. case as_policy (ae_payload e) of None \<Rightarrow> False
                           | Some p \<Rightarrow> pi_kind p = CompiledBaseline) artifacts)"

definition public_clauses ::
  "artifact_envelope list \<Rightarrow> scenario_suite option \<Rightarrow> policy_ir option \<Rightarrow> unsupported_clause list" where
  "public_clauses artifacts suite policy =
     (case policy of
        None \<Rightarrow> []
      | Some p \<Rightarrow>
          if scenario_ids_in Holdout suite = [] \<and> list_all public_artifact artifacts
             \<and> (payloads as_suite artifacts = [] \<or> suite \<noteq> None)
          then pi_unsupported_clauses p else [])"

definition to_run_view :: "(string \<Rightarrow> sha256) \<Rightarrow> stored_run \<Rightarrow> run_view result" where
  "to_run_view sha r =
     (let artifacts = rn_artifacts r;
          baseline_envelope = baseline_envelope_of artifacts;
          baseline_policy = (case baseline_envelope of None \<Rightarrow> None | Some e \<Rightarrow> as_policy (ae_payload e));
          policy = last_of (payloads as_policy artifacts);
          finding_report = last_of (payloads as_findings artifacts);
          comparison = last_of (payloads as_bundle artifacts);
          baseline_metrics = (case payloads as_metrics artifacts of m # _ \<Rightarrow> Some m
                              | [] \<Rightarrow> map_option cb_baseline_metrics comparison) in
      rbind (frozen_suite sha artifacts) (\<lambda>suite.
        let visible = scenario_ids_in Visible suite; holdout = scenario_ids_in Holdout suite in
      rbind (rany (unbound_evaluation sha artifacts suite) (phase_evaluations artifacts)) (\<lambda>unbound.
        let evaluations = (if unbound then [] else phase_evaluations artifacts) in
      rbind (case finding_report of None \<Rightarrow> Inr False | Some f \<Rightarrow> bound_to_suite sha (fr_inputs f) suite) (\<lambda>bound.
      rbind (visible_findings (if bound then finding_report else None) visible) (\<lambda>projected.
      rbind (traverse clause_view (public_clauses artifacts suite policy)) (\<lambda>clauses.
      rbind (holdout_view suite visible holdout policy evaluations) (\<lambda>holdout_evidence.
      rbind (events_view r) (\<lambda>events.
      rbind (traverse (artifact_summary_of sha visible suite) (filter public_artifact artifacts)) (\<lambda>summaries.
      rbind (pending_confirmation_view r projected baseline_policy baseline_envelope) (\<lambda>pending.
      rbind (coverage_view artifacts suite) (\<lambda>coverage.
      rbind (visible_rejections suite visible) (\<lambda>rejections.
      rbind (visible_traces sha artifacts evaluations visible (baseline_citations baseline_policy)) (\<lambda>traces.
      rbind (optionally public_metrics_of baseline_metrics) (\<lambda>metrics.
      rbind (optionally public_comparison_of comparison) (\<lambda>comparison_metrics.
      rbind (error_view (rn_error r)) (\<lambda>err.
      validated run_view_checks
        \<lparr>rw_run_id = rn_run_id r, rw_stage = rn_stage r, rw_allowed_actions = allowed_actions (rn_stage r),
         rw_mode = rm_mode (rn_manifest r), rw_events = events, rw_artifacts = summaries,
         rw_pending_confirmation = pending, rw_coverage = coverage, rw_findings = map snd projected,
         rw_unsupported_clauses = clauses, rw_rejections = rejections, rw_traces = traces,
         rw_holdout_evidence = holdout_evidence, rw_baseline_metrics = metrics,
         rw_comparison_metrics = comparison_metrics,
         rw_terminal_status = (if rn_stage r \<in> set terminal_stages then Some (rn_stage r) else None),
         rw_error = err, rw_decision_at = rn_decision_at r\<rparr>))))))))))))))))"

end
