(* ===== verification/Public_Errors.thy ===== *)
theory Public_Errors
  imports State_Machine
begin

section \<open>Exceptions and their public projection (core/errors.py, api/handlers.py)\<close>

text \<open>
  Every exception a handler of the coordinator can meet, the projection to a public error with fixed
  texts, and the HTTP status of a public error. An exception of a stage that is neither the workflow's,
  nor one of Python's modelled ones, nor a transport failure is \<open>OtherExc\<close>.
\<close>

datatype llm_error_code =
    Timeout | RateLimit | Authentication | InvalidRequest | Unavailable | InvalidResponse | Refusal
  | ScriptExhausted

datatype exc =
    WorkflowExc workflow_error
  | PythonExc py_error
  | LLMConfigurationExc
  | LLMTransportExc llm_error_code
  | OtherExc
  | CancelledExc

type_synonym 'a reply = "exc + 'a"

fun to_public_error :: "exc \<Rightarrow> public_error" where
  "to_public_error LLMConfigurationExc =
     fixed_error PROVIDER_UNAVAILABLE ''The model provider is not configured.'' False"
| "to_public_error (LLMTransportExc code) =
     (if code = InvalidResponse
      then fixed_error MALFORMED_MODEL_OUTPUT ''The model returned malformed output.'' False
      else fixed_error PROVIDER_UNAVAILABLE ''The model provider is unavailable.''
        (code \<in> {Timeout, RateLimit, Unavailable}))"
| "to_public_error e = fixed_error INTERNAL_ERROR ''An internal error occurred.'' False"

text \<open>\<open>ERROR_STATUSES\<close> with its default.\<close>

fun error_status :: "error_code \<Rightarrow> nat" where
  "error_status RUN_NOT_FOUND = 404"
| "error_status INVALID_STATE = 409"
| "error_status HASH_MISMATCH = 409"
| "error_status PROVIDER_UNAVAILABLE = 503"
| "error_status MALFORMED_MODEL_OUTPUT = 502"
| "error_status INTERNAL_ERROR = 500"
| "error_status c = 422"

text \<open>The response to a workflow error: a corrupted cache is no stale decision of the client.\<close>

definition workflow_error_status :: "bool \<Rightarrow> public_error \<Rightarrow> nat" where
  "workflow_error_status creating e =
     (if creating \<and> pe_code e = HASH_MISMATCH then 500 else error_status (pe_code e))"

definition public_of :: "exc \<Rightarrow> public_error" where
  "public_of e =
     (case e of
        WorkflowExc w \<Rightarrow> (case public_error_of w of Some p \<Rightarrow> p | None \<Rightarrow> to_public_error e)
      | _ \<Rightarrow> to_public_error e)"

definition response_status :: "bool \<Rightarrow> exc \<Rightarrow> nat" where
  "response_status creating e =
     (case e of WorkflowExc w \<Rightarrow> workflow_error_status creating (public_of e)
      | _ \<Rightarrow> error_status (pe_code (public_of e)))"

text \<open>How the store's failures and Python's reach a handler.\<close>

fun exc_of :: "workflow_error \<Rightarrow> exc" where
  "exc_of (RaisedByChange e) = PythonExc e"
| "exc_of w = WorkflowExc w"

definition from_store :: "'a outcome \<Rightarrow> 'a reply" where
  "from_store m = (case m of Inl w \<Rightarrow> Inl (exc_of w) | Inr x \<Rightarrow> Inr x)"

definition from_python :: "'a result \<Rightarrow> 'a reply" where
  "from_python m = (case m of Inl e \<Rightarrow> Inl (PythonExc e) | Inr x \<Rightarrow> Inr x)"

definition ebind :: "'a reply \<Rightarrow> ('a \<Rightarrow> 'b reply) \<Rightarrow> 'b reply" where
  "ebind m f = (case m of Inl e \<Rightarrow> Inl e | Inr x \<Rightarrow> f x)"

lemma from_store_Inr [simp]: "from_store m = Inr x \<longleftrightarrow> m = Inr x"
  by (cases m) (simp_all add: from_store_def)

lemma from_python_Inr [simp]: "from_python m = Inr x \<longleftrightarrow> m = Inr x"
  by (cases m) (simp_all add: from_python_def)

lemma ebind_Inr: "ebind m f = Inr y \<longleftrightarrow> (\<exists>x. m = Inr x \<and> f x = Inr y)"
  by (cases m) (simp_all add: ebind_def)

text \<open>Public errors of unexpected failures have fixed texts: no exception text crosses the boundary.\<close>

lemma to_public_error_safe:
  "pe_message (to_public_error e) \<in>
     {''The model provider is not configured.'', ''The model returned malformed output.'',
      ''The model provider is unavailable.'', ''An internal error occurred.''}
   \<and> pe_error_id (to_public_error e) = None \<and> valid_by public_error_checks (to_public_error e)"
  by (cases e) (auto simp: fixed_error_def valid_by_def public_error_checks_def nonempty_text_def)

end
