(* ===== verification/Coordinator.thy ===== *)
theory Coordinator
  imports Workflow_Validation Views Public_Errors Run_Store
begin

section \<open>The run coordinator (workflow/coordinator.py)\<close>

text \<open>
  Every command handler as a program over the store: a tree of store calls and readings of the wall
  clock, each continued with whatever the call returns. Between two calls other coroutines may run,
  and the answer to any call may be a cancellation, so nothing is assumed of the answers. The stages
  the coordinator is given are the record \<open>services\<close> of functions that return a value or raise. The
  table of running tasks decides only which coroutines get cancelled and is not modelled.
\<close>

subsection \<open>Programs\<close>

datatype 'a prog =
    Done 'a
  | Throw exc
  | WallNow "timestamp \<Rightarrow> 'a prog"
  | StoreGet ident "stored_run reply \<Rightarrow> 'a prog"
  | StoreMutate ident int "timestamp \<Rightarrow> mutation" "stored_run reply \<Rightarrow> 'a prog"
  | StoreCreate stored_run "stored_run reply \<Rightarrow> 'a prog"
  | StoreDelete ident "unit reply \<Rightarrow> 'a prog"

primrec pbind :: "'a prog \<Rightarrow> ('a \<Rightarrow> 'b prog) \<Rightarrow> 'b prog" where
  "pbind (Done x) f = f x"
| "pbind (Throw e) f = Throw e"
| "pbind (WallNow k) f = WallNow (\<lambda>t. pbind (k t) f)"
| "pbind (StoreGet i k) f = StoreGet i (\<lambda>m. pbind (k m) f)"
| "pbind (StoreMutate i v c k) f = StoreMutate i v c (\<lambda>m. pbind (k m) f)"
| "pbind (StoreCreate r k) f = StoreCreate r (\<lambda>m. pbind (k m) f)"
| "pbind (StoreDelete i k) f = StoreDelete i (\<lambda>m. pbind (k m) f)"

definition perform :: "'a reply \<Rightarrow> ('a \<Rightarrow> 'b prog) \<Rightarrow> 'b prog" where
  "perform m k = (case m of Inl e \<Rightarrow> Throw e | Inr x \<Rightarrow> k x)"

subsection \<open>The injected stages\<close>

record services =
  sv_ingest :: "create_run_request option \<Rightarrow> policy_document reply"
  sv_compile :: "policy_document \<Rightarrow> policy_compilation reply"
  sv_generate_initial :: "generate_request \<Rightarrow> scenario_candidate list reply"
  sv_generate_targeted :: "generate_targeted_request \<Rightarrow> scenario_candidate list reply"
  sv_assemble_suite :: "assemble_suite_request \<Rightarrow> scenario_suite reply"
  sv_evaluate :: "evaluate_policy_request \<Rightarrow> evaluation_report reply"
  sv_analyze :: "analyze_findings_request \<Rightarrow> finding_report reply"
  sv_metrics :: "metrics_request \<Rightarrow> metrics_report reply"
  sv_propose :: "propose_revision_request \<Rightarrow> revision_proposal reply"
  sv_apply_revision :: "apply_revision_request \<Rightarrow> patch_application_result reply"
  sv_compare :: "compare_revision_request \<Rightarrow> comparison_bundle reply"
  sv_manifest :: "ident \<Rightarrow> run_mode \<Rightarrow> run_manifest reply"
  sv_draft_severity :: severity
  sv_mode :: run_mode
  sv_recording_demo :: bool

text \<open>\<open>Model.model_validate(value)\<close> of what a stage returned.\<close>

definition checked :: "('a \<Rightarrow> (bool \<times> string) list) \<Rightarrow> 'a reply \<Rightarrow> 'a reply" where
  "checked checks m = ebind m (\<lambda>x. from_python (validated checks x))"

text \<open>A stage called with a request, which its constructor validates first.\<close>

definition call :: "('r \<Rightarrow> (bool \<times> string) list) \<Rightarrow> ('r \<Rightarrow> 'a reply) \<Rightarrow> 'r \<Rightarrow> 'a reply" where
  "call checks service request = ebind (from_python (validated checks request)) service"

abbreviation invalid_run_command :: "'a reply" where
  "invalid_run_command \<equiv> Inl (WorkflowExc (InvalidRunCommand None []))"

definition command_of :: "('a \<Rightarrow> (bool \<times> string) list) \<Rightarrow> 'a \<Rightarrow> 'a reply" where
  "command_of checks command =
     (case validated checks command of Inl e \<Rightarrow> invalid_run_command | Inr c \<Rightarrow> Inr c)"

subsection \<open>Artifacts and moves\<close>

definition append_artifact ::
  "(string \<Rightarrow> sha256) \<Rightarrow> artifact_payload \<Rightarrow> stored_run \<Rightarrow> stored_run result" where
  "append_artifact sha payload r =
     (let kind = payload_type payload in
      rbind (require (kind = ScenarioSuiteArtifact \<longrightarrow>
               \<not> list_ex (\<lambda>a. ae_artifact_type a = ScenarioSuiteArtifact) (rn_artifacts r))) (\<lambda>_.
      rbind (make_artifact_envelope sha kind payload (map envelope_ref (rn_artifacts r))
               (rm_manifest_id (rn_manifest r))) (\<lambda>envelope.
      Inr (r\<lparr>rn_artifacts := rn_artifacts r @ [envelope]\<rparr>))))"

definition move_change ::
  "(string \<Rightarrow> sha256) \<Rightarrow> run_stage \<Rightarrow> artifact_payload list \<Rightarrow> (stored_run \<Rightarrow> stored_run)
   \<Rightarrow> timestamp \<Rightarrow> mutation" where
  "move_change sha stage artifacts changes now current =
     (case rfold (append_artifact sha) artifacts (changes current) of
        Inl e \<Rightarrow> Inl (RaisedByChange e)
      | Inr r \<Rightarrow>
          (case transition_to r stage now
                  (if artifacts = [] then None else Some (envelope_ref (last (rn_artifacts r)))) of
             Inl e \<Rightarrow> Inl e
           | Inr r' \<Rightarrow> Inr (Some r')))"

definition move ::
  "(string \<Rightarrow> sha256) \<Rightarrow> stored_run \<Rightarrow> run_stage \<Rightarrow> artifact_payload list \<Rightarrow> (stored_run \<Rightarrow> stored_run)
   \<Rightarrow> (stored_run reply \<Rightarrow> 'a prog) \<Rightarrow> 'a prog" where
  "move sha r stage artifacts changes k =
     StoreMutate (rn_run_id r) (sr_version r) (move_change sha stage artifacts changes) k"

definition unchanged :: "stored_run \<Rightarrow> stored_run" where
  "unchanged r = r"

definition no_pending :: "stored_run \<Rightarrow> stored_run" where
  "no_pending r = r\<lparr>sr_pending_confirmation := None\<rparr>"

definition at_stage :: "ident \<Rightarrow> run_stage \<Rightarrow> (stored_run \<Rightarrow> 'a prog) \<Rightarrow> 'a prog" where
  "at_stage run_id stage k =
     StoreGet run_id (\<lambda>m. perform m (\<lambda>r.
       if rn_stage r \<noteq> stage
       then Throw (WorkflowExc (InvalidRunState (Some (rn_stage r)) (allowed_actions (rn_stage r))))
       else k r))"

text \<open>The last payload of a kind.\<close>

definition payload_of ::
  "(artifact_payload \<Rightarrow> 'a option) \<Rightarrow> artifact_type \<Rightarrow> stored_run \<Rightarrow> 'a reply" where
  "payload_of f kind r =
     (case find (\<lambda>a. ae_artifact_type a = kind) (rev (rn_artifacts r)) of
        None \<Rightarrow> Inl (PythonExc StopIteration)
      | Some a \<Rightarrow> (case f (ae_payload a) of None \<Rightarrow> Inl (PythonExc AttributeError) | Some x \<Rightarrow> Inr x))"

fun as_contract :: "artifact_payload \<Rightarrow> policy_contract option" where
  "as_contract (ContractPayload c) = Some c" | "as_contract x = None"

fun as_proposal :: "artifact_payload \<Rightarrow> revision_proposal option" where
  "as_proposal (ProposalPayload c) = Some c" | "as_proposal x = None"

subsection \<open>Failures\<close>

definition failure_error :: "exc \<Rightarrow> public_error" where
  "failure_error e =
     (let p = (case e of
                 WorkflowExc w \<Rightarrow> public_of e
               | PythonExc (ValueError msg) \<Rightarrow>
                   fixed_error MALFORMED_MODEL_OUTPUT ''A workflow stage returned invalid evidence.'' False
               | PythonExc TypeError \<Rightarrow>
                   fixed_error MALFORMED_MODEL_OUTPUT ''A workflow stage returned invalid evidence.'' False
               | _ \<Rightarrow> to_public_error e) in
      fixed_error (pe_code p) ''The workflow could not complete this stage.'' (pe_retryable p))"

text \<open>
  \<open>_failure\<close>, then the rest of the handler; a cancelled coroutine raises again. A run that was deleted,
  has expired or moved on is left alone.
\<close>

definition failure ::
  "(string \<Rightarrow> sha256) \<Rightarrow> stored_run \<Rightarrow> exc \<Rightarrow> 'a prog \<Rightarrow> 'a prog" where
  "failure sha r e rest =
     (let continue = (if e = CancelledExc then Throw CancelledExc else rest) in
      move sha r Failed []
        (\<lambda>c. c\<lparr>rn_error := Some (failure_error (if e = CancelledExc then OtherExc else e)),
                sr_pending_confirmation := None, sr_source_request := None\<rparr>)
        (\<lambda>m. case m of Inl (WorkflowExc w) \<Rightarrow> continue | Inl x \<Rightarrow> Throw x | Inr _ \<Rightarrow> continue))"

text \<open>One step of the body of a \<open>try\<close> block: on an exception the run fails.\<close>

definition attempt ::
  "(string \<Rightarrow> sha256) \<Rightarrow> stored_run \<Rightarrow> 'b prog \<Rightarrow> 'a reply \<Rightarrow> ('a \<Rightarrow> 'b prog) \<Rightarrow> 'b prog" where
  "attempt sha r rest m k = (case m of Inl e \<Rightarrow> failure sha r e rest | Inr x \<Rightarrow> k x)"

definition attempt_move ::
  "(string \<Rightarrow> sha256) \<Rightarrow> stored_run \<Rightarrow> 'b prog \<Rightarrow> run_stage \<Rightarrow> artifact_payload list
   \<Rightarrow> (stored_run \<Rightarrow> stored_run) \<Rightarrow> (stored_run \<Rightarrow> 'b prog) \<Rightarrow> 'b prog" where
  "attempt_move sha r rest stage artifacts changes k =
     move sha r stage artifacts changes (\<lambda>m. attempt sha r rest m k)"

subsection \<open>Reading and deleting\<close>

definition get_run_view :: "(string \<Rightarrow> sha256) \<Rightarrow> ident \<Rightarrow> run_view prog" where
  "get_run_view sha run_id =
     StoreGet run_id (\<lambda>m. perform m (\<lambda>r. perform (from_python (to_run_view sha r)) Done))"

definition delete_run_command :: "ident \<Rightarrow> unit prog" where
  "delete_run_command run_id = StoreDelete run_id (\<lambda>m. perform m Done)"

subsection \<open>Creating a live run\<close>

definition demo_command :: "create_run_request \<Rightarrow> bool" where
  "demo_command c \<longleftrightarrow> cq_source_type c = BundledSample \<and> cq_sample_id c = Some ''development-policy''"

definition new_run :: "ident \<Rightarrow> run_manifest \<Rightarrow> timestamp \<Rightarrow> create_run_request \<Rightarrow> stored_run" where
  "new_run run_id manifest now command =
     \<lparr>rn_run_id = run_id, rn_stage = Queued, rn_manifest = manifest, rn_created_at = now,
      rn_expires_at = now + 3600 * 1000000, rn_artifacts = [], rn_events = [], rn_finding_decisions = [],
      rn_decision_at = None, rn_error = None, sr_version = 0, sr_source_request = Some command,
      sr_pending_confirmation = None\<rparr>"

text \<open>
  The branch of \<open>create_run\<close> that starts a new run, with the identifier the factory returned and the
  identifiers used so far; what it returns first is the identifiers used after.
\<close>

definition create_live_run ::
  "(string \<Rightarrow> sha256) \<Rightarrow> services \<Rightarrow> ident set \<Rightarrow> ident \<Rightarrow> create_run_request \<Rightarrow> ident set \<times> ident prog" where
  "create_live_run sha sv used run_id command =
     (if run_id \<in> used then (used, Throw (WorkflowExc (InvalidRunCommand None [])))
      else (insert run_id used,
        perform (checked run_manifest_checks (sv_manifest sv run_id (sv_mode sv))) (\<lambda>manifest.
        if rm_run_id manifest \<noteq> run_id \<or> rm_mode manifest \<noteq> sv_mode sv
        then Throw (WorkflowExc (InvalidRunCommand None []))
        else WallNow (\<lambda>now.
          perform (from_python (validated stored_run_checks (new_run run_id manifest now command))) (\<lambda>r.
          perform (from_python (append_artifact sha (ManifestPayload manifest) r)) (\<lambda>r.
          StoreCreate r (\<lambda>m. perform m (\<lambda>_. Done run_id))))))))"

subsection \<open>Ingestion and compilation\<close>

definition rule_summary_of :: "rule \<Rightarrow> rule_summary result" where
  "rule_summary_of r =
     (case r_provenance r of
        TextCitation t \<Rightarrow> validated rule_summary_checks (rule_summary_fields r t)
      | SessionRevision s \<Rightarrow> Inl (ValueError ''RuleSummary''))"

definition provisional_compilation :: "policy_document \<Rightarrow> policy_compilation \<Rightarrow> unit reply" where
  "provisional_compilation document compilation =
     (let policy = pcomp_policy compilation in
      if pi_document_sha256 policy \<noteq> pd_document_sha256 document \<or> pi_kind policy \<noteq> CompiledBaseline
         \<or> pi_review_status policy \<noteq> Provisional
         \<or> \<not> (3 \<le> length (pcomp_invariant_drafts compilation) \<and> length (pcomp_invariant_drafts compilation) \<le> 5)
      then Inl (PythonExc (ValueError ''invalid provisional compilation'')) else Inr ())"

definition with_clause_status :: "review_status \<Rightarrow> policy_ir \<Rightarrow> policy_ir" where
  "with_clause_status status p =
     p\<lparr>pi_unsupported_clauses := map (\<lambda>c. c\<lparr>uc_review_status := status\<rparr>) (pi_unsupported_clauses p)\<rparr>"

definition draft_summary :: "severity \<Rightarrow> invariant_suggestion \<Rightarrow> invariant_summary result" where
  "draft_summary severity i = validated invariant_summary_checks
     \<lparr>is_invariant_id = s_invariant_id i, is_description = s_description i, is_when = s_when i,
      is_assertion = s_assertion i, is_severity = severity\<rparr>"

definition pending_contract ::
  "(string \<Rightarrow> sha256) \<Rightarrow> services \<Rightarrow> policy_document \<Rightarrow> policy_compilation \<Rightarrow> policy_ir
   \<Rightarrow> contract_confirmation reply" where
  "pending_contract sha sv document compilation policy =
     from_python
       (rbind (traverse (draft_summary (sv_draft_severity sv)) (pcomp_invariant_drafts compilation)) (\<lambda>invariants.
        rbind (digest_of sha (PolicyPayload policy)) (\<lambda>policy_sha256.
        rbind (traverse rule_summary_of (pi_rules policy)) (\<lambda>rules.
        validated contract_confirmation_checks
          \<lparr>cf_baseline_policy_id = pi_policy_id policy, cf_baseline_policy_sha256 = policy_sha256,
           cf_document_sha256 = pd_document_sha256 document, cf_rules = rules, cf_invariants = invariants,
           cf_required_dimensions =
             set (map (a_dimension \<circ> is_assertion) invariants
                  @ concat (map (\<lambda>r. effect_dims (r_effects r)) (pi_rules policy)))\<rparr>))))"

definition start_run :: "(string \<Rightarrow> sha256) \<Rightarrow> services \<Rightarrow> ident \<Rightarrow> unit prog" where
  "start_run sha sv run_id =
     at_stage run_id Queued (\<lambda>r0.
     move sha r0 Ingesting [] unchanged (\<lambda>m. perform m (\<lambda>r1.
     attempt sha r1 (Done ()) (checked policy_document_checks (sv_ingest sv (sr_source_request r1))) (\<lambda>document.
     attempt_move sha r1 (Done ()) Extracting [DocumentPayload document]
       (\<lambda>r. r\<lparr>sr_source_request := None\<rparr>) (\<lambda>r2.
     attempt sha r2 (Done ()) (checked policy_compilation_checks
         (call policy_document_checks (sv_compile sv) document)) (\<lambda>compilation.
     attempt sha r2 (Done ()) (provisional_compilation document compilation) (\<lambda>_.
     attempt sha r2 (Done ()) (from_python (validated policy_ir_checks
         (with_clause_status Provisional (pcomp_policy compilation)))) (\<lambda>policy.
     attempt sha r2 (Done ()) (pending_contract sha sv document compilation policy) (\<lambda>pending.
     attempt_move sha r2 (Done ()) AwaitingContract [PolicyPayload policy]
       (\<lambda>r. r\<lparr>sr_pending_confirmation := Some (PendingContract pending)\<rparr>) (\<lambda>_. Done ()))))))))))"

subsection \<open>Suites and evaluations\<close>

definition evaluate_stage ::
  "(string \<Rightarrow> sha256) \<Rightarrow> services \<Rightarrow> stored_run \<Rightarrow> policy_ir \<Rightarrow> policy_contract \<Rightarrow> scenario_suite
   \<Rightarrow> evaluation_report reply" where
  "evaluate_stage sha sv r policy contract suite =
     ebind (from_python (input_hashes_of sha policy contract suite (rn_manifest r))) (\<lambda>inputs.
     ebind (from_python (validated evaluate_policy_checks
       \<lparr>ep_policy = policy, ep_contract = contract, ep_suite = suite, ep_inputs = inputs,
        ep_engine_version = rm_engine_version (rn_manifest r)\<rparr>)) (\<lambda>request.
     ebind (sv_evaluate sv request) (\<lambda>report.
     from_python (validate_evaluation sha report request))))"

text \<open>A scenario of the suite against the candidates with its facts and partition.\<close>

definition assembled_from :: "scenario_candidate list \<Rightarrow> scenario \<Rightarrow> bool" where
  "assembled_from candidates s \<longleftrightarrow>
     (let sources = filter (\<lambda>c. sc_facts c = sc_facts s \<and> sc_partition c = sc_partition s) candidates in
      sources \<noteq> []
      \<and> sc_origins s \<subseteq> \<Union> (set (map sc_origins sources))
      \<and> set (sc_assertions s) \<subseteq> set (concat (map sc_assertions sources))
      \<and> set (sc_target_rule_ids s) \<subseteq> set (concat (map sc_target_rule_ids sources))
      \<and> set (sc_target_invariant_ids s) \<subseteq> set (concat (map sc_target_invariant_ids sources))
      \<and> sc_protected s = list_ex sc_protected sources)"

definition suite_statistics_ok :: "scenario_suite \<Rightarrow> bool" where
  "suite_statistics_ok suite \<longleftrightarrow>
     (let t = ss_statistics suite in
      st_rejected_count t = int (length (st_rejections t))
      \<and> st_duplicate_count t = int (length (filter (\<lambda>r. rj_reason_code r = Duplicate) (st_rejections t)))
      \<and> (if st_generated_count t \<noteq> 0
          then st_generated_count t = int (length (ss_scenarios suite)) + st_rejected_count t
          else st_rejections t = []))"

definition assemble_stage ::
  "(string \<Rightarrow> sha256) \<Rightarrow> services \<Rightarrow> stored_run \<Rightarrow> policy_ir \<Rightarrow> policy_contract \<Rightarrow> scenario_candidate list
   \<Rightarrow> scenario_suite reply" where
  "assemble_stage sha sv r policy contract candidates =
     ebind (from_python (digest_of sha (ContractPayload contract))) (\<lambda>contract_sha256.
     ebind (from_python (semantic_of sha (PolicyPayload policy))) (\<lambda>rules_sha256.
     ebind (from_python (validated assemble_suite_checks
       \<lparr>as_suite_id = ''suite-'' @ rn_run_id r, as_document_sha256 = pi_document_sha256 policy,
        as_policy_contract_sha256 = contract_sha256, as_rule_set_sha256 = rules_sha256,
        as_engine_version = rm_engine_version (rn_manifest r), as_seed = rm_random_seed (rn_manifest r),
        as_candidates = candidates\<rparr>)) (\<lambda>request.
     ebind (sv_assemble_suite sv request) (\<lambda>value.
     from_python
       (rbind (validate_suite sha value policy contract (rn_manifest r) (Some (as_suite_id request))
                 (Some (length candidates))) (\<lambda>suite.
        rbind (require (list_all (assembled_from candidates) (ss_scenarios suite))) (\<lambda>_.
        rbind (require (suite_statistics_ok suite)) (\<lambda>_. Inr suite))))))))"

definition findings_stage ::
  "services \<Rightarrow> policy_ir \<Rightarrow> policy_contract \<Rightarrow> scenario_suite \<Rightarrow> evaluation_report \<Rightarrow> finding_report reply" where
  "findings_stage sv policy contract suite report =
     ebind (call analyze_findings_checks (sv_analyze sv)
       \<lparr>af_policy = policy, af_contract = contract, af_suite = suite, af_evaluation = report\<rparr>) (\<lambda>findings.
     from_python (validate_findings findings report policy contract False))"

subsection \<open>Confirming the contract and running the baseline\<close>

text \<open>What a handler replies, and the continuation it scheduled when it was given a scheduler.\<close>

type_synonym handled = "run_view \<times> run_view prog option"

definition finish :: "run_view prog \<Rightarrow> handled prog" where
  "finish p = pbind p (\<lambda>v. Done (v, None))"

text \<open>
  With a scheduler the view of the moved record is returned and the work is left to the continuation;
  without one the handler goes on itself.
\<close>

definition scheduled ::
  "(string \<Rightarrow> sha256) \<Rightarrow> bool \<Rightarrow> stored_run \<Rightarrow> run_view prog \<Rightarrow> handled prog" where
  "scheduled sha schedule r work =
     (if schedule then perform (from_python (to_run_view sha r)) (\<lambda>v. Done (v, Some work)) else finish work)"

definition targeted_budget :: "scenario_suite \<Rightarrow> int" where
  "targeted_budget suite = min 5 (15 - int (length (ss_scenarios suite)))"

text \<open>From the suite that covers enough to the end of the baseline.\<close>

definition freeze_and_analyze ::
  "(string \<Rightarrow> sha256) \<Rightarrow> services \<Rightarrow> policy_ir \<Rightarrow> policy_contract \<Rightarrow> run_view prog
   \<Rightarrow> stored_run \<Rightarrow> scenario_suite \<Rightarrow> run_view prog" where
  "freeze_and_analyze sha sv policy contract rest r suite =
     attempt_move sha r rest FreezingSuite [SuitePayload suite] unchanged (\<lambda>r.
     attempt_move sha r rest BaselineExecution [] unchanged (\<lambda>r.
     attempt sha r rest (evaluate_stage sha sv r policy contract suite) (\<lambda>report.
     attempt sha r rest (if minimum_coverage report then Inr ()
                         else Inl (PythonExc (ValueError ''frozen coverage changed''))) (\<lambda>_.
     attempt_move sha r rest Analyzing [EvaluationPayload report] unchanged (\<lambda>r.
     attempt sha r rest (findings_stage sv policy contract suite report) (\<lambda>findings.
     attempt sha r rest
       (ebind (sv_metrics sv \<lparr>mq_evaluation = report, mq_findings = findings\<rparr>) (\<lambda>value.
        from_python (validate_metrics value report findings))) (\<lambda>metrics.
       let visible = reviewable_findings findings suite in
     attempt_move sha r rest (if visible \<noteq> [] then AwaitingFindingReview else CompletedNoFindings)
       [FindingsPayload findings, MetricsPayload metrics]
       (\<lambda>c. c\<lparr>sr_pending_confirmation :=
          if visible \<noteq> [] then Some (PendingFindings (map fd_finding_id visible)) else None\<rparr>)
       (\<lambda>_. rest))))))))"

definition continue_baseline ::
  "(string \<Rightarrow> sha256) \<Rightarrow> services \<Rightarrow> stored_run \<Rightarrow> policy_ir \<Rightarrow> policy_contract \<Rightarrow> run_view prog" where
  "continue_baseline sha sv r0 policy contract =
     (let rest = get_run_view sha (rn_run_id r0);
          request = \<lparr>gr_policy = policy, gr_contract = contract, gr_seed = rm_random_seed (rn_manifest r0),
                     gr_scenario_budget = 10\<rparr> in
      attempt sha r0 rest
        (ebind (call generate_initial_checks (sv_generate_initial sv) request) (\<lambda>batch.
         from_python (validate_batch batch 10 policy contract))) (\<lambda>candidates.
      attempt_move sha r0 rest ProvisionalExecution [] unchanged (\<lambda>r1.
      attempt sha r1 rest (assemble_stage sha sv r1 policy contract candidates) (\<lambda>suite.
      attempt sha r1 rest (evaluate_stage sha sv r1 policy contract suite) (\<lambda>report.
      if minimum_coverage report then freeze_and_analyze sha sv policy contract rest r1 suite
      else attempt_move sha r1 rest TargetingCoverage [CoveragePayload (er_coverage report)] unchanged (\<lambda>r2.
        let budget = targeted_budget suite;
            again = generate_request.extend (request\<lparr>gr_scenario_budget := budget\<rparr>)
              (generate_targeted_request.fields candidates (er_coverage report) 1) in
      attempt sha r2 rest
        (ebind (call generate_targeted_checks (sv_generate_targeted sv) again) (\<lambda>batch.
         from_python (validate_batch batch budget policy contract))) (\<lambda>targeted.
      attempt sha r2 rest
        (from_python (rbind (validated scenario_batch_checks (candidates @ targeted)) (\<lambda>all.
          validate_batch all 15 policy contract))) (\<lambda>_.
      attempt sha r2 rest (assemble_stage sha sv r2 policy contract (candidates @ targeted)) (\<lambda>suite.
      attempt sha r2 rest (evaluate_stage sha sv r2 policy contract suite) (\<lambda>report.
      if minimum_coverage report then freeze_and_analyze sha sv policy contract rest r2 suite
      else attempt_move sha r2 rest CoverageLimit [CoveragePayload (er_coverage report)] unchanged
        (\<lambda>_. rest)))))))))))"

definition confirmed_invariant :: "invariant_summary \<Rightarrow> invariant result" where
  "confirmed_invariant i =
     rbind (validated assertion_checks
       (assertion_content.extend (is_assertion i)
         (assertion.fields OriginSessionConfirmed (Some (is_invariant_id i)) None None))) (\<lambda>a.
     validated invariant_checks
       \<lparr>i_invariant_id = is_invariant_id i, i_description = is_description i, i_when = is_when i,
        i_assertion = a, i_severity = is_severity i\<rparr>)"

definition confirmed_contract ::
  "(string \<Rightarrow> sha256) \<Rightarrow> confirm_contract_request \<Rightarrow> policy_contract result" where
  "confirmed_contract sha command =
     rbind (traverse confirmed_invariant (ccr_invariants command)) (\<lambda>invariants.
     rbind (canonical_sha256 sha
       (PMap [(Some ''invariants'', seq_obj invariant_obj invariants),
              (Some ''required_dimensions'', dimensions_obj (ccr_required_dimensions command))])) (\<lambda>h.
     validated policy_contract_checks
       \<lparr>pc_contract_id = ''contract-'' @ h, pc_required_dimensions = ccr_required_dimensions command,
        pc_invariants = invariants\<rparr>))"

definition run_baseline ::
  "(string \<Rightarrow> sha256) \<Rightarrow> services \<Rightarrow> bool \<Rightarrow> stored_run \<Rightarrow> confirm_contract_request \<Rightarrow> handled prog" where
  "run_baseline sha sv schedule r command =
     perform (payload_of as_policy PolicyIRArtifact r) (\<lambda>drafted.
     perform (from_python (validated policy_ir_checks
       ((with_clause_status SessionConfirmed drafted)\<lparr>pi_review_status := SessionConfirmed\<rparr>))) (\<lambda>policy.
     perform (from_python (confirmed_contract sha command)) (\<lambda>contract.
     move sha r GeneratingInitialTests [PolicyPayload policy, ContractPayload contract] no_pending (\<lambda>m.
     perform m (\<lambda>r. scheduled sha schedule r (continue_baseline sha sv r policy contract))))))"

definition confirm_contract ::
  "(string \<Rightarrow> sha256) \<Rightarrow> services \<Rightarrow> bool \<Rightarrow> ident \<Rightarrow> confirm_contract_request \<Rightarrow> handled prog" where
  "confirm_contract sha sv schedule run_id request =
     perform (command_of confirm_contract_checks request) (\<lambda>command.
     at_stage run_id AwaitingContract (\<lambda>r.
     if ccr_decision command = DecisionReject
     then move sha r ContractRejected [] no_pending (\<lambda>m. perform m (\<lambda>_. finish (get_run_view sha run_id)))
     else case sr_pending_confirmation r of
       Some (PendingContract pending) \<Rightarrow>
         if ccr_baseline_policy_id command \<noteq> Some (cf_baseline_policy_id pending)
            \<or> ccr_baseline_policy_sha256 command \<noteq> Some (cf_baseline_policy_sha256 pending)
         then Throw (WorkflowExc (StaleArtifact None []))
         else run_baseline sha sv schedule r command
     | _ \<Rightarrow> Throw (PythonExc AttributeError)))"

subsection \<open>Reviewing findings and drafting a revision\<close>

text \<open>A finding with its decision; the severity comes from the invariant or from the reviewer.\<close>

definition reviewed_finding ::
  "(ident \<times> finding_decision) list \<Rightarrow> (ident \<times> invariant) list \<Rightarrow> finding \<Rightarrow> finding reply" where
  "reviewed_finding decisions invariants f =
     (case map_of decisions (fd_finding_id f) of
        None \<Rightarrow> Inr f
      | Some d \<Rightarrow>
          ebind
            (if fdn_decision d = Reject then
               (if fdn_reviewer_severity d \<noteq> None then invalid_run_command
                else Inr (f\<lparr>fd_review_status := Rejected\<rparr>))
             else case fd_invariant_id f of
               Some i \<Rightarrow>
                 ebind (from_python (lookup invariants i)) (\<lambda>invariant.
                 if fdn_reviewer_severity d \<noteq> None \<and> fdn_reviewer_severity d \<noteq> Some (i_severity invariant)
                 then invalid_run_command
                 else Inr (f\<lparr>fd_review_status := Accepted, fd_severity := Some (i_severity invariant),
                             fd_severity_origin := Some SessionInvariant\<rparr>))
             | None \<Rightarrow>
                 if fd_finding_type f \<in> {StructuralGap, Conflict} then
                   (if fdn_reviewer_severity d = None then invalid_run_command
                    else Inr (f\<lparr>fd_review_status := Accepted, fd_severity := fdn_reviewer_severity d,
                                fd_severity_origin := Some SessionReviewer\<rparr>))
                 else if fdn_reviewer_severity d \<noteq> None then invalid_run_command
                 else Inr (f\<lparr>fd_review_status := Accepted\<rparr>))
            (\<lambda>g. from_python (validated finding_checks g)))"

fun etraverse :: "('a \<Rightarrow> 'b reply) \<Rightarrow> 'a list \<Rightarrow> 'b list reply" where
  "etraverse f [] = Inr []"
| "etraverse f (x # xs) = ebind (f x) (\<lambda>y. ebind (etraverse f xs) (\<lambda>ys. Inr (y # ys)))"

definition operation_summary :: "(ident \<times> rule) list \<Rightarrow> revision_operation \<Rightarrow> revision_operation_summary result" where
  "operation_summary rules op =
     (case op of
        AddRuleOperation rid draft fids \<Rightarrow>
          validated revision_operation_summary_checks \<lparr>ros_operation = op, ros_before = None\<rparr>
      | _ \<Rightarrow>
          rbind (lookup rules (op_rule_id op)) (\<lambda>r.
          rbind (rule_summary_of r) (\<lambda>s.
          validated revision_operation_summary_checks \<lparr>ros_operation = op, ros_before = Some s\<rparr>)))"

definition pending_revision :: "policy_ir \<Rightarrow> revision_proposal \<Rightarrow> revision_confirmation result" where
  "pending_revision policy proposal =
     rbind (traverse (operation_summary (dict_by r_rule_id (pi_rules policy))) (rp_operations proposal)) (\<lambda>operations.
     validated revision_confirmation_checks
       \<lparr>rc_proposal_id = rp_proposal_id proposal, rc_operations = operations,
        rc_draft_policy_wording = rp_draft_policy_wording proposal\<rparr>)"

definition propose_request ::
  "(string \<Rightarrow> sha256) \<Rightarrow> policy_ir \<Rightarrow> policy_contract \<Rightarrow> scenario_suite \<Rightarrow> finding_report
   \<Rightarrow> finding_decision list \<Rightarrow> propose_revision_request result" where
  "propose_request sha policy contract suite findings decisions =
     rbind (semantic_of sha (PolicyPayload policy)) (\<lambda>rules_sha256.
     rbind (digest_of sha (ContractPayload contract)) (\<lambda>contract_sha256.
     rbind (digest_of sha (SuitePayload suite)) (\<lambda>suite_sha256.
     validated propose_revision_checks
       \<lparr>prq_policy = policy, prq_contract = contract, prq_suite = suite, prq_findings = findings,
        prq_decisions = decisions, prq_document_sha256 = pi_document_sha256 policy,
        prq_rule_set_sha256 = rules_sha256, prq_policy_contract_sha256 = contract_sha256,
        prq_suite_sha256 = suite_sha256\<rparr>)))"

definition continue_revision ::
  "(string \<Rightarrow> sha256) \<Rightarrow> services \<Rightarrow> stored_run \<Rightarrow> policy_ir \<Rightarrow> policy_contract \<Rightarrow> scenario_suite
   \<Rightarrow> finding_report \<Rightarrow> finding list \<Rightarrow> finding_decision list \<Rightarrow> run_view prog" where
  "continue_revision sha sv r policy contract suite reviewed accepted decisions =
     (let rest = get_run_view sha (rn_run_id r) in
      attempt sha r rest
        (from_python (propose_request sha policy contract suite (reviewed\<lparr>fr_findings := accepted\<rparr>)
           (filter (\<lambda>d. fdn_decision d = Accept) decisions))) (\<lambda>request.
      attempt sha r rest
        (ebind (sv_propose sv request) (\<lambda>value. from_python (validate_proposal value request))) (\<lambda>proposal.
      attempt sha r rest (from_python (pending_revision policy proposal)) (\<lambda>pending.
      attempt_move sha r rest AwaitingRevisionConfirmation [ProposalPayload proposal]
        (\<lambda>c. c\<lparr>sr_pending_confirmation := Some (PendingRevision pending)\<rparr>) (\<lambda>_. rest)))))"

definition select_findings ::
  "(string \<Rightarrow> sha256) \<Rightarrow> services \<Rightarrow> bool \<Rightarrow> ident \<Rightarrow> finding_decision list \<Rightarrow> handled prog" where
  "select_findings sha sv schedule run_id request =
     perform (command_of select_findings_checks request) (\<lambda>command.
     at_stage run_id AwaitingFindingReview (\<lambda>r.
     perform (payload_of as_suite ScenarioSuiteArtifact r) (\<lambda>suite.
     perform (payload_of as_policy PolicyIRArtifact r) (\<lambda>policy.
     perform (payload_of as_contract PolicyContractArtifact r) (\<lambda>contract.
     perform (payload_of as_findings FindingReportArtifact r) (\<lambda>report.
       let visible = map fd_finding_id (reviewable_findings report suite) in
     if set (map fdn_finding_id command) \<noteq> set visible then Throw (WorkflowExc (InvalidRunCommand None []))
     else
     perform (etraverse (reviewed_finding (dict_by fdn_finding_id command)
         (dict_by i_invariant_id (pc_invariants contract))) (fr_findings report)) (\<lambda>updated.
     perform (from_python (validated finding_report_checks (report\<lparr>fr_findings := updated\<rparr>))) (\<lambda>reviewed.
       let accepted = filter (\<lambda>f. fd_review_status f = Accepted \<and> fd_finding_id f \<in> set visible)
             (fr_findings reviewed) in
     WallNow (\<lambda>now.
     move sha r (if accepted \<noteq> [] then DraftingRevision else CompletedNoRevision) [FindingsPayload reviewed]
       (\<lambda>c. c\<lparr>rn_finding_decisions := command, rn_decision_at := Some now, sr_pending_confirmation := None\<rparr>)
       (\<lambda>m. perform m (\<lambda>r.
         if accepted = [] then finish (get_run_view sha run_id)
         else scheduled sha schedule r
           (continue_revision sha sv r policy contract suite reviewed accepted command))))))))))))"

subsection \<open>Confirming a revision\<close>

definition applied_revision ::
  "services \<Rightarrow> apply_revision_request \<Rightarrow> policy_ir reply" where
  "applied_revision sv request =
     ebind (checked patch_application_result_checks
       (call apply_revision_checks (sv_apply_revision sv) request)) (\<lambda>result.
     ebind (from_python (require (par_proposal_id result = rp_proposal_id (arq_proposal request)))) (\<lambda>_.
     if \<not> par_applied result
     then (case par_error result of
             None \<Rightarrow> Inl (PythonExc (ValueError ''PublicError''))
           | Some e \<Rightarrow> Inl (WorkflowExc (PlainError e)))
     else case par_revised_policy result of
       None \<Rightarrow> Inl (PythonExc AttributeError)
     | Some revised \<Rightarrow>
         ebind (from_python (require
           (pi_document_sha256 revised = pi_document_sha256 (arq_policy request)
            \<and> pi_review_status revised = SessionConfirmed \<and> pi_kind revised = StructuredRevision))) (\<lambda>_.
         Inr revised)))"

definition confirm_revision ::
  "(string \<Rightarrow> sha256) \<Rightarrow> services \<Rightarrow> ident \<Rightarrow> confirm_revision_request \<Rightarrow> run_view prog" where
  "confirm_revision sha sv run_id request =
     (let rest = get_run_view sha run_id in
      perform (command_of confirm_revision_checks request) (\<lambda>command.
      at_stage run_id AwaitingRevisionConfirmation (\<lambda>r0.
      perform (payload_of as_proposal RevisionProposalArtifact r0) (\<lambda>proposal.
      if cvr_proposal_id command \<noteq> rp_proposal_id proposal then Throw (WorkflowExc (StaleArtifact None []))
      else if cvr_decision command = DecisionReject
      then move sha r0 RevisionRejected [] no_pending (\<lambda>m. perform m (\<lambda>_. rest))
      else
      perform (payload_of as_policy PolicyIRArtifact r0) (\<lambda>policy.
      perform (payload_of as_contract PolicyContractArtifact r0) (\<lambda>contract.
      perform (payload_of as_suite ScenarioSuiteArtifact r0) (\<lambda>suite.
      perform (payload_of as_evaluation EvaluationReportArtifact r0) (\<lambda>earlier.
      perform (payload_of as_findings FindingReportArtifact r0) (\<lambda>earlier_findings.
      move sha r0 ApplyingRevision [] no_pending (\<lambda>m. perform m (\<lambda>r1.
      WallNow (\<lambda>now.
      attempt sha r1 rest (applied_revision sv
        \<lparr>arq_policy = policy, arq_contract = contract, arq_suite = suite, arq_proposal = proposal,
         arq_confirmed_at = now\<rparr>) (\<lambda>revised.
      attempt_move sha r1 rest Retesting [PolicyPayload revised] unchanged (\<lambda>r2.
      attempt sha r2 rest (evaluate_stage sha sv r2 revised contract suite) (\<lambda>after.
      attempt sha r2 rest (findings_stage sv revised contract suite after) (\<lambda>after_findings.
        let comparison_request =
          \<lparr>crq_baseline_policy = policy, crq_revised_policy = revised, crq_contract = contract,
           crq_suite = suite, crq_proposal = proposal, crq_baseline_evaluation = earlier,
           crq_revised_evaluation = after, crq_baseline_findings = earlier_findings,
           crq_revised_findings = after_findings\<rparr> in
      attempt sha r2 rest
        (ebind (call compare_revision_checks (sv_compare sv) comparison_request) (\<lambda>value.
         from_python (validate_comparison_bundle value comparison_request))) (\<lambda>comparison.
      attempt_move sha r2 rest Complete
        [EvaluationPayload after, FindingsPayload after_findings, BundlePayload comparison,
         MetricsPayload (cb_revised_metrics comparison)] unchanged (\<lambda>_. rest))))))))))))))))))"

end
