(* ===== verification/Coordinator_System.thy ===== *)
theory Coordinator_System
  imports Coordinator Store_Meaning
begin

section \<open>Runs of the whole coordinator\<close>

text \<open>
  The system: one store, the identifiers used so far and any number of coroutines, each running a
  handler of the coordinator. A step lets one coroutine perform its next call, or cancels it there, or
  lets the reaper purge or close the store, or starts another handler with stages and a command of
  its own. Nothing is assumed of the stages. A mutation is one atomic step: the store's own
  interleavings show that a record is only ever replaced by one whole mutation of it.
\<close>

subsection \<open>The moves of the coordinator\<close>

text \<open>One rule for every call of \<open>_move\<close>: the stage, the new artifacts and the other changes.\<close>

inductive coordinator_move ::
  "run_stage \<Rightarrow> artifact_payload list \<Rightarrow> (stored_run \<Rightarrow> stored_run) \<Rightarrow> bool" where
  ingest: "coordinator_move Ingesting [] unchanged"
| read_document: "coordinator_move Extracting [DocumentPayload d] (\<lambda>r. r\<lparr>sr_source_request := None\<rparr>)"
| draft: "coordinator_move AwaitingContract [PolicyPayload p]
    (\<lambda>r. r\<lparr>sr_pending_confirmation := Some (PendingContract c)\<rparr>)"
| reject_contract: "coordinator_move ContractRejected [] no_pending"
| confirm_contract: "coordinator_move GeneratingInitialTests [PolicyPayload p, ContractPayload c] no_pending"
| execute: "coordinator_move ProvisionalExecution [] unchanged"
| target: "coordinator_move TargetingCoverage [CoveragePayload s] unchanged"
| limit: "coordinator_move CoverageLimit [CoveragePayload s] unchanged"
| freeze: "coordinator_move FreezingSuite [SuitePayload x] unchanged"
| baseline: "coordinator_move BaselineExecution [] unchanged"
| analyze: "coordinator_move Analyzing [EvaluationPayload e] unchanged"
| review: "coordinator_move AwaitingFindingReview [FindingsPayload f, MetricsPayload m]
    (\<lambda>r. r\<lparr>sr_pending_confirmation := Some (PendingFindings ids)\<rparr>)"
| no_findings: "coordinator_move CompletedNoFindings [FindingsPayload f, MetricsPayload m]
    (\<lambda>r. r\<lparr>sr_pending_confirmation := None\<rparr>)"
| decide: "stage = DraftingRevision \<or> stage = CompletedNoRevision \<Longrightarrow> coordinator_move stage [FindingsPayload f]
    (\<lambda>r. r\<lparr>rn_finding_decisions := ds, rn_decision_at := Some now, sr_pending_confirmation := None\<rparr>)"
| propose: "coordinator_move AwaitingRevisionConfirmation [ProposalPayload q]
    (\<lambda>r. r\<lparr>sr_pending_confirmation := Some (PendingRevision v)\<rparr>)"
| reject_revision: "coordinator_move RevisionRejected [] no_pending"
| begin_revision: "coordinator_move ApplyingRevision [] no_pending"
| retest: "coordinator_move Retesting [PolicyPayload p] unchanged"
| complete: "coordinator_move Complete [EvaluationPayload e, FindingsPayload f, BundlePayload b, MetricsPayload m] unchanged"
| fail: "coordinator_move Failed []
    (\<lambda>r. r\<lparr>rn_error := Some e, sr_pending_confirmation := None, sr_source_request := None\<rparr>)"

definition legal_change :: "(string \<Rightarrow> sha256) \<Rightarrow> mutation \<Rightarrow> bool" where
  "legal_change sha f \<longleftrightarrow>
     (\<exists>stage artifacts changes now. coordinator_move stage artifacts changes
        \<and> f = move_change sha stage artifacts changes now)"

text \<open>The records \<open>create_run\<close> hands to the store.\<close>

definition fresh_run :: "(string \<Rightarrow> sha256) \<Rightarrow> stored_run \<Rightarrow> bool" where
  "fresh_run sha r \<longleftrightarrow>
     (\<exists>run_id manifest now command.
        append_artifact sha (ManifestPayload manifest) (new_run run_id manifest now command) = Inr r)"

text \<open>Whatever the calls of a program are answered, it only issues legal changes and fresh runs.\<close>

primrec issues_legal :: "(string \<Rightarrow> sha256) \<Rightarrow> 'a prog \<Rightarrow> bool" where
  "issues_legal sha (Done x) = True"
| "issues_legal sha (Throw e) = True"
| "issues_legal sha (WallNow k) = (\<forall>t. issues_legal sha (k t))"
| "issues_legal sha (StoreGet i k) = (\<forall>m. issues_legal sha (k m))"
| "issues_legal sha (StoreMutate i v f k) = ((\<forall>t. legal_change sha (f t)) \<and> (\<forall>m. issues_legal sha (k m)))"
| "issues_legal sha (StoreCreate r k) = (fresh_run sha r \<and> (\<forall>m. issues_legal sha (k m)))"
| "issues_legal sha (StoreDelete i k) = (\<forall>m. issues_legal sha (k m))"

named_theorems legal \<open>programs that issue legal changes only\<close>

lemma legal_move: "coordinator_move stage artifacts changes \<Longrightarrow> legal_change sha (move_change sha stage artifacts changes now)"
  unfolding legal_change_def by blast

lemma issues_pbind [legal]:
  "issues_legal sha p \<Longrightarrow> (\<And>x. issues_legal sha (f x)) \<Longrightarrow> issues_legal sha (pbind p f)"
  by (induction p) auto

lemma issues_perform [legal]: "(\<And>x. m = Inr x \<Longrightarrow> issues_legal sha (k x)) \<Longrightarrow> issues_legal sha (perform m k)"
  by (cases m) (simp_all add: perform_def)

lemma issues_move [legal]:
  "coordinator_move stage artifacts changes \<Longrightarrow> (\<And>m. issues_legal sha (k m)) \<Longrightarrow>
     issues_legal sha (move sha r stage artifacts changes k)"
  by (simp add: move_def legal_move)

lemma issues_failure [legal]: "issues_legal sha rest \<Longrightarrow> issues_legal sha (failure sha r e rest)"
  unfolding failure_def Let_def
  by (intro legal coordinator_move.intros) (auto split: sum.splits exc.splits)

lemma issues_attempt [legal]:
  "issues_legal sha rest \<Longrightarrow> (\<And>x. issues_legal sha (k x)) \<Longrightarrow> issues_legal sha (attempt sha r rest m k)"
  by (cases m) (simp_all add: attempt_def issues_failure)

lemma issues_attempt_move [legal]:
  "coordinator_move stage artifacts changes \<Longrightarrow> issues_legal sha rest \<Longrightarrow> (\<And>r'. issues_legal sha (k r')) \<Longrightarrow>
     issues_legal sha (attempt_move sha r rest stage artifacts changes k)"
  unfolding attempt_move_def by (intro legal)

lemma issues_at_stage [legal]: "(\<And>r. issues_legal sha (k r)) \<Longrightarrow> issues_legal sha (at_stage i stage k)"
  by (auto simp: at_stage_def intro!: legal)

lemma issues_view [legal]: "issues_legal sha (get_run_view sha' i)"
  by (auto simp: get_run_view_def intro!: legal)

lemma issues_finish [legal]: "issues_legal sha p \<Longrightarrow> issues_legal sha (finish p)"
  by (auto simp: finish_def intro!: legal)

text \<open>A reply with a continuation: replying and running the continuation in the same coroutine.\<close>

definition serve :: "handled prog \<Rightarrow> unit prog" where
  "serve p = pbind p (\<lambda>(v, work). case work of None \<Rightarrow> Done () | Some w \<Rightarrow> pbind w (\<lambda>_. Done ()))"

lemma pbind_assoc: "pbind (pbind p f) g = pbind p (\<lambda>x. pbind (f x) g)"
  by (induction p) (simp_all add: fun_eq_iff)

lemma serve_finish: "serve (finish p) = pbind p (\<lambda>_. Done ())"
  by (simp add: serve_def finish_def pbind_assoc)

lemma serve_perform: "serve (perform m k) = perform m (\<lambda>x. serve (k x))"
  by (cases m) (simp_all add: perform_def serve_def)

lemma serve_simps:
  "serve (Throw e) = Throw e" "serve (WallNow k1) = WallNow (\<lambda>t. serve (k1 t))"
  "serve (StoreGet i k2) = StoreGet i (\<lambda>m. serve (k2 m))"
  "serve (move sha r stage artifacts changes k3) = move sha r stage artifacts changes (\<lambda>m. serve (k3 m))"
  by (simp_all add: serve_def move_def)

lemma serve_at_stage: "serve (at_stage i stage k) = at_stage i stage (\<lambda>r. serve (k r))"
  by (auto simp: at_stage_def serve_simps serve_perform perform_def fun_eq_iff split: sum.splits)

lemma issues_serve_finish [legal]: "issues_legal sha p \<Longrightarrow> issues_legal sha (serve (finish p))"
  unfolding serve_finish by (intro legal) simp_all

lemma issues_scheduled [legal]:
  "issues_legal sha w \<Longrightarrow> issues_legal sha (serve (scheduled sha' schedule r w))"
  by (auto simp: scheduled_def serve_perform intro!: legal) (simp add: serve_def issues_pbind)

subsection \<open>Every handler issues legal changes only\<close>

lemma create_live_legal: "issues_legal sha (snd (create_live_run sha sv used run_id command))"
  unfolding create_live_run_def
  by (auto intro!: legal split: if_splits simp: fresh_run_def validated_Inr_iff) blast

lemma start_legal: "issues_legal sha (start_run sha sv run_id)"
  unfolding start_run_def by (intro legal coordinator_move.intros issues_legal.simps(1) [THEN iffD2] TrueI)

lemma freeze_legal:
  assumes "issues_legal sha rest"
  shows "issues_legal sha (freeze_and_analyze sha sv policy contract rest r suite)"
  unfolding freeze_and_analyze_def Let_def
proof (intro legal coordinator_move.intros assms, goal_cases)
  case (1 r1 r2 report u r3 findings metrics)
  then show ?case by (cases "reviewable_findings findings suite = []") (simp_all add: coordinator_move.intros)
qed

lemma continue_baseline_legal: "issues_legal sha (continue_baseline sha sv r policy contract)"
  unfolding continue_baseline_def Let_def
  by (auto intro!: legal coordinator_move.intros freeze_legal split: if_splits)

lemma confirm_contract_legal: "issues_legal sha (serve (confirm_contract sha sv schedule run_id request))"
  unfolding confirm_contract_def run_baseline_def serve_perform serve_at_stage
  by (auto intro!: legal coordinator_move.intros continue_baseline_legal
      simp: serve_simps serve_perform split: if_splits option.splits pending_confirmation.splits)

lemma continue_revision_legal:
  "issues_legal sha (continue_revision sha sv r policy contract suite reviewed accepted decisions)"
  unfolding continue_revision_def Let_def by (intro legal coordinator_move.intros)

lemma select_findings_legal: "issues_legal sha (serve (select_findings sha sv schedule run_id request))"
  unfolding select_findings_def Let_def serve_perform serve_at_stage
  by (auto intro!: legal coordinator_move.intros continue_revision_legal
      simp: serve_simps serve_perform split: if_splits)

lemma confirm_revision_legal: "issues_legal sha (confirm_revision sha sv run_id request)"
  unfolding confirm_revision_def Let_def
  by (auto intro!: legal coordinator_move.intros split: if_splits)

subsection \<open>The system\<close>

definition quiet :: "'a prog \<Rightarrow> unit prog" where
  "quiet p = pbind p (\<lambda>_. Done ())"

lemma issues_quiet [legal]: "issues_legal sha p \<Longrightarrow> issues_legal sha (quiet p)"
  unfolding quiet_def by (intro legal) simp_all

text \<open>A handler with the identifiers used before and after it has chosen one for a new run.\<close>

inductive handler :: "(string \<Rightarrow> sha256) \<Rightarrow> ident set \<Rightarrow> unit prog \<Rightarrow> ident set \<Rightarrow> bool" for sha where
  create: "create_live_run sha sv used run_id command = (used', p) \<Longrightarrow> handler sha used (quiet p) used'"
| start: "handler sha used (start_run sha sv run_id) used"
| contract: "handler sha used (serve (confirm_contract sha sv schedule run_id confirmation)) used"
| findings: "handler sha used (serve (select_findings sha sv schedule run_id decisions)) used"
| revision: "handler sha used (quiet (confirm_revision sha sv run_id decision)) used"
| view: "handler sha used (quiet (get_run_view sha run_id)) used"
| delete: "handler sha used (delete_run_command run_id) used"

lemma handler_legal: "handler sha used p used' \<Longrightarrow> issues_legal sha p"
proof (induction rule: handler.induct)
  case (create sv used run_id command used' p)
  then show ?case using create_live_legal [of sha sv used run_id command] by (simp add: issues_quiet)
qed (auto intro!: legal start_legal confirm_contract_legal select_findings_legal confirm_revision_legal
      simp: delete_run_command_def)

text \<open>The next call of a coroutine, performed or cancelled.\<close>

inductive prog_step :: "run_store \<times> 'a prog \<Rightarrow> run_store \<times> 'a prog \<Rightarrow> bool" where
  read_clock: "prog_step (s, WallNow kt) (s, kt t)"
| got: "get_run s i m = (out, s') \<Longrightarrow> prog_step (s, StoreGet i kr) (s', kr (from_store out))"
| mutated: "mutate s i v (f t) m m' = (out, s') \<Longrightarrow>
    prog_step (s, StoreMutate i v f kr) (s', kr (from_store out))"
| created: "create_run s wall m r = (out, s') \<Longrightarrow> prog_step (s, StoreCreate r kr) (s', kr (from_store out))"
| deleted: "delete_run s i = (gone, s') \<Longrightarrow> prog_step (s, StoreDelete i ku) (s', ku (from_store gone))"
| get_cancelled: "prog_step (s, StoreGet i kr) (s, kr (Inl CancelledExc))"
| mutate_cancelled: "prog_step (s, StoreMutate i v f kr) (s, kr (Inl CancelledExc))"
| create_cancelled: "prog_step (s, StoreCreate r kr) (s, kr (Inl CancelledExc))"
| delete_cancelled: "prog_step (s, StoreDelete i ku) (s, ku (Inl CancelledExc))"


text \<open>The store, the identifiers used so far and the coroutines.\<close>

type_synonym system = "run_store \<times> ident set \<times> unit prog list"

inductive system_run :: "(string \<Rightarrow> sha256) \<Rightarrow> system \<Rightarrow> bool" for sha where
  opened: "new_store ttl = Inr s \<Longrightarrow> system_run sha (s, {}, [])"
| spawned: "system_run sha (s, used, ps) \<Longrightarrow> handler sha used p used' \<Longrightarrow> system_run sha (s, used', p # ps)"
| stepped: "system_run sha (s, used, ps) \<Longrightarrow> i < length ps \<Longrightarrow> prog_step (s, ps ! i) (s', p') \<Longrightarrow>
    system_run sha (s', used, ps[i := p'])"
| purged: "system_run sha (s, used, ps) \<Longrightarrow> purge_expired s m = (removed, s') \<Longrightarrow> system_run sha (s', used, ps)"
| closed: "system_run sha (s, used, ps) \<Longrightarrow> system_run sha (close_store s, used, ps)"

subsection \<open>Invariants of stored runs\<close>

text \<open>What the store holds after one operation: an old record, a created one or a whole mutation.\<close>

lemma stored_pop: "stored_record (pop_entry j s) k = (if k = j then None else stored_record s k)"
  by (simp add: stored_record_def entry_simps)

lemma stored_pops: "stored_record (fold pop_entry js s) k = Some r \<Longrightarrow> stored_record s k = Some r"
proof (induction js arbitrary: s)
  case (Cons j js)
  then have "stored_record (pop_entry j s) k = Some r" by simp
  then show ?case by (simp add: stored_pop split: if_splits)
qed simp

lemma stored_create:
  assumes "create_run s wall m r = (out, s')" and "stored_record s' k = Some r'"
  shows "stored_record s k = Some r' \<or> (\<exists>w. r' = rebased s w r \<and> valid_stored r')"
proof -
  have entry: "entry_of (t\<lparr>st_entries := st_entries t @ [(j, e)], st_created := n\<rparr>) k =
      (case entry_of t k of Some e' \<Rightarrow> Some e' | None \<Rightarrow> if k = j then Some e else None)" for t j e n
    by (auto simp: entry_of_def map_add_def split: option.splits)
  have insert: "stored_record s k = Some r' \<or> r' = x"
    if "insert_entry s x n d = (out, s')" for x n d
    using that assms(2)
    by (auto simp: insert_entry_def Let_def stored_record_def entry entry_simps split: option.splits if_splits)
  from assms(1) consider "s' = s" | w n d where "insert_entry s (rebased s w r) n d = (out, s')" "valid_stored (rebased s w r)"
    by (auto simp: create_run_def Let_def split: option.splits sum.splits if_splits)
  then show ?thesis using assms(2) insert by cases auto
qed

lemma stored_get:
  assumes "get_run s i m = (out, s')" and "store_ok s"
  shows "stored_record s' k = Some r \<Longrightarrow> stored_record s k = Some r" and "store_ok s'"
proof -
  have "s' = s \<or> s' = pop_entry i s"
  proof (cases "capture s i")
    case (Inl e)
    then show ?thesis using assms(1) by (simp add: get_run_def)
  next
    case (Inr e)
    then have read: "current_record s i (en_id e) m = (out, s')" using assms(1) by (simp add: get_run_def)
    show ?thesis
    proof (cases out)
      case (Inl err)
      then show ?thesis using current_record_Inl read assms(2) by simp
    next
      case (Inr r)
      show ?thesis using current_record_Inr read [unfolded Inr] by blast
    qed
  qed
  then show "stored_record s' k = Some r \<Longrightarrow> stored_record s k = Some r" "store_ok s'"
    using assms(2) by (auto simp: stored_pop store_ok_pop split: if_splits)
qed

text \<open>
  An invariant of runs that the creation of a run establishes and every legal move keeps holds of every
  stored run, whatever the handlers, their stages and their interleaving.
\<close>

locale run_invariant =
  fixes sha :: "string \<Rightarrow> sha256"
    and run_inv :: "stored_run \<Rightarrow> bool"
  assumes fresh: "fresh_run sha r \<Longrightarrow> run_inv (rebased s w r)"
    and version: "run_inv r \<Longrightarrow> run_inv (r\<lparr>sr_version := v\<rparr>)"
    and moved: "run_inv r \<Longrightarrow> coordinator_move stage artifacts changes \<Longrightarrow>
      move_change sha stage artifacts changes now r = Inr (Some r') \<Longrightarrow> run_inv r'"
begin

definition all_runs :: "run_store \<Rightarrow> bool" where
  "all_runs s \<longleftrightarrow> store_ok s \<and> (\<forall>k r. stored_record s k = Some r \<longrightarrow> run_inv r)"

lemma all_runs_mutate:
  assumes "all_runs s" and "legal_change sha f" and "mutate s k v f m m' = (out, s')"
  shows "all_runs s'"
proof -
  have ok: "store_ok s'" using assms(1,3) runs.invar_kept unfolding all_runs_def by blast
  have inv: "store_ok s" "\<And>k r. stored_record s k = Some r \<Longrightarrow> run_inv r"
    using assms(1) by (auto simp: all_runs_def)
  have "run_inv r" if r: "stored_record s' j = Some r" for j r
  proof (cases "j = k")
    case False
    then show ?thesis using runs.others [OF inv(1) assms(3)] r inv(2) by metis
  next
    case True
    show ?thesis
    proof (cases out)
      case (Inl err)
      then show ?thesis using runs.unchanged [OF inv(1)] assms(3) r inv(2) True by (metis option.distinct(1))
    next
      case (Inr x)
      then obtain current candidate where c: "stored_record s k = Some current" "f current = Inr (Some candidate)"
        "x = candidate\<lparr>sr_version := v + 1\<rparr>" "stored_record s' k = Some x"
        using runs.changed [OF inv(1)] assms(3) by blast
      obtain stage artifacts changes now where "coordinator_move stage artifacts changes"
        "f = move_change sha stage artifacts changes now"
        using assms(2) unfolding legal_change_def by blast
      then have "run_inv candidate" using moved inv(2) [OF c(1)] c(2) by blast
      then have "run_inv x" unfolding c(3) by (rule version)
      then show ?thesis using c(4) r True by simp
    qed
  qed
  with ok show ?thesis by (simp add: all_runs_def)
qed

lemma all_runs_step:
  assumes "prog_step (s, p) (s', p')" and "all_runs s" and "issues_legal sha p"
  shows "all_runs s' \<and> issues_legal sha p'"
  using assms(1)
proof cases
  case (mutated i v f t m m' out kr)
  then show ?thesis using assms(2,3) all_runs_mutate [of s "f t" i v m m' out s'] by auto
next
  case (got i m out kr)
  have "store_ok s" using assms(2) by (simp add: all_runs_def)
  note got' = stored_get [OF got(3) this]
  have "all_runs s'" using assms(2) got'(2) unfolding all_runs_def by (blast dest: got'(1))
  then show ?thesis using assms(3) got(1,2) by simp
next
  case (created wall m r out kr)
  have "store_ok s'" using store_ok_create [of s wall m r] created(3) assms(2) by (simp add: all_runs_def)
  then show ?thesis using assms(2,3) created(1,2) stored_create [OF created(3)] fresh by (auto simp: all_runs_def) blast
next
  case (deleted i gone ku)
  then show ?thesis
    using assms(2,3) store_ok_pop
    by (auto simp: all_runs_def delete_run_def stored_pop split: if_splits)
qed (use assms(2,3) in auto)

theorem all_runs_reachable:
  assumes "system_run sha \<sigma>"
  shows "all_runs (fst \<sigma>) \<and> list_all (issues_legal sha) (snd (snd \<sigma>))"
  using assms
proof induction
  case (opened ttl s)
  then have "st_entries s = []" by (auto simp: new_store_def split: if_splits)
  then show ?case using store_ok_new [OF opened] by (simp add: all_runs_def stored_record_def entry_of_def)
next
  case (spawned s used ps p used')
  then show ?case using handler_legal by simp
next
  case (stepped s used ps i s' p')
  then have "issues_legal sha (ps ! i)" by (simp add: list_all_length)
  then have "all_runs s' \<and> issues_legal sha p'" using stepped all_runs_step by auto
  then show ?case using stepped by (auto simp: list_all_length nth_list_update)
next
  case (purged s used ps m removed s')
  then show ?case
    using store_ok_pops by (auto simp: all_runs_def purge_expired_def Let_def split: option.splits if_splits dest!: stored_pops)
next
  case (closed s used ps)
  then show ?case
    using store_ok_close by (auto simp: all_runs_def close_store_def stored_record_def entry_of_def)
qed

lemma stored_inv:
  "system_run sha \<sigma> \<Longrightarrow> stored_record (fst \<sigma>) k = Some r \<Longrightarrow> run_inv r \<and> valid_stored r"
  using all_runs_reachable [of \<sigma>] store_ok_entry(3) by (auto simp: all_runs_def stored_record_def)

end

end
