(* ===== verification/Coordinator_Logic.thy ===== *)
theory Coordinator_Logic
  imports Coordinator_System
begin

section \<open>Reasoning about a coroutine and the record it holds\<close>

text \<open>
  A handler reads a record, computes from it, and mutates it under the version it has read. Between its
  calls other coroutines may run; but a record has a new version after every mutation and identifiers of
  runs are not used twice, so whatever the handler mutates is exactly the record it holds. This is the
  rule proved here: a change only has to be justified for the record held, and the answer is that record
  changed.
\<close>

subsection \<open>Programs that respect an invariant\<close>

text \<open>
  \<open>sound_prog good c held p\<close>: whatever the calls of \<open>p\<close> are answered, every record in \<open>held\<close> has been
  read, mutations start from a record read earlier and yield good records, and the run created, if any,
  is the one named by \<open>c\<close>. Answers are assumed to be good records with the identifier asked for, and to
  be the outcome of the change when a mutation succeeds.
\<close>

primrec sound_prog ::
  "(stored_run \<Rightarrow> bool) \<Rightarrow> ident option \<Rightarrow> stored_run set \<Rightarrow> 'a prog \<Rightarrow> bool" where
  "sound_prog good c held (Done x) = True"
| "sound_prog good c held (Throw e) = True"
| "sound_prog good c held (WallNow k) = (\<forall>t. sound_prog good c held (k t))"
| "sound_prog good c held (StoreGet i k) =
     ((\<forall>e. sound_prog good c held (k (Inl e)))
      \<and> (\<forall>r. good r \<longrightarrow> rn_run_id r = i \<longrightarrow> sound_prog good c (insert r held) (k (Inr r))))"
| "sound_prog good c held (StoreMutate i v f k) =
     ((\<forall>e. sound_prog good c held (k (Inl e)))
      \<and> (\<exists>r \<in> held. rn_run_id r = i \<and> sr_version r = v
          \<and> (\<forall>t x. f t r = Inr (Some x) \<longrightarrow>
               good (x\<lparr>sr_version := v + 1\<rparr>)
               \<and> sound_prog good c (insert (x\<lparr>sr_version := v + 1\<rparr>) held) (k (Inr (x\<lparr>sr_version := v + 1\<rparr>))))))"
| "sound_prog good c held (StoreCreate r k) =
     (c = Some (rn_run_id r) \<and> (\<forall>s w. good (rebased s w r)) \<and> (\<forall>m. sound_prog good None held (k m)))"
| "sound_prog good c held (StoreDelete i k) = (\<forall>m. sound_prog good c held (k m))"

named_theorems sound \<open>programs that respect an invariant\<close>

lemma sound_more: "sound_prog good c held p \<Longrightarrow> held \<subseteq> held' \<Longrightarrow> sound_prog good c held' p"
proof (induction p arbitrary: held held' c)
  case (StoreMutate i v f k)
  then show ?case
    by simp (metis (no_types, lifting) insert_mono rangeI subsetD)
next
  case (StoreGet i k)
  then show ?case by simp (metis insert_mono rangeI)
next
  case (StoreCreate r k)
  then show ?case by simp (metis rangeI)
qed (simp; metis rangeI)+

lemma sound_none: "sound_prog good None held p \<Longrightarrow> sound_prog good c held p"
  by (induction p arbitrary: held) (auto; metis rangeI)+

lemma sound_pbind [sound]:
  "sound_prog good c held p \<Longrightarrow> (\<And>held' x. held \<subseteq> held' \<Longrightarrow> sound_prog good None held' (f x)) \<Longrightarrow>
     sound_prog good c held (pbind p f)"
proof (induction p arbitrary: held c)
  case (StoreMutate i v g k)
  note IH = StoreMutate.IH [OF rangeI] and prems = StoreMutate.prems
  have step: "sound_prog good c held' (pbind (k m) f)" if "held \<subseteq> held'" "sound_prog good c held' (k m)" for held' m
    using IH [OF that(2)] prems(2) that(1) by (meson subset_trans)
  obtain r where r: "r \<in> held" "rn_run_id r = i" "sr_version r = v"
    and after: "g t r = Inr (Some x) \<Longrightarrow> good (x\<lparr>sr_version := v + 1\<rparr>)
      \<and> sound_prog good c (insert (x\<lparr>sr_version := v + 1\<rparr>) held) (k (Inr (x\<lparr>sr_version := v + 1\<rparr>)))" for t x
    using prems(1) by auto
  have "\<forall>e. sound_prog good c held (pbind (k (Inl e)) f)" using prems(1) step by simp
  moreover have "good (x\<lparr>sr_version := v + 1\<rparr>) \<and> sound_prog good c (insert (x\<lparr>sr_version := v + 1\<rparr>) held)
      (pbind (k (Inr (x\<lparr>sr_version := v + 1\<rparr>))) f)" if "g t r = Inr (Some x)" for t x
    using after [OF that] step [OF subset_insertI] by blast
  ultimately show ?case using r by auto
next
  case (StoreGet i k)
  note IH = StoreGet.IH [OF rangeI] and prems = StoreGet.prems
  have step: "sound_prog good c held' (pbind (k m) f)" if "held \<subseteq> held'" "sound_prog good c held' (k m)" for held' m
    using IH [OF that(2)] prems(2) that(1) by (meson subset_trans)
  have "\<forall>e. sound_prog good c held (pbind (k (Inl e)) f)" using prems(1) step by simp
  moreover have "sound_prog good c (insert r held) (pbind (k (Inr r)) f)" if "good r" "rn_run_id r = i" for r
    using prems(1) that step [OF subset_insertI] by simp
  ultimately show ?case by simp
next
  case (StoreCreate r k)
  note IH = StoreCreate.IH [OF rangeI] and prems = StoreCreate.prems
  have step: "sound_prog good None held (pbind (k m) f)" if "sound_prog good None held (k m)" for m
    using IH [OF that] prems(2) by blast
  show ?case using prems(1) step by auto
qed (auto simp: sound_none)

subsection \<open>The records a store has held\<close>

text \<open>\<open>seen\<close>: every record stored so far. A stored run is the newest of its identifier.\<close>

definition past :: "(stored_run \<Rightarrow> bool) \<Rightarrow> run_store \<Rightarrow> ident set \<Rightarrow> stored_run set \<Rightarrow> bool" where
  "past good s used seen \<longleftrightarrow>
     store_ok s \<and> (\<forall>k r. stored_record s k = Some r \<longrightarrow> r \<in> seen)
     \<and> (\<forall>r \<in> seen. good r \<and> rn_run_id r \<in> used)
     \<and> (\<forall>r \<in> seen. \<forall>r' \<in> seen. rn_run_id r = rn_run_id r' \<longrightarrow> sr_version r = sr_version r' \<longrightarrow> r = r')
     \<and> (\<forall>k r. stored_record s k = Some r \<longrightarrow> (\<forall>r' \<in> seen. rn_run_id r' = k \<longrightarrow> sr_version r' \<le> sr_version r))"

lemma pastD:
  assumes "past good s used seen"
  shows "store_ok s" and "stored_record s k = Some r \<Longrightarrow> r \<in> seen"
    and "r \<in> seen \<Longrightarrow> good r" and "r \<in> seen \<Longrightarrow> rn_run_id r \<in> used"
    and "r \<in> seen \<Longrightarrow> r' \<in> seen \<Longrightarrow> rn_run_id r = rn_run_id r' \<Longrightarrow> sr_version r = sr_version r' \<Longrightarrow> r = r'"
    and "stored_record s k = Some r \<Longrightarrow> r' \<in> seen \<Longrightarrow> rn_run_id r' = k \<Longrightarrow> sr_version r' \<le> sr_version r"
  using assms unfolding past_def by blast+

lemma stored_id: "store_ok s \<Longrightarrow> stored_record s k = Some r \<Longrightarrow> rn_run_id r = k"
  using store_ok_entry by (auto simp: stored_record_def)

lemma past_drop:
  assumes "past good s used seen" and "store_ok s'"
    and "\<And>k r. stored_record s' k = Some r \<Longrightarrow> stored_record s k = Some r"
  shows "past good s' used seen"
proof -
  note p = pastD [OF assms(1)]
  show ?thesis
    unfolding past_def
    using assms(2) p(3,4) p(5) p(2) [OF assms(3)] p(6) [OF assms(3)]
    by (intro conjI allI impI ballI) blast+
qed

lemma past_use: "past good s used seen \<Longrightarrow> used \<subseteq> used' \<Longrightarrow> past good s used' seen"
  unfolding past_def by blast

lemma past_mutated:
  assumes past: "past good s used seen" and "mutate s k v f m m' = (Inr x, s')"
    and base: "r \<in> seen" "rn_run_id r = k" "sr_version r = v"
    and good: "\<And>y. f r = Inr (Some y) \<Longrightarrow> good (y\<lparr>sr_version := v + 1\<rparr>)"
  shows "past good s' used (insert x seen)" and "\<exists>y. f r = Inr (Some y) \<and> x = y\<lparr>sr_version := v + 1\<rparr>"
proof -
  note ok = pastD(1) [OF past]
  obtain current y where c: "stored_record s k = Some current" "sr_version current = v"
    "f current = Inr (Some y)" "x = y\<lparr>sr_version := v + 1\<rparr>" "same_identity x current" "stored_record s' k = Some x"
    using runs.changed [OF ok assms(2)] by blast
  have same: "current = r"
    using pastD(5) [OF past pastD(2) [OF past c(1)] base(1)] stored_id [OF ok c(1)] base(2,3) c(2) by simp
  then show "\<exists>y. f r = Inr (Some y) \<and> x = y\<lparr>sr_version := v + 1\<rparr>" using c by blast
  have x: "good x" "rn_run_id x = k" "sr_version x = v + 1"
    using good c same base by (simp_all add: same_identity_def)
  have others: "stored_record s' j = stored_record s j" if "j \<noteq> k" for j
    using runs.others [OF ok assms(2) that] .
  have older: "sr_version r' \<le> v" if "r' \<in> seen" "rn_run_id r' = k" for r'
    using pastD(6) [OF past c(1) that] c(2) by simp
  have "store_ok s'" using runs.invar_kept [OF ok assms(2)] .
  moreover have "\<forall>j r'. stored_record s' j = Some r' \<longrightarrow> r' \<in> insert x seen"
    using others c(6) pastD(2) [OF past] by (metis insert_iff option.inject)
  moreover have "\<forall>r' \<in> insert x seen. good r' \<and> rn_run_id r' \<in> used"
    using x(1,2) pastD(3,4) [OF past] pastD(4) [OF past base(1)] base(2) by (metis insert_iff)
  moreover have "\<forall>r1 \<in> insert x seen. \<forall>r2 \<in> insert x seen.
      rn_run_id r1 = rn_run_id r2 \<longrightarrow> sr_version r1 = sr_version r2 \<longrightarrow> r1 = r2"
    using x(2,3) older pastD(5) [OF past] by fastforce
  moreover have "\<forall>j r'. stored_record s' j = Some r' \<longrightarrow>
      (\<forall>r1 \<in> insert x seen. rn_run_id r1 = j \<longrightarrow> sr_version r1 \<le> sr_version r')"
  proof (intro allI impI ballI)
    fix j r' r1
    assume j: "stored_record s' j = Some r'" "r1 \<in> insert x seen" "rn_run_id r1 = j"
    show "sr_version r1 \<le> sr_version r'"
    proof (cases "j = k")
      case True
      then have "r' = x" using j(1) c(6) by simp
      then show ?thesis using j older x(3) True by fastforce
    next
      case False
      then have "r1 \<in> seen" "stored_record s j = Some r'" using j x(2) others by auto
      then show ?thesis using pastD(6) [OF past] j(3) by blast
    qed
  qed
  ultimately show "past good s' used (insert x seen)" unfolding past_def by blast
qed

lemma past_created:
  assumes past: "past good s used seen" and "create_run s wall m r = (out, s')"
    and new: "rn_run_id r \<in> used" "rn_run_id r \<notin> rn_run_id ` seen" and good: "\<And>w. good (rebased s w r)"
  shows "\<exists>seen'. seen \<subseteq> seen' \<and> rn_run_id ` seen' \<subseteq> insert (rn_run_id r) (rn_run_id ` seen) \<and> past good s' used seen'"
proof -
  note ok = pastD(1) [OF past]
  have ok': "store_ok s'" using store_ok_create [OF ok, of wall m r] assms(2) by simp
  have id: "rn_run_id (rebased s w r) = rn_run_id r" for w by (simp add: rebased_def)
  show ?thesis
  proof (cases "\<exists>w. stored_record s' (rn_run_id r) = Some (rebased s w r)")
    case False
    then have "stored_record s k = Some r'" if "stored_record s' k = Some r'" for k r'
      using stored_create [OF assms(2) that] stored_id [OF ok' that] id that by auto
    then have "past good s' used seen" using past_drop [OF past ok'] by blast
    then show ?thesis by blast
  next
    case True
    then obtain w where w: "stored_record s' (rn_run_id r) = Some (rebased s w r)" by blast
    let ?x = "rebased s w r"
    have old: "stored_record s k = Some r'" if "stored_record s' k = Some r'" "k \<noteq> rn_run_id r" for k r'
      using stored_create [OF assms(2) that(1)] stored_id [OF ok' that(1)] that(2) id by auto
    have fresh: "rn_run_id r' \<noteq> rn_run_id r" if "r' \<in> seen" for r' using new(2) that by (metis imageI)
    have "\<forall>j r'. stored_record s' j = Some r' \<longrightarrow> r' \<in> insert ?x seen"
      using old w pastD(2) [OF past] by (metis insert_iff option.inject)
    moreover have "\<forall>r' \<in> insert ?x seen. good r' \<and> rn_run_id r' \<in> used"
      using good new(1) id pastD(3,4) [OF past] by auto
    moreover have "\<forall>r1 \<in> insert ?x seen. \<forall>r2 \<in> insert ?x seen.
        rn_run_id r1 = rn_run_id r2 \<longrightarrow> sr_version r1 = sr_version r2 \<longrightarrow> r1 = r2"
      using fresh id pastD(5) [OF past] by fastforce
    moreover have "\<forall>j r'. stored_record s' j = Some r' \<longrightarrow>
        (\<forall>r1 \<in> insert ?x seen. rn_run_id r1 = j \<longrightarrow> sr_version r1 \<le> sr_version r')"
      using old w pastD(6) [OF past] fresh id by (metis insert_iff option.inject order_refl)
    ultimately have "past good s' used (insert ?x seen)" using ok' unfolding past_def by blast
    then show ?thesis using id by (intro exI [of _ "insert ?x seen"]) auto
  qed
qed

subsection \<open>Steps of a sound coroutine\<close>

lemma got_record: "get_run s i m = (Inr r, s') \<Longrightarrow> s' = s \<and> stored_record s i = Some r"
  by (auto simp: get_run_def stored_record_def split: sum.splits elim!: current_record_Inr)

lemma mutate_error_drops:
  assumes "store_ok s" and "mutate s k v f m m' = (Inl e, s')" and "stored_record s' j = Some r"
  shows "stored_record s j = Some r"
  using runs.unchanged [OF assms(1,2)] runs.others [OF assms(1,2), of j] assms(3) by (cases "j = k") auto

lemma sound_step:
  assumes step: "prog_step (s, p) (s', p')" and past: "past good s used seen"
    and p: "sound_prog good c held p" "held \<subseteq> seen"
    and c: "\<forall>i. c = Some i \<longrightarrow> i \<in> used \<and> i \<notin> rn_run_id ` seen"
  shows "\<exists>seen' c' held'. seen \<subseteq> seen' \<and> past good s' used seen' \<and> held' \<subseteq> seen' \<and> sound_prog good c' held' p'
    \<and> (c' = c \<and> rn_run_id ` seen' = rn_run_id ` seen
        \<or> c' = None \<and> rn_run_id ` seen' \<subseteq> rn_run_id ` seen \<union> set_option c)"
    (is "\<exists>seen' c' held'. ?P seen' c' held'")
proof -
  have stay: ?thesis if "s' = s" "sound_prog good c held p'"
  proof -
    have "?P seen c held" using that past p(2) by simp
    then show ?thesis by (intro exI)
  qed
  show ?thesis
  using step
proof cases
  case (read_clock kt t)
  then have "?P seen c held" using p past by simp
  then show ?thesis by (intro exI)
next
  case (got i m out kr)
  show ?thesis
  proof (cases out)
    case (Inl e)
    then have "past good s' used seen"
      using past_drop [OF past] stored_get [OF got(3) pastD(1) [OF past]] by blast
    then have "?P seen c held" using p got Inl by (simp add: from_store_def)
    then show ?thesis by (intro exI)
  next
    case (Inr r)
    then have r: "s' = s" "stored_record s i = Some r" using got_record got(3) by blast+
    have "?P seen c (insert r held)"
      using p got Inr past r pastD(2,3) [OF past] stored_id [OF pastD(1) [OF past] r(2)] by (simp add: from_store_def)
    then show ?thesis by (intro exI)
  qed
next
  case (mutated i v f t m m' out kr)
  show ?thesis
  proof (cases out)
    case (Inl e)
    have "store_ok s'" using runs.invar_kept [OF pastD(1) [OF past] mutated(3)] .
    then have "past good s' used seen"
      using past_drop [OF past] mutate_error_drops [OF pastD(1) [OF past] mutated(3) [unfolded Inl]] by blast
    then have "?P seen c held" using p mutated Inl by (simp add: from_store_def)
    then show ?thesis by (intro exI)
  next
    case (Inr x)
    obtain r where r: "r \<in> held" "rn_run_id r = i" "sr_version r = v"
      and after: "\<And>t y. f t r = Inr (Some y) \<Longrightarrow> good (y\<lparr>sr_version := v + 1\<rparr>)
        \<and> sound_prog good c (insert (y\<lparr>sr_version := v + 1\<rparr>) held) (kr (Inr (y\<lparr>sr_version := v + 1\<rparr>)))"
      using p(1) mutated(1) by auto
    have seen: "r \<in> seen" using r(1) p(2) by blast
    note ran = past_mutated [OF past mutated(3) [unfolded Inr] seen r(2,3)]
    have past': "past good s' used (insert x seen)" using ran(1) after by blast
    obtain y where "f t r = Inr (Some y)" "x = y\<lparr>sr_version := v + 1\<rparr>" using ran(2) after by blast
    then have "sound_prog good c (insert x held) p'" using after mutated(2) Inr by (auto simp: from_store_def)
    moreover have "rn_run_id ` insert x seen = rn_run_id ` seen"
    proof -
      have "stored_record s' i = Some x" using runs.changed [OF pastD(1) [OF past] mutated(3) [unfolded Inr]] by blast
      then have "rn_run_id x = i" using stored_id pastD(1) [OF past'] by blast
      then show ?thesis using imageI [OF seen, of rn_run_id] r(2) by auto
    qed
    ultimately have "?P (insert x seen) c (insert x held)" using past' p(2) by auto
    then show ?thesis by (intro exI)
  qed
next
  case (created wall m r out kr)
  have c': "c = Some (rn_run_id r)" "\<And>w. good (rebased s w r)" "\<And>m. sound_prog good None held (kr m)"
    using p(1) created(1) by auto
  obtain seen' where seen': "seen \<subseteq> seen'" "rn_run_id ` seen' \<subseteq> insert (rn_run_id r) (rn_run_id ` seen)"
    "past good s' used seen'"
    using past_created [OF past created(3)] c c'(1,2) by blast
  then have "?P seen' None held" using c'(1,3) p(2) created(2) by auto
  then show ?thesis by (intro exI)
next
  case (deleted i gone ku)
  have "s' = s \<or> s' = pop_entry i s" using deleted(3) by (auto simp: delete_run_def split: if_splits)
  moreover have "past good (pop_entry i s) used seen"
    by (rule past_drop [OF past store_ok_pop [OF pastD(1) [OF past]]]) (simp add: stored_pop split: if_splits)
  ultimately have "past good s' used seen" using past by blast
  then have "?P seen c held" using p deleted by simp
  then show ?thesis by (intro exI)
qed (rule stay; use p(1) in \<open>auto intro: sound_none\<close>)+
qed

subsection \<open>Invariants of the runs of the system\<close>

definition creators :: "ident set \<Rightarrow> stored_run set \<Rightarrow> ident option list \<Rightarrow> bool" where
  "creators used seen cs \<longleftrightarrow>
     (\<forall>j < length cs. \<forall>i. cs ! j = Some i \<longrightarrow>
        i \<in> used \<and> i \<notin> rn_run_id ` seen \<and> (\<forall>j' < length cs. cs ! j' = Some i \<longrightarrow> j' = j))"

locale run_logic =
  fixes sha :: "string \<Rightarrow> sha256"
    and good :: "stored_run \<Rightarrow> bool"
  assumes handlers: "handler sha used p used' \<Longrightarrow>
    \<exists>c. sound_prog good c {} p \<and> used' = used \<union> set_option c \<and> set_option c \<inter> used = {}"
begin

definition all_good :: "system \<Rightarrow> bool" where
  "all_good \<sigma> \<longleftrightarrow> (case \<sigma> of (s, used, ps) \<Rightarrow>
     \<exists>seen cs. past good s used seen \<and> length cs = length ps \<and> creators used seen cs
       \<and> (\<forall>j < length ps. \<exists>held \<subseteq> seen. sound_prog good (cs ! j) held (ps ! j)))"

lemma all_good_spawn:
  assumes "all_good (s, used, ps)" and "handler sha used p used'"
  shows "all_good (s, used', p # ps)"
proof -
  obtain seen cs where inv: "past good s used seen" "length cs = length ps" "creators used seen cs"
    "\<And>j. j < length ps \<Longrightarrow> \<exists>held \<subseteq> seen. sound_prog good (cs ! j) held (ps ! j)"
    using assms(1) by (auto simp: all_good_def)
  obtain c where c: "sound_prog good c {} p" "used' = used \<union> set_option c" "set_option c \<inter> used = {}"
    using handlers [OF assms(2)] by blast
  have "past good s used' seen" using past_use [OF inv(1)] c(2) by blast
  moreover have "creators used' seen (c # cs)"
    unfolding creators_def
  proof (intro allI impI)
    fix j i assume j: "j < length (c # cs)" "(c # cs) ! j = Some i"
    show "i \<in> used' \<and> i \<notin> rn_run_id ` seen \<and> (\<forall>j' < length (c # cs). (c # cs) ! j' = Some i \<longrightarrow> j' = j)"
    proof (cases j)
      case 0
      then have i: "c = Some i" "i \<in> used'" "i \<notin> used" using j c(2,3) by auto
      then have "i \<notin> rn_run_id ` seen" using pastD(4) [OF inv(1)] by blast
      moreover have "j' = 0" if "j' < length (c # cs)" "(c # cs) ! j' = Some i" for j'
        using that inv(3) i(3) by (cases j') (auto simp: creators_def)
      ultimately show ?thesis using i 0 by blast
    next
      case (Suc n)
      then have n: "i \<in> used" "i \<notin> rn_run_id ` seen" "\<And>n'. n' < length cs \<Longrightarrow> cs ! n' = Some i \<Longrightarrow> n' = n"
        using inv(3) j by (auto simp: creators_def)
      moreover have "j' = j" if "j' < length (c # cs)" "(c # cs) ! j' = Some i" for j'
        using that n c(3) Suc by (cases j') auto
      ultimately show ?thesis using c(2) by blast
    qed
  qed
  moreover have "\<exists>held \<subseteq> seen. sound_prog good ((c # cs) ! j) held ((p # ps) ! j)" if "j < length (p # ps)" for j
    using that c(1) inv(4) by (cases j) auto
  ultimately show ?thesis unfolding all_good_def using inv(2) by (intro case_prodI exI [of _ seen] exI [of _ "c # cs"]) auto
qed

lemma all_good_step:
  assumes "all_good (s, used, ps)" and "n < length ps" and "prog_step (s, ps ! n) (s', p')"
  shows "all_good (s', used, ps[n := p'])"
proof -
  obtain seen cs where inv: "past good s used seen" "length cs = length ps" "creators used seen cs"
    "\<And>j. j < length ps \<Longrightarrow> \<exists>held \<subseteq> seen. sound_prog good (cs ! j) held (ps ! j)"
    using assms(1) by (auto simp: all_good_def)
  obtain held where held: "held \<subseteq> seen" "sound_prog good (cs ! n) held (ps ! n)" using inv(4) assms(2) by blast
  have c: "\<forall>i. cs ! n = Some i \<longrightarrow> i \<in> used \<and> i \<notin> rn_run_id ` seen"
    using inv(2,3) assms(2) by (simp add: creators_def)
  obtain seen' c' held' where new: "seen \<subseteq> seen'" "past good s' used seen'" "held' \<subseteq> seen'"
    "sound_prog good c' held' p'"
    and ids: "c' = cs ! n \<and> rn_run_id ` seen' = rn_run_id ` seen
      \<or> c' = None \<and> rn_run_id ` seen' \<subseteq> rn_run_id ` seen \<union> set_option (cs ! n)"
    using sound_step [OF assms(3) inv(1) held(2,1) c] by (elim exE conjE) (rule that; assumption)
  have "creators used seen' (cs[n := c'])"
    unfolding creators_def
  proof (intro allI impI)
    fix j i assume j: "j < length (cs[n := c'])" "cs[n := c'] ! j = Some i"
    have old: "cs ! j' = Some i" if "cs[n := c'] ! j' = Some i" "j' < length cs" for j'
      using that ids by (cases "j' = n") auto
    have i: "i \<in> used" "i \<notin> rn_run_id ` seen" "\<And>j'. j' < length cs \<Longrightarrow> cs ! j' = Some i \<Longrightarrow> j' = j"
      using inv(3) old [OF j(2)] j(1) by (auto simp: creators_def)
    have "i \<notin> rn_run_id ` seen'"
    proof
      assume "i \<in> rn_run_id ` seen'"
      then have "c' = None" "cs ! n = Some i" using ids i(2) by auto
      then have "n = j" using i(3) assms(2) inv(2) by simp
      then show False using \<open>c' = None\<close> j assms(2) inv(2) by simp
    qed
    then show "i \<in> used \<and> i \<notin> rn_run_id ` seen'
        \<and> (\<forall>j' < length (cs[n := c']). cs[n := c'] ! j' = Some i \<longrightarrow> j' = j)"
      using i old by simp
  qed
  moreover have "\<exists>held \<subseteq> seen'. sound_prog good (cs[n := c'] ! j) held (ps[n := p'] ! j)"
    if "j < length ps" for j
    using that inv(2,4) new(1,3,4) by (cases "j = n") (auto, meson order_trans)
  ultimately show ?thesis
    unfolding all_good_def using inv(2) new(2)
    by (intro case_prodI exI [of _ seen'] exI [of _ "cs[n := c']"]) auto
qed

lemma all_good_drop:
  assumes "all_good (s, used, ps)" and "store_ok s'"
    and "\<And>k r. stored_record s' k = Some r \<Longrightarrow> stored_record s k = Some r"
  shows "all_good (s', used, ps)"
  using assms(1) past_drop [OF _ assms(2,3)] by (auto simp: all_good_def)

theorem all_good_reachable: "system_run sha \<sigma> \<Longrightarrow> all_good \<sigma>"
proof (induction rule: system_run.induct)
  case (opened ttl s)
  then have "st_entries s = []" by (auto simp: new_store_def split: if_splits)
  then have "past good s {} {}"
    using store_ok_new [OF opened] by (simp add: past_def stored_record_def entry_of_def)
  then show ?case by (simp add: all_good_def creators_def) (rule exI [of _ "{}"], simp)
next
  case (spawned s used ps p used')
  then show ?case using all_good_spawn by blast
next
  case (stepped s used ps i s' p')
  then show ?case using all_good_step by blast
next
  case (purged s used ps m removed s')
  have ok: "store_ok s" using purged(3) by (auto simp: all_good_def past_def)
  show ?case
    by (rule all_good_drop [OF purged(3)])
      (use purged(2) store_ok_pops ok in \<open>auto simp: purge_expired_def Let_def split: option.splits if_splits dest!: stored_pops\<close>)
next
  case (closed s used ps)
  have ok: "store_ok s" using closed(2) by (auto simp: all_good_def past_def)
  show ?case
    by (rule all_good_drop [OF closed(2)])
      (use store_ok_close ok in \<open>auto simp: close_store_def stored_record_def entry_of_def\<close>)
qed

lemma stored_good:
  assumes "system_run sha \<sigma>" and "stored_record (fst \<sigma>) k = Some r"
  shows "good r" and "valid_stored r" and "rn_run_id r = k"
proof -
  obtain s used ps where \<sigma>: "\<sigma> = (s, used, ps)" by (cases \<sigma>)
  obtain seen where past: "past good s used seen"
    using all_good_reachable [OF assms(1)] unfolding \<sigma> all_good_def by auto
  have r: "stored_record s k = Some r" using assms(2) \<sigma> by simp
  show "good r" using pastD(3) [OF past pastD(2) [OF past r]] .
  show "rn_run_id r = k" using stored_id [OF pastD(1) [OF past] r] .
  show "valid_stored r" using store_ok_entry(3) [OF pastD(1) [OF past]] r by (auto simp: stored_record_def)
qed

end

end
