(* ===== verification/Coordinator_Meaning.thy ===== *)
theory Coordinator_Meaning
  imports Coordinator_System
begin

section \<open>What every stored run satisfies\<close>

text \<open>
  Invariants of the runs of the whole system, each an interpretation of \<open>run_invariant\<close>: the artifacts
  of a run are determined by the path it took, every envelope is derived from the ones before it, a run
  waits for exactly the confirmation its stage asks for, and the submitted text is dropped as soon as
  it has been read.
\<close>

subsection \<open>One move\<close>

fun stage_kinds :: "run_stage \<Rightarrow> artifact_type list" where
  "stage_kinds Extracting = [PolicyDocumentArtifact]"
| "stage_kinds AwaitingContract = [PolicyIRArtifact]"
| "stage_kinds GeneratingInitialTests = [PolicyIRArtifact, PolicyContractArtifact]"
| "stage_kinds TargetingCoverage = [CoverageSnapshotArtifact]"
| "stage_kinds CoverageLimit = [CoverageSnapshotArtifact]"
| "stage_kinds FreezingSuite = [ScenarioSuiteArtifact]"
| "stage_kinds Analyzing = [EvaluationReportArtifact]"
| "stage_kinds AwaitingFindingReview = [FindingReportArtifact, MetricsReportArtifact]"
| "stage_kinds CompletedNoFindings = [FindingReportArtifact, MetricsReportArtifact]"
| "stage_kinds DraftingRevision = [FindingReportArtifact]"
| "stage_kinds CompletedNoRevision = [FindingReportArtifact]"
| "stage_kinds AwaitingRevisionConfirmation = [RevisionProposalArtifact]"
| "stage_kinds Retesting = [PolicyIRArtifact]"
| "stage_kinds Complete =
     [EvaluationReportArtifact, FindingReportArtifact, ComparisonBundleArtifact, MetricsReportArtifact]"
| "stage_kinds s = []"

lemma move_kinds: "coordinator_move stage artifacts changes \<Longrightarrow> map payload_type artifacts = stage_kinds stage"
  by (induction rule: coordinator_move.induct) auto

lemma move_keeps:
  assumes "coordinator_move stage artifacts changes"
  shows "rn_artifacts (changes r) = rn_artifacts r" and "rn_events (changes r) = rn_events r"
    and "rn_stage (changes r) = rn_stage r" and "rn_manifest (changes r) = rn_manifest r"
    and "rn_run_id (changes r) = rn_run_id r"
  using assms by (cases; simp add: unchanged_def no_pending_def)+

text \<open>A sequence of envelopes, each made from its payload and from the references to all before it.\<close>

fun chained :: "(string \<Rightarrow> sha256) \<Rightarrow> ident \<Rightarrow> artifact_envelope list \<Rightarrow> artifact_envelope list \<Rightarrow> bool" where
  "chained sha manifest_id earlier [] = True"
| "chained sha manifest_id earlier (e # es) =
     (make_artifact_envelope sha (payload_type (ae_payload e)) (ae_payload e) (map envelope_ref earlier)
        manifest_id = Inr e
      \<and> chained sha manifest_id (earlier @ [e]) es)"

lemma chained_append:
  "chained sha i earlier (es @ fs) \<longleftrightarrow> chained sha i earlier es \<and> chained sha i (earlier @ es) fs"
  by (induction es arbitrary: earlier) auto

lemma make_envelope_fields:
  assumes "make_artifact_envelope sha kind payload refs i = Inr e"
  shows "ae_payload e = payload" and "ae_artifact_type e = kind"
  using assms by (auto simp: make_artifact_envelope_def rbind_Inr_iff validated_Inr_iff)

lemma append_artifact_Inr:
  assumes "append_artifact sha p r = Inr r'"
  obtains e where "make_artifact_envelope sha (payload_type p) p (map envelope_ref (rn_artifacts r))
      (rm_manifest_id (rn_manifest r)) = Inr e"
    and "r' = r\<lparr>rn_artifacts := rn_artifacts r @ [e]\<rparr>"
  using assms by (auto simp: append_artifact_def Let_def rbind_Inr_iff)

lemma append_artifacts:
  assumes "rfold (append_artifact sha) items r = Inr r'"
  shows "\<exists>es. r' = r\<lparr>rn_artifacts := rn_artifacts r @ es\<rparr> \<and> map ae_payload es = items
    \<and> map ae_artifact_type es = map payload_type items
    \<and> chained sha (rm_manifest_id (rn_manifest r)) (rn_artifacts r) es"
  using assms
proof (induction items arbitrary: r)
  case Nil
  then show ?case by (intro exI [of _ "[]"]) simp
next
  case (Cons p ps)
  then obtain m where "append_artifact sha p r = Inr m" and m: "rfold (append_artifact sha) ps m = Inr r'"
    by (auto simp: rbind_Inr_iff)
  then obtain e where e: "make_artifact_envelope sha (payload_type p) p (map envelope_ref (rn_artifacts r))
      (rm_manifest_id (rn_manifest r)) = Inr e"
    and rest: "rfold (append_artifact sha) ps (r\<lparr>rn_artifacts := rn_artifacts r @ [e]\<rparr>) = Inr r'"
    by (metis append_artifact_Inr)
  note fields = make_envelope_fields [OF e]
  obtain es where "r' = r\<lparr>rn_artifacts := rn_artifacts r @ e # es\<rparr>" "map ae_payload es = ps"
    "map ae_artifact_type es = map payload_type ps"
    "chained sha (rm_manifest_id (rn_manifest r)) (rn_artifacts r @ [e]) es"
    using Cons.IH [OF rest] by auto
  then show ?case using e fields by (intro exI [of _ "e # es"]) simp
qed

lemma move_value:
  assumes "coordinator_move stage artifacts changes"
    and "move_change sha stage artifacts changes now r = Inr (Some r')"
  obtains es artifact where "stage \<in> set (transitions (rn_stage r))" and "valid_stored r'"
    and "map ae_payload es = artifacts" and "map ae_artifact_type es = stage_kinds stage"
    and "chained sha (rm_manifest_id (rn_manifest r)) (rn_artifacts r) es"
    and "r' = (changes r)\<lparr>rn_artifacts := rn_artifacts r @ es, rn_stage := stage,
      rn_events := rn_events r @ [\<lparr>ev_timestamp = now, ev_stage = stage,
        ev_action_summary = stage_summary stage, ev_artifact = artifact, ev_error_id = None\<rparr>]\<rparr>"
proof -
  note keeps = move_keeps [OF assms(1), of r]
  obtain m where m: "rfold (append_artifact sha) artifacts (changes r) = Inr m"
    using assms(2) by (auto simp: move_change_def split: sum.splits)
  obtain es where es: "m = (changes r)\<lparr>rn_artifacts := rn_artifacts r @ es\<rparr>" "map ae_payload es = artifacts"
    "map ae_artifact_type es = map payload_type artifacts"
    "chained sha (rm_manifest_id (rn_manifest r)) (rn_artifacts r) es"
    using append_artifacts [OF m] unfolding keeps by blast
  have t: "transition_to m stage now (if artifacts = [] then None else Some (envelope_ref (last (rn_artifacts m)))) = Inr r'"
    using assms(2) m by (auto simp: move_change_def split: sum.splits)
  note t' = t [unfolded transition_to_Inr_iff, unfolded es(1)]
  show ?thesis
  proof (rule that)
    show "stage \<in> set (transitions (rn_stage r))" using t' keeps by simp
    show "valid_stored r'" using t' by blast
    show "map ae_artifact_type es = stage_kinds stage" using es(3) move_kinds [OF assms(1)] by simp
    show "r' = (changes r)\<lparr>rn_artifacts := rn_artifacts r @ es, rn_stage := stage,
      rn_events := rn_events r @ [\<lparr>ev_timestamp = now, ev_stage = stage, ev_action_summary = stage_summary stage,
        ev_artifact = (if artifacts = [] then None else Some (envelope_ref (last (rn_artifacts r @ es)))),
        ev_error_id = None\<rparr>]\<rparr>"
      using conjunct2 [OF conjunct2 [OF t']] keeps(2) by simp
  qed (rule es)+
qed

lemma fresh_value:
  assumes "fresh_run sha r"
  obtains run_id manifest now command e where
    "r = (new_run run_id manifest now command)\<lparr>rn_artifacts := [e]\<rparr>" and "ae_artifact_type e = RunManifestArtifact"
    and "ae_payload e = ManifestPayload manifest" and "chained sha (rm_manifest_id manifest) [] [e]"
proof -
  obtain run_id manifest now command where
    "append_artifact sha (ManifestPayload manifest) (new_run run_id manifest now command) = Inr r"
    using assms by (auto simp: fresh_run_def)
  then obtain e where e: "make_artifact_envelope sha RunManifestArtifact (ManifestPayload manifest) []
      (rm_manifest_id manifest) = Inr e" "r = (new_run run_id manifest now command)\<lparr>rn_artifacts := [e]\<rparr>"
    by (rule append_artifact_Inr) (simp add: new_run_def)
  note fields = make_envelope_fields [OF e(1)]
  show ?thesis by (rule that [OF e(2) fields(2,1)]) (simp add: e(1) fields(1))
qed

subsection \<open>Artifacts follow the stages\<close>

definition follows_stages :: "stored_run \<Rightarrow> bool" where
  "follows_stages r \<longleftrightarrow>
     path Queued (event_stages r) \<and> rn_stage r = last (Queued # event_stages r)
     \<and> map ae_artifact_type (rn_artifacts r) =
         RunManifestArtifact # concat (map stage_kinds (event_stages r))"

interpretation stages: run_invariant sha follows_stages for sha
proof
  fix r s w
  assume "fresh_run sha r"
  then show "follows_stages (rebased s w r)"
    by (rule fresh_value) (simp add: follows_stages_def rebased_def new_run_def)
next
  fix r :: stored_run and v
  assume "follows_stages r"
  then show "follows_stages (r\<lparr>sr_version := v\<rparr>)" by (simp add: follows_stages_def)
next
  fix r stage artifacts changes now r'
  assume r: "follows_stages r" and move: "coordinator_move stage artifacts changes"
    and made: "move_change sha stage artifacts changes now r = Inr (Some r')"
  from move made obtain es artifact where "stage \<in> set (transitions (rn_stage r))"
    "map ae_artifact_type es = stage_kinds stage"
    "r' = (changes r)\<lparr>rn_artifacts := rn_artifacts r @ es, rn_stage := stage,
      rn_events := rn_events r @ [\<lparr>ev_timestamp = now, ev_stage = stage,
        ev_action_summary = stage_summary stage, ev_artifact = artifact, ev_error_id = None\<rparr>]\<rparr>"
    by (rule move_value)
  then show "follows_stages r'"
    using r by (simp add: follows_stages_def path_snoc last_stage del: last.simps)
qed

subsection \<open>Envelopes are chained\<close>

definition provenance_chained :: "(string \<Rightarrow> sha256) \<Rightarrow> stored_run \<Rightarrow> bool" where
  "provenance_chained sha r \<longleftrightarrow>
     chained sha (rm_manifest_id (rn_manifest r)) [] (rn_artifacts r)
     \<and> rn_artifacts r \<noteq> [] \<and> ae_payload (hd (rn_artifacts r)) = ManifestPayload (rn_manifest r)"

interpretation chain: run_invariant sha "provenance_chained sha" for sha
proof
  fix r s w
  assume "fresh_run sha r"
  then show "provenance_chained sha (rebased s w r)"
    by (rule fresh_value) (simp add: provenance_chained_def rebased_def new_run_def)
next
  fix r :: stored_run and v
  assume "provenance_chained sha r"
  then show "provenance_chained sha (r\<lparr>sr_version := v\<rparr>)" by (simp add: provenance_chained_def)
next
  fix r stage artifacts changes now r'
  assume r: "provenance_chained sha r" and move: "coordinator_move stage artifacts changes"
    and made: "move_change sha stage artifacts changes now r = Inr (Some r')"
  from move made obtain es artifact where
    "chained sha (rm_manifest_id (rn_manifest r)) (rn_artifacts r) es"
    "r' = (changes r)\<lparr>rn_artifacts := rn_artifacts r @ es, rn_stage := stage,
      rn_events := rn_events r @ [\<lparr>ev_timestamp = now, ev_stage = stage,
        ev_action_summary = stage_summary stage, ev_artifact = artifact, ev_error_id = None\<rparr>]\<rparr>"
    by (rule move_value)
  then show "provenance_chained sha r'"
    using r move_keeps(4) [OF move, of r] by (simp add: provenance_chained_def chained_append)
qed

lemma chained_nth:
  "chained sha i earlier es \<Longrightarrow> n < length es \<Longrightarrow>
     make_artifact_envelope sha (payload_type (ae_payload (es ! n))) (ae_payload (es ! n))
       (map envelope_ref (earlier @ take n es)) i = Inr (es ! n)"
proof (induction es arbitrary: earlier n)
  case (Cons e es)
  then show ?case using Cons.IH [of "earlier @ [e]"] by (cases n) auto
qed simp

lemma chained_authentic:
  assumes "chained sha i [] es" and "hex_digest sha" and "n < length es"
  shows "validate_artifact_envelope sha (es ! n) = Inr (es ! n)"
    and "ae_parent_hashes (es ! n) = sorted_unique (map ae_artifact_sha256 (take n es))"
    and "ae_run_manifest_id (es ! n) = i"
proof -
  note made = chained_nth [OF assms(1,3)]
  show "validate_artifact_envelope sha (es ! n) = Inr (es ! n)"
    by (rule envelope_accepted [OF made assms(2)])
  have "es ! n = envelope_of sha (payload_type (ae_payload (es ! n))) (ae_payload (es ! n))
      (map envelope_ref (take n es)) i"
    using made make_artifact_envelope_Inr [OF assms(2)] by simp
  then have "ae_parent_hashes (es ! n) = sorted_unique (map ar_artifact_sha256 (map envelope_ref (take n es)))
      \<and> ae_run_manifest_id (es ! n) = i"
    unfolding envelope_of_def by (metis artifact_envelope.select_convs(4,5))
  then show "ae_parent_hashes (es ! n) = sorted_unique (map ae_artifact_sha256 (take n es))"
    "ae_run_manifest_id (es ! n) = i"
    by (simp_all add: envelope_ref_def comp_def)
qed

subsection \<open>Confirmations and submitted text\<close>

definition waits_properly :: "stored_run \<Rightarrow> bool" where
  "waits_properly r \<longleftrightarrow>
     (case rn_stage r of
        AwaitingContract \<Rightarrow> (\<exists>c. sr_pending_confirmation r = Some (PendingContract c))
      | AwaitingFindingReview \<Rightarrow> (\<exists>ids. sr_pending_confirmation r = Some (PendingFindings ids))
      | AwaitingRevisionConfirmation \<Rightarrow> (\<exists>c. sr_pending_confirmation r = Some (PendingRevision c))
      | _ \<Rightarrow> sr_pending_confirmation r = None)
     \<and> (rn_stage r \<notin> {Queued, Ingesting} \<longrightarrow> sr_source_request r = None)
     \<and> (rn_error r \<noteq> None \<longleftrightarrow> rn_stage r = Failed)
     \<and> (rn_stage r \<in> set revision_stages \<longrightarrow> rn_decision_at r \<noteq> None)"

lemma waits_moved:
  assumes "coordinator_move stage artifacts changes" and "stage \<in> set (transitions (rn_stage r))" and "waits_properly r"
  shows "waits_properly ((changes r)\<lparr>rn_artifacts := as, rn_stage := stage, rn_events := es\<rparr>)"
  using assms
  by (cases rule: coordinator_move.cases; cases "rn_stage r";
      auto simp: waits_properly_def unchanged_def no_pending_def revision_stages_def)

interpretation waiting: run_invariant sha waits_properly for sha
proof
  fix r s w
  assume "fresh_run sha r"
  then show "waits_properly (rebased s w r)"
    by (rule fresh_value) (simp add: waits_properly_def rebased_def new_run_def revision_stages_def)
next
  fix r :: stored_run and v
  assume "waits_properly r"
  then show "waits_properly (r\<lparr>sr_version := v\<rparr>)"
    by (cases "rn_stage r") (simp_all add: waits_properly_def)
next
  fix r stage artifacts changes now r'
  assume r: "waits_properly r" and move: "coordinator_move stage artifacts changes"
    and made: "move_change sha stage artifacts changes now r = Inr (Some r')"
  from move made obtain es artifact where "stage \<in> set (transitions (rn_stage r))"
    "r' = (changes r)\<lparr>rn_artifacts := rn_artifacts r @ es, rn_stage := stage,
      rn_events := rn_events r @ [\<lparr>ev_timestamp = now, ev_stage = stage,
        ev_action_summary = stage_summary stage, ev_artifact = artifact, ev_error_id = None\<rparr>]\<rparr>"
    by (rule move_value)
  then show "waits_properly r'" using waits_moved [OF move _ r] by simp
qed

end
