(* ===== verification/Coordinator_Evidence.thy ===== *)
theory Coordinator_Evidence
  imports Coordinator_Logic Coordinator_Meaning
begin

section \<open>The evidence of a run belongs together\<close>

text \<open>
  What the artifacts of a run mean for each other: every rule of \<open>evidence\<close> is one stage, with the
  checks that relate its artifacts to the latest ones before it. The handlers are shown to establish the
  rules with the record they hold, so the relation holds of every stored run.
\<close>

subsection \<open>The relation\<close>

abbreviation latest :: "(artifact_payload \<Rightarrow> 'a option) \<Rightarrow> artifact_payload list \<Rightarrow> 'a option" where
  "latest f xs \<equiv> last_of (List.map_filter f xs)"

lemma latest_snoc [simp]: "latest f (xs @ [x]) = (case f x of None \<Rightarrow> latest f xs | Some y \<Rightarrow> Some y)"
  by (simp add: last_of_def List.map_filter_def split: option.splits)

lemma last_of_snoc [simp]: "last_of (xs @ [x]) = Some x" "last_of [x] = Some x"
  by (simp_all add: last_of_def)

lemma latest_snocs [simp]:
  "latest f (xs @ [x, y]) = (case f y of None \<Rightarrow> latest f (xs @ [x]) | Some z \<Rightarrow> Some z)"
  using latest_snoc [of f "xs @ [x]" y] by simp

fun as_document :: "artifact_payload \<Rightarrow> policy_document option" where
  "as_document (DocumentPayload d) = Some d" | "as_document x = None"

definition session_confirmed :: "policy_ir \<Rightarrow> policy_ir" where
  "session_confirmed p = (with_clause_status SessionConfirmed p)\<lparr>pi_review_status := SessionConfirmed\<rparr>"

definition evaluated ::
  "(string \<Rightarrow> sha256) \<Rightarrow> run_manifest \<Rightarrow> policy_ir \<Rightarrow> policy_contract \<Rightarrow> scenario_suite \<Rightarrow> evaluation_report \<Rightarrow> bool" where
  "evaluated sha m p c s e \<longleftrightarrow>
     (\<exists>inputs. input_hashes_of sha p c s m = Inr inputs
        \<and> validate_evaluation sha e
            \<lparr>ep_policy = p, ep_contract = c, ep_suite = s, ep_inputs = inputs,
             ep_engine_version = rm_engine_version m\<rparr> = Inr e)"

definition accepted_findings :: "finding_report \<Rightarrow> finding_report \<Rightarrow> scenario_suite \<Rightarrow> finding list" where
  "accepted_findings reviewed report s =
     filter (\<lambda>f. fd_review_status f = Accepted \<and> fd_finding_id f \<in> set (map fd_finding_id (reviewable_findings report s)))
       (fr_findings reviewed)"

definition review_of ::
  "finding_decision list \<Rightarrow> policy_contract \<Rightarrow> finding_report \<Rightarrow> finding_report \<Rightarrow> bool" where
  "review_of ds c report reviewed \<longleftrightarrow>
     (\<exists>updated. etraverse (reviewed_finding (dict_by fdn_finding_id ds) (dict_by i_invariant_id (pc_invariants c)))
          (fr_findings report) = Inr updated
        \<and> reviewed = report\<lparr>fr_findings := updated\<rparr>)"

inductive evidence ::
  "(string \<Rightarrow> sha256) \<Rightarrow> ident \<Rightarrow> run_manifest \<Rightarrow> finding_decision list \<Rightarrow> run_stage \<Rightarrow> artifact_payload list \<Rightarrow> bool"
  for sha i m where
  queued: "evidence sha i m [] Queued [ManifestPayload m]"
| ingesting: "evidence sha i m ds Queued xs \<Longrightarrow> evidence sha i m ds Ingesting xs"
| extracting: "evidence sha i m ds Ingesting xs \<Longrightarrow> evidence sha i m ds Extracting (xs @ [DocumentPayload d])"
| drafted: "evidence sha i m ds Extracting xs \<Longrightarrow> latest as_document xs = Some d \<Longrightarrow>
    pi_document_sha256 p = pd_document_sha256 d \<Longrightarrow> pi_kind p = CompiledBaseline \<Longrightarrow>
    pi_review_status p = Provisional \<Longrightarrow> list_all (\<lambda>c. uc_review_status c = Provisional) (pi_unsupported_clauses p) \<Longrightarrow>
    evidence sha i m ds AwaitingContract (xs @ [PolicyPayload p])"
| contract_rejected: "evidence sha i m ds AwaitingContract xs \<Longrightarrow> evidence sha i m ds ContractRejected xs"
| confirmed: "evidence sha i m ds AwaitingContract xs \<Longrightarrow> latest as_policy xs = Some p \<Longrightarrow>
    confirmed_contract sha command = Inr c \<Longrightarrow>
    evidence sha i m ds GeneratingInitialTests (xs @ [PolicyPayload (session_confirmed p), ContractPayload c])"
| executed: "evidence sha i m ds GeneratingInitialTests xs \<Longrightarrow> evidence sha i m ds ProvisionalExecution xs"
| targeted: "evidence sha i m ds ProvisionalExecution xs \<Longrightarrow>
    evidence sha i m ds TargetingCoverage (xs @ [CoveragePayload v])"
| limit: "evidence sha i m ds TargetingCoverage xs \<Longrightarrow> evidence sha i m ds CoverageLimit (xs @ [CoveragePayload v])"
| frozen: "evidence sha i m ds stage xs \<Longrightarrow> stage \<in> {ProvisionalExecution, TargetingCoverage} \<Longrightarrow>
    latest as_policy xs = Some p \<Longrightarrow> latest as_contract xs = Some c \<Longrightarrow>
    validate_suite sha s p c m (Some (''suite-'' @ i)) n = Inr s \<Longrightarrow>
    evidence sha i m ds FreezingSuite (xs @ [SuitePayload s])"
| baseline: "evidence sha i m ds FreezingSuite xs \<Longrightarrow> evidence sha i m ds BaselineExecution xs"
| analyzed: "evidence sha i m ds BaselineExecution xs \<Longrightarrow> latest as_policy xs = Some p \<Longrightarrow>
    latest as_contract xs = Some c \<Longrightarrow> latest as_suite xs = Some s \<Longrightarrow> evaluated sha m p c s e \<Longrightarrow>
    minimum_coverage e \<Longrightarrow> evidence sha i m ds Analyzing (xs @ [EvaluationPayload e])"
| reported: "evidence sha i m ds Analyzing xs \<Longrightarrow> latest as_policy xs = Some p \<Longrightarrow>
    latest as_contract xs = Some c \<Longrightarrow> latest as_suite xs = Some s \<Longrightarrow> latest as_evaluation xs = Some e \<Longrightarrow>
    validate_findings f e p c False = Inr f \<Longrightarrow> validate_metrics x e f = Inr x \<Longrightarrow> reviewable_findings f s \<noteq> [] \<Longrightarrow>
    evidence sha i m ds AwaitingFindingReview (xs @ [FindingsPayload f, MetricsPayload x])"
| none_reported: "evidence sha i m ds Analyzing xs \<Longrightarrow> latest as_policy xs = Some p \<Longrightarrow>
    latest as_contract xs = Some c \<Longrightarrow> latest as_suite xs = Some s \<Longrightarrow> latest as_evaluation xs = Some e \<Longrightarrow>
    validate_findings f e p c False = Inr f \<Longrightarrow> validate_metrics x e f = Inr x \<Longrightarrow> reviewable_findings f s = [] \<Longrightarrow>
    evidence sha i m ds CompletedNoFindings (xs @ [FindingsPayload f, MetricsPayload x])"
| reviewed: "evidence sha i m ds0 AwaitingFindingReview xs \<Longrightarrow> latest as_contract xs = Some c \<Longrightarrow>
    latest as_suite xs = Some s \<Longrightarrow> latest as_findings xs = Some f \<Longrightarrow>
    set (map fdn_finding_id ds) = set (map fd_finding_id (reviewable_findings f s)) \<Longrightarrow> review_of ds c f fr \<Longrightarrow>
    accepted_findings fr f s \<noteq> [] \<Longrightarrow> evidence sha i m ds DraftingRevision (xs @ [FindingsPayload fr])"
| none_accepted: "evidence sha i m ds0 AwaitingFindingReview xs \<Longrightarrow> latest as_contract xs = Some c \<Longrightarrow>
    latest as_suite xs = Some s \<Longrightarrow> latest as_findings xs = Some f \<Longrightarrow>
    set (map fdn_finding_id ds) = set (map fd_finding_id (reviewable_findings f s)) \<Longrightarrow> review_of ds c f fr \<Longrightarrow>
    accepted_findings fr f s = [] \<Longrightarrow> evidence sha i m ds CompletedNoRevision (xs @ [FindingsPayload fr])"
| proposed: "evidence sha i m ds DraftingRevision (xs @ [FindingsPayload fr]) \<Longrightarrow> latest as_policy xs = Some p \<Longrightarrow>
    latest as_contract xs = Some c \<Longrightarrow> latest as_suite xs = Some s \<Longrightarrow> latest as_findings xs = Some f \<Longrightarrow>
    propose_request sha p c s (fr\<lparr>fr_findings := accepted_findings fr f s\<rparr>)
      (filter (\<lambda>d. fdn_decision d = Accept) ds) = Inr request \<Longrightarrow>
    validate_proposal q request = Inr q \<Longrightarrow>
    evidence sha i m ds AwaitingRevisionConfirmation (xs @ [FindingsPayload fr, ProposalPayload q])"
| revision_rejected: "evidence sha i m ds AwaitingRevisionConfirmation xs \<Longrightarrow> evidence sha i m ds RevisionRejected xs"
| applying: "evidence sha i m ds AwaitingRevisionConfirmation xs \<Longrightarrow> evidence sha i m ds ApplyingRevision xs"
| retested: "evidence sha i m ds ApplyingRevision xs \<Longrightarrow> latest as_policy xs = Some p \<Longrightarrow>
    pi_document_sha256 p' = pi_document_sha256 p \<Longrightarrow> pi_review_status p' = SessionConfirmed \<Longrightarrow>
    pi_kind p' = StructuredRevision \<Longrightarrow> evidence sha i m ds Retesting (xs @ [PolicyPayload p'])"
| completed: "evidence sha i m ds Retesting (xs @ [PolicyPayload p']) \<Longrightarrow> latest as_policy xs = Some p \<Longrightarrow>
    latest as_contract xs = Some c \<Longrightarrow> latest as_suite xs = Some s \<Longrightarrow> latest as_proposal xs = Some q \<Longrightarrow>
    latest as_evaluation xs = Some e \<Longrightarrow> latest as_findings xs = Some f \<Longrightarrow>
    evaluated sha m p' c s e' \<Longrightarrow> validate_findings f' e' p' c False = Inr f' \<Longrightarrow>
    validate_comparison_bundle b
      \<lparr>crq_baseline_policy = p, crq_revised_policy = p', crq_contract = c, crq_suite = s, crq_proposal = q,
       crq_baseline_evaluation = e, crq_revised_evaluation = e', crq_baseline_findings = f,
       crq_revised_findings = f'\<rparr> = Inr b \<Longrightarrow>
    evidence sha i m ds Complete (xs @ [PolicyPayload p', EvaluationPayload e', FindingsPayload f', BundlePayload b,
      MetricsPayload (cb_revised_metrics b)])"
| failed: "evidence sha i m ds stage xs \<Longrightarrow> evidence sha i m ds Failed xs"

subsection \<open>Moves of the record held\<close>

definition contents :: "stored_run \<Rightarrow> artifact_payload list" where
  "contents r = map ae_payload (rn_artifacts r)"

definition typed :: "stored_run \<Rightarrow> bool" where
  "typed r \<longleftrightarrow> map ae_artifact_type (rn_artifacts r) = map payload_type (contents r)"

definition pending_matches :: "(string \<Rightarrow> sha256) \<Rightarrow> stored_run \<Rightarrow> bool" where
  "pending_matches sha r \<longleftrightarrow>
     (rn_stage r = AwaitingContract \<longrightarrow>
        (\<exists>p v. latest as_policy (contents r) = Some p \<and> sr_pending_confirmation r = Some (PendingContract v)
           \<and> cf_baseline_policy_id v = pi_policy_id p \<and> cf_baseline_policy_sha256 v = complete_digest sha (PolicyPayload p)))
     \<and> (rn_stage r = AwaitingFindingReview \<longrightarrow>
        (\<exists>f s. latest as_findings (contents r) = Some f \<and> latest as_suite (contents r) = Some s
           \<and> sr_pending_confirmation r = Some (PendingFindings (map fd_finding_id (reviewable_findings f s)))))
     \<and> (rn_stage r = AwaitingRevisionConfirmation \<longrightarrow>
        (\<exists>p q v. latest as_policy (contents r) = Some p \<and> latest as_proposal (contents r) = Some q
           \<and> pending_revision p q = Inr v \<and> sr_pending_confirmation r = Some (PendingRevision v)))"

definition coherent :: "(string \<Rightarrow> sha256) \<Rightarrow> stored_run \<Rightarrow> bool" where
  "coherent sha r \<longleftrightarrow>
     evidence sha (rn_run_id r) (rn_manifest r) (rn_finding_decisions r) (rn_stage r) (contents r)
     \<and> typed r \<and> pending_matches sha r"

text \<open>What a mutation of the record held answers.\<close>

definition moved_to ::
  "run_stage \<Rightarrow> artifact_payload list \<Rightarrow> (stored_run \<Rightarrow> stored_run) \<Rightarrow> stored_run \<Rightarrow> stored_run \<Rightarrow> bool" where
  "moved_to stage artifacts changes r x \<longleftrightarrow>
     stage \<in> set (transitions (rn_stage r)) \<and> rn_stage x = stage \<and> contents x = contents r @ artifacts
     \<and> rn_run_id x = rn_run_id r \<and> rn_manifest x = rn_manifest r
     \<and> rn_finding_decisions x = rn_finding_decisions (changes r)
     \<and> sr_pending_confirmation x = sr_pending_confirmation (changes r) \<and> (typed r \<longrightarrow> typed x)"

lemma moved_toI:
  assumes "coordinator_move stage artifacts changes"
    and "move_change sha stage artifacts changes now r = Inr (Some x)"
  shows "moved_to stage artifacts changes r (x\<lparr>sr_version := v\<rparr>)"
proof -
  note keeps = move_keeps [OF assms(1), of r] and kinds = move_kinds [OF assms(1)]
  obtain es artifact where es: "stage \<in> set (transitions (rn_stage r))" "map ae_payload es = artifacts"
    "map ae_artifact_type es = stage_kinds stage"
    "x = (changes r)\<lparr>rn_artifacts := rn_artifacts r @ es, rn_stage := stage,
      rn_events := rn_events r @ [\<lparr>ev_timestamp = now, ev_stage = stage,
        ev_action_summary = stage_summary stage, ev_artifact = artifact, ev_error_id = None\<rparr>]\<rparr>"
    using assms by (rule move_value)
  have "map ae_artifact_type es = map payload_type (map ae_payload es)" using es(2,3) kinds by simp
  then show ?thesis
    using es keeps by (simp add: moved_to_def contents_def typed_def)
qed

lemma sound_perform [sound]: "(\<And>x. m = Inr x \<Longrightarrow> sound_prog good c held (k x)) \<Longrightarrow> sound_prog good c held (perform m k)"
  by (cases m) (simp_all add: perform_def)

lemma sound_move:
  assumes "coordinator_move stage artifacts changes" and "r \<in> held"
    and "\<And>x. moved_to stage artifacts changes r x \<Longrightarrow> good x"
    and "\<And>e. sound_prog good c held (k (Inl e))"
    and "\<And>x. moved_to stage artifacts changes r x \<Longrightarrow> good x \<Longrightarrow> sound_prog good c (insert x held) (k (Inr x))"
  shows "sound_prog good c held (move sha r stage artifacts changes k)"
  unfolding move_def using assms(2-) moved_toI [OF assms(1)] by auto

lemma sound_perform_move:
  assumes "coordinator_move stage artifacts changes" and "r \<in> held"
    and "\<And>x. moved_to stage artifacts changes r x \<Longrightarrow> good x"
    and "\<And>x. moved_to stage artifacts changes r x \<Longrightarrow> good x \<Longrightarrow> sound_prog good c (insert x held) (k x)"
  shows "sound_prog good c held (move sha r stage artifacts changes (\<lambda>m. perform m k))"
  by (rule sound_move [OF assms(1-3)]) (simp_all add: perform_def assms(4))

text \<open>Invariants that a failing run keeps, whatever it fails with.\<close>

definition fails_well :: "(stored_run \<Rightarrow> bool) \<Rightarrow> stored_run \<Rightarrow> bool" where
  "fails_well good r \<longleftrightarrow>
     (\<forall>e x. moved_to Failed [] (\<lambda>c. c\<lparr>rn_error := e, sr_pending_confirmation := None, sr_source_request := None\<rparr>) r x
        \<longrightarrow> good x)"

lemma sound_failure:
  assumes "r \<in> held" and "fails_well good r" and "\<And>held'. held \<subseteq> held' \<Longrightarrow> sound_prog good c held' rest"
  shows "sound_prog good c held (failure sha r e rest)"
  unfolding failure_def Let_def
proof (rule sound_move [OF coordinator_move.fail assms(1)], goal_cases)
  case (1 x)
  then show ?case using assms(2) unfolding fails_well_def by blast
next
  case (2 e')
  then show ?case using assms(3) by (cases e') auto
next
  case (3 x)
  then show ?case using assms(3) by auto
qed

lemma sound_attempt:
  assumes "r \<in> held" and "fails_well good r" and "\<And>held'. held \<subseteq> held' \<Longrightarrow> sound_prog good c held' rest"
    and "\<And>x. m = Inr x \<Longrightarrow> sound_prog good c held (k x)"
  shows "sound_prog good c held (attempt sha r rest m k)"
  using assms by (cases m) (simp_all add: attempt_def sound_failure)

lemma sound_attempt_move:
  assumes "coordinator_move stage artifacts changes" and "r \<in> held" and "fails_well good r"
    and "\<And>held'. held \<subseteq> held' \<Longrightarrow> sound_prog good c held' rest"
    and "\<And>x. moved_to stage artifacts changes r x \<Longrightarrow> good x"
    and "\<And>x. moved_to stage artifacts changes r x \<Longrightarrow> good x \<Longrightarrow> sound_prog good c (insert x held) (k x)"
  shows "sound_prog good c held (attempt_move sha r rest stage artifacts changes k)"
  unfolding attempt_move_def
proof (rule sound_move [OF assms(1,2,5)], assumption)
  show "sound_prog good c held (attempt sha r rest (Inl e) k)" for e
    unfolding attempt_def using assms(2,3,4) by (simp add: sound_failure)
  show "sound_prog good c (insert x held) (attempt sha r rest (Inr x) k)"
    if "moved_to stage artifacts changes r x" "good x" for x
    using assms(6) that by (simp add: attempt_def)
qed

lemma sound_at_stage:
  assumes "\<And>r. good r \<Longrightarrow> rn_run_id r = i \<Longrightarrow> rn_stage r = stage \<Longrightarrow> sound_prog good c (insert r held) (k r)"
  shows "sound_prog good c held (at_stage i stage k)"
  using assms by (auto simp: at_stage_def perform_def)

lemma sound_view [sound]: "sound_prog good c held (get_run_view sha i)"
  by (auto simp: get_run_view_def perform_def split: sum.splits)

subsection \<open>Coherence is kept\<close>

lemma coherent_fails: "coherent sha r \<Longrightarrow> fails_well (coherent sha) r"
  by (auto simp: fails_well_def coherent_def moved_to_def pending_matches_def intro: evidence.failed)

lemma payload_of_latest:
  assumes "typed r" and "\<And>p. f p \<noteq> None \<longleftrightarrow> payload_type p = kind" and "payload_of f kind r = Inr x"
  shows "latest f (contents r) = Some x"
proof -
  have "latest f (map ae_payload as) = Some x"
    if "\<forall>a \<in> set as. ae_artifact_type a = payload_type (ae_payload a)"
      and "(case find (\<lambda>a. ae_artifact_type a = kind) (rev as) of
        None \<Rightarrow> Inl (PythonExc StopIteration)
      | Some a \<Rightarrow> (case f (ae_payload a) of None \<Rightarrow> Inl (PythonExc AttributeError) | Some x \<Rightarrow> Inr x)) = Inr x" for as
    using that
  proof (induction as rule: rev_induct)
    case (snoc a as)
    show ?case
    proof (cases "payload_type (ae_payload a) = kind")
      case True
      then obtain y where "f (ae_payload a) = Some y" using assms(2) by blast
      then show ?thesis using snoc.prems True by simp
    next
      case False
      then have "f (ae_payload a) = None" using assms(2) by blast
      then show ?thesis using snoc False by simp
    qed
  qed simp
  moreover have "\<forall>a \<in> set (rn_artifacts r). ae_artifact_type a = payload_type (ae_payload a)"
    using assms(1) by (simp add: typed_def contents_def list_eq_iff_nth_eq) (metis in_set_conv_nth nth_map)
  ultimately show ?thesis using assms(3) unfolding payload_of_def contents_def by blast
qed

lemma kinds:
  "as_policy p \<noteq> None \<longleftrightarrow> payload_type p = PolicyIRArtifact"
  "as_contract p \<noteq> None \<longleftrightarrow> payload_type p = PolicyContractArtifact"
  "as_suite p \<noteq> None \<longleftrightarrow> payload_type p = ScenarioSuiteArtifact"
  "as_evaluation p \<noteq> None \<longleftrightarrow> payload_type p = EvaluationReportArtifact"
  "as_findings p \<noteq> None \<longleftrightarrow> payload_type p = FindingReportArtifact"
  "as_proposal p \<noteq> None \<longleftrightarrow> payload_type p = RevisionProposalArtifact"
  by (cases p; simp)+

lemmas latest_of = payload_of_latest [OF _ kinds(1)] payload_of_latest [OF _ kinds(2)]
  payload_of_latest [OF _ kinds(3)] payload_of_latest [OF _ kinds(4)] payload_of_latest [OF _ kinds(5)]
  payload_of_latest [OF _ kinds(6)]

lemma pending_trivial:
  "rn_stage x \<notin> {AwaitingContract, AwaitingFindingReview, AwaitingRevisionConfirmation} \<Longrightarrow> pending_matches sha x"
  by (simp add: pending_matches_def)

lemma coherent_moved:
  assumes "coherent sha r" and "moved_to stage artifacts changes r x"
    and "evidence sha (rn_run_id r) (rn_manifest r) (rn_finding_decisions (changes r)) stage (contents r @ artifacts)"
    and "stage \<notin> {AwaitingContract, AwaitingFindingReview, AwaitingRevisionConfirmation} \<or> pending_matches sha x"
  shows "coherent sha x"
  using assms pending_trivial [of x sha] by (auto simp: coherent_def moved_to_def)

lemma coherentD:
  assumes "coherent sha r"
  shows "evidence sha (rn_run_id r) (rn_manifest r) (rn_finding_decisions r) (rn_stage r) (contents r)"
    and "typed r" and "pending_matches sha r"
  using assms by (simp_all add: coherent_def)

text \<open>The rules above for coherence.\<close>

lemma sound_coherent:
  assumes "r \<in> held" and "coherent sha r" and "\<And>held'. sound_prog (coherent sha) c held' rest"
    and "\<And>x. m = Inr x \<Longrightarrow> sound_prog (coherent sha) c held (k x)"
  shows "sound_prog (coherent sha) c held (attempt sha r rest m k)"
  using assms coherent_fails by (blast intro: sound_attempt)

lemma sound_coherent_move:
  assumes "coordinator_move stage artifacts changes" and "r \<in> held" and "coherent sha r"
    and "\<And>held'. sound_prog (coherent sha) c held' rest"
    and "\<And>x. moved_to stage artifacts changes r x \<Longrightarrow> coherent sha x"
    and "\<And>x. moved_to stage artifacts changes r x \<Longrightarrow> coherent sha x \<Longrightarrow> sound_prog (coherent sha) c (insert x held) (k x)"
  shows "sound_prog (coherent sha) c held (attempt_move sha r rest stage artifacts changes k)"
  using assms(1,2) coherent_fails [OF assms(3)] assms(4-) by (rule sound_attempt_move)

text \<open>The contents of a record are those of the one before and the new artifacts.\<close>

named_theorems moves \<open>what a move does to the parts of a record\<close>

lemma moved_parts [moves]:
  assumes "moved_to stage artifacts changes r x"
  shows "rn_stage x = stage" and "contents x = contents r @ artifacts" and "rn_run_id x = rn_run_id r"
    and "rn_manifest x = rn_manifest r"
  using assms by (simp_all add: moved_to_def)

lemma unchanged_decisions [simp]: "rn_finding_decisions (unchanged r) = rn_finding_decisions r"
  "rn_finding_decisions (no_pending r) = rn_finding_decisions r"
  by (simp_all add: unchanged_def no_pending_def)

subsection \<open>Ingestion and compilation\<close>

lemma provisional_Inr:
  "provisional_compilation d x = Inr u \<longleftrightarrow>
     pi_document_sha256 (pcomp_policy x) = pd_document_sha256 d \<and> pi_kind (pcomp_policy x) = CompiledBaseline
     \<and> pi_review_status (pcomp_policy x) = Provisional
     \<and> 3 \<le> length (pcomp_invariant_drafts x) \<and> length (pcomp_invariant_drafts x) \<le> 5"
  by (auto simp: provisional_compilation_def Let_def)

lemma pending_contract_Inr:
  assumes "pending_contract sha sv d x p = Inr v"
  shows "cf_baseline_policy_id v = pi_policy_id p" and "cf_baseline_policy_sha256 v = complete_digest sha (PolicyPayload p)"
  using assms by (auto simp: pending_contract_def rbind_Inr_iff validated_Inr_iff)

lemma coherent_drafted:
  assumes "moved_to AwaitingContract [PolicyPayload p]
      (\<lambda>r. r\<lparr>sr_pending_confirmation := Some (PendingContract v)\<rparr>) r x"
    and r: "coherent sha r" "rn_stage r = Extracting" "latest as_document (contents r) = Some d"
    and p: "p = with_clause_status Provisional (pcomp_policy y)" and y: "provisional_compilation d y = Inr u"
    and v: "pending_contract sha sv d y p = Inr v"
  shows "coherent sha x"
proof (rule coherent_moved [OF r(1) assms(1)])
  have p': "pi_document_sha256 p = pd_document_sha256 d" "pi_kind p = CompiledBaseline" "pi_review_status p = Provisional"
    "list_all (\<lambda>c. uc_review_status c = Provisional) (pi_unsupported_clauses p)"
    using y by (simp_all add: p provisional_Inr with_clause_status_def list_all_iff)
  show "evidence sha (rn_run_id r) (rn_manifest r)
      (rn_finding_decisions (r\<lparr>sr_pending_confirmation := Some (PendingContract v)\<rparr>)) AwaitingContract
      (contents r @ [PolicyPayload p])"
    using evidence.drafted [OF _ r(3) p'] coherentD(1) [OF r(1)] r(2) by simp
  show "AwaitingContract \<notin> {AwaitingContract, AwaitingFindingReview, AwaitingRevisionConfirmation}
      \<or> pending_matches sha x"
    using assms(1) pending_contract_Inr [OF v] by (simp add: pending_matches_def moved_to_def)
qed

lemma start_sound: "sound_prog (coherent sha) c held (start_run sha sv run_id)"
  unfolding start_run_def
proof (rule sound_at_stage, rule sound_move [OF coordinator_move.ingest insertI1], goal_cases)
  case (1 r0 x)
  then show ?case using evidence.ingesting coherentD(1) [OF 1(1)] by (intro coherent_moved [OF 1(1) 1(4)]) simp_all
next
  case (2 r0 e)
  then show ?case by (simp add: perform_def)
next
  case (3 r0 r1)
  then have r1: "coherent sha r1" "rn_stage r1 = Ingesting" by (simp_all add: moves)
  show ?case
    unfolding perform_def sum.case
  proof (intro sound_coherent sound_coherent_move coordinator_move.intros sound_prog.simps(1) [THEN iffD2] TrueI
      insertI1 r1(1), goal_cases)
    case (1 d r2)
    then show ?case
      using evidence.extracting coherentD(1) [OF r1(1)] r1(2) by (intro coherent_moved [OF r1(1) 1(2)]) simp_all
  next
    case (7 d r2 y u p v x)
    then have "rn_stage r2 = Extracting" "latest as_document (contents r2) = Some d"
      "p = with_clause_status Provisional (pcomp_policy y)"
      by (simp_all add: moves validated_Inr_iff)
    then show ?case using 7 by (intro coherent_drafted [of p v r2 x sha d y u sv])
  qed simp_all
qed

subsection \<open>The baseline\<close>

text \<open>The validations of the workflow return what they were given.\<close>

lemma validation_values:
  "validate_suite sha s p c m i n = Inr s' \<Longrightarrow> s' = s"
  "validate_evaluation sha e request = Inr e' \<Longrightarrow> e' = e"
  "validate_findings f e p c reviewed = Inr f' \<Longrightarrow> f' = f"
  "validate_metrics x e f = Inr x' \<Longrightarrow> x' = x"
  "validate_proposal q prequest = Inr q' \<Longrightarrow> q' = q"
  "validate_comparison_bundle b crequest = Inr b' \<Longrightarrow> b' = b"
  by (auto simp: validate_suite_def validate_evaluation_def validate_findings_def validate_metrics_def
      validate_proposal_def validate_comparison_bundle_def Let_def rbind_Inr_iff validated_Inr_iff)

lemma evaluate_stage_Inr:
  assumes "evaluate_stage sha sv r p c s = Inr e"
  shows "evaluated sha (rn_manifest r) p c s e"
  using assms
  by (auto simp: evaluate_stage_def evaluated_def ebind_Inr validated_Inr_iff dest: validation_values(2))

lemma assemble_stage_Inr:
  assumes "assemble_stage sha sv r p c cs = Inr s"
  shows "validate_suite sha s p c (rn_manifest r) (Some (''suite-'' @ rn_run_id r)) (Some (length cs)) = Inr s"
  using assms
  by (auto simp: assemble_stage_def ebind_Inr validated_Inr_iff rbind_Inr_iff dest: validation_values(1))

lemma findings_stage_Inr:
  "findings_stage sv p c s e = Inr f \<Longrightarrow> validate_findings f e p c False = Inr f"
  by (auto simp: findings_stage_def ebind_Inr dest: validation_values(3))

lemma coherent_frozen:
  assumes "moved_to FreezingSuite [SuitePayload s] unchanged r x"
    and r: "coherent sha r" "rn_stage r \<in> {ProvisionalExecution, TargetingCoverage}"
    and "latest as_policy (contents r) = Some p" and "latest as_contract (contents r) = Some c"
    and "validate_suite sha s p c (rn_manifest r) (Some (''suite-'' @ rn_run_id r)) n = Inr s"
  shows "coherent sha x"
  using evidence.frozen [OF coherentD(1) [OF r(1)] r(2) assms(4-6)]
  by (intro coherent_moved [OF r(1) assms(1)]) simp_all

lemma coherent_analyzed:
  assumes "moved_to Analyzing [EvaluationPayload e] unchanged r x"
    and r: "coherent sha r" "rn_stage r = BaselineExecution"
    and "latest as_policy (contents r) = Some p" and "latest as_contract (contents r) = Some c"
    and "latest as_suite (contents r) = Some s" and "evaluated sha (rn_manifest r) p c s e" and "minimum_coverage e"
  shows "coherent sha x"
  using evidence.analyzed [OF coherentD(1) [OF r(1), unfolded r(2)] assms(4-8)]
  by (intro coherent_moved [OF r(1) assms(1)]) simp_all

lemma coherent_reported:
  assumes move: "moved_to (if reviewable_findings f s \<noteq> [] then AwaitingFindingReview else CompletedNoFindings)
      [FindingsPayload f, MetricsPayload y] (\<lambda>c. c\<lparr>sr_pending_confirmation :=
        if reviewable_findings f s \<noteq> [] then Some (PendingFindings (map fd_finding_id (reviewable_findings f s)))
        else None\<rparr>) r x"
    and r: "coherent sha r" "rn_stage r = Analyzing"
    and "latest as_policy (contents r) = Some p" and "latest as_contract (contents r) = Some c"
    and "latest as_suite (contents r) = Some s" and "latest as_evaluation (contents r) = Some e"
    and "validate_findings f e p c False = Inr f" and "validate_metrics y e f = Inr y"
  shows "coherent sha x"
  using evidence.reported [OF coherentD(1) [OF r(1), unfolded r(2)] assms(4-9)]
    evidence.none_reported [OF coherentD(1) [OF r(1), unfolded r(2)] assms(4-9)] move assms(6)
  by (intro coherent_moved [OF r(1) move]) (auto simp: pending_matches_def moved_to_def split: if_splits)

lemma freeze_sound:
  assumes "r \<in> held" and r: "coherent sha r" "rn_stage r \<in> {ProvisionalExecution, TargetingCoverage}"
    and latest: "latest as_policy (contents r) = Some p" "latest as_contract (contents r) = Some c"
    and suite: "validate_suite sha s p c (rn_manifest r) (Some (''suite-'' @ rn_run_id r)) n = Inr s"
    and rest: "\<And>held'. sound_prog (coherent sha) u held' rest"
  shows "sound_prog (coherent sha) u held (freeze_and_analyze sha sv p c rest r s)"
  unfolding freeze_and_analyze_def Let_def
proof (intro sound_coherent sound_coherent_move coordinator_move.intros insertI1 assms(1) r(1) rest, goal_cases)
  case (1 x)
  then show ?case using coherent_frozen r latest suite by blast
next
  case (3 x1 x2)
  then show ?case
    using evidence.baseline coherentD(1) [OF 3(2)] by (intro coherent_moved [OF 3(2,3)]) (simp_all add: moves)
next
  case (7 x1 x2 e v x3)
  then have "rn_stage x2 = BaselineExecution" "latest as_policy (contents x2) = Some p"
    "latest as_contract (contents x2) = Some c" "latest as_suite (contents x2) = Some s"
    using latest by (simp_all add: moves)
  then show ?case
    using 7 evaluate_stage_Inr [of sha sv x2 p c s e] by (intro coherent_analyzed [of e x2 x3]) (auto split: if_splits)
next
  case (10 x1 x2 e v x3 f y)
  show ?case by (cases "reviewable_findings f s = []") (simp_all add: coordinator_move.intros)
next
  case (12 x1 x2 e v x3 f y x4)
  then have "rn_stage x3 = Analyzing" "latest as_policy (contents x3) = Some p"
    "latest as_contract (contents x3) = Some c" "latest as_suite (contents x3) = Some s"
    "latest as_evaluation (contents x3) = Some e"
    using latest by (simp_all add: moves)
  moreover have "validate_findings f e p c False = Inr f" using findings_stage_Inr 12(9) by blast
  moreover have "validate_metrics y e f = Inr y"
    using 12(10) validation_values(4) by (auto simp only: ebind_Inr from_python_Inr)
  ultimately show ?case using coherent_reported [OF 12(11,8)] by blast
qed simp_all

lemma sound_if [sound]:
  "(b \<Longrightarrow> sound_prog good c held p) \<Longrightarrow> (\<not> b \<Longrightarrow> sound_prog good c held q) \<Longrightarrow>
     sound_prog good c held (if b then p else q)"
  by simp

lemma continue_baseline_sound:
  assumes "r \<in> held" and r: "coherent sha r" "rn_stage r = GeneratingInitialTests"
    and latest: "latest as_policy (contents r) = Some p" "latest as_contract (contents r) = Some c"
  shows "sound_prog (coherent sha) u held (continue_baseline sha sv r p c)"
  unfolding continue_baseline_def Let_def
proof (intro sound_coherent sound_coherent_move coordinator_move.intros insertI1 assms(1) r(1) sound_view sound_if, goal_cases)
  case (1 cs r1)
  then show ?case
    using evidence.executed coherentD(1) [OF r(1), unfolded r(2)] by (intro coherent_moved [OF r(1) 1(2)]) simp_all
next
  case (4 cs r1 s e)
  then have "rn_stage r1 \<in> {ProvisionalExecution, TargetingCoverage}" "latest as_policy (contents r1) = Some p"
    "latest as_contract (contents r1) = Some c"
    using latest by (simp_all add: moves)
  then show ?case
    using assemble_stage_Inr [OF 4(4)] by (intro freeze_sound [OF insertI1 4(3)] sound_view)
next
  case (6 cs r1 s e r2)
  then show ?case
    using evidence.targeted coherentD(1) [OF 6(3)] by (intro coherent_moved [OF 6(3,7)]) (simp_all add: moves)
next
  case (11 cs r1 s e r2 cs' v s' e')
  then have "rn_stage r2 \<in> {ProvisionalExecution, TargetingCoverage}" "latest as_policy (contents r2) = Some p"
    "latest as_contract (contents r2) = Some c"
    using latest by (simp_all add: moves)
  then show ?case
    using assemble_stage_Inr [OF 11(11)] by (intro freeze_sound [OF insertI1 11(8)] sound_view)
next
  case (13 cs r1 s e r2 cs' v s' e' r3)
  have "rn_stage r2 = TargetingCoverage" by (rule moved_parts(1) [OF 13(7)])
  then show ?case
    using evidence.limit coherentD(1) [OF 13(8)] by (intro coherent_moved [OF 13(8,14)]) simp_all
qed simp_all

subsection \<open>Confirming the contract\<close>

lemma sound_serve_finish [sound]: "sound_prog good c held p \<Longrightarrow> sound_prog good c held (serve (finish p))"
  unfolding serve_finish by (rule sound_pbind) simp_all

lemma sound_scheduled [sound]:
  "sound_prog good c held w \<Longrightarrow> sound_prog good c held (serve (scheduled sha' schedule r w))"
  by (auto simp: scheduled_def serve_perform intro!: sound) (simp add: serve_def sound_pbind)

lemma coherent_confirmed:
  assumes "moved_to GeneratingInitialTests [PolicyPayload (session_confirmed p), ContractPayload c] no_pending r x"
    and r: "coherent sha r" "rn_stage r = AwaitingContract"
    and "latest as_policy (contents r) = Some p" and "confirmed_contract sha command = Inr c"
  shows "coherent sha x"
  using evidence.confirmed [OF coherentD(1) [OF r(1), unfolded r(2)] assms(4,5)]
  by (intro coherent_moved [OF r(1) assms(1)]) simp_all

lemma run_baseline_sound:
  assumes "r \<in> held" and r: "coherent sha r" "rn_stage r = AwaitingContract"
  shows "sound_prog (coherent sha) u held (serve (run_baseline sha sv schedule r command))"
  unfolding run_baseline_def serve_perform serve_simps
proof (intro sound_perform sound_move coordinator_move.intros assms(1), goal_cases)
  case (1 p0 p c x)
  then have "latest as_policy (contents r) = Some p0" "p = session_confirmed p0"
    using latest_of(1) [OF coherentD(2) [OF r(1)]] by (simp_all add: validated_Inr_iff session_confirmed_def)
  then show ?case using coherent_confirmed r 1(3,4) by (simp add: from_python_Inr)
next
  case (3 p0 p c x y)
  then have "y = x" "rn_stage x = GeneratingInitialTests" "latest as_policy (contents x) = Some p"
    "latest as_contract (contents x) = Some c"
    by (simp_all add: moves)
  then show ?case using continue_baseline_sound [OF insertI1 3(5)] by (simp add: sound_scheduled)
qed simp_all

lemma confirm_contract_sound:
  "sound_prog (coherent sha) u held (serve (confirm_contract sha sv schedule run_id request))"
  unfolding confirm_contract_def serve_perform serve_at_stage
proof (rule sound_perform, rule sound_at_stage)
  fix command r
  assume r: "coherent sha r" "rn_stage r = AwaitingContract"
  have reject: "sound_prog (coherent sha) u (insert r held)
      (serve (move sha r ContractRejected [] no_pending (\<lambda>m. perform m (\<lambda>_. finish (get_run_view sha run_id)))))"
    unfolding serve_simps serve_perform
  proof (rule sound_move [OF coordinator_move.reject_contract insertI1], goal_cases)
    case (1 x)
    then show ?case
      using evidence.contract_rejected coherentD(1) [OF r(1), unfolded r(2)] by (intro coherent_moved [OF r(1) 1]) simp_all
  qed (auto simp: perform_def intro: sound)
  show "sound_prog (coherent sha) u (insert r held) (serve
     (if ccr_decision command = DecisionReject
     then move sha r ContractRejected [] no_pending (\<lambda>m. perform m (\<lambda>_. finish (get_run_view sha run_id)))
     else case sr_pending_confirmation r of
       Some (PendingContract pending) \<Rightarrow>
         if ccr_baseline_policy_id command \<noteq> Some (cf_baseline_policy_id pending)
            \<or> ccr_baseline_policy_sha256 command \<noteq> Some (cf_baseline_policy_sha256 pending)
         then Throw (WorkflowExc (StaleArtifact None []))
         else run_baseline sha sv schedule r command
     | _ \<Rightarrow> Throw (PythonExc AttributeError)))"
    using reject run_baseline_sound [OF insertI1 r]
    by (auto simp: serve_simps split: option.split pending_confirmation.split)
qed

subsection \<open>Reviewing findings and drafting a revision\<close>

lemma coherent_proposed:
  assumes move: "moved_to AwaitingRevisionConfirmation [ProposalPayload q]
      (\<lambda>c. c\<lparr>sr_pending_confirmation := Some (PendingRevision v)\<rparr>) r x"
    and r: "coherent sha r" "rn_stage r = DraftingRevision" "contents r = xs @ [FindingsPayload fr]"
    and latest: "latest as_policy xs = Some p" "latest as_contract xs = Some c" "latest as_suite xs = Some s"
      "latest as_findings xs = Some f"
    and q: "propose_request sha p c s (fr\<lparr>fr_findings := accepted_findings fr f s\<rparr>)
      (filter (\<lambda>d. fdn_decision d = Accept) (rn_finding_decisions r)) = Inr request"
      "validate_proposal q request = Inr q"
    and v: "pending_revision p q = Inr v"
  shows "coherent sha x"
proof (rule coherent_moved [OF r(1) move])
  show "evidence sha (rn_run_id r) (rn_manifest r)
      (rn_finding_decisions (r\<lparr>sr_pending_confirmation := Some (PendingRevision v)\<rparr>)) AwaitingRevisionConfirmation
      (contents r @ [ProposalPayload q])"
    using evidence.proposed [OF coherentD(1) [OF r(1), unfolded r(2,3)] latest q] r(3) by simp
  show "AwaitingRevisionConfirmation \<notin> {AwaitingContract, AwaitingFindingReview, AwaitingRevisionConfirmation}
      \<or> pending_matches sha x"
    using move r(3) latest(1) v by (simp add: pending_matches_def moved_to_def)
qed

lemma continue_revision_sound:
  assumes "r \<in> held" and r: "coherent sha r" "rn_stage r = DraftingRevision" "contents r = xs @ [FindingsPayload fr]"
    and latest: "latest as_policy xs = Some p" "latest as_contract xs = Some c" "latest as_suite xs = Some s"
      "latest as_findings xs = Some f"
    and ds: "ds = rn_finding_decisions r"
  shows "sound_prog (coherent sha) u held (continue_revision sha sv r p c s fr (accepted_findings fr f s) ds)"
  unfolding continue_revision_def Let_def
proof (intro sound_coherent sound_coherent_move coordinator_move.intros insertI1 assms(1) r(1) sound_view, goal_cases)
  case (1 request q v x)
  then have "propose_request sha p c s (fr\<lparr>fr_findings := accepted_findings fr f s\<rparr>)
      (filter (\<lambda>d. fdn_decision d = Accept) (rn_finding_decisions r)) = Inr request"
    "validate_proposal q request = Inr q" "pending_revision p q = Inr v"
    using ds by (auto simp: ebind_Inr dest: validation_values(5))
  then show ?case by (intro coherent_proposed [OF 1(4) r latest])
qed

lemma coherent_reviewed:
  assumes move: "moved_to (if accepted_findings fr f s \<noteq> [] then DraftingRevision else CompletedNoRevision)
      [FindingsPayload fr]
      (\<lambda>c. c\<lparr>rn_finding_decisions := ds, rn_decision_at := Some now, sr_pending_confirmation := None\<rparr>) r x"
    and r: "coherent sha r" "rn_stage r = AwaitingFindingReview"
    and "latest as_contract (contents r) = Some c" and "latest as_suite (contents r) = Some s"
    and "latest as_findings (contents r) = Some f"
    and "set (map fdn_finding_id ds) = set (map fd_finding_id (reviewable_findings f s))" and "review_of ds c f fr"
  shows "coherent sha x"
  using evidence.reviewed [OF coherentD(1) [OF r(1), unfolded r(2)] assms(4-8)]
    evidence.none_accepted [OF coherentD(1) [OF r(1), unfolded r(2)] assms(4-8)]
  by (intro coherent_moved [OF r(1) move]) simp_all

lemma reviewed_stage: "(if accepted \<noteq> [] then DraftingRevision else CompletedNoRevision) = DraftingRevision
    \<or> (if accepted \<noteq> [] then DraftingRevision else CompletedNoRevision) = CompletedNoRevision"
  by simp

lemma select_findings_sound:
  "sound_prog (coherent sha) u held (serve (select_findings sha sv schedule run_id request))"
  unfolding select_findings_def serve_perform serve_at_stage Let_def
proof (rule sound_perform, rule sound_at_stage, goal_cases)
  case (1 ds r)
  note r = 1(2,4) and typed = coherentD(2) [OF 1(2)]
  show ?case
    unfolding accepted_findings_def [symmetric] serve_perform if_distrib [of serve] serve_simps
  proof (intro sound_perform sound_if sound_prog.simps(2,3) [THEN iffD2] TrueI allI
      sound_move coordinator_move.decide reviewed_stage insertI1, goal_cases)
    case (1 s p c f updated fr now x)
    then have "latest as_contract (contents r) = Some c" "latest as_suite (contents r) = Some s"
      "latest as_findings (contents r) = Some f" "review_of ds c f fr"
      "set (map fdn_finding_id ds) = set (map fd_finding_id (reviewable_findings f s))"
      using latest_of [OF typed] by (auto simp: review_of_def validated_Inr_iff)
    then show ?case by (intro coherent_reviewed [OF 1(8) r])
  next
    case (5 s p c f updated fr now x y)
    then have latest: "latest as_policy (contents r) = Some p" "latest as_contract (contents r) = Some c"
      "latest as_suite (contents r) = Some s" "latest as_findings (contents r) = Some f"
      using latest_of [OF typed] by blast+
    from 5 have "rn_stage x = DraftingRevision" "contents x = contents r @ [FindingsPayload fr]"
      "ds = rn_finding_decisions x"
      by (simp_all add: moved_to_def)
    then show ?case
      using continue_revision_sound [OF insertI1 5(9) _ _ latest] 5(10) by (simp add: sound_scheduled)
  qed (simp_all add: sound_serve_finish sound_view)
qed

subsection \<open>Confirming a revision\<close>

lemma applied_revision_Inr:
  assumes "applied_revision sv request = Inr p'"
  shows "pi_document_sha256 p' = pi_document_sha256 (arq_policy request)" and "pi_review_status p' = SessionConfirmed"
    and "pi_kind p' = StructuredRevision"
  using assms by (auto simp: applied_revision_def ebind_Inr split: if_splits option.splits)

lemma coherent_completed:
  assumes move: "moved_to Complete [EvaluationPayload e', FindingsPayload f', BundlePayload b,
      MetricsPayload (cb_revised_metrics b)] unchanged r x"
    and r: "coherent sha r" "rn_stage r = Retesting" "contents r = xs @ [PolicyPayload p']"
    and latest: "latest as_policy xs = Some p" "latest as_contract xs = Some c" "latest as_suite xs = Some s"
      "latest as_proposal xs = Some q" "latest as_evaluation xs = Some e" "latest as_findings xs = Some f"
    and "evaluated sha (rn_manifest r) p' c s e'" and "validate_findings f' e' p' c False = Inr f'"
    and "validate_comparison_bundle b
      \<lparr>crq_baseline_policy = p, crq_revised_policy = p', crq_contract = c, crq_suite = s, crq_proposal = q,
       crq_baseline_evaluation = e, crq_revised_evaluation = e', crq_baseline_findings = f,
       crq_revised_findings = f'\<rparr> = Inr b"
  shows "coherent sha x"
  using evidence.completed [OF coherentD(1) [OF r(1), unfolded r(2,3)] latest assms(11-13)]
  by (intro coherent_moved [OF r(1) move]) (simp_all add: r(3))

lemma confirm_revision_sound: "sound_prog (coherent sha) u held (confirm_revision sha sv run_id request)"
  unfolding confirm_revision_def Let_def
proof (rule sound_perform, rule sound_at_stage, goal_cases)
  case (1 command r)
  note r = 1(2,4) and typed = coherentD(2) [OF 1(2)]
  show ?case
  proof (intro sound_perform sound_if sound_prog.simps(2,3) [THEN iffD2] TrueI allI sound_perform_move sound_coherent
      sound_coherent_move coordinator_move.intros insertI1 sound_view, goal_cases)
    case (1 q x)
    then show ?case
      using evidence.revision_rejected coherentD(1) [OF r(1), unfolded r(2)]
      by (intro coherent_moved [OF r(1) 1(4)]) simp_all
  next
    case (2 q p c s e f x)
    then show ?case
      using evidence.applying coherentD(1) [OF r(1), unfolded r(2)] by (intro coherent_moved [OF r(1) 2(9)]) simp_all
  next
    case (5 q p c s e f r1 now p' r2)
    then have "rn_stage r1 = ApplyingRevision" "latest as_policy (contents r1) = Some p"
      using latest_of(1) [OF typed] by (simp_all add: moves)
    then show ?case
      using evidence.retested coherentD(1) [OF 5(10)] applied_revision_Inr [OF 5(11)]
      by (intro coherent_moved [OF 5(10,12)]) simp_all
  next
    case (10 q p c s e f r1 now p' r2 e' f' b r3)
    then have latest: "latest as_policy (contents r) = Some p" "latest as_contract (contents r) = Some c"
      "latest as_suite (contents r) = Some s" "latest as_proposal (contents r) = Some q"
      "latest as_evaluation (contents r) = Some e" "latest as_findings (contents r) = Some f"
      using latest_of [OF typed] by blast+
    from 10 have "rn_stage r2 = Retesting" "contents r2 = contents r @ [PolicyPayload p']" by (simp_all add: moves)
    moreover have "validate_comparison_bundle b
      \<lparr>crq_baseline_policy = p, crq_revised_policy = p', crq_contract = c, crq_suite = s, crq_proposal = q,
       crq_baseline_evaluation = e, crq_revised_evaluation = e', crq_baseline_findings = f,
       crq_revised_findings = f'\<rparr> = Inr b"
      using 10(16) validation_values(6) by (auto simp only: ebind_Inr from_python_Inr)
    ultimately show ?case
      using coherent_completed [OF 10(17,13) _ _ latest] evaluate_stage_Inr [OF 10(14)] findings_stage_Inr [OF 10(15)]
      by blast
  qed simp_all
qed

subsection \<open>Every stored run is coherent\<close>

lemma coherent_created:
  assumes "append_artifact sha (ManifestPayload m) (new_run i m now command) = Inr r"
  shows "coherent sha (rebased s w r)" and "rn_run_id r = i"
proof -
  obtain e where e: "make_artifact_envelope sha RunManifestArtifact (ManifestPayload m) [] (rm_manifest_id m) = Inr e"
    "r = (new_run i m now command)\<lparr>rn_artifacts := [e]\<rparr>"
    using assms by (rule append_artifact_Inr) (simp add: new_run_def)
  note fields = make_envelope_fields [OF e(1)]
  show "rn_run_id r = i" using e(2) by (simp add: new_run_def)
  show "coherent sha (rebased s w r)"
    using evidence.queued [of sha i m] fields
    by (simp add: coherent_def typed_def pending_matches_def contents_def rebased_def e(2) new_run_def)
qed

lemma create_live_sound:
  assumes "run_id \<notin> used"
  shows "sound_prog (coherent sha) (Some run_id) held (snd (create_live_run sha sv used run_id command))"
proof -
  have "sound_prog (coherent sha) (Some run_id) held
      (StoreCreate r (\<lambda>m. perform m (\<lambda>_. Done run_id)))"
    if "append_artifact sha (ManifestPayload m) (new_run run_id m now command) = Inr r" for m now r
    using coherent_created [OF that] by (auto simp: perform_def split: sum.split)
  then show ?thesis
    using assms unfolding create_live_run_def
    by (auto intro!: sound simp: validated_Inr_iff simp del: sound_prog.simps(6))
qed

lemma sound_quiet [sound]: "sound_prog good c held p \<Longrightarrow> sound_prog good c held (quiet p)"
  unfolding quiet_def by (rule sound_pbind) simp_all

interpretation whole: run_logic sha "coherent sha" for sha
proof
  fix used p used'
  assume "handler sha used p used'"
  then show "\<exists>c. sound_prog (coherent sha) c {} p \<and> used' = used \<union> set_option c \<and> set_option c \<inter> used = {}"
  proof cases
    case (create sv run_id command p0)
    show ?thesis
    proof (cases "run_id \<in> used")
      case True
      then have "p0 = Throw (WorkflowExc (InvalidRunCommand None []))" "used' = used"
        using create(2) by (simp_all add: create_live_run_def)
      then show ?thesis using create(1) by (intro exI [of _ None]) (simp add: quiet_def)
    next
      case False
      then have "used' = insert run_id used" "p0 = snd (create_live_run sha sv used run_id command)"
        using create(2) by (auto simp: create_live_run_def)
      then show ?thesis
        using create_live_sound [OF False, of sha "{}" sv command] False create(1)
        by (intro exI [of _ "Some run_id"]) (simp add: sound_quiet)
    qed
  qed (auto intro!: exI [of _ None] sound_quiet sound_view start_sound confirm_contract_sound select_findings_sound
      confirm_revision_sound simp: delete_run_command_def perform_def split: sum.split)
qed

subsection \<open>The contents of a run, written out\<close>

inductive_cases evidence_cases:
  "evidence sha i m ds Queued xs" "evidence sha i m ds Ingesting xs" "evidence sha i m ds Extracting xs"
  "evidence sha i m ds AwaitingContract xs" "evidence sha i m ds GeneratingInitialTests xs"
  "evidence sha i m ds ProvisionalExecution xs" "evidence sha i m ds TargetingCoverage xs"
  "evidence sha i m ds FreezingSuite xs" "evidence sha i m ds BaselineExecution xs" "evidence sha i m ds Analyzing xs"
  "evidence sha i m ds AwaitingFindingReview xs" "evidence sha i m ds DraftingRevision xs"
  "evidence sha i m ds AwaitingRevisionConfirmation xs" "evidence sha i m ds ApplyingRevision xs"
  "evidence sha i m ds Retesting xs" "evidence sha i m ds Complete xs"

abbreviation confirmed_contents :: "run_manifest \<Rightarrow> policy_document \<Rightarrow> policy_ir \<Rightarrow> policy_contract \<Rightarrow> artifact_payload list" where
  "confirmed_contents m d p c \<equiv>
     [ManifestPayload m, DocumentPayload d, PolicyPayload p, PolicyPayload (session_confirmed p), ContractPayload c]"

lemma contract_contents:
  assumes "evidence sha i m ds GeneratingInitialTests xs"
  shows "\<exists>d p c. xs = confirmed_contents m d p c \<and> pi_document_sha256 p = pd_document_sha256 d
    \<and> pi_kind p = CompiledBaseline"
  using assms by (elim evidence_cases(5) evidence_cases(4) evidence_cases(3) evidence_cases(2) evidence_cases(1)) auto

lemma suite_contents:
  assumes "evidence sha i m ds FreezingSuite xs"
  shows "\<exists>d p c vs s n. xs = confirmed_contents m d p c @ vs @ [SuitePayload s] \<and> length vs \<le> 1
    \<and> list_all (\<lambda>x. as_policy x = None \<and> as_contract x = None) vs
    \<and> pi_document_sha256 p = pd_document_sha256 d \<and> pi_kind p = CompiledBaseline
    \<and> validate_suite sha s (session_confirmed p) c m (Some (''suite-'' @ i)) n = Inr s"
proof -
  obtain ys p c s n where f: "xs = ys @ [SuitePayload s]" "latest as_policy ys = Some p" "latest as_contract ys = Some c"
    "validate_suite sha s p c m (Some (''suite-'' @ i)) n = Inr s"
    and "evidence sha i m ds ProvisionalExecution ys \<or> evidence sha i m ds TargetingCoverage ys"
    using assms by (elim evidence_cases(8)) auto
  then have "evidence sha i m ds ProvisionalExecution ys \<or>
      (\<exists>zs v. evidence sha i m ds ProvisionalExecution zs \<and> ys = zs @ [CoveragePayload v])"
    by (auto elim: evidence_cases(7))
  then obtain zs vs where z: "evidence sha i m ds GeneratingInitialTests zs" "ys = zs @ vs"
    and vs: "vs = [] \<or> (\<exists>v. vs = [CoveragePayload v])"
    by (auto elim!: evidence_cases(6))
  obtain d p' c' where zs: "zs = confirmed_contents m d p' c'" "pi_document_sha256 p' = pd_document_sha256 d"
    "pi_kind p' = CompiledBaseline"
    using contract_contents [OF z(1)] by blast
  have "p = session_confirmed p'" "c = c'" using f(2,3) z(2) zs(1) vs by (auto simp: last_of_def List.map_filter_def)
  then show ?thesis
    using f(1,4) z(2) zs vs
    by (intro exI [of _ d] exI [of _ p'] exI [of _ c'] exI [of _ vs] exI [of _ s] exI [of _ n]) auto
qed

text \<open>What a reviewed baseline and a completed revision consist of.\<close>

definition baseline_evidence ::
  "(string \<Rightarrow> sha256) \<Rightarrow> ident \<Rightarrow> run_manifest \<Rightarrow> policy_ir \<Rightarrow> policy_contract \<Rightarrow> scenario_suite
   \<Rightarrow> evaluation_report \<Rightarrow> finding_report \<Rightarrow> metrics_report \<Rightarrow> bool" where
  "baseline_evidence sha i m p c s e f x \<longleftrightarrow>
     (\<exists>n. validate_suite sha s p c m (Some (''suite-'' @ i)) n = Inr s) \<and> evaluated sha m p c s e \<and> minimum_coverage e
     \<and> validate_findings f e p c False = Inr f \<and> validate_metrics x e f = Inr x"

definition proposal_evidence ::
  "(string \<Rightarrow> sha256) \<Rightarrow> finding_decision list \<Rightarrow> policy_ir \<Rightarrow> policy_contract \<Rightarrow> scenario_suite \<Rightarrow> finding_report
   \<Rightarrow> finding_report \<Rightarrow> revision_proposal \<Rightarrow> bool" where
  "proposal_evidence sha ds p c s f fr q \<longleftrightarrow>
     set (map fdn_finding_id ds) = set (map fd_finding_id (reviewable_findings f s)) \<and> review_of ds c f fr
     \<and> accepted_findings fr f s \<noteq> []
     \<and> (\<exists>request. propose_request sha p c s (fr\<lparr>fr_findings := accepted_findings fr f s\<rparr>)
          (filter (\<lambda>d. fdn_decision d = Accept) ds) = Inr request \<and> validate_proposal q request = Inr q)"

definition revision_evidence ::
  "(string \<Rightarrow> sha256) \<Rightarrow> run_manifest \<Rightarrow> policy_ir \<Rightarrow> policy_ir \<Rightarrow> policy_contract \<Rightarrow> scenario_suite \<Rightarrow> revision_proposal
   \<Rightarrow> evaluation_report \<Rightarrow> evaluation_report \<Rightarrow> finding_report \<Rightarrow> finding_report \<Rightarrow> comparison_bundle \<Rightarrow> bool" where
  "revision_evidence sha m p p' c s q e e' f f' b \<longleftrightarrow>
     pi_document_sha256 p' = pi_document_sha256 p \<and> pi_review_status p' = SessionConfirmed
     \<and> pi_kind p' = StructuredRevision \<and> evaluated sha m p' c s e' \<and> validate_findings f' e' p' c False = Inr f'
     \<and> validate_comparison_bundle b
         \<lparr>crq_baseline_policy = p, crq_revised_policy = p', crq_contract = c, crq_suite = s, crq_proposal = q,
          crq_baseline_evaluation = e, crq_revised_evaluation = e', crq_baseline_findings = f,
          crq_revised_findings = f'\<rparr> = Inr b"

lemma quiet_coverage:
  assumes "list_all (\<lambda>x. as_policy x = None \<and> as_contract x = None) vs"
  shows "filter (\<lambda>x. \<exists>y. as_policy x = Some y) vs = []" and "filter (\<lambda>x. \<exists>y. as_contract x = Some y) vs = []"
  using assms by (induction vs) simp_all

lemma review_contents:
  assumes "evidence sha i m ds AwaitingFindingReview xs"
  shows "\<exists>d p c vs s e f x. xs = confirmed_contents m d p c @ vs @ [SuitePayload s, EvaluationPayload e,
      FindingsPayload f, MetricsPayload x] \<and> length vs \<le> 1
    \<and> list_all (\<lambda>x. as_policy x = None \<and> as_contract x = None) vs
    \<and> pi_document_sha256 p = pd_document_sha256 d \<and> pi_kind p = CompiledBaseline
    \<and> baseline_evidence sha i m (session_confirmed p) c s e f x"
proof -
  obtain ys p c s e f x where f: "evidence sha i m ds Analyzing ys" "xs = ys @ [FindingsPayload f, MetricsPayload x]"
    "latest as_policy ys = Some p" "latest as_contract ys = Some c" "latest as_suite ys = Some s"
    "latest as_evaluation ys = Some e" "validate_findings f e p c False = Inr f" "validate_metrics x e f = Inr x"
    using assms by (elim evidence_cases(11))
  obtain zs p' c' s' e' where z: "evidence sha i m ds FreezingSuite zs" "ys = zs @ [EvaluationPayload e']"
    "latest as_policy zs = Some p'" "latest as_contract zs = Some c'" "latest as_suite zs = Some s'"
    "evaluated sha m p' c' s' e'" "minimum_coverage e'"
    using f(1) by (elim evidence_cases(10) evidence_cases(9))
  obtain d p0 c0 vs s0 n where w: "zs = confirmed_contents m d p0 c0 @ vs @ [SuitePayload s0]" "length vs \<le> 1"
    "list_all (\<lambda>x. as_policy x = None \<and> as_contract x = None) vs"
    "pi_document_sha256 p0 = pd_document_sha256 d" "pi_kind p0 = CompiledBaseline"
    "validate_suite sha s0 (session_confirmed p0) c0 m (Some (''suite-'' @ i)) n = Inr s0"
    using suite_contents [OF z(1)] by blast
  note none = quiet_coverage [OF w(3)]
  have "p = p'" "c = c'" "s = s'" "e = e'" using f(3-6) z(2-5) by simp_all
  moreover have "p' = session_confirmed p0" "c' = c0" "s' = s0"
    using z(3-5) none by (simp_all add: w(1) last_of_def List.map_filter_def)
  ultimately show ?thesis
    using w f(2,7,8) z(2,6,7) by (intro exI [of _ d] exI [of _ p0] exI [of _ c] exI [of _ vs] exI [of _ s] exI [of _ e]
      exI [of _ f] exI [of _ x]) (auto simp: baseline_evidence_def)
qed

lemma proposal_contents:
  assumes "evidence sha i m ds AwaitingRevisionConfirmation xs"
  shows "\<exists>d p c vs s e f x fr q. xs = confirmed_contents m d p c @ vs @ [SuitePayload s, EvaluationPayload e,
      FindingsPayload f, MetricsPayload x, FindingsPayload fr, ProposalPayload q] \<and> length vs \<le> 1
    \<and> list_all (\<lambda>x. as_policy x = None \<and> as_contract x = None) vs
    \<and> pi_document_sha256 p = pd_document_sha256 d \<and> pi_kind p = CompiledBaseline
    \<and> baseline_evidence sha i m (session_confirmed p) c s e f x
    \<and> proposal_evidence sha ds (session_confirmed p) c s f fr q"
proof -
  obtain ys p c s f fr q request where a: "evidence sha i m ds DraftingRevision (ys @ [FindingsPayload fr])"
    "xs = ys @ [FindingsPayload fr, ProposalPayload q]"
    "latest as_policy ys = Some p" "latest as_contract ys = Some c" "latest as_suite ys = Some s"
    "latest as_findings ys = Some f"
    "propose_request sha p c s (fr\<lparr>fr_findings := accepted_findings fr f s\<rparr>)
      (filter (\<lambda>d. fdn_decision d = Accept) ds) = Inr request" "validate_proposal q request = Inr q"
    using assms by (elim evidence_cases(13))
  obtain ds0 c' s' f' where r: "evidence sha i m ds0 AwaitingFindingReview ys" "latest as_contract ys = Some c'"
    "latest as_suite ys = Some s'" "latest as_findings ys = Some f'"
    "set (map fdn_finding_id ds) = set (map fd_finding_id (reviewable_findings f' s'))" "review_of ds c' f' fr"
    "accepted_findings fr f' s' \<noteq> []"
    using a(1) by (elim evidence_cases(12)) simp
  obtain d p0 c0 vs s0 e f0 x where w: "ys = confirmed_contents m d p0 c0 @ vs @ [SuitePayload s0, EvaluationPayload e,
      FindingsPayload f0, MetricsPayload x]" "length vs \<le> 1"
    "list_all (\<lambda>x. as_policy x = None \<and> as_contract x = None) vs"
    "pi_document_sha256 p0 = pd_document_sha256 d" "pi_kind p0 = CompiledBaseline"
    "baseline_evidence sha i m (session_confirmed p0) c0 s0 e f0 x"
    using review_contents [OF r(1)] by blast
  note none = quiet_coverage [OF w(3)]
  have "p = session_confirmed p0" "c = c0" "s = s0" "f = f0" "c' = c0" "s' = s0" "f' = f0"
    using a(3-6) r(2-4) none by (simp_all add: w(1) last_of_def List.map_filter_def)
  then show ?thesis
    using w a(2,7,8) r(5-7)
    by (intro exI [of _ d] exI [of _ p0] exI [of _ c] exI [of _ vs] exI [of _ s] exI [of _ e] exI [of _ f]
        exI [of _ x] exI [of _ fr] exI [of _ q]) (auto simp: proposal_evidence_def)
qed

lemma completed_contents:
  assumes "evidence sha i m ds Complete xs"
  shows "\<exists>d p c vs s e f x fr q p' e' f' b. xs = confirmed_contents m d p c @ vs @ [SuitePayload s, EvaluationPayload e,
      FindingsPayload f, MetricsPayload x, FindingsPayload fr, ProposalPayload q, PolicyPayload p',
      EvaluationPayload e', FindingsPayload f', BundlePayload b, MetricsPayload (cb_revised_metrics b)]
    \<and> length vs \<le> 1 \<and> pi_document_sha256 p = pd_document_sha256 d \<and> pi_kind p = CompiledBaseline
    \<and> baseline_evidence sha i m (session_confirmed p) c s e f x
    \<and> proposal_evidence sha ds (session_confirmed p) c s f fr q
    \<and> revision_evidence sha m (session_confirmed p) p' c s q e e' fr f' b"
proof -
  obtain ys p c s q e f p' e' f' b where a: "evidence sha i m ds Retesting (ys @ [PolicyPayload p'])"
    "xs = ys @ [PolicyPayload p', EvaluationPayload e', FindingsPayload f', BundlePayload b,
      MetricsPayload (cb_revised_metrics b)]"
    "latest as_policy ys = Some p" "latest as_contract ys = Some c" "latest as_suite ys = Some s"
    "latest as_proposal ys = Some q" "latest as_evaluation ys = Some e" "latest as_findings ys = Some f"
    "evaluated sha m p' c s e'" "validate_findings f' e' p' c False = Inr f'"
    "validate_comparison_bundle b
      \<lparr>crq_baseline_policy = p, crq_revised_policy = p', crq_contract = c, crq_suite = s, crq_proposal = q,
       crq_baseline_evaluation = e, crq_revised_evaluation = e', crq_baseline_findings = f,
       crq_revised_findings = f'\<rparr> = Inr b"
    using assms by (elim evidence_cases(16))
  obtain p1 where r: "evidence sha i m ds AwaitingRevisionConfirmation ys" "latest as_policy ys = Some p1"
    "pi_document_sha256 p' = pi_document_sha256 p1" "pi_review_status p' = SessionConfirmed" "pi_kind p' = StructuredRevision"
    using a(1) by (elim evidence_cases(15) evidence_cases(14)) simp
  obtain d p0 c0 vs s0 e0 f0 x fr q0 where w: "ys = confirmed_contents m d p0 c0 @ vs @ [SuitePayload s0, EvaluationPayload e0,
      FindingsPayload f0, MetricsPayload x, FindingsPayload fr, ProposalPayload q0]" "length vs \<le> 1"
    "list_all (\<lambda>x. as_policy x = None \<and> as_contract x = None) vs"
    "pi_document_sha256 p0 = pd_document_sha256 d" "pi_kind p0 = CompiledBaseline"
    "baseline_evidence sha i m (session_confirmed p0) c0 s0 e0 f0 x"
    "proposal_evidence sha ds (session_confirmed p0) c0 s0 f0 fr q0"
    using proposal_contents [OF r(1)] by blast
  note none = quiet_coverage [OF w(3)]
  have "p = session_confirmed p0" "p1 = p" "c = c0" "s = s0" "q = q0" "e = e0" "f = fr"
    using a(3-8) r(2) none by (simp_all add: w(1) last_of_def List.map_filter_def)
  then show ?thesis
    using w a(2,9-11) r(3-5)
    by (intro exI [of _ d] exI [of _ p0] exI [of _ c] exI [of _ vs] exI [of _ s] exI [of _ e] exI [of _ f0]
        exI [of _ x] exI [of _ fr] exI [of _ q] exI [of _ p'] exI [of _ e'] exI [of _ f'] exI [of _ b])
      (auto simp: revision_evidence_def)
qed

end
