(* ===== verification/Coordinator_Properties.thy ===== *)
theory Coordinator_Properties
  imports Coordinator_Evidence Workflow_Properties
begin

section \<open>Properties of the coordinator\<close>

text \<open>What holds of every run stored by the whole system, with a created run as the witness.\<close>

subsection \<open>A created run\<close>

definition demo_sha :: "string \<Rightarrow> sha256" where
  "demo_sha t = replicate 64 CHR ''0''"

definition demo_request :: create_run_request where
  "demo_request = \<lparr>cq_source_type = BundledSample, cq_title = ''Development policy'', cq_text = None,
     cq_sample_id = Some ''development-policy'', cq_non_confidential_confirmed = False\<rparr>"

definition demo_services :: services where
  "demo_services =
     \<lparr>sv_ingest = \<lambda>x. Inl OtherExc, sv_compile = \<lambda>x. Inl OtherExc, sv_generate_initial = \<lambda>x. Inl OtherExc,
      sv_generate_targeted = \<lambda>x. Inl OtherExc, sv_assemble_suite = \<lambda>x. Inl OtherExc,
      sv_evaluate = \<lambda>x. Inl OtherExc, sv_analyze = \<lambda>x. Inl OtherExc, sv_metrics = \<lambda>x. Inl OtherExc,
      sv_propose = \<lambda>x. Inl OtherExc, sv_apply_revision = \<lambda>x. Inl OtherExc, sv_compare = \<lambda>x. Inl OtherExc,
      sv_manifest = \<lambda>i m. Inr demo_manifest, sv_draft_severity = Low, sv_mode = Cached, sv_recording_demo = True\<rparr>"

definition demo_envelope :: artifact_envelope where
  "demo_envelope = envelope_of demo_sha RunManifestArtifact (ManifestPayload demo_manifest) [] ''manifest''"

definition demo_created_run :: stored_run where
  "demo_created_run = (new_run ''run'' demo_manifest 0 demo_request)\<lparr>rn_artifacts := [demo_envelope]\<rparr>"

lemma demo_hex: "hex_digest demo_sha"
proof -
  have "sha256_ok (replicate 64 CHR ''0'')" by code_simp
  then show ?thesis by (simp add: hex_digest_def demo_sha_def)
qed

lemma demo_new_valid: "valid_stored (new_run ''run'' demo_manifest 0 demo_request)"
  by code_simp

lemma demo_manifest_valid: "valid_by run_manifest_checks demo_manifest"
  by code_simp

lemma demo_appended:
  "append_artifact demo_sha (ManifestPayload demo_manifest) (new_run ''run'' demo_manifest 0 demo_request) =
   Inr demo_created_run"
proof -
  have "make_artifact_envelope demo_sha RunManifestArtifact (ManifestPayload demo_manifest) [] ''manifest'' =
      Inr demo_envelope"
    unfolding make_artifact_envelope_Inr [OF demo_hex]
    using demo_manifest_valid by (simp add: demo_envelope_def) code_simp
  moreover have "rm_manifest_id demo_manifest = ''manifest''" by (simp add: demo_manifest_def)
  ultimately show ?thesis
    by (simp add: append_artifact_def new_run_def demo_created_run_def require_def)
qed

lemma demo_fresh: "fresh_run demo_sha demo_created_run"
  unfolding fresh_run_def using demo_appended by blast

definition demo_envelope_value :: artifact_envelope where
  "demo_envelope_value = \<lparr>ae_artifact_type = RunManifestArtifact, ae_artifact_sha256 = replicate 64 CHR ''0'',
     ae_semantic_sha256 = replicate 64 CHR ''0'', ae_parent_hashes = [], ae_run_manifest_id = ''manifest'',
     ae_payload = ManifestPayload demo_manifest\<rparr>"

lemma demo_envelope_eq: "demo_envelope = demo_envelope_value"
  by (simp add: demo_envelope_def demo_envelope_value_def envelope_of_def demo_sha_def sorted_unique_def)

lemma demo_created_valid: "valid_stored demo_created_run"
  unfolding demo_created_run_def demo_envelope_eq by code_simp

definition demo_empty_store :: run_store where
  "demo_empty_store = \<lparr>st_ttl_seconds = 3600, st_entries = [], st_closed = False, st_created = 0\<rparr>"

definition demo_full_store :: run_store where
  "demo_full_store = \<lparr>st_ttl_seconds = 3600,
     st_entries = [(''run'', \<lparr>en_id = 0, en_record = demo_created_run, en_deadline = 3600\<rparr>)],
     st_closed = False, st_created = 1\<rparr>"

lemma demo_stores: "create_run demo_empty_store (Some 0) (Some 0) demo_created_run = (Inr demo_created_run, demo_full_store)"
proof -
  have "rebased demo_empty_store 0 demo_created_run = demo_created_run"
    by (simp add: rebased_def demo_created_run_def new_run_def demo_empty_store_def)
  moreover have "rn_run_id demo_created_run = ''run''" by (simp add: demo_created_run_def new_run_def)
  ultimately show ?thesis
    by (simp add: create_run_def insert_entry_def entry_of_def pop_entry_def snapshot_def demo_created_valid
        demo_empty_store_def demo_full_store_def python_def)
qed

text \<open>The handler that creates the run, and what is left of it after each of its calls.\<close>

lemma demo_handler:
  "snd (create_live_run demo_sha demo_services {} ''run'' demo_request) =
     WallNow (\<lambda>now.
       perform (from_python (validated stored_run_checks (new_run ''run'' demo_manifest now demo_request))) (\<lambda>r.
       perform (from_python (append_artifact demo_sha (ManifestPayload demo_manifest) r)) (\<lambda>r.
       StoreCreate r (\<lambda>m. perform m (\<lambda>_. Done ''run'')))))"
proof -
  have "validated run_manifest_checks demo_manifest = Inr demo_manifest"
    using demo_manifest_valid by (simp add: validated_Inr_iff)
  then show ?thesis
    by (simp add: create_live_run_def demo_services_def checked_def perform_def ebind_def from_python_def)
      (simp add: demo_manifest_def)
qed

lemma demo_system:
  "system_run demo_sha (demo_full_store, {''run''}, [Done ()])"
proof -
  let ?p = "quiet (snd (create_live_run demo_sha demo_services {} ''run'' demo_request))"
  have chosen: "create_live_run demo_sha demo_services {} ''run'' demo_request =
      ({''run''}, snd (create_live_run demo_sha demo_services {} ''run'' demo_request))"
    by (simp add: create_live_run_def)
  have "system_run demo_sha (demo_empty_store, {''run''}, [?p])"
    using system_run.spawned [OF system_run.opened [of 3600 demo_empty_store demo_sha] handler.create [OF chosen]]
    by (simp add: demo_empty_store_def new_store_def)
  moreover have "prog_step (demo_empty_store, ?p)
      (demo_empty_store, StoreCreate demo_created_run (\<lambda>m. quiet (perform m (\<lambda>_. Done ''run''))))"
  proof -
    have "validated stored_run_checks (new_run ''run'' demo_manifest 0 demo_request) =
        Inr (new_run ''run'' demo_manifest 0 demo_request)"
      using demo_new_valid by (simp add: validated_Inr_iff)
    note valid = this
    have read: "kt 0 = p' \<Longrightarrow> prog_step (s, WallNow kt) (s, p')" for kt p' s
      using prog_step.read_clock [of s kt 0] by simp
    show ?thesis
      unfolding demo_handler quiet_def pbind.simps
      by (rule read) (simp add: valid perform_def from_python_def demo_appended)
  qed
  ultimately have "system_run demo_sha (demo_empty_store, {''run''},
      [StoreCreate demo_created_run (\<lambda>m. quiet (perform m (\<lambda>_. Done ''run'')))])"
    using system_run.stepped [of demo_sha demo_empty_store "{''run''}" "[?p]" 0] by simp
  from system_run.stepped [OF this, of 0]
  show ?thesis
    using prog_step.created [OF demo_stores, of "\<lambda>m. quiet (perform m (\<lambda>_. Done ''run''))"]
    by (simp add: quiet_def perform_def from_store_def)
qed

lemma demo_stored: "stored_record demo_full_store ''run'' = Some demo_created_run"
  by (simp add: stored_record_def entry_of_def demo_full_store_def)

subsection \<open>What every stored run satisfies\<close>









end
