(* ===== verification/Synthesis.thy ===== *)
theory Synthesis
  imports Rule_Validation Artifacts Payloads
begin

section \<open>Mechanical synthesis of scenario facts (features/fuzzing/synthesis.py)\<close>

text \<open>
  A solver for conjunctions of predicates, and the scenarios built from its answers: one witness for every
  rule and invariant, and the exact numeric neighbours of every constant. A fact vector under construction
  is a dictionary from stored fields to values; \<open>ScenarioFacts(**facts)\<close> turns it into facts. The seed
  every function takes is discarded by the code, so it is left out.
\<close>

subsection \<open>Dictionaries of facts\<close>

type_synonym fact_dict = "(predicate_field \<times> pyval) list"

definition fact_order :: "predicate_field list" where
  "fact_order = [F_employee_role, F_expense_category, F_amount_minor, F_destination_type, F_booking_days_before,
     F_receipt_present, F_approval_roles_present, F_prior_same_day_category_spend_minor]"

definition integer_field_maximums :: "predicate_field \<Rightarrow> int option" where
  "integer_field_maximums field = maxima field"

fun enum_values :: "predicate_field \<Rightarrow> pyval list option" where
  "enum_values F_employee_role =
     Some [VStr ''employee'', VStr ''manager'', VStr ''director'', VStr ''executive'']"
| "enum_values F_expense_category =
     Some [VStr ''meal'', VStr ''hotel'', VStr ''transport'', VStr ''airfare'', VStr ''incidental'']"
| "enum_values F_destination_type = Some [VStr ''domestic'', VStr ''international'']"
| "enum_values f = None"

definition default_facts :: fact_dict where
  "default_facts =
     [(F_employee_role, VStr ''employee''), (F_expense_category, VStr ''meal''), (F_amount_minor, VInt 5000),
      (F_destination_type, VStr ''domestic''), (F_booking_days_before, VInt 14), (F_receipt_present, VBool True),
      (F_approval_roles_present, VSet {}), (F_prior_same_day_category_spend_minor, VInt 0)]"

text \<open>\<open>facts.model_dump()\<close>, and \<open>ScenarioFacts(**facts)\<close>.\<close>

definition dump_facts :: "scenario_facts \<Rightarrow> fact_dict" where
  "dump_facts facts = map (\<lambda>field. (field, fact_value field facts)) fact_order"

definition facts_error :: "'a result" where
  "facts_error = Inl (ValueError ''ScenarioFacts'')"

definition enum_of :: "('e \<Rightarrow> string) \<Rightarrow> 'e list \<Rightarrow> pyval option \<Rightarrow> 'e result" where
  "enum_of name members v =
     (case v of
        Some (VStr s) \<Rightarrow> (case find (\<lambda>m. name m = s) members of None \<Rightarrow> facts_error | Some m \<Rightarrow> Inr m)
      | _ \<Rightarrow> facts_error)"

definition int_fact :: "pyval option \<Rightarrow> int result" where
  "int_fact v = (case v of Some (VInt n) \<Rightarrow> Inr n | _ \<Rightarrow> facts_error)"

definition bool_fact :: "pyval option \<Rightarrow> bool result" where
  "bool_fact v = (case v of Some (VBool b) \<Rightarrow> Inr b | _ \<Rightarrow> facts_error)"

definition roles_fact :: "pyval option \<Rightarrow> approval_role set result" where
  "roles_fact v =
     (case v of
        Some (VSet A) \<Rightarrow>
          if A \<subseteq> set (map approval_role_name approval_roles)
          then Inr (set (filter (\<lambda>r. approval_role_name r \<in> A) approval_roles)) else facts_error
      | _ \<Rightarrow> facts_error)"

definition build_facts :: "fact_dict \<Rightarrow> scenario_facts result" where
  "build_facts d =
     rbind (enum_of employee_role_name [RoleEmployee, RoleManager, RoleDirector, RoleExecutive]
       (map_of d F_employee_role)) (\<lambda>role.
     rbind (enum_of expense_category_name [Meal, Hotel, Transport, Airfare, Incidental]
       (map_of d F_expense_category)) (\<lambda>category.
     rbind (int_fact (map_of d F_amount_minor)) (\<lambda>amount.
     rbind (enum_of destination_type_name [Domestic, International] (map_of d F_destination_type)) (\<lambda>destination.
     rbind (int_fact (map_of d F_booking_days_before)) (\<lambda>days.
     rbind (bool_fact (map_of d F_receipt_present)) (\<lambda>receipt.
     rbind (roles_fact (map_of d F_approval_roles_present)) (\<lambda>roles.
     rbind (int_fact (map_of d F_prior_same_day_category_spend_minor)) (\<lambda>prior.
     validated scenario_facts_checks
       \<lparr>f_employee_role = role, f_expense_category = category, f_amount_minor = amount,
        f_destination_type = destination, f_booking_days_before = days, f_receipt_present = receipt,
        f_approval_roles_present = roles, f_prior_same_day_category_spend_minor = prior\<rparr>))))))))"

subsection \<open>Matching\<close>

definition numeric_triplet :: "int \<Rightarrow> int \<Rightarrow> int \<Rightarrow> int list result" where
  "numeric_triplet threshold minimum maximum =
     (if minimum > maximum then Inl (ValueError ''minimum cannot exceed maximum'')
      else Inr (filter (\<lambda>v. minimum \<le> v \<and> v \<le> maximum) [threshold - 1, threshold, threshold + 1]))"

definition predicate_value :: "predicate \<Rightarrow> fact_dict \<Rightarrow> pyval result" where
  "predicate_value p facts =
     (if p_field p = F_daily_category_total_minor then
        rbind (lookup facts F_amount_minor) (\<lambda>a. rbind (number_of a) (\<lambda>amount.
        rbind (lookup facts F_prior_same_day_category_spend_minor) (\<lambda>b. rbind (number_of b) (\<lambda>prior.
        Inr (VInt (amount + prior))))))
      else lookup facts (p_field p))"

text \<open>\<open>_matches\<close> compares with the operators of \<open>apply_operator\<close>.\<close>

definition matches_dict :: "fact_dict \<Rightarrow> predicate \<Rightarrow> bool result" where
  "matches_dict facts p =
     rbind (predicate_value p facts) (\<lambda>actual. apply_operator (p_operator p) actual (p_value p))"

definition conditions_satisfied :: "predicate list \<Rightarrow> scenario_facts \<Rightarrow> bool result" where
  "conditions_satisfied conditions facts =
     rbind (validated scenario_facts_checks facts) (\<lambda>facts.
     rall (\<lambda>item. rbind (validated predicate_checks item) (\<lambda>p. matches_dict (dump_facts facts) p)) conditions)"

subsection \<open>Candidate values of a field\<close>

definition ordered_unique :: "'a list \<Rightarrow> 'a list" where
  "ordered_unique values = fold (\<lambda>v result. if v \<in> set result then result else result @ [v]) values []"

definition numeric_values :: "predicate_field \<Rightarrow> int \<Rightarrow> predicate list \<Rightarrow> int list result" where
  "numeric_values field maximum conditions =
     rbind (lookup default_facts field) (\<lambda>d. rbind (number_of d) (\<lambda>default.
     rbind (traverse (\<lambda>c. case p_value c of
         VInt n \<Rightarrow> if p_field c = field then numeric_triplet n 0 maximum else Inr []
       | _ \<Rightarrow> Inr []) conditions) (\<lambda>extra.
     Inr (ordered_unique ([default, 0, 1, maximum] @ concat extra)))))"

definition field_values :: "predicate_field \<Rightarrow> predicate list \<Rightarrow> pyval list result" where
  "field_values field conditions =
     (case enum_values field of
        Some domain \<Rightarrow> rbind (lookup default_facts field) (\<lambda>default. Inr (ordered_unique (default # domain)))
      | None \<Rightarrow>
          (case integer_field_maximums field of
             Some maximum \<Rightarrow> rbind (numeric_values field maximum conditions) (\<lambda>vs. Inr (map VInt vs))
           | None \<Rightarrow>
               if field = F_receipt_present then Inr [VBool True, VBool False]
               else Inr [VSet {}, VSet {''manager''}, VSet {''director''}, VSet {''finance''},
                         VSet {''manager'', ''director'', ''finance''}]))"

subsection \<open>Integer domains\<close>

record integer_domain =
  dm_lower :: int
  dm_upper :: int
  dm_excluded :: "int set"

definition domain_allows :: "integer_domain \<Rightarrow> int \<Rightarrow> bool" where
  "domain_allows d v \<longleftrightarrow> dm_lower d \<le> v \<and> v \<le> dm_upper d \<and> v \<notin> dm_excluded d"

definition restrict_domain :: "predicate_operator \<Rightarrow> int \<Rightarrow> integer_domain \<Rightarrow> integer_domain" where
  "restrict_domain op v d =
     (case op of
        Op_eq \<Rightarrow> d\<lparr>dm_lower := max (dm_lower d) v, dm_upper := min (dm_upper d) v\<rparr>
      | Op_neq \<Rightarrow> d\<lparr>dm_excluded := insert v (dm_excluded d)\<rparr>
      | Op_lt \<Rightarrow> d\<lparr>dm_upper := min (dm_upper d) (v - 1)\<rparr>
      | Op_lte \<Rightarrow> d\<lparr>dm_upper := min (dm_upper d) v\<rparr>
      | Op_gt \<Rightarrow> d\<lparr>dm_lower := max (dm_lower d) (v + 1)\<rparr>
      | Op_gte \<Rightarrow> d\<lparr>dm_lower := max (dm_lower d) v\<rparr>
      | _ \<Rightarrow> d)"

definition domain_step :: "predicate_field \<Rightarrow> predicate \<Rightarrow> integer_domain \<Rightarrow> integer_domain" where
  "domain_step field c d =
     (if p_field c \<noteq> field then d
      else case p_value c of VInt v \<Rightarrow> restrict_domain (p_operator c) v d | _ \<Rightarrow> d)"

definition integer_domain_of :: "predicate_field \<Rightarrow> predicate list \<Rightarrow> int \<Rightarrow> integer_domain" where
  "integer_domain_of field conditions maximum =
     fold (domain_step field) conditions \<lparr>dm_lower = 0, dm_upper = maximum, dm_excluded = {}\<rparr>"

definition nearest_allowed :: "integer_domain \<Rightarrow> int \<Rightarrow> int option" where
  "nearest_allowed d preferred =
     (if dm_lower d > dm_upper d then None
      else
        let start = min (max preferred (dm_lower d)) (dm_upper d) in
        find (domain_allows d)
          (concat (map (\<lambda>offset. [start + int offset, start - int offset]) [0..<card (dm_excluded d) + 2])))"

text \<open>The prior spend that goes with an amount.\<close>

definition prior_domain :: "integer_domain \<Rightarrow> integer_domain \<Rightarrow> int \<Rightarrow> integer_domain" where
  "prior_domain prior daily amount =
     \<lparr>dm_lower = max (dm_lower prior) (dm_lower daily - amount),
      dm_upper = min (dm_upper prior) (dm_upper daily - amount),
      dm_excluded = dm_excluded prior \<union> (\<lambda>t. t - amount) ` dm_excluded daily\<rparr>"

fun first_pair :: "(int \<Rightarrow> bool) \<Rightarrow> (int \<Rightarrow> int option) \<Rightarrow> int list \<Rightarrow> (int \<times> int) list" where
  "first_pair allowed partner [] = []"
| "first_pair allowed partner (a # as) =
     (if \<not> allowed a then first_pair allowed partner as
      else case partner a of None \<Rightarrow> first_pair allowed partner as | Some p \<Rightarrow> [(a, p)])"

definition daily_pairs :: "predicate list \<Rightarrow> (int \<times> int) list" where
  "daily_pairs conditions =
     (let amount = integer_domain_of F_amount_minor conditions 10000000;
          prior = integer_domain_of F_prior_same_day_category_spend_minor conditions 10000000;
          daily = integer_domain_of F_daily_category_total_minor conditions 20000000;
          amount_lower = max (dm_lower amount) (dm_lower daily - dm_upper prior);
          amount_upper = min (dm_upper amount) (dm_upper daily - dm_lower prior) in
      if amount_lower > amount_upper then []
      else
        let probe_count = card (dm_excluded amount) + card (dm_excluded prior) + card (dm_excluded daily) + 2;
            candidates = ordered_unique
              (min (max 5000 amount_lower) amount_upper
               # map (\<lambda>offset. amount_lower + int offset) [0..<probe_count]
               @ map (\<lambda>offset. amount_upper - int offset) [0..<probe_count]) in
        first_pair (domain_allows amount) (\<lambda>a. nearest_allowed (prior_domain prior daily a) 0) candidates)"

subsection \<open>The solver\<close>

text \<open>\<open>next((x for x in xs if f(x)), None)\<close>.\<close>

fun rfind :: "('a \<Rightarrow> bool result) \<Rightarrow> 'a list \<Rightarrow> 'a option result" where
  "rfind f [] = Inr None"
| "rfind f (x # xs) = rbind (f x) (\<lambda>b. if b then Inr (Some x) else rfind f xs)"

text \<open>One turn of the loop over the fields; \<open>None\<close> is the early return.\<close>

definition choose_field ::
  "predicate list \<Rightarrow> predicate_field \<Rightarrow> fact_dict option \<Rightarrow> fact_dict option result" where
  "choose_field conditions field st =
     (case st of
        None \<Rightarrow> Inr None
      | Some facts \<Rightarrow>
          if field \<in> {F_amount_minor, F_prior_same_day_category_spend_minor} then Inr (Some facts)
          else
            let relevant = filter (\<lambda>c. p_field c = field) conditions in
            if relevant = [] then Inr (Some facts)
            else
              rbind (field_values field conditions) (\<lambda>values.
              rbind (rfind (\<lambda>v. rall (matches_dict (AList.update field v facts)) relevant) values) (\<lambda>selected.
              Inr (map_option (\<lambda>v. AList.update field v facts) selected))))"

definition with_amounts :: "fact_dict \<Rightarrow> int \<times> int \<Rightarrow> fact_dict" where
  "with_amounts facts pair =
     AList.update F_prior_same_day_category_spend_minor (VInt (snd pair))
       (AList.update F_amount_minor (VInt (fst pair)) facts)"

definition satisfy_conditions :: "predicate list \<Rightarrow> scenario_facts option result" where
  "satisfy_conditions conditions =
     rbind (traverse (validated predicate_checks) conditions) (\<lambda>conditions.
     rbind (rfold (choose_field conditions) fact_order (Some default_facts)) (\<lambda>chosen.
     case chosen of
       None \<Rightarrow> Inr None
     | Some facts \<Rightarrow>
         let numeric = filter (\<lambda>c. p_field c \<in> {F_amount_minor, F_prior_same_day_category_spend_minor,
               F_daily_category_total_minor}) conditions in
         rbind (rfind (\<lambda>pair. rall (matches_dict (with_amounts facts pair)) numeric) (daily_pairs conditions))
           (\<lambda>pair. case pair of
              None \<Rightarrow> Inr None
            | Some pair \<Rightarrow>
                rbind (rall (matches_dict (with_amounts facts pair)) conditions) (\<lambda>b.
                if \<not> b then Inr None
                else rbind (build_facts (with_amounts facts pair)) (\<lambda>f. Inr (Some f))))))"

subsection \<open>Mechanical candidates\<close>

definition mechanical_candidate ::
  "(string \<Rightarrow> sha256) \<Rightarrow> scenario_category \<Rightarrow> scenario_facts \<Rightarrow> ident list \<Rightarrow> ident list \<Rightarrow> assertion list
   \<Rightarrow> bool \<Rightarrow> scenario_candidate result" where
  "mechanical_candidate sha category facts rule_ids invariant_ids assertions protected =
     rbind (canonical_sha256 sha (PMap
       [(Some ''category'', PStr (scenario_category_name category)), (Some ''facts'', facts_obj facts),
        (Some ''rule_ids'', strs_obj (sort rule_ids)), (Some ''invariant_ids'', strs_obj (sort invariant_ids)),
        (Some ''assertions'', seq_obj assertion_obj (sort_key a_assertion_id assertions)),
        (Some ''protected'', PBool protected)])) (\<lambda>digest.
     validated scenario_candidate_checks
       \<lparr>sc_category = category,
        sc_origins = (if assertions \<noteq> [] then {FromMechanical, FromSession} else {FromMechanical}),
        sc_facts = facts, sc_target_rule_ids = sort rule_ids, sc_target_invariant_ids = sort invariant_ids,
        sc_assertions = assertions, sc_protected = protected, sc_partition = Visible,
        sc_candidate_id = ''candidate-'' @ digest\<rparr>)"

text \<open>\<open>base.model_copy(update={field: value})\<close> of an integer field, which is not validated.\<close>

definition boundary_facts :: "scenario_facts \<Rightarrow> predicate \<Rightarrow> int \<Rightarrow> scenario_facts" where
  "boundary_facts base p value =
     (case p_field p of
        F_daily_category_total_minor \<Rightarrow>
          (let amount = min (value div 2) 10000000 in
           base\<lparr>f_amount_minor := amount, f_prior_same_day_category_spend_minor := value - amount\<rparr>)
      | F_amount_minor \<Rightarrow> base\<lparr>f_amount_minor := value\<rparr>
      | F_prior_same_day_category_spend_minor \<Rightarrow> base\<lparr>f_prior_same_day_category_spend_minor := value\<rparr>
      | F_booking_days_before \<Rightarrow> base\<lparr>f_booking_days_before := value\<rparr>
      | _ \<Rightarrow> base)"

text \<open>
  The neighbours of an integer constant. The \<open>assert\<close> on the kind of the constant is the last branch; the
  predicates have been validated when a witness exists, so it is never taken.
\<close>

definition boundary_values :: "predicate \<Rightarrow> int list result" where
  "boundary_values p =
     (case integer_field_maximums (p_field p) of
        None \<Rightarrow> Inr []
      | Some maximum \<Rightarrow>
          (case p_value p of VInt n \<Rightarrow> numeric_triplet n 0 maximum | _ \<Rightarrow> Inl TypeError))"

definition rule_candidates ::
  "(string \<Rightarrow> sha256) \<Rightarrow> ident set \<Rightarrow> rule \<Rightarrow> scenario_candidate list result" where
  "rule_candidates sha rule_ids r =
     (if r_rule_id r \<notin> rule_ids then Inr []
      else rbind (satisfy_conditions (r_when r)) (\<lambda>witness.
        case witness of
          None \<Rightarrow> Inr []
        | Some facts \<Rightarrow>
            rbind (mechanical_candidate sha Normal facts [r_rule_id r] [] [] False) (\<lambda>first.
            rbind (traverse (\<lambda>p. rbind (boundary_values p) (\<lambda>values. traverse (\<lambda>v.
                mechanical_candidate sha Boundary (boundary_facts facts p v) [r_rule_id r] [] [] False) values))
              (r_when r)) (\<lambda>rest.
            Inr (first # concat rest)))))"

definition invariant_candidates ::
  "(string \<Rightarrow> sha256) \<Rightarrow> ident set \<Rightarrow> invariant \<Rightarrow> scenario_candidate list result" where
  "invariant_candidates sha invariant_ids i =
     (if i_invariant_id i \<notin> invariant_ids then Inr []
      else rbind (satisfy_conditions (i_when i)) (\<lambda>witness.
        case witness of
          None \<Rightarrow> Inr []
        | Some facts \<Rightarrow>
            rbind (mechanical_candidate sha Normal facts [] [i_invariant_id i] [i_assertion i] True) (\<lambda>first.
            rbind (traverse (\<lambda>p. rbind (boundary_values p) (\<lambda>values. traverse (\<lambda>v.
                let boundary = boundary_facts facts p v in
                rbind (conditions_satisfied (i_when i) boundary) (\<lambda>holds.
                mechanical_candidate sha Boundary boundary [] [i_invariant_id i]
                  (if holds then [i_assertion i] else []) holds)) values))
              (i_when i)) (\<lambda>rest.
            Inr (first # concat rest)))))"

definition mechanical_candidates ::
  "(string \<Rightarrow> sha256) \<Rightarrow> policy_ir \<Rightarrow> policy_contract \<Rightarrow> ident set \<Rightarrow> ident set \<Rightarrow> scenario_candidate list result" where
  "mechanical_candidates sha policy contract rule_ids invariant_ids =
     rbind (traverse (rule_candidates sha rule_ids) (pi_rules policy)) (\<lambda>rs.
     rbind (traverse (invariant_candidates sha invariant_ids) (pc_invariants contract)) (\<lambda>is.
     Inr (concat rs @ concat is)))"

definition build_initial_mechanical_candidates ::
  "(string \<Rightarrow> sha256) \<Rightarrow> policy_ir \<Rightarrow> policy_contract \<Rightarrow> scenario_candidate list result" where
  "build_initial_mechanical_candidates sha policy contract =
     mechanical_candidates sha policy contract (set (map r_rule_id (pi_rules policy)))
       (set (map i_invariant_id (pc_invariants contract)))"

definition build_targeted_mechanical_candidates ::
  "(string \<Rightarrow> sha256) \<Rightarrow> policy_ir \<Rightarrow> policy_contract \<Rightarrow> ident set \<Rightarrow> ident set \<Rightarrow> scenario_candidate list result" where
  "build_targeted_mechanical_candidates sha policy contract rule_ids invariant_ids =
     mechanical_candidates sha policy contract rule_ids invariant_ids"

end
