(* ===== verification/Canonicalization.thy ===== *)
theory Canonicalization
  imports Synthesis
begin

section \<open>Validation, merging and selection of candidates (features/fuzzing/canonicalize.py)\<close>

text \<open>
  Proposed candidates are validated against the policy and the contract, merged when they have the same
  facts and partition, and selected greedily up to a capacity. Every candidate that does not survive leaves
  a rejection. Identifiers are digests of what a candidate says, so they do not depend on the order of the
  proposals.
\<close>

subsection \<open>Digests and stable candidates\<close>

definition category_priority :: "scenario_category \<Rightarrow> int" where
  "category_priority c = (case c of Normal \<Rightarrow> 0 | Adversarial \<Rightarrow> 1 | Boundary \<Rightarrow> 2)"

definition fact_sha256 :: "(string \<Rightarrow> sha256) \<Rightarrow> scenario_facts \<Rightarrow> sha256 result" where
  "fact_sha256 sha facts =
     rbind (validated scenario_facts_checks facts) (\<lambda>facts. canonical_sha256 sha (facts_obj facts))"

text \<open>\<open>sorted(xs, key=f)\<close> with a key that may raise.\<close>

definition rsort :: "('a \<Rightarrow> 'k::linorder result) \<Rightarrow> 'a list \<Rightarrow> 'a list result" where
  "rsort f xs = rbind (traverse (\<lambda>x. rbind (f x) (\<lambda>k. Inr (k, x))) xs) (\<lambda>kxs. Inr (map snd (sort_key fst kxs)))"

definition assertion_projection ::
  "(string \<Rightarrow> sha256) \<Rightarrow> 'a scenario_base_scheme \<Rightarrow> assertion list result" where
  "assertion_projection sha c =
     rsort (\<lambda>a. rbind (canonical_sha256 sha (assertion_obj a)) (\<lambda>h. Inr (a_assertion_id a, h))) (sc_assertions c)"

definition scenario_semantic_sha256 :: "(string \<Rightarrow> sha256) \<Rightarrow> scenario_candidate \<Rightarrow> sha256 result" where
  "scenario_semantic_sha256 sha candidate =
     rbind (validated scenario_candidate_checks candidate) (\<lambda>c.
     rbind (assertion_projection sha c) (\<lambda>assertions.
     canonical_sha256 sha (PMap
       [(Some ''facts'', facts_obj (sc_facts c)),
        (Some ''target_rule_ids'', strs_obj (sorted_unique (sc_target_rule_ids c))),
        (Some ''target_invariant_ids'', strs_obj (sorted_unique (sc_target_invariant_ids c))),
        (Some ''assertions'', seq_obj assertion_obj assertions),
        (Some ''protected'', PBool (sc_protected c)),
        (Some ''partition'', PStr (partition_name (sc_partition c)))])))"

definition stable_candidate :: "(string \<Rightarrow> sha256) \<Rightarrow> scenario_candidate \<Rightarrow> scenario_candidate result" where
  "stable_candidate sha c =
     rbind (scenario_semantic_sha256 sha c) (\<lambda>digest.
     rbind (assertion_projection sha c) (\<lambda>assertions.
     validated scenario_candidate_checks
       (c\<lparr>sc_candidate_id := ''candidate-'' @ digest,
          sc_target_rule_ids := sorted_unique (sc_target_rule_ids c),
          sc_target_invariant_ids := sorted_unique (sc_target_invariant_ids c),
          sc_assertions := assertions\<rparr>)))"

definition materialize_scenario :: "(string \<Rightarrow> sha256) \<Rightarrow> scenario_candidate \<Rightarrow> scenario result" where
  "materialize_scenario sha candidate =
     rbind (validated scenario_candidate_checks candidate) (\<lambda>c.
     rbind (stable_candidate sha c) (\<lambda>c.
     rbind (scenario_semantic_sha256 sha c) (\<lambda>digest.
     validated scenario_checks
       (scenario_base.extend (scenario_base.truncate c) (scenario.fields (''scenario-'' @ digest))))))"

definition scenario_rejection_of ::
  "ident \<Rightarrow> rejection_reason \<Rightarrow> ident option \<Rightarrow> scenario_rejection result" where
  "scenario_rejection_of candidate_id reason duplicate_of =
     validated scenario_rejection_checks
       \<lparr>rj_candidate_id = candidate_id, rj_reason_code = reason, rj_duplicate_of = duplicate_of\<rparr>"

subsection \<open>Validation of proposals\<close>

definition confirmed_assertion_unsound ::
  "(ident \<times> invariant) list \<Rightarrow> scenario_candidate \<Rightarrow> assertion \<Rightarrow> bool result" where
  "confirmed_assertion_unsound confirmed c a =
     (if a_origin a \<noteq> OriginSessionConfirmed then Inr False
      else case (case a_source_invariant_id a of None \<Rightarrow> None | Some i \<Rightarrow> map_of confirmed i) of
        None \<Rightarrow> Inr True
      | Some source \<Rightarrow>
          if i_assertion source \<noteq> a \<or> i_invariant_id source \<notin> set (sc_target_invariant_ids c) then Inr True
          else rbind (conditions_satisfied (i_when source) (sc_facts c)) (\<lambda>b. Inr (\<not> b)))"

text \<open>What becomes of one proposal: accepted, or refused with a reason.\<close>

definition judge_candidate ::
  "(string \<Rightarrow> sha256) \<Rightarrow> policy_ir \<Rightarrow> policy_contract \<Rightarrow> sha256 set \<Rightarrow> scenario_candidate
   \<Rightarrow> rejection_reason option result" where
  "judge_candidate sha policy contract used c =
     (if \<not> valid_candidate c then Inr (Some InvalidFacts)
      else if \<not> (set (sc_target_rule_ids c) \<subseteq> set (map r_rule_id (pi_rules policy))
                 \<and> set (sc_target_invariant_ids c) \<subseteq> set (map i_invariant_id (pc_invariants contract)))
      then Inr (Some InvalidFacts)
      else if sc_protected c \<and> sc_assertions c = [] then Inr (Some InvalidAssertion)
      else
        rbind (rany (confirmed_assertion_unsound (dict_by i_invariant_id (pc_invariants contract)) c)
                 (sc_assertions c)) (\<lambda>unsound.
        if unsound then Inr (Some InvalidAssertion)
        else rbind (fact_sha256 sha (sc_facts c)) (\<lambda>digest.
          Inr (if digest \<in> used then Some Duplicate else None))))"

definition validate_step ::
  "(string \<Rightarrow> sha256) \<Rightarrow> policy_ir \<Rightarrow> policy_contract \<Rightarrow> sha256 set \<Rightarrow> scenario_candidate
   \<Rightarrow> scenario_candidate list \<times> scenario_rejection list
   \<Rightarrow> (scenario_candidate list \<times> scenario_rejection list) result" where
  "validate_step sha policy contract used c st =
     rbind (judge_candidate sha policy contract used c) (\<lambda>reason.
     case reason of
       None \<Rightarrow> Inr (fst st @ [c], snd st)
     | Some code \<Rightarrow>
         rbind (scenario_rejection_of (sc_candidate_id c) code None) (\<lambda>r. Inr (fst st, snd st @ [r])))"

definition validate_candidates ::
  "(string \<Rightarrow> sha256) \<Rightarrow> scenario_candidate list \<Rightarrow> policy_ir \<Rightarrow> policy_contract \<Rightarrow> sha256 set
   \<Rightarrow> (scenario_candidate list \<times> scenario_rejection list) result" where
  "validate_candidates sha candidates policy contract used =
     rfold (validate_step sha policy contract used) candidates ([], [])"

subsection \<open>Merging\<close>

definition conflicting_assertions :: "scenario_candidate \<Rightarrow> scenario_candidate \<Rightarrow> bool" where
  "conflicting_assertions left right =
     (let by_id = dict_by a_assertion_id (sc_assertions left);
          by_coordinate = dict_by (\<lambda>a. (a_target_kind a, a_dimension a)) (sc_assertions left) in
      list_ex (\<lambda>a.
        (case map_of by_id (a_assertion_id a) of None \<Rightarrow> False | Some same \<Rightarrow> same \<noteq> a)
        \<or> (case map_of by_coordinate (a_target_kind a, a_dimension a) of None \<Rightarrow> False
           | Some e \<Rightarrow> a_operator e \<noteq> a_operator a \<or> a_expected_value e \<noteq> a_expected_value a))
        (sc_assertions right))"

text \<open>\<open>max((left, right), key=...)\<close> keeps the first of equals.\<close>

definition higher_category :: "scenario_category \<Rightarrow> scenario_category \<Rightarrow> scenario_category" where
  "higher_category left right = (if category_priority left < category_priority right then right else left)"

definition merge_candidates ::
  "(string \<Rightarrow> sha256) \<Rightarrow> scenario_candidate \<Rightarrow> scenario_candidate \<Rightarrow> scenario_candidate result" where
  "merge_candidates sha left right =
     rbind (validated scenario_candidate_checks
       \<lparr>sc_category = higher_category (sc_category left) (sc_category right),
        sc_origins = sc_origins left \<union> sc_origins right, sc_facts = sc_facts left,
        sc_target_rule_ids = sorted_unique (sc_target_rule_ids left @ sc_target_rule_ids right),
        sc_target_invariant_ids = sorted_unique (sc_target_invariant_ids left @ sc_target_invariant_ids right),
        sc_assertions = sort_key a_assertion_id (map snd (dict_by a_assertion_id (sc_assertions left @ sc_assertions right))),
        sc_protected = (sc_protected left \<or> sc_protected right), sc_partition = sc_partition left,
        sc_candidate_id = sc_candidate_id left\<rparr>)
       (stable_candidate sha)"

record merge_state =
  ms_merged :: scenario_candidate
  ms_rejections :: "(ident \<times> rejection_reason) list"
  ms_duplicates :: nat

definition merge_step ::
  "(string \<Rightarrow> sha256) \<Rightarrow> scenario_candidate \<Rightarrow> merge_state \<Rightarrow> merge_state result" where
  "merge_step sha c st =
     (if conflicting_assertions (ms_merged st) c
      then Inr (st\<lparr>ms_rejections := ms_rejections st @ [(sc_candidate_id c, IncompatibleAssertions)]\<rparr>)
      else rbind (merge_candidates sha (ms_merged st) c) (\<lambda>merged.
        Inr \<lparr>ms_merged = merged, ms_rejections = ms_rejections st @ [(sc_candidate_id c, Duplicate)],
             ms_duplicates = Suc (ms_duplicates st)\<rparr>))"

text \<open>The groups of a dictionary of lists, by sorted key; each group in the order of the list.\<close>

definition grouped :: "('a \<Rightarrow> 'k::linorder result) \<Rightarrow> 'a list \<Rightarrow> 'a list list result" where
  "grouped f xs =
     rbind (traverse (\<lambda>x. rbind (f x) (\<lambda>k. Inr (k, x))) xs) (\<lambda>kxs.
     Inr (map (\<lambda>k. map snd (filter (\<lambda>kx. fst kx = k) kxs)) (sorted_unique (map fst kxs))))"

definition merge_group ::
  "(string \<Rightarrow> sha256) \<Rightarrow> scenario_candidate list
   \<Rightarrow> (scenario_candidate \<times> scenario_rejection list \<times> nat) result" where
  "merge_group sha candidates =
     rbind (rsort (\<lambda>c. rbind (scenario_semantic_sha256 sha c) (\<lambda>h. Inr (h, sc_candidate_id c))) candidates)
       (\<lambda>group. case group of
          [] \<Rightarrow> Inl StopIteration
        | c # cs \<Rightarrow>
            rbind (stable_candidate sha c) (\<lambda>merged.
            rbind (rfold (merge_step sha) cs \<lparr>ms_merged = merged, ms_rejections = [], ms_duplicates = 0\<rparr>) (\<lambda>st.
            rbind (traverse (\<lambda>(i, reason). scenario_rejection_of i reason (Some (sc_candidate_id (ms_merged st))))
              (ms_rejections st)) (\<lambda>rejections.
            Inr (ms_merged st, rejections, ms_duplicates st)))))"

definition deduplicate ::
  "(string \<Rightarrow> sha256) \<Rightarrow> scenario_candidate list
   \<Rightarrow> (scenario_candidate list \<times> scenario_rejection list \<times> nat) result" where
  "deduplicate sha candidates =
     rbind (grouped (\<lambda>c. rbind (fact_sha256 sha (sc_facts c)) (\<lambda>h. Inr (h, partition_name (sc_partition c)))) candidates)
       (\<lambda>groups.
     rbind (traverse (merge_group sha) groups) (\<lambda>merged.
     Inr (map fst merged, concat (map (fst \<circ> snd) merged), sum_list (map (snd \<circ> snd) merged))))"

subsection \<open>Selection\<close>

record selection =
  sel_chosen :: "scenario_candidate list"
  sel_rules :: "ident set"
  sel_invariants :: "ident set"
  sel_categories :: "scenario_category set"

definition ranking ::
  "ident set \<Rightarrow> ident set \<Rightarrow> selection \<Rightarrow> sha256 \<times> scenario_candidate \<Rightarrow> int \<times> int \<times> int \<times> int \<times> sha256" where
  "ranking rules invariants s hc =
     (let c = snd hc in
      (if sc_protected c then -1 else 0,
       if sc_category c \<notin> sel_categories s then -1 else 0,
       - int (card ((set (sc_target_rule_ids c) \<inter> rules) - sel_rules s)
              + card ((set (sc_target_invariant_ids c) \<inter> invariants) - sel_invariants s)),
       if FromMechanical \<in> sc_origins c then -1 else 0,
       fst hc))"

definition choose_candidate ::
  "ident set \<Rightarrow> ident set \<Rightarrow> scenario_candidate \<Rightarrow> selection \<Rightarrow> selection" where
  "choose_candidate rules invariants c s =
     \<lparr>sel_chosen = sel_chosen s @ [c], sel_rules = sel_rules s \<union> (set (sc_target_rule_ids c) \<inter> rules),
      sel_invariants = sel_invariants s \<union> (set (sc_target_invariant_ids c) \<inter> invariants),
      sel_categories = insert (sc_category c) (sel_categories s)\<rparr>"

text \<open>
  The \<open>while\<close> loop; the number of free places bounds it. A candidate is paired with its digest, which the
  code computes again for every ranking.
\<close>

fun select_loop ::
  "ident set \<Rightarrow> ident set \<Rightarrow> nat \<Rightarrow> (sha256 \<times> scenario_candidate) list \<Rightarrow> selection
   \<Rightarrow> selection \<times> (sha256 \<times> scenario_candidate) list" where
  "select_loop rules invariants 0 remaining s = (s, remaining)"
| "select_loop rules invariants (Suc room) remaining s =
     (if remaining = [] then (s, [])
      else
        let chosen = arg_min_list (ranking rules invariants s) remaining in
        select_loop rules invariants room (remove1 chosen remaining) (choose_candidate rules invariants (snd chosen) s))"

definition select_candidates ::
  "(string \<Rightarrow> sha256) \<Rightarrow> scenario_candidate list \<Rightarrow> nat \<Rightarrow> ident set \<Rightarrow> ident set
   \<Rightarrow> (scenario_candidate list \<times> scenario_rejection list) result" where
  "select_candidates sha candidates capacity rules invariants =
     rbind (traverse (\<lambda>c. rbind (scenario_semantic_sha256 sha c) (\<lambda>h. Inr (h, c))) candidates) (\<lambda>keyed.
       let (s, remaining) = select_loop rules invariants capacity keyed
             \<lparr>sel_chosen = [], sel_rules = {}, sel_invariants = {}, sel_categories = {}\<rparr> in
       rbind (traverse (\<lambda>hc. scenario_rejection_of (sc_candidate_id (snd hc)) BudgetExceeded None)
         (sort_key fst remaining)) (\<lambda>rejected.
       rbind (rsort (scenario_semantic_sha256 sha) (sel_chosen s)) (\<lambda>selected.
       Inr (selected, rejected))))"

subsection \<open>The whole routine\<close>

record canonicalization =
  cn_batch :: "scenario_candidate list"
  cn_rejections :: "scenario_rejection list"
  cn_generated_count :: nat
  cn_duplicate_count :: nat

definition scenario_batch_valid :: "scenario_candidate list \<Rightarrow> (bool \<times> string) list" where
  "scenario_batch_valid candidates = [(list_all valid_candidate candidates, ''ScenarioBatch'')]"

definition canonicalize_with_rejections ::
  "(string \<Rightarrow> sha256) \<Rightarrow> scenario_candidate list \<Rightarrow> scenario_rejection list \<Rightarrow> policy_ir \<Rightarrow> policy_contract \<Rightarrow> int
   \<Rightarrow> ident set \<Rightarrow> ident set \<Rightarrow> sha256 set \<Rightarrow> canonicalization result" where
  "canonicalize_with_rejections sha candidates prior_rejections policy contract capacity rules invariants used =
     (if \<not> (0 \<le> capacity \<and> capacity \<le> 15) then Inl (ValueError ''capacity must be between zero and fifteen'')
      else
        rbind (traverse (validated scenario_rejection_checks) prior_rejections) (\<lambda>prior.
        rbind (validated policy_ir_checks policy) (\<lambda>policy.
        rbind (validated policy_contract_checks contract) (\<lambda>contract.
        rbind (validate_candidates sha candidates policy contract used) (\<lambda>(valid, validation_rejections).
        rbind (deduplicate sha valid) (\<lambda>(merged, duplicate_rejections, duplicate_count).
        rbind (select_candidates sha merged (nat capacity) rules invariants) (\<lambda>(selected, capacity_rejections).
        rbind (validated scenario_batch_valid selected) (\<lambda>batch.
        Inr \<lparr>cn_batch = batch,
             cn_rejections = prior @ validation_rejections @ duplicate_rejections @ capacity_rejections,
             cn_generated_count = length candidates, cn_duplicate_count = duplicate_count\<rparr>))))))))"

end
