(* ===== verification/Synthesis_Meaning.thy ===== *)
theory Synthesis_Meaning
  imports Synthesis
begin

section \<open>The fact solver is sound and complete\<close>

text \<open>
  \<open>satisfy_conditions\<close> returns facts that meet its conditions whenever some facts do, and \<open>None\<close> only when none
  do, although it probes a handful of amounts in a domain of ten million. The fields without arithmetic are
  independent of each other, so the first matching candidate of each is enough; the two amounts and their
  sum are handled by the probes, which a counting argument shows to be enough.
\<close>

subsection \<open>Dictionaries and facts\<close>

abbreviation stored :: "predicate_field \<Rightarrow> bool" where
  "stored field \<equiv> field \<noteq> F_daily_category_total_minor"

lemma stored_fact_order: "set fact_order = {field. stored field}"
proof (intro equalityI subsetI)
  fix field assume "field \<in> {field. stored field}"
  then show "field \<in> set fact_order" by (cases field) (simp_all add: fact_order_def)
qed (auto simp: fact_order_def)

lemma distinct_fact_order: "distinct fact_order"
  by (simp add: fact_order_def)

lemma map_of_dump [simp]: "stored field \<Longrightarrow> map_of (dump_facts f) field = Some (fact_value field f)"
  by (simp add: dump_facts_def map_of_map_restrict stored_fact_order flip: stored_fact_order)
    (simp add: stored_fact_order restrict_map_def)

lemma default_facts_dump:
  "\<exists>f. valid_facts f \<and> default_facts = dump_facts f"
  by (intro exI [of _ "\<lparr>f_employee_role = RoleEmployee, f_expense_category = Meal, f_amount_minor = 5000,
      f_destination_type = Domestic, f_booking_days_before = 14, f_receipt_present = True,
      f_approval_roles_present = {}, f_prior_same_day_category_spend_minor = 0\<rparr>"])
    (simp add: valid_facts_iff default_facts_def dump_facts_def fact_order_def fact_value_def)

lemma update_map:
  "distinct ks \<Longrightarrow> k \<in> set ks \<Longrightarrow> AList.update k v (map (\<lambda>x. (x, g x)) ks) = map (\<lambda>x. (x, if x = k then v else g x)) ks"
  by (induction ks) auto

text \<open>Replacing one value of the right kind gives the dictionary of other facts.\<close>

lemma update_dump:
  assumes "valid_facts f" and "stored field" and "field_kind_ok field v"
  obtains f' where "valid_facts f'" and "AList.update field v (dump_facts f) = dump_facts f'"
    and "\<And>g. stored g \<Longrightarrow> fact_value g f' = (if g = field then v else fact_value g f)"
proof -
  let ?v = "\<lambda>g. if g = field then v else fact_value g f"
  have "field_kind_ok g (?v g)" for g using assms fact_value_kind by simp
  from facts_with_values [of ?v, OF this] obtain f' where f': "valid_facts f'"
    "\<And>g. stored g \<Longrightarrow> fact_value g f' = ?v g" by blast
  have "AList.update field v (dump_facts f) = map (\<lambda>g. (g, ?v g)) fact_order"
    unfolding dump_facts_def using assms(2) by (intro update_map distinct_fact_order) (simp add: stored_fact_order)
  also have "\<dots> = dump_facts f'"
    unfolding dump_facts_def using f'(2) stored_fact_order by (intro map_cong refl) auto
  finally show ?thesis using f' that by blast
qed

lemma enum_of_name:
  assumes "inj_on name (set xs)" and "x \<in> set xs"
  shows "enum_of name xs (Some (VStr (name x))) = Inr x"
proof -
  have "find (\<lambda>m. name m = name x) xs = Some x"
    using assms by (induction xs) (auto simp: inj_on_def)
  then show ?thesis by (simp add: enum_of_def)
qed

lemma roles_fact_names: "roles_fact (Some (VSet (approval_role_name ` R))) = Inr R"
proof -
  have inj: "inj approval_role_name"
  proof (rule injI)
    fix x y assume "approval_role_name x = approval_role_name y"
    then show "x = y" by (cases x; cases y) simp_all
  qed
  have all: "r \<in> set approval_roles" for r by (cases r) (simp_all add: approval_roles_def)
  have "approval_role_name ` R \<subseteq> set (map approval_role_name approval_roles)" using all by auto
  moreover have "{r \<in> set approval_roles. approval_role_name r \<in> approval_role_name ` R} = R"
    using all inj by (auto simp: inj_image_mem_iff)
  ultimately show ?thesis by (simp add: roles_fact_def)
qed

lemma build_dump [simp]:
  assumes "valid_facts f"
  shows "build_facts (dump_facts f) = Inr f"
proof -
  have e: "enum_of employee_role_name [RoleEmployee, RoleManager, RoleDirector, RoleExecutive]
      (Some (VStr (employee_role_name x))) = Inr x" for x
    by (cases x) (simp_all add: enum_of_def)
  have c: "enum_of expense_category_name [Meal, Hotel, Transport, Airfare, Incidental]
      (Some (VStr (expense_category_name y))) = Inr y" for y
    by (cases y) (simp_all add: enum_of_def)
  have d: "enum_of destination_type_name [Domestic, International] (Some (VStr (destination_type_name z))) = Inr z" for z
    by (cases z) (simp_all add: enum_of_def)
  show ?thesis
    using assms
    by (cases f) (simp add: build_facts_def fact_value_def e c d int_fact_def bool_fact_def roles_fact_names)
qed

lemma predicate_value_dump [simp]: "predicate_value p (dump_facts f) = Inr (fact_value (p_field p) f)"
  by (simp add: predicate_value_def lookup_def) (simp add: fact_value_def number_of_def)

lemma matches_dump [simp]:
  assumes "valid_predicate p" and "valid_facts f"
  shows "matches_dict (dump_facts f) p = Inr (holds p f)"
  by (simp add: matches_dict_def apply_operator_holds [OF assms(1) fact_value_kind [OF assms(2)]] holds_def)

lemma rall_dump:
  "list_all valid_predicate ps \<Longrightarrow> valid_facts f \<Longrightarrow> rall (matches_dict (dump_facts f)) ps = Inr (list_all (\<lambda>p. holds p f) ps)"
  by (rule rall_eq) (simp add: list_all_iff)

text \<open>The planner and the evaluator agree on which conditions facts meet.\<close>

lemma conditions_satisfied_holds:
  "list_all valid_predicate ps \<Longrightarrow> valid_facts f \<Longrightarrow> conditions_satisfied ps f = Inr (all_hold ps f)"
  unfolding conditions_satisfied_def all_hold_def
  by (simp add: list_all_iff rall_eq [of ps _ "\<lambda>p. holds p f"])

lemma rfind_eq: "(\<And>x. x \<in> set xs \<Longrightarrow> f x = Inr (g x)) \<Longrightarrow> rfind f xs = Inr (find g xs)"
  by (induction xs) auto

lemma set_ordered_unique [simp]: "set (ordered_unique xs) = set xs"
proof -
  have "set (fold (\<lambda>v r. if v \<in> set r then r else r @ [v]) xs r) = set r \<union> set xs" for r
    by (induction xs arbitrary: r) auto
  then show ?thesis by (simp add: ordered_unique_def)
qed

subsection \<open>Fields without arithmetic\<close>

lemma numeric_values_Inr:
  assumes "list_all valid_predicate ps" and "field \<in> set fact_order" and "integer_max field = Some maximum"
  shows "\<exists>vs. numeric_values field maximum ps = Inr vs \<and> (\<forall>v \<in> set vs. 0 \<le> v \<and> v \<le> maximum)
    \<and> set (number_candidates maximum (filter (\<lambda>p. p_field p = field) ps)) \<subseteq> VInt ` set vs"
proof -
  let ?near = "\<lambda>c. if p_field c = field
    then filter (\<lambda>v. 0 \<le> v \<and> v \<le> maximum) [number c - 1, number c, number c + 1] else []"
  have "0 \<le> maximum" "1 \<le> maximum" using assms(3) by (cases field; simp)+
  have "\<exists>d. lookup default_facts field = Inr (VInt d) \<and> 0 \<le> d \<and> d \<le> maximum"
    using assms(2,3) by (cases field) (auto simp: default_facts_def lookup_def fact_order_def)
  then obtain d where d: "lookup default_facts field = Inr (VInt d)" "0 \<le> d" "d \<le> maximum" by blast
  have "traverse (\<lambda>c. case p_value c of
         VInt n \<Rightarrow> if p_field c = field then numeric_triplet n 0 maximum else Inr []
       | _ \<Rightarrow> Inr []) ps = Inr (map ?near ps)"
  proof (rule traverse_eq_map)
    fix c assume "c \<in> set ps"
    then have "valid_predicate c" using assms(1) by (simp add: list_all_iff)
    then show "(case p_value c of
         VInt n \<Rightarrow> if p_field c = field then numeric_triplet n 0 maximum else Inr []
       | _ \<Rightarrow> Inr []) = Inr (?near c)"
      using valid_number(1) [of c maximum] assms(3) \<open>0 \<le> maximum\<close>
      by (auto simp: numeric_triplet_def number_def split: pyval.split)
  qed
  then have "numeric_values field maximum ps = Inr (ordered_unique ([d, 0, 1, maximum] @ concat (map ?near ps)))"
    using d(1) by (simp add: numeric_values_def number_of_def del: filter.simps)
  moreover have "\<forall>v \<in> set (ordered_unique ([d, 0, 1, maximum] @ concat (map ?near ps))). 0 \<le> v \<and> v \<le> maximum"
    using d(2,3) \<open>0 \<le> maximum\<close> \<open>1 \<le> maximum\<close> by (auto split: if_splits)
  moreover have "set (number_candidates maximum (filter (\<lambda>p. p_field p = field) ps))
      \<subseteq> VInt ` set (ordered_unique ([d, 0, 1, maximum] @ concat (map ?near ps)))"
    by (auto simp: number_candidates_def image_iff simp del: filter.simps)
  ultimately show ?thesis by blast
qed

lemma field_values_enough:
  assumes "list_all valid_predicate ps" and "stored field"
  shows "\<exists>vs. field_values field ps = Inr vs \<and> (\<forall>v \<in> set vs. field_kind_ok field v)
    \<and> ((\<exists>v. field_solution ps field v) \<longrightarrow> (\<exists>v \<in> set vs. field_solution ps field v))"
proof (cases "integer_max field")
  case (Some maximum)
  have none: "enum_values field = None" using Some by (cases field) simp_all
  obtain vs where vs: "numeric_values field maximum ps = Inr vs" "\<forall>v \<in> set vs. 0 \<le> v \<and> v \<le> maximum"
    "set (number_candidates maximum (filter (\<lambda>p. p_field p = field) ps)) \<subseteq> VInt ` set vs"
    using numeric_values_Inr [OF assms(1) _ Some] assms(2) stored_fact_order by auto
  let ?items = "filter (\<lambda>p. p_field p = field) ps"
  have items: "list_all valid_predicate ?items" "\<forall>p \<in> set ?items. p_field p = field"
    using assms(1) by (simp_all add: list_all_iff)
  have sol: "field_solution ?items field v \<longleftrightarrow> field_solution ps field v" for v
    by (auto simp: field_solution_def)
  have "(\<exists>v. field_solution ps field v) \<longrightarrow> (\<exists>v \<in> VInt ` set vs. field_solution ps field v)"
    using number_candidates_enough [OF items Some] vs(3) unfolding sol by blast
  then show ?thesis
    using vs(1,2) Some none
    by (simp add: field_values_def integer_field_maximums_def maxima_eq field_kind_ok_def)
next
  case None
  show ?thesis
  proof (cases "domain_values field")
    case (Some domain)
    have "field_values field ps = Inr domain \<or> field_values field ps = Inr (ordered_unique (hd domain # domain))"
      using Some by (cases field) (auto simp: field_values_def default_facts_def lookup_def integer_field_maximums_def)
    then have "\<exists>vs. field_values field ps = Inr vs \<and> set vs = set domain"
      using Some by (cases field) auto
    then obtain vs where vs: "field_values field ps = Inr vs" "\<And>v. v \<in> set vs \<longleftrightarrow> field_kind_ok field v"
      using domain_values_kind [OF Some] by metis
    moreover have "v \<in> set vs" if "field_solution ps field v" for v
      using that vs(2) by (simp add: field_solution_def)
    ultimately show ?thesis by blast
  next
    case None2: None
    have a: "field = F_approval_roles_present" using no_candidates_approval [OF None2 None] .
    have "field_solution ps field (VSet {''manager'', ''director'', ''finance''})"
      using approval_solution [OF assms(1)] a by simp
    then show ?thesis
      by (simp add: a field_values_def integer_field_maximums_def field_kind_ok_def)
  qed
qed

subsection \<open>Intervals with holes\<close>

lemma pigeonhole:
  fixes B :: "int set"
  assumes "finite B" and "card B < n"
  shows "\<exists>j < n. x + int j \<notin> B" and "\<exists>j < n. x - int j \<notin> B"
proof -
  have "\<exists>j < n. f j \<notin> B" if "inj_on f {..<n}" for f :: "nat \<Rightarrow> int"
  proof (rule ccontr)
    assume "\<not> (\<exists>j < n. f j \<notin> B)"
    then have "f ` {..<n} \<subseteq> B" by auto
    then have "card (f ` {..<n}) \<le> card B" using assms(1) by (intro card_mono)
    then show False using assms(2) card_image [OF that] by simp
  qed
  from this [of "\<lambda>j. x + int j"] this [of "\<lambda>j. x - int j"]
  show "\<exists>j < n. x + int j \<notin> B" "\<exists>j < n. x - int j \<notin> B" by (simp_all add: inj_on_def)
qed

lemma restrict_allows:
  assumes "op \<in> set comparisons"
  shows "domain_allows (restrict_domain op n d) v \<longleftrightarrow> domain_allows d v \<and> compare_int op v n"
  using assms by (auto simp: comparisons_def restrict_domain_def domain_allows_def compare_int_def)

lemma domain_of_allows:
  assumes "list_all valid_predicate ps" and "integer_max field = Some maximum"
  shows "domain_allows (integer_domain_of field ps m) v \<longleftrightarrow>
    0 \<le> v \<and> v \<le> m \<and> (\<forall>p \<in> set ps. p_field p = field \<longrightarrow> compare_int (p_operator p) v (number p))"
proof -
  have "domain_allows (fold (domain_step field) ps d) v \<longleftrightarrow>
      domain_allows d v \<and> (\<forall>p \<in> set ps. p_field p = field \<longrightarrow> compare_int (p_operator p) v (number p))" for d
    using assms(1)
  proof (induction ps arbitrary: d)
    case (Cons p ps)
    have "domain_allows (domain_step field p d) v \<longleftrightarrow>
        domain_allows d v \<and> (p_field p = field \<longrightarrow> compare_int (p_operator p) v (number p))"
    proof (cases "p_field p = field")
      case True
      have "valid_predicate p" using Cons.prems by simp
      then have "p_value p = VInt (number p)" "p_operator p \<in> set comparisons"
        using valid_number(1) [of p maximum] True assms(2)
        by (auto elim: valid_predicate_cases)
      then show ?thesis using True restrict_allows by (simp add: domain_step_def)
    qed (simp add: domain_step_def)
    then show ?case using Cons by auto
  qed simp
  then show ?thesis by (auto simp: integer_domain_of_def domain_allows_def)
qed

lemma domain_of_finite: "finite (dm_excluded (integer_domain_of field ps m))"
proof -
  have "finite (dm_excluded (fold (domain_step field) ps d))" if "finite (dm_excluded d)" for d
    using that
  proof (induction ps arbitrary: d)
    case (Cons p ps)
    have "finite (dm_excluded (domain_step field p d))"
      using Cons.prems by (auto simp: domain_step_def restrict_domain_def split: pyval.split predicate_operator.split)
    then show ?case using Cons.IH by simp
  qed simp
  then show ?thesis by (simp add: integer_domain_of_def)
qed

lemma nearest_allowed_sound: "nearest_allowed d preferred = Some v \<Longrightarrow> domain_allows d v"
  by (auto simp: nearest_allowed_def Let_def dest!: find_SomeD split: if_splits)

lemma nearest_allowed_complete:
  assumes "finite (dm_excluded d)" and "domain_allows d v"
  shows "nearest_allowed d preferred \<noteq> None"
proof -
  let ?E = "dm_excluded d"
  define start where "start = min (max preferred (dm_lower d)) (dm_upper d)"
  have v: "dm_lower d \<le> v" "v \<le> dm_upper d" "v \<notin> ?E" using assms(2) by (simp_all add: domain_allows_def)
  have start: "dm_lower d \<le> start" "start \<le> dm_upper d" using v(1,2) by (simp_all add: start_def)
  obtain n where n: "n = card ?E + 2" by blast
  have "\<exists>j < n. domain_allows d (start + int j) \<or> domain_allows d (start - int j)"
  proof (cases "start \<le> v")
    case True
    obtain j where j: "j < card ?E + 1" "start + int j \<notin> ?E" using pigeonhole(1) [OF assms(1), of "card ?E + 1"] by auto
    show ?thesis
    proof (cases "start + int j \<le> v")
      case False
      then have "nat (v - start) < n" "start + int (nat (v - start)) = v" using n j(1) True by linarith+
      then show ?thesis using assms(2) by metis
    qed (use n j v start in \<open>auto simp: domain_allows_def intro!: exI [of _ j]\<close>)
  next
    case False
    obtain j where j: "j < card ?E + 1" "start - int j \<notin> ?E" using pigeonhole(2) [OF assms(1), of "card ?E + 1"] by auto
    show ?thesis
    proof (cases "v \<le> start - int j")
      case True
      then show ?thesis using n j v start by (auto simp: domain_allows_def intro!: exI [of _ j])
    next
      case False2: False
      then have "nat (start - v) < n" "start - int (nat (start - v)) = v" using n j(1) False by linarith+
      then show ?thesis using assms(2) by metis
    qed
  qed
  then have "\<exists>x \<in> set (concat (map (\<lambda>j. [start + int j, start - int j]) [0..<n])). domain_allows d x"
    by auto
  then have "find (domain_allows d) (concat (map (\<lambda>j. [start + int j, start - int j]) [0..<n])) \<noteq> None"
    unfolding find_None_iff by blast
  then show ?thesis
    using v(1,2) unfolding nearest_allowed_def start_def [symmetric] n [symmetric] Let_def by simp
qed

subsection \<open>The probes are enough\<close>

text \<open>
  Amounts \<open>a\<close> in \<open>al..au\<close> outside \<open>A\<close>, priors \<open>p\<close> in \<open>pl..pu\<close> outside \<open>P\<close>, sums in \<open>tl..tu\<close> outside \<open>T\<close>: if
  there is a solution, then one with an amount near an end of the range of possible amounts. Away from the
  ends either many priors go with an amount, or one prior or one sum goes with all of them.
\<close>

lemma probes_enough:
  fixes A P T :: "int set" and al au pl pu tl tu a p L U :: int and N :: nat
  assumes fin: "finite A" "finite P" "finite T"
    and a: "al \<le> a" "a \<le> au" "a \<notin> A" and p: "pl \<le> p" "p \<le> pu" "p \<notin> P" and t: "tl \<le> a + p" "a + p \<le> tu" "a + p \<notin> T"
    and L: "L = max al (tl - pu)" and U: "U = min au (tu - pl)" and N: "N = card A + card P + card T + 2"
  shows "\<exists>j < N. \<exists>b. (b = L + int j \<or> b = U - int j) \<and> al \<le> b \<and> b \<le> au \<and> b \<notin> A
    \<and> (\<exists>q. pl \<le> q \<and> q \<le> pu \<and> q \<notin> P \<and> tl \<le> b + q \<and> b + q \<le> tu \<and> b + q \<notin> T)"
proof -
  let ?good = "\<lambda>b. al \<le> b \<and> b \<le> au \<and> b \<notin> A
    \<and> (\<exists>q. pl \<le> q \<and> q \<le> pu \<and> q \<notin> P \<and> tl \<le> b + q \<and> b + q \<le> tu \<and> b + q \<notin> T)"
  have bounds: "al \<le> L" "tl - pu \<le> L" "U \<le> au" "U \<le> tu - pl" "L \<le> a" "a \<le> U" using a p t L U by auto
  have good_a: "?good a" using a p t by auto
  let ?M = "card P + card T"
  have "\<exists>j < N. ?good (L + int j) \<or> ?good (U - int j)"
  proof (cases "a < L + int N \<or> U - int N < a")
    case True
    then show ?thesis
    proof
      assume "a < L + int N"
      then show ?thesis using good_a bounds by (intro exI [of _ "nat (a - L)"]) auto
    next
      assume "U - int N < a"
      then show ?thesis using good_a bounds by (intro exI [of _ "nat (U - a)"]) auto
    qed
  next
    case False
    then have far: "L + int N \<le> U - int N" by simp
    consider (priors) "pu - pl < int ?M" | (sums) "tu - tl < int ?M" | (wide) "int ?M \<le> pu - pl" "int ?M \<le> tu - tl"
      by linarith
    then show ?thesis
    proof cases
      case priors
      obtain i where i: "i < card P + 1" "pu - int i \<notin> P" using pigeonhole(2) [OF fin(2), of "card P + 1" pu] by auto
      define q where "q = (if pu - int i < p then p else pu - int i)"
      have q: "pl \<le> q" "q \<le> pu" "q \<notin> P" "pu - q \<le> int (card P)" using i p by (auto simp: q_def)
      have "card (A \<union> (\<lambda>x. x - q) ` T) \<le> card A + card T"
        by (rule order_trans [OF card_Un_le]) (simp add: card_image_le fin)
      then obtain j where j: "j < card A + card T + 1" "L + int (card P) + int j \<notin> A \<union> (\<lambda>x. x - q) ` T"
        using pigeonhole(1) [of "A \<union> (\<lambda>x. x - q) ` T" "card A + card T + 1" "L + int (card P)"] fin by auto
      let ?b = "L + int (card P + j)"
      have "?b + q \<notin> T"
        using j(2) by (auto simp: image_iff algebra_simps)
      then have "?good ?b"
        using j q bounds far priors N by (intro conjI exI [of _ q]) (auto simp: algebra_simps)
      then show ?thesis using j(1) N by (intro exI [of _ "card P + j"]) auto
    next
      case sums
      obtain i where i: "i < card T + 1" "tl + int i \<notin> T" using pigeonhole(1) [OF fin(3), of "card T + 1" tl] by auto
      define s where "s = (if a + p < tl + int i then a + p else tl + int i)"
      have s: "tl \<le> s" "s \<le> tu" "s \<notin> T" "s - tl \<le> int (card T)" using i t by (auto simp: s_def)
      have "card (A \<union> (\<lambda>x. s - x) ` P) \<le> card A + card P"
        by (rule order_trans [OF card_Un_le]) (simp add: card_image_le fin)
      then obtain j where j: "j < card A + card P + 1" "L + int (card T) + int j \<notin> A \<union> (\<lambda>x. s - x) ` P"
        using pigeonhole(1) [of "A \<union> (\<lambda>x. s - x) ` P" "card A + card P + 1" "L + int (card T)"] fin by auto
      let ?b = "L + int (card T + j)"
      have "s - ?b \<notin> P" using j(2) by (auto simp: image_iff algebra_simps)
      then have "?good ?b"
        using j s bounds far sums N by (intro conjI exI [of _ "s - ?b"]) (auto simp: algebra_simps)
      then show ?thesis using j(1) N by (intro exI [of _ "card T + j"]) auto
    next
      case wide
      obtain j where j: "j < card A + 1" "L + int ?M + int j \<notin> A"
        using pigeonhole(1) [OF fin(1), of "card A + 1" "L + int ?M"] by auto
      let ?b = "L + int (?M + j)"
      let ?lo = "max pl (tl - ?b)" and ?hi = "min pu (tu - ?b)"
      have wide_range: "?lo + int ?M \<le> ?hi"
        using wide bounds far j(1) N by auto
      have "card (P \<union> (\<lambda>x. x - ?b) ` T) \<le> ?M"
        by (rule order_trans [OF card_Un_le]) (simp add: card_image_le fin)
      then obtain k where k: "k < ?M + 1" "?lo + int k \<notin> P \<union> (\<lambda>x. x - ?b) ` T"
        using pigeonhole(1) [of "P \<union> (\<lambda>x. x - ?b) ` T" "?M + 1" ?lo] fin by auto
      let ?q = "?lo + int k"
      have "?b + ?q \<notin> T" using k(2) by (auto simp: image_iff algebra_simps)
      moreover have "?q \<notin> P" using k(2) by simp
      moreover have "?lo \<le> ?q" "?q \<le> ?hi" using wide_range k(1) by linarith+
      then have "pl \<le> ?q" "tl - ?b \<le> ?q" "?q \<le> pu" "?q \<le> tu - ?b" by linarith+
      ultimately have "?good ?b"
        using j bounds far N by (intro conjI exI [of _ ?q]) (auto simp: algebra_simps)
      then show ?thesis using j(1) N by (intro exI [of _ "?M + j"]) auto
    qed
  qed
  then show ?thesis by blast
qed

lemma first_pair_cases:
  "(first_pair ok_amount partner as = [] \<and> (\<forall>a \<in> set as. ok_amount a \<longrightarrow> partner a = None))
   \<or> (\<exists>a p. first_pair ok_amount partner as = [(a, p)] \<and> ok_amount a \<and> partner a = Some p)"
  by (induction as) (auto split: option.split)

lemma prior_domain_allows:
  "domain_allows (prior_domain prior daily a) q \<longleftrightarrow> domain_allows prior q \<and> domain_allows daily (a + q)"
  by (auto simp: domain_allows_def prior_domain_def image_iff algebra_simps)

text \<open>The amounts that meet the conditions on the two amounts and their sum.\<close>

definition amounts_meet :: "predicate list \<Rightarrow> int \<Rightarrow> int \<Rightarrow> bool" where
  "amounts_meet ps a q \<longleftrightarrow> 0 \<le> a \<and> a \<le> 10000000 \<and> 0 \<le> q \<and> q \<le> 10000000
     \<and> (\<forall>p \<in> set ps.
          (p_field p = F_amount_minor \<longrightarrow> compare_int (p_operator p) a (number p))
          \<and> (p_field p = F_prior_same_day_category_spend_minor \<longrightarrow> compare_int (p_operator p) q (number p))
          \<and> (p_field p = F_daily_category_total_minor \<longrightarrow> compare_int (p_operator p) (a + q) (number p)))"

lemma amounts_meet_domains:
  assumes "list_all valid_predicate ps"
  shows "amounts_meet ps a q \<longleftrightarrow>
    domain_allows (integer_domain_of F_amount_minor ps 10000000) a
    \<and> domain_allows (integer_domain_of F_prior_same_day_category_spend_minor ps 10000000) q
    \<and> domain_allows (integer_domain_of F_daily_category_total_minor ps 20000000) (a + q)"
  using domain_of_allows [OF assms, of F_amount_minor] domain_of_allows [OF assms, of F_daily_category_total_minor]
    domain_of_allows [OF assms, of F_prior_same_day_category_spend_minor]
  by (auto simp: amounts_meet_def)

lemma daily_pairs_exact:
  assumes "list_all valid_predicate ps"
  shows "(\<exists>a q. daily_pairs ps = [(a, q)] \<and> amounts_meet ps a q)
    \<or> (daily_pairs ps = [] \<and> (\<forall>a q. \<not> amounts_meet ps a q))"
proof -
  define D1 where "D1 = integer_domain_of F_amount_minor ps 10000000"
  define D2 where "D2 = integer_domain_of F_prior_same_day_category_spend_minor ps 10000000"
  define D3 where "D3 = integer_domain_of F_daily_category_total_minor ps 20000000"
  note meets = amounts_meet_domains [OF assms, folded D1_def D2_def D3_def]
  have fin: "finite (dm_excluded D1)" "finite (dm_excluded D2)" "finite (dm_excluded D3)"
    by (simp_all add: D1_def D2_def D3_def domain_of_finite)
  define L where "L = max (dm_lower D1) (dm_lower D3 - dm_upper D2)"
  define U where "U = min (dm_upper D1) (dm_upper D3 - dm_lower D2)"
  obtain N where N: "N = card (dm_excluded D1) + card (dm_excluded D2) + card (dm_excluded D3) + 2" by blast
  define probes where "probes = ordered_unique (min (max 5000 L) U # map (\<lambda>j. L + int j) [0..<N] @ map (\<lambda>j. U - int j) [0..<N])"
  let ?partner = "\<lambda>a. nearest_allowed (prior_domain D2 D3 a) 0"
  have code: "daily_pairs ps = (if L > U then [] else first_pair (domain_allows D1) ?partner probes)"
    by (simp only: daily_pairs_def Let_def D1_def [symmetric] D2_def [symmetric] D3_def [symmetric] L_def [symmetric]
        U_def [symmetric] N [symmetric] probes_def)
  have sound: "amounts_meet ps a q" if "domain_allows D1 a" "?partner a = Some q" for a q
    using nearest_allowed_sound [OF that(2)] that(1) by (simp add: meets prior_domain_allows)
  have complete: "L \<le> U \<and> (\<exists>b \<in> set probes. domain_allows D1 b \<and> ?partner b \<noteq> None)" if m: "amounts_meet ps a q" for a q
  proof -
    have m: "dm_lower D1 \<le> a" "a \<le> dm_upper D1" "a \<notin> dm_excluded D1" "dm_lower D2 \<le> q" "q \<le> dm_upper D2"
      "q \<notin> dm_excluded D2" "dm_lower D3 \<le> a + q" "a + q \<le> dm_upper D3" "a + q \<notin> dm_excluded D3"
      using m unfolding meets domain_allows_def by simp_all
    obtain j b q' where b: "j < N" "b = L + int j \<or> b = U - int j" "domain_allows D1 b"
      "domain_allows D2 q'" "domain_allows D3 (b + q')"
      using probes_enough [OF fin m L_def U_def N] unfolding domain_allows_def by blast
    have "finite (dm_excluded (prior_domain D2 D3 b))" using fin by (simp add: prior_domain_def)
    then have "?partner b \<noteq> None"
      using b(4,5) by (intro nearest_allowed_complete [of _ q']) (simp_all add: prior_domain_allows)
    moreover have "b \<in> set probes" using b(1,2) by (auto simp: probes_def)
    moreover have "L \<le> U" using m by (auto simp: L_def U_def)
    ultimately show ?thesis using b(3) by blast
  qed
  show ?thesis
    using first_pair_cases [of "domain_allows D1" ?partner probes]
  proof
    assume "\<exists>a p. first_pair (domain_allows D1) ?partner probes = [(a, p)] \<and> domain_allows D1 a \<and> ?partner a = Some p"
    then show ?thesis
    proof (elim exE conjE)
      fix a p assume f: "first_pair (domain_allows D1) ?partner probes = [(a, p)]" "domain_allows D1 a" "?partner a = Some p"
      have "amounts_meet ps a p" using f(2,3) by (rule sound)
      moreover from complete [OF this] have "daily_pairs ps = [(a, p)]" using f(1) by (simp add: code)
      ultimately show ?thesis by blast
    qed
  next
    assume f: "first_pair (domain_allows D1) ?partner probes = []
      \<and> (\<forall>a \<in> set probes. domain_allows D1 a \<longrightarrow> ?partner a = None)"
    have "\<not> amounts_meet ps a q" for a q
    proof
      assume "amounts_meet ps a q"
      from conjunct2 [OF complete [OF this]] show False
        using conjunct2 [OF f] by (elim bexE conjE) (drule (1) bspec, simp)
    qed
    moreover have "daily_pairs ps = []" by (simp add: code conjunct1 [OF f])
    ultimately show ?thesis by blast
  qed
qed

subsection \<open>The solver\<close>

lemma update_holds:
  assumes "\<And>g. stored g \<Longrightarrow> fact_value g f' = (if g = field then v else fact_value g f)"
    and "p_field p = field" and "stored field"
  shows "holds p f' \<longleftrightarrow> holds_value (p_operator p) v (p_value p)"
  using assms by (simp add: holds_def)

lemma choose_field_exact:
  assumes "list_all valid_predicate ps" and "valid_facts f" and "stored field"
    and "field \<notin> {F_amount_minor, F_prior_same_day_category_spend_minor}"
  shows "(\<exists>f'. choose_field ps field (Some (dump_facts f)) = Inr (Some (dump_facts f')) \<and> valid_facts f'
      \<and> field_solution ps field (fact_value field f') \<and> (\<forall>g. stored g \<longrightarrow> g \<noteq> field \<longrightarrow> fact_value g f' = fact_value g f))
    \<or> (choose_field ps field (Some (dump_facts f)) = Inr None \<and> (\<forall>v. \<not> field_solution ps field v))"
proof (cases "filter (\<lambda>c. p_field c = field) ps = []")
  case True
  then have "field_solution ps field (fact_value field f)"
    using fact_value_kind [OF assms(2)] by (auto simp: field_solution_def filter_empty_conv)
  then show ?thesis using True assms(2,4) by (auto simp: choose_field_def)
next
  case False
  let ?relevant = "filter (\<lambda>c. p_field c = field) ps"
  obtain vs where vs: "field_values field ps = Inr vs" "\<forall>v \<in> set vs. field_kind_ok field v"
    "(\<exists>v. field_solution ps field v) \<longrightarrow> (\<exists>v \<in> set vs. field_solution ps field v)"
    using field_values_enough [OF assms(1,3)] by blast
  have test: "rall (matches_dict (AList.update field v (dump_facts f))) ?relevant = Inr (field_solution ps field v)"
    if "v \<in> set vs" for v
  proof -
    have k: "field_kind_ok field v" using vs(2) that by blast
    obtain f' where f': "valid_facts f'" "AList.update field v (dump_facts f) = dump_facts f'"
      "\<And>g. stored g \<Longrightarrow> fact_value g f' = (if g = field then v else fact_value g f)"
      using update_dump [OF assms(2,3) k] by blast
    have "rall (matches_dict (AList.update field v (dump_facts f))) ?relevant = Inr (list_all (\<lambda>p. holds p f') ?relevant)"
      unfolding f'(2) by (rule rall_dump) (use assms(1) f'(1) in \<open>simp_all add: list_all_iff\<close>)
    also have "list_all (\<lambda>p. holds p f') ?relevant \<longleftrightarrow> field_solution ps field v"
      using update_holds [OF f'(3) _ assms(3)] k by (auto simp: field_solution_def list_all_iff)
    finally show ?thesis .
  qed
  have found: "rfind (\<lambda>v. rall (matches_dict (AList.update field v (dump_facts f))) ?relevant) vs =
      Inr (find (field_solution ps field) vs)"
    by (rule rfind_eq) (rule test)
  have code: "choose_field ps field (Some (dump_facts f)) =
      Inr (map_option (\<lambda>v. AList.update field v (dump_facts f)) (find (field_solution ps field) vs))"
    using False assms(4) found by (simp add: choose_field_def vs(1))
  show ?thesis
  proof (cases "find (field_solution ps field) vs")
    case None
    then have "\<forall>v. \<not> field_solution ps field v" using vs(3) unfolding find_None_iff by blast
    then show ?thesis using code None by simp
  next
    case (Some v)
    then have v: "v \<in> set vs" "field_solution ps field v" by (auto dest: find_SomeD)
    obtain f' where f': "valid_facts f'" "AList.update field v (dump_facts f) = dump_facts f'"
      "\<And>g. stored g \<Longrightarrow> fact_value g f' = (if g = field then v else fact_value g f)"
      using update_dump [OF assms(2,3)] vs(2) v(1) by blast
    then show ?thesis using code Some v(2) f'(3) [OF assms(3)] by auto
  qed
qed

definition plain :: "predicate_field \<Rightarrow> bool" where
  "plain field \<longleftrightarrow> stored field \<and> field \<notin> {F_amount_minor, F_prior_same_day_category_spend_minor}"

lemma choose_fields_exact:
  assumes "list_all valid_predicate ps" and "valid_facts f" and "distinct gs" and "\<forall>g \<in> set gs. stored g"
  shows "(\<exists>f'. rfold (choose_field ps) gs (Some (dump_facts f)) = Inr (Some (dump_facts f')) \<and> valid_facts f'
      \<and> (\<forall>g \<in> set gs. plain g \<longrightarrow> field_solution ps g (fact_value g f'))
      \<and> (\<forall>g. stored g \<longrightarrow> g \<notin> set gs \<longrightarrow> fact_value g f' = fact_value g f))
    \<or> (rfold (choose_field ps) gs (Some (dump_facts f)) = Inr None
        \<and> (\<exists>g \<in> set gs. \<forall>v. \<not> field_solution ps g v))"
  using assms(2-)
proof (induction gs arbitrary: f)
  case Nil
  then show ?case by auto
next
  case (Cons g gs)
  have none: "rfold (choose_field ps) gs None = Inr None" by (induction gs) (simp_all add: choose_field_def)
  show ?case
  proof (cases "plain g")
    case False
    then have "choose_field ps g (Some (dump_facts f)) = Inr (Some (dump_facts f))"
      using Cons.prems(3) by (auto simp: choose_field_def plain_def)
    then show ?thesis using Cons.IH [OF Cons.prems(1)] Cons.prems(2,3) False by auto
  next
    case True
    then have "g \<notin> {F_amount_minor, F_prior_same_day_category_spend_minor}" "stored g" by (simp_all add: plain_def)
    from choose_field_exact [OF assms(1) Cons.prems(1) this(2,1)] show ?thesis
    proof (elim disjE exE conjE)
      fix f' assume f': "choose_field ps g (Some (dump_facts f)) = Inr (Some (dump_facts f'))" "valid_facts f'"
        "field_solution ps g (fact_value g f')" "\<forall>h. stored h \<longrightarrow> h \<noteq> g \<longrightarrow> fact_value h f' = fact_value h f"
      show ?thesis using Cons.IH [OF f'(2)] Cons.prems(2,3) f'
        by auto
    next
      assume "choose_field ps g (Some (dump_facts f)) = Inr None" "\<forall>v. \<not> field_solution ps g v"
      then show ?thesis using none by auto
    qed
  qed
qed

lemma compare_holds:
  assumes "valid_predicate p" and "integer_max (p_field p) = Some maximum" and "fact_value (p_field p) f = VInt v"
  shows "holds p f \<longleftrightarrow> compare_int (p_operator p) v (number p)"
  using valid_number(1) [OF assms(1,2)] assms(3) by (simp add: holds_def holds_value_def)

text \<open>The facts whose amounts have been put in.\<close>

lemma with_amounts_dump:
  assumes "valid_facts f" and "0 \<le> a" "a \<le> 10000000" "0 \<le> q" "q \<le> 10000000"
  obtains f' where "valid_facts f'" and "with_amounts (dump_facts f) (a, q) = dump_facts f'"
    and "f_amount_minor f' = a" and "f_prior_same_day_category_spend_minor f' = q"
    and "\<And>g. plain g \<Longrightarrow> fact_value g f' = fact_value g f"
proof -
  obtain f1 where f1: "valid_facts f1" "AList.update F_amount_minor (VInt a) (dump_facts f) = dump_facts f1"
    "\<And>g. stored g \<Longrightarrow> fact_value g f1 = (if g = F_amount_minor then VInt a else fact_value g f)"
    using update_dump [OF assms(1), of F_amount_minor "VInt a"] assms(2,3) by (auto simp: field_kind_ok_def)
  obtain f2 where f2: "valid_facts f2"
    "AList.update F_prior_same_day_category_spend_minor (VInt q) (dump_facts f1) = dump_facts f2"
    "\<And>g. stored g \<Longrightarrow> fact_value g f2 = (if g = F_prior_same_day_category_spend_minor then VInt q else fact_value g f1)"
    using update_dump [OF f1(1), of F_prior_same_day_category_spend_minor "VInt q"] assms(4,5)
    by (auto simp: field_kind_ok_def)
  have "fact_value F_amount_minor f2 = VInt a" "fact_value F_prior_same_day_category_spend_minor f2 = VInt q"
    using f1(3) f2(3) by simp_all
  then have "f_amount_minor f2 = a" "f_prior_same_day_category_spend_minor f2 = q" by (simp_all add: fact_value_def)
  then show ?thesis
    using f1 f2 by (intro that [of f2]) (auto simp: with_amounts_def plain_def)
qed

lemma all_hold_split:
  assumes "list_all valid_predicate ps" and "valid_facts f"
  shows "all_hold ps f \<longleftrightarrow> (\<forall>g. plain g \<longrightarrow> field_solution ps g (fact_value g f))
    \<and> amounts_meet ps (f_amount_minor f) (f_prior_same_day_category_spend_minor f)"
proof -
  have range: "0 \<le> f_amount_minor f" "f_amount_minor f \<le> 10000000" "0 \<le> f_prior_same_day_category_spend_minor f"
    "f_prior_same_day_category_spend_minor f \<le> 10000000" using assms(2) by (auto simp: valid_facts_iff)
  have cmp: "holds p f \<longleftrightarrow> compare_int (p_operator p) v (number p)"
    if "p \<in> set ps" "integer_max (p_field p) = Some m" "fact_value (p_field p) f = VInt v" for p m v
    using compare_holds [of p m f v] that assms(1) by (simp add: list_all_iff)
  have plain_iff: "holds p f \<longleftrightarrow> holds_value (p_operator p) (fact_value (p_field p) f) (p_value p)" for p
    by (simp add: holds_def)
  have "all_hold ps f \<longleftrightarrow> (\<forall>p \<in> set ps. plain (p_field p) \<longrightarrow> holds p f)
      \<and> (\<forall>p \<in> set ps. p_field p = F_amount_minor \<longrightarrow> holds p f)
      \<and> (\<forall>p \<in> set ps. p_field p = F_prior_same_day_category_spend_minor \<longrightarrow> holds p f)
      \<and> (\<forall>p \<in> set ps. p_field p = F_daily_category_total_minor \<longrightarrow> holds p f)"
    by (auto simp: all_hold_def plain_def)
  also have "(\<forall>p \<in> set ps. plain (p_field p) \<longrightarrow> holds p f) \<longleftrightarrow> (\<forall>g. plain g \<longrightarrow> field_solution ps g (fact_value g f))"
    using fact_value_kind [OF assms(2)] by (auto simp: field_solution_def plain_iff)
  also have "(\<forall>p \<in> set ps. p_field p = F_amount_minor \<longrightarrow> holds p f) \<longleftrightarrow>
      (\<forall>p \<in> set ps. p_field p = F_amount_minor \<longrightarrow> compare_int (p_operator p) (f_amount_minor f) (number p))"
    using cmp [of _ 10000000 "f_amount_minor f"] by (auto simp: fact_value_def)
  also have "(\<forall>p \<in> set ps. p_field p = F_prior_same_day_category_spend_minor \<longrightarrow> holds p f) \<longleftrightarrow>
      (\<forall>p \<in> set ps. p_field p = F_prior_same_day_category_spend_minor \<longrightarrow>
         compare_int (p_operator p) (f_prior_same_day_category_spend_minor f) (number p))"
    using cmp [of _ 10000000 "f_prior_same_day_category_spend_minor f"] by (auto simp: fact_value_def)
  also have "(\<forall>p \<in> set ps. p_field p = F_daily_category_total_minor \<longrightarrow> holds p f) \<longleftrightarrow>
      (\<forall>p \<in> set ps. p_field p = F_daily_category_total_minor \<longrightarrow>
         compare_int (p_operator p) (f_amount_minor f + f_prior_same_day_category_spend_minor f) (number p))"
    using cmp [of _ 20000000 "f_amount_minor f + f_prior_same_day_category_spend_minor f"] by (auto simp: fact_value_def)
  finally show ?thesis using range by (auto simp: amounts_meet_def)
qed

theorem satisfy_conditions_decides:
  assumes "list_all valid_predicate ps"
  shows "(\<exists>f. satisfy_conditions ps = Inr (Some f) \<and> valid_facts f \<and> all_hold ps f)
    \<or> (satisfy_conditions ps = Inr None \<and> (\<forall>f. valid_facts f \<longrightarrow> \<not> all_hold ps f))"
proof -
  let ?numeric = "filter (\<lambda>c. p_field c \<in> {F_amount_minor, F_prior_same_day_category_spend_minor,
               F_daily_category_total_minor}) ps"
  obtain f0 where f0: "valid_facts f0" "default_facts = dump_facts f0" using default_facts_dump by blast
  have "traverse (validated predicate_checks) ps = Inr ps"
    using traverse_eq_map [of ps "validated predicate_checks" id] assms by (simp add: list_all_iff)
  then have code: "satisfy_conditions ps = rbind (rfold (choose_field ps) fact_order (Some (dump_facts f0))) (\<lambda>chosen.
     case chosen of
       None \<Rightarrow> Inr None
     | Some facts \<Rightarrow>
         rbind (rfind (\<lambda>pair. rall (matches_dict (with_amounts facts pair)) ?numeric) (daily_pairs ps))
           (\<lambda>pair. case pair of
              None \<Rightarrow> Inr None
            | Some pair \<Rightarrow>
                rbind (rall (matches_dict (with_amounts facts pair)) ps) (\<lambda>b.
                if \<not> b then Inr None
                else rbind (build_facts (with_amounts facts pair)) (\<lambda>f. Inr (Some f)))))"
    by (simp only: satisfy_conditions_def f0(2) Let_def rbind_simps)
  have stored_all: "\<forall>g \<in> set fact_order. stored g" using stored_fact_order by simp
  from choose_fields_exact [OF assms f0(1) distinct_fact_order stored_all] show ?thesis
  proof (elim disjE exE conjE)
    fix f assume f: "rfold (choose_field ps) fact_order (Some (dump_facts f0)) = Inr (Some (dump_facts f))"
      "valid_facts f" "\<forall>g \<in> set fact_order. plain g \<longrightarrow> field_solution ps g (fact_value g f)"
    from daily_pairs_exact [OF assms] show ?thesis
    proof (elim disjE exE conjE)
      fix a q assume pair: "daily_pairs ps = [(a, q)]" "amounts_meet ps a q"
      obtain f' where f': "valid_facts f'" "with_amounts (dump_facts f) (a, q) = dump_facts f'"
        "f_amount_minor f' = a" "f_prior_same_day_category_spend_minor f' = q"
        "\<And>g. plain g \<Longrightarrow> fact_value g f' = fact_value g f"
        using with_amounts_dump [OF f(2)] pair(2) by (auto simp: amounts_meet_def)
      have "field_solution ps g (fact_value g f')" if "plain g" for g
        using f(3) f'(5) [OF that] that stored_fact_order by (simp add: plain_def)
      then have holds: "all_hold ps f'"
        using all_hold_split [OF assms f'(1)] pair(2) f'(3,4) by simp
      then have all: "rall (matches_dict (dump_facts f')) ps = Inr True"
        using rall_dump [OF assms f'(1)] by (simp add: all_hold_def list_all_iff)
      have "list_all valid_predicate ?numeric" using assms by (simp add: list_all_iff)
      then have "rall (matches_dict (dump_facts f')) ?numeric = Inr True"
        using rall_dump [OF _ f'(1), of ?numeric] holds by (auto simp: all_hold_def list_all_iff)
      then have "satisfy_conditions ps = Inr (Some f')"
        using all f'(1) by (simp add: code f(1) pair(1) f'(2))
      then show ?thesis using f'(1) holds by blast
    next
      assume none: "daily_pairs ps = []" "\<forall>a q. \<not> amounts_meet ps a q"
      have "satisfy_conditions ps = Inr None" by (simp add: code f(1) none(1))
      moreover have "\<not> all_hold ps h" if "valid_facts h" for h
        using all_hold_split [OF assms that] none(2) by blast
      ultimately show ?thesis by blast
    qed
  next
    assume none: "rfold (choose_field ps) fact_order (Some (dump_facts f0)) = Inr None"
      "\<exists>g \<in> set fact_order. \<forall>v. \<not> field_solution ps g v"
    obtain g where g: "stored g" "\<forall>v. \<not> field_solution ps g v" using none(2) stored_fact_order by blast
    have "\<not> all_hold ps h" if "valid_facts h" for h
    proof
      assume "all_hold ps h"
      then have "field_solution ps g (fact_value g h)"
        using fact_value_kind [OF that] by (auto simp: field_solution_def all_hold_def holds_def)
      then show False using g(2) by blast
    qed
    then show ?thesis by (simp add: code none(1))
  qed
qed

text \<open>A rule has a mechanical witness exactly when the rule-set validator finds it possible.\<close>

lemma witness_iff_satisfiable:
  assumes "list_all valid_predicate ps" and "\<forall>p \<in> set ps. p_field p \<noteq> F_daily_category_total_minor"
  shows "conditions_satisfiable ps = Inr (satisfy_conditions ps \<noteq> Inr None)"
  using satisfy_conditions_decides [OF assms(1)] by (auto simp: conditions_satisfiable_exact [OF assms])

end
