(* ===== verification/Canonicalization_Meaning.thy ===== *)
theory Canonicalization_Meaning
  imports Canonicalization Synthesis_Meaning Engine_Report
begin

section \<open>What canonicalization keeps\<close>

text \<open>
  On valid candidates the routine never raises, and every candidate is accounted for: it is in the batch, or
  merged into a candidate with the same facts, or refused with a reason. The batch has one candidate per fact
  vector and partition, and protected candidates are never given up for unprotected ones.
\<close>

subsection \<open>Keys that do not raise\<close>

lemma canonical_sha256_value: "hashable v \<Longrightarrow> canonical_sha256 sha v = Inr (sha (canonical_bytes (norm v)))"
  by (simp add: canonical_sha256_def normalize_total)

lemma traverse_keyed: "(\<And>x. x \<in> set xs \<Longrightarrow> f x = Inr (g x)) \<Longrightarrow>
    traverse (\<lambda>x. rbind (f x) (\<lambda>k. Inr (k, x))) xs = Inr (map (\<lambda>x. (g x, x)) xs)"
  by (rule traverse_eq_map) simp

lemma rsort_eq: "(\<And>x. x \<in> set xs \<Longrightarrow> f x = Inr (g x)) \<Longrightarrow> rsort f xs = Inr (sort_key g xs)"
  by (simp add: rsort_def traverse_keyed sort_key_of_map comp_def)

lemma grouped_eq: "(\<And>x. x \<in> set xs \<Longrightarrow> f x = Inr (g x)) \<Longrightarrow>
    grouped f xs = Inr (map (\<lambda>k. filter (\<lambda>x. g x = k) xs) (sorted_unique (map g xs)))"
  by (simp add: grouped_def traverse_keyed filter_map comp_def)

lemma distinct_map_sort_key [simp]: "distinct (map f (sort_key g xs)) = distinct (map f xs)"
  by (rule mset_eq_imp_distinct_iff) (simp only: mset_map mset_sort)

subsection \<open>Digests\<close>

definition fact_digest :: "(string \<Rightarrow> sha256) \<Rightarrow> scenario_facts \<Rightarrow> sha256" where
  "fact_digest sha f = sha (canonical_bytes (norm (facts_obj f)))"

definition assertion_key :: "(string \<Rightarrow> sha256) \<Rightarrow> assertion \<Rightarrow> ident \<times> sha256" where
  "assertion_key sha a = (a_assertion_id a, sha (canonical_bytes (norm (assertion_obj a))))"

definition scenario_digest :: "(string \<Rightarrow> sha256) \<Rightarrow> scenario_candidate \<Rightarrow> sha256" where
  "scenario_digest sha c = sha (canonical_bytes (norm (PMap
     [(Some ''facts'', facts_obj (sc_facts c)),
      (Some ''target_rule_ids'', strs_obj (sorted_unique (sc_target_rule_ids c))),
      (Some ''target_invariant_ids'', strs_obj (sorted_unique (sc_target_invariant_ids c))),
      (Some ''assertions'', seq_obj assertion_obj (sort_key (assertion_key sha) (sc_assertions c))),
      (Some ''protected'', PBool (sc_protected c)),
      (Some ''partition'', PStr (partition_name (sc_partition c)))])))"

lemma valid_candidate_iff:
  "valid_candidate c \<longleftrightarrow> identifier_ok (sc_candidate_id c) \<and> sc_origins c \<noteq> {} \<and> valid_facts (sc_facts c)
     \<and> list_all identifier_ok (sc_target_rule_ids c) \<and> list_all identifier_ok (sc_target_invariant_ids c)
     \<and> list_all valid_assertion (sc_assertions c)
     \<and> list_all (\<lambda>a. origin_mapping (a_origin a) \<in> sc_origins c) (sc_assertions c)
     \<and> distinct (map a_assertion_id (sc_assertions c))"
  by (auto simp: valid_by_def [of scenario_candidate_checks] scenario_candidate_checks_def
      independent_assertions_checks_def)

lemma fact_sha256_value [simp]: "valid_facts f \<Longrightarrow> fact_sha256 sha f = Inr (fact_digest sha f)"
  by (simp add: fact_sha256_def fact_digest_def canonical_sha256_value)

lemma assertion_projection_value [simp]:
  "assertion_projection sha c = Inr (sort_key (assertion_key sha) (sc_assertions c))"
  unfolding assertion_projection_def
  by (rule rsort_eq) (simp add: canonical_sha256_value assertion_key_def)

lemma scenario_semantic_value [simp]:
  "valid_candidate c \<Longrightarrow> scenario_semantic_sha256 sha c = Inr (scenario_digest sha c)"
  by (simp add: scenario_semantic_sha256_def scenario_digest_def canonical_sha256_value list_all_iff)

lemma candidate_identifier: "sha256_ok h \<Longrightarrow> identifier_ok (''candidate-'' @ h)" "sha256_ok h \<Longrightarrow> identifier_ok (''scenario-'' @ h)"
  by (simp_all add: identifier_ok_def sha256_ok_def)

definition stable_form :: "(string \<Rightarrow> sha256) \<Rightarrow> scenario_candidate \<Rightarrow> scenario_candidate" where
  "stable_form sha c =
     c\<lparr>sc_candidate_id := ''candidate-'' @ scenario_digest sha c,
       sc_target_rule_ids := sorted_unique (sc_target_rule_ids c),
       sc_target_invariant_ids := sorted_unique (sc_target_invariant_ids c),
       sc_assertions := sort_key (assertion_key sha) (sc_assertions c)\<rparr>"

lemma stable_form_simps [simp]:
  "sc_category (stable_form sha c) = sc_category c" "sc_origins (stable_form sha c) = sc_origins c"
  "sc_facts (stable_form sha c) = sc_facts c" "set (sc_target_rule_ids (stable_form sha c)) = set (sc_target_rule_ids c)"
  "set (sc_target_invariant_ids (stable_form sha c)) = set (sc_target_invariant_ids c)"
  "set (sc_assertions (stable_form sha c)) = set (sc_assertions c)"
  "sc_protected (stable_form sha c) = sc_protected c" "sc_partition (stable_form sha c) = sc_partition c"
  by (simp_all add: stable_form_def)

lemma stable_form_valid:
  assumes "hex_digest sha" and "valid_candidate c"
  shows "valid_candidate (stable_form sha c)"
proof -
  have "distinct (map a_assertion_id (sort_key (assertion_key sha) (sc_assertions c)))"
    using assms(2) by (simp add: valid_candidate_iff)
  then show ?thesis
    using assms candidate_identifier(1) [of "scenario_digest sha c"]
    by (auto simp: valid_candidate_iff stable_form_def list_all_iff scenario_digest_def hex_digestD)
qed

lemma stable_candidate_value [simp]:
  "hex_digest sha \<Longrightarrow> valid_candidate c \<Longrightarrow> stable_candidate sha c = Inr (stable_form sha c)"
  using stable_form_valid [of sha c] by (simp add: stable_candidate_def stable_form_def)

text \<open>A digest is that of the stable form.\<close>

lemma scenario_digest_stable:
  "scenario_digest sha (stable_form sha c) = scenario_digest sha c"
proof -
  have "sort_key (assertion_key sha) (sort_key (assertion_key sha) (sc_assertions c)) =
      sort_key (assertion_key sha) (sc_assertions c)"
    by (simp add: sort_key_id_if_sorted)
  moreover have "sorted_unique (sorted_unique xs) = sorted_unique xs" for xs :: "string list"
    by (rule sorted_unique_cong) simp
  ultimately show ?thesis by (simp add: scenario_digest_def stable_form_def)
qed

subsection \<open>Validation\<close>

definition judgement ::
  "(string \<Rightarrow> sha256) \<Rightarrow> policy_ir \<Rightarrow> policy_contract \<Rightarrow> sha256 set \<Rightarrow> scenario_candidate
   \<Rightarrow> rejection_reason option" where
  "judgement sha policy contract used c =
     (case judge_candidate sha policy contract used c of Inl e \<Rightarrow> None | Inr reason \<Rightarrow> reason)"

lemma contract_predicates:
  assumes "valid_contract contract" and "i \<in> set (pc_invariants contract)"
  shows "list_all valid_predicate (i_when i)"
proof -
  have "valid_invariant i"
    using assms by (auto simp: valid_by_def [of policy_contract_checks] policy_contract_checks_def list_all_iff)
  then show ?thesis by (auto simp: valid_by_def [of invariant_checks] invariant_checks_def)
qed

lemma confirmed_assertion_total:
  assumes "valid_contract contract" and "valid_facts (sc_facts c)"
  shows "\<exists>b. confirmed_assertion_unsound (dict_by i_invariant_id (pc_invariants contract)) c a = Inr b"
proof (cases "case a_source_invariant_id a of None \<Rightarrow> None
    | Some k \<Rightarrow> map_of (dict_by i_invariant_id (pc_invariants contract)) k")
  case (Some source)
  then obtain k where "map_of (dict_by i_invariant_id (pc_invariants contract)) k = Some source"
    by (auto split: option.splits)
  then have "source \<in> set (pc_invariants contract)" using map_of_dict_by_SomeD by fast
  then have "conditions_satisfied (i_when source) (sc_facts c) = Inr (all_hold (i_when source) (sc_facts c))"
    using conditions_satisfied_holds [OF contract_predicates [OF assms(1)] assms(2)] by blast
  then show ?thesis using Some by (auto simp: confirmed_assertion_unsound_def)
qed (auto simp: confirmed_assertion_unsound_def)

lemma rany_total:
  assumes "\<And>x. x \<in> set xs \<Longrightarrow> \<exists>b. f x = Inr b"
  shows "\<exists>b. rany f xs = Inr b"
  using assms
proof (induction xs)
  case (Cons x xs)
  obtain b where b: "f x = Inr b" using Cons.prems [of x] by auto
  have "\<exists>b. rany f xs = Inr b" using Cons by simp
  then show ?case
  proof (cases b)
    case True
    then show ?thesis using b by (intro exI [of _ True]) simp
  qed (use b in simp)
qed auto

lemma rany_False: "rany f xs = Inr False \<longleftrightarrow> (\<forall>x \<in> set xs. f x = Inr False)"
  by (induction xs) (auto simp: rbind_Inr_iff split: if_splits)

lemma judge_candidate_value:
  assumes "valid_contract contract" and "valid_candidate c"
  shows "judge_candidate sha policy contract used c = Inr (judgement sha policy contract used c)"
proof -
  have f: "valid_facts (sc_facts c)" using assms(2) by (simp add: valid_candidate_iff)
  obtain b where "rany (confirmed_assertion_unsound (dict_by i_invariant_id (pc_invariants contract)) c)
      (sc_assertions c) = Inr b"
    using rany_total confirmed_assertion_total [OF assms(1) f] by metis
  then have "\<exists>r. judge_candidate sha policy contract used c = Inr r"
    using f assms(2) by (simp add: judge_candidate_def)
  then show ?thesis by (auto simp: judgement_def)
qed

definition refusal :: "scenario_candidate \<Rightarrow> rejection_reason \<Rightarrow> ident option \<Rightarrow> scenario_rejection" where
  "refusal c reason duplicate_of =
     \<lparr>rj_candidate_id = sc_candidate_id c, rj_reason_code = reason, rj_duplicate_of = duplicate_of\<rparr>"

lemma rejection_value [simp]:
  "identifier_ok i \<Longrightarrow> optional identifier_ok d \<Longrightarrow>
   scenario_rejection_of i reason d = Inr \<lparr>rj_candidate_id = i, rj_reason_code = reason, rj_duplicate_of = d\<rparr>"
  by (simp add: scenario_rejection_of_def valid_by_def scenario_rejection_checks_def)

lemma valid_rejection_iff:
  "valid_by scenario_rejection_checks r \<longleftrightarrow> identifier_ok (rj_candidate_id r) \<and> optional identifier_ok (rj_duplicate_of r)"
  by (simp add: valid_by_def scenario_rejection_checks_def)

lemma refusals_valid:
  "list_all valid_candidate cs \<Longrightarrow> list_all (valid_by scenario_rejection_checks) (map (\<lambda>c. refusal c (reason c) None) cs)"
  by (auto simp: list_all_iff valid_rejection_iff refusal_def valid_candidate_iff)

lemma validate_candidates_value:
  assumes "valid_contract contract" and "list_all valid_candidate cs"
  shows "validate_candidates sha cs policy contract used =
    Inr (filter (\<lambda>c. judgement sha policy contract used c = None) cs,
         map (\<lambda>c. refusal c (the (judgement sha policy contract used c)) None)
           (filter (\<lambda>c. judgement sha policy contract used c \<noteq> None) cs))"
proof -
  have "rfold (validate_step sha policy contract used) cs st =
      Inr (fst st @ filter (\<lambda>c. judgement sha policy contract used c = None) cs,
         snd st @ map (\<lambda>c. refusal c (the (judgement sha policy contract used c)) None)
           (filter (\<lambda>c. judgement sha policy contract used c \<noteq> None) cs))" for st
    using assms(2)
  proof (induction cs arbitrary: st)
    case (Cons c cs)
    have v: "identifier_ok (sc_candidate_id c)" using Cons.prems by (simp add: valid_candidate_iff)
    show ?case
      using Cons judge_candidate_value [OF assms(1), of c sha policy used] v
      by (cases "judgement sha policy contract used c") (simp_all add: validate_step_def refusal_def)
  qed simp
  from this [of "([], [])"] show ?thesis by (simp add: validate_candidates_def)
qed

text \<open>What an accepted candidate satisfies.\<close>

lemma accepted_candidate:
  assumes "valid_contract contract" and "valid_candidate c" and "judgement sha policy contract used c = None"
  shows "set (sc_target_rule_ids c) \<subseteq> set (map r_rule_id (pi_rules policy))"
    and "set (sc_target_invariant_ids c) \<subseteq> set (map i_invariant_id (pc_invariants contract))"
    and "fact_digest sha (sc_facts c) \<notin> used"
    and "\<forall>a \<in> set (sc_assertions c). a_origin a = OriginSessionConfirmed \<longrightarrow>
      (\<exists>i \<in> set (pc_invariants contract). a_source_invariant_id a = Some (i_invariant_id i) \<and> i_assertion i = a
        \<and> all_hold (i_when i) (sc_facts c))"
proof -
  have f: "valid_facts (sc_facts c)" using assms(2) by (simp add: valid_candidate_iff)
  have j: "judge_candidate sha policy contract used c = Inr None"
    using judge_candidate_value [OF assms(1,2)] assms(3) by simp
  then show "set (sc_target_rule_ids c) \<subseteq> set (map r_rule_id (pi_rules policy))"
    "set (sc_target_invariant_ids c) \<subseteq> set (map i_invariant_id (pc_invariants contract))"
    by (auto simp: judge_candidate_def split: if_splits)
  from j show "fact_digest sha (sc_facts c) \<notin> used"
    using f by (auto simp: judge_candidate_def rbind_Inr_iff split: if_splits)
  have "rany (confirmed_assertion_unsound (dict_by i_invariant_id (pc_invariants contract)) c) (sc_assertions c) = Inr False"
    using j by (auto simp: judge_candidate_def rbind_Inr_iff split: if_splits)
  then have each: "\<forall>a \<in> set (sc_assertions c).
      confirmed_assertion_unsound (dict_by i_invariant_id (pc_invariants contract)) c a = Inr False"
    by (simp add: rany_False)
  show "\<forall>a \<in> set (sc_assertions c). a_origin a = OriginSessionConfirmed \<longrightarrow>
      (\<exists>i \<in> set (pc_invariants contract). a_source_invariant_id a = Some (i_invariant_id i) \<and> i_assertion i = a
        \<and> all_hold (i_when i) (sc_facts c))"
  proof (intro ballI impI)
    fix a assume a: "a \<in> set (sc_assertions c)" "a_origin a = OriginSessionConfirmed"
    then have sound: "confirmed_assertion_unsound (dict_by i_invariant_id (pc_invariants contract)) c a = Inr False"
      using each by blast
    then obtain k source where s: "a_source_invariant_id a = Some k"
      "map_of (dict_by i_invariant_id (pc_invariants contract)) k = Some source" "i_assertion source = a"
      "conditions_satisfied (i_when source) (sc_facts c) = Inr True"
      using a(2) by (auto simp: confirmed_assertion_unsound_def rbind_Inr_iff split: option.splits if_splits)
    have mem: "source \<in> set (pc_invariants contract)" "i_invariant_id source = k"
      using map_of_dict_by_SomeD [OF s(2)] by simp_all
    have "list_all valid_predicate (i_when source)"
      using contract_predicates [OF assms(1) mem(1)] .
    then have "all_hold (i_when source) (sc_facts c)"
      using s(4) conditions_satisfied_holds [OF _ f] by simp
    then show "\<exists>i \<in> set (pc_invariants contract). a_source_invariant_id a = Some (i_invariant_id i) \<and> i_assertion i = a
        \<and> all_hold (i_when i) (sc_facts c)"
      using mem s(1,3) by blast
  qed
qed

subsection \<open>Merging\<close>

lemma dict_by_member: "(k, x) \<in> set (dict_by f xs) \<Longrightarrow> x \<in> set xs \<and> f x = k"
  using distinct_keys_dict_by [of f xs]
  by (auto simp: keys_def dest!: map_of_is_SomeI [rotated] map_of_dict_by_SomeD)

lemma dict_by_values: "map f (map snd (dict_by f xs)) = keys (dict_by f xs)" "set (map snd (dict_by f xs)) \<subseteq> set xs"
proof -
  show "map f (map snd (dict_by f xs)) = keys (dict_by f xs)"
    unfolding keys_def map_map by (rule map_cong) (auto dest: dict_by_member)
  show "set (map snd (dict_by f xs)) \<subseteq> set xs" by (auto dest: dict_by_member)
qed

definition drawn_from :: "scenario_candidate list \<Rightarrow> scenario_candidate \<Rightarrow> bool" where
  "drawn_from cs m \<longleftrightarrow>
     sc_facts m \<in> sc_facts ` set cs \<and> sc_partition m \<in> sc_partition ` set cs
     \<and> sc_origins m \<subseteq> (\<Union>c \<in> set cs. sc_origins c)
     \<and> set (sc_assertions m) \<subseteq> (\<Union>c \<in> set cs. set (sc_assertions c))
     \<and> set (sc_target_rule_ids m) \<subseteq> (\<Union>c \<in> set cs. set (sc_target_rule_ids c))
     \<and> set (sc_target_invariant_ids m) \<subseteq> (\<Union>c \<in> set cs. set (sc_target_invariant_ids c))
     \<and> sc_protected m \<in> sc_protected ` set cs"

lemma drawn_from_mono: "drawn_from cs m \<Longrightarrow> set cs \<subseteq> set ds \<Longrightarrow> drawn_from ds m"
  unfolding drawn_from_def by (elim conjE) (intro conjI; (erule (1) subset_trans [OF _ UN_mono [OF _ subset_refl]])?; (erule (1) subsetD [OF image_mono, rotated])?; blast)

definition merge_form :: "(string \<Rightarrow> sha256) \<Rightarrow> scenario_candidate \<Rightarrow> scenario_candidate \<Rightarrow> scenario_candidate" where
  "merge_form sha left right = stable_form sha
     \<lparr>sc_category = higher_category (sc_category left) (sc_category right),
      sc_origins = sc_origins left \<union> sc_origins right, sc_facts = sc_facts left,
      sc_target_rule_ids = sorted_unique (sc_target_rule_ids left @ sc_target_rule_ids right),
      sc_target_invariant_ids = sorted_unique (sc_target_invariant_ids left @ sc_target_invariant_ids right),
      sc_assertions = sort_key a_assertion_id (map snd (dict_by a_assertion_id (sc_assertions left @ sc_assertions right))),
      sc_protected = (sc_protected left \<or> sc_protected right), sc_partition = sc_partition left,
      sc_candidate_id = sc_candidate_id left\<rparr>"

lemma merge_candidates_value:
  assumes "hex_digest sha" and l: "valid_candidate left" and r: "valid_candidate right"
  shows "merge_candidates sha left right = Inr (merge_form sha left right)"
    and "valid_candidate (merge_form sha left right)"
    and "sc_facts (merge_form sha left right) = sc_facts left"
    and "sc_partition (merge_form sha left right) = sc_partition left"
    and "drawn_from [left, right] (merge_form sha left right)"
proof -
  let ?as = "map snd (dict_by a_assertion_id (sc_assertions left @ sc_assertions right))"
  have sub: "set ?as \<subseteq> set (sc_assertions left) \<union> set (sc_assertions right)"
    using dict_by_values(2) [of a_assertion_id "sc_assertions left @ sc_assertions right"] by simp
  have "distinct (map a_assertion_id (sort_key a_assertion_id ?as))"
    unfolding distinct_map_sort_key dict_by_values(1) by (rule distinct_keys_dict_by)
  then have raw: "valid_candidate
     \<lparr>sc_category = higher_category (sc_category left) (sc_category right),
      sc_origins = sc_origins left \<union> sc_origins right, sc_facts = sc_facts left,
      sc_target_rule_ids = sorted_unique (sc_target_rule_ids left @ sc_target_rule_ids right),
      sc_target_invariant_ids = sorted_unique (sc_target_invariant_ids left @ sc_target_invariant_ids right),
      sc_assertions = sort_key a_assertion_id ?as,
      sc_protected = (sc_protected left \<or> sc_protected right), sc_partition = sc_partition left,
      sc_candidate_id = sc_candidate_id left\<rparr>"
    using l r sub unfolding valid_candidate_iff by (auto simp: list_all_iff)
  then show "merge_candidates sha left right = Inr (merge_form sha left right)"
    using assms(1) by (simp add: merge_candidates_def merge_form_def)
  show "valid_candidate (merge_form sha left right)"
    unfolding merge_form_def by (rule stable_form_valid [OF assms(1) raw])
  show "sc_facts (merge_form sha left right) = sc_facts left"
    "sc_partition (merge_form sha left right) = sc_partition left" by (simp_all add: merge_form_def)
  show "drawn_from [left, right] (merge_form sha left right)"
    using sub by (auto simp: drawn_from_def merge_form_def)
qed

lemma drawn_from_trans:
  assumes "drawn_from [m, c] m'" and "drawn_from cs m" and "c \<in> set cs" and "sc_facts m' = sc_facts m"
    and "sc_partition m' = sc_partition m"
  shows "drawn_from cs m'"
proof -
  have covered: "(\<Union>x \<in> set [m, c]. g x) \<subseteq> (\<Union>x \<in> set cs. g x)" if "g m \<subseteq> (\<Union>x \<in> set cs. g x)"
    for g :: "scenario_candidate \<Rightarrow> 'z set"
    using that assms(3) by auto
  note m = assms(2) [unfolded drawn_from_def] and m' = assms(1) [unfolded drawn_from_def]
  show ?thesis
    unfolding drawn_from_def assms(4,5)
  proof (intro conjI)
    show "sc_facts m \<in> sc_facts ` set cs" "sc_partition m \<in> sc_partition ` set cs" using m by simp_all
    show "sc_origins m' \<subseteq> (\<Union>x \<in> set cs. sc_origins x)"
      "set (sc_assertions m') \<subseteq> (\<Union>x \<in> set cs. set (sc_assertions x))"
      "set (sc_target_rule_ids m') \<subseteq> (\<Union>x \<in> set cs. set (sc_target_rule_ids x))"
      "set (sc_target_invariant_ids m') \<subseteq> (\<Union>x \<in> set cs. set (sc_target_invariant_ids x))"
      using m m' covered by (meson subset_trans)+
    have "sc_protected m' = sc_protected m \<or> sc_protected m' = sc_protected c" using m' by simp
    then show "sc_protected m' \<in> sc_protected ` set cs" using m assms(3) by auto
  qed
qed

definition duplicates :: "scenario_rejection list \<Rightarrow> nat" where
  "duplicates rs = length (filter (\<lambda>r. rj_reason_code r = Duplicate) rs)"

lemma duplicates_simps [simp]:
  "duplicates [] = 0" "duplicates (rs @ rs') = duplicates rs + duplicates rs'"
  "duplicates (r # rs) = (if rj_reason_code r = Duplicate then 1 else 0) + duplicates rs"
  by (simp_all add: duplicates_def)

text \<open>The fold over the rest of a group.\<close>

definition merged_well :: "scenario_candidate list \<Rightarrow> scenario_candidate \<Rightarrow> nat \<Rightarrow> merge_state \<Rightarrow> bool" where
  "merged_well all c n st \<longleftrightarrow> valid_candidate (ms_merged st)
     \<and> sc_facts (ms_merged st) = sc_facts c \<and> sc_partition (ms_merged st) = sc_partition c
     \<and> drawn_from all (ms_merged st) \<and> list_all (\<lambda>(i, r). identifier_ok i) (ms_rejections st)
     \<and> length (ms_rejections st) = n
     \<and> ms_duplicates st = length (filter (\<lambda>x. snd x = Duplicate) (ms_rejections st))"

lemma merge_step_well:
  assumes "hex_digest sha" and "merged_well all c n st" and "valid_candidate d" and "d \<in> set all"
  obtains st' where "merge_step sha d st = Inr st'" and "merged_well all c (Suc n) st'"
proof (cases "conflicting_assertions (ms_merged st) d")
  case True
  have id: "identifier_ok (sc_candidate_id d)" using assms(3) by (simp add: valid_candidate_iff)
  show ?thesis
    by (rule that [of "st\<lparr>ms_rejections := ms_rejections st @ [(sc_candidate_id d, IncompatibleAssertions)]\<rparr>"])
      (use assms(2) id True in \<open>simp_all add: merge_step_def merged_well_def\<close>)
next
  case False
  have w: "valid_candidate (ms_merged st)" "sc_facts (ms_merged st) = sc_facts c"
    "sc_partition (ms_merged st) = sc_partition c" "drawn_from all (ms_merged st)"
    using assms(2) by (simp_all add: merged_well_def)
  note merged = merge_candidates_value [OF assms(1) w(1) assms(3)]
  have drawn: "drawn_from all (merge_form sha (ms_merged st) d)"
    by (rule drawn_from_trans [OF merged(5) w(4) assms(4) merged(3,4)])
  have id: "identifier_ok (sc_candidate_id d)" using assms(3) by (simp add: valid_candidate_iff)
  let ?st = "\<lparr>ms_merged = merge_form sha (ms_merged st) d,
      ms_rejections = ms_rejections st @ [(sc_candidate_id d, Duplicate)], ms_duplicates = Suc (ms_duplicates st)\<rparr>"
  show ?thesis
  proof (rule that)
    show "merge_step sha d st = Inr ?st" using False merged(1) by (simp add: merge_step_def)
    show "merged_well all c (Suc n) ?st"
      using assms(2) merged(2) drawn id unfolding merged_well_def by (simp add: merged(3,4))
  qed
qed

lemma merge_steps:
  assumes "hex_digest sha" and "list_all valid_candidate ds" and "set ds \<subseteq> set all" and "merged_well all c n st"
  shows "\<exists>st'. rfold (merge_step sha) ds st = Inr st' \<and> merged_well all c (n + length ds) st'"
  using assms(2-)
proof (induction ds arbitrary: st n)
  case Nil
  then show ?case by simp
next
  case (Cons d ds)
  have d: "valid_candidate d" "d \<in> set all" "list_all valid_candidate ds" "set ds \<subseteq> set all"
    using Cons.prems(1,2) by simp_all
  obtain st' where st': "merge_step sha d st = Inr st'" "merged_well all c (Suc n) st'"
    by (rule merge_step_well [OF assms(1) Cons.prems(3) d(1,2)])
  show ?case using Cons.IH [OF d(3,4) st'(2)] by (simp add: st'(1))
qed

lemma merge_group_value:
  assumes "hex_digest sha" and "cs \<noteq> []" and "list_all valid_candidate cs"
  obtains m rs d where "merge_group sha cs = Inr (m, rs, d)" and "valid_candidate m" and "drawn_from cs m"
    and "length cs = Suc (length rs)" and "duplicates rs = d" and "list_all (valid_by scenario_rejection_checks) rs"
    and "\<exists>c \<in> set cs. sc_facts m = sc_facts c \<and> sc_partition m = sc_partition c"
proof -
  let ?key = "\<lambda>c. (scenario_digest sha c, sc_candidate_id c)"
  have group: "rsort (\<lambda>c. rbind (scenario_semantic_sha256 sha c) (\<lambda>h. Inr (h, sc_candidate_id c))) cs = Inr (sort_key ?key cs)"
    by (rule rsort_eq) (use assms(3) in \<open>simp add: list_all_iff\<close>)
  have "sort_key ?key cs \<noteq> []" using assms(2) by (metis length_0_conv length_sort)
  then obtain c rest where sorted: "sort_key ?key cs = c # rest" by (auto simp: neq_Nil_conv)
  have same: "set cs = set (c # rest)" "length cs = Suc (length rest)"
    using arg_cong [OF sorted, of set] arg_cong [OF sorted, of length] by simp_all
  have v: "valid_candidate c" "list_all valid_candidate rest" using assms(3) same(1) by (auto simp: list_all_iff)
  have start: "drawn_from cs (stable_form sha c)" using same(1) by (auto simp: drawn_from_def)
  have "merged_well cs c 0 \<lparr>ms_merged = stable_form sha c, ms_rejections = [], ms_duplicates = 0\<rparr>"
    using stable_form_valid [OF assms(1) v(1)] start by (simp add: merged_well_def)
  then obtain st where run: "rfold (merge_step sha) rest \<lparr>ms_merged = stable_form sha c, ms_rejections = [], ms_duplicates = 0\<rparr> = Inr st"
    and "merged_well cs c (length rest) st"
    using merge_steps [OF assms(1) v(2), of cs c 0] same(1) by (metis add_0 set_subset_Cons)
  then have st: "valid_candidate (ms_merged st)" "sc_facts (ms_merged st) = sc_facts c" "sc_partition (ms_merged st) = sc_partition c"
    "drawn_from cs (ms_merged st)" "list_all (\<lambda>(i, r). identifier_ok i) (ms_rejections st)"
    "length (ms_rejections st) = length rest"
    "ms_duplicates st = length (filter (\<lambda>x. snd x = Duplicate) (ms_rejections st))"
    by (simp_all add: merged_well_def)
  let ?rs = "map (\<lambda>(i, r). \<lparr>rj_candidate_id = i, rj_reason_code = r,
      rj_duplicate_of = Some (sc_candidate_id (ms_merged st))\<rparr>) (ms_rejections st)"
  have id: "identifier_ok (sc_candidate_id (ms_merged st))" using st(1) by (simp add: valid_candidate_iff)
  have "traverse (\<lambda>(i, reason). scenario_rejection_of i reason (Some (sc_candidate_id (ms_merged st)))) (ms_rejections st) = Inr ?rs"
    using st(5) id by (intro traverse_eq_map) (auto simp: list_all_iff)
  then have "merge_group sha cs = Inr (ms_merged st, ?rs, ms_duplicates st)"
    using run v(1) assms(1) by (simp add: merge_group_def group sorted)
  moreover have "duplicates ?rs = ms_duplicates st"
    by (simp add: st(7) duplicates_def filter_map comp_def case_prod_beta)
  moreover have "\<exists>c \<in> set cs. sc_facts (ms_merged st) = sc_facts c \<and> sc_partition (ms_merged st) = sc_partition c"
    using st(2,3) same(1) by auto
  moreover have "list_all (valid_by scenario_rejection_checks) ?rs"
    using st(5) id by (auto simp: list_all_iff valid_rejection_iff)
  ultimately show ?thesis using st(1,4,6) same(2) by (intro that [of "ms_merged st" ?rs "ms_duplicates st"]) simp_all
qed

subsection \<open>Groups\<close>

lemma group_lengths:
  assumes "distinct ks" and "g ` set xs \<subseteq> set ks"
  shows "(\<Sum>k \<leftarrow> ks. length (filter (\<lambda>x. g x = k) xs)) = length xs"
  using assms(2)
proof (induction xs)
  case (Cons x xs)
  have "(\<Sum>k \<leftarrow> ks. length (filter (\<lambda>y. g y = k) (x # xs))) =
      (\<Sum>k \<leftarrow> ks. (if g x = k then 1 else 0) + length (filter (\<lambda>y. g y = k) xs))"
    by (rule arg_cong [of _ _ sum_list], rule map_cong) simp_all
  also have "\<dots> = (\<Sum>k \<leftarrow> ks. if g x = k then 1 else 0) + (\<Sum>k \<leftarrow> ks. length (filter (\<lambda>y. g y = k) xs))"
    by (rule sum_list_addf)
  also have "(\<Sum>k \<leftarrow> ks. if g x = k then 1 else (0::nat)) = 1"
    using Cons.prems assms(1) by (simp add: sum_list_distinct_conv_sum_set)
  finally show ?case using Cons by simp
qed simp

lemma traverse_map: "traverse f (map g xs) = traverse (\<lambda>x. f (g x)) xs"
  by (induction xs) simp_all

lemma traverse_total:
  "(\<And>x. x \<in> set xs \<Longrightarrow> \<exists>y. f x = Inr y \<and> P x y) \<Longrightarrow> \<exists>ys. traverse f xs = Inr ys \<and> list_all2 P xs ys"
proof (induction xs)
  case (Cons x xs)
  obtain y where y: "f x = Inr y" "P x y" using Cons.prems [of x] by auto
  have "\<exists>ys. traverse f xs = Inr ys \<and> list_all2 P xs ys" by (rule Cons.IH) (simp add: Cons.prems)
  then show ?case using y by auto
qed simp

definition candidate_key :: "(string \<Rightarrow> sha256) \<Rightarrow> scenario_candidate \<Rightarrow> sha256 \<times> string" where
  "candidate_key sha c = (fact_digest sha (sc_facts c), partition_name (sc_partition c))"

definition merged_group ::
  "(string \<Rightarrow> sha256) \<Rightarrow> scenario_candidate list \<Rightarrow> sha256 \<times> string
   \<Rightarrow> scenario_candidate \<times> scenario_rejection list \<times> nat \<Rightarrow> bool" where
  "merged_group sha cs k g \<longleftrightarrow> valid_candidate (fst g) \<and> candidate_key sha (fst g) = k \<and> drawn_from cs (fst g)
     \<and> length (filter (\<lambda>c. candidate_key sha c = k) cs) = Suc (length (fst (snd g)))
     \<and> duplicates (fst (snd g)) = snd (snd g) \<and> list_all (valid_by scenario_rejection_checks) (fst (snd g))"

lemma merged_groups_sums:
  assumes "list_all2 (merged_group sha cs) ks gs"
  shows "map (candidate_key sha) (map fst gs) = ks"
    and "list_all (\<lambda>m. valid_candidate m \<and> drawn_from cs m) (map fst gs)"
    and "(\<Sum>k \<leftarrow> ks. length (filter (\<lambda>c. candidate_key sha c = k) cs)) =
      length gs + length (concat (map (fst \<circ> snd) gs))"
    and "duplicates (concat (map (fst \<circ> snd) gs)) = sum_list (map (snd \<circ> snd) gs)"
    and "list_all (valid_by scenario_rejection_checks) (concat (map (fst \<circ> snd) gs))"
  using assms by (induction rule: list_all2_induct) (simp_all add: merged_group_def)

lemma deduplicate_value:
  assumes "hex_digest sha" and "list_all valid_candidate cs"
  obtains ms rs d where "deduplicate sha cs = Inr (ms, rs, d)" and "list_all valid_candidate ms"
    and "map (candidate_key sha) ms = sorted_unique (map (candidate_key sha) cs)"
    and "list_all (drawn_from cs) ms" and "length cs = length ms + length rs" and "duplicates rs = d"
    and "list_all (valid_by scenario_rejection_checks) rs"
proof -
  let ?groups = "map (\<lambda>k. filter (\<lambda>c. candidate_key sha c = k) cs) (sorted_unique (map (candidate_key sha) cs))"
  have "grouped (\<lambda>c. rbind (fact_sha256 sha (sc_facts c)) (\<lambda>h. Inr (h, partition_name (sc_partition c)))) cs = Inr ?groups"
    by (rule grouped_eq) (use assms(2) in \<open>auto simp: list_all_iff valid_candidate_iff candidate_key_def\<close>)
  moreover have "\<exists>gs. traverse (\<lambda>k. merge_group sha (filter (\<lambda>c. candidate_key sha c = k) cs))
      (sorted_unique (map (candidate_key sha) cs)) = Inr gs
    \<and> list_all2 (merged_group sha cs) (sorted_unique (map (candidate_key sha) cs)) gs"
  proof (rule traverse_total)
    fix k assume "k \<in> set (sorted_unique (map (candidate_key sha) cs))"
    then have some: "filter (\<lambda>c. candidate_key sha c = k) cs \<noteq> []" by (auto simp: filter_empty_conv)
    have valid: "list_all valid_candidate (filter (\<lambda>c. candidate_key sha c = k) cs)"
      using assms(2) by (simp add: list_all_iff)
    obtain m rs d where g: "merge_group sha (filter (\<lambda>c. candidate_key sha c = k) cs) = Inr (m, rs, d)"
      "valid_candidate m" "drawn_from (filter (\<lambda>c. candidate_key sha c = k) cs) m"
      "length (filter (\<lambda>c. candidate_key sha c = k) cs) = Suc (length rs)" "duplicates rs = d"
      "list_all (valid_by scenario_rejection_checks) rs"
      "\<exists>c \<in> set (filter (\<lambda>c. candidate_key sha c = k) cs). sc_facts m = sc_facts c \<and> sc_partition m = sc_partition c"
      by (rule merge_group_value [OF assms(1) some valid])
    have "candidate_key sha m = k" using g(7) by (auto simp: candidate_key_def)
    moreover have "drawn_from cs m" by (rule drawn_from_mono [OF g(3)]) simp
    ultimately have "merged_group sha cs k (m, rs, d)" using g(2,4-6) by (simp add: merged_group_def)
    then show "\<exists>y. merge_group sha (filter (\<lambda>c. candidate_key sha c = k) cs) = Inr y \<and> merged_group sha cs k y"
      using g(1) by blast
  qed
  then obtain gs where gs: "traverse (merge_group sha) ?groups = Inr gs"
    "list_all2 (merged_group sha cs) (sorted_unique (map (candidate_key sha) cs)) gs"
    by (auto simp: traverse_map comp_def)
  note sums = merged_groups_sums [OF gs(2)]
  have "length cs = length gs + length (concat (map (fst \<circ> snd) gs))"
    unfolding sums(3) [symmetric] by (rule group_lengths [symmetric]) simp_all
  then show ?thesis
    using calculation gs(1) sums(1,2,4,5)
    by (intro that [of "map fst gs" "concat (map (fst \<circ> snd) gs)" "sum_list (map (snd \<circ> snd) gs)"])
      (simp_all add: deduplicate_def list_all_iff)
qed

subsection \<open>Selection\<close>

lemma arg_min_listD:
  assumes "xs \<noteq> []"
  shows "arg_min_list f xs \<in> set xs" and "x \<in> set xs \<Longrightarrow> f (arg_min_list f xs) \<le> f x"
  using assms by (simp_all add: arg_min_list_in f_arg_min_list_f)

text \<open>The loop moves candidates, protected ones first, until the places or the candidates run out.\<close>

definition protected_first :: "selection \<Rightarrow> (sha256 \<times> scenario_candidate) list \<Rightarrow> bool" where
  "protected_first s remaining \<longleftrightarrow>
     list_all sc_protected (sel_chosen s) \<or> list_all (\<lambda>hc. \<not> sc_protected (snd hc)) remaining"

lemma ranking_protected:
  "ranking rules invariants s a \<le> ranking rules invariants s b \<Longrightarrow> sc_protected (snd b) \<Longrightarrow> sc_protected (snd a)"
  by (simp add: ranking_def Let_def less_eq_prod_def split: if_splits)

lemma select_loop_counts:
  assumes "select_loop rules invariants room remaining s = (s', rest)"
  shows "mset (sel_chosen s') + mset (map snd rest) = mset (sel_chosen s) + mset (map snd remaining)"
    and "length rest = length remaining - room"
    and "set rest \<subseteq> set remaining"
    and "protected_first s remaining \<longrightarrow> protected_first s' rest"
proof -
  have "mset (sel_chosen s') + mset (map snd rest) = mset (sel_chosen s) + mset (map snd remaining)
    \<and> length rest = length remaining - room \<and> set rest \<subseteq> set remaining
    \<and> (protected_first s remaining \<longrightarrow> protected_first s' rest)"
    using assms
  proof (induction rules invariants room remaining s rule: select_loop.induct)
    case (2 rules invariants room remaining s)
    show ?case
    proof (cases "remaining = []")
      case False
      define x where "x = arg_min_list (ranking rules invariants s) remaining"
      note least = arg_min_listD [OF False, where f = "ranking rules invariants s", folded x_def]
      let ?s = "choose_candidate rules invariants (snd x) s"
      have run: "select_loop rules invariants room (remove1 x remaining) ?s = (s', rest)"
        using 2(2) False by (simp add: x_def Let_def)
      have ih: "mset (sel_chosen s') + mset (map snd rest) = mset (sel_chosen ?s) + mset (map snd (remove1 x remaining))"
        "length rest = length (remove1 x remaining) - room" "set rest \<subseteq> set (remove1 x remaining)"
        "protected_first ?s (remove1 x remaining) \<longrightarrow> protected_first s' rest"
        using 2(1) [OF False x_def run] by simp_all
      have split: "mset remaining = add_mset x (mset (remove1 x remaining))" using least(1) by simp
      have "mset (map snd remaining) = add_mset (snd x) (mset (map snd (remove1 x remaining)))"
        unfolding mset_map split by simp
      then have a: "mset (sel_chosen s') + mset (map snd rest) = mset (sel_chosen s) + mset (map snd remaining)"
        using ih(1) by (simp add: choose_candidate_def)
      have b: "length rest = length remaining - Suc room" using ih(2) least(1) by (simp add: length_remove1)
      have c: "set rest \<subseteq> set remaining" using ih(3) set_remove1_subset by fast
      have sub: "set (remove1 x remaining) \<subseteq> set remaining" by (rule set_remove1_subset)
      have "sc_protected (snd y) \<Longrightarrow> sc_protected (snd x)" if "y \<in> set (remove1 x remaining)" for y
        using least(2) [of y] ranking_protected [of rules invariants s x y] that sub by blast
      then have "protected_first s remaining \<Longrightarrow> protected_first ?s (remove1 x remaining)"
        using sub by (fastforce simp: protected_first_def choose_candidate_def list_all_iff)
      then show ?thesis using a b c ih(4) by blast
    qed (use 2 in simp)
  qed auto
  then show "mset (sel_chosen s') + mset (map snd rest) = mset (sel_chosen s) + mset (map snd remaining)"
    "length rest = length remaining - room" "set rest \<subseteq> set remaining"
    "protected_first s remaining \<longrightarrow> protected_first s' rest" by blast+
qed

lemma select_candidates_value:
  assumes "list_all valid_candidate cs"
  obtains chosen rest where
    "select_candidates sha cs capacity rules invariants =
       Inr (sort_key (scenario_digest sha) chosen, map (\<lambda>c. refusal c BudgetExceeded None) rest)"
    and "mset chosen + mset rest = mset cs" and "length rest = length cs - capacity"
    and "list_all sc_protected chosen \<or> list_all (\<lambda>c. \<not> sc_protected c) rest"
proof -
  let ?keyed = "map (\<lambda>c. (scenario_digest sha c, c)) cs"
  let ?s = "\<lparr>sel_chosen = [], sel_rules = {}, sel_invariants = {}, sel_categories = {}\<rparr>"
  obtain s rest where loop: "select_loop rules invariants capacity ?keyed ?s = (s, rest)" by fastforce
  note counts = select_loop_counts [OF loop]
  have keyed: "traverse (\<lambda>c. rbind (scenario_semantic_sha256 sha c) (\<lambda>h. Inr (h, c))) cs = Inr ?keyed"
    by (rule traverse_keyed) (use assms in \<open>simp add: list_all_iff\<close>)
  have whole: "mset (sel_chosen s) + mset (map snd rest) = mset cs" using counts(1) by (simp add: comp_def)
  have "set (sel_chosen s) \<union> set (map snd rest) = set cs"
    using arg_cong [OF whole, of set_mset] by simp
  then have valid: "\<forall>c \<in> set (sel_chosen s). valid_candidate c" "\<forall>c \<in> set (map snd rest). valid_candidate c"
    using assms by (auto simp: list_all_iff)
  have sorted: "rsort (scenario_semantic_sha256 sha) (sel_chosen s) = Inr (sort_key (scenario_digest sha) (sel_chosen s))"
    by (rule rsort_eq) (use valid(1) in simp)
  have refused: "traverse (\<lambda>hc. scenario_rejection_of (sc_candidate_id (snd hc)) BudgetExceeded None) (sort_key fst rest) =
      Inr (map (\<lambda>c. refusal c BudgetExceeded None) (map snd (sort_key fst rest)))"
    unfolding map_map by (rule traverse_eq_map) (use valid(2) in \<open>auto simp: refusal_def valid_candidate_iff\<close>)
  have "mset (map snd (sort_key fst rest)) = mset (map snd rest)" by (simp only: mset_map mset_sort)
  moreover have "list_all sc_protected (sel_chosen s) \<or> list_all (\<lambda>c. \<not> sc_protected c) (map snd (sort_key fst rest))"
    using counts(4) by (auto simp: protected_first_def list_all_iff)
  ultimately show ?thesis
    using whole counts(2) loop
    by (intro that [of "sel_chosen s" "map snd (sort_key fst rest)"])
      (simp_all add: select_candidates_def keyed sorted refused)
qed

subsection \<open>The whole routine\<close>

definition admitted :: "(string \<Rightarrow> sha256) \<Rightarrow> policy_ir \<Rightarrow> policy_contract \<Rightarrow> sha256 set \<Rightarrow> scenario_candidate list \<Rightarrow> scenario_candidate list" where
  "admitted sha policy contract used cs = filter (\<lambda>c. judgement sha policy contract used c = None) cs"

definition already_used :: "(string \<Rightarrow> sha256) \<Rightarrow> policy_ir \<Rightarrow> policy_contract \<Rightarrow> sha256 set \<Rightarrow> scenario_candidate list \<Rightarrow> scenario_candidate list" where
  "already_used sha policy contract used cs = filter (\<lambda>c. judgement sha policy contract used c = Some Duplicate) cs"

lemma canonicalize_value:
  assumes "hex_digest sha" and "list_all valid_candidate cs" and "valid_policy_ir policy" and "valid_contract contract"
    and "0 \<le> capacity" and "capacity \<le> 15" and "list_all (valid_by scenario_rejection_checks) prior"
  obtains r where "canonicalize_with_rejections sha cs prior policy contract capacity rules invariants used = Inr r"
    and "list_all valid_candidate (cn_batch r)" and "list_all (drawn_from (admitted sha policy contract used cs)) (cn_batch r)"
    and "distinct (map (candidate_key sha) (cn_batch r))" and "int (length (cn_batch r)) \<le> capacity"
    and "length prior + length cs = length (cn_batch r) + length (cn_rejections r)"
    and "cn_generated_count r = length cs"
    and "duplicates (cn_rejections r) =
      duplicates prior + cn_duplicate_count r + length (already_used sha policy contract used cs)"
    and "list_all (valid_by scenario_rejection_checks) (cn_rejections r)"
    and "1 \<le> capacity \<Longrightarrow> admitted sha policy contract used cs \<noteq> [] \<Longrightarrow> cn_batch r \<noteq> []"
proof -
  let ?ok = "admitted sha policy contract used cs"
  let ?refused = "map (\<lambda>c. refusal c (the (judgement sha policy contract used c)) None)
      (filter (\<lambda>c. judgement sha policy contract used c \<noteq> None) cs)"
  have ok: "list_all valid_candidate ?ok" using assms(2) by (simp add: admitted_def list_all_iff)
  obtain ms rs d where ded: "deduplicate sha ?ok = Inr (ms, rs, d)" "list_all valid_candidate ms"
    "map (candidate_key sha) ms = sorted_unique (map (candidate_key sha) ?ok)"
    "list_all (drawn_from ?ok) ms" "length ?ok = length ms + length rs" "duplicates rs = d" "list_all (valid_by scenario_rejection_checks) rs"
    by (rule deduplicate_value [OF assms(1) ok])
  obtain chosen rest where sel: "select_candidates sha ms (nat capacity) rules invariants =
       Inr (sort_key (scenario_digest sha) chosen, map (\<lambda>c. refusal c BudgetExceeded None) rest)"
    "mset chosen + mset rest = mset ms" "length rest = length ms - nat capacity"
    "list_all sc_protected chosen \<or> list_all (\<lambda>c. \<not> sc_protected c) rest"
    by (rule select_candidates_value [OF ded(2)])
  let ?batch = "sort_key (scenario_digest sha) chosen"
  have rejected: "set rest \<subseteq> set ms" using sel(2) by (metis mset_subset_eq_add_right set_mset_mono set_mset_mset)
  have within: "set chosen \<subseteq> set ms" using sel(2) by (metis mset_subset_eq_add_left set_mset_mono set_mset_mset)
  have batch: "list_all valid_candidate ?batch" "list_all (drawn_from ?ok) ?batch"
    using within ded(2,4) by (auto simp: list_all_iff)
  have prior: "traverse (validated scenario_rejection_checks) prior = Inr prior"
    using traverse_eq_map [of prior "validated scenario_rejection_checks" id] assms(7) by (simp add: list_all_iff)
  let ?r = "\<lparr>cn_batch = ?batch, cn_rejections = prior @ ?refused @ rs @ map (\<lambda>c. refusal c BudgetExceeded None) rest,
      cn_generated_count = length cs, cn_duplicate_count = d\<rparr>"
  have run: "canonicalize_with_rejections sha cs prior policy contract capacity rules invariants used = Inr ?r"
    using assms(3-6) batch(1) sel(1)
    by (simp add: canonicalize_with_rejections_def prior validate_candidates_value [OF assms(4,2)]
        admitted_def [symmetric] ded(1) valid_by_def [of "scenario_batch_valid"] scenario_batch_valid_def)
  have "mset (map (candidate_key sha) chosen) + mset (map (candidate_key sha) rest) = mset (map (candidate_key sha) ms)"
    using arg_cong [OF sel(2), of "image_mset (candidate_key sha)"] by simp
  then have "distinct (map (candidate_key sha) (chosen @ rest))"
    using mset_eq_imp_distinct_iff [of "map (candidate_key sha) (chosen @ rest)" "map (candidate_key sha) ms"] ded(3) by simp
  then have once: "distinct (map (candidate_key sha) ?batch)" by simp
  have sizes: "length chosen + length rest = length ms" using arg_cong [OF sel(2), of size] by simp
  have split: "length cs = length ?ok + length ?refused"
    using sum_length_filter_compl [of "\<lambda>c. judgement sha policy contract used c = None" cs] by (simp add: admitted_def)
  have used: "duplicates ?refused = length (already_used sha policy contract used cs)"
    unfolding duplicates_def already_used_def filter_map length_map filter_filter
    by (rule arg_cong [of _ _ length], rule filter_cong) (auto simp: refusal_def)
  have none: "duplicates (map (\<lambda>c. refusal c BudgetExceeded None) rest) = 0"
    by (simp add: duplicates_def filter_map comp_def refusal_def)
  have "list_all (valid_by scenario_rejection_checks) ?refused"
    using assms(2) by (intro refusals_valid) (simp add: list_all_iff)
  moreover have "list_all (valid_by scenario_rejection_checks) (map (\<lambda>c. refusal c BudgetExceeded None) rest)"
    using rejected ded(2) by (intro refusals_valid) (auto simp: list_all_iff)
  ultimately have reasons: "list_all (valid_by scenario_rejection_checks) (cn_rejections ?r)"
    using assms(7) ded(7) by simp
  show ?thesis
  proof (rule that [of ?r])
    show "list_all (valid_by scenario_rejection_checks) (cn_rejections ?r)" by (rule reasons)
    show "int (length (cn_batch ?r)) \<le> capacity" using sizes sel(3) assms(5) by simp
    show "cn_batch ?r \<noteq> []" if some: "1 \<le> capacity" "?ok \<noteq> []"
    proof -
      have "length ms \<noteq> 0" using arg_cong [OF ded(3), of length] some(2) by auto
      then have "length chosen \<noteq> 0" using sizes sel(3) some(1) by linarith
      then have "length ?batch \<noteq> 0" by (simp only: length_sort not_False_eq_True)
      then have "?batch \<noteq> []" by (rule contrapos_nn) simp
      then show ?thesis by (simp only: canonicalization.simps not_False_eq_True)
    qed
    show "length prior + length cs = length (cn_batch ?r) + length (cn_rejections ?r)"
      using sizes split ded(5) by simp
    show "duplicates (cn_rejections ?r) =
      duplicates prior + cn_duplicate_count ?r + length (already_used sha policy contract used cs)"
      using used none ded(6) by simp
  qed (use run batch once in simp_all)
qed

end
