(* ===== verification/Exploration.thy ===== *)
theory Exploration
  imports Canonicalization Public_Errors Run_Models
begin

section \<open>Exploratory scenarios of a language model (features/fuzzing/exploratory.py)\<close>

text \<open>
  The model proposes facts, never expected answers: what it returns is parsed against a closed schema,
  refused when it hits a boundary that mechanical synthesis covers exactly, and asked for once more after a
  refusal. The call of the model and the reading of its output as JSON are parameters: \<open>ask\<close> takes the number
  of the attempt (the prompt is a function of it and of the arguments), \<open>read\<close> is the decoder.
\<close>

record exploratory_payload =
  xp_category :: scenario_category
  xp_facts :: scenario_facts
  xp_target_rule_ids :: "string list"
  xp_target_invariant_ids :: "string list"
  xp_rationale :: string

definition exploratory_payload_checks :: "exploratory_payload \<Rightarrow> (bool \<times> string) list" where
  "exploratory_payload_checks x =
     [(xp_category x \<in> {Normal, Adversarial} \<and> valid_facts (xp_facts x)
        \<and> 1 \<le> length (xp_rationale x) \<and> length (xp_rationale x) \<le> 240, ''ExploratoryScenarioPayload'')]"

definition exploratory_batch_checks :: "exploratory_payload list \<Rightarrow> (bool \<times> string) list" where
  "exploratory_batch_checks xs =
     [(length xs \<le> 15 \<and> list_all (valid_by exploratory_payload_checks) xs, ''ExploratoryBatchPayload'')]"

text \<open>The arguments of \<open>generate_exploratory_candidates\<close>.\<close>

datatype llm_operation =
    PolicyExtractionOp | InvariantSuggestionOp | ScenarioGeneration | TargetedScenarioGeneration | RevisionProposalOp

record exploration =
  xn_operation :: llm_operation
  xn_policy :: policy_ir
  xn_contract :: policy_contract
  xn_manifest :: run_manifest
  xn_rule_ids :: "ident set"
  xn_invariant_ids :: "ident set"
  xn_existing_scenarios :: "scenario list"
  xn_used_fact_sha256s :: "sha256 set"
  xn_count :: int
  xn_seed :: int

definition numeric_thresholds :: "policy_ir \<Rightarrow> policy_contract \<Rightarrow> (predicate_field \<times> int) list" where
  "numeric_thresholds policy contract =
     List.map_filter (\<lambda>p. case p_value p of VInt n \<Rightarrow> Some (p_field p, n) | _ \<Rightarrow> None)
       (concat (map r_when (pi_rules policy)) @ concat (map i_when (pc_invariants contract)))"

definition uses_exact_numeric_boundary :: "scenario_facts \<Rightarrow> (predicate_field \<times> int) list \<Rightarrow> bool" where
  "uses_exact_numeric_boundary facts thresholds =
     list_ex (\<lambda>(field, n). py_eq (fact_value field facts) (VInt n)) thresholds"

definition scenario_output_invalid :: "'a reply" where
  "scenario_output_invalid = Inl (PythonExc (ValueError ''SCENARIO_OUTPUT_INVALID''))"

text \<open>\<open>_parse\<close>: \<open>None\<close> is the ModelOutputValidationError.\<close>

definition parse_exploratory ::
  "('out \<Rightarrow> exploratory_payload list option) \<Rightarrow> int \<Rightarrow> (predicate_field \<times> int) list \<Rightarrow> 'out
   \<Rightarrow> exploratory_payload list option" where
  "parse_exploratory read n thresholds out =
     (case read out of
        None \<Rightarrow> None
      | Some xs \<Rightarrow>
          if \<not> valid_by exploratory_batch_checks xs \<or> int (length xs) > n
             \<or> list_ex (\<lambda>x. uses_exact_numeric_boundary (xp_facts x) thresholds) xs
          then None else Some xs)"

definition exploratory_candidate ::
  "(string \<Rightarrow> sha256) \<Rightarrow> exploratory_payload \<Rightarrow> scenario_candidate result" where
  "exploratory_candidate sha x =
     (let rules = sorted_unique (xp_target_rule_ids x); invariants = sorted_unique (xp_target_invariant_ids x) in
      rbind (canonical_sha256 sha (PMap
        [(Some ''category'', PStr (scenario_category_name (xp_category x))), (Some ''facts'', facts_obj (xp_facts x)),
         (Some ''target_rule_ids'', strs_obj rules), (Some ''target_invariant_ids'', strs_obj invariants),
         (Some ''partition'', PStr ''visible'')])) (\<lambda>digest.
      validated scenario_candidate_checks
        \<lparr>sc_category = xp_category x, sc_origins = {FromLlmExploratory}, sc_facts = xp_facts x,
         sc_target_rule_ids = rules, sc_target_invariant_ids = invariants, sc_assertions = [],
         sc_protected = False, sc_partition = Visible, sc_candidate_id = ''candidate-'' @ digest\<rparr>))"

definition generate_exploratory_candidates ::
  "(string \<Rightarrow> sha256) \<Rightarrow> ('out \<Rightarrow> exploratory_payload list option) \<Rightarrow> (nat \<Rightarrow> 'out reply) \<Rightarrow> prompt_hash
   \<Rightarrow> exploration \<Rightarrow> scenario_candidate list reply" where
  "generate_exploratory_candidates sha read ask commitment x =
     (if xn_operation x \<notin> {ScenarioGeneration, TargetedScenarioGeneration}
      then Inl (PythonExc (ValueError ''operation must generate scenarios''))
      else if \<not> (0 \<le> xn_count x \<and> xn_count x \<le> 15)
      then Inl (PythonExc (ValueError ''count must be between zero and fifteen''))
      else if xn_count x = 0 then Inr []
      else if commitment \<notin> set (rm_prompt_hashes (xn_manifest x))
      then Inl (PythonExc (ValueError ''PROMPT_COMMITMENT_MISMATCH''))
      else
        let thresholds = numeric_thresholds (xn_policy x) (xn_contract x);
            parse = parse_exploratory read (xn_count x) thresholds in
        ebind (ask 0) (\<lambda>out.
        ebind (case parse out of
            Some batch \<Rightarrow> Inr batch
          | None \<Rightarrow>
              ebind (ask 1) (\<lambda>out'. case parse out' of Some batch \<Rightarrow> Inr batch | None \<Rightarrow> scenario_output_invalid))
          (\<lambda>batch. from_python (traverse (exploratory_candidate sha) batch))))"

end
