(* ===== verification/Coverage_Planning.thy ===== *)
theory Coverage_Planning
  imports Scenario_Models Engine
begin

section \<open>Coverage accounting (features/fuzzing/coverage.py)\<close>

text \<open>
  Supplied evidence is validated, evidence about unknown targets and evidence without scenarios is dropped,
  and the rest is merged by target, so that a snapshot counts only what the evaluator has measured.
\<close>

text \<open>\<open>_evidence_key\<close>.\<close>

definition planning_key :: "coverage_evidence \<Rightarrow> string \<times> ident \<times> int \<times> int" where
  "planning_key e =
     (coverage_target_name (ce_target_kind e), ce_target_id e,
      (case ce_predicate_index e of None \<Rightarrow> -1 | Some i \<Rightarrow> i),
      (case ce_predicate_outcome e of None \<Rightarrow> -1 | Some b \<Rightarrow> if b then 1 else 0))"

definition known_target :: "(ident \<times> int) list \<Rightarrow> ident list \<Rightarrow> coverage_evidence \<Rightarrow> bool" where
  "known_target rule_lengths invariant_ids e \<longleftrightarrow>
     (ce_target_kind e = TargetRule \<and> ce_target_id e \<in> set (keys rule_lengths))
     \<or> (ce_target_kind e = TargetInvariant \<and> ce_target_id e \<in> set invariant_ids)
     \<or> (ce_target_kind e = TargetPredicateBranch
         \<and> (case (map_of rule_lengths (ce_target_id e), ce_predicate_index e) of
              (Some n, Some i) \<Rightarrow> i < n | _ \<Rightarrow> False))"

text \<open>The two dictionaries of the loop: the last evidence and all scenarios of a key.\<close>

record evidence_groups =
  eg_canonical :: "((string \<times> ident \<times> int \<times> int) \<times> coverage_evidence) list"
  eg_scenarios :: "((string \<times> ident \<times> int \<times> int) \<times> ident set) list"

definition group_evidence ::
  "(ident \<times> int) list \<Rightarrow> ident list \<Rightarrow> coverage_evidence \<Rightarrow> evidence_groups \<Rightarrow> evidence_groups result" where
  "group_evidence rule_lengths invariant_ids proposed g =
     rbind (validated coverage_evidence_checks proposed) (\<lambda>e.
       if ce_scenario_ids e = [] \<or> \<not> known_target rule_lengths invariant_ids e then Inr g
       else
         let key = planning_key e;
             earlier = (case map_of (eg_scenarios g) key of None \<Rightarrow> {} | Some s \<Rightarrow> s) in
         Inr \<lparr>eg_canonical = AList.update key e (eg_canonical g),
              eg_scenarios = AList.update key (earlier \<union> set (ce_scenario_ids e)) (eg_scenarios g)\<rparr>)"

definition merged_evidence :: "evidence_groups \<Rightarrow> coverage_evidence list result" where
  "merged_evidence g =
     traverse (\<lambda>key.
       rbind (lookup (eg_canonical g) key) (\<lambda>e.
       rbind (lookup (eg_scenarios g) key) (\<lambda>ids.
       Inr (e\<lparr>ce_scenario_ids := sorted_list_of_set ids\<rparr>)))) (sort (keys (eg_scenarios g)))"

definition analyze_coverage ::
  "policy_ir \<Rightarrow> policy_contract \<Rightarrow> coverage_evidence list \<Rightarrow> coverage_snapshot result" where
  "analyze_coverage policy contract supplied =
     rbind (validated policy_ir_checks policy) (\<lambda>policy.
     rbind (validated policy_contract_checks contract) (\<lambda>contract.
       let rule_lengths = map (\<lambda>(i, r). (i, int (length (r_when r)))) (dict_by r_rule_id (pi_rules policy));
           invariant_ids = remdups (map i_invariant_id (pc_invariants contract)) in
       rbind (rfold (group_evidence rule_lengths invariant_ids) supplied \<lparr>eg_canonical = [], eg_scenarios = []\<rparr>) (\<lambda>g.
       rbind (merged_evidence g) (\<lambda>normalized.
         let covered_rules = remdups (map ce_target_id (filter (\<lambda>e. ce_target_kind e = TargetRule) normalized));
             covered_invariants = remdups (map ce_target_id (filter (\<lambda>e. ce_target_kind e = TargetInvariant) normalized));
             covered_branches = remdups (map planning_key
               (filter (\<lambda>e. ce_target_kind e = TargetPredicateBranch) normalized));
             missing_rules = sort (filter (\<lambda>i. i \<notin> set covered_rules) (keys rule_lengths));
             missing_invariants = sort (filter (\<lambda>i. i \<notin> set covered_invariants) invariant_ids) in
         validated coverage_snapshot_checks
           \<lparr>cs_total_rules = int (length rule_lengths), cs_covered_rules = int (length covered_rules),
            cs_total_invariants = int (length invariant_ids),
            cs_covered_invariants = int (length covered_invariants),
            cs_total_predicate_branches = 2 * sum_list (map snd rule_lengths),
            cs_covered_predicate_branches = int (length covered_branches), cs_evidence = normalized,
            cs_missing_rule_ids = missing_rules, cs_missing_invariant_ids = missing_invariants,
            cs_targeted_cycles = 0,
            cs_status = (if missing_rules = [] \<and> missing_invariants = [] then CoverageSatisfied
                         else CoveragePending)\<rparr>))))"

definition required_coverage_complete :: "coverage_snapshot \<Rightarrow> bool result" where
  "required_coverage_complete coverage =
     rbind (validated coverage_snapshot_checks coverage) (\<lambda>c.
     Inr (cs_covered_rules c = cs_total_rules c \<and> cs_covered_invariants c = cs_total_invariants c
        \<and> cs_missing_rule_ids c = [] \<and> cs_missing_invariant_ids c = []))"

definition adaptation_lift :: "coverage_snapshot \<Rightarrow> coverage_snapshot \<Rightarrow> int result" where
  "adaptation_lift initial final =
     rbind (validated coverage_snapshot_checks initial) (\<lambda>i.
     rbind (validated coverage_snapshot_checks final) (\<lambda>f.
     Inr ((cs_covered_rules f + cs_covered_invariants f) - (cs_covered_rules i + cs_covered_invariants i))))"

end
