(* ===== verification/Planner.thy ===== *)
theory Planner
  imports Exploration Coverage_Planning Envelopes
begin

section \<open>The scenario planner (features/fuzzing/planner.py)\<close>

text \<open>
  One planner serves one run: it generates an initial batch, once, and a targeted batch, once, and assembles
  suites from the batches. Every call takes the planner's state and returns the new one together with its
  answer, since a call that raises has already been counted.
\<close>

subsection \<open>State\<close>

record planner =
  pl_explore :: "(exploration \<Rightarrow> scenario_candidate list reply) option"
  pl_manifest :: "run_manifest option"
  pl_initial_called :: bool
  pl_targeted_called :: bool
  pl_rejections :: "scenario_rejection list"
  pl_generated_count :: nat
  pl_duplicate_count :: nat

definition new_planner ::
  "(exploration \<Rightarrow> scenario_candidate list reply) option \<Rightarrow> run_manifest option \<Rightarrow> planner result" where
  "new_planner llm manifest =
     (if (llm = None) \<noteq> (manifest = None) then Inl (ValueError ''llm and manifest must be supplied together'')
      else rbind (case manifest of None \<Rightarrow> Inr None
                  | Some m \<Rightarrow> rbind (validated run_manifest_checks m) (\<lambda>m. Inr (Some m))) (\<lambda>m.
        Inr \<lparr>pl_explore = llm, pl_manifest = m, pl_initial_called = False, pl_targeted_called = False,
             pl_rejections = [], pl_generated_count = 0, pl_duplicate_count = 0\<rparr>))"

definition record_result :: "canonicalization \<Rightarrow> planner \<Rightarrow> planner" where
  "record_result result p =
     p\<lparr>pl_rejections := pl_rejections p @ cn_rejections result,
       pl_generated_count := pl_generated_count p + cn_generated_count result,
       pl_duplicate_count := pl_duplicate_count p + cn_duplicate_count result\<rparr>"

subsection \<open>Confirmed assertions\<close>

definition attach_step ::
  "invariant \<Rightarrow> (ident \<times> assertion) list \<Rightarrow> (ident \<times> assertion) list result" where
  "attach_step i assertions =
     (let a = i_assertion i in
      case map_of assertions (a_assertion_id a) of
        Some existing \<Rightarrow>
          if existing \<noteq> a then Inl (ValueError ''conflicting confirmed invariant assertion'')
          else Inr (AList.update (a_assertion_id a) a assertions)
      | None \<Rightarrow> Inr (AList.update (a_assertion_id a) a assertions))"

definition attach_invariants ::
  "(string \<Rightarrow> sha256) \<Rightarrow> policy_contract \<Rightarrow> scenario_candidate \<Rightarrow> scenario_candidate result" where
  "attach_invariants sha contract c =
     rbind (rfilter (\<lambda>i. conditions_satisfied (i_when i) (sc_facts c)) (pc_invariants contract)) (\<lambda>matched.
     rbind (rfold attach_step matched (dict_by a_assertion_id (sc_assertions c))) (\<lambda>assertions.
     validated scenario_candidate_checks
       (c\<lparr>sc_origins := sc_origins c \<union> (if matched \<noteq> [] then {FromSession} else {}),
          sc_target_invariant_ids := sorted_unique (sc_target_invariant_ids c @ map i_invariant_id matched),
          sc_assertions := map snd (sort_key fst assertions),
          sc_protected := (sc_protected c \<or> matched \<noteq> [])\<rparr>)))"

subsection \<open>Generation\<close>

definition coverage_limit_exceeded :: "'a reply" where
  "coverage_limit_exceeded = Inl OtherExc"

definition explore_with ::
  "planner \<Rightarrow> (run_manifest \<Rightarrow> exploration) \<Rightarrow> scenario_candidate list reply" where
  "explore_with p arguments =
     (case (pl_explore p, pl_manifest p) of
        (Some explore, Some manifest) \<Rightarrow> explore (arguments manifest)
      | _ \<Rightarrow> Inr [])"

definition recorded ::
  "planner \<Rightarrow> canonicalization reply \<Rightarrow> planner \<times> scenario_candidate list reply" where
  "recorded p result =
     (case result of Inl e \<Rightarrow> (p, Inl e) | Inr r \<Rightarrow> (record_result r p, Inr (cn_batch r)))"

definition generate_initial ::
  "(string \<Rightarrow> sha256) \<Rightarrow> generate_request \<Rightarrow> planner \<Rightarrow> planner \<times> scenario_candidate list reply" where
  "generate_initial sha request p =
     (case validated generate_initial_checks request of
        Inl e \<Rightarrow> (p, Inl (PythonExc e))
      | Inr g \<Rightarrow>
          if pl_initial_called p then (p, coverage_limit_exceeded)
          else
            let p = p\<lparr>pl_initial_called := True\<rparr>;
                policy = gr_policy g; contract = gr_contract g;
                capacity = min (gr_scenario_budget g) 10;
                rule_ids = set (map r_rule_id (pi_rules policy));
                invariant_ids = set (map i_invariant_id (pc_invariants contract)) in
            recorded p
              (ebind (from_python (build_initial_mechanical_candidates sha policy contract)) (\<lambda>mechanical.
               ebind (explore_with p (\<lambda>manifest.
                 \<lparr>xn_operation = ScenarioGeneration, xn_policy = policy, xn_contract = contract,
                  xn_manifest = manifest, xn_rule_ids = rule_ids, xn_invariant_ids = invariant_ids,
                  xn_existing_scenarios = [], xn_used_fact_sha256s = {}, xn_count = min 3 capacity,
                  xn_seed = gr_seed g\<rparr>)) (\<lambda>exploratory.
               from_python
                 (rbind (traverse (attach_invariants sha contract) (mechanical @ exploratory)) (\<lambda>candidates.
                  canonicalize_with_rejections sha candidates [] policy contract capacity rule_ids
                    invariant_ids {}))))))"

definition generate_targeted ::
  "(string \<Rightarrow> sha256) \<Rightarrow> generate_targeted_request \<Rightarrow> planner \<Rightarrow> planner \<times> scenario_candidate list reply" where
  "generate_targeted sha request p =
     (case validated generate_targeted_checks request of
        Inl e \<Rightarrow> (p, Inl (PythonExc e))
      | Inr g \<Rightarrow>
          if pl_targeted_called p then (p, coverage_limit_exceeded)
          else
            let p = p\<lparr>pl_targeted_called := True\<rparr>;
                policy = gr_policy g; contract = gr_contract g; existing = gt_existing_candidates g;
                capacity = min (min (gr_scenario_budget g) 5) (max 0 (15 - int (length existing)));
                rule_ids = set (cs_missing_rule_ids (gt_coverage g)) \<inter> set (map r_rule_id (pi_rules policy));
                invariant_ids = set (cs_missing_invariant_ids (gt_coverage g))
                  \<inter> set (map i_invariant_id (pc_invariants contract)) in
            if capacity = 0 \<or> rule_ids = {} \<and> invariant_ids = {} then (p, Inr [])
            else recorded p
              (ebind (from_python (traverse (\<lambda>c. fact_sha256 sha (sc_facts c)) existing)) (\<lambda>used.
               ebind (from_python (build_targeted_mechanical_candidates sha policy contract rule_ids invariant_ids))
                 (\<lambda>mechanical.
               ebind (if pl_explore p \<noteq> None \<and> pl_manifest p \<noteq> None
                      then from_python (traverse (materialize_scenario sha) existing) else Inr []) (\<lambda>scenarios.
               ebind (explore_with p (\<lambda>manifest.
                 \<lparr>xn_operation = TargetedScenarioGeneration, xn_policy = policy, xn_contract = contract,
                  xn_manifest = manifest, xn_rule_ids = rule_ids, xn_invariant_ids = invariant_ids,
                  xn_existing_scenarios = scenarios, xn_used_fact_sha256s = set used, xn_count = capacity,
                  xn_seed = gr_seed g\<rparr>)) (\<lambda>exploratory.
               from_python
                 (rbind (traverse (attach_invariants sha contract) (mechanical @ exploratory)) (\<lambda>candidates.
                  canonicalize_with_rejections sha candidates [] policy contract capacity rule_ids
                    invariant_ids (set used)))))))))"

subsection \<open>Assembly\<close>

definition merge_same_scenario :: "scenario_candidate \<Rightarrow> scenario_candidate \<Rightarrow> scenario_candidate" where
  "merge_same_scenario left right =
     left\<lparr>sc_category := higher_category (sc_category left) (sc_category right),
          sc_origins := sc_origins left \<union> sc_origins right\<rparr>"

text \<open>One group of candidates with the same digest: what is kept, and the rejections of the others.\<close>

definition assemble_group ::
  "sha256 \<times> scenario_candidate list \<Rightarrow> (scenario_candidate \<times> scenario_rejection list) result" where
  "assemble_group hg =
     (case sort_key sc_candidate_id (snd hg) of
        [] \<Rightarrow> Inl StopIteration
      | c # cs \<Rightarrow>
          rbind (traverse (\<lambda>d. scenario_rejection_of (sc_candidate_id d) Duplicate (Some (''candidate-'' @ fst hg))) cs)
            (\<lambda>rejections. Inr (fold (\<lambda>d m. merge_same_scenario m d) cs c, rejections)))"

definition assembly_rank :: "sha256 \<times> scenario_candidate \<Rightarrow> int \<times> int \<times> sha256" where
  "assembly_rank hc =
     (if sc_protected (snd hc) then -1 else 0, - category_priority (sc_category (snd hc)), fst hc)"

definition rejection_rank :: "scenario_rejection \<Rightarrow> ident \<times> string \<times> ident" where
  "rejection_rank r =
     (rj_candidate_id r, rejection_reason_name (rj_reason_code r),
      case rj_duplicate_of r of None \<Rightarrow> [] | Some i \<Rightarrow> i)"

text \<open>The scenarios, the local rejections and the number of duplicates of an assembly.\<close>

definition assembled_scenarios ::
  "(string \<Rightarrow> sha256) \<Rightarrow> scenario_candidate list \<Rightarrow> (scenario list \<times> scenario_rejection list \<times> nat) result" where
  "assembled_scenarios sha candidates =
     rbind (traverse (\<lambda>c. rbind (validated scenario_candidate_checks c) (\<lambda>c.
       rbind (scenario_semantic_sha256 sha c) (\<lambda>h. Inr (h, c)))) candidates) (\<lambda>keyed.
     rbind (traverse (\<lambda>h. assemble_group (h, map snd (filter (\<lambda>hc. fst hc = h) keyed)))
       (sorted_unique (map fst keyed))) (\<lambda>groups.
     rbind (traverse (\<lambda>g. rbind (scenario_semantic_sha256 sha (fst g)) (\<lambda>h. Inr (h, fst g))) groups) (\<lambda>merged.
       let ranked = map snd (sort_key assembly_rank merged); duplicates = concat (map snd groups) in
     rbind (traverse (\<lambda>c. scenario_rejection_of (sc_candidate_id c) BudgetExceeded None) (drop 15 ranked)) (\<lambda>overflow.
     rbind (traverse (materialize_scenario sha) (take 15 ranked)) (\<lambda>scenarios.
     Inr (sort_key sc_scenario_id scenarios, duplicates @ overflow, length duplicates))))))"

definition assemble_suite ::
  "(string \<Rightarrow> sha256) \<Rightarrow> planner \<Rightarrow> assemble_suite_request \<Rightarrow> scenario_suite result" where
  "assemble_suite sha p request =
     rbind (validated assemble_suite_checks request) (\<lambda>a.
     rbind (assembled_scenarios sha (as_candidates a)) (\<lambda>(scenarios, local_rejections, duplicates).
     if scenarios = [] then Inl (ValueError ''a frozen suite requires at least one scenario'')
     else
       let rejections = sort_key rejection_rank (pl_rejections p @ local_rejections);
           generated = (if pl_generated_count p \<noteq> 0 then pl_generated_count p else length (as_candidates a)) in
       rbind (validated scenario_suite_checks
         \<lparr>ss_suite_id = as_suite_id a, ss_content_sha256 = zero_sha256, ss_seed = as_seed a,
          ss_document_sha256 = as_document_sha256 a, ss_policy_contract_sha256 = as_policy_contract_sha256 a,
          ss_rule_set_sha256 = as_rule_set_sha256 a, ss_engine_version = as_engine_version a,
          ss_scenarios = scenarios,
          ss_statistics = \<lparr>st_generated_count = int generated, st_rejected_count = int (length rejections),
            st_duplicate_count = int (pl_duplicate_count p + duplicates), st_rejections = rejections\<rparr>\<rparr>) (\<lambda>suite.
       rbind (digest_of sha (SuitePayload suite)) (\<lambda>own.
       validated scenario_suite_checks (suite\<lparr>ss_content_sha256 := own\<rparr>)))))"

end
