(* ===== verification/Mechanical_Meaning.thy ===== *)
theory Mechanical_Meaning
  imports Canonicalization_Meaning Planner
begin

section \<open>What the mechanical candidates cover\<close>

text \<open>
  On a valid policy and contract the synthesis never raises, its candidates are valid, and every rule and
  every invariant whose conditions can hold is the target of a candidate in which they do.
\<close>

subsection \<open>Single candidates\<close>

definition mechanical_form ::
  "(string \<Rightarrow> sha256) \<Rightarrow> scenario_category \<Rightarrow> scenario_facts \<Rightarrow> ident list \<Rightarrow> ident list \<Rightarrow> assertion list
   \<Rightarrow> bool \<Rightarrow> scenario_candidate" where
  "mechanical_form sha category facts rule_ids invariant_ids assertions protected =
     \<lparr>sc_category = category,
      sc_origins = (if assertions \<noteq> [] then {FromMechanical, FromSession} else {FromMechanical}),
      sc_facts = facts, sc_target_rule_ids = sort rule_ids, sc_target_invariant_ids = sort invariant_ids,
      sc_assertions = assertions, sc_protected = protected, sc_partition = Visible,
      sc_candidate_id = ''candidate-'' @ sha (canonical_bytes (norm (PMap
        [(Some ''category'', PStr (scenario_category_name category)), (Some ''facts'', facts_obj facts),
        (Some ''rule_ids'', strs_obj (sort rule_ids)), (Some ''invariant_ids'', strs_obj (sort invariant_ids)),
        (Some ''assertions'', seq_obj assertion_obj (sort_key a_assertion_id assertions)),
        (Some ''protected'', PBool protected)])))\<rparr>"

lemma mechanical_candidate_value:
  assumes "hex_digest sha" and "valid_facts facts" and "list_all identifier_ok rule_ids"
    and "list_all identifier_ok invariant_ids" and "list_all valid_assertion assertions"
    and "\<forall>a \<in> set assertions. a_origin a = OriginSessionConfirmed" and "distinct (map a_assertion_id assertions)"
  shows "mechanical_candidate sha category facts rule_ids invariant_ids assertions protected =
      Inr (mechanical_form sha category facts rule_ids invariant_ids assertions protected)"
    and "valid_candidate (mechanical_form sha category facts rule_ids invariant_ids assertions protected)"
proof -
  show "valid_candidate (mechanical_form sha category facts rule_ids invariant_ids assertions protected)"
    using assms(2-) candidate_identifier(1) [OF hex_digestD [OF assms(1)]]
    by (auto simp: valid_candidate_iff mechanical_form_def list_all_iff)
  then show "mechanical_candidate sha category facts rule_ids invariant_ids assertions protected =
      Inr (mechanical_form sha category facts rule_ids invariant_ids assertions protected)"
    by (simp add: mechanical_candidate_def canonical_sha256_value mechanical_form_def list_all_iff)
qed

lemma mechanical_form_simps [simp]:
  "sc_facts (mechanical_form sha k f rs is as b) = f" "sc_assertions (mechanical_form sha k f rs is as b) = as"
  "set (sc_target_rule_ids (mechanical_form sha k f rs is as b)) = set rs"
  "set (sc_target_invariant_ids (mechanical_form sha k f rs is as b)) = set is"
  "sc_protected (mechanical_form sha k f rs is as b) = b"
  "sc_partition (mechanical_form sha k f rs is as b) = Visible"
  by (simp_all add: mechanical_form_def)

lemma boundary_values_total:
  assumes "valid_predicate p"
  shows "\<exists>vs. boundary_values p = Inr vs \<and> (\<forall>f. valid_facts f \<longrightarrow> (\<forall>v \<in> set vs. valid_facts (boundary_facts f p v)))"
proof (cases "integer_max (p_field p)")
  case None
  then show ?thesis by (simp add: boundary_values_def integer_field_maximums_def maxima_eq)
next
  case (Some maximum)
  let ?vs = "filter (\<lambda>v. 0 \<le> v \<and> v \<le> maximum) [number p - 1, number p, number p + 1]"
  have top: "0 \<le> maximum" using Some by (cases "p_field p") simp_all
  have "boundary_values p = Inr ?vs"
    using valid_number(1) [OF assms Some] Some top
    by (simp add: boundary_values_def integer_field_maximums_def maxima_eq numeric_triplet_def)
  moreover have "valid_facts (boundary_facts f p v)" if "valid_facts f" "v \<in> set ?vs" for f v
  proof -
    have "0 \<le> v \<and> v \<le> maximum" using that(2) by (auto split: if_splits)
    then show ?thesis
      using Some that(1)
      by (cases "p_field p") (auto simp: boundary_facts_def valid_by_def [of scenario_facts_checks]
          scenario_facts_checks_def money_minor_ok_def Let_def)
  qed
  ultimately show ?thesis by blast
qed

subsection \<open>The candidates of a rule and of an invariant\<close>

text \<open>A candidate that only asserts what the contract demands of its facts, and targets known rules.\<close>

definition sound_candidate :: "policy_ir \<Rightarrow> policy_contract \<Rightarrow> scenario_candidate \<Rightarrow> bool" where
  "sound_candidate policy contract c \<longleftrightarrow> valid_candidate c \<and> sc_partition c = Visible
     \<and> set (sc_target_rule_ids c) \<subseteq> r_rule_id ` set (pi_rules policy)
     \<and> set (sc_target_invariant_ids c) \<subseteq> i_invariant_id ` set (pc_invariants contract)
     \<and> (\<forall>a \<in> set (sc_assertions c). \<exists>i \<in> set (pc_invariants contract). i_assertion i = a
          \<and> i_invariant_id i \<in> set (sc_target_invariant_ids c) \<and> all_hold (i_when i) (sc_facts c))
     \<and> (sc_protected c \<longrightarrow> sc_assertions c \<noteq> [])"

lemma boundary_traverse:
  assumes "list_all valid_predicate ps" and "valid_facts facts"
    and make: "\<And>p v. p \<in> set ps \<Longrightarrow> valid_facts (boundary_facts facts p v) \<Longrightarrow> \<exists>c. f p v = Inr c \<and> P c"
  shows "\<exists>css. traverse (\<lambda>p. rbind (boundary_values p) (\<lambda>values. traverse (f p) values)) ps = Inr css
    \<and> list_all (list_all P) css"
proof -
  have "\<exists>css. traverse (\<lambda>p. rbind (boundary_values p) (\<lambda>values. traverse (f p) values)) ps = Inr css
    \<and> list_all2 (\<lambda>p cs. list_all P cs) ps css"
  proof (rule traverse_total)
    fix p assume p: "p \<in> set ps"
    then have "valid_predicate p" using assms(1) by (simp add: list_all_iff)
    then obtain vs where vs: "boundary_values p = Inr vs" "\<forall>v \<in> set vs. valid_facts (boundary_facts facts p v)"
      using boundary_values_total assms(2) by blast
    have "\<exists>cs. traverse (f p) vs = Inr cs \<and> list_all2 (\<lambda>v c. P c) vs cs"
      by (rule traverse_total) (use make [OF p] vs(2) in blast)
    then obtain cs where cs: "traverse (f p) vs = Inr cs" "list_all2 (\<lambda>v c. P c) vs cs" by blast
    have "list_all P cs" using cs(2) by (induction rule: list_all2_induct) simp_all
    then show "\<exists>cs. rbind (boundary_values p) (\<lambda>values. traverse (f p) values) = Inr cs \<and> list_all P cs"
      using vs(1) cs(1) by simp
  qed
  then obtain css where css: "traverse (\<lambda>p. rbind (boundary_values p) (\<lambda>values. traverse (f p) values)) ps = Inr css"
    "list_all2 (\<lambda>p cs. list_all P cs) ps css" by blast
  have "list_all (list_all P) css" using css(2) by (induction rule: list_all2_induct) simp_all
  then show ?thesis using css(1) by blast
qed

lemma rule_candidates_total:
  assumes "hex_digest sha" and "valid_rule r" and "r \<in> set (pi_rules policy)"
  shows "\<exists>cs. rule_candidates sha ids r = Inr cs \<and> list_all (sound_candidate policy contract) cs
    \<and> ((r_rule_id r \<in> ids \<and> (\<exists>f. valid_facts f \<and> all_hold (r_when r) f)) \<longrightarrow>
        (\<exists>c \<in> set cs. r_rule_id r \<in> set (sc_target_rule_ids c) \<and> all_hold (r_when r) (sc_facts c)))"
proof (cases "r_rule_id r \<in> ids")
  case True
  have ps: "list_all valid_predicate (r_when r)" using assms(2) by (simp add: list_all_iff valid_rule_predicates)
  have id: "identifier_ok (r_rule_id r)" using assms(2) by (simp add: valid_by_def [of rule_checks] rule_checks_def)
  have made: "mechanical_candidate sha k f [r_rule_id r] [] [] False = Inr (mechanical_form sha k f [r_rule_id r] [] [] False)
    \<and> sound_candidate policy contract (mechanical_form sha k f [r_rule_id r] [] [] False)" if "valid_facts f" for k f
    using mechanical_candidate_value [OF assms(1) that, of "[r_rule_id r]" "[]" "[]"] id assms(3) by (simp add: sound_candidate_def)
  from satisfy_conditions_decides [OF ps] show ?thesis
  proof (elim disjE exE conjE)
    fix f assume f: "satisfy_conditions (r_when r) = Inr (Some f)" "valid_facts f" "all_hold (r_when r) f"
    obtain css where css: "traverse (\<lambda>p. rbind (boundary_values p) (\<lambda>values. traverse (\<lambda>v.
          mechanical_candidate sha Boundary (boundary_facts f p v) [r_rule_id r] [] [] False) values)) (r_when r) = Inr css"
      "list_all (list_all (sound_candidate policy contract)) css"
      using boundary_traverse [OF ps f(2), where P = "sound_candidate policy contract"
          and f = "\<lambda>p v. mechanical_candidate sha Boundary (boundary_facts f p v) [r_rule_id r] [] [] False"] made by blast
    have "rule_candidates sha ids r = Inr (mechanical_form sha Normal f [r_rule_id r] [] [] False # concat css)"
      using True f(1) css(1) made [OF f(2)] by (simp add: rule_candidates_def)
    moreover have "list_all (sound_candidate policy contract) (mechanical_form sha Normal f [r_rule_id r] [] [] False # concat css)"
      using made [OF f(2)] css(2) by (auto simp: list_all_iff)
    ultimately show ?thesis using f(3) by (intro exI conjI) (assumption, assumption, simp)
  next
    assume "satisfy_conditions (r_when r) = Inr None" "\<forall>f. valid_facts f \<longrightarrow> \<not> all_hold (r_when r) f"
    then show ?thesis using True by (auto simp: rule_candidates_def)
  qed
qed (simp add: rule_candidates_def)

lemma invariant_candidates_total:
  assumes "hex_digest sha" and "valid_contract contract" and "i \<in> set (pc_invariants contract)"
  shows "\<exists>cs. invariant_candidates sha ids i = Inr cs \<and> list_all (sound_candidate policy contract) cs
    \<and> ((i_invariant_id i \<in> ids \<and> (\<exists>f. valid_facts f \<and> all_hold (i_when i) f)) \<longrightarrow>
        (\<exists>c \<in> set cs. i_invariant_id i \<in> set (sc_target_invariant_ids c) \<and> i_assertion i \<in> set (sc_assertions c)
           \<and> all_hold (i_when i) (sc_facts c)))"
proof (cases "i_invariant_id i \<in> ids")
  case True
  have ps: "list_all valid_predicate (i_when i)" by (rule contract_predicates [OF assms(2,3)])
  have "valid_invariant i"
    using assms(2,3) by (auto simp: valid_by_def [of policy_contract_checks] policy_contract_checks_def list_all_iff)
  then have i: "identifier_ok (i_invariant_id i)" "valid_assertion (i_assertion i)"
    "a_origin (i_assertion i) = OriginSessionConfirmed"
    by (auto simp: valid_by_def [of invariant_checks] invariant_checks_def)
  have made: "mechanical_candidate sha k f [] [i_invariant_id i] as b = Inr (mechanical_form sha k f [] [i_invariant_id i] as b)
    \<and> sound_candidate policy contract (mechanical_form sha k f [] [i_invariant_id i] as b)"
    if "valid_facts f" "as = [i_assertion i] \<and> all_hold (i_when i) f \<or> as = [] \<and> \<not> b" for k f as b
    using mechanical_candidate_value [OF assms(1) that(1), of "[]" "[i_invariant_id i]" as] i that(2) assms(3)
    by (auto simp: sound_candidate_def)
  from satisfy_conditions_decides [OF ps] show ?thesis
  proof (elim disjE exE conjE)
    fix f assume f: "satisfy_conditions (i_when i) = Inr (Some f)" "valid_facts f" "all_hold (i_when i) f"
    let ?make = "\<lambda>p v. let boundary = boundary_facts f p v in
        rbind (conditions_satisfied (i_when i) boundary) (\<lambda>holds.
        mechanical_candidate sha Boundary boundary [] [i_invariant_id i] (if holds then [i_assertion i] else []) holds)"
    have "\<exists>c. ?make p v = Inr c \<and> sound_candidate policy contract c" if "valid_facts (boundary_facts f p v)" for p v
      using made [OF that] conditions_satisfied_holds [OF ps that] by (simp add: Let_def)
    then obtain css where css: "traverse (\<lambda>p. rbind (boundary_values p) (\<lambda>values. traverse (?make p) values)) (i_when i) = Inr css"
      "list_all (list_all (sound_candidate policy contract)) css"
      using boundary_traverse [OF ps f(2), where P = "sound_candidate policy contract" and f = ?make] by blast
    let ?first = "mechanical_form sha Normal f [] [i_invariant_id i] [i_assertion i] True"
    have first: "mechanical_candidate sha Normal f [] [i_invariant_id i] [i_assertion i] True = Inr ?first"
      "sound_candidate policy contract ?first" using made [OF f(2)] f(3) by simp_all
    have "invariant_candidates sha ids i = Inr (?first # concat css)"
      unfolding invariant_candidates_def using True f(1) css(1) first(1) by simp
    moreover have "list_all (sound_candidate policy contract) (?first # concat css)"
      using first(2) css(2) by (auto simp: list_all_iff)
    ultimately show ?thesis using f(3) by (intro exI conjI) (assumption, assumption, simp)
  next
    assume "satisfy_conditions (i_when i) = Inr None" "\<forall>f. valid_facts f \<longrightarrow> \<not> all_hold (i_when i) f"
    then show ?thesis using True by (auto simp: invariant_candidates_def)
  qed
qed (simp add: invariant_candidates_def)

lemma list_all_concat: "list_all P (concat xss) \<longleftrightarrow> list_all (list_all P) xss"
  by (induction xss) simp_all

lemma list_all2_right: "list_all2 R xs ys \<Longrightarrow> (\<And>x y. R x y \<Longrightarrow> P y) \<Longrightarrow> list_all P ys"
  unfolding list_all2_conv_all_nth list_all_length by metis

lemma list_all2_left: "list_all2 R xs ys \<Longrightarrow> x \<in> set xs \<Longrightarrow> \<exists>y \<in> set ys. R x y"
  by (induction rule: list_all2_induct) auto

text \<open>All candidates together.\<close>

definition covers_rule :: "rule \<Rightarrow> scenario_candidate \<Rightarrow> bool" where
  "covers_rule r c \<longleftrightarrow> r_rule_id r \<in> set (sc_target_rule_ids c) \<and> all_hold (r_when r) (sc_facts c)"

definition covers_invariant :: "invariant \<Rightarrow> scenario_candidate \<Rightarrow> bool" where
  "covers_invariant i c \<longleftrightarrow> i_invariant_id i \<in> set (sc_target_invariant_ids c) \<and> i_assertion i \<in> set (sc_assertions c)
     \<and> all_hold (i_when i) (sc_facts c)"

lemma mechanical_candidates_total:
  assumes "hex_digest sha" and "valid_policy_ir policy" and "valid_contract contract"
  obtains cs where "mechanical_candidates sha policy contract rule_ids invariant_ids = Inr cs"
    and "list_all (sound_candidate policy contract) cs"
    and "\<forall>r \<in> set (pi_rules policy). r_rule_id r \<in> rule_ids \<and> (\<exists>f. valid_facts f \<and> all_hold (r_when r) f)
      \<longrightarrow> (\<exists>c \<in> set cs. covers_rule r c)"
    and "\<forall>i \<in> set (pc_invariants contract). i_invariant_id i \<in> invariant_ids \<and> (\<exists>f. valid_facts f \<and> all_hold (i_when i) f)
      \<longrightarrow> (\<exists>c \<in> set cs. covers_invariant i c)"
proof -
  let ?P = "\<lambda>r cs. list_all (sound_candidate policy contract) cs
    \<and> (r_rule_id r \<in> rule_ids \<and> (\<exists>f. valid_facts f \<and> all_hold (r_when r) f) \<longrightarrow> (\<exists>c \<in> set cs. covers_rule r c))"
  let ?Q = "\<lambda>i cs. list_all (sound_candidate policy contract) cs
    \<and> (i_invariant_id i \<in> invariant_ids \<and> (\<exists>f. valid_facts f \<and> all_hold (i_when i) f) \<longrightarrow> (\<exists>c \<in> set cs. covers_invariant i c))"
  have "\<exists>rs. traverse (rule_candidates sha rule_ids) (pi_rules policy) = Inr rs \<and> list_all2 ?P (pi_rules policy) rs"
    by (rule traverse_total) (unfold covers_rule_def, rule rule_candidates_total [OF assms(1) valid_policy_rules [OF assms(2)]])
  then obtain rs where rs: "traverse (rule_candidates sha rule_ids) (pi_rules policy) = Inr rs"
    "list_all2 ?P (pi_rules policy) rs" by blast
  have "\<exists>is. traverse (invariant_candidates sha invariant_ids) (pc_invariants contract) = Inr is
      \<and> list_all2 ?Q (pc_invariants contract) is"
    by (rule traverse_total) (unfold covers_invariant_def, rule invariant_candidates_total [OF assms(1,3)])
  then obtain iss where iss: "traverse (invariant_candidates sha invariant_ids) (pc_invariants contract) = Inr iss"
    "list_all2 ?Q (pc_invariants contract) iss" by blast
  let ?cs = "concat rs @ concat iss"
  have "mechanical_candidates sha policy contract rule_ids invariant_ids = Inr ?cs"
    by (simp add: mechanical_candidates_def rs(1) iss(1))
  moreover have "list_all (sound_candidate policy contract) ?cs"
    using list_all2_right [OF rs(2), of "list_all (sound_candidate policy contract)"] list_all2_right [OF iss(2), of "list_all (sound_candidate policy contract)"]
    by (simp add: list_all_concat)
  moreover have "\<exists>c \<in> set ?cs. covers_rule r c"
    if r: "r \<in> set (pi_rules policy)" "r_rule_id r \<in> rule_ids" "\<exists>f. valid_facts f \<and> all_hold (r_when r) f" for r
  proof -
    obtain cs where "cs \<in> set rs" "?P r cs" using list_all2_left [OF rs(2) r(1)] by blast
    then show ?thesis using r(2,3) by auto
  qed
  moreover have "\<exists>c \<in> set ?cs. covers_invariant i c"
    if i: "i \<in> set (pc_invariants contract)" "i_invariant_id i \<in> invariant_ids" "\<exists>f. valid_facts f \<and> all_hold (i_when i) f" for i
  proof -
    obtain cs where "cs \<in> set iss" "?Q i cs" using list_all2_left [OF iss(2) i(1)] by blast
    then show ?thesis using i(2,3) by auto
  qed
  ultimately show ?thesis using that by blast
qed

end
