(* ===== verification/Planner_Meaning.thy ===== *)
theory Planner_Meaning
  imports Mechanical_Meaning Coordinator
begin

section \<open>What the planner accounts for\<close>

text \<open>
  Every candidate a planner generates ends in a batch or in a rejection, and the suite it assembles from the
  batches carries statistics that add up in the way the coordinator requires, with one exception: a targeted
  candidate refused because its facts were used before is rejected as a duplicate without being counted.
\<close>

subsection \<open>Confirmed assertions\<close>

definition well_made :: "policy_contract \<Rightarrow> scenario_candidate \<Rightarrow> bool" where
  "well_made contract c \<longleftrightarrow> valid_candidate c \<and> sc_partition c = Visible
     \<and> set (sc_assertions c) \<subseteq> i_assertion ` set (pc_invariants contract)"

lemma sound_well_made: "sound_candidate policy contract c \<Longrightarrow> well_made contract c"
  by (auto simp: sound_candidate_def well_made_def)

text \<open>Attaching the confirmed invariants to a candidate whose assertions come from the contract.\<close>

definition held_by_id :: "(ident \<times> assertion) list \<Rightarrow> assertion set \<Rightarrow> bool" where
  "held_by_id d S \<longleftrightarrow> distinct (map fst d) \<and> (\<forall>k a. map_of d k = Some a \<longleftrightarrow> k = a_assertion_id a \<and> a \<in> S)"

lemma held_by_id_set: "held_by_id d S \<Longrightarrow> set d = (\<lambda>a. (a_assertion_id a, a)) ` S"
  by (auto simp: held_by_id_def dest: map_of_is_SomeI map_of_SomeD)

lemma attach_steps:
  assumes "inj_on a_assertion_id U" and "held_by_id d S" and "S \<subseteq> U" and "i_assertion ` set xs \<subseteq> U"
  shows "\<exists>d'. rfold attach_step xs d = Inr d' \<and> held_by_id d' (S \<union> i_assertion ` set xs)"
  using assms(2-)
proof (induction xs arbitrary: d S)
  case (Cons i xs)
  let ?a = "i_assertion i"
  have a: "?a \<in> U" using Cons.prems(3) by simp
  have same: "b = ?a" if "b \<in> S" "a_assertion_id b = a_assertion_id ?a" for b
    using inj_onD [OF assms(1) that(2)] that(1) Cons.prems(2) a by blast
  then have step: "attach_step i d = Inr (AList.update (a_assertion_id ?a) ?a d)"
    using Cons.prems(1) by (auto simp: attach_step_def Let_def held_by_id_def split: option.splits)
  have "held_by_id (AList.update (a_assertion_id ?a) ?a d) (insert ?a S)"
    using Cons.prems(1) same by (auto simp: held_by_id_def update_conv distinct_update)
  then have "\<exists>d'. rfold attach_step xs (AList.update (a_assertion_id ?a) ?a d) = Inr d'
      \<and> held_by_id d' (insert ?a S \<union> i_assertion ` set xs)"
    using Cons.prems(2,3) a by (intro Cons.IH) simp_all
  then show ?case using step by (simp add: insert_commute)
qed simp

lemma contract_assertions_inj:
  assumes "valid_contract contract"
  shows "inj_on a_assertion_id (i_assertion ` set (pc_invariants contract))"
  using assms by (auto simp: valid_by_def [of policy_contract_checks] policy_contract_checks_def distinct_map inj_on_def)

definition matched_invariants :: "policy_contract \<Rightarrow> scenario_facts \<Rightarrow> invariant list" where
  "matched_invariants contract f = filter (\<lambda>i. all_hold (i_when i) f) (pc_invariants contract)"

lemma attach_invariants_total:
  assumes "valid_contract contract" and "well_made contract c"
  obtains c' where "attach_invariants sha contract c = Inr c'" and "well_made contract c'"
    and "sc_facts c' = sc_facts c" and "set (sc_target_rule_ids c') = set (sc_target_rule_ids c)"
    and "set (sc_target_invariant_ids c') =
      set (sc_target_invariant_ids c) \<union> i_invariant_id ` set (matched_invariants contract (sc_facts c))"
    and "set (sc_assertions c') = set (sc_assertions c) \<union> i_assertion ` set (matched_invariants contract (sc_facts c))"
    and "sc_protected c' \<longleftrightarrow> sc_protected c \<or> matched_invariants contract (sc_facts c) \<noteq> []"
    and "sc_partition c' = sc_partition c"
proof -
  let ?matched = "matched_invariants contract (sc_facts c)"
  let ?U = "i_assertion ` set (pc_invariants contract)"
  have c: "valid_candidate c" "set (sc_assertions c) \<subseteq> ?U" "sc_partition c = Visible"
    using assms(2) by (simp_all add: well_made_def)
  then have v: "valid_facts (sc_facts c)" "distinct (map a_assertion_id (sc_assertions c))"
    by (simp_all add: valid_candidate_iff)
  have matched: "rfilter (\<lambda>i. conditions_satisfied (i_when i) (sc_facts c)) (pc_invariants contract) = Inr ?matched"
    unfolding matched_invariants_def
    by (rule rfilter_eq_filter) (rule conditions_satisfied_holds [OF contract_predicates [OF assms(1)] v(1)])
  have "held_by_id (dict_by a_assertion_id (sc_assertions c)) (set (sc_assertions c))"
    using v(2) by (auto simp: held_by_id_def dict_by_distinct comp_def distinct_map inj_on_def
        map_of_eq_Some_iff)
  then have "\<exists>d. rfold attach_step ?matched (dict_by a_assertion_id (sc_assertions c)) = Inr d
      \<and> held_by_id d (set (sc_assertions c) \<union> i_assertion ` set ?matched)"
    by (rule attach_steps [OF contract_assertions_inj [OF assms(1)] _ c(2)]) (auto simp: matched_invariants_def)
  then obtain d where d: "rfold attach_step ?matched (dict_by a_assertion_id (sc_assertions c)) = Inr d"
    "held_by_id d (set (sc_assertions c) \<union> i_assertion ` set ?matched)" by blast
  let ?as = "map snd (sort_key fst d)"
  note pairs = held_by_id_set [OF d(2)]
  have entry: "kv \<in> set d \<Longrightarrow> fst kv = a_assertion_id (snd kv)" for kv unfolding pairs by auto
  have members: "set ?as = set (sc_assertions c) \<union> i_assertion ` set ?matched"
    by (simp add: pairs image_image)
  have "map a_assertion_id ?as = map fst (sort_key fst d)" using entry by simp
  then have ids: "distinct (map a_assertion_id ?as)"
    using d(2) distinct_map_sort_key [of fst fst d] by (simp only: held_by_id_def)
  have inv: "identifier_ok (i_invariant_id i) \<and> valid_assertion (i_assertion i) \<and> a_origin (i_assertion i) = OriginSessionConfirmed"
    if "i \<in> set ?matched" for i
    using assms(1) that
    by (auto simp: matched_invariants_def valid_by_def [of policy_contract_checks] policy_contract_checks_def list_all_iff
        valid_by_def [of invariant_checks] invariant_checks_def)
  let ?c = "c\<lparr>sc_origins := sc_origins c \<union> (if ?matched \<noteq> [] then {FromSession} else {}),
          sc_target_invariant_ids := sorted_unique (sc_target_invariant_ids c @ map i_invariant_id ?matched),
          sc_assertions := ?as, sc_protected := (sc_protected c \<or> ?matched \<noteq> [])\<rparr>"
  have origins: "origin_mapping (a_origin a) \<in> sc_origins ?c" if "a \<in> set ?as" for a
    using that c(1) inv unfolding members by (auto simp: valid_candidate_iff list_all_iff)
  have "valid_assertion a" if "a \<in> set ?as" for a
    using that c(1) inv unfolding members by (auto simp: valid_candidate_iff list_all_iff)
  then have valid: "valid_candidate ?c"
    using c(1) ids origins inv unfolding valid_candidate_iff by (auto simp: list_all_iff)
  show ?thesis
  proof (rule that [of ?c])
    show "attach_invariants sha contract c = Inr ?c"
      unfolding attach_invariants_def matched rbind_simps d(1) by (rule validated_valid [OF valid])
    show "well_made contract ?c" using valid members c(2,3) by (auto simp: well_made_def matched_invariants_def)
  qed (use members in auto)
qed

lemma attach_invariants_sound:
  assumes "valid_contract contract" and "sound_candidate policy contract c" and "attach_invariants sha contract c = Inr d"
  shows "sound_candidate policy contract d"
proof -
  let ?matched = "matched_invariants contract (sc_facts c)"
  obtain c' where c': "attach_invariants sha contract c = Inr c'" "well_made contract c'"
    "sc_facts c' = sc_facts c" "set (sc_target_rule_ids c') = set (sc_target_rule_ids c)"
    "set (sc_target_invariant_ids c') = set (sc_target_invariant_ids c) \<union> i_invariant_id ` set ?matched"
    "set (sc_assertions c') = set (sc_assertions c) \<union> i_assertion ` set ?matched"
    "sc_protected c' \<longleftrightarrow> sc_protected c \<or> ?matched \<noteq> []" "sc_partition c' = sc_partition c"
    by (rule attach_invariants_total [OF assms(1) sound_well_made [OF assms(2)], of sha])
  have "sc_protected c' \<Longrightarrow> set (sc_assertions c') \<noteq> {}"
    using assms(2) c'(6,7) by (auto simp: sound_candidate_def)
  then have "sound_candidate policy contract c'"
    using assms(2) c'(2-6,8) unfolding sound_candidate_def well_made_def matched_invariants_def by auto
  then show ?thesis using assms(3) c'(1) by simp
qed

lemma sound_judged:
  assumes "valid_contract contract" and "sound_candidate policy contract c" and "fact_digest sha (sc_facts c) \<notin> used"
  shows "judgement sha policy contract used c = None"
proof -
  have f: "valid_facts (sc_facts c)" using assms(2) by (simp add: sound_candidate_def valid_candidate_iff)
  have ids: "distinct (map i_invariant_id (pc_invariants contract))"
    using assms(1) by (simp add: valid_by_def [of policy_contract_checks] policy_contract_checks_def)
  have "confirmed_assertion_unsound (dict_by i_invariant_id (pc_invariants contract)) c a = Inr False"
    if a: "a \<in> set (sc_assertions c)" for a
  proof -
    obtain i where i: "i \<in> set (pc_invariants contract)" "i_assertion i = a"
      "i_invariant_id i \<in> set (sc_target_invariant_ids c)" "all_hold (i_when i) (sc_facts c)"
      using assms(2) a by (auto simp: sound_candidate_def)
    have "valid_invariant i"
      using assms(1) i(1) by (auto simp: valid_by_def [of policy_contract_checks] policy_contract_checks_def list_all_iff)
    then have a: "a_origin a = OriginSessionConfirmed" "a_source_invariant_id a = Some (i_invariant_id i)"
      using i(2) by (auto simp: valid_by_def [of invariant_checks] invariant_checks_def)
    have "map_of (dict_by i_invariant_id (pc_invariants contract)) (i_invariant_id i) = Some i"
      using ids i(1) by (simp add: dict_by_distinct) (metis (mono_tags, lifting) map_of_is_SomeI list.map_comp
        comp_apply fst_conv image_eqI image_set map_eq_conv)
    then show ?thesis
      using a i conditions_satisfied_holds [OF contract_predicates [OF assms(1) i(1)] f]
      by (simp add: confirmed_assertion_unsound_def)
  qed
  then have "rany (confirmed_assertion_unsound (dict_by i_invariant_id (pc_invariants contract)) c) (sc_assertions c) = Inr False"
    by (simp add: rany_False)
  then show ?thesis
    using assms(2,3) f unfolding judgement_def judge_candidate_def sound_candidate_def by auto
qed

subsection \<open>Batches\<close>

lemma attach_invariants_valid: "attach_invariants sha contract c = Inr c' \<Longrightarrow> valid_candidate c'"
  by (auto simp: attach_invariants_def rbind_Inr_iff validated_Inr_iff)

lemma attached_valid: "traverse (attach_invariants sha contract) cs = Inr cs' \<Longrightarrow> list_all valid_candidate cs'"
  by (auto simp: list_all_iff dest: attach_invariants_valid elim!: traverse_memE)

text \<open>A planner accounts for \<open>n\<close> accepted and \<open>u\<close> uncounted candidates.\<close>

definition accounts :: "nat \<Rightarrow> nat \<Rightarrow> planner \<Rightarrow> bool" where
  "accounts n u p \<longleftrightarrow> pl_generated_count p = n + length (pl_rejections p)
     \<and> duplicates (pl_rejections p) = pl_duplicate_count p + u
     \<and> list_all (valid_by scenario_rejection_checks) (pl_rejections p)"

lemma new_planner_accounts: "new_planner llm manifest = Inr p \<Longrightarrow> accounts 0 0 p"
  by (auto simp: new_planner_def accounts_def rbind_Inr_iff split: if_splits)

lemma canonicalize_success:
  assumes "canonicalize_with_rejections sha cs [] policy contract capacity rules invariants used = Inr r"
    and "hex_digest sha" and "list_all valid_candidate cs"
  shows "list_all valid_candidate (cn_batch r)" and "distinct (map (candidate_key sha) (cn_batch r))"
    and "int (length (cn_batch r)) \<le> capacity" and "length cs = length (cn_batch r) + length (cn_rejections r)"
    and "cn_generated_count r = length cs"
    and "list_all (drawn_from (admitted sha policy contract used cs)) (cn_batch r)"
    and "duplicates (cn_rejections r) = cn_duplicate_count r + length (already_used sha policy contract used cs)"
    and "list_all (valid_by scenario_rejection_checks) (cn_rejections r)"
proof -
  have ok: "valid_policy_ir policy" "valid_contract contract" "0 \<le> capacity" "capacity \<le> 15"
    using assms(1) by (auto simp: canonicalize_with_rejections_def rbind_Inr_iff validated_Inr_iff split: if_splits)
  obtain r' where r': "canonicalize_with_rejections sha cs [] policy contract capacity rules invariants used = Inr r'"
    "list_all valid_candidate (cn_batch r')" "list_all (drawn_from (admitted sha policy contract used cs)) (cn_batch r')"
    "distinct (map (candidate_key sha) (cn_batch r'))" "int (length (cn_batch r')) \<le> capacity"
    "length ([] :: scenario_rejection list) + length cs = length (cn_batch r') + length (cn_rejections r')"
    "cn_generated_count r' = length cs"
    "duplicates (cn_rejections r') = duplicates [] + cn_duplicate_count r' + length (already_used sha policy contract used cs)"
    "list_all (valid_by scenario_rejection_checks) (cn_rejections r')"
    by (rule canonicalize_value [OF assms(2,3) ok, of "[]" rules invariants used]) simp_all
  then have "r' = r" using assms(1) by simp
  then show "list_all valid_candidate (cn_batch r)" "distinct (map (candidate_key sha) (cn_batch r))"
    "int (length (cn_batch r)) \<le> capacity" "length cs = length (cn_batch r) + length (cn_rejections r)"
    "cn_generated_count r = length cs"
    "list_all (drawn_from (admitted sha policy contract used cs)) (cn_batch r)"
    "duplicates (cn_rejections r) = cn_duplicate_count r + length (already_used sha policy contract used cs)"
    "list_all (valid_by scenario_rejection_checks) (cn_rejections r)"
    using r'(2-) by simp_all
qed

lemma judgement_Duplicate:
  "judgement sha policy contract used c = Some Duplicate \<Longrightarrow> valid_candidate c \<Longrightarrow> fact_digest sha (sc_facts c) \<in> used"
  by (auto simp: judgement_def judge_candidate_def rbind_def valid_candidate_iff split: sum.splits if_splits)

lemma already_used_empty: "list_all valid_candidate cs \<Longrightarrow> already_used sha policy contract {} cs = []"
  by (auto simp: already_used_def filter_empty_conv list_all_iff dest: judgement_Duplicate)

lemma record_result_accounts:
  assumes "accounts n u p" and "cn_generated_count r = length (cn_batch r) + length (cn_rejections r)"
    and "duplicates (cn_rejections r) = cn_duplicate_count r + v"
    and "list_all (valid_by scenario_rejection_checks) (cn_rejections r)"
  shows "accounts (n + length (cn_batch r)) (u + v) (record_result r p)"
  using assms by (simp add: accounts_def record_result_def)

definition batch_well :: "(string \<Rightarrow> sha256) \<Rightarrow> int \<Rightarrow> scenario_candidate list \<Rightarrow> bool" where
  "batch_well sha capacity batch \<longleftrightarrow> list_all valid_candidate batch \<and> distinct (map (candidate_key sha) batch)
     \<and> int (length batch) \<le> capacity"

lemma recorded_Inr:
  assumes "recorded p result = (p', Inr batch)"
  obtains r where "result = Inr r" and "p' = record_result r p" and "batch = cn_batch r"
  using assms by (cases result) (auto simp: recorded_def)

lemma generate_initial_accounts:
  assumes "hex_digest sha" and "accounts n 0 p" and "generate_initial sha g p = (p', Inr batch)"
  shows "accounts (n + length batch) 0 p'" and "batch_well sha 10 batch"
    and "pl_initial_called p'" and "\<not> pl_initial_called p"
proof -
  let ?p = "p\<lparr>pl_initial_called := True\<rparr>"
  let ?policy = "gr_policy g" and ?contract = "gr_contract g"
  have fresh: "\<not> pl_initial_called p" and valid: "validated generate_initial_checks g = Inr g"
    using assms(3) by (auto simp: generate_initial_def coverage_limit_exceeded_def validated_Inr_iff split: sum.splits if_splits)
  obtain r where r: "p' = record_result r ?p" "batch = cn_batch r" and "\<exists>candidates cs.
      traverse (attach_invariants sha ?contract) candidates = Inr cs
      \<and> canonicalize_with_rejections sha cs [] ?policy ?contract (min (gr_scenario_budget g) 10)
          (set (map r_rule_id (pi_rules ?policy))) (set (map i_invariant_id (pc_invariants ?contract))) {} = Inr r"
    using assms(3)
    by (simp only: generate_initial_def valid fresh sum.case if_False Let_def)
      (elim recorded_Inr, simp only: ebind_Inr from_python_Inr rbind_Inr_iff, elim exE conjE,
        rule that, assumption, assumption, intro exI conjI, assumption, assumption)
  then obtain candidates cs where cs: "traverse (attach_invariants sha ?contract) candidates = Inr cs"
      "canonicalize_with_rejections sha cs [] ?policy ?contract (min (gr_scenario_budget g) 10)
          (set (map r_rule_id (pi_rules ?policy))) (set (map i_invariant_id (pc_invariants ?contract))) {} = Inr r"
    by blast
  note valid = attached_valid [OF cs(1)]
  note canon = canonicalize_success [OF cs(2) assms(1) valid]
  have "accounts n 0 ?p" using assms(2) by (simp add: accounts_def)
  then have "accounts (n + length (cn_batch r)) (0 + 0) (record_result r ?p)"
    by (rule record_result_accounts) (use canon(4,5,7,8) in \<open>simp_all add: already_used_empty [OF valid]\<close>)
  then show "accounts (n + length batch) 0 p'" by (simp add: r)
  show "batch_well sha 10 batch" using canon(1-3) by (simp add: batch_well_def r(2))
  show "pl_initial_called p'" by (simp add: r(1) record_result_def)
  show "\<not> pl_initial_called p" by (rule fresh)
qed

text \<open>
  With no explorer, or one that proposes valid candidates without assertions, the first call of a planner
  always yields a batch.
\<close>

definition explorer_ok :: "planner \<Rightarrow> bool" where
  "explorer_ok p \<longleftrightarrow> (\<forall>explore x. pl_explore p = Some explore \<longrightarrow>
     (\<exists>cs. explore x = Inr cs \<and> list_all (\<lambda>c. valid_candidate c \<and> sc_partition c = Visible \<and> sc_assertions c = []) cs))"

lemma explore_with_value:
  assumes "explorer_ok p"
  obtains cs where "explore_with p arguments = Inr cs" and "list_all (well_made contract) cs"
proof (cases "pl_explore p")
  case None
  then show ?thesis by (intro that [of "[]"]) (simp_all add: explore_with_def)
next
  case (Some explore)
  show ?thesis
  proof (cases "pl_manifest p")
    case (Some m)
    obtain cs where "explore (arguments m) = Inr cs" "list_all (\<lambda>c. valid_candidate c \<and> sc_partition c = Visible \<and> sc_assertions c = []) cs"
      using assms \<open>pl_explore p = Some explore\<close> by (auto simp: explorer_ok_def)
    then show ?thesis
      using \<open>pl_explore p = Some explore\<close> Some by (intro that [of cs]) (auto simp: explore_with_def well_made_def list_all_iff)
  qed (use \<open>pl_explore p = Some explore\<close> in \<open>auto intro!: that [of "[]"] simp: explore_with_def\<close>)
qed

lemma attached_total:
  assumes "valid_contract contract" and "list_all (well_made contract) cs"
  obtains cs' where "traverse (attach_invariants sha contract) cs = Inr cs'" and "list_all (well_made contract) cs'"
    and "length cs' = length cs"
proof -
  have "\<exists>cs'. traverse (attach_invariants sha contract) cs = Inr cs' \<and> list_all2 (\<lambda>c c'. well_made contract c') cs cs'"
  proof (rule traverse_total)
    fix c assume "c \<in> set cs"
    then have "well_made contract c" using assms(2) by (simp add: list_all_iff)
    then show "\<exists>c'. attach_invariants sha contract c = Inr c' \<and> well_made contract c'"
      using attach_invariants_total [OF assms(1)] by metis
  qed
  then obtain cs' where cs': "traverse (attach_invariants sha contract) cs = Inr cs'"
    "list_all2 (\<lambda>c c'. well_made contract c') cs cs'" by blast
  then show ?thesis
    using list_all2_right [OF cs'(2), of "well_made contract"] traverse_length [OF cs'(1)] by (intro that [of cs']) auto
qed

lemma generate_initial_total:
  assumes "hex_digest sha" and "valid_by generate_initial_checks g" and "\<not> pl_initial_called p" and "explorer_ok p"
  obtains p' batch where "generate_initial sha g p = (p', Inr batch)" and "\<forall>c \<in> set batch. sc_partition c = Visible"
    and "(\<exists>r \<in> set (pi_rules (gr_policy g)). \<exists>f. valid_facts f \<and> all_hold (r_when r) f) \<longrightarrow> batch \<noteq> []"
proof -
  let ?policy = "gr_policy g" and ?contract = "gr_contract g"
  let ?p = "p\<lparr>pl_initial_called := True\<rparr>" and ?capacity = "min (gr_scenario_budget g) 10"
  let ?rules = "set (map r_rule_id (pi_rules ?policy))" and ?invariants = "set (map i_invariant_id (pc_invariants ?contract))"
  let ?x = "\<lambda>manifest. \<lparr>xn_operation = ScenarioGeneration, xn_policy = ?policy, xn_contract = ?contract,
                  xn_manifest = manifest, xn_rule_ids = ?rules, xn_invariant_ids = ?invariants,
                  xn_existing_scenarios = [], xn_used_fact_sha256s = {}, xn_count = min 3 ?capacity,
                  xn_seed = gr_seed g\<rparr>"
  have g: "valid_policy_ir ?policy" "valid_contract ?contract" "0 \<le> ?capacity" "?capacity \<le> 15"
    and room: "1 \<le> ?capacity"
    using assms(2) by (simp_all add: valid_by_def [of generate_initial_checks] generate_initial_checks_def)
  obtain ms where ms: "mechanical_candidates sha ?policy ?contract ?rules ?invariants = Inr ms"
    "list_all (sound_candidate ?policy ?contract) ms"
    "\<forall>r \<in> set (pi_rules ?policy). r_rule_id r \<in> ?rules \<and> (\<exists>f. valid_facts f \<and> all_hold (r_when r) f)
      \<longrightarrow> (\<exists>c \<in> set ms. covers_rule r c)"
    by (rule mechanical_candidates_total [OF assms(1) g(1,2)])
  have "explorer_ok ?p" using assms(4) by (simp add: explorer_ok_def)
  then obtain xs where xs: "explore_with ?p ?x = Inr xs" "list_all (well_made ?contract) xs"
    by (rule explore_with_value)
  have "list_all (well_made ?contract) (ms @ xs)" using ms(2) xs(2) by (auto simp: list_all_iff intro: sound_well_made)
  then obtain cs where cs: "traverse (attach_invariants sha ?contract) (ms @ xs) = Inr cs" "list_all (well_made ?contract) cs"
    by (rule attached_total [OF g(2)])
  have "list_all valid_candidate cs" using cs(2) by (simp add: list_all_iff well_made_def)
  then obtain r where canon: "canonicalize_with_rejections sha cs [] ?policy ?contract ?capacity ?rules ?invariants {} = Inr r"
    "list_all (drawn_from (admitted sha ?policy ?contract {} cs)) (cn_batch r)"
    "1 \<le> ?capacity \<Longrightarrow> admitted sha ?policy ?contract {} cs \<noteq> [] \<Longrightarrow> cn_batch r \<noteq> []"
    by (rule canonicalize_value [OF assms(1) _ g, of cs "[]" ?rules ?invariants "{}"]) simp_all
  have run: "generate_initial sha g p = (record_result r ?p, Inr (cn_batch r))"
    unfolding generate_initial_def validated_valid [OF assms(2)] sum.case if_not_P [OF assms(3)] Let_def
      build_initial_mechanical_candidates_def ms(1) xs(1) from_python_def ebind_def cs(1) rbind_simps recorded_def canon(1)
    by simp
  have visible: "\<forall>c \<in> set (cn_batch r). sc_partition c = Visible"
    using canon(2) cs(2) by (fastforce simp: list_all_iff drawn_from_def admitted_def well_made_def)
  have "cn_batch r \<noteq> []" if possible: "\<exists>r \<in> set (pi_rules ?policy). \<exists>f. valid_facts f \<and> all_hold (r_when r) f"
  proof -
    obtain m where m: "m \<in> set ms" using ms(3) possible by fastforce
    then have "\<exists>d \<in> set cs. attach_invariants sha ?contract m = Inr d"
      by (intro list_all2_left [OF cs(1) [unfolded traverse_Inr_iff]]) simp
    then obtain d where d: "d \<in> set cs" "attach_invariants sha ?contract m = Inr d" by blast
    have "sound_candidate ?policy ?contract m" using ms(2) m by (simp add: list_all_iff)
    then have "sound_candidate ?policy ?contract d" by (rule attach_invariants_sound [OF g(2) _ d(2)])
    then have "d \<in> set (admitted sha ?policy ?contract {} cs)"
      using d(1) sound_judged [OF g(2), of ?policy d sha "{}"] by (simp add: admitted_def)
    then have "admitted sha ?policy ?contract {} cs \<noteq> []" by (metis empty_iff empty_set)
    then show ?thesis by (rule canon(3) [OF room])
  qed
  then show ?thesis by (intro that [OF run visible] impI)
qed

text \<open>
  The targeted batch: the candidates refused because their facts were used are rejections, but are not
  among the counted duplicates.
\<close>

lemma generate_targeted_accounts:
  assumes "hex_digest sha" and "accounts n u p" and "generate_targeted sha g p = (p', Inr batch)"
  obtains v where "accounts (n + length batch) (u + v) p'" and "batch_well sha 5 batch"
    and "length (gt_existing_candidates g) + length batch \<le> max 15 (length (gt_existing_candidates g))"
    and "\<forall>c \<in> set batch. \<forall>e \<in> set (gt_existing_candidates g). sc_facts c \<noteq> sc_facts e"
    and "pl_targeted_called p'" and "\<not> pl_targeted_called p"
proof -
  let ?p = "p\<lparr>pl_targeted_called := True\<rparr>"
  let ?policy = "gr_policy g" and ?contract = "gr_contract g" and ?old = "gt_existing_candidates g"
  let ?capacity = "min (min (gr_scenario_budget g) 5) (max 0 (15 - int (length ?old)))"
  let ?rules = "set (cs_missing_rule_ids (gt_coverage g)) \<inter> set (map r_rule_id (pi_rules ?policy))"
  let ?invariants = "set (cs_missing_invariant_ids (gt_coverage g)) \<inter> set (map i_invariant_id (pc_invariants ?contract))"
  have fresh: "\<not> pl_targeted_called p" and valid: "validated generate_targeted_checks g = Inr g"
    using assms(3) by (auto simp: generate_targeted_def coverage_limit_exceeded_def validated_Inr_iff split: sum.splits if_splits)
  have start: "accounts n u ?p" using assms(2) by (simp add: accounts_def)
  show ?thesis
  proof (cases "?capacity = 0 \<or> ?rules = {} \<and> ?invariants = {}")
    case True
    then have "p' = ?p" "batch = []"
      using assms(3) fresh by (simp_all only: generate_targeted_def valid sum.case if_False if_True Let_def prod.inject sum.inject)
    then show ?thesis using start fresh by (intro that [of 0]) (simp_all add: batch_well_def)
  next
    case False
    obtain r where r: "p' = record_result r ?p" "batch = cn_batch r" and "\<exists>used candidates cs.
        traverse (\<lambda>c. fact_sha256 sha (sc_facts c)) ?old = Inr used
        \<and> traverse (attach_invariants sha ?contract) candidates = Inr cs
        \<and> canonicalize_with_rejections sha cs [] ?policy ?contract ?capacity ?rules ?invariants (set used) = Inr r"
      using assms(3)
      by (simp only: generate_targeted_def valid fresh False sum.case if_False Let_def)
        (elim recorded_Inr, simp only: ebind_Inr from_python_Inr rbind_Inr_iff, elim exE conjE,
          rule that, assumption, assumption, intro exI conjI, assumption, assumption, assumption)
    then obtain used candidates cs where used: "traverse (\<lambda>c. fact_sha256 sha (sc_facts c)) ?old = Inr used"
      and cs: "traverse (attach_invariants sha ?contract) candidates = Inr cs"
        "canonicalize_with_rejections sha cs [] ?policy ?contract ?capacity ?rules ?invariants (set used) = Inr r"
      by blast
    note wf = attached_valid [OF cs(1)]
    note canon = canonicalize_success [OF cs(2) assms(1) wf]
    have acc: "accounts (n + length (cn_batch r)) (u + length (already_used sha ?policy ?contract (set used) cs)) (record_result r ?p)"
      by (rule record_result_accounts [OF start]) (use canon(4,5,7,8) in simp_all)
    have "valid_candidate e" if "e \<in> set ?old" for e
      using valid that by (auto simp: validated_Inr_iff valid_by_def [of generate_targeted_checks] generate_targeted_checks_def list_all_iff)
    then have "set used = fact_digest sha ` sc_facts ` set ?old"
      using used traverse_eq_map [of ?old "\<lambda>c. fact_sha256 sha (sc_facts c)" "\<lambda>c. fact_digest sha (sc_facts c)"]
      by (auto simp: valid_candidate_iff)
    moreover have "fact_digest sha (sc_facts c) \<notin> set used" if c: "c \<in> set (cn_batch r)" for c
    proof -
      have "drawn_from (admitted sha ?policy ?contract (set used) cs) c" using canon(6) c by (simp add: list_all_iff)
      then obtain d where d: "d \<in> set (admitted sha ?policy ?contract (set used) cs)" "sc_facts c = sc_facts d"
        by (auto simp: drawn_from_def)
      have "valid_contract ?contract"
        using cs(2) by (auto simp: canonicalize_with_rejections_def rbind_Inr_iff validated_Inr_iff split: if_splits)
      then show ?thesis using accepted_candidate(3) [of ?contract d sha ?policy "set used"] d wf
        by (auto simp: admitted_def list_all_iff)
    qed
    ultimately have new: "\<forall>c \<in> set batch. \<forall>e \<in> set ?old. sc_facts c \<noteq> sc_facts e" by (auto simp: r(2))
    show ?thesis
      by (rule that [OF _ _ _ new]) (use acc canon(1-3) fresh in \<open>auto simp: r batch_well_def record_result_def\<close>)
  qed
qed

subsection \<open>Assembly\<close>

lemma merge_same_value:
  assumes "valid_candidate m" and "valid_candidate c"
  shows "valid_candidate (merge_same_scenario m c)"
    and "scenario_digest sha (merge_same_scenario m c) = scenario_digest sha m"
  using assms by (auto simp: merge_same_scenario_def valid_candidate_iff scenario_digest_def list_all_iff)

lemma merge_same_fold:
  assumes "valid_candidate m" and "list_all valid_candidate cs" and "drawn_from all m" and "set cs \<subseteq> set all"
  shows "valid_candidate (fold (\<lambda>d m. merge_same_scenario m d) cs m)
    \<and> scenario_digest sha (fold (\<lambda>d m. merge_same_scenario m d) cs m) = scenario_digest sha m
    \<and> drawn_from all (fold (\<lambda>d m. merge_same_scenario m d) cs m)"
  using assms
proof (induction cs arbitrary: m)
  case (Cons c cs)
  have "valid_candidate c" using Cons.prems(2) by simp
  note step = merge_same_value [OF Cons.prems(1) this]
  have "drawn_from all (merge_same_scenario m c)"
    using Cons.prems(3,4) by (auto simp: drawn_from_def merge_same_scenario_def)
  then show ?case using Cons.IH [OF step(1)] Cons.prems(2,4) step(2) by simp
qed simp

definition assembled_group ::
  "(string \<Rightarrow> sha256) \<Rightarrow> scenario_candidate list \<Rightarrow> sha256 \<Rightarrow> scenario_candidate \<times> scenario_rejection list \<Rightarrow> bool" where
  "assembled_group sha cs h g \<longleftrightarrow> valid_candidate (fst g) \<and> scenario_digest sha (fst g) = h
     \<and> drawn_from (filter (\<lambda>c. scenario_digest sha c = h) cs) (fst g)
     \<and> length (filter (\<lambda>c. scenario_digest sha c = h) cs) = Suc (length (snd g))
     \<and> duplicates (snd g) = length (snd g) \<and> list_all (valid_by scenario_rejection_checks) (snd g)"

lemma assemble_group_value:
  assumes "sha256_ok h" and "list_all valid_candidate cs" and "filter (\<lambda>c. scenario_digest sha c = h) cs \<noteq> []"
  shows "\<exists>g. assemble_group (h, filter (\<lambda>c. scenario_digest sha c = h) cs) = Inr g \<and> assembled_group sha cs h g"
proof -
  let ?xs = "filter (\<lambda>c. scenario_digest sha c = h) cs"
  have "sort_key sc_candidate_id ?xs \<noteq> []" using assms(3) by (metis length_0_conv length_sort)
  then obtain c rest where sorted: "sort_key sc_candidate_id ?xs = c # rest" by (auto simp: neq_Nil_conv)
  have same: "set (c # rest) = set ?xs" "length ?xs = Suc (length rest)"
    using arg_cong [OF sorted, of set] arg_cong [OF sorted, of length] by simp_all
  have v: "valid_candidate c" "list_all valid_candidate rest" "scenario_digest sha c = h"
    using same(1) assms(2) by (auto simp: list_all_iff)
  let ?rs = "map (\<lambda>d. refusal d Duplicate (Some (''candidate-'' @ h))) rest"
  have id: "identifier_ok (''candidate-'' @ h)" using assms(1) by (rule candidate_identifier)
  have rs: "traverse (\<lambda>d. scenario_rejection_of (sc_candidate_id d) Duplicate (Some (''candidate-'' @ h))) rest = Inr ?rs"
    by (rule traverse_eq_map) (use v(2) id in \<open>auto simp: list_all_iff refusal_def valid_candidate_iff\<close>)
  have "drawn_from ?xs c" using same(1) by (auto simp: drawn_from_def)
  then have m: "valid_candidate (fold (\<lambda>d m. merge_same_scenario m d) rest c)"
    "scenario_digest sha (fold (\<lambda>d m. merge_same_scenario m d) rest c) = h"
    "drawn_from ?xs (fold (\<lambda>d m. merge_same_scenario m d) rest c)"
    using merge_same_fold [OF v(1,2), of ?xs sha] same(1) v(3) by auto
  have "duplicates ?rs = length ?rs" "list_all (valid_by scenario_rejection_checks) ?rs"
    using v(2) id by (auto simp: duplicates_def filter_map comp_def refusal_def list_all_iff valid_candidate_iff
        valid_by_def [of scenario_rejection_checks] scenario_rejection_checks_def)
  moreover have "assemble_group (h, ?xs) = Inr (fold (\<lambda>d m. merge_same_scenario m d) rest c, ?rs)"
    unfolding assemble_group_def snd_conv fst_conv sorted list.case rs rbind_simps ..
  ultimately show ?thesis
    using m same(2) unfolding assembled_group_def by (intro exI conjI) (assumption | simp)+
qed

lemma assembled_groups_sums:
  assumes "list_all2 (assembled_group sha cs) ks gs"
  shows "map (scenario_digest sha) (map fst gs) = ks" and "list_all valid_candidate (map fst gs)"
    and "(\<Sum>k \<leftarrow> ks. length (filter (\<lambda>c. scenario_digest sha c = k) cs)) = length gs + length (concat (map snd gs))"
    and "duplicates (concat (map snd gs)) = length (concat (map snd gs))"
    and "list_all (valid_by scenario_rejection_checks) (concat (map snd gs))"
    and "list_all (\<lambda>m. drawn_from (filter (\<lambda>c. scenario_digest sha c = scenario_digest sha m) cs) m) (map fst gs)"
  using assms by (induction rule: list_all2_induct) (simp_all add: assembled_group_def)

definition scenario_of :: "(string \<Rightarrow> sha256) \<Rightarrow> scenario_candidate \<Rightarrow> scenario" where
  "scenario_of sha c = scenario_base.extend (scenario_base.truncate (stable_form sha c))
     (scenario.fields (''scenario-'' @ scenario_digest sha c))"

lemma scenario_of_simps [simp]:
  "sc_scenario_id (scenario_of sha c) = ''scenario-'' @ scenario_digest sha c"
  "sc_origins (scenario_of sha c) = sc_origins c" "sc_facts (scenario_of sha c) = sc_facts c"
  "sc_category (scenario_of sha c) = sc_category c"
  "set (sc_target_rule_ids (scenario_of sha c)) = set (sc_target_rule_ids c)"
  "set (sc_target_invariant_ids (scenario_of sha c)) = set (sc_target_invariant_ids c)"
  "set (sc_assertions (scenario_of sha c)) = set (sc_assertions c)"
  "sc_protected (scenario_of sha c) = sc_protected c" "sc_partition (scenario_of sha c) = sc_partition c"
  by (simp_all add: scenario_of_def scenario_base.defs scenario.defs stable_form_def)

lemma scenario_of_valid:
  assumes "hex_digest sha" and "valid_candidate c"
  shows "valid_scenario (scenario_of sha c)"
proof -
  have "identifier_ok (''scenario-'' @ scenario_digest sha c)"
    by (rule candidate_identifier(2)) (simp add: scenario_digest_def hex_digestD [OF assms(1)])
  moreover have "independent_assertions_checks (scenario_of sha c) = independent_assertions_checks (stable_form sha c)"
    by (simp add: independent_assertions_checks_def scenario_of_def scenario_base.defs scenario.defs)
  ultimately show ?thesis
    using stable_form_valid [OF assms]
    by (simp add: valid_by_def [of scenario_checks] scenario_checks_def valid_by_def [of scenario_candidate_checks]
        scenario_candidate_checks_def)
qed

lemma materialize_value:
  assumes "hex_digest sha" and "valid_candidate c"
  shows "materialize_scenario sha c = Inr (scenario_of sha c)"
  using assms stable_form_valid [OF assms] scenario_of_valid [OF assms]
  by (simp add: materialize_scenario_def scenario_of_def scenario_digest_stable)

text \<open>The scenarios and rejections of an assembly, and how many candidates they account for.\<close>

definition assembly_well ::
  "(string \<Rightarrow> sha256) \<Rightarrow> scenario_candidate list \<Rightarrow> scenario list \<times> scenario_rejection list \<times> nat \<Rightarrow> bool" where
  "assembly_well sha cs a \<longleftrightarrow> (case a of (ss, rs, d) \<Rightarrow>
     length cs = length ss + length rs \<and> duplicates rs = d
     \<and> length ss = min 15 (card (scenario_digest sha ` set cs))
     \<and> list_all (valid_by scenario_rejection_checks) rs \<and> list_all valid_scenario ss
     \<and> distinct (map sc_scenario_id ss)
     \<and> (\<forall>s \<in> set ss. \<exists>m. s = scenario_of sha m
          \<and> drawn_from (filter (\<lambda>c. scenario_digest sha c = scenario_digest sha m) cs) m))"

lemma assembled_scenarios_value:
  assumes "hex_digest sha" and "list_all valid_candidate cs"
  obtains a where "assembled_scenarios sha cs = Inr a" and "assembly_well sha cs a"
proof -
  let ?digest = "scenario_digest sha"
  let ?ks = "sorted_unique (map ?digest cs)"
  have keyed: "traverse (\<lambda>c. rbind (validated scenario_candidate_checks c) (\<lambda>c.
       rbind (scenario_semantic_sha256 sha c) (\<lambda>h. Inr (h, c)))) cs = Inr (map (\<lambda>c. (?digest c, c)) cs)"
    by (rule traverse_eq_map) (use assms(2) in \<open>simp add: list_all_iff\<close>)
  have part: "map snd (filter (\<lambda>hc. fst hc = h) (map (\<lambda>c. (?digest c, c)) cs)) = filter (\<lambda>c. ?digest c = h) cs" for h
    by (simp add: filter_map comp_def)
  have "\<exists>gs. traverse (\<lambda>h. assemble_group (h, filter (\<lambda>c. ?digest c = h) cs)) ?ks = Inr gs
    \<and> list_all2 (assembled_group sha cs) ?ks gs"
  proof (rule traverse_total)
    fix h assume "h \<in> set ?ks"
    then have "sha256_ok h" "filter (\<lambda>c. ?digest c = h) cs \<noteq> []"
      by (auto simp: scenario_digest_def hex_digestD [OF assms(1)] filter_empty_conv)
    then show "\<exists>g. assemble_group (h, filter (\<lambda>c. ?digest c = h) cs) = Inr g \<and> assembled_group sha cs h g"
      by (rule assemble_group_value [OF _ assms(2)])
  qed
  then obtain gs where gs: "traverse (\<lambda>h. assemble_group (h, filter (\<lambda>c. ?digest c = h) cs)) ?ks = Inr gs"
    "list_all2 (assembled_group sha cs) ?ks gs" by blast
  note sums = assembled_groups_sums [OF gs(2)]
  let ?merged = "map (\<lambda>g. (?digest (fst g), fst g)) gs"
  define ranked where "ranked = map snd (sort_key assembly_rank ?merged)"
  have merged: "traverse (\<lambda>g. rbind (scenario_semantic_sha256 sha (fst g)) (\<lambda>h. Inr (h, fst g))) gs = Inr ?merged"
    by (rule traverse_eq_map) (use sums(2) in \<open>simp add: list_all_iff\<close>)
  have ranked: "mset ranked = mset (map fst gs)"
    by (simp only: ranked_def mset_map mset_sort) (simp add: image_mset.compositionality comp_def)
  have same: "set ranked = set (map fst gs)" "length ranked = length gs"
    using arg_cong [OF ranked, of set_mset] arg_cong [OF ranked, of size] by simp_all
  have valid: "\<forall>m \<in> set ranked. valid_candidate m" using sums(2) unfolding same(1) by (simp add: list_all_iff)
  let ?over = "map (\<lambda>c. refusal c BudgetExceeded None) (drop 15 ranked)"
  have over: "traverse (\<lambda>c. scenario_rejection_of (sc_candidate_id c) BudgetExceeded None) (drop 15 ranked) = Inr ?over"
    by (rule traverse_eq_map) (use valid in \<open>auto simp: refusal_def valid_candidate_iff dest: in_set_dropD\<close>)
  let ?ss = "map (scenario_of sha) (take 15 ranked)"
  have ss: "traverse (materialize_scenario sha) (take 15 ranked) = Inr ?ss"
    by (rule traverse_eq_map) (use valid in \<open>auto simp: materialize_value [OF assms(1)] dest: in_set_takeD\<close>)
  let ?dups = "concat (map snd gs)"
  let ?a = "(sort_key sc_scenario_id ?ss, ?dups @ ?over, length ?dups)"
  have digests: "map fst (map (\<lambda>c. (?digest c, c)) cs) = map ?digest cs" by simp
  have run: "assembled_scenarios sha cs = Inr ?a"
    unfolding assembled_scenarios_def keyed part digests rbind_simps gs(1) merged Let_def ranked_def [symmetric] over ss ..
  have count: "length cs = length gs + length ?dups"
    unfolding sums(3) [symmetric] by (rule group_lengths [symmetric]) simp_all
  have "length gs = length ?ks" using list_all2_lengthD [OF gs(2)] by simp
  also have "\<dots> = card (?digest ` set cs)"
    using distinct_card [OF distinct_sorted_unique, of "map ?digest cs"] by simp
  finally have size: "length gs = card (?digest ` set cs)" .
  have "mset (map ?digest ranked) = mset ?ks" unfolding sums(1) [symmetric] mset_map [of ?digest] ranked ..
  then have "distinct (map ?digest ranked)"
    using mset_eq_imp_distinct_iff [of "map ?digest ranked" ?ks] distinct_sorted_unique by metis
  then have "distinct (map ?digest (take 15 ranked))" unfolding take_map [symmetric] by (rule distinct_take)
  then have "distinct (map (sc_scenario_id \<circ> scenario_of sha) (take 15 ranked))"
    by (simp add: distinct_map inj_on_def)
  then have ids: "distinct (map sc_scenario_id (sort_key sc_scenario_id ?ss))"
    unfolding distinct_map_sort_key map_map .
  have over_ok: "list_all (valid_by scenario_rejection_checks) ?over" "duplicates ?over = 0"
    using valid by (auto simp: list_all_iff duplicates_def filter_map comp_def refusal_def valid_candidate_iff
        valid_by_def [of scenario_rejection_checks] scenario_rejection_checks_def dest: in_set_dropD)
  have orig: "\<exists>m. s = scenario_of sha m \<and> drawn_from (filter (\<lambda>c. ?digest c = ?digest m) cs) m" if s: "s \<in> set ?ss" for s
  proof -
    obtain m where m: "m \<in> set (take 15 ranked)" "s = scenario_of sha m" using s by auto
    then have "m \<in> set (map fst gs)" using same(1) in_set_takeD by fast
    then show ?thesis using sums(6) m(2) by (auto simp: list_all_iff)
  qed
  have "list_all valid_scenario ?ss"
    using valid by (auto simp: list_all_iff scenario_of_valid [OF assms(1)] dest: in_set_takeD)
  then have "assembly_well sha cs ?a"
    unfolding assembly_well_def prod.case
  proof (intro conjI ballI)
    show "length cs = length (sort_key sc_scenario_id ?ss) + length (?dups @ ?over)" using count same(2) by simp
    show "duplicates (?dups @ ?over) = length ?dups" using sums(4) over_ok(2) by (simp only: duplicates_simps)
    show "length (sort_key sc_scenario_id ?ss) = min 15 (card (?digest ` set cs))" using size same(2) by simp
    show "list_all (valid_by scenario_rejection_checks) (?dups @ ?over)" using sums(5) over_ok(1) by simp
    show "list_all valid_scenario (sort_key sc_scenario_id ?ss)"
      using \<open>list_all valid_scenario ?ss\<close> by (simp add: list_all_iff)
    show "distinct (map sc_scenario_id (sort_key sc_scenario_id ?ss))" by (rule ids)
    show "\<exists>m. s = scenario_of sha m \<and> drawn_from (filter (\<lambda>c. ?digest c = ?digest m) cs) m"
      if "s \<in> set (sort_key sc_scenario_id ?ss)" for s using that by (intro orig) simp
  qed
  then show ?thesis using run by (rule that [rotated])
qed

lemma suite_own_digest [simp]: "view False (suite_obj (s\<lparr>ss_content_sha256 := h\<rparr>)) = view False (suite_obj s)"
  unfolding suite_obj_def by (rule view_model_cong) (simp add: excluded_fields_def complete_exclusions_def)

definition suite_accounts :: "planner \<Rightarrow> scenario_candidate list \<Rightarrow> scenario_suite \<Rightarrow> bool" where
  "suite_accounts p cs suite \<longleftrightarrow> (let t = ss_statistics suite in
     length (ss_scenarios suite) + length (st_rejections t) = length cs + length (pl_rejections p)
     \<and> st_rejected_count t = int (length (st_rejections t))
     \<and> st_generated_count t = int (if pl_generated_count p \<noteq> 0 then pl_generated_count p else length cs)
     \<and> st_duplicate_count t + int (duplicates (pl_rejections p)) =
         int (duplicates (st_rejections t)) + int (pl_duplicate_count p))"

lemma duplicates_sort [simp]: "duplicates (sort_key f rs) = duplicates rs"
  unfolding duplicates_def by (metis filter_sort length_sort)

lemma assemble_suite_value:
  assumes "hex_digest sha" and "valid_by assemble_suite_checks a" and "as_candidates a \<noteq> []"
    and "list_all (valid_by scenario_rejection_checks) (pl_rejections p)"
  obtains suite where "assemble_suite sha p a = Inr suite" and "valid_suite suite" and "suite_accounts p (as_candidates a) suite"
    and "ss_content_sha256 suite = complete_digest sha (SuitePayload suite)"
    and "ss_suite_id suite = as_suite_id a" and "ss_seed suite = as_seed a"
    and "ss_document_sha256 suite = as_document_sha256 a"
    and "ss_policy_contract_sha256 suite = as_policy_contract_sha256 a"
    and "ss_rule_set_sha256 suite = as_rule_set_sha256 a" and "ss_engine_version suite = as_engine_version a"
    and "length (ss_scenarios suite) = min 15 (card (scenario_digest sha ` set (as_candidates a)))"
    and "\<forall>s \<in> set (ss_scenarios suite). \<exists>m. s = scenario_of sha m
      \<and> drawn_from (filter (\<lambda>c. scenario_digest sha c = scenario_digest sha m) (as_candidates a)) m"
proof -
  let ?cs = "as_candidates a"
  have a: "identifier_ok (as_suite_id a)" "sha256_ok (as_document_sha256 a)" "sha256_ok (as_policy_contract_sha256 a)"
    "sha256_ok (as_rule_set_sha256 a)" "nonempty_text (as_engine_version a)" "non_negative (as_seed a)"
    "list_all valid_candidate ?cs"
    using assms(2) by (simp_all add: valid_by_def [of assemble_suite_checks] assemble_suite_checks_def)
  obtain ss rs d where run: "assembled_scenarios sha ?cs = Inr (ss, rs, d)" and "assembly_well sha ?cs (ss, rs, d)"
    using assembled_scenarios_value [OF assms(1) a(7)] by (metis prod_cases3)
  then have w: "length ?cs = length ss + length rs" "duplicates rs = d"
    "length ss = min 15 (card (scenario_digest sha ` set ?cs))"
    "list_all (valid_by scenario_rejection_checks) rs" "list_all valid_scenario ss" "distinct (map sc_scenario_id ss)"
    "\<forall>s \<in> set ss. \<exists>m. s = scenario_of sha m
      \<and> drawn_from (filter (\<lambda>c. scenario_digest sha c = scenario_digest sha m) ?cs) m"
    by (simp_all add: assembly_well_def)
  have "card (scenario_digest sha ` set ?cs) \<noteq> 0" using assms(3) by (simp add: card_eq_0_iff)
  then have some: "length ss \<noteq> 0" unfolding w(3) by linarith
  let ?rejections = "sort_key rejection_rank (pl_rejections p @ rs)"
  let ?generated = "if pl_generated_count p \<noteq> 0 then pl_generated_count p else length ?cs"
  define suite where "suite = \<lparr>ss_suite_id = as_suite_id a, ss_content_sha256 = zero_sha256, ss_seed = as_seed a,
    ss_document_sha256 = as_document_sha256 a, ss_policy_contract_sha256 = as_policy_contract_sha256 a,
    ss_rule_set_sha256 = as_rule_set_sha256 a, ss_engine_version = as_engine_version a, ss_scenarios = ss,
    ss_statistics = \<lparr>st_generated_count = int ?generated, st_rejected_count = int (length ?rejections),
      st_duplicate_count = int (pl_duplicate_count p + d), st_rejections = ?rejections\<rparr>\<rparr>"
  have statistics: "valid_by suite_statistics_checks (ss_statistics suite)"
    using assms(4) w(4) by (simp add: suite_def valid_by_def [of suite_statistics_checks] suite_statistics_checks_def list_all_iff
        non_negative_def ball_Un)
  have valid: "valid_suite (suite\<lparr>ss_content_sha256 := h\<rparr>)" if "sha256_ok h" for h
    using statistics a w some that by (simp add: suite_def valid_by_def [of scenario_suite_checks] scenario_suite_checks_def)
  have first: "valid_suite suite" using valid [of zero_sha256] by (simp add: suite_def)
  let ?own = "complete_digest sha (SuitePayload suite)"
  have second: "valid_suite (suite\<lparr>ss_content_sha256 := ?own\<rparr>)" by (rule valid) (rule hex_digestD [OF assms(1)])
  have ss: "ss \<noteq> []" using some by simp
  have "assemble_suite sha p a = Inr (suite\<lparr>ss_content_sha256 := ?own\<rparr>)"
    unfolding assemble_suite_def validated_valid [OF assms(2)] rbind_simps run prod.case if_not_P [OF ss] Let_def
      suite_def [symmetric] validated_valid [OF first] digest_of_value validated_valid [OF second] ..
  moreover have "suite_accounts p ?cs suite"
    using w(1,2) by (simp add: suite_def suite_accounts_def)
  moreover have fields: "ss_suite_id suite = as_suite_id a" "ss_seed suite = as_seed a"
    "ss_document_sha256 suite = as_document_sha256 a" "ss_policy_contract_sha256 suite = as_policy_contract_sha256 a"
    "ss_rule_set_sha256 suite = as_rule_set_sha256 a" "ss_engine_version suite = as_engine_version a" "ss_scenarios suite = ss"
    by (simp_all add: suite_def)
  ultimately show ?thesis
    using second w(3,7) by (intro that) (assumption | simp add: suite_accounts_def Let_def)+
qed

lemma generate_targeted_total:
  assumes "hex_digest sha" and "valid_by generate_targeted_checks g" and "\<not> pl_targeted_called p" and "explorer_ok p"
  shows "\<exists>p' batch. generate_targeted sha g p = (p', Inr batch)"
proof -
  let ?policy = "gr_policy g" and ?contract = "gr_contract g" and ?old = "gt_existing_candidates g"
  let ?p = "p\<lparr>pl_targeted_called := True\<rparr>"
  let ?capacity = "min (min (gr_scenario_budget g) 5) (max 0 (15 - int (length ?old)))"
  let ?rules = "set (cs_missing_rule_ids (gt_coverage g)) \<inter> set (map r_rule_id (pi_rules ?policy))"
  let ?invariants = "set (cs_missing_invariant_ids (gt_coverage g)) \<inter> set (map i_invariant_id (pc_invariants ?contract))"
  have g: "valid_policy_ir ?policy" "valid_contract ?contract" "0 \<le> ?capacity" "?capacity \<le> 15"
    and old: "list_all valid_candidate ?old"
    using assms(2) by (simp_all add: valid_by_def [of generate_targeted_checks] generate_targeted_checks_def
        generate_initial_checks_def)
  let ?used = "map (\<lambda>c. fact_digest sha (sc_facts c)) ?old"
  have used: "traverse (\<lambda>c. fact_sha256 sha (sc_facts c)) ?old = Inr ?used"
    by (rule traverse_eq_map) (use old in \<open>simp add: list_all_iff valid_candidate_iff\<close>)
  have scenarios: "traverse (materialize_scenario sha) ?old = Inr (map (scenario_of sha) ?old)"
    by (rule traverse_eq_map) (use old in \<open>simp add: list_all_iff materialize_value [OF assms(1)]\<close>)
  let ?scenarios = "if pl_explore ?p \<noteq> None \<and> pl_manifest ?p \<noteq> None then map (scenario_of sha) ?old else []"
  have existing: "(if pl_explore ?p \<noteq> None \<and> pl_manifest ?p \<noteq> None
      then from_python (traverse (materialize_scenario sha) ?old) else Inr []) = Inr ?scenarios"
    by (simp add: scenarios from_python_def)
  let ?x = "\<lambda>manifest. \<lparr>xn_operation = TargetedScenarioGeneration, xn_policy = ?policy, xn_contract = ?contract,
                  xn_manifest = manifest, xn_rule_ids = ?rules, xn_invariant_ids = ?invariants,
                  xn_existing_scenarios = ?scenarios, xn_used_fact_sha256s = set ?used, xn_count = ?capacity,
                  xn_seed = gr_seed g\<rparr>"
  obtain ms where ms: "mechanical_candidates sha ?policy ?contract ?rules ?invariants = Inr ms"
    "list_all (sound_candidate ?policy ?contract) ms" by (rule mechanical_candidates_total [OF assms(1) g(1,2)])
  have "explorer_ok ?p" using assms(4) by (simp add: explorer_ok_def)
  then obtain xs where xs: "explore_with ?p ?x = Inr xs" "list_all (well_made ?contract) xs"
    by (rule explore_with_value)
  have "list_all (well_made ?contract) (ms @ xs)" using ms(2) xs(2) by (auto simp: list_all_iff intro: sound_well_made)
  then obtain cs where cs: "traverse (attach_invariants sha ?contract) (ms @ xs) = Inr cs" "list_all (well_made ?contract) cs"
    by (rule attached_total [OF g(2)])
  have "list_all valid_candidate cs" using cs(2) by (simp add: list_all_iff well_made_def)
  then obtain r where r: "canonicalize_with_rejections sha cs [] ?policy ?contract ?capacity ?rules ?invariants (set ?used) = Inr r"
    by (rule canonicalize_value [OF assms(1) _ g, of cs "[]" ?rules ?invariants "set ?used"]) simp_all
  show ?thesis
  proof (cases "?capacity = 0 \<or> ?rules = {} \<and> ?invariants = {}")
    case True
    then have "generate_targeted sha g p = (?p, Inr [])"
      unfolding generate_targeted_def validated_valid [OF assms(2)] sum.case if_not_P [OF assms(3)] Let_def
      by (rule if_P)
    then show ?thesis by blast
  next
    case False
    have "generate_targeted sha g p = (record_result r ?p, Inr (cn_batch r))"
      unfolding generate_targeted_def validated_valid [OF assms(2)] sum.case if_not_P [OF assms(3)] Let_def
        if_not_P [OF False] build_targeted_mechanical_candidates_def used from_python_def ebind_def ms(1)
        existing [unfolded from_python_def] xs(1) cs(1) rbind_simps r recorded_def
      by simp
    then show ?thesis by blast
  qed
qed

subsection \<open>The coordinator on the planner's suites\<close>

text \<open>Without collisions, every scenario comes from one candidate.\<close>

lemma assembled_from_single:
  assumes "distinct (map (\<lambda>c. (sc_facts c, sc_partition c)) cs)" and "inj_on (scenario_digest sha) (set cs)"
    and "drawn_from (filter (\<lambda>c. scenario_digest sha c = scenario_digest sha m) cs) m"
  shows "assembled_from cs (scenario_of sha m)"
proof -
  obtain c where c: "c \<in> set cs" "scenario_digest sha c = scenario_digest sha m" "sc_facts m = sc_facts c"
    using assms(3) by (auto simp: drawn_from_def)
  have "filter (\<lambda>d. scenario_digest sha d = scenario_digest sha m) cs = filter (\<lambda>d. d = c) cs"
    by (rule filter_cong) (use inj_onD [OF assms(2) _ _ c(1)] c(2) in auto)
  then have one: "set (filter (\<lambda>d. scenario_digest sha d = scenario_digest sha m) cs) = {c}" using c(1) by auto
  then have m: "sc_partition m = sc_partition c" "sc_origins m \<subseteq> sc_origins c"
    "set (sc_assertions m) \<subseteq> set (sc_assertions c)" "set (sc_target_rule_ids m) \<subseteq> set (sc_target_rule_ids c)"
    "set (sc_target_invariant_ids m) \<subseteq> set (sc_target_invariant_ids c)"
    using assms(3) unfolding drawn_from_def one by simp_all
  have protected: "sc_protected m = sc_protected c" using assms(3) unfolding drawn_from_def one by simp
  have "d = c" if "d \<in> set cs" "sc_facts d = sc_facts c" "sc_partition d = sc_partition c" for d
    using assms(1) that c(1) by (auto simp: distinct_map dest: inj_onD)
  then have "set (filter (\<lambda>d. sc_facts d = sc_facts (scenario_of sha m) \<and> sc_partition d = sc_partition (scenario_of sha m)) cs) = {c}"
    using c(1,3) m(1) by auto
  then show ?thesis
    unfolding assembled_from_def Let_def
    using m protected by (auto simp: list_ex_iff simp flip: set_empty)
qed

lemma statistics_accounted:
  assumes "suite_accounts p cs suite" and "accounts (length cs) u p" and "cs \<noteq> []"
  shows "suite_statistics_ok suite \<longleftrightarrow> u = 0"
proof -
  have some: "pl_generated_count p \<noteq> 0" using assms(2,3) by (simp add: accounts_def)
  let ?t = "ss_statistics suite"
  have t: "st_rejected_count ?t = int (length (st_rejections ?t))" "st_generated_count ?t = int (pl_generated_count p)"
    "int (pl_generated_count p) = int (length (ss_scenarios suite)) + int (length (st_rejections ?t))"
    "st_duplicate_count ?t + int u = int (duplicates (st_rejections ?t))"
    using assms(1,2) some by (simp_all add: suite_accounts_def accounts_def Let_def)
  show ?thesis
    unfolding suite_statistics_ok_def Let_def duplicates_def [symmetric] t(1,2) using t(3,4) some by auto
qed

lemma assemble_stage_planner:
  assumes sha: "hex_digest sha" and planner: "sv_assemble_suite sv = (\<lambda>request. from_python (assemble_suite sha p request))"
    and policy: "valid_policy_ir policy" and manifest: "valid_by run_manifest_checks (rn_manifest r)"
    and id: "identifier_ok (''suite-'' @ rn_run_id r)"
    and cs: "list_all valid_candidate cs" "cs \<noteq> []" "distinct (map (\<lambda>c. (sc_facts c, sc_partition c)) cs)"
      "inj_on (scenario_digest sha) (set cs)"
    and p: "accounts (length cs) u p"
  shows "(\<exists>suite. assemble_stage sha sv r policy contract cs = Inr suite) \<longleftrightarrow> u = 0"
proof -
  define a where "a = \<lparr>as_suite_id = ''suite-'' @ rn_run_id r, as_document_sha256 = pi_document_sha256 policy,
        as_policy_contract_sha256 = complete_digest sha (ContractPayload contract),
        as_rule_set_sha256 = semantic_digest sha (PolicyPayload policy),
        as_engine_version = rm_engine_version (rn_manifest r), as_seed = rm_random_seed (rn_manifest r),
        as_candidates = cs\<rparr>"
  have "sha256_ok (pi_document_sha256 policy)" using policy by (simp add: valid_policy_ir_iff policy_fields_ok_def)
  moreover have "nonempty_text (rm_engine_version (rn_manifest r))" "non_negative (rm_random_seed (rn_manifest r))"
    using manifest by (simp_all add: valid_by_def [of run_manifest_checks] run_manifest_checks_def)
  ultimately have valid: "valid_by assemble_suite_checks a"
    using id cs(1) hex_digestD [OF sha] unfolding valid_by_def [of assemble_suite_checks] assemble_suite_checks_def a_def
    by simp
  have candidates: "as_candidates a = cs" by (simp add: a_def)
  have rejections: "list_all (valid_by scenario_rejection_checks) (pl_rejections p)" using p by (simp add: accounts_def)
  obtain suite where suite: "assemble_suite sha p a = Inr suite" "valid_suite suite" "suite_accounts p cs suite"
    "ss_content_sha256 suite = complete_digest sha (SuitePayload suite)"
    "ss_suite_id suite = as_suite_id a" "ss_seed suite = as_seed a"
    "ss_document_sha256 suite = as_document_sha256 a"
    "ss_policy_contract_sha256 suite = as_policy_contract_sha256 a"
    "ss_rule_set_sha256 suite = as_rule_set_sha256 a" "ss_engine_version suite = as_engine_version a"
    "length (ss_scenarios suite) = min 15 (card (scenario_digest sha ` set cs))"
    "\<forall>s \<in> set (ss_scenarios suite). \<exists>m. s = scenario_of sha m
      \<and> drawn_from (filter (\<lambda>c. scenario_digest sha c = scenario_digest sha m) cs) m"
    by (rule assemble_suite_value [OF sha valid, unfolded candidates, OF cs(2) rejections])
  have "card (scenario_digest sha ` set cs) \<le> length cs" by (metis card_length length_map list.set_map)
  then have short: "length (ss_scenarios suite) \<le> length cs" unfolding suite(11) by simp
  have "validate_suite sha suite policy contract (rn_manifest r) (Some (as_suite_id a)) (Some (length cs)) = Inr suite"
    unfolding validate_suite_def validated_valid [OF suite(2)] digest_of_value rbind_simps
    using suite(4-10) short by (simp add: require_def a_def del: payload_obj.simps)
  moreover have "list_all (assembled_from cs) (ss_scenarios suite)"
    using suite(12) assembled_from_single [OF cs(3,4)] by (auto simp: list_all_iff)
  moreover have "assemble_stage sha sv r policy contract cs =
     ebind (from_python (assemble_suite sha p a)) (\<lambda>value.
     from_python
       (rbind (validate_suite sha value policy contract (rn_manifest r) (Some (as_suite_id a)) (Some (length cs))) (\<lambda>suite.
        rbind (require (list_all (assembled_from cs) (ss_scenarios suite))) (\<lambda>_.
        rbind (require (suite_statistics_ok suite)) (\<lambda>_. Inr suite)))))"
    unfolding assemble_stage_def digest_of_value from_python_def sum.case ebind_def a_def [symmetric]
      validated_valid [OF valid] planner ..
  ultimately show ?thesis
    using statistics_accounted [OF suite(3) p cs(2)] by (simp add: suite(1) from_python_def ebind_def require_def)
qed

subsection \<open>A whole planning\<close>

lemma batch_places: "batch_well sha n b \<Longrightarrow> distinct (map (\<lambda>c. (sc_facts c, sc_partition c)) b)"
  by (auto simp: batch_well_def candidate_key_def distinct_map inj_on_def)

lemma batches_places:
  assumes "batch_well sha n b" and "batch_well sha m b'" and "\<forall>c \<in> set b'. \<forall>e \<in> set b. sc_facts c \<noteq> sc_facts e"
  shows "distinct (map (\<lambda>c. (sc_facts c, sc_partition c)) (b @ b'))"
  using batch_places [OF assms(1)] batch_places [OF assms(2)] assms(3) by auto metis

end
