(* ===== verification/Planning_Properties.thy ===== *)
theory Planning_Properties
  imports Planner_Meaning Examples
begin

section \<open>Properties of the scenario planner\<close>

text \<open>
  What the synthesis of facts decides, what a canonicalized batch accounts for, and when the coordinator
  accepts the suites a planner assembles. The witnesses plan for the sample policy and contract.
\<close>

subsection \<open>Solving conditions\<close>

text \<open>
  C11: The synthesis of facts decides conditions: on valid predicates it never raises, the facts it returns
  are valid and meet every predicate, and when it returns none there are none. The sum of two amounts, on
  which invariants may put conditions, is searched by finitely many probes, which therefore suffice.
\<close>

theorem conditions_solved:
  assumes "list_all valid_predicate ps"
  shows "(\<exists>f. satisfy_conditions ps = Inr (Some f) \<and> valid_facts f \<and> all_hold ps f)
    \<or> (satisfy_conditions ps = Inr None \<and> \<not> (\<exists>f. valid_facts f \<and> all_hold ps f))"
  using satisfy_conditions_decides [OF assms] by blast

definition tight_conditions :: "predicate list" where
  "tight_conditions =
     [\<lparr>p_field = F_daily_category_total_minor, p_operator = Op_eq, p_value = VInt 15000001\<rparr>,
      \<lparr>p_field = F_prior_same_day_category_spend_minor, p_operator = Op_gte, p_value = VInt 9999999\<rparr>,
      \<lparr>p_field = F_amount_minor, p_operator = Op_neq, p_value = VInt 5000001\<rparr>]"

lemma conditions_solved_witness: "\<exists>f. satisfy_conditions tight_conditions = Inr (Some f) \<and> all_hold tight_conditions f"
proof -
  have valid: "list_all valid_predicate tight_conditions" by code_simp
  let ?f = "(sample_facts RoleManager Hotel)\<lparr>f_amount_minor := 5000002, f_prior_same_day_category_spend_minor := 9999999\<rparr>"
  have "valid_facts ?f" "all_hold tight_conditions ?f" by code_simp+
  then show ?thesis using conditions_solved [OF valid] by blast
qed

text \<open>
  C28: The two decision procedures of the program agree: on conditions a rule may have, the test the rule-set
  validator uses answers True exactly when the synthesis finds facts.
\<close>

theorem solver_agrees_with_validator:
  assumes "list_all valid_predicate ps" and "list_all (\<lambda>p. p_field p \<noteq> F_daily_category_total_minor) ps"
  shows "conditions_satisfiable ps = Inr (satisfy_conditions ps \<noteq> Inr None)"
  by (rule witness_iff_satisfiable [OF assms(1)]) (use assms(2) in \<open>simp add: list_all_iff\<close>)

lemma solver_agrees_with_validator_witness:
  "conditions_satisfiable (r_when manager_rule) = Inr (satisfy_conditions (r_when manager_rule) \<noteq> Inr None)"
proof -
  have "list_all valid_predicate (r_when manager_rule)"
    "list_all (\<lambda>p. p_field p \<noteq> F_daily_category_total_minor) (r_when manager_rule)" by code_simp+
  then show ?thesis by (rule solver_agrees_with_validator)
qed

subsection \<open>Mechanical candidates\<close>

text \<open>
  C17: Mechanical synthesis never raises on a valid policy and contract. Every candidate is valid, targets
  known rules and invariants and asserts only what an invariant demands of its facts; every requested rule
  and invariant whose conditions can hold has a candidate that targets it and in which they do hold.
\<close>

theorem mechanical_candidates_cover:
  assumes "hex_digest sha" and "valid_policy_ir policy" and "valid_contract contract"
  shows "\<exists>cs. mechanical_candidates sha policy contract rule_ids invariant_ids = Inr cs
    \<and> list_all (sound_candidate policy contract) cs
    \<and> (\<forall>r \<in> set (pi_rules policy). r_rule_id r \<in> rule_ids \<and> (\<exists>f. valid_facts f \<and> all_hold (r_when r) f)
        \<longrightarrow> (\<exists>c \<in> set cs. covers_rule r c))
    \<and> (\<forall>i \<in> set (pc_invariants contract). i_invariant_id i \<in> invariant_ids \<and> (\<exists>f. valid_facts f \<and> all_hold (i_when i) f)
        \<longrightarrow> (\<exists>c \<in> set cs. covers_invariant i c))"
  by (rule mechanical_candidates_total [OF assms]) blast

lemma hotel_possible: "valid_facts (sample_facts RoleManager Hotel)" "all_hold (r_when hotel_rule) (sample_facts RoleManager Hotel)"
  by code_simp+

lemma mechanical_candidates_cover_witness:
  "\<exists>cs. mechanical_candidates sample_sha sample_policy sample_contract {''hotel''} {} = Inr cs
    \<and> (\<exists>c \<in> set cs. covers_rule hotel_rule c)"
proof -
  have "hotel_rule \<in> set (pi_rules sample_policy)" "r_rule_id hotel_rule \<in> {''hotel''}"
    by (simp_all add: sample_policy_def hotel_rule_def)
  then show ?thesis
    using mechanical_candidates_cover [OF sample_sha_digest sample_policy_valid sample_contract_valid,
        of "{''hotel''}" "{}"] hotel_possible by blast
qed

subsection \<open>Canonical batches\<close>


definition plain_candidate :: scenario_candidate where
  "plain_candidate = \<lparr>sc_category = Normal, sc_origins = {FromMechanical}, sc_facts = sample_facts RoleManager Hotel,
     sc_target_rule_ids = [''hotel''], sc_target_invariant_ids = [], sc_assertions = [], sc_protected = False,
     sc_partition = Visible, sc_candidate_id = ''candidate-1''\<rparr>"

lemma plain_candidate_valid: "valid_candidate plain_candidate"
  by code_simp


subsection \<open>The batches of a planner\<close>

definition sample_generate :: generate_request where
  "sample_generate = \<lparr>gr_policy = sample_policy, gr_contract = sample_contract, gr_seed = 7, gr_scenario_budget = 10\<rparr>"

definition sample_planner :: planner where
  "sample_planner = \<lparr>pl_explore = None, pl_manifest = None, pl_initial_called = False, pl_targeted_called = False,
     pl_rejections = [], pl_generated_count = 0, pl_duplicate_count = 0\<rparr>"

lemma sample_generate_valid: "valid_by generate_initial_checks sample_generate"
  using sample_policy_valid sample_contract_valid
  by (simp add: valid_by_def [of generate_initial_checks] generate_initial_checks_def sample_generate_def non_negative_def)

lemma sample_planner_new: "new_planner None None = Inr sample_planner"
  by (simp add: new_planner_def sample_planner_def)

lemma sample_explorer: "explorer_ok sample_planner"
  by (simp add: explorer_ok_def sample_planner_def)




definition sample_coverage :: "ident list \<Rightarrow> coverage_snapshot" where
  "sample_coverage missing = \<lparr>cs_total_rules = 2, cs_covered_rules = 1, cs_total_invariants = 3, cs_covered_invariants = 3,
     cs_total_predicate_branches = 0, cs_covered_predicate_branches = 0, cs_evidence = [],
     cs_missing_rule_ids = missing, cs_missing_invariant_ids = [], cs_targeted_cycles = 0, cs_status = CoveragePending\<rparr>"

definition sample_targeted :: "ident list \<Rightarrow> scenario_candidate list \<Rightarrow> generate_targeted_request" where
  "sample_targeted missing existing =
     generate_request.extend sample_generate (generate_targeted_request.fields existing (sample_coverage missing) 1)"

lemma sample_targeted_simps [simp]:
  "gr_policy (sample_targeted ms cs) = sample_policy" "gr_contract (sample_targeted ms cs) = sample_contract"
  "gr_scenario_budget (sample_targeted ms cs) = 10" "gt_existing_candidates (sample_targeted ms cs) = cs"
  "gt_coverage (sample_targeted ms cs) = sample_coverage ms"
  by (simp_all add: sample_targeted_def sample_generate_def generate_request.defs generate_targeted_request.defs)

lemma sample_targeted_valid:
  assumes "list_all valid_candidate cs" and "list_all identifier_ok ms"
  shows "valid_by generate_targeted_checks (sample_targeted ms cs)"
proof -
  have "valid_coverage (sample_coverage ms)"
    using assms(2) by (simp add: valid_by_def [of coverage_snapshot_checks] coverage_snapshot_checks_def sample_coverage_def
        non_negative_def)
  moreover have "gr_seed (sample_targeted ms cs) = 7" "gt_targeted_cycle (sample_targeted ms cs) = 1"
    by (simp_all add: sample_targeted_def sample_generate_def generate_request.defs generate_targeted_request.defs)
  ultimately show ?thesis
    using assms(1) sample_policy_valid sample_contract_valid
    by (simp add: valid_by_def [of generate_targeted_checks] generate_targeted_checks_def generate_initial_checks_def
        non_negative_def)
qed


subsection \<open>The suites of a planner\<close>

abbreviation assembling :: "(string \<Rightarrow> sha256) \<Rightarrow> planner \<Rightarrow> services \<Rightarrow> services" where
  "assembling sha p sv \<equiv> sv\<lparr>sv_assemble_suite := \<lambda>request. from_python (assemble_suite sha p request)\<rparr>"

text \<open>
  C9: Planner and coordinator together. When no two candidates of a run have the same digest, the coordinator
  accepts the suite assembled from the initial batch; it accepts the suite assembled after the targeted batch
  exactly when every duplicate the planner rejected was counted. So a targeted proposal whose facts were used
  before, which is rejected as a duplicate and not counted, makes the run fail.
\<close>

theorem planned_suites_accepted:
  assumes "hex_digest sha" and "new_planner llm manifest = Inr p"
    and "generate_initial sha g p = (p1, Inr b1)" and "b1 \<noteq> []"
    and "generate_targeted sha g' p1 = (p2, Inr b2)" and "gt_existing_candidates g' = b1"
    and "inj_on (scenario_digest sha) (set (b1 @ b2))"
    and "valid_policy_ir policy" and "valid_by run_manifest_checks (rn_manifest r)"
    and "identifier_ok (''suite-'' @ rn_run_id r)"
  shows "(\<exists>suite. assemble_stage sha (assembling sha p1 sv) r policy contract b1 = Inr suite)
    \<and> ((\<exists>suite. assemble_stage sha (assembling sha p2 sv) r policy contract (b1 @ b2) = Inr suite)
        \<longleftrightarrow> duplicates (pl_rejections p2) = pl_duplicate_count p2)"
proof -
  have p1: "accounts (length b1) 0 p1" "batch_well sha 10 b1"
    using generate_initial_accounts [OF assms(1) new_planner_accounts [OF assms(2)] assms(3)] by simp_all
  obtain v where p2: "accounts (length b1 + length b2) v p2" "batch_well sha 5 b2"
    "\<forall>c \<in> set b2. \<forall>e \<in> set b1. sc_facts c \<noteq> sc_facts e"
    by (rule generate_targeted_accounts [OF assms(1) p1(1) assms(5)]) (simp add: assms(6))
  have valid: "list_all valid_candidate b1" "list_all valid_candidate (b1 @ b2)"
    using p1(2) p2(2) by (simp_all add: batch_well_def)
  have inj: "inj_on (scenario_digest sha) (set b1)" using assms(7) by (rule inj_on_subset) simp
  have "\<exists>suite. assemble_stage sha (assembling sha p1 sv) r policy contract b1 = Inr suite"
    using assemble_stage_planner [OF assms(1) _ assms(8-10) valid(1) assms(4) batch_places [OF p1(2)] inj p1(1)] by simp
  moreover have "(\<exists>suite. assemble_stage sha (assembling sha p2 sv) r policy contract (b1 @ b2) = Inr suite) \<longleftrightarrow> v = 0"
    by (rule assemble_stage_planner [OF assms(1) _ assms(8-10) valid(2) _ batches_places [OF p1(2) p2(2,3)] assms(7)])
      (use assms(4) p2(1) in simp_all)
  moreover have "v = 0 \<longleftrightarrow> duplicates (pl_rejections p2) = pl_duplicate_count p2"
    using p2(1) by (auto simp: accounts_def)
  ultimately show ?thesis by simp
qed

definition plan_manifest :: run_manifest where
  "plan_manifest = \<lparr>rm_manifest_id = ''manifest'', rm_run_id = ''run'', rm_engine_version = ''engine'',
     rm_engine_sha256 = zero_sha256, rm_prompt_hashes = [], rm_provider = ''none'',
     rm_model_identifier = ''none'', rm_generation_config = \<lparr>gc_temperature_milli = 0,
       gc_top_p_percent = 100, gc_max_output_tokens = 1, gc_seed = None\<rparr>, rm_random_seed = 0,
     rm_started_at = 0, rm_mode = Cached\<rparr>"

definition plan_run :: stored_run where
  "plan_run = \<lparr>rn_run_id = ''run'', rn_stage = GeneratingInitialTests, rn_manifest = plan_manifest, rn_created_at = 0,
     rn_expires_at = 3600000000, rn_artifacts = [], rn_events = [], rn_finding_decisions = [],
     rn_decision_at = None, rn_error = None, sr_version = 0, sr_source_request = None,
     sr_pending_confirmation = None\<rparr>"

definition plan_services :: services where
  "plan_services =
     \<lparr>sv_ingest = \<lambda>x. Inl OtherExc, sv_compile = \<lambda>x. Inl OtherExc, sv_generate_initial = \<lambda>x. Inl OtherExc,
      sv_generate_targeted = \<lambda>x. Inl OtherExc, sv_assemble_suite = \<lambda>x. Inl OtherExc,
      sv_evaluate = \<lambda>x. Inl OtherExc, sv_analyze = \<lambda>x. Inl OtherExc, sv_metrics = \<lambda>x. Inl OtherExc,
      sv_propose = \<lambda>x. Inl OtherExc, sv_apply_revision = \<lambda>x. Inl OtherExc, sv_compare = \<lambda>x. Inl OtherExc,
      sv_manifest = \<lambda>i m. Inr plan_manifest, sv_draft_severity = Low, sv_mode = Cached, sv_recording_demo = False\<rparr>"

text \<open>The digests of the sample are all equal, so its batch has one candidate.\<close>

lemma sample_single:
  assumes "batch_well sample_sha n b" and "\<forall>c \<in> set b. sc_partition c = Visible"
  shows "length b \<le> 1"
proof -
  have "candidate_key sample_sha c = (zero_sha256, partition_name Visible)" if "c \<in> set b" for c
    using assms(2) that by (simp add: candidate_key_def fact_digest_def sample_sha_def)
  then have "set (map (candidate_key sample_sha) b) \<subseteq> {(zero_sha256, partition_name Visible)}" by auto
  then have "card (set (map (candidate_key sample_sha) b)) \<le> 1"
    using card_mono [of "{(zero_sha256, partition_name Visible)}"] by fastforce
  then show ?thesis using assms(1) distinct_card [of "map (candidate_key sample_sha) b"] by (simp add: batch_well_def)
qed

lemma planned_suites_accepted_witness:
  "\<exists>p1 p2 b. generate_initial sample_sha sample_generate sample_planner = (p1, Inr b)
    \<and> generate_targeted sample_sha (sample_targeted [] b) p1 = (p2, Inr [])
    \<and> (\<exists>suite. assemble_stage sample_sha (assembling sample_sha p1 plan_services) plan_run sample_policy sample_contract b = Inr suite)
    \<and> (\<exists>suite. assemble_stage sample_sha (assembling sample_sha p2 plan_services) plan_run sample_policy sample_contract b = Inr suite)"
proof -
  have "\<not> pl_initial_called sample_planner" by (simp add: sample_planner_def)
  then obtain p1 b where b: "generate_initial sample_sha sample_generate sample_planner = (p1, Inr b)"
    "\<forall>c \<in> set b. sc_partition c = Visible"
    "(\<exists>r \<in> set (pi_rules (gr_policy sample_generate)). \<exists>f. valid_facts f \<and> all_hold (r_when r) f) \<longrightarrow> b \<noteq> []"
    by (rule generate_initial_total [OF sample_sha_digest sample_generate_valid _ sample_explorer])
  have "hotel_rule \<in> set (pi_rules (gr_policy sample_generate))" by (simp add: sample_generate_def sample_policy_def)
  then have some: "b \<noteq> []" using b(3) hotel_possible by blast
  note acc = generate_initial_accounts [OF sample_sha_digest new_planner_accounts [OF sample_planner_new] b(1)]
  obtain c where c: "b = [c]" using sample_single [OF acc(2) b(2)] some by (cases b) auto
  let ?g = "sample_targeted [] b" and ?p2 = "p1\<lparr>pl_targeted_called := True\<rparr>"
  have "list_all valid_candidate b" using acc(2) by (simp add: batch_well_def)
  then have valid: "valid_by generate_targeted_checks ?g" by (rule sample_targeted_valid) simp
  have "\<not> pl_targeted_called p1"
    using b(1) by (auto simp: generate_initial_def recorded_def record_result_def sample_planner_def Let_def
        split: sum.splits if_splits)
  then have targeted: "generate_targeted sample_sha ?g p1 = (?p2, Inr [])"
    by (simp add: generate_targeted_def validated_valid [OF valid] sample_coverage_def)
  have "valid_by run_manifest_checks (rn_manifest plan_run)" "identifier_ok (''suite-'' @ rn_run_id plan_run)"
    by code_simp+
  moreover have "inj_on (scenario_digest sample_sha) (set (b @ []))" by (simp add: c)
  ultimately have both: "(\<exists>suite. assemble_stage sample_sha (assembling sample_sha p1 plan_services) plan_run sample_policy sample_contract b = Inr suite)
    \<and> ((\<exists>suite. assemble_stage sample_sha (assembling sample_sha ?p2 plan_services) plan_run sample_policy sample_contract (b @ []) = Inr suite)
        \<longleftrightarrow> duplicates (pl_rejections ?p2) = pl_duplicate_count ?p2)"
    by (intro planned_suites_accepted [OF sample_sha_digest sample_planner_new b(1) some targeted _ _ sample_policy_valid]) simp_all
  have "duplicates (pl_rejections ?p2) = pl_duplicate_count ?p2" using acc(1) by (simp add: accounts_def)
  then show ?thesis using b(1) targeted both by auto
qed

end
