(* ===== verification/Cache_Replay.thy ===== *)
theory Cache_Replay
  imports Coordinator
begin

section \<open>Recorded runs (workflow/validation.py, cache_replay.py)\<close>

text \<open>
  In cached mode a run is a recorded one, loaded by an injected loader, validated as a graph of artifacts,
  rebased to a new session and validated again. An envelope that passes validation has a payload of the class
  its type names, so the model branches on the payload where the code compares types.
\<close>

subsection \<open>The graph as it is read\<close>

record replay_state =
  cr_seen :: "(sha256 \<times> artifact_envelope) list"
  cr_payloads :: "artifact_envelope list"
  cr_manifests :: "run_manifest list"
  cr_suite :: "scenario_suite option"
  cr_contract :: "policy_contract option"

definition new_replay_state :: replay_state where
  "new_replay_state = \<lparr>cr_seen = [], cr_payloads = [], cr_manifests = [], cr_suite = None, cr_contract = None\<rparr>"

fun payload_inputs :: "artifact_payload \<Rightarrow> input_hashes option" where
  "payload_inputs (EvaluationPayload x) = Some (er_inputs x)"
| "payload_inputs (FindingsPayload x) = Some (fr_inputs x)"
| "payload_inputs (MetricsPayload x) = Some (mr_inputs x)"
| "payload_inputs (ScorePayload x) = Some (bs_inputs x)"
| "payload_inputs x = None"

text \<open>\<open>next((a.payload for a in ... if ...), None)\<close> over the envelopes with a payload of one class.\<close>

definition first_payload ::
  "(artifact_payload \<Rightarrow> 'a option) \<Rightarrow> (artifact_envelope \<Rightarrow> bool) \<Rightarrow> artifact_envelope list \<Rightarrow> 'a option" where
  "first_payload f P envelopes =
     (case find (\<lambda>a. f (ae_payload a) \<noteq> None \<and> P a) envelopes of None \<Rightarrow> None | Some a \<Rightarrow> f (ae_payload a))"

definition seen_payload :: "(artifact_payload \<Rightarrow> 'a option) \<Rightarrow> replay_state \<Rightarrow> sha256 \<Rightarrow> 'a option" where
  "seen_payload f st h = (case map_of (cr_seen st) h of None \<Rightarrow> None | Some a \<Rightarrow> f (ae_payload a))"

definition require_some :: "'a option \<Rightarrow> 'a result" where
  "require_some x = (case x of None \<Rightarrow> Inl (ValueError ''workflow evidence is inconsistent'') | Some y \<Rightarrow> Inr y)"

text \<open>The field of a request whose class does not fit: the validation of the request raises.\<close>

definition request_field :: "'a option \<Rightarrow> 'a result" where
  "request_field x = (case x of None \<Rightarrow> Inl (ValueError ''validation error'') | Some y \<Rightarrow> Inr y)"

definition require_frozen_inputs ::
  "(string \<Rightarrow> sha256) \<Rightarrow> run_manifest \<Rightarrow> replay_state \<Rightarrow> input_hashes \<Rightarrow> unit result" where
  "require_frozen_inputs sha manifest st inputs =
     (case (cr_suite st, cr_contract st) of
        (Some suite, Some contract) \<Rightarrow>
          rbind (digest_of sha (SuitePayload suite)) (\<lambda>s. rbind (require (ih_suite_sha256 inputs = s)) (\<lambda>_.
          rbind (digest_of sha (ContractPayload contract)) (\<lambda>c. rbind (require (ih_contract_sha256 inputs = c)) (\<lambda>_.
          rbind (require (ih_engine_sha256 inputs = rm_engine_sha256 manifest)) (\<lambda>_.
          rbind (digest_of sha (ManifestPayload manifest)) (\<lambda>m. require (ih_run_manifest_sha256 inputs = m)))))))
      | _ \<Rightarrow> require False)"

subsection \<open>Artifacts by class\<close>

definition check_recorded_policy :: "replay_state \<Rightarrow> policy_ir \<Rightarrow> unit result" where
  "check_recorded_policy st policy =
     require (list_ex (\<lambda>entry. case ae_payload (snd entry) of
         DocumentPayload d \<Rightarrow> pd_document_sha256 d = pi_document_sha256 policy | _ \<Rightarrow> False) (cr_seen st))"

definition policy_by_semantics :: "replay_state \<Rightarrow> sha256 \<Rightarrow> policy_ir option" where
  "policy_by_semantics st h = first_payload as_policy (\<lambda>a. ae_semantic_sha256 a = h) (map snd (cr_seen st))"

definition check_recorded_suite ::
  "(string \<Rightarrow> sha256) \<Rightarrow> run_manifest \<Rightarrow> replay_state \<Rightarrow> sha256 list \<Rightarrow> scenario_suite \<Rightarrow> unit result" where
  "check_recorded_suite sha manifest st parents suite =
     rbind (require (cr_suite st = None)) (\<lambda>_.
     rbind (require_some (cr_contract st)) (\<lambda>frozen.
     rbind (digest_of sha (ContractPayload frozen)) (\<lambda>frozen_sha256.
     rbind (require (ss_policy_contract_sha256 suite = frozen_sha256)) (\<lambda>_.
     rbind (require_some (policy_by_semantics st (ss_rule_set_sha256 suite))) (\<lambda>policy.
     rbind (require_some (seen_payload as_contract st (ss_policy_contract_sha256 suite))) (\<lambda>contract.
     rbind (validate_suite sha suite policy contract manifest None None) (\<lambda>_.
     rbind (digest_of sha (PolicyPayload policy)) (\<lambda>p.
     rbind (digest_of sha (ContractPayload contract)) (\<lambda>c.
     rbind (digest_of sha (ManifestPayload manifest)) (\<lambda>m.
     require ({p, c, m} \<subseteq> set parents)))))))))))"

definition check_recorded_result ::
  "(string \<Rightarrow> sha256) \<Rightarrow> replay_state \<Rightarrow> sha256 list \<Rightarrow> policy_ir \<Rightarrow> policy_contract \<Rightarrow> scenario_suite
   \<Rightarrow> run_manifest \<Rightarrow> artifact_payload \<Rightarrow> input_hashes \<Rightarrow> unit result" where
  "check_recorded_result sha st parents policy contract suite manifest payload inputs =
     (case payload of
        EvaluationPayload report \<Rightarrow>
          rbind (validated evaluate_policy_checks
            \<lparr>ep_policy = policy, ep_contract = contract, ep_suite = suite, ep_inputs = inputs,
             ep_engine_version = rm_engine_version manifest\<rparr>) (\<lambda>request.
          rbind (validate_evaluation sha report request) (\<lambda>_. Inr ()))
      | _ \<Rightarrow>
          rbind (require_some (first_payload as_evaluation (\<lambda>a. payload_inputs (ae_payload a) = Some inputs)
                   (rev (cr_payloads st)))) (\<lambda>evaluation.
          rbind (digest_of sha (EvaluationPayload evaluation)) (\<lambda>e.
          rbind (require (e \<in> set parents)) (\<lambda>_.
          (case payload of
             FindingsPayload findings \<Rightarrow>
               rbind (validate_findings findings evaluation policy contract True) (\<lambda>_. Inr ())
           | MetricsPayload metrics \<Rightarrow>
               rbind (require_some (first_payload as_findings (\<lambda>a. payload_inputs (ae_payload a) = Some inputs)
                        (rev (cr_payloads st)))) (\<lambda>findings.
               rbind (digest_of sha (FindingsPayload findings)) (\<lambda>f.
               rbind (require (f \<in> set parents)) (\<lambda>_.
               rbind (validate_metrics metrics evaluation findings) (\<lambda>_. Inr ()))))
           | _ \<Rightarrow> Inr ())))))"

definition check_recorded_report ::
  "(string \<Rightarrow> sha256) \<Rightarrow> run_manifest \<Rightarrow> replay_state \<Rightarrow> sha256 list \<Rightarrow> artifact_payload \<Rightarrow> input_hashes
   \<Rightarrow> unit result" where
  "check_recorded_report sha manifest st parents payload inputs =
     rbind (require_frozen_inputs sha manifest st inputs) (\<lambda>_.
     rbind (require_some (seen_payload as_policy st (ih_policy_sha256 inputs))) (\<lambda>policy.
     rbind (require_some (seen_payload as_contract st (ih_contract_sha256 inputs))) (\<lambda>contract.
     rbind (require_some (seen_payload as_suite st (ih_suite_sha256 inputs))) (\<lambda>suite.
     rbind (input_hashes_of sha policy contract suite manifest) (\<lambda>expected.
     rbind (require (inputs = expected)) (\<lambda>_.
     rbind (digest_of sha (ManifestPayload manifest)) (\<lambda>m.
     rbind (require ({ih_policy_sha256 inputs, ih_contract_sha256 inputs, ih_suite_sha256 inputs, m} \<subseteq> set parents)) (\<lambda>_.
     check_recorded_result sha st parents policy contract suite manifest payload inputs))))))))"

definition check_recorded_proposal ::
  "(string \<Rightarrow> sha256) \<Rightarrow> finding_decision list \<Rightarrow> replay_state \<Rightarrow> revision_proposal \<Rightarrow> unit result" where
  "check_recorded_proposal sha decisions st proposal =
     rbind (require (cr_suite st \<noteq> None \<and> cr_contract st \<noteq> None)) (\<lambda>_.
     rbind (require_some (cr_suite st)) (\<lambda>frozen_suite.
     rbind (require_some (cr_contract st)) (\<lambda>frozen_contract.
     rbind (digest_of sha (SuitePayload frozen_suite)) (\<lambda>s.
     rbind (require (rp_suite_sha256 proposal = s)) (\<lambda>_.
     rbind (digest_of sha (ContractPayload frozen_contract)) (\<lambda>c.
     rbind (require (rp_policy_contract_sha256 proposal = c)) (\<lambda>_.
     rbind (require_some (policy_by_semantics st (rp_rule_set_sha256 proposal))) (\<lambda>policy.
     rbind (require (map_of (cr_seen st) (rp_policy_contract_sha256 proposal) \<noteq> None
                     \<and> map_of (cr_seen st) (rp_suite_sha256 proposal) \<noteq> None)) (\<lambda>_.
     rbind (digest_of sha (PolicyPayload policy)) (\<lambda>p.
     rbind (require_some (first_payload as_findings
              (\<lambda>a. case payload_inputs (ae_payload a) of None \<Rightarrow> False | Some i \<Rightarrow> ih_policy_sha256 i = p)
              (rev (cr_payloads st)))) (\<lambda>findings.
     rbind (case seen_payload as_suite st (rp_suite_sha256 proposal) of None \<Rightarrow> Inl AttributeError | Some x \<Rightarrow> Inr x)
       (\<lambda>suite.
     rbind (require (set (rp_accepted_finding_ids proposal) \<subseteq> set (map fd_finding_id (reviewable_findings findings suite)))) (\<lambda>_.
     rbind (request_field (seen_payload as_contract st (rp_policy_contract_sha256 proposal))) (\<lambda>contract.
     rbind (semantic_of sha (PolicyPayload policy)) (\<lambda>rules.
     rbind (digest_of sha (ContractPayload contract)) (\<lambda>contract_sha256.
     rbind (digest_of sha (SuitePayload suite)) (\<lambda>suite_sha256.
     rbind (validated propose_revision_checks
       \<lparr>prq_policy = policy, prq_contract = contract, prq_suite = suite,
        prq_findings = findings\<lparr>fr_findings := filter (\<lambda>f. fd_review_status f = Accepted) (fr_findings findings)\<rparr>,
        prq_decisions = filter (\<lambda>d. fdn_decision d = Accept) decisions,
        prq_document_sha256 = pi_document_sha256 policy, prq_rule_set_sha256 = rules,
        prq_policy_contract_sha256 = contract_sha256, prq_suite_sha256 = suite_sha256\<rparr>) (\<lambda>request.
     rbind (validate_proposal proposal request) (\<lambda>_. Inr ())))))))))))))))))))"

definition check_recorded_comparison_part ::
  "(string \<Rightarrow> sha256) \<Rightarrow> run_manifest \<Rightarrow> replay_state \<Rightarrow> input_hashes list \<Rightarrow> unit result" where
  "check_recorded_comparison_part sha manifest st both =
     rfold (\<lambda>inputs _.
       rbind (require_frozen_inputs sha manifest st inputs) (\<lambda>_.
       require (list_ex (\<lambda>a. as_evaluation (ae_payload a) \<noteq> None \<and> payload_inputs (ae_payload a) = Some inputs)
         (cr_payloads st)))) both ()"

definition check_recorded_bundle ::
  "(string \<Rightarrow> sha256) \<Rightarrow> run_manifest \<Rightarrow> replay_state \<Rightarrow> comparison_bundle \<Rightarrow> unit result" where
  "check_recorded_bundle sha manifest st bundle =
     (let earlier = cb_baseline_inputs bundle; after = cb_revised_inputs bundle;
          linked = (\<lambda>inputs a. payload_inputs (ae_payload a) = Some inputs) in
      rbind (require_frozen_inputs sha manifest st earlier) (\<lambda>_.
      rbind (require_frozen_inputs sha manifest st after) (\<lambda>_.
      rbind (require_some (first_payload as_proposal (\<lambda>a. True) (rev (cr_payloads st)))) (\<lambda>proposal.
      rbind (require (list_all (\<lambda>h. h \<in> set (keys (cr_seen st)))
        [ih_policy_sha256 earlier, ih_policy_sha256 after, ih_contract_sha256 earlier, ih_suite_sha256 earlier])) (\<lambda>_.
      rbind (request_field (seen_payload as_policy st (ih_policy_sha256 earlier))) (\<lambda>baseline_policy.
      rbind (request_field (seen_payload as_policy st (ih_policy_sha256 after))) (\<lambda>revised_policy.
      rbind (request_field (seen_payload as_contract st (ih_contract_sha256 earlier))) (\<lambda>contract.
      rbind (request_field (seen_payload as_suite st (ih_suite_sha256 earlier))) (\<lambda>suite.
      rbind (request_field (first_payload as_evaluation (linked earlier) (rev (cr_payloads st)))) (\<lambda>baseline_evaluation.
      rbind (request_field (first_payload as_evaluation (linked after) (rev (cr_payloads st)))) (\<lambda>revised_evaluation.
      rbind (request_field (first_payload as_findings (linked earlier) (rev (cr_payloads st)))) (\<lambda>baseline_findings.
      rbind (request_field (first_payload as_findings (linked after) (rev (cr_payloads st)))) (\<lambda>revised_findings.
      rbind (validated compare_revision_checks
        \<lparr>crq_baseline_policy = baseline_policy, crq_revised_policy = revised_policy, crq_contract = contract,
         crq_suite = suite, crq_proposal = proposal, crq_baseline_evaluation = baseline_evaluation,
         crq_revised_evaluation = revised_evaluation, crq_baseline_findings = baseline_findings,
         crq_revised_findings = revised_findings\<rparr>) (\<lambda>request.
      rbind (validate_comparison_bundle bundle request) (\<lambda>_. Inr ())))))))))))))))"

subsection \<open>The whole graph\<close>

text \<open>What the branch of an artifact demands, and the state it leaves before the artifact is recorded.\<close>

definition check_recorded_payload ::
  "(string \<Rightarrow> sha256) \<Rightarrow> run_manifest \<Rightarrow> finding_decision list \<Rightarrow> sha256 list \<Rightarrow> artifact_payload
   \<Rightarrow> replay_state \<Rightarrow> replay_state result" where
  "check_recorded_payload sha manifest decisions parents payload st =
     (case payload of
        ManifestPayload m \<Rightarrow> rbind (require (m = manifest)) (\<lambda>_. Inr (st\<lparr>cr_manifests := cr_manifests st @ [m]\<rparr>))
      | PolicyPayload p \<Rightarrow> rbind (check_recorded_policy st p) (\<lambda>_. Inr st)
      | ContractPayload c \<Rightarrow> rbind (require (cr_contract st = None)) (\<lambda>_. Inr (st\<lparr>cr_contract := Some c\<rparr>))
      | SuitePayload s \<Rightarrow>
          rbind (check_recorded_suite sha manifest st parents s) (\<lambda>_. Inr (st\<lparr>cr_suite := Some s\<rparr>))
      | EvaluationPayload r \<Rightarrow> rbind (check_recorded_report sha manifest st parents payload (er_inputs r)) (\<lambda>_. Inr st)
      | FindingsPayload r \<Rightarrow> rbind (check_recorded_report sha manifest st parents payload (fr_inputs r)) (\<lambda>_. Inr st)
      | MetricsPayload r \<Rightarrow> rbind (check_recorded_report sha manifest st parents payload (mr_inputs r)) (\<lambda>_. Inr st)
      | ProposalPayload p \<Rightarrow> rbind (check_recorded_proposal sha decisions st p) (\<lambda>_. Inr st)
      | RegressionPayload r \<Rightarrow>
          rbind (check_recorded_comparison_part sha manifest st [rr_baseline_inputs r, rr_revised_inputs r]) (\<lambda>_. Inr st)
      | AcceptancePayload r \<Rightarrow>
          rbind (check_recorded_comparison_part sha manifest st [pa_baseline_inputs r, pa_revised_inputs r]) (\<lambda>_. Inr st)
      | BundlePayload b \<Rightarrow> rbind (check_recorded_bundle sha manifest st b) (\<lambda>_. Inr st)
      | _ \<Rightarrow> Inr st)"

definition check_recorded_artifact ::
  "(string \<Rightarrow> sha256) \<Rightarrow> run_manifest \<Rightarrow> finding_decision list \<Rightarrow> artifact_envelope \<Rightarrow> replay_state
   \<Rightarrow> replay_state result" where
  "check_recorded_artifact sha manifest decisions envelope st =
     rbind (validate_artifact_envelope sha envelope) (\<lambda>e.
     rbind (require (ae_run_manifest_id e = rm_manifest_id manifest)) (\<lambda>_.
     rbind (require (set (ae_parent_hashes e) \<subseteq> set (keys (cr_seen st)))) (\<lambda>_.
     rbind (check_recorded_payload sha manifest decisions (ae_parent_hashes e) (ae_payload e) st) (\<lambda>st.
     Inr (st\<lparr>cr_seen := AList.update (ae_artifact_sha256 e) e (cr_seen st), cr_payloads := cr_payloads st @ [e]\<rparr>)))))"

definition ended_stages :: "run_stage set" where
  "ended_stages = {Complete, CompletedNoFindings, CompletedNoRevision, ContractRejected, RevisionRejected,
     CoverageLimit, Failed}"

definition evaluated_stages :: "run_stage set" where
  "evaluated_stages = {Complete, CompletedNoFindings, CompletedNoRevision, RevisionRejected}"

definition check_recorded_event :: "replay_state \<Rightarrow> run_event \<Rightarrow> bool" where
  "check_recorded_event st event =
     (case ev_artifact event of None \<Rightarrow> True
      | Some ref \<Rightarrow> (case map_of (cr_seen st) (ar_artifact_sha256 ref) of None \<Rightarrow> False
          | Some anchor \<Rightarrow> ae_semantic_sha256 anchor = ar_semantic_sha256 ref
              \<and> ae_artifact_type anchor = ar_artifact_type ref))"

definition validate_cached_record :: "(string \<Rightarrow> sha256) \<Rightarrow> run_record \<Rightarrow> run_record result" where
  "validate_cached_record sha value =
     rbind (validated run_record_checks value) (\<lambda>r.
     rbind (require (rm_mode (rn_manifest r) = Cached)) (\<lambda>_.
     rbind (require (rn_stage r \<in> ended_stages)) (\<lambda>_.
     rbind (rfold (check_recorded_artifact sha (rn_manifest r) (rn_finding_decisions r)) (rn_artifacts r)
              new_replay_state) (\<lambda>st.
     rbind (require (length (cr_manifests st) = 1)) (\<lambda>_.
       let kinds = set (map ae_artifact_type (rn_artifacts r)) in
     rbind (require (rn_stage r \<in> evaluated_stages \<longrightarrow>
       {PolicyIRArtifact, PolicyContractArtifact, ScenarioSuiteArtifact, EvaluationReportArtifact,
        FindingReportArtifact, MetricsReportArtifact} \<subseteq> kinds)) (\<lambda>_.
     rbind (require (rn_stage r = Complete \<longrightarrow> ComparisonBundleArtifact \<in> kinds)) (\<lambda>_.
     rbind (require (list_all (check_recorded_event st) (rn_events r))) (\<lambda>_.
     Inr r))))))))"

subsection \<open>The digest of a run record\<close>

fun artifact_type_name :: "artifact_type \<Rightarrow> string" where
  "artifact_type_name PolicyDocumentArtifact = ''policy_document''"
| "artifact_type_name PolicyIRArtifact = ''policy_ir''"
| "artifact_type_name PolicyContractArtifact = ''policy_contract''"
| "artifact_type_name ScenarioSuiteArtifact = ''scenario_suite''"
| "artifact_type_name EvaluationReportArtifact = ''evaluation_report''"
| "artifact_type_name FindingReportArtifact = ''finding_report''"
| "artifact_type_name RevisionProposalArtifact = ''revision_proposal''"
| "artifact_type_name RegressionReportArtifact = ''regression_report''"
| "artifact_type_name PatchAcceptanceReportArtifact = ''patch_acceptance_report''"
| "artifact_type_name ComparisonBundleArtifact = ''comparison_bundle''"
| "artifact_type_name MetricsReportArtifact = ''metrics_report''"
| "artifact_type_name BenchmarkManifestArtifact = ''benchmark_manifest''"
| "artifact_type_name BenchmarkScoreArtifact = ''benchmark_score''"
| "artifact_type_name CoverageSnapshotArtifact = ''coverage_snapshot''"
| "artifact_type_name RunManifestArtifact = ''run_manifest''"

fun run_stage_name :: "run_stage \<Rightarrow> string" where
  "run_stage_name Queued = ''queued''"
| "run_stage_name Ingesting = ''ingesting''"
| "run_stage_name Extracting = ''extracting''"
| "run_stage_name AwaitingContract = ''awaiting_contract''"
| "run_stage_name GeneratingInitialTests = ''generating_initial_tests''"
| "run_stage_name ProvisionalExecution = ''provisional_execution''"
| "run_stage_name TargetingCoverage = ''targeting_coverage''"
| "run_stage_name FreezingSuite = ''freezing_suite''"
| "run_stage_name BaselineExecution = ''baseline_execution''"
| "run_stage_name Analyzing = ''analyzing''"
| "run_stage_name AwaitingFindingReview = ''awaiting_finding_review''"
| "run_stage_name DraftingRevision = ''drafting_revision''"
| "run_stage_name AwaitingRevisionConfirmation = ''awaiting_revision_confirmation''"
| "run_stage_name ApplyingRevision = ''applying_revision''"
| "run_stage_name Retesting = ''retesting''"
| "run_stage_name Complete = ''complete''"
| "run_stage_name CompletedNoFindings = ''completed_no_findings''"
| "run_stage_name CompletedNoRevision = ''completed_no_revision''"
| "run_stage_name ContractRejected = ''contract_rejected''"
| "run_stage_name RevisionRejected = ''revision_rejected''"
| "run_stage_name CoverageLimit = ''coverage_limit_exceeded''"
| "run_stage_name Failed = ''failed''"

definition artifact_ref_obj :: "artifact_ref \<Rightarrow> pyobj" where
  "artifact_ref_obj r = PModel CArtifactRef
     [schema_version, (''artifact_type'', PStr (artifact_type_name (ar_artifact_type r))),
      (''artifact_sha256'', PStr (ar_artifact_sha256 r)), (''semantic_sha256'', PStr (ar_semantic_sha256 r))]"

definition envelope_obj :: "artifact_envelope \<Rightarrow> pyobj" where
  "envelope_obj e = PModel CArtifactEnvelope
     [schema_version, (''artifact_type'', PStr (artifact_type_name (ae_artifact_type e))),
      (''artifact_sha256'', PStr (ae_artifact_sha256 e)), (''semantic_sha256'', PStr (ae_semantic_sha256 e)),
      (''parent_hashes'', strs_obj (ae_parent_hashes e)), (''run_manifest_id'', PStr (ae_run_manifest_id e)),
      (''payload'', payload_obj (ae_payload e))]"

definition run_event_obj :: "run_event \<Rightarrow> pyobj" where
  "run_event_obj e = PModel CRunEvent
     [schema_version, (''timestamp'', PTime (Some (ev_timestamp e))), (''stage'', PStr (run_stage_name (ev_stage e))),
      (''action_summary'', PStr (ev_action_summary e)), (''artifact'', opt_obj artifact_ref_obj (ev_artifact e)),
      (''error_id'', opt_obj PStr (ev_error_id e))]"

definition finding_decision_obj :: "finding_decision \<Rightarrow> pyobj" where
  "finding_decision_obj d = PModel COtherModel
     [schema_version, (''finding_id'', PStr (fdn_finding_id d)),
      (''decision'', PStr (case fdn_decision d of Accept \<Rightarrow> ''accept'' | Reject \<Rightarrow> ''reject'')),
      (''reviewer_severity'', opt_obj (\<lambda>s. PStr (severity_name s)) (fdn_reviewer_severity d))]"

definition run_record_obj :: "run_record \<Rightarrow> pyobj" where
  "run_record_obj r = PModel CRunRecord
     [schema_version, (''run_id'', PStr (rn_run_id r)), (''stage'', PStr (run_stage_name (rn_stage r))),
      (''manifest'', manifest_obj (rn_manifest r)), (''created_at'', PTime (Some (rn_created_at r))),
      (''expires_at'', PTime (Some (rn_expires_at r))), (''artifacts'', seq_obj envelope_obj (rn_artifacts r)),
      (''events'', seq_obj run_event_obj (rn_events r)),
      (''finding_decisions'', seq_obj finding_decision_obj (rn_finding_decisions r)),
      (''decision_at'', opt_obj (\<lambda>t. PTime (Some t)) (rn_decision_at r)),
      (''error'', opt_obj public_error_obj (rn_error r))]"

lemma hashable_record [simp]:
  "hashable (artifact_ref_obj a)" "hashable (envelope_obj e)" "hashable (run_event_obj v)" "hashable (finding_decision_obj d)"
  "hashable (run_record_obj r)"
proof -
  show ref: "hashable (artifact_ref_obj a)" for a by (simp add: artifact_ref_obj_def schema_version_def)
  show envelope: "hashable (envelope_obj e)" for e by (simp add: envelope_obj_def schema_version_def)
  show event: "hashable (run_event_obj v)" for v using ref by (simp add: run_event_obj_def schema_version_def)
  show decision: "hashable (finding_decision_obj d)" for d by (simp add: finding_decision_obj_def schema_version_def)
  have "hashable (manifest_obj (rn_manifest r))" using hashable_payload [of "ManifestPayload (rn_manifest r)"] by simp
  then show "hashable (run_record_obj r)"
    using envelope event decision by (simp add: run_record_obj_def schema_version_def list_all_iff)
qed

subsection \<open>Rebasing\<close>

text \<open>
  \<open>_manifest_inputs\<close>: the anchor of the manifest is rewritten in every \<open>InputHashes\<close> inside a payload, and
  every model that changed is validated again.
\<close>

definition with_manifest :: "sha256 \<Rightarrow> input_hashes \<Rightarrow> input_hashes" where
  "with_manifest h inputs = inputs\<lparr>ih_run_manifest_sha256 := h\<rparr>"

definition metrics_with_manifest :: "sha256 \<Rightarrow> metrics_report \<Rightarrow> metrics_report result" where
  "metrics_with_manifest h m = validated metrics_report_checks (m\<lparr>mr_inputs := with_manifest h (mr_inputs m)\<rparr>)"

definition regression_with_manifest :: "sha256 \<Rightarrow> regression_report \<Rightarrow> regression_report result" where
  "regression_with_manifest h r = validated regression_report_checks
     (r\<lparr>rr_baseline_inputs := with_manifest h (rr_baseline_inputs r),
        rr_revised_inputs := with_manifest h (rr_revised_inputs r)\<rparr>)"

definition acceptance_with_manifest :: "sha256 \<Rightarrow> patch_acceptance_report \<Rightarrow> patch_acceptance_report result" where
  "acceptance_with_manifest h a = validated patch_acceptance_report_checks
     (a\<lparr>pa_baseline_inputs := with_manifest h (pa_baseline_inputs a),
        pa_revised_inputs := with_manifest h (pa_revised_inputs a)\<rparr>)"

definition bundle_with_manifest :: "sha256 \<Rightarrow> comparison_bundle \<Rightarrow> comparison_bundle result" where
  "bundle_with_manifest h b =
     rbind (regression_with_manifest h (cb_regression b)) (\<lambda>regression.
     rbind (acceptance_with_manifest h (cb_acceptance b)) (\<lambda>acceptance.
     rbind (metrics_with_manifest h (cb_baseline_metrics b)) (\<lambda>baseline.
     rbind (metrics_with_manifest h (cb_revised_metrics b)) (\<lambda>revised.
     validated comparison_bundle_checks
       \<lparr>cb_baseline_inputs = with_manifest h (cb_baseline_inputs b),
        cb_revised_inputs = with_manifest h (cb_revised_inputs b), cb_regression = regression,
        cb_acceptance = acceptance, cb_baseline_metrics = baseline, cb_revised_metrics = revised\<rparr>))))"

fun payload_with_manifest :: "sha256 \<Rightarrow> artifact_payload \<Rightarrow> artifact_payload result" where
  "payload_with_manifest h (EvaluationPayload r) =
     rbind (validated evaluation_report_checks (r\<lparr>er_inputs := with_manifest h (er_inputs r)\<rparr>))
       (\<lambda>r. Inr (EvaluationPayload r))"
| "payload_with_manifest h (FindingsPayload r) =
     rbind (validated finding_report_checks (r\<lparr>fr_inputs := with_manifest h (fr_inputs r)\<rparr>))
       (\<lambda>r. Inr (FindingsPayload r))"
| "payload_with_manifest h (MetricsPayload m) = rbind (metrics_with_manifest h m) (\<lambda>m. Inr (MetricsPayload m))"
| "payload_with_manifest h (RegressionPayload r) =
     rbind (regression_with_manifest h r) (\<lambda>r. Inr (RegressionPayload r))"
| "payload_with_manifest h (AcceptancePayload a) =
     rbind (acceptance_with_manifest h a) (\<lambda>a. Inr (AcceptancePayload a))"
| "payload_with_manifest h (BundlePayload b) = rbind (bundle_with_manifest h b) (\<lambda>b. Inr (BundlePayload b))"
| "payload_with_manifest h (ScorePayload s) =
     rbind (validated benchmark_score_checks (s\<lparr>bs_inputs := with_manifest h (bs_inputs s)\<rparr>))
       (\<lambda>s. Inr (ScorePayload s))"
| "payload_with_manifest h payload = Inr payload"

definition replay_manifest :: "(string \<Rightarrow> sha256) \<Rightarrow> run_record \<Rightarrow> ident \<Rightarrow> run_manifest result" where
  "replay_manifest sha source run_id =
     rbind (payload_hash sha (run_record_obj source)) (\<lambda>record_sha256.
     rbind (canonical_sha256 sha (PStr run_id)) (\<lambda>id_sha256.
     Inr ((rn_manifest source)\<lparr>rm_run_id := run_id,
            rm_manifest_id := ''replay-'' @ record_sha256 @ ''-'' @ take 32 id_sha256\<rparr>)))"

text \<open>The new envelopes so far, and the dictionary from old digests to them.\<close>

type_synonym rebasing = "artifact_envelope list \<times> (sha256 \<times> artifact_envelope) list"

definition rebase_artifact ::
  "(string \<Rightarrow> sha256) \<Rightarrow> run_manifest \<Rightarrow> sha256 \<Rightarrow> artifact_envelope \<Rightarrow> rebasing \<Rightarrow> rebasing result" where
  "rebase_artifact sha manifest manifest_sha256 original st =
     rbind (if ae_artifact_type original = RunManifestArtifact then Inr (ManifestPayload manifest)
            else payload_with_manifest manifest_sha256 (ae_payload original)) (\<lambda>payload.
     rbind (traverse (lookup (snd st)) (ae_parent_hashes original)) (\<lambda>parents.
     rbind (make_artifact_envelope sha (ae_artifact_type original) payload (map envelope_ref parents)
              (rm_manifest_id manifest)) (\<lambda>replay.
     Inr (fst st @ [replay], AList.update (ae_artifact_sha256 original) replay (snd st)))))"

definition rebase_event :: "(sha256 \<times> artifact_envelope) list \<Rightarrow> run_event \<Rightarrow> run_event result" where
  "rebase_event mapping event =
     (case ev_artifact event of None \<Rightarrow> Inr event
      | Some ref \<Rightarrow> rbind (lookup mapping (ar_artifact_sha256 ref)) (\<lambda>e.
          Inr (event\<lparr>ev_artifact := Some (envelope_ref e)\<rparr>)))"

definition rebase_cached_record :: "(string \<Rightarrow> sha256) \<Rightarrow> run_record \<Rightarrow> ident \<Rightarrow> run_record result" where
  "rebase_cached_record sha source run_id =
     rbind (validate_cached_record sha source) (\<lambda>source.
     rbind (replay_manifest sha source run_id) (\<lambda>manifest.
     rbind (digest_of sha (ManifestPayload manifest)) (\<lambda>manifest_sha256.
     rbind (rfold (rebase_artifact sha manifest manifest_sha256) (rn_artifacts source) ([], [])) (\<lambda>(artifacts, mapping).
     rbind (traverse (rebase_event mapping) (rn_events source)) (\<lambda>events.
     rbind (validated run_record_checks
       (source\<lparr>rn_run_id := run_id, rn_manifest := manifest, rn_artifacts := artifacts, rn_events := events\<rparr>)) (\<lambda>r.
     validate_cached_record sha r))))))"

subsection \<open>Creating a cached run\<close>

text \<open>\<open>StoredRun.model_validate(record.model_dump() | ...)\<close>: the fields of a stored run have their defaults.\<close>

definition stored_of :: "run_record \<Rightarrow> stored_run" where
  "stored_of r = run_record.extend r (stored_run.fields 0 None None)"

definition workflow_failure :: "error_code \<Rightarrow> string \<Rightarrow> 'a prog" where
  "workflow_failure code message = Throw (WorkflowExc (PlainError (fixed_error code message False)))"

definition invalid_recording :: "'a prog" where
  "invalid_recording = workflow_failure HASH_MISMATCH ''Recorded demonstration could not be validated.''"

definition create_cached_run ::
  "(string \<Rightarrow> sha256) \<Rightarrow> (create_run_request \<Rightarrow> run_record reply) option \<Rightarrow> ident set \<Rightarrow> ident \<Rightarrow> create_run_request
   \<Rightarrow> ident set \<times> ident prog" where
  "create_cached_run sha cached_loader used run_id command =
     (if cq_source_type command \<noteq> BundledSample
      then (used, workflow_failure INVALID_INPUT
        ''Custom pasted policies require APP_MODE=live with a configured model provider. Cached mode only runs the bundled development-policy sample.'')
      else (case cached_loader of
        None \<Rightarrow> (used, workflow_failure PROVIDER_UNAVAILABLE ''Recorded demonstration is unavailable.'')
      | Some load \<Rightarrow>
          (case ebind (load command) (\<lambda>r. from_python (validate_cached_record sha r)) of
             Inl CancelledExc \<Rightarrow> (used, Throw CancelledExc)
           | Inl e \<Rightarrow> (used, invalid_recording)
           | Inr r \<Rightarrow>
               if run_id = rn_run_id r \<or> run_id \<in> used then (used, Throw (WorkflowExc (InvalidRunCommand None [])))
               else (case rebase_cached_record sha r run_id of
                  Inl e \<Rightarrow> (used, invalid_recording)
                | Inr replay \<Rightarrow>
                    (insert run_id used, StoreCreate (stored_of replay) (\<lambda>m. perform m (\<lambda>_. Done run_id)))))))"

definition create_run_handler ::
  "(string \<Rightarrow> sha256) \<Rightarrow> services \<Rightarrow> (create_run_request \<Rightarrow> run_record reply) option \<Rightarrow> ident set \<Rightarrow> ident \<Rightarrow> create_run_request
   \<Rightarrow> ident set \<times> ident prog" where
  "create_run_handler sha sv cached_loader used run_id command =
     (case command_of create_run_checks command of
        Inl e \<Rightarrow> (used, Throw e)
      | Inr command \<Rightarrow>
          if sv_recording_demo sv \<and> \<not> demo_command command
          then (used, Throw (WorkflowExc (InvalidRunCommand None [])))
          else if sv_mode sv = Cached \<and> \<not> sv_recording_demo sv
          then create_cached_run sha cached_loader used run_id command
          else create_live_run sha sv used run_id command)"

end
