(* ===== verification/Replay_Meaning.thy ===== *)
theory Replay_Meaning
  imports Cache_Replay
begin

section \<open>What a replay keeps\<close>

text \<open>
  A recorded run that is accepted is a grounded graph: every artifact is authentic, refers to earlier
  artifacts only and agrees with them. Rebasing gives a graph of the same shape with the same policies,
  contracts, suites and proposals, in which only the anchors of the manifest moved.
\<close>

subsection \<open>Grounded graphs\<close>

definition grounded_payload ::
  "(string \<Rightarrow> sha256) \<Rightarrow> run_manifest \<Rightarrow> artifact_payload list \<Rightarrow> artifact_payload \<Rightarrow> bool" where
  "grounded_payload sha manifest earlier payload \<longleftrightarrow>
     (case payload of
        ManifestPayload m \<Rightarrow> m = manifest
      | PolicyPayload p \<Rightarrow> (\<exists>d. DocumentPayload d \<in> set earlier \<and> pd_document_sha256 d = pi_document_sha256 p)
      | ContractPayload c \<Rightarrow> (\<forall>x \<in> set earlier. as_contract x = None)
      | SuitePayload s \<Rightarrow> (\<forall>x \<in> set earlier. as_suite x = None)
          \<and> (\<exists>p c. PolicyPayload p \<in> set earlier \<and> ContractPayload c \<in> set earlier
               \<and> validate_suite sha s p c manifest None None = Inr s)
      | EvaluationPayload r \<Rightarrow>
          (\<exists>p c s request. PolicyPayload p \<in> set earlier \<and> ContractPayload c \<in> set earlier \<and> SuitePayload s \<in> set earlier
             \<and> input_hashes_of sha p c s manifest = Inr (er_inputs r)
             \<and> ep_policy request = p \<and> ep_contract request = c \<and> ep_suite request = s
             \<and> validate_evaluation sha r request = Inr r)
      | FindingsPayload f \<Rightarrow>
          (\<exists>p c r. PolicyPayload p \<in> set earlier \<and> ContractPayload c \<in> set earlier \<and> EvaluationPayload r \<in> set earlier
             \<and> er_inputs r = fr_inputs f \<and> validate_findings f r p c True = Inr f)
      | MetricsPayload m \<Rightarrow>
          (\<exists>r f. EvaluationPayload r \<in> set earlier \<and> FindingsPayload f \<in> set earlier
             \<and> er_inputs r = mr_inputs m \<and> fr_inputs f = mr_inputs m \<and> validate_metrics m r f = Inr m)
      | ProposalPayload p \<Rightarrow>
          (\<exists>policy f s request. PolicyPayload policy \<in> set earlier \<and> FindingsPayload f \<in> set earlier \<and> SuitePayload s \<in> set earlier
             \<and> set (rp_accepted_finding_ids p) \<subseteq> set (map fd_finding_id (reviewable_findings f s))
             \<and> prq_policy request = policy \<and> validate_proposal p request = Inr p)
      | RegressionPayload r \<Rightarrow>
          {rr_baseline_inputs r, rr_revised_inputs r} \<subseteq> {er_inputs e |e. EvaluationPayload e \<in> set earlier}
      | AcceptancePayload r \<Rightarrow>
          {pa_baseline_inputs r, pa_revised_inputs r} \<subseteq> {er_inputs e |e. EvaluationPayload e \<in> set earlier}
      | BundlePayload b \<Rightarrow>
          (\<exists>request. {PolicyPayload (crq_baseline_policy request), PolicyPayload (crq_revised_policy request),
               EvaluationPayload (crq_baseline_evaluation request), EvaluationPayload (crq_revised_evaluation request),
               ProposalPayload (crq_proposal request)} \<subseteq> set earlier
             \<and> validate_comparison_bundle b request = Inr b)
      | _ \<Rightarrow> True)"

definition grounded ::
  "(string \<Rightarrow> sha256) \<Rightarrow> run_manifest \<Rightarrow> artifact_envelope list \<Rightarrow> artifact_envelope \<Rightarrow> bool" where
  "grounded sha manifest earlier e \<longleftrightarrow>
     validate_artifact_envelope sha e = Inr e \<and> ae_run_manifest_id e = rm_manifest_id manifest
     \<and> set (ae_parent_hashes e) \<subseteq> ae_artifact_sha256 ` set earlier
     \<and> grounded_payload sha manifest (map ae_payload earlier) (ae_payload e)"

fun grounded_graph :: "(string \<Rightarrow> sha256) \<Rightarrow> run_manifest \<Rightarrow> artifact_envelope list \<Rightarrow> artifact_envelope list \<Rightarrow> bool" where
  "grounded_graph sha manifest earlier [] \<longleftrightarrow> True"
| "grounded_graph sha manifest earlier (e # es) \<longleftrightarrow>
     grounded sha manifest earlier e \<and> grounded_graph sha manifest (earlier @ [e]) es"

subsection \<open>The state of the reading\<close>

definition read_well :: "artifact_envelope list \<Rightarrow> replay_state \<Rightarrow> bool" where
  "read_well earlier st \<longleftrightarrow> cr_payloads st = earlier
     \<and> set (keys (cr_seen st)) = ae_artifact_sha256 ` set earlier
     \<and> set (map snd (cr_seen st)) \<subseteq> set earlier
     \<and> (\<forall>h a. map_of (cr_seen st) h = Some a \<longrightarrow> ae_artifact_sha256 a = h)
     \<and> map ManifestPayload (cr_manifests st) = filter (\<lambda>x. case x of ManifestPayload m \<Rightarrow> True | _ \<Rightarrow> False) (map ae_payload earlier)
     \<and> (cr_suite st = None \<longrightarrow> (\<forall>a \<in> set earlier. as_suite (ae_payload a) = None))
     \<and> (cr_contract st = None \<longrightarrow> (\<forall>a \<in> set earlier. as_contract (ae_payload a) = None))"

lemma first_payload_SomeD:
  assumes "first_payload f P es = Some x"
  obtains e where "e \<in> set es" and "f (ae_payload e) = Some x" and "P e"
  using assms by (auto simp: first_payload_def dest!: find_SomeD split: option.splits)

lemma seen_payload_SomeD:
  assumes "seen_payload f st h = Some x" and "read_well earlier st"
  obtains e where "e \<in> set earlier" and "f (ae_payload e) = Some x"
proof -
  obtain a where a: "map_of (cr_seen st) h = Some a" "f (ae_payload a) = Some x"
    using assms(1) by (auto simp: seen_payload_def split: option.splits)
  have "a \<in> set (map snd (cr_seen st))" using map_of_SomeD [OF a(1)] by force
  then show ?thesis using a(2) assms(2) that by (auto simp: read_well_def)
qed

lemma require_some_Inr [simp]: "require_some x = Inr y \<longleftrightarrow> x = Some y" "request_field x = Inr y \<longleftrightarrow> x = Some y"
  by (simp_all add: require_some_def request_field_def split: option.splits)

lemma or_error: "(case x of None \<Rightarrow> Inl e | Some y \<Rightarrow> Inr y) = Inr z \<longleftrightarrow> x = Some z"
  by (simp split: option.splits)

lemma class_SomeD:
  "as_policy x = Some p \<Longrightarrow> x = PolicyPayload p" "as_contract x = Some c \<Longrightarrow> x = ContractPayload c"
  "as_suite x = Some s \<Longrightarrow> x = SuitePayload s" "as_evaluation x = Some r \<Longrightarrow> x = EvaluationPayload r"
  "as_findings x = Some f \<Longrightarrow> x = FindingsPayload f" "as_proposal x = Some q \<Longrightarrow> x = ProposalPayload q"
  by (cases x; simp)+

text \<open>What is found was read before.\<close>

lemma found_earlier:
  assumes "read_well earlier st"
  shows "policy_by_semantics st h = Some p \<Longrightarrow> PolicyPayload p \<in> set (map ae_payload earlier)"
    and "seen_payload as_policy st h = Some p \<Longrightarrow> PolicyPayload p \<in> set (map ae_payload earlier)"
    and "seen_payload as_contract st h = Some c \<Longrightarrow> ContractPayload c \<in> set (map ae_payload earlier)"
    and "seen_payload as_suite st h = Some s \<Longrightarrow> SuitePayload s \<in> set (map ae_payload earlier)"
    and "first_payload as_proposal P (rev (cr_payloads st)) = Some q \<Longrightarrow> ProposalPayload q \<in> set (map ae_payload earlier)"
    and "first_payload as_evaluation (\<lambda>a. payload_inputs (ae_payload a) = Some i) (rev (cr_payloads st)) = Some r \<Longrightarrow>
      EvaluationPayload r \<in> set (map ae_payload earlier) \<and> er_inputs r = i"
    and "first_payload as_findings (\<lambda>a. payload_inputs (ae_payload a) = Some i) (rev (cr_payloads st)) = Some f \<Longrightarrow>
      FindingsPayload f \<in> set (map ae_payload earlier) \<and> fr_inputs f = i"
    and "first_payload as_findings P (rev (cr_payloads st)) = Some f \<Longrightarrow> FindingsPayload f \<in> set (map ae_payload earlier)"
proof -
  have read: "cr_payloads st = earlier" "set (map snd (cr_seen st)) \<subseteq> set earlier"
    using assms by (simp_all add: read_well_def)
  show "policy_by_semantics st h = Some p \<Longrightarrow> PolicyPayload p \<in> set (map ae_payload earlier)"
    using read(2) by (force simp: policy_by_semantics_def elim!: first_payload_SomeD dest!: class_SomeD)
  show "seen_payload as_policy st h = Some p \<Longrightarrow> PolicyPayload p \<in> set (map ae_payload earlier)"
    by (erule seen_payload_SomeD [OF _ assms]) (force dest: class_SomeD)
  show "seen_payload as_contract st h = Some c \<Longrightarrow> ContractPayload c \<in> set (map ae_payload earlier)"
    by (erule seen_payload_SomeD [OF _ assms]) (force dest: class_SomeD)
  show "seen_payload as_suite st h = Some s \<Longrightarrow> SuitePayload s \<in> set (map ae_payload earlier)"
    by (erule seen_payload_SomeD [OF _ assms]) (force dest: class_SomeD)
  show "first_payload as_proposal P (rev (cr_payloads st)) = Some q \<Longrightarrow> ProposalPayload q \<in> set (map ae_payload earlier)"
    unfolding read(1) by (erule first_payload_SomeD) (force dest: class_SomeD)
  show "first_payload as_evaluation (\<lambda>a. payload_inputs (ae_payload a) = Some i) (rev (cr_payloads st)) = Some r \<Longrightarrow>
      EvaluationPayload r \<in> set (map ae_payload earlier) \<and> er_inputs r = i"
    unfolding read(1) by (erule first_payload_SomeD) (force dest: class_SomeD)
  show "first_payload as_findings (\<lambda>a. payload_inputs (ae_payload a) = Some i) (rev (cr_payloads st)) = Some f \<Longrightarrow>
      FindingsPayload f \<in> set (map ae_payload earlier) \<and> fr_inputs f = i"
    unfolding read(1) by (erule first_payload_SomeD) (force dest: class_SomeD)
  show "first_payload as_findings P (rev (cr_payloads st)) = Some f \<Longrightarrow> FindingsPayload f \<in> set (map ae_payload earlier)"
    unfolding read(1) by (erule first_payload_SomeD) (force dest: class_SomeD)
qed

subsection \<open>One artifact\<close>

lemma validators_return:
  "validate_suite sha x p c m i n = Inr x' \<Longrightarrow> x' = x"
  "validate_evaluation sha r q = Inr r' \<Longrightarrow> r' = r"
  "validate_findings f r p c b = Inr f' \<Longrightarrow> f' = f"
  "validate_metrics t r f = Inr t' \<Longrightarrow> t' = t"
  "validate_proposal a w = Inr a' \<Longrightarrow> a' = a"
  "validate_comparison_bundle d z = Inr d' \<Longrightarrow> d' = d"
  by (auto simp: validate_suite_def validate_evaluation_def validate_findings_def validate_metrics_def validate_proposal_def
      validate_comparison_bundle_def rbind_Inr_iff validated_Inr_iff Let_def)

lemma grounded_suite:
  assumes "read_well earlier st" and "check_recorded_suite sha manifest st parents x = Inr ()"
  shows "grounded_payload sha manifest (map ae_payload earlier) (SuitePayload x)"
proof -
  obtain p c where pc: "cr_suite st = None" "policy_by_semantics st (ss_rule_set_sha256 x) = Some p"
    "seen_payload as_contract st (ss_policy_contract_sha256 x) = Some c" "\<exists>y. validate_suite sha x p c manifest None None = Inr y"
    using assms(2) by (auto simp: check_recorded_suite_def rbind_Inr_iff simp del: digest_of_value)
  then have "validate_suite sha x p c manifest None None = Inr x" using validators_return(1) by metis
  moreover have "\<forall>y \<in> set (map ae_payload earlier). as_suite y = None" using assms(1) pc(1) by (auto simp: read_well_def)
  ultimately show ?thesis
    using found_earlier(1) [OF assms(1) pc(2)] found_earlier(3) [OF assms(1) pc(3)] by (auto simp: grounded_payload_def)
qed

lemma grounded_report:
  assumes "read_well earlier st" and "check_recorded_report sha manifest st parents payload inputs = Inr ()"
    and "payload = EvaluationPayload r \<and> inputs = er_inputs r \<or> payload = FindingsPayload f \<and> inputs = fr_inputs f
      \<or> payload = MetricsPayload t \<and> inputs = mr_inputs t"
  shows "grounded_payload sha manifest (map ae_payload earlier) payload"
proof -
  obtain p c s where pcs: "seen_payload as_policy st (ih_policy_sha256 inputs) = Some p"
    "seen_payload as_contract st (ih_contract_sha256 inputs) = Some c" "seen_payload as_suite st (ih_suite_sha256 inputs) = Some s"
    "input_hashes_of sha p c s manifest = Inr inputs"
    and result: "check_recorded_result sha st parents p c s manifest payload inputs = Inr ()"
    using assms(2) by (auto simp: check_recorded_report_def rbind_Inr_iff simp del: digest_of_value)
  note known = found_earlier(2) [OF assms(1) pcs(1)] found_earlier(3) [OF assms(1) pcs(2)] found_earlier(4) [OF assms(1) pcs(3)]
  from assms(3) show ?thesis
  proof (elim disjE conjE)
    assume k: "payload = EvaluationPayload r" "inputs = er_inputs r"
    define q where "q = \<lparr>ep_policy = p, ep_contract = c, ep_suite = s, ep_inputs = inputs,
      ep_engine_version = rm_engine_version manifest\<rparr>"
    have "\<exists>r'. validate_evaluation sha r q = Inr r'"
      using result unfolding k check_recorded_result_def artifact_payload.case q_def
      by (auto simp: rbind_Inr_iff validated_Inr_iff)
    then have q: "ep_policy q = p" "ep_contract q = c" "ep_suite q = s" "validate_evaluation sha r q = Inr r"
      using validators_return(2) by (force simp: q_def)+
    show ?thesis
      unfolding k(1) grounded_payload_def artifact_payload.case
      using known pcs(4) q unfolding k(2) by blast
  next
    assume k: "payload = FindingsPayload f" "inputs = fr_inputs f"
    then obtain e where e: "first_payload as_evaluation (\<lambda>a. payload_inputs (ae_payload a) = Some inputs) (rev (cr_payloads st)) = Some e"
      "\<exists>f'. validate_findings f e p c True = Inr f'"
      using result by (auto simp: check_recorded_result_def rbind_Inr_iff simp del: digest_of_value)
    have "validate_findings f e p c True = Inr f" using e(2) validators_return(3) by blast
    then show ?thesis
      unfolding k(1) grounded_payload_def artifact_payload.case
      using known(1,2) found_earlier(6) [OF assms(1) e(1)] k(2) by blast
  next
    assume k: "payload = MetricsPayload t" "inputs = mr_inputs t"
    then obtain e g where e: "first_payload as_evaluation (\<lambda>a. payload_inputs (ae_payload a) = Some inputs) (rev (cr_payloads st)) = Some e"
      "first_payload as_findings (\<lambda>a. payload_inputs (ae_payload a) = Some inputs) (rev (cr_payloads st)) = Some g"
      "\<exists>t'. validate_metrics t e g = Inr t'"
      using result by (auto simp: check_recorded_result_def rbind_Inr_iff simp del: digest_of_value)
    have "validate_metrics t e g = Inr t" using e(3) validators_return(4) by blast
    then show ?thesis
      unfolding k(1) grounded_payload_def artifact_payload.case
      using found_earlier(6) [OF assms(1) e(1)] found_earlier(7) [OF assms(1) e(2)] unfolding k(2)
      by (intro exI [of _ e] exI [of _ g]) simp
  qed
qed

lemma grounded_proposal:
  assumes "read_well earlier st" and "check_recorded_proposal sha decisions st x = Inr ()"
  shows "grounded_payload sha manifest (map ae_payload earlier) (ProposalPayload x)"
proof -
  obtain p f s where pfs: "policy_by_semantics st (rp_rule_set_sha256 x) = Some p"
    "\<exists>P. first_payload as_findings P (rev (cr_payloads st)) = Some f" "seen_payload as_suite st (rp_suite_sha256 x) = Some s"
    "set (rp_accepted_finding_ids x) \<subseteq> set (map fd_finding_id (reviewable_findings f s))"
    and "\<exists>g ds c' r t u x'. validate_proposal x \<lparr>prq_policy = p, prq_contract = c', prq_suite = s, prq_findings = g,
      prq_decisions = ds, prq_document_sha256 = pi_document_sha256 p, prq_rule_set_sha256 = r,
      prq_policy_contract_sha256 = t, prq_suite_sha256 = u\<rparr> = Inr x'"
    using assms(2)
    by (auto simp: check_recorded_proposal_def rbind_Inr_iff validated_Inr_iff or_error simp del: digest_of_value) blast
  then obtain request x' where q: "prq_policy request = p" "validate_proposal x request = Inr x'" by force
  then have q: "prq_policy request = p" "validate_proposal x request = Inr x" using validators_return(5) by blast+
  have "FindingsPayload f \<in> set (map ae_payload earlier)" using pfs(2) found_earlier(8) [OF assms(1)] by blast
  then show ?thesis
    unfolding grounded_payload_def artifact_payload.case
    using found_earlier(1) [OF assms(1) pfs(1)] found_earlier(4) [OF assms(1) pfs(3)] pfs(4) q by blast
qed

lemma grounded_bundle:
  assumes "read_well earlier st" and "check_recorded_bundle sha manifest st x = Inr ()"
  shows "grounded_payload sha manifest (map ae_payload earlier) (BundlePayload x)"
proof -
  let ?e = "cb_baseline_inputs x" and ?a = "cb_revised_inputs x"
  obtain q p p' r r' where
    found: "first_payload as_proposal (\<lambda>a. True) (rev (cr_payloads st)) = Some q"
      "seen_payload as_policy st (ih_policy_sha256 ?e) = Some p" "seen_payload as_policy st (ih_policy_sha256 ?a) = Some p'"
      "first_payload as_evaluation (\<lambda>a. payload_inputs (ae_payload a) = Some ?e) (rev (cr_payloads st)) = Some r"
      "first_payload as_evaluation (\<lambda>a. payload_inputs (ae_payload a) = Some ?a) (rev (cr_payloads st)) = Some r'"
    and "\<exists>c s f f' x'. validate_comparison_bundle x \<lparr>crq_baseline_policy = p, crq_revised_policy = p', crq_contract = c,
         crq_suite = s, crq_proposal = q, crq_baseline_evaluation = r, crq_revised_evaluation = r',
         crq_baseline_findings = f, crq_revised_findings = f'\<rparr> = Inr x'"
    using assms(2)
    by (auto simp: check_recorded_bundle_def Let_def rbind_Inr_iff validated_Inr_iff simp del: digest_of_value) blast
  then obtain request x' where request: "crq_baseline_policy request = p" "crq_revised_policy request = p'"
      "crq_proposal request = q" "crq_baseline_evaluation request = r" "crq_revised_evaluation request = r'"
    and x': "validate_comparison_bundle x request = Inr x'"
    by force
  have "validate_comparison_bundle x request = Inr x" using x' validators_return(6) [OF x'] by simp
  then show ?thesis
    unfolding grounded_payload_def artifact_payload.case
    using found_earlier(5) [OF assms(1) found(1)] found_earlier(2) [OF assms(1) found(2)]
      found_earlier(2) [OF assms(1) found(3)] found_earlier(6) [OF assms(1) found(4)] found_earlier(6) [OF assms(1) found(5)] request(1-5)
    by (intro exI [of _ request]) auto
qed

lemma grounded_policy:
  assumes "read_well earlier st" and "check_recorded_policy st p = Inr ()"
  shows "grounded_payload sha manifest (map ae_payload earlier) (PolicyPayload p)"
proof -
  obtain h e where "(h, e) \<in> set (cr_seen st)"
    and doc: "case ae_payload e of DocumentPayload d \<Rightarrow> pd_document_sha256 d = pi_document_sha256 p | _ \<Rightarrow> False"
    using assms(2) by (auto simp: check_recorded_policy_def list_ex_iff)
  then have "e \<in> set (map snd (cr_seen st))" by force
  then have e: "ae_payload e \<in> set (map ae_payload earlier)" using assms(1) by (auto simp: read_well_def)
  obtain d where d: "ae_payload e = DocumentPayload d" "pd_document_sha256 d = pi_document_sha256 p"
    using doc by (cases "ae_payload e") auto
  show ?thesis unfolding grounded_payload_def artifact_payload.case using e [unfolded d(1)] d(2) by blast
qed

lemma comparison_part_evaluated:
  assumes "read_well earlier st" and "check_recorded_comparison_part sha manifest st both = Inr ()"
  shows "set both \<subseteq> {er_inputs e |e. EvaluationPayload e \<in> set (map ae_payload earlier)}"
  using assms(2) unfolding check_recorded_comparison_part_def
proof (induction both)
  case (Cons i both)
  have "list_ex (\<lambda>a. as_evaluation (ae_payload a) \<noteq> None \<and> payload_inputs (ae_payload a) = Some i) earlier"
    using Cons.prems assms(1) by (simp add: rbind_Inr_iff read_well_def)
  then obtain a r where "a \<in> set earlier" "as_evaluation (ae_payload a) = Some r" "payload_inputs (ae_payload a) = Some i"
    by (auto simp: list_ex_iff)
  then have "EvaluationPayload r \<in> set (map ae_payload earlier) \<and> er_inputs r = i" by (force dest!: class_SomeD)
  then have "i \<in> {er_inputs e |e. EvaluationPayload e \<in> set (map ae_payload earlier)}" by blast
  then show ?case using Cons by (simp add: rbind_Inr_iff)
qed simp

text \<open>One step of the reading.\<close>

lemma payload_step:
  assumes read: "read_well earlier st" and step: "check_recorded_payload sha manifest ds parents payload st = Inr st'"
  shows "grounded_payload sha manifest (map ae_payload earlier) payload"
    and "cr_seen st' = cr_seen st" and "cr_payloads st' = cr_payloads st"
    and "map ManifestPayload (cr_manifests st')
      = map ManifestPayload (cr_manifests st) @ filter (\<lambda>x. case x of ManifestPayload m \<Rightarrow> True | _ \<Rightarrow> False) [payload]"
    and "cr_suite st' = (case as_suite payload of None \<Rightarrow> cr_suite st | Some s \<Rightarrow> Some s)"
    and "cr_contract st' = (case as_contract payload of None \<Rightarrow> cr_contract st | Some c \<Rightarrow> Some c)"
proof -
  show "grounded_payload sha manifest (map ae_payload earlier) payload"
  proof (cases payload)
    case (ContractPayload c)
    then show ?thesis using step read by (auto simp: check_recorded_payload_def rbind_Inr_iff grounded_payload_def read_well_def)
  next
    case (RegressionPayload r)
    have "check_recorded_comparison_part sha manifest st [rr_baseline_inputs r, rr_revised_inputs r] = Inr ()"
      using step RegressionPayload by (auto simp: check_recorded_payload_def rbind_Inr_iff)
    from comparison_part_evaluated [OF read this] show ?thesis by (simp add: RegressionPayload grounded_payload_def)
  next
    case (AcceptancePayload r)
    have "check_recorded_comparison_part sha manifest st [pa_baseline_inputs r, pa_revised_inputs r] = Inr ()"
      using step AcceptancePayload by (auto simp: check_recorded_payload_def rbind_Inr_iff)
    from comparison_part_evaluated [OF read this] show ?thesis by (simp add: AcceptancePayload grounded_payload_def)
  next
    case (EvaluationPayload r)
    then have "check_recorded_report sha manifest st parents payload (er_inputs r) = Inr ()"
      using step by (auto simp: check_recorded_payload_def rbind_Inr_iff)
    then show ?thesis using grounded_report [OF read] EvaluationPayload by blast
  next
    case (FindingsPayload r)
    then have "check_recorded_report sha manifest st parents payload (fr_inputs r) = Inr ()"
      using step by (auto simp: check_recorded_payload_def rbind_Inr_iff)
    then show ?thesis using grounded_report [OF read] FindingsPayload by blast
  next
    case (MetricsPayload r)
    then have "check_recorded_report sha manifest st parents payload (mr_inputs r) = Inr ()"
      using step by (auto simp: check_recorded_payload_def rbind_Inr_iff)
    then show ?thesis using grounded_report [OF read] MetricsPayload by blast
  next
    case (PolicyPayload p)
    then have "check_recorded_policy st p = Inr ()" using step by (auto simp: check_recorded_payload_def rbind_Inr_iff)
    then show ?thesis using grounded_policy [OF read] PolicyPayload by blast
  next
    case (SuitePayload x)
    then have "check_recorded_suite sha manifest st parents x = Inr ()"
      using step by (auto simp: check_recorded_payload_def rbind_Inr_iff)
    then show ?thesis using grounded_suite [OF read] SuitePayload by blast
  next
    case (ProposalPayload x)
    then have "check_recorded_proposal sha ds st x = Inr ()"
      using step by (auto simp: check_recorded_payload_def rbind_Inr_iff)
    then show ?thesis using grounded_proposal [OF read] ProposalPayload by blast
  next
    case (BundlePayload x)
    then have "check_recorded_bundle sha manifest st x = Inr ()"
      using step by (auto simp: check_recorded_payload_def rbind_Inr_iff)
    then show ?thesis using grounded_bundle [OF read] BundlePayload by blast
  qed (use step in \<open>auto simp: check_recorded_payload_def rbind_Inr_iff grounded_payload_def\<close>)
  have fields: "cr_seen st' = cr_seen st \<and> cr_payloads st' = cr_payloads st
    \<and> map ManifestPayload (cr_manifests st')
      = map ManifestPayload (cr_manifests st) @ filter (\<lambda>x. case x of ManifestPayload m \<Rightarrow> True | _ \<Rightarrow> False) [payload]
    \<and> cr_suite st' = (case as_suite payload of None \<Rightarrow> cr_suite st | Some s \<Rightarrow> Some s)
    \<and> cr_contract st' = (case as_contract payload of None \<Rightarrow> cr_contract st | Some c \<Rightarrow> Some c)"
    using step by (cases payload) (auto simp: check_recorded_payload_def rbind_Inr_iff)
  then show "cr_seen st' = cr_seen st" and "cr_payloads st' = cr_payloads st"
    and "map ManifestPayload (cr_manifests st')
      = map ManifestPayload (cr_manifests st) @ filter (\<lambda>x. case x of ManifestPayload m \<Rightarrow> True | _ \<Rightarrow> False) [payload]"
    and "cr_suite st' = (case as_suite payload of None \<Rightarrow> cr_suite st | Some s \<Rightarrow> Some s)"
    and "cr_contract st' = (case as_contract payload of None \<Rightarrow> cr_contract st | Some c \<Rightarrow> Some c)"
    by blast+
qed

lemma snd_update_subset: "set (map snd (AList.update k v d)) \<subseteq> insert v (set (map snd d))"
  by (induction d) (auto split: if_splits)

lemma artifact_step:
  assumes read: "read_well earlier st" and step: "check_recorded_artifact sha manifest ds e st = Inr st'"
  shows "grounded sha manifest earlier e" and "read_well (earlier @ [e]) st'"
proof -
  obtain e' st1 where e': "validate_artifact_envelope sha e = Inr e'" "ae_run_manifest_id e' = rm_manifest_id manifest"
    "set (ae_parent_hashes e') \<subseteq> set (keys (cr_seen st))"
    and one: "check_recorded_payload sha manifest ds (ae_parent_hashes e') (ae_payload e') st = Inr st1"
    and st': "st' = st1\<lparr>cr_seen := AList.update (ae_artifact_sha256 e') e' (cr_seen st1), cr_payloads := cr_payloads st1 @ [e']\<rparr>"
    using step by (auto simp: check_recorded_artifact_def rbind_Inr_iff)
  have same: "e' = e" using e'(1) by (auto simp: validate_artifact_envelope_def rbind_Inr_iff validated_Inr_iff simp del: digest_of_value)
  note effect = payload_step [OF read one [unfolded same]]
  show "grounded sha manifest earlier e"
    using e' effect(1) read unfolding same by (auto simp: grounded_def read_well_def)
  have "set (map snd (cr_seen st)) \<subseteq> set earlier" using read by (simp add: read_well_def)
  then have "set (map snd (AList.update (ae_artifact_sha256 e) e (cr_seen st))) \<subseteq> set (earlier @ [e])"
    by (intro order_trans [OF snd_update_subset]) auto
  moreover have "set (keys (AList.update (ae_artifact_sha256 e) e (cr_seen st))) = ae_artifact_sha256 ` set (earlier @ [e])"
    using read by (auto simp: read_well_def keys_def dom_update)
  moreover have "map_of (AList.update (ae_artifact_sha256 e) e (cr_seen st)) h = Some a \<Longrightarrow> ae_artifact_sha256 a = h" for h a
    using read by (auto simp: read_well_def update_conv' split: if_splits)
  moreover have "map ManifestPayload (cr_manifests st1)
      = filter (\<lambda>x. case x of ManifestPayload m \<Rightarrow> True | _ \<Rightarrow> False) (map ae_payload (earlier @ [e]))"
    using read unfolding effect(4) read_well_def by (elim conjE) (simp only: map_append filter_append list.map)
  moreover have "cr_suite st1 = None \<longrightarrow> (\<forall>a \<in> set (earlier @ [e]). as_suite (ae_payload a) = None)"
    using read unfolding effect(5) read_well_def by (auto split: option.splits)
  moreover have "cr_contract st1 = None \<longrightarrow> (\<forall>a \<in> set (earlier @ [e]). as_contract (ae_payload a) = None)"
    using read unfolding effect(6) read_well_def by (auto split: option.splits)
  moreover have fields: "cr_seen st' = AList.update (ae_artifact_sha256 e) e (cr_seen st)" "cr_payloads st' = cr_payloads st @ [e]"
    "cr_manifests st' = cr_manifests st1" "cr_suite st' = cr_suite st1" "cr_contract st' = cr_contract st1"
    by (simp_all add: st' same effect(2,3))
  moreover have "cr_payloads st = earlier" using read by (simp add: read_well_def)
  ultimately show "read_well (earlier @ [e]) st'" unfolding read_well_def fields by blast
qed

lemma artifacts_step:
  assumes "read_well earlier st" and "rfold (check_recorded_artifact sha manifest ds) es st = Inr st'"
  shows "grounded_graph sha manifest earlier es \<and> read_well (earlier @ es) st'"
  using assms
proof (induction es arbitrary: earlier st)
  case (Cons e es)
  from Cons.prems(2) obtain st1 where "check_recorded_artifact sha manifest ds e st = Inr st1"
    and rest: "rfold (check_recorded_artifact sha manifest ds) es st1 = Inr st'" by (auto simp: rbind_Inr_iff)
  from artifact_step [OF Cons.prems(1) this(1)] Cons.IH [OF _ rest] show ?case by fastforce
qed simp

lemma new_read_well [simp]: "read_well [] new_replay_state"
  by (simp add: read_well_def new_replay_state_def keys_def)

subsection \<open>A whole recorded run\<close>

definition manifests_of :: "artifact_envelope list \<Rightarrow> artifact_payload list" where
  "manifests_of es = filter (\<lambda>x. case x of ManifestPayload m \<Rightarrow> True | _ \<Rightarrow> False) (map ae_payload es)"

lemma recorded_event_anchored:
  assumes "read_well es st" and "check_recorded_event st v" and "ev_artifact v = Some ref"
  shows "ref \<in> envelope_ref ` set es"
proof -
  obtain e where e: "map_of (cr_seen st) (ar_artifact_sha256 ref) = Some e" "ae_semantic_sha256 e = ar_semantic_sha256 ref"
    "ae_artifact_type e = ar_artifact_type ref"
    using assms(2,3) by (auto simp: check_recorded_event_def split: option.splits)
  have "e \<in> set (map snd (cr_seen st))" using map_of_SomeD [OF e(1)] by force
  moreover have "ae_artifact_sha256 e = ar_artifact_sha256 ref" using assms(1) e(1) by (simp add: read_well_def)
  ultimately show ?thesis
    using assms(1) e(2,3) by (intro image_eqI [of _ _ e]) (auto simp: envelope_ref_def read_well_def)
qed

lemma recorded_run_read:
  assumes "validate_cached_record sha r = Inr r'"
  shows "r' = r" and "valid_by run_record_checks r" and "rm_mode (rn_manifest r) = Cached" and "rn_stage r \<in> ended_stages"
    and "grounded_graph sha (rn_manifest r) [] (rn_artifacts r)"
    and "length (manifests_of (rn_artifacts r)) = 1"
    and "\<forall>v \<in> set (rn_events r). set_option (ev_artifact v) \<subseteq> envelope_ref ` set (rn_artifacts r)"
    and "rn_stage r \<in> evaluated_stages \<longrightarrow>
      {PolicyIRArtifact, PolicyContractArtifact, ScenarioSuiteArtifact, EvaluationReportArtifact, FindingReportArtifact,
       MetricsReportArtifact} \<subseteq> set (map ae_artifact_type (rn_artifacts r))"
    and "rn_stage r = Complete \<longrightarrow> ComparisonBundleArtifact \<in> set (map ae_artifact_type (rn_artifacts r))"
proof -
  obtain st where *: "r' = r" "valid_by run_record_checks r" "rm_mode (rn_manifest r) = Cached" "rn_stage r \<in> ended_stages"
    "rfold (check_recorded_artifact sha (rn_manifest r) (rn_finding_decisions r)) (rn_artifacts r) new_replay_state = Inr st"
    "length (cr_manifests st) = 1" "list_all (check_recorded_event st) (rn_events r)"
    and kinds: "rn_stage r \<in> evaluated_stages \<longrightarrow>
      {PolicyIRArtifact, PolicyContractArtifact, ScenarioSuiteArtifact, EvaluationReportArtifact, FindingReportArtifact,
       MetricsReportArtifact} \<subseteq> set (map ae_artifact_type (rn_artifacts r))"
    "rn_stage r = Complete \<longrightarrow> ComparisonBundleArtifact \<in> set (map ae_artifact_type (rn_artifacts r))"
    using assms unfolding validate_cached_record_def rbind_Inr_iff validated_Inr_iff Let_def by auto
  then show "r' = r" "valid_by run_record_checks r" "rm_mode (rn_manifest r) = Cached" "rn_stage r \<in> ended_stages" by simp_all
  have read: "grounded_graph sha (rn_manifest r) [] (rn_artifacts r)" "read_well (rn_artifacts r) st"
    using artifacts_step [OF new_read_well *(5)] by simp_all
  show "grounded_graph sha (rn_manifest r) [] (rn_artifacts r)" by (rule read(1))
  have "length (map ManifestPayload (cr_manifests st)) = length (manifests_of (rn_artifacts r))"
    using read(2) unfolding read_well_def manifests_of_def by metis
  then show "length (manifests_of (rn_artifacts r)) = 1" using *(6) by simp
  show "\<forall>v \<in> set (rn_events r). set_option (ev_artifact v) \<subseteq> envelope_ref ` set (rn_artifacts r)"
    using recorded_event_anchored [OF read(2)] *(7) unfolding list_all_iff by fastforce
  show "rn_stage r \<in> evaluated_stages \<longrightarrow>
      {PolicyIRArtifact, PolicyContractArtifact, ScenarioSuiteArtifact, EvaluationReportArtifact, FindingReportArtifact,
       MetricsReportArtifact} \<subseteq> set (map ae_artifact_type (rn_artifacts r))"
    by (rule kinds(1))
  show "rn_stage r = Complete \<longrightarrow> ComparisonBundleArtifact \<in> set (map ae_artifact_type (rn_artifacts r))"
    by (rule kinds(2))
qed

text \<open>The one manifest is that of the run.\<close>

lemma grounded_manifests:
  "grounded_graph sha manifest earlier es \<Longrightarrow> x \<in> set (manifests_of es) \<Longrightarrow> x = ManifestPayload manifest"
  by (induction es arbitrary: earlier)
    (auto simp: manifests_of_def grounded_def grounded_payload_def split: artifact_payload.splits if_splits)

lemma recorded_manifest_unique:
  assumes "validate_cached_record sha r = Inr r'"
  shows "manifests_of (rn_artifacts r) = [ManifestPayload (rn_manifest r)]"
proof -
  obtain x where x: "manifests_of (rn_artifacts r) = [x]"
    using recorded_run_read(6) [OF assms] by (auto simp: length_Suc_conv)
  then show ?thesis using grounded_manifests [OF recorded_run_read(5) [OF assms], of x] by simp
qed

subsection \<open>Copies of evidence\<close>

text \<open>The anchors of a payload, and the payload with all of them at one manifest.\<close>

fun anchors_of :: "artifact_payload \<Rightarrow> sha256 list" where
  "anchors_of (EvaluationPayload r) = [ih_run_manifest_sha256 (er_inputs r)]"
| "anchors_of (FindingsPayload r) = [ih_run_manifest_sha256 (fr_inputs r)]"
| "anchors_of (MetricsPayload m) = [ih_run_manifest_sha256 (mr_inputs m)]"
| "anchors_of (ScorePayload s) = [ih_run_manifest_sha256 (bs_inputs s)]"
| "anchors_of (RegressionPayload r) =
     map ih_run_manifest_sha256 [rr_baseline_inputs r, rr_revised_inputs r]"
| "anchors_of (AcceptancePayload a) =
     map ih_run_manifest_sha256 [pa_baseline_inputs a, pa_revised_inputs a]"
| "anchors_of (BundlePayload b) =
     map ih_run_manifest_sha256
       [cb_baseline_inputs b, cb_revised_inputs b, rr_baseline_inputs (cb_regression b), rr_revised_inputs (cb_regression b),
        pa_baseline_inputs (cb_acceptance b), pa_revised_inputs (cb_acceptance b),
        mr_inputs (cb_baseline_metrics b), mr_inputs (cb_revised_metrics b)]"
| "anchors_of payload = []"

definition metrics_at :: "sha256 \<Rightarrow> metrics_report \<Rightarrow> metrics_report" where
  "metrics_at h m = m\<lparr>mr_inputs := with_manifest h (mr_inputs m)\<rparr>"

definition regression_at :: "sha256 \<Rightarrow> regression_report \<Rightarrow> regression_report" where
  "regression_at h r = r\<lparr>rr_baseline_inputs := with_manifest h (rr_baseline_inputs r),
     rr_revised_inputs := with_manifest h (rr_revised_inputs r)\<rparr>"

definition acceptance_at :: "sha256 \<Rightarrow> patch_acceptance_report \<Rightarrow> patch_acceptance_report" where
  "acceptance_at h a = a\<lparr>pa_baseline_inputs := with_manifest h (pa_baseline_inputs a),
     pa_revised_inputs := with_manifest h (pa_revised_inputs a)\<rparr>"

fun anchored_at :: "sha256 \<Rightarrow> artifact_payload \<Rightarrow> artifact_payload" where
  "anchored_at h (EvaluationPayload r) = EvaluationPayload (r\<lparr>er_inputs := with_manifest h (er_inputs r)\<rparr>)"
| "anchored_at h (FindingsPayload r) = FindingsPayload (r\<lparr>fr_inputs := with_manifest h (fr_inputs r)\<rparr>)"
| "anchored_at h (MetricsPayload m) = MetricsPayload (metrics_at h m)"
| "anchored_at h (ScorePayload s) = ScorePayload (s\<lparr>bs_inputs := with_manifest h (bs_inputs s)\<rparr>)"
| "anchored_at h (RegressionPayload r) = RegressionPayload (regression_at h r)"
| "anchored_at h (AcceptancePayload a) = AcceptancePayload (acceptance_at h a)"
| "anchored_at h (BundlePayload b) = BundlePayload
     \<lparr>cb_baseline_inputs = with_manifest h (cb_baseline_inputs b),
      cb_revised_inputs = with_manifest h (cb_revised_inputs b), cb_regression = regression_at h (cb_regression b),
      cb_acceptance = acceptance_at h (cb_acceptance b), cb_baseline_metrics = metrics_at h (cb_baseline_metrics b),
      cb_revised_metrics = metrics_at h (cb_revised_metrics b)\<rparr>"
| "anchored_at h payload = payload"

lemmas at_defs = metrics_at_def regression_at_def acceptance_at_def with_manifest_def

lemma anchored_twice: "anchored_at g (anchored_at h p) = anchored_at g p"
  by (cases p) (simp_all add: at_defs)

lemma anchored_at_anchors: "set (anchors_of (anchored_at h p)) \<subseteq> {h}"
  by (cases p) (simp_all add: at_defs)

lemma payload_with_manifest_anchored: "payload_with_manifest h p = Inr q \<Longrightarrow> q = anchored_at h p"
  by (cases p) (auto simp: rbind_Inr_iff validated_Inr_iff metrics_with_manifest_def regression_with_manifest_def
      acceptance_with_manifest_def bundle_with_manifest_def at_defs)

text \<open>Two payloads that differ in the manifest they are anchored at only.\<close>

definition same_evidence :: "artifact_payload \<Rightarrow> artifact_payload \<Rightarrow> bool" where
  "same_evidence p q \<longleftrightarrow> anchored_at zero_sha256 p = anchored_at zero_sha256 q"

definition parents_follow ::
  "(artifact_envelope \<times> artifact_envelope) set \<Rightarrow> artifact_envelope \<Rightarrow> artifact_envelope \<Rightarrow> bool" where
  "parents_follow pairs a b \<longleftrightarrow>
     (\<forall>h \<in> set (ae_parent_hashes a). \<exists>(x, y) \<in> pairs. ae_artifact_sha256 x = h \<and> ae_artifact_sha256 y \<in> set (ae_parent_hashes b))
     \<and> (\<forall>h \<in> set (ae_parent_hashes b). \<exists>(x, y) \<in> pairs. ae_artifact_sha256 x \<in> set (ae_parent_hashes a) \<and> ae_artifact_sha256 y = h)"

definition copy_of ::
  "(string \<Rightarrow> sha256) \<Rightarrow> run_manifest \<Rightarrow> (artifact_envelope \<times> artifact_envelope) set
   \<Rightarrow> artifact_envelope \<Rightarrow> artifact_envelope \<Rightarrow> bool" where
  "copy_of sha manifest pairs a b \<longleftrightarrow>
     ae_artifact_type b = ae_artifact_type a \<and> parents_follow pairs a b
     \<and> set (anchors_of (ae_payload b)) \<subseteq> {complete_digest sha (ManifestPayload manifest)}
     \<and> (if ae_artifact_type a = RunManifestArtifact then ae_payload b = ManifestPayload manifest
        else same_evidence (ae_payload a) (ae_payload b))"

definition event_follows :: "(artifact_envelope \<times> artifact_envelope) set \<Rightarrow> run_event \<Rightarrow> run_event \<Rightarrow> bool" where
  "event_follows pairs v w \<longleftrightarrow> w\<lparr>ev_artifact := None\<rparr> = v\<lparr>ev_artifact := None\<rparr>
     \<and> (case ev_artifact v of None \<Rightarrow> ev_artifact w = None
        | Some ref \<Rightarrow> \<exists>(x, y) \<in> pairs. ae_artifact_sha256 x = ar_artifact_sha256 ref \<and> ev_artifact w = Some (envelope_ref y))"

lemma parents_follow_mono: "parents_follow X a b \<Longrightarrow> X \<subseteq> Y \<Longrightarrow> parents_follow Y a b"
  unfolding parents_follow_def by blast

lemma copy_of_mono: "copy_of sha m X a b \<Longrightarrow> X \<subseteq> Y \<Longrightarrow> copy_of sha m Y a b"
  unfolding copy_of_def using parents_follow_mono by metis

text \<open>The dictionary of a rebasing holds copies of what was rebased.\<close>

definition rebased_well :: "(string \<Rightarrow> sha256) \<Rightarrow> run_manifest \<Rightarrow> artifact_envelope list \<Rightarrow> rebasing \<Rightarrow> bool" where
  "rebased_well sha manifest earlier st \<longleftrightarrow>
     list_all2 (copy_of sha manifest (set (zip earlier (fst st)))) earlier (fst st)
     \<and> (\<forall>h y. map_of (snd st) h = Some y \<longrightarrow> (\<exists>x. (x, y) \<in> set (zip earlier (fst st)) \<and> ae_artifact_sha256 x = h))"

lemma made_fields:
  assumes "make_artifact_envelope sha kind payload refs i = Inr e"
  shows "ae_artifact_type e = kind" "ae_payload e = payload" "set (ae_parent_hashes e) = ar_artifact_sha256 ` set refs"
proof -
  show "ae_artifact_type e = kind" "ae_payload e = payload"
    using assms by (auto simp: make_artifact_envelope_def rbind_Inr_iff validated_Inr_iff)
  obtain refs' where "traverse (validated artifact_ref_checks) refs = Inr refs'" "set (ae_parent_hashes e) = ar_artifact_sha256 ` set refs'"
    using assms by (auto simp: make_artifact_envelope_def rbind_Inr_iff validated_Inr_iff)
  moreover from this have "refs' = refs"
    by (auto simp: traverse_Inr_iff validated_Inr_iff list_all2_conv_all_nth intro: nth_equalityI)
  ultimately show "set (ae_parent_hashes e) = ar_artifact_sha256 ` set refs" by simp
qed

lemma list_all2_related:
  assumes "list_all2 R xs ys"
  shows "x \<in> set xs \<Longrightarrow> \<exists>y \<in> set ys. R x y" and "y \<in> set ys \<Longrightarrow> \<exists>x \<in> set xs. R x y"
  using assms by (induction rule: list_all2_induct) auto

lemma rebase_artifact_step:
  assumes well: "rebased_well sha manifest earlier st"
    and step: "rebase_artifact sha manifest (complete_digest sha (ManifestPayload manifest)) a st = Inr st'"
  shows "rebased_well sha manifest (earlier @ [a]) st'"
proof -
  obtain payload parents b where
    payload: "(if ae_artifact_type a = RunManifestArtifact then Inr (ManifestPayload manifest)
      else payload_with_manifest (complete_digest sha (ManifestPayload manifest)) (ae_payload a)) = Inr payload"
    and parents: "traverse (lookup (snd st)) (ae_parent_hashes a) = Inr parents"
    and made: "make_artifact_envelope sha (ae_artifact_type a) payload (map envelope_ref parents) (rm_manifest_id manifest) = Inr b"
    and st': "st' = (fst st @ [b], AList.update (ae_artifact_sha256 a) b (snd st))"
    using step unfolding rebase_artifact_def rbind_Inr_iff by blast
  let ?X = "set (zip earlier (fst st))" and ?Y = "set (zip (earlier @ [a]) (fst st @ [b]))"
  have len: "length earlier = length (fst st)" using well by (auto simp: rebased_well_def dest: list_all2_lengthD)
  then have Y: "?Y = insert (a, b) ?X" by simp
  have found: "\<And>h y. map_of (snd st) h = Some y \<Longrightarrow> \<exists>x. (x, y) \<in> ?X \<and> ae_artifact_sha256 x = h"
    using well by (simp add: rebased_well_def)
  have each: "list_all2 (\<lambda>h y. map_of (snd st) h = Some y) (ae_parent_hashes a) parents"
    using parents by (simp add: traverse_Inr_iff lookup_Inr_iff)
  have new_parents: "set (ae_parent_hashes b) = ae_artifact_sha256 ` set parents"
    unfolding made_fields(3) [OF made] by (simp add: image_image envelope_ref_def)
  have "parents_follow ?X a b"
    unfolding parents_follow_def new_parents
  proof (intro conjI ballI)
    fix h assume "h \<in> set (ae_parent_hashes a)"
    then obtain y where y: "y \<in> set parents" "map_of (snd st) h = Some y"
      using list_all2_related(1) [OF each] by blast
    from found [OF y(2)] y(1) show "\<exists>(x, y) \<in> ?X. ae_artifact_sha256 x = h \<and> ae_artifact_sha256 y \<in> ae_artifact_sha256 ` set parents"
      by blast
  next
    fix h assume "h \<in> ae_artifact_sha256 ` set parents"
    then obtain g y where y: "g \<in> set (ae_parent_hashes a)" "map_of (snd st) g = Some y" "h = ae_artifact_sha256 y"
      using list_all2_related(2) [OF each] by blast
    from found [OF y(2)] y(1,3) show "\<exists>(x, y) \<in> ?X. ae_artifact_sha256 x \<in> set (ae_parent_hashes a) \<and> ae_artifact_sha256 y = h"
      by blast
  qed
  moreover have "set (anchors_of payload) \<subseteq> {complete_digest sha (ManifestPayload manifest)}"
    using payload anchored_at_anchors by (auto split: if_splits dest!: payload_with_manifest_anchored)
  moreover have "if ae_artifact_type a = RunManifestArtifact then payload = ManifestPayload manifest
      else same_evidence (ae_payload a) payload"
    using payload by (auto simp: same_evidence_def anchored_twice split: if_splits dest!: payload_with_manifest_anchored)
  ultimately have copy: "copy_of sha manifest ?Y a b"
    using made_fields(1,2) [OF made] parents_follow_mono [of ?X a b ?Y] unfolding copy_of_def Y by auto
  have "list_all2 (copy_of sha manifest ?Y) earlier (fst st)"
    using well copy_of_mono [of sha manifest ?X _ _ ?Y] unfolding rebased_well_def Y by (auto elim!: list_all2_mono)
  then have "list_all2 (copy_of sha manifest ?Y) (earlier @ [a]) (fst st @ [b])" using copy by (simp add: list_all2_appendI)
  moreover have "\<exists>x. (x, y) \<in> ?Y \<and> ae_artifact_sha256 x = h"
    if "map_of (AList.update (ae_artifact_sha256 a) b (snd st)) h = Some y" for h y
    using that found unfolding Y by (auto simp: update_conv' split: if_splits)
  ultimately show ?thesis unfolding rebased_well_def st' by simp
qed

lemma rebase_artifacts:
  assumes "rebased_well sha manifest earlier st"
    and "rfold (rebase_artifact sha manifest (complete_digest sha (ManifestPayload manifest))) es st = Inr st'"
  shows "rebased_well sha manifest (earlier @ es) st'"
  using assms
proof (induction es arbitrary: earlier st)
  case (Cons e es)
  from Cons.prems(2) obtain st1 where
    "rebase_artifact sha manifest (complete_digest sha (ManifestPayload manifest)) e st = Inr st1"
    and rest: "rfold (rebase_artifact sha manifest (complete_digest sha (ManifestPayload manifest))) es st1 = Inr st'"
    by (auto simp: rbind_Inr_iff)
  from Cons.IH [OF rebase_artifact_step [OF Cons.prems(1) this(1)] rest] show ?case by simp
qed simp

lemma replay_manifest_fields:
  assumes "replay_manifest sha source run_id = Inr manifest"
  shows "\<exists>i. manifest = (rn_manifest source)\<lparr>rm_run_id := run_id, rm_manifest_id := i\<rparr>"
  using assms by (auto simp: replay_manifest_def rbind_Inr_iff)

lemma rebase_event_follows:
  assumes "rebased_well sha manifest es (bs, d)" and "rebase_event d v = Inr w"
  shows "event_follows (set (zip es bs)) v w"
proof (cases "ev_artifact v")
  case None
  then show ?thesis using assms(2) by (simp add: rebase_event_def event_follows_def)
next
  case (Some ref)
  then obtain y where y: "map_of d (ar_artifact_sha256 ref) = Some y" "w = v\<lparr>ev_artifact := Some (envelope_ref y)\<rparr>"
    using assms(2) by (auto simp: rebase_event_def rbind_Inr_iff lookup_Inr_iff)
  then obtain x where "(x, y) \<in> set (zip es bs)" "ae_artifact_sha256 x = ar_artifact_sha256 ref"
    using assms(1) by (force simp: rebased_well_def)
  then show ?thesis using Some y(2) by (auto simp: event_follows_def)
qed

lemma rebased_record:
  assumes "rebase_cached_record sha source run_id = Inr r"
  shows "validate_cached_record sha source = Inr source" and "validate_cached_record sha r = Inr r"
    and "\<exists>i. rn_manifest r = (rn_manifest source)\<lparr>rm_run_id := run_id, rm_manifest_id := i\<rparr>"
    and "r\<lparr>rn_manifest := rn_manifest source, rn_artifacts := rn_artifacts source, rn_events := rn_events source\<rparr>
      = source\<lparr>rn_run_id := run_id\<rparr>"
    and "list_all2 (copy_of sha (rn_manifest r) (set (zip (rn_artifacts source) (rn_artifacts r))))
      (rn_artifacts source) (rn_artifacts r)"
    and "list_all2 (event_follows (set (zip (rn_artifacts source) (rn_artifacts r)))) (rn_events source) (rn_events r)"
proof -
  obtain source' manifest es d vs where source': "validate_cached_record sha source = Inr source'"
    and manifest: "replay_manifest sha source' run_id = Inr manifest"
    and es: "rfold (rebase_artifact sha manifest (complete_digest sha (ManifestPayload manifest))) (rn_artifacts source')
      ([], []) = Inr (es, d)"
    and vs: "traverse (rebase_event d) (rn_events source') = Inr vs"
    and r': "validate_cached_record sha
      (source'\<lparr>rn_run_id := run_id, rn_manifest := manifest, rn_artifacts := es, rn_events := vs\<rparr>) = Inr r"
    using assms by (auto simp: rebase_cached_record_def rbind_Inr_iff validated_Inr_iff split_beta)
  have source: "source' = source" by (rule recorded_run_read(1) [OF source'])
  have r: "r = source\<lparr>rn_run_id := run_id, rn_manifest := manifest, rn_artifacts := es, rn_events := vs\<rparr>"
    using recorded_run_read(1) [OF r'] by (simp add: source)
  have well: "rebased_well sha manifest (rn_artifacts source) (es, d)"
    using rebase_artifacts [OF _ es, of "[]"] by (simp add: rebased_well_def source)
  show "validate_cached_record sha source = Inr source" "validate_cached_record sha r = Inr r"
    using source' r' by (simp_all add: source r)
  show "\<exists>i. rn_manifest r = (rn_manifest source)\<lparr>rm_run_id := run_id, rm_manifest_id := i\<rparr>"
    using replay_manifest_fields [OF manifest] by (simp add: source r)
  show "r\<lparr>rn_manifest := rn_manifest source, rn_artifacts := rn_artifacts source, rn_events := rn_events source\<rparr>
      = source\<lparr>rn_run_id := run_id\<rparr>"
    by (simp add: r)
  show "list_all2 (copy_of sha (rn_manifest r) (set (zip (rn_artifacts source) (rn_artifacts r))))
      (rn_artifacts source) (rn_artifacts r)"
    using well by (simp add: rebased_well_def r)
  have "list_all2 (\<lambda>v w. rebase_event d v = Inr w) (rn_events source) vs" using vs by (simp add: traverse_Inr_iff source)
  then show "list_all2 (event_follows (set (zip (rn_artifacts source) (rn_artifacts r)))) (rn_events source) (rn_events r)"
    using rebase_event_follows [OF well] by (auto simp: r elim!: list_all2_mono)
qed

subsection \<open>Creating a cached run\<close>

lemma create_handler_cached:
  assumes "sv_mode sv = Cached" and "\<not> sv_recording_demo sv"
    and "create_run_handler sha sv loader used run_id command = (used', p)"
  shows "used' = used \<and> (p = Throw CancelledExc \<or> (\<exists>e. p = Throw (WorkflowExc e)))
    \<or> (\<exists>load source r k. loader = Some load \<and> load command = Inr source \<and> cq_source_type command = BundledSample
        \<and> used' = used \<union> {run_id} \<and> used \<subset> used' \<and> rn_run_id source \<noteq> run_id
        \<and> rebase_cached_record sha source run_id = Inr r \<and> validate_cached_record sha r = Inr r \<and> rn_run_id r = run_id
        \<and> p = StoreCreate (stored_of r) k \<and> sr_pending_confirmation (stored_of r) = None)"
proof (cases "create_cached_run sha loader used run_id command = (used', p)")
  case False
  then show ?thesis
    using assms by (auto simp: create_run_handler_def command_of_def validated_Inr_iff split: sum.splits)
next
  case True
  show ?thesis
  proof (cases "\<exists>source r. (\<exists>load. loader = Some load \<and> load command = Inr source) \<and> validate_cached_record sha source = Inr source
      \<and> rn_run_id source \<noteq> run_id \<and> run_id \<notin> used \<and> rebase_cached_record sha source run_id = Inr r
      \<and> cq_source_type command = BundledSample")
    case True
    then obtain load source r where c: "loader = Some load" "load command = Inr source"
      "validate_cached_record sha source = Inr source" "rn_run_id source \<noteq> run_id" "run_id \<notin> used"
      "rebase_cached_record sha source run_id = Inr r" "cq_source_type command = BundledSample" by blast
    have id: "rn_run_id r = run_id"
      using arg_cong [OF rebased_record(4) [OF c(6)], of rn_run_id] by simp
    have "used' = insert run_id used" "p = StoreCreate (stored_of r) (\<lambda>m. perform m (\<lambda>_. Done run_id))"
      using \<open>create_cached_run sha loader used run_id command = (used', p)\<close> c
      by (auto simp: create_cached_run_def ebind_def from_python_def)
    moreover have "sr_pending_confirmation (stored_of r) = None"
      by (simp add: stored_of_def run_record.defs stored_run.defs)
    ultimately show ?thesis using c id rebased_record(2) [OF c(6)] by (intro disjI2) auto
  next
    case False
    have "used' = used \<and> (p = Throw CancelledExc \<or> (\<exists>e. p = Throw (WorkflowExc e)))"
    proof (cases loader)
      case None
      then show ?thesis using True by (auto simp: create_cached_run_def workflow_failure_def split: if_splits)
    next
      case (Some load)
      show ?thesis
      proof (cases "ebind (load command) (\<lambda>r. from_python (validate_cached_record sha r))")
        case (Inl e)
        then show ?thesis
          using True Some by (auto simp: create_cached_run_def workflow_failure_def invalid_recording_def split: if_splits exc.splits)
      next
        case (Inr r)
        then obtain source where s: "load command = Inr source" "validate_cached_record sha source = Inr r"
          by (auto simp: ebind_def split: sum.splits)
        have r: "r = source" by (rule recorded_run_read(1) [OF s(2)])
        show ?thesis
          using True Some Inr False s unfolding r
          by (auto simp: create_cached_run_def workflow_failure_def invalid_recording_def split: if_splits sum.splits)
      qed
    qed
    then show ?thesis by blast
  qed
qed

end
