(* ===== verification/Replay_Properties.thy ===== *)
theory Replay_Properties
  imports Replay_Meaning Coordinator_Properties
begin

section \<open>Properties of recorded runs\<close>

text \<open>Which recordings are accepted, what a replay of one keeps, and how a cached run is created.\<close>

subsection \<open>A recorded run\<close>

definition demo_document :: policy_document where
  "demo_document = \<lparr>pd_document_id = ''document'', pd_title = ''Development policy'', pd_source_type = BundledSample,
     pd_pages = [\<lparr>pp_page = 1, pp_text = ''Meals are reimbursed.'', pp_start = 0, pp_end = 21\<rparr>],
     pd_document_sha256 = zero_sha256\<rparr>"

definition recorded_manifest :: "ident \<Rightarrow> ident \<Rightarrow> run_manifest" where
  "recorded_manifest run_id manifest_id = demo_manifest\<lparr>rm_run_id := run_id, rm_manifest_id := manifest_id\<rparr>"

definition recorded_ref :: "artifact_type \<Rightarrow> artifact_ref" where
  "recorded_ref kind =
     \<lparr>ar_artifact_type = kind, ar_artifact_sha256 = zero_sha256, ar_semantic_sha256 = zero_sha256\<rparr>"

definition recorded_artifacts :: "ident \<Rightarrow> ident \<Rightarrow> artifact_envelope list" where
  "recorded_artifacts run_id manifest_id =
     [envelope_of demo_sha RunManifestArtifact (ManifestPayload (recorded_manifest run_id manifest_id)) [] manifest_id,
      envelope_of demo_sha PolicyDocumentArtifact (DocumentPayload demo_document) [recorded_ref RunManifestArtifact] manifest_id]"

definition recorded_run :: "ident \<Rightarrow> ident \<Rightarrow> run_record" where
  "recorded_run run_id manifest_id =
     \<lparr>rn_run_id = run_id, rn_stage = Failed, rn_manifest = recorded_manifest run_id manifest_id, rn_created_at = 0,
      rn_expires_at = 3600000000, rn_artifacts = recorded_artifacts run_id manifest_id,
      rn_events = [\<lparr>ev_timestamp = 1, ev_stage = Failed, ev_action_summary = ''Run failed'',
        ev_artifact = Some (recorded_ref PolicyDocumentArtifact), ev_error_id = None\<rparr>],
      rn_finding_decisions = [], rn_decision_at = None, rn_error = None\<rparr>"

lemma demo_digest: "demo_sha t = zero_sha256"
  by (simp add: demo_sha_def zero_sha256_def)

lemma recorded_manifest_valid:
  assumes "identifier_ok run_id" and "identifier_ok manifest_id"
  shows "valid_by run_manifest_checks (recorded_manifest run_id manifest_id)"
  using demo_manifest_valid assms
  by (simp add: recorded_manifest_def valid_by_def [of run_manifest_checks] run_manifest_checks_def)

lemma demo_document_valid: "valid_by policy_document_checks demo_document"
  by code_simp

lemma recorded_ref_valid: "valid_by artifact_ref_checks (recorded_ref kind)"
  using zero_sha256_ok by (simp add: valid_by_def artifact_ref_checks_def recorded_ref_def)

lemma recorded_made:
  assumes "identifier_ok run_id" and "identifier_ok manifest_id"
  shows "make_artifact_envelope demo_sha RunManifestArtifact (ManifestPayload (recorded_manifest run_id manifest_id)) []
      manifest_id = Inr (recorded_artifacts run_id manifest_id ! 0)"
    and "make_artifact_envelope demo_sha PolicyDocumentArtifact (DocumentPayload demo_document)
      [recorded_ref RunManifestArtifact] manifest_id = Inr (recorded_artifacts run_id manifest_id ! 1)"
  unfolding make_artifact_envelope_Inr [OF demo_hex]
  using recorded_manifest_valid [OF assms] demo_document_valid recorded_ref_valid assms
  by (simp_all add: recorded_artifacts_def)

lemmas recorded_envelopes = envelope_accepted [OF recorded_made(1) demo_hex] envelope_accepted [OF recorded_made(2) demo_hex]

lemma recorded_fields:
  "recorded_artifacts run_id manifest_id = [recorded_artifacts run_id manifest_id ! 0, recorded_artifacts run_id manifest_id ! 1]"
  "ae_run_manifest_id (recorded_artifacts run_id manifest_id ! 0) = manifest_id"
  "ae_run_manifest_id (recorded_artifacts run_id manifest_id ! 1) = manifest_id"
  "ae_parent_hashes (recorded_artifacts run_id manifest_id ! 0) = []"
  "ae_parent_hashes (recorded_artifacts run_id manifest_id ! 1) = [zero_sha256]"
  "envelope_ref (recorded_artifacts run_id manifest_id ! 0) = recorded_ref RunManifestArtifact"
  "envelope_ref (recorded_artifacts run_id manifest_id ! 1) = recorded_ref PolicyDocumentArtifact"
  "ae_artifact_sha256 (recorded_artifacts run_id manifest_id ! 0) = zero_sha256"
  "ae_artifact_sha256 (recorded_artifacts run_id manifest_id ! 1) = zero_sha256"
  by (simp_all add: recorded_artifacts_def envelope_of_def demo_digest envelope_ref_def recorded_ref_def sorted_unique_def)

lemma recorded_run_valid:
  assumes "identifier_ok run_id" and "identifier_ok manifest_id"
  shows "valid_by run_record_checks (recorded_run run_id manifest_id)"
proof -
  note made = recorded_envelopes(1,4) [OF assms, unfolded validate_artifact_envelope_Inr]
  have "list_all (valid_by artifact_envelope_checks) (recorded_artifacts run_id manifest_id)"
    using made by (subst recorded_fields(1)) simp
  then show ?thesis
    using recorded_manifest_valid [OF assms] recorded_ref_valid assms(1)
    by (simp add: valid_by_def [of run_record_checks] run_record_checks_def recorded_run_def valid_by_def [of run_event_checks]
        run_event_checks_def nonempty_text_def lifetime_limit_def) (simp add: recorded_manifest_def)
qed

lemma recorded_run_accepted:
  assumes "identifier_ok run_id" and "identifier_ok manifest_id"
  shows "validate_cached_record demo_sha (recorded_run run_id manifest_id) = Inr (recorded_run run_id manifest_id)"
proof -
  have manifest: "rn_manifest (recorded_run run_id manifest_id) = recorded_manifest run_id manifest_id"
    "rn_artifacts (recorded_run run_id manifest_id) = recorded_artifacts run_id manifest_id"
    "rn_stage (recorded_run run_id manifest_id) = Failed"
    by (simp_all add: recorded_run_def)
  have mode: "rm_mode (recorded_manifest run_id manifest_id) = Cached"
    "rm_manifest_id (recorded_manifest run_id manifest_id) = manifest_id"
    by (simp_all add: recorded_manifest_def demo_manifest_def)
  note made = recorded_envelopes [OF assms]
  let ?a = "recorded_artifacts run_id manifest_id ! 0" and ?b = "recorded_artifacts run_id manifest_id ! 1"
  have "check_recorded_artifact demo_sha (recorded_manifest run_id manifest_id) [] ?a new_replay_state
      = Inr (new_replay_state\<lparr>cr_seen := [(zero_sha256, ?a)], cr_payloads := [?a],
          cr_manifests := [recorded_manifest run_id manifest_id]\<rparr>)"
    by (simp add: check_recorded_artifact_def made recorded_fields(2-) mode check_recorded_payload_def new_replay_state_def
        require_def)
  moreover have "check_recorded_artifact demo_sha (recorded_manifest run_id manifest_id) [] ?b
      (new_replay_state\<lparr>cr_seen := [(zero_sha256, ?a)], cr_payloads := [?a],
          cr_manifests := [recorded_manifest run_id manifest_id]\<rparr>)
      = Inr (new_replay_state\<lparr>cr_seen := [(zero_sha256, ?b)], cr_payloads := [?a, ?b],
          cr_manifests := [recorded_manifest run_id manifest_id]\<rparr>)"
    by (simp add: check_recorded_artifact_def made recorded_fields(2-) mode check_recorded_payload_def new_replay_state_def
        require_def keys_def del: One_nat_def)
  ultimately have read: "rfold (check_recorded_artifact demo_sha (recorded_manifest run_id manifest_id) [])
      (recorded_artifacts run_id manifest_id) new_replay_state
    = Inr (new_replay_state\<lparr>cr_seen := [(zero_sha256, ?b)], cr_payloads := [?a, ?b],
          cr_manifests := [recorded_manifest run_id manifest_id]\<rparr>)"
    by (subst recorded_fields(1)) simp
  have event: "list_all (check_recorded_event (new_replay_state\<lparr>cr_seen := [(zero_sha256, ?b)], cr_payloads := [?a, ?b],
      cr_manifests := [recorded_manifest run_id manifest_id]\<rparr>)) (rn_events (recorded_run run_id manifest_id))"
    using recorded_fields(7) [of run_id manifest_id]
    by (simp add: recorded_run_def check_recorded_event_def recorded_ref_def envelope_ref_def)
  have "rn_finding_decisions (recorded_run run_id manifest_id) = []" by (simp add: recorded_run_def)
  moreover have "validated run_record_checks (recorded_run run_id manifest_id) = Inr (recorded_run run_id manifest_id)"
    using recorded_run_valid [OF assms] by (simp add: validated_Inr_iff)
  ultimately show ?thesis
    using event
    by (simp add: validate_cached_record_def manifest mode read ended_stages_def evaluated_stages_def require_def)
qed

subsection \<open>Its replay\<close>

definition replayed_id :: ident where
  "replayed_id = ''replay-'' @ zero_sha256 @ ''-'' @ take 32 zero_sha256"

lemma replayed_id_ok: "identifier_ok replayed_id" "identifier_ok ''replay''" "identifier_ok ''recording''"
    "identifier_ok ''manifest''"
  by (simp_all add: identifier_ok_def replayed_id_def zero_sha256_def)

lemma replay_manifest_demo:
  "replay_manifest demo_sha (recorded_run run_id manifest_id) ''replay'' = Inr (recorded_manifest ''replay'' replayed_id)"
  unfolding replayed_id_def
  by (simp only: replay_manifest_def payload_hash_view [OF hashable_record(5)] demo_digest rbind_simps)
    (simp add: canonical_sha256_def demo_digest recorded_run_def recorded_manifest_def)

lemma recorded_rebased:
  "rebase_cached_record demo_sha (recorded_run ''recording'' ''manifest'') ''replay'' = Inr (recorded_run ''replay'' replayed_id)"
proof -
  let ?m = "recorded_manifest ''replay'' replayed_id"
  let ?a = "recorded_artifacts ''recording'' ''manifest'' ! 0" and ?b = "recorded_artifacts ''recording'' ''manifest'' ! 1"
  let ?c = "recorded_artifacts ''replay'' replayed_id ! 0" and ?d = "recorded_artifacts ''replay'' replayed_id ! 1"
  note old = recorded_envelopes [OF replayed_id_ok(3,4)] and made = recorded_made [OF replayed_id_ok(2,1)]
  have id: "rm_manifest_id ?m = replayed_id" by (simp add: recorded_manifest_def)
  have "rebase_artifact demo_sha ?m zero_sha256 ?a ([], []) = Inr ([?c], [(zero_sha256, ?c)])"
    using made(1) by (simp add: rebase_artifact_def old recorded_fields(2-) id del: One_nat_def)
  moreover have "rebase_artifact demo_sha ?m zero_sha256 ?b ([?c], [(zero_sha256, ?c)]) = Inr ([?c, ?d], [(zero_sha256, ?d)])"
    using made(2) by (simp add: rebase_artifact_def old recorded_fields(2-) id lookup_def del: One_nat_def)
  ultimately have artifacts: "rfold (rebase_artifact demo_sha ?m zero_sha256) (recorded_artifacts ''recording'' ''manifest'') ([], [])
      = Inr (recorded_artifacts ''replay'' replayed_id, [(zero_sha256, ?d)])"
    by (subst recorded_fields(1), subst (3) recorded_fields(1)) simp
  have events: "traverse (rebase_event [(zero_sha256, ?d)]) (rn_events (recorded_run ''recording'' ''manifest''))
      = Inr (rn_events (recorded_run ''replay'' replayed_id))"
    using recorded_fields(7) [of "''replay''" replayed_id]
    by (simp add: recorded_run_def rebase_event_def lookup_def recorded_ref_def del: One_nat_def)
  have copied: "(recorded_run ''recording'' ''manifest'')\<lparr>rn_run_id := ''replay'', rn_manifest := ?m,
      rn_artifacts := recorded_artifacts ''replay'' replayed_id, rn_events := rn_events (recorded_run ''replay'' replayed_id)\<rparr>
      = recorded_run ''replay'' replayed_id"
    by (simp add: recorded_run_def)
  have valid: "validated run_record_checks (recorded_run ''replay'' replayed_id) = Inr (recorded_run ''replay'' replayed_id)"
    using recorded_run_valid [OF replayed_id_ok(2,1)] by (simp add: validated_Inr_iff)
  have source: "rn_artifacts (recorded_run ''recording'' ''manifest'') = recorded_artifacts ''recording'' ''manifest''"
    by (simp add: recorded_run_def)
  show ?thesis
    by (simp only: rebase_cached_record_def recorded_run_accepted [OF replayed_id_ok(3,4)] replay_manifest_demo digest_of_value
        demo_digest rbind_simps source artifacts events prod.case copied valid
        recorded_run_accepted [OF replayed_id_ok(2,1)])
qed

subsection \<open>What is accepted, and what is kept\<close>

text \<open>
  C7: A recording that is accepted is a valid cached run that has ended, and its artifacts are grounded one by
  one in those before them: every envelope has the digests of its content and parents among the earlier
  ones, every policy has its document, the suite is valid for an earlier policy and contract, every report
  follows from the earlier policy, contract, suite and evaluation, the proposal answers earlier findings and
  the comparison relates earlier evidence. There is one manifest, that of the run; every event refers to an
  artifact of the run; a stage after the evaluation has all the artifacts of one, a completed run a comparison.
\<close>

theorem cached_record_grounded:
  assumes "validate_cached_record sha r = Inr r'"
  shows "r' = r \<and> valid_by run_record_checks r \<and> rm_mode (rn_manifest r) = Cached \<and> rn_stage r \<in> ended_stages
    \<and> grounded_graph sha (rn_manifest r) [] (rn_artifacts r)
    \<and> manifests_of (rn_artifacts r) = [ManifestPayload (rn_manifest r)]
    \<and> (\<forall>v \<in> set (rn_events r). set_option (ev_artifact v) \<subseteq> envelope_ref ` set (rn_artifacts r))
    \<and> (rn_stage r \<in> evaluated_stages \<longrightarrow>
        {PolicyIRArtifact, PolicyContractArtifact, ScenarioSuiteArtifact, EvaluationReportArtifact, FindingReportArtifact,
         MetricsReportArtifact} \<subseteq> set (map ae_artifact_type (rn_artifacts r)))
    \<and> (rn_stage r = Complete \<longrightarrow> ComparisonBundleArtifact \<in> set (map ae_artifact_type (rn_artifacts r)))"
  by (intro conjI recorded_run_read [OF assms] recorded_manifest_unique [OF assms])

lemma cached_record_grounded_witness:
  "grounded_graph demo_sha (recorded_manifest ''recording'' ''manifest'') [] (recorded_artifacts ''recording'' ''manifest'')
   \<and> manifests_of (recorded_artifacts ''recording'' ''manifest'') = [ManifestPayload (recorded_manifest ''recording'' ''manifest'')]"
  using cached_record_grounded [OF recorded_run_accepted [OF replayed_id_ok(3,4)]] by (simp add: recorded_run_def)

text \<open>
  C6: A replay of a recording is accepted like the recording itself and has its content: the run and its
  manifest get the new identifiers and nothing else of the record changes; artifact by artifact the copy has
  the same type and the same evidence up to the manifest it is anchored at, which is everywhere the new one,
  and its parents are exactly the copies of the parents; event by event only the reference is replaced, by
  that of the copy.
\<close>

theorem replay_preserves_evidence:
  assumes "rebase_cached_record sha source run_id = Inr r"
  shows "validate_cached_record sha source = Inr source \<and> validate_cached_record sha r = Inr r
    \<and> (\<exists>i. rn_manifest r = (rn_manifest source)\<lparr>rm_run_id := run_id, rm_manifest_id := i\<rparr>)
    \<and> r\<lparr>rn_manifest := rn_manifest source, rn_artifacts := rn_artifacts source, rn_events := rn_events source\<rparr>
        = source\<lparr>rn_run_id := run_id\<rparr>
    \<and> list_all2 (copy_of sha (rn_manifest r) (set (zip (rn_artifacts source) (rn_artifacts r))))
        (rn_artifacts source) (rn_artifacts r)
    \<and> list_all2 (event_follows (set (zip (rn_artifacts source) (rn_artifacts r)))) (rn_events source) (rn_events r)"
  by (intro conjI rebased_record [OF assms])

lemma replay_preserves_evidence_witness:
  "validate_cached_record demo_sha (recorded_run ''replay'' replayed_id) = Inr (recorded_run ''replay'' replayed_id)
   \<and> list_all2 (copy_of demo_sha (recorded_manifest ''replay'' replayed_id)
        (set (zip (recorded_artifacts ''recording'' ''manifest'') (recorded_artifacts ''replay'' replayed_id))))
      (recorded_artifacts ''recording'' ''manifest'') (recorded_artifacts ''replay'' replayed_id)"
  using replay_preserves_evidence [OF recorded_rebased] by (simp add: recorded_run_def)

subsection \<open>Creating a cached run\<close>

text \<open>
  C27: In cached mode the creation of a run never fails with an internal error: it is refused with a
  public error that leaves the identifiers untouched, or passes on a cancellation, or it hands the store a
  replay, under an identifier that is new and not that of the recording, of what the loader answered to this
  command; the replay is an accepted recording that waits for nothing.
\<close>

theorem cached_creation_contained:
  assumes "sv_mode sv = Cached" and "\<not> sv_recording_demo sv"
    and "create_run_handler sha sv loader used run_id command = (used', p)"
  shows "used' = used \<and> (p = Throw CancelledExc \<or> (\<exists>e. p = Throw (WorkflowExc e)))
    \<or> (\<exists>load source r k. loader = Some load \<and> load command = Inr source \<and> cq_source_type command = BundledSample
        \<and> used' = used \<union> {run_id} \<and> used \<subset> used' \<and> rn_run_id source \<noteq> run_id
        \<and> rebase_cached_record sha source run_id = Inr r \<and> validate_cached_record sha r = Inr r \<and> rn_run_id r = run_id
        \<and> p = StoreCreate (stored_of r) k \<and> sr_pending_confirmation (stored_of r) = None)"
  using create_handler_cached [OF assms] .

lemma cached_creation_contained_witness:
  "\<exists>k. snd (create_run_handler demo_sha (demo_services\<lparr>sv_recording_demo := False\<rparr>)
      (Some (\<lambda>c. Inr (recorded_run ''recording'' ''manifest''))) {} ''replay'' demo_request)
    = StoreCreate (stored_of (recorded_run ''replay'' replayed_id)) k"
proof -
  let ?sv = "demo_services\<lparr>sv_recording_demo := False\<rparr>" and ?l = "Some (\<lambda>c. Inr (recorded_run ''recording'' ''manifest''))"
  have mode: "sv_mode ?sv = Cached" "\<not> sv_recording_demo ?sv" by (simp_all add: demo_services_def)
  obtain used' p where p: "create_run_handler demo_sha ?sv ?l {} ''replay'' demo_request = (used', p)" by force
  have "valid_by create_run_checks demo_request" by code_simp
  then have "command_of create_run_checks demo_request = Inr demo_request"
    by (simp add: command_of_def validated_Inr_iff split: sum.splits)
  moreover have "rn_run_id (recorded_run ''recording'' ''manifest'') = ''recording''" "cq_source_type demo_request = BundledSample"
    by (simp_all add: recorded_run_def demo_request_def)
  ultimately have "\<not> used' \<subseteq> {}"
    using p by (auto simp: create_run_handler_def mode create_cached_run_def ebind_def from_python_def
        recorded_run_accepted [OF replayed_id_ok(3,4)] recorded_rebased)
  then show ?thesis using cached_creation_contained [OF mode p] by (auto simp: p recorded_rebased)
qed

end
