(* ===== verification/Spec2Isabelle.thy ===== *)
theory Spec2Isabelle
  imports Evaluation_Properties Revision_Properties Workflow_Properties Coordinator_Properties Planning_Properties Replay_Properties
begin

text \<open>
  PolicyFuzz turns an expense policy into a set of formal rules, lets a person confirm them and a contract
  of invariants, tests the rules on a frozen suite of scenarios, reports what is wrong with them, and
  retests a structured revision on the same suite. This development models the deterministic backend:
  the data contracts under \<open>src/backend/app/domain/models/\<close>, the digests under \<open>core/\<close>, the evaluator
  under \<open>features/evaluation/\<close> and the workflow under \<open>workflow/\<close>. All paths below are relative to
  \<open>src/backend/app/\<close>.

  How the parts interact. The coordinator (\<open>workflow/coordinator.py\<close>) drives a run through the stages of
  the state machine. Each handler reads a stored run, calls a stage (compiler, planner, engine, analyzer,
  reviser, comparison), validates what the stage returned (\<open>workflow/validation.py\<close>), wraps it in an
  envelope with its digests (\<open>core/artifacts.py\<close>) and mutates the run in the store (\<open>workflow/store.py\<close>),
  which other coroutines use at the same time. The engine evaluates rules with predicates, dimension-scoped
  precedence and independent assertions; the analyzer groups what went wrong into findings; patches apply a
  proposal; the regression analyzer decides whether to accept it. A browser sees a stored run through
  \<open>workflow/views.py\<close> only.

  Conventions. A pydantic model is a record or datatype with the list of its checks (\<open>..._checks\<close>); a value
  of the record is any Python object of the class, validated or not, and \<open>valid_by\<close> says that validation
  accepts it. Exceptions are values of \<open>py_error\<close> or of a component's own error type; every raise of the
  code is a branch of the model, with its message where the code writes one. Dictionaries are association
  lists in insertion order, a frozenset over a closed vocabulary is a set, Python's integers are \<open>int\<close>,
  strings are sequences of code points below 256, and a timezone-aware time is a number of microseconds. A
  model's \<open>schema_version\<close> is a constant of the class; it appears in the payloads that are hashed.
  Readings of clocks and new identifiers are arguments or answers of calls. SHA-256 is the parameter \<open>sha\<close>,
  of which only the shape of its digests is used (\<open>hex_digest\<close>), where a theorem names it; Unicode
  normalisation is the identity on the modelled code points; \<open>str(exc)\<close> of an exception is the parameter
  \<open>text\<close> of \<open>apply_revision\<close>. The stages that call a language model are the functions of the record
  \<open>services\<close>; nothing is assumed of them.

  Theories and what they model, in the order of the imports:
  \<^item> \<open>Prelude\<close>: results and exceptions, traversals, validators, dictionaries, sorted sequences.
  \<^item> \<open>Common\<close>, \<open>Policy_Models\<close>, \<open>Scenario_Models\<close>, \<open>Evaluation_Models\<close>, \<open>Revision_Models\<close>,
    \<open>Benchmark_Models\<close>, \<open>Run_Models\<close>: the records of \<open>domain/models/\<close> with every field constraint and
    validator. \<open>Graph_Search\<close>: the recursive depth-first search the validators share, its termination and
    its equivalence with acyclicity.
  \<^item> \<open>Hashing\<close>, \<open>Json_Text\<close>, \<open>Artifacts\<close>, \<open>Payloads\<close>, \<open>Envelopes\<close>: \<open>core/hashing.py\<close> and
    \<open>core/artifacts.py\<close>. Canonical text is printed by the model and shown injective by a reader for it; the
    projections exclude the self-digests and the display fields; an envelope is accepted exactly when its
    digests are those of its payload.
  \<^item> \<open>Predicates\<close>, \<open>Assertions\<close>, \<open>Resolution\<close>, \<open>Rule_Validation\<close>, \<open>Engine\<close>, \<open>Metrics\<close>: the modules
    \<open>predicates.py\<close>, \<open>compliance.py\<close> and \<open>assertions.py\<close>, \<open>resolution.py\<close>, \<open>rule_validation.py\<close>,
    \<open>engine.py\<close>, \<open>metrics.py\<close> of \<open>features/evaluation/\<close>. \<open>Resolution\<close> states precedence over sets and
    proves the refinement; \<open>Engine_Meaning\<close> gives the value of one evaluated scenario, \<open>Engine_Report\<close> that
    of a report.
  \<^item> \<open>Findings\<close> and \<open>Findings_Meaning\<close> (\<open>findings.py\<close>): the walk over an evaluation, and the events it
    reports, listed from the policy alone. \<open>Signatures\<close>, \<open>Patches\<close>, \<open>Patches_Meaning\<close> (\<open>signatures.py\<close>,
    \<open>patches.py\<close>): application of a proposal and the scope of what it changes. \<open>Regression_Analysis\<close>,
    \<open>Regression_Meaning\<close> (\<open>regression.py\<close>): the comparison and what an acceptance guarantees.
    \<open>Benchmark\<close> (\<open>benchmark.py\<close>): maximum matching by augmenting paths, and the score.
  \<^item> \<open>State_Machine\<close> (\<open>workflow/state_machine.py\<close>, \<open>errors.py\<close>), \<open>Run_Store\<close> (\<open>store.py\<close>, cut at its await
    points) and \<open>Store_Meaning\<close>: the laws of the store as locales, interpreted on the model, and the
    interleavings of coroutines. \<open>Workflow_Validation\<close> (\<open>validation.py\<close>), \<open>Views\<close> (\<open>views.py\<close>),
    \<open>Public_Errors\<close> (\<open>core/errors.py\<close>, \<open>api/handlers.py\<close>).
  \<^item> \<open>Coordinator\<close> (\<open>coordinator.py\<close>): every handler as a tree of store calls. \<open>Coordinator_System\<close>: the
    system of one store and any number of coroutines, which may be cancelled at any call, and the locale of
    invariants of stored runs. \<open>Coordinator_Logic\<close>: since a version is used once, a handler mutates exactly
    the record it holds, so a change has to be justified for that record only. \<open>Coordinator_Meaning\<close> and
    \<open>Coordinator_Evidence\<close> interpret both locales: artifacts follow the stages, are chained by their digests,
    waits are proper, and the artifacts of a run belong together.
  \<^item> \<open>Synthesis\<close> (\<open>features/fuzzing/synthesis.py\<close>, \<open>constants.py\<close>) and \<open>Synthesis_Meaning\<close>: the search for facts
    that meet a list of predicates, and that it decides them; the sum of two amounts is searched by probes at the
    ends of intervals, one more than there are excluded values. \<open>Canonicalization\<close> (\<open>canonicalize.py\<close>) and
    \<open>Canonicalization_Meaning\<close>: validation, merging and greedy selection of candidates, the value of each step
    on valid candidates and the account of rejections. \<open>Coverage_Planning\<close> (\<open>coverage.py\<close>),
    \<open>Exploration\<close> (\<open>exploratory.py\<close>; the call of the model and the decoder of its output are arguments).
    \<open>Planner\<close> (\<open>planner.py\<close>): its state, the two generation calls and the assembly of suites.
    \<open>Mechanical_Meaning\<close>: every rule and invariant that can apply has a candidate in which it does.
    \<open>Planner_Meaning\<close>: the counters of a planner and when the coordinator accepts its suites, stated in
    \<open>Planning_Properties\<close>.
  \<^item> \<open>Cache_Replay\<close> (\<open>validate_cached_record\<close> of \<open>workflow/validation.py\<close>, \<open>workflow/cache_replay.py\<close>, the
    cached branch of \<open>create_run\<close>): a recorded run is read artifact by artifact with the state the loop keeps,
    rebased to a new session and validated again; the loader is an argument. \<open>Replay_Meaning\<close>: an invariant of
    the reading, from which every accepted artifact is grounded in earlier ones, and one of the rebasing, from
    which the copy has the same evidence and the same graph; stated in \<open>Replay_Properties\<close>.
  \<^item> \<open>Examples\<close>, \<open>Revision_Example\<close>: the concrete inputs of the witnesses. \<open>Evaluation_Properties\<close>,
    \<open>Revision_Properties\<close>, \<open>Workflow_Properties\<close>, \<open>Coordinator_Properties\<close>: the properties of the
    program, each a few steps over the lemmas above.

  Bounds and fuel. The depth-first searches and the augmenting paths are total functions with termination
  proofs (the set of unvisited nodes shrinks), so no fuel is used anywhere. Limits such as twelve rules, fifteen scenarios,
  three operations, or one hour of lifetime are those of the validators.

  Not modelled, and why.
  \<^item> Code points above 255 and Unicode normalisation; text the model classes generate for failed field
    constraints (the model carries the name of the class instead).
  \<^item> The bookkeeping of asyncio tasks (\<open>task_runner.py\<close>): it decides only which coroutine is cancelled,
    and the model lets any coroutine be cancelled at any call.
  \<^item> Command lines, configuration, HTTP routing and the model client: input and output around the operations
    modelled here.
  \<^item> The second version of the service (\<open>v2/\<close>), the stand-alone prototype (\<open>src/engine/\<close>) and the release
    scripts, apart from what the list above names: they drive subprocesses, language models and files.
  \<^item> The compilation of policies (\<open>features/policy/\<close>) and the comparison with gold policies
    (\<open>gold_assessment.py\<close>): a stage of the coordinator is
    any function of its request, so its theorems hold whatever these return.
\<close>

end
